(* ===== verification/Prelude.thy ===== *)
theory Prelude
  imports Main "HOL-Library.AList" "HOL-Library.Char_ord" "HOL-Library.List_Lexorder"
begin

text \<open>
  The parts of Python every component of the stack relies on, and the automation the
  component theories share.

  \<^item> Strings: Python \<open>str\<close> values are lists of characters. The functions below are
    Python's on ASCII text; a character with code 128 or more stands for some character
    outside ASCII, which has no case and is no digit; 133 and 160 are the two that are white space,
    and 133 ends a line.
  \<^item> Values: \<open>pyval\<close> is what \<open>json.loads\<close>, the XRPL binary codec and the JSON-RPC client
    hand to the code (numbers with a fraction are left out: none of those sources produces
    one for a field the code reads). Truth value, equality (\<open>True == 1\<close>, dictionaries
    without regard to order), \<open>str\<close>, \<open>repr\<close> and \<open>int\<close> are Python's.
  \<^item> Errors: \<open>exn\<close> lists the exception classes the code raises or catches; a pure function
    that may raise has type \<open>exn + 'a\<close>.
  \<^item> Effects: a command takes a state and gives an outcome and a new state; \<open>Diverge\<close> is a
    call that has not returned within its fuel, which no \<open>except\<close> clause sees.
    \<open>wp\<close> is its weakest precondition, \<open>keeps\<close> a frame property.
\<close>

named_theorems wp_simps \<open>weakest preconditions of the command combinators\<close>
named_theorems keeps_rules \<open>frame rules: a command leaves a projection of the state alone\<close>
named_theorems run_simps \<open>runs of a command that end with a value\<close>
named_theorems emits_rules \<open>what a command appends to a log of the state\<close>
named_theorems returns_rules \<open>commands that always return or raise\<close>
named_theorems advances_rules \<open>commands under which a quantity of the state never decreases\<close>
named_theorems res_simps \<open>success of a computation in the error sum, step by step\<close>


section \<open>Strings\<close>

definition ord_c :: "char \<Rightarrow> nat" where
  "ord_c c = of_char c"

definition is_space :: "char \<Rightarrow> bool" where
  "is_space c \<longleftrightarrow> (9 \<le> ord_c c \<and> ord_c c \<le> 13) \<or> (28 \<le> ord_c c \<and> ord_c c \<le> 32) \<or> ord_c c = 133 \<or> ord_c c = 160"

definition is_digit :: "char \<Rightarrow> bool" where
  "is_digit c \<longleftrightarrow> 48 \<le> ord_c c \<and> ord_c c \<le> 57"

definition is_ascii :: "char \<Rightarrow> bool" where
  "is_ascii c \<longleftrightarrow> ord_c c < 128"

definition upper_c :: "char \<Rightarrow> char" where
  "upper_c c = (if 97 \<le> ord_c c \<and> ord_c c \<le> 122 then char_of (ord_c c - 32) else c)"

definition lower_c :: "char \<Rightarrow> char" where
  "lower_c c = (if 65 \<le> ord_c c \<and> ord_c c \<le> 90 then char_of (ord_c c + 32) else c)"

definition upper :: "string \<Rightarrow> string" where
  "upper s = map upper_c s"

definition lower :: "string \<Rightarrow> string" where
  "lower s = map lower_c s"

definition rstrip_by :: "(char \<Rightarrow> bool) \<Rightarrow> string \<Rightarrow> string" where
  "rstrip_by p s = rev (dropWhile p (rev s))"

definition strip :: "string \<Rightarrow> string" where
  "strip s = rstrip_by is_space (dropWhile is_space s)"

definition isdigit :: "string \<Rightarrow> bool" where
  "isdigit s \<longleftrightarrow> s \<noteq> [] \<and> list_all is_digit s"

definition ljust :: "nat \<Rightarrow> char \<Rightarrow> string \<Rightarrow> string" where
  "ljust n c s = s @ replicate (n - length s) c"

fun split_on :: "char \<Rightarrow> string \<Rightarrow> string list" where
  "split_on c [] = [[]]"
| "split_on c (x # xs) =
     (if x = c then [] # split_on c xs
      else (case split_on c xs of [] \<Rightarrow> [[x]] | w # ws \<Rightarrow> (x # w) # ws))"

definition partition_on :: "char \<Rightarrow> string \<Rightarrow> string \<times> string \<times> string" where
  "partition_on c s =
     (let a = takeWhile (\<lambda>x. x \<noteq> c) s in
      if length a < length s then (a, [c], drop (Suc (length a)) s) else (s, [], []))"

definition starts_with :: "string \<Rightarrow> string \<Rightarrow> bool" where
  "starts_with p s \<longleftrightarrow> take (length p) s = p"

fun join :: "string \<Rightarrow> string list \<Rightarrow> string" where
  "join sep [] = []"
| "join sep [x] = x"
| "join sep (x # y # xs) = x @ sep @ join sep (y # xs)"


subsection \<open>Numerals in strings\<close>

definition digit_val :: "char \<Rightarrow> nat" where
  "digit_val c = ord_c c - 48"

definition digit_char :: "nat \<Rightarrow> char" where
  "digit_char d = char_of (48 + d)"

definition digits_val :: "string \<Rightarrow> nat" where
  "digits_val s = foldl (\<lambda>a c. 10 * a + digit_val c) 0 s"

fun show_nat :: "nat \<Rightarrow> string" where
  "show_nat n = (if n < 10 then [digit_char n] else show_nat (n div 10) @ [digit_char (n mod 10)])"

declare show_nat.simps [simp del]

definition show_int :: "int \<Rightarrow> string" where
  "show_int i = (if i < 0 then CHR ''-'' # show_nat (nat (- i)) else show_nat (nat i))"

text \<open>The numeral that \<open>int(s)\<close> reads: digits, with single underscores between them, at most
  4300 digits (CPython's limit since 3.11).\<close>

fun underscored :: "bool \<Rightarrow> string \<Rightarrow> bool" where
  "underscored prev [] = prev"
| "underscored prev (c # cs) =
     (if is_digit c then underscored True cs
      else if c = CHR ''_'' then prev \<and> underscored False cs
      else False)"

definition split_sign :: "string \<Rightarrow> bool \<times> string" where
  "split_sign s = (case s of
       [] \<Rightarrow> (False, [])
     | c # cs \<Rightarrow> if c = CHR ''-'' then (True, cs) else if c = CHR ''+'' then (False, cs) else (False, s))"

definition parse_int :: "string \<Rightarrow> int option" where
  "parse_int s =
     (let (neg, t) = split_sign (strip s); ds = filter is_digit t in
      if underscored False t \<and> length ds \<le> 4300
      then Some (if neg then - int (digits_val ds) else int (digits_val ds)) else None)"


section \<open>Values\<close>

datatype pyval =
    PNone
  | PBool bool
  | PInt int
  | PStr string
  | PList "pyval list"
  | PDict "(string \<times> pyval) list"

type_synonym pydict = "(string \<times> pyval) list"

text \<open>\<open>d.get(k)\<close> and \<open>d.get(k, v)\<close>.\<close>

definition dget_default :: "pydict \<Rightarrow> string \<Rightarrow> pyval \<Rightarrow> pyval" where
  "dget_default d k v = (case map_of d k of None \<Rightarrow> v | Some w \<Rightarrow> w)"

definition dget :: "pydict \<Rightarrow> string \<Rightarrow> pyval" where
  "dget d k = dget_default d k PNone"

abbreviation dset :: "string \<Rightarrow> pyval \<Rightarrow> pydict \<Rightarrow> pydict" where
  "dset \<equiv> AList.update"

abbreviation dpop :: "string \<Rightarrow> pydict \<Rightarrow> pydict" where
  "dpop \<equiv> AList.delete"

fun truthy :: "pyval \<Rightarrow> bool" where
  "truthy PNone = False"
| "truthy (PBool b) = b"
| "truthy (PInt i) = (i \<noteq> 0)"
| "truthy (PStr s) = (s \<noteq> [])"
| "truthy (PList xs) = (xs \<noteq> [])"
| "truthy (PDict d) = (d \<noteq> [])"

definition py_or :: "pyval \<Rightarrow> pyval \<Rightarrow> pyval" where
  "py_or a b = (if truthy a then a else b)"

text \<open>\<open>isinstance(v, int)\<close> holds of a boolean too, and \<open>True == 1\<close>.\<close>

fun as_int :: "pyval \<Rightarrow> int option" where
  "as_int (PInt i) = Some i"
| "as_int (PBool b) = Some (if b then 1 else 0)"
| "as_int _ = None"

definition is_int :: "pyval \<Rightarrow> bool" where
  "is_int v \<longleftrightarrow> as_int v \<noteq> None"

fun as_str :: "pyval \<Rightarrow> string option" where
  "as_str (PStr s) = Some s"
| "as_str _ = None"

fun as_dict :: "pyval \<Rightarrow> pydict option" where
  "as_dict (PDict d) = Some d"
| "as_dict _ = None"

fun as_list :: "pyval \<Rightarrow> pyval list option" where
  "as_list (PList xs) = Some xs"
| "as_list _ = None"

text \<open>\<open>d or {}\<close> for an optional dictionary field.\<close>

definition dict_or_empty :: "pydict option \<Rightarrow> pydict" where
  "dict_or_empty d = (case d of None \<Rightarrow> [] | Some d \<Rightarrow> d)"

fun py_eq :: "pyval \<Rightarrow> pyval \<Rightarrow> bool"
  and py_eqs :: "pyval list \<Rightarrow> pyval list \<Rightarrow> bool"
  and py_sub :: "(string \<times> pyval) list \<Rightarrow> (string \<times> pyval) list \<Rightarrow> bool" where
  "py_eq PNone b = (b = PNone)"
| "py_eq (PBool p) b = (as_int b = Some (if p then 1 else 0))"
| "py_eq (PInt i) b = (as_int b = Some i)"
| "py_eq (PStr s) b = (b = PStr s)"
| "py_eq (PList xs) b = (case b of PList ys \<Rightarrow> py_eqs xs ys | _ \<Rightarrow> False)"
| "py_eq (PDict d) b = (case b of PDict e \<Rightarrow> length d = length e \<and> py_sub d e | _ \<Rightarrow> False)"
| "py_eqs [] ys = (ys = [])"
| "py_eqs (x # xs) ys = (case ys of [] \<Rightarrow> False | y # ys' \<Rightarrow> py_eq x y \<and> py_eqs xs ys')"
| "py_sub [] e = True"
| "py_sub (kv # d) e =
     (case map_of e (fst kv) of None \<Rightarrow> False | Some w \<Rightarrow> py_eq (snd kv) w \<and> py_sub d e)"

text \<open>\<open>repr\<close> of a string: quotes and the escapes of non-printable characters.\<close>

definition hex_digit :: "nat \<Rightarrow> char" where
  "hex_digit d = (if d < 10 then char_of (48 + d) else char_of (87 + d))"

definition repr_char :: "char \<Rightarrow> char \<Rightarrow> string" where
  "repr_char q c =
     (if c = q \<or> c = CHR 0x5C then [CHR 0x5C, c]
      else if ord_c c = 10 then [CHR 0x5C, CHR ''n'']
      else if ord_c c = 13 then [CHR 0x5C, CHR ''r'']
      else if ord_c c = 9 then [CHR 0x5C, CHR ''t'']
      else if ord_c c < 32 \<or> ord_c c = 127
        then [CHR 0x5C, CHR ''x'', hex_digit (ord_c c div 16), hex_digit (ord_c c mod 16)]
      else [c])"

definition repr_str :: "string \<Rightarrow> string" where
  "repr_str s =
     (let q = (if CHR 0x27 \<in> set s \<and> CHR 0x22 \<notin> set s then CHR 0x22 else CHR 0x27)
      in [q] @ concat (map (repr_char q) s) @ [q])"

fun py_repr :: "pyval \<Rightarrow> string"
  and py_reprs :: "pyval list \<Rightarrow> string list"
  and py_repr_items :: "(string \<times> pyval) list \<Rightarrow> string list" where
  "py_repr PNone = ''None''"
| "py_repr (PBool b) = (if b then ''True'' else ''False'')"
| "py_repr (PInt i) = show_int i"
| "py_repr (PStr s) = repr_str s"
| "py_repr (PList xs) = ''['' @ join '', '' (py_reprs xs) @ '']''"
| "py_repr (PDict d) = ''{'' @ join '', '' (py_repr_items d) @ ''}''"
| "py_reprs [] = []"
| "py_reprs (x # xs) = py_repr x # py_reprs xs"
| "py_repr_items [] = []"
| "py_repr_items (kv # d) = (repr_str (fst kv) @ '': '' @ py_repr (snd kv)) # py_repr_items d"

definition py_str :: "pyval \<Rightarrow> string" where
  "py_str v = (case v of PStr s \<Rightarrow> s | _ \<Rightarrow> py_repr v)"


section \<open>Exceptions\<close>

text \<open>\<open>ClientError\<close> is any exception a third-party client (XRPL JSON-RPC, codec, signature
  library) raises; \<open>ValidationError\<close> is pydantic's, whose text is cut down to the offending
  field.\<close>

datatype exn =
    ValueError string
  | ValidationError string
  | UnicodeError
  | InvalidOperation
  | TypeError string
  | AttributeError string
  | KeyError string
  | RuntimeError string
  | PaymentVerificationError string "string option" "string option"
  | HTTPException int string
  | RateLimitExceeded string
  | GatewayAuthenticationError string
  | PayloadTooLargeError
  | ClientError string
  | OSError string
  | AssertionError string
  | FundingError string
  | LiquidityUnavailableError string
  | SpendLimitExceededError string
  | SettlementPendingError string
  | RLUSDMintRateLimitedError string
  | RLUSDMintRequestError string

text \<open>\<open>isinstance(e, ValueError)\<close>.\<close>

fun is_value_error :: "exn \<Rightarrow> bool" where
  "is_value_error (ValueError _) = True"
| "is_value_error (ValidationError _) = True"
| "is_value_error UnicodeError = True"
| "is_value_error (PaymentVerificationError _ _ _) = True"
| "is_value_error _ = False"

fun str_exn :: "exn \<Rightarrow> string" where
  "str_exn (ValueError m) = m"
| "str_exn (ValidationError m) = m"
| "str_exn UnicodeError = ''codec error''"
| "str_exn InvalidOperation = ''[<class 'decimal.ConversionSyntax'>]''"
| "str_exn (TypeError m) = m"
| "str_exn (AttributeError m) = m"
| "str_exn (KeyError m) = repr_str m"
| "str_exn (RuntimeError m) = m"
| "str_exn (PaymentVerificationError r m p) = (case m of Some (c # cs) \<Rightarrow> c # cs | _ \<Rightarrow> r)"
| "str_exn (HTTPException n m) = show_int n @ '': '' @ m"
| "str_exn (RateLimitExceeded m) = m"
| "str_exn (GatewayAuthenticationError m) = m"
| "str_exn PayloadTooLargeError = []"
| "str_exn (ClientError m) = m"
| "str_exn (OSError m) = m"
| "str_exn (AssertionError m) = m"
| "str_exn (FundingError m) = m"
| "str_exn (LiquidityUnavailableError m) = m"
| "str_exn (SpendLimitExceededError m) = m"
| "str_exn (SettlementPendingError m) = m"
| "str_exn (RLUSDMintRateLimitedError m) = m"
| "str_exn (RLUSDMintRequestError m) = m"

definition rbind :: "exn + 'a \<Rightarrow> ('a \<Rightarrow> exn + 'b) \<Rightarrow> exn + 'b" where
  "rbind r f = (case r of Inl e \<Rightarrow> Inl e | Inr x \<Rightarrow> f x)"

definition guard :: "bool \<Rightarrow> exn \<Rightarrow> exn + unit" where
  "guard ok e = (if ok then Inr () else Inl e)"

text \<open>\<open>secrets.compare_digest\<close> on two \<open>str\<close> values, and the slice \<open>xs[a:b]\<close>.\<close>

definition compare_digest :: "string \<Rightarrow> string \<Rightarrow> exn + bool" where
  "compare_digest a b =
     (if list_all is_ascii a \<and> list_all is_ascii b then Inr (a = b)
      else Inl (TypeError ''comparing strings with non-ASCII characters is not supported''))"

definition slice_index :: "nat \<Rightarrow> int \<Rightarrow> nat" where
  "slice_index n i = min n (nat (if i < 0 then int n + i else i))"

definition py_slice :: "'a list \<Rightarrow> int \<Rightarrow> int \<Rightarrow> 'a list" where
  "py_slice xs a b = take (slice_index (length xs) b - slice_index (length xs) a) (drop (slice_index (length xs) a) xs)"

text \<open>Comprehensions whose condition or element may raise.\<close>

fun filter_exn :: "('a \<Rightarrow> exn + bool) \<Rightarrow> 'a list \<Rightarrow> exn + 'a list" where
  "filter_exn p [] = Inr []"
| "filter_exn p (x # xs) =
     rbind (p x) (\<lambda>b. rbind (filter_exn p xs) (\<lambda>ys. Inr (if b then x # ys else ys)))"

fun map_exn :: "('a \<Rightarrow> exn + 'b) \<Rightarrow> 'a list \<Rightarrow> exn + 'b list" where
  "map_exn f [] = Inr []"
| "map_exn f (x # xs) = rbind (f x) (\<lambda>y. rbind (map_exn f xs) (\<lambda>ys. Inr (y # ys)))"

text \<open>\<open>d[k]\<close>, \<open>v.get(k)\<close> and \<open>int(v)\<close>.\<close>

definition dindex :: "pydict \<Rightarrow> string \<Rightarrow> exn + pyval" where
  "dindex d k = (case map_of d k of None \<Rightarrow> Inl (KeyError k) | Some v \<Rightarrow> Inr v)"

definition vindex :: "pyval \<Rightarrow> string \<Rightarrow> exn + pyval" where
  "vindex v k = (case v of PDict d \<Rightarrow> dindex d k | _ \<Rightarrow> Inl (TypeError ''indices''))"

definition vget :: "pyval \<Rightarrow> string \<Rightarrow> exn + pyval" where
  "vget v k = (case v of PDict d \<Rightarrow> Inr (dget d k) | _ \<Rightarrow> Inl (AttributeError ''get''))"

definition int_of_str :: "string \<Rightarrow> exn + int" where
  "int_of_str s = (case parse_int s of
       None \<Rightarrow> Inl (ValueError (''invalid literal for int() with base 10: '' @ repr_str s))
     | Some i \<Rightarrow> Inr i)"

fun py_int :: "pyval \<Rightarrow> exn + int" where
  "py_int (PInt i) = Inr i"
| "py_int (PBool b) = Inr (if b then 1 else 0)"
| "py_int (PStr s) = int_of_str s"
| "py_int _ = Inl (TypeError ''int() argument'')"


section \<open>Commands\<close>

datatype 'a outcome = Ok 'a | Raise exn | Diverge

type_synonym ('s, 'a) cmd = "'s \<Rightarrow> 'a outcome \<times> 's"

definition creturn :: "'a \<Rightarrow> ('s, 'a) cmd" where
  "creturn x = (\<lambda>s. (Ok x, s))"

definition craise :: "exn \<Rightarrow> ('s, 'a) cmd" where
  "craise e = (\<lambda>s. (Raise e, s))"

definition cdiverge :: "('s, 'a) cmd" where
  "cdiverge = (\<lambda>s. (Diverge, s))"

definition cbind :: "('s, 'a) cmd \<Rightarrow> ('a \<Rightarrow> ('s, 'b) cmd) \<Rightarrow> ('s, 'b) cmd" where
  "cbind m f = (\<lambda>s. case m s of
       (Ok x, s') \<Rightarrow> f x s'
     | (Raise e, s') \<Rightarrow> (Raise e, s')
     | (Diverge, s') \<Rightarrow> (Diverge, s'))"

text \<open>\<open>try: m except Exception as e: h(e)\<close>.\<close>

definition ctry :: "('s, 'a) cmd \<Rightarrow> (exn \<Rightarrow> ('s, 'a) cmd) \<Rightarrow> ('s, 'a) cmd" where
  "ctry m h = (\<lambda>s. case m s of (Raise e, s') \<Rightarrow> h e s' | r \<Rightarrow> r)"

text \<open>\<open>try: m except Exception as e: h(e) else: f\<close>; the handler does not cover \<open>f\<close>.\<close>

definition ctry_else ::
  "('s, 'a) cmd \<Rightarrow> (exn \<Rightarrow> ('s, 'b) cmd) \<Rightarrow> ('a \<Rightarrow> ('s, 'b) cmd) \<Rightarrow> ('s, 'b) cmd" where
  "ctry_else m h f = (\<lambda>s. case m s of
       (Ok x, s') \<Rightarrow> f x s'
     | (Raise e, s') \<Rightarrow> h e s'
     | (Diverge, s') \<Rightarrow> (Diverge, s'))"

definition clift :: "exn + 'a \<Rightarrow> ('s, 'a) cmd" where
  "clift r = (case r of Inl e \<Rightarrow> craise e | Inr x \<Rightarrow> creturn x)"

definition cget :: "('s \<Rightarrow> 'a) \<Rightarrow> ('s, 'a) cmd" where
  "cget f = (\<lambda>s. (Ok (f s), s))"

definition cmodify :: "('s \<Rightarrow> 's) \<Rightarrow> ('s, unit) cmd" where
  "cmodify f = (\<lambda>s. (Ok (), f s))"

definition wp :: "('s, 'a) cmd \<Rightarrow> ('a outcome \<Rightarrow> 's \<Rightarrow> bool) \<Rightarrow> 's \<Rightarrow> bool" where
  "wp m Q s \<longleftrightarrow> (case m s of (r, s') \<Rightarrow> Q r s')"

definition emits :: "('s \<Rightarrow> 'e list) \<Rightarrow> ('e \<Rightarrow> bool) \<Rightarrow> ('s, 'a) cmd \<Rightarrow> bool" where
  "emits g P m \<longleftrightarrow> (\<forall>s. \<exists>l. g (snd (m s)) = g s @ l \<and> list_all P l)"

definition returns :: "('s, 'a) cmd \<Rightarrow> bool" where
  "returns m \<longleftrightarrow> (\<forall>s. fst (m s) \<noteq> Diverge)"

definition advances :: "('s \<Rightarrow> 'b :: preorder) \<Rightarrow> ('s, 'a) cmd \<Rightarrow> bool" where
  "advances g m \<longleftrightarrow> (\<forall>s. g s \<le> g (snd (m s)))"

definition keeps :: "('s \<Rightarrow> 'b) \<Rightarrow> ('s, 'a) cmd \<Rightarrow> bool" where
  "keeps f m \<longleftrightarrow> (\<forall>s. f (snd (m s)) = f s)"


section \<open>Lemmas shared by the components\<close>

lemma char_of_ord_c [simp]: "char_of (ord_c c) = c"
  by (simp add: ord_c_def)

lemma py_slice_nonneg: "0 \<le> a \<Longrightarrow> 0 \<le> n \<Longrightarrow> py_slice xs a (a + n) = take (nat n) (drop (nat a) xs)"
  by (auto simp: py_slice_def slice_index_def nat_add_distrib min_def)

subsection \<open>The error sum\<close>

lemma rbind_Inr [simp]: "rbind (Inr x) f = f x"
  by (simp add: rbind_def)

lemma rbind_Inl [simp]: "rbind (Inl e) f = Inl e"
  by (simp add: rbind_def)

lemma rbind_eq_Inr [res_simps]: "rbind r f = Inr y \<longleftrightarrow> (\<exists>x. r = Inr x \<and> f x = Inr y)"
  by (cases r) simp_all

lemma rbind_eq_Inl: "rbind r f = Inl e \<longleftrightarrow> r = Inl e \<or> (\<exists>x. r = Inr x \<and> f x = Inl e)"
  by (cases r) auto

lemma guard_eq_Inr [simp, res_simps]: "guard ok e = Inr u \<longleftrightarrow> ok"
  by (simp add: guard_def)

lemma guard_eq_Inl [simp]: "guard ok e = Inl e' \<longleftrightarrow> \<not> ok \<and> e' = e"
  by (auto simp: guard_def)

lemma guard_True [simp]: "guard True e = Inr ()"
  by (simp add: guard_def)

lemma guard_False [simp]: "guard False e = Inl e"
  by (simp add: guard_def)

lemma as_eq_Some [simp]:
  "as_dict v = Some d \<longleftrightarrow> v = PDict d" "as_list v = Some xs \<longleftrightarrow> v = PList xs" "as_str v = Some s \<longleftrightarrow> v = PStr s"
  by (cases v; simp)+

lemma vindex_eq_Inr [res_simps]: "vindex v k = Inr w \<longleftrightarrow> (\<exists>d. v = PDict d \<and> map_of d k = Some w)"
  by (auto simp: vindex_def dindex_def split: pyval.splits option.splits)

lemma vget_eq_Inr [res_simps]: "vget v k = Inr w \<longleftrightarrow> (\<exists>d. v = PDict d \<and> w = dget d k)"
  by (auto simp: vget_def split: pyval.splits)

lemma dindex_eq_Inr [res_simps]: "dindex d k = Inr v \<longleftrightarrow> map_of d k = Some v"
  by (simp add: dindex_def split: option.splits)

lemma filter_exn_set: "filter_exn p xs = Inr ys \<Longrightarrow> set ys = {x \<in> set xs. p x = Inr True}"
  by (induction xs arbitrary: ys) (auto simp: rbind_eq_Inr split: if_splits)

lemma if_Inl_eq_Inr [res_simps]: "(if c then Inl e else r) = Inr x \<longleftrightarrow> \<not> c \<and> r = Inr x"
  by simp

lemma dget_eq: "dget d k = (case map_of d k of None \<Rightarrow> PNone | Some v \<Rightarrow> v)"
  by (simp add: dget_def dget_default_def)

lemma dget_not_None: "dget d k \<noteq> PNone \<Longrightarrow> map_of d k = Some (dget d k)"
  by (simp add: dget_eq split: option.splits)

lemma map_of_dset: "map_of (dset k v d) k' = (if k' = k then Some v else map_of d k')"
  by (simp add: update_conv')

lemma map_of_dpop: "map_of (dpop k d) k' = (if k' = k then None else map_of d k')"
  by (simp add: delete_conv')

lemma dget_dset [simp]: "dget (dset k v d) k' = (if k' = k then v else dget d k')"
  by (simp add: dget_eq map_of_dset)

lemma dget_dpop [simp]: "dget (dpop k d) k' = (if k' = k then PNone else dget d k')"
  by (simp add: dget_eq map_of_dpop)

lemma dget_Nil [simp]: "dget [] k = PNone"
  by (simp add: dget_eq)

lemma dget_Cons [simp]: "dget ((k, v) # d) k' = (if k' = k then v else dget d k')"
  by (simp add: dget_eq)


subsection \<open>Commands\<close>

lemma wp_creturn [wp_simps]: "wp (creturn x) Q s = Q (Ok x) s"
  by (simp add: wp_def creturn_def)

lemma wp_craise [wp_simps]: "wp (craise e) Q s = Q (Raise e) s"
  by (simp add: wp_def craise_def)

lemma wp_cdiverge [wp_simps]: "wp cdiverge Q s = Q Diverge s"
  by (simp add: wp_def cdiverge_def)

lemma wp_cbind [wp_simps]:
  "wp (cbind m f) Q s =
     wp m (\<lambda>r s'. case r of Ok x \<Rightarrow> wp (f x) Q s' | Raise e \<Rightarrow> Q (Raise e) s' | Diverge \<Rightarrow> Q Diverge s') s"
  by (simp add: wp_def cbind_def split: prod.splits outcome.splits)

lemma wp_ctry [wp_simps]:
  "wp (ctry m h) Q s =
     wp m (\<lambda>r s'. case r of Ok x \<Rightarrow> Q (Ok x) s' | Raise e \<Rightarrow> wp (h e) Q s' | Diverge \<Rightarrow> Q Diverge s') s"
  by (simp add: wp_def ctry_def split: prod.splits outcome.splits)

lemma wp_ctry_else [wp_simps]:
  "wp (ctry_else m h f) Q s =
     wp m (\<lambda>r s'. case r of Ok x \<Rightarrow> wp (f x) Q s' | Raise e \<Rightarrow> wp (h e) Q s' | Diverge \<Rightarrow> Q Diverge s') s"
  by (simp add: wp_def ctry_else_def split: prod.splits outcome.splits)

lemma wp_clift [wp_simps]:
  "wp (clift r) Q s = (case r of Inl e \<Rightarrow> Q (Raise e) s | Inr x \<Rightarrow> Q (Ok x) s)"
  by (simp add: clift_def wp_creturn wp_craise split: sum.splits)

lemma wp_cget [wp_simps]: "wp (cget f) Q s = Q (Ok (f s)) s"
  by (simp add: wp_def cget_def)

lemma wp_cmodify [wp_simps]: "wp (cmodify f) Q s = Q (Ok ()) (f s)"
  by (simp add: wp_def cmodify_def)

lemma wp_if [wp_simps]: "wp (if b then m else n) Q s = (if b then wp m Q s else wp n Q s)"
  by simp

lemma wp_conseq: "wp m Q s \<Longrightarrow> (\<And>r s'. Q r s' \<Longrightarrow> R r s') \<Longrightarrow> wp m R s"
  by (auto simp: wp_def split: prod.splits)

lemma wp_conj: "wp m (\<lambda>r s'. Q r s' \<and> R r s') s \<longleftrightarrow> wp m Q s \<and> wp m R s"
  by (auto simp: wp_def split: prod.splits)

lemma wp_True [simp]: "wp m (\<lambda>r s'. True) s"
  by (simp add: wp_def split: prod.splits)

lemma wpD: "wp m Q s \<Longrightarrow> m s = (r, s') \<Longrightarrow> Q r s'"
  by (simp add: wp_def)

lemma wpI: "(\<And>r s'. m s = (r, s') \<Longrightarrow> Q r s') \<Longrightarrow> wp m Q s"
  by (simp add: wp_def split: prod.splits)

lemma keepsI: "(\<And>s. f (snd (m s)) = f s) \<Longrightarrow> keeps f m"
  by (simp add: keeps_def)

lemma keepsD: "keeps f m \<Longrightarrow> m s = (r, s') \<Longrightarrow> f s' = f s"
  by (metis keeps_def snd_conv)

lemma keeps_wp: "keeps f m \<Longrightarrow> wp m (\<lambda>r s'. f s' = f s) s"
  by (simp add: keeps_def wp_def split: prod.splits) (metis snd_conv)

lemma keeps_creturn [keeps_rules]: "keeps f (creturn x)"
  by (simp add: keeps_def creturn_def)

lemma keeps_craise [keeps_rules]: "keeps f (craise e)"
  by (simp add: keeps_def craise_def)

lemma keeps_cdiverge [keeps_rules]: "keeps f cdiverge"
  by (simp add: keeps_def cdiverge_def)

lemma keeps_clift [keeps_rules]: "keeps f (clift r)"
  by (simp add: clift_def keeps_creturn keeps_craise split: sum.splits)

lemma keeps_cget [keeps_rules]: "keeps f (cget g)"
  by (simp add: keeps_def cget_def)

lemma keeps_cbind [keeps_rules]: "keeps f m \<Longrightarrow> (\<And>x. keeps f (g x)) \<Longrightarrow> keeps f (cbind m g)"
  by (simp add: keeps_def cbind_def split: prod.splits outcome.splits) (metis snd_conv)

lemma keeps_ctry [keeps_rules]: "keeps f m \<Longrightarrow> (\<And>e. keeps f (h e)) \<Longrightarrow> keeps f (ctry m h)"
  by (simp add: keeps_def ctry_def split: prod.splits outcome.splits) (metis snd_conv)

lemma keeps_ctry_else [keeps_rules]:
  "keeps f m \<Longrightarrow> (\<And>e. keeps f (h e)) \<Longrightarrow> (\<And>x. keeps f (g x)) \<Longrightarrow> keeps f (ctry_else m h g)"
  by (simp add: keeps_def ctry_else_def split: prod.splits outcome.splits) (metis snd_conv)

lemma keeps_if [keeps_rules]: "keeps f m \<Longrightarrow> keeps f n \<Longrightarrow> keeps f (if b then m else n)"
  by simp

lemma keeps_case_option [keeps_rules]:
  "keeps f m \<Longrightarrow> (\<And>x. keeps f (n x)) \<Longrightarrow> keeps f (case v of None \<Rightarrow> m | Some x \<Rightarrow> n x)"
  by (simp split: option.splits)

subsection \<open>Runs that end with a value\<close>

lemma cbind_Ok [run_simps]: "cbind m f s = (Ok y, s') \<longleftrightarrow> (\<exists>x s1. m s = (Ok x, s1) \<and> f x s1 = (Ok y, s'))"
  by (auto simp: cbind_def split: prod.splits outcome.splits)

lemma ctry_Ok [run_simps]:
  "ctry m h s = (Ok y, s') \<longleftrightarrow> m s = (Ok y, s') \<or> (\<exists>e s1. m s = (Raise e, s1) \<and> h e s1 = (Ok y, s'))"
  by (auto simp: ctry_def split: prod.splits outcome.splits)

lemma ctry_else_Ok [run_simps]:
  "ctry_else m h f s = (Ok y, s') \<longleftrightarrow>
     (\<exists>x s1. m s = (Ok x, s1) \<and> f x s1 = (Ok y, s')) \<or> (\<exists>e s1. m s = (Raise e, s1) \<and> h e s1 = (Ok y, s'))"
  by (auto simp: ctry_else_def split: prod.splits outcome.splits)

lemma creturn_Ok [run_simps]: "creturn x s = (Ok y, s') \<longleftrightarrow> y = x \<and> s' = s"
  by (auto simp: creturn_def)

lemma craise_Ok [run_simps]: "craise e s = (Ok y, s') \<longleftrightarrow> False"
  by (simp add: craise_def)

lemma cdiverge_Ok [run_simps]: "cdiverge s = (Ok y, s') \<longleftrightarrow> False"
  by (simp add: cdiverge_def)

lemma clift_Ok [run_simps]: "clift r s = (Ok y, s') \<longleftrightarrow> r = Inr y \<and> s' = s"
  by (auto simp: clift_def creturn_def craise_def split: sum.splits)

lemma cget_Ok [run_simps]: "cget f s = (Ok y, s') \<longleftrightarrow> y = f s \<and> s' = s"
  by (auto simp: cget_def)


lemma case_craise_Ok [run_simps]:
  "(case v of None \<Rightarrow> craise e | Some x \<Rightarrow> f x) s = (Ok y, s') \<longleftrightarrow> (\<exists>x. v = Some x \<and> f x s = (Ok y, s'))"
  by (simp add: craise_def split: option.splits)

lemma if_craise_Ok [run_simps]:
  "(if c then craise e else m) s = (Ok y, s') \<longleftrightarrow> \<not> c \<and> m s = (Ok y, s')"
  "(if c then m else craise e) s = (Ok y, s') \<longleftrightarrow> c \<and> m s = (Ok y, s')"
  by (simp_all add: craise_def)


subsection \<open>Runs step by step\<close>

lemma cbind_cases:
  assumes "cbind m f s = (r, s')"
  obtains (returned) x s1 where "m s = (Ok x, s1)" "f x s1 = (r, s')"
  | (fails) "(\<exists>e. m s = (Raise e, s')) \<or> m s = (Diverge, s')" "\<And>v. r \<noteq> Ok v"
  using assms by (auto simp: cbind_def split: prod.splits outcome.splits)

lemma cbind_cget: "cbind (cget f) g s = g (f s) s"
  by (simp add: cbind_def cget_def)

lemma cbind_step: "m s = (Ok x, s1) \<Longrightarrow> cbind m f s = f x s1"
  by (simp add: cbind_def)

lemma cbind_clift: "cbind (clift (Inr x)) f = f x"
  by (simp add: fun_eq_iff cbind_def clift_def creturn_def)

lemma clift_cases:
  assumes "cbind (clift x) f s = (r, s')"
  obtains (returned) y where "x = Inr y" "f y s = (r, s')"
  | (fails) "s' = s" "\<And>v. r \<noteq> Ok v"
  using assms by (cases x) (auto simp: cbind_def clift_def craise_def creturn_def)

subsection \<open>Quantities that never decrease\<close>

lemma advances_leaf [advances_rules]:
  "advances g (creturn x)" "advances g (craise e)" "advances g cdiverge" "advances g (clift r)" "advances g (cget f)"
  by (simp_all add: advances_def creturn_def craise_def cdiverge_def clift_def cget_def split: sum.splits)

lemma advances_cbind [advances_rules]:
  assumes "advances g m" and "\<And>x. advances g (f x)"
  shows "advances g (cbind m f)"
  unfolding advances_def
proof
  fix s
  obtain r s1 where m: "m s = (r, s1)" by fastforce
  then have "g s \<le> g s1" using assms(1) by (metis advances_def snd_conv)
  then show "g s \<le> g (snd (cbind m f s))"
    using m assms(2) by (cases r) (auto simp: cbind_def advances_def intro: order_trans)
qed

lemma advances_if [advances_rules]: "advances g m \<Longrightarrow> advances g n \<Longrightarrow> advances g (if b then m else n)"
  by simp

lemma advances_case_option [advances_rules]:
  "advances g m \<Longrightarrow> (\<And>x. advances g (n x)) \<Longrightarrow> advances g (case v of None \<Rightarrow> m | Some x \<Rightarrow> n x)"
  by (simp split: option.splits)

lemma advances_case_prod [advances_rules]: "(\<And>x y. advances g (f x y)) \<Longrightarrow> advances g (case p of (x, y) \<Rightarrow> f x y)"
  by (simp split: prod.split)

lemma advancesD: "advances g m \<Longrightarrow> m s = (r, s') \<Longrightarrow> g s \<le> g s'"
  by (metis advances_def snd_conv)

subsection \<open>Logs\<close>

lemma emitsI_keeps: "keeps g m \<Longrightarrow> emits g P m"
  by (auto simp: keeps_def emits_def)

lemma emits_leaf [emits_rules]:
  "emits g P (creturn x)" "emits g P (craise e)" "emits g P cdiverge" "emits g P (clift r)" "emits g P (cget f)"
  by (simp_all add: emitsI_keeps keeps_rules)

lemma emitsD:
  assumes "emits g P m" and "m s = (r, s')"
  shows "\<exists>l. g s' = g s @ l \<and> list_all P l"
  using assms unfolding emits_def by (metis snd_conv)

lemma emits_mono: "emits g P m \<Longrightarrow> (\<And>x. P x \<Longrightarrow> Q x) \<Longrightarrow> emits g Q m"
  unfolding emits_def by (metis list.pred_mono_strong)

lemma emits_seq:
  assumes "emits g P m" and "\<And>r s1. m s = (r, s1) \<Longrightarrow> \<exists>l. g (snd (k s)) = g s1 @ l \<and> list_all P l"
  shows "\<exists>l. g (snd (k s)) = g s @ l \<and> list_all P l"
proof -
  obtain r s1 where "m s = (r, s1)" by fastforce
  with assms(1) assms(2) [OF this] obtain l l' where "g s1 = g s @ l" "list_all P l"
    "g (snd (k s)) = g s1 @ l'" "list_all P l'"
    using emitsD by metis
  then have "g (snd (k s)) = g s @ (l @ l')" "list_all P (l @ l')" by simp_all
  then show ?thesis by blast
qed

lemma emits_cbind [emits_rules]:
  assumes "emits g P m" and "\<And>x. emits g P (f x)"
  shows "emits g P (cbind m f)"
  unfolding emits_def
proof
  fix s
  show "\<exists>l. g (snd (cbind m f s)) = g s @ l \<and> list_all P l"
  proof (rule emits_seq [OF assms(1)])
    fix r s1 assume "m s = (r, s1)"
    then show "\<exists>l. g (snd (cbind m f s)) = g s1 @ l \<and> list_all P l"
      using assms(2) unfolding emits_def by (cases r) (simp_all add: cbind_def)
  qed
qed

lemma emits_ctry_else [emits_rules]:
  assumes "emits g P m" and "\<And>e. emits g P (h e)" and "\<And>x. emits g P (f x)"
  shows "emits g P (ctry_else m h f)"
  unfolding emits_def
proof
  fix s
  show "\<exists>l. g (snd (ctry_else m h f s)) = g s @ l \<and> list_all P l"
  proof (rule emits_seq [OF assms(1)])
    fix r s1 assume "m s = (r, s1)"
    then show "\<exists>l. g (snd (ctry_else m h f s)) = g s1 @ l \<and> list_all P l"
      using assms(2,3) unfolding emits_def by (cases r) (simp_all add: ctry_else_def)
  qed
qed

lemma ctry_conv: "ctry m h = ctry_else m h creturn"
  by (simp add: fun_eq_iff ctry_def ctry_else_def creturn_def split: prod.splits outcome.splits)

lemma advances_ctry_else [advances_rules]:
  assumes "advances g m" and "\<And>e. advances g (h e)" and "\<And>x. advances g (f x)"
  shows "advances g (ctry_else m h f)"
  unfolding advances_def
proof
  fix s
  obtain r s1 where m: "m s = (r, s1)" by fastforce
  then have "g s \<le> g s1" using assms(1) by (metis advances_def snd_conv)
  then show "g s \<le> g (snd (ctry_else m h f s))"
    using m assms(2,3) by (cases r) (auto simp: ctry_else_def advances_def intro: order_trans)
qed

lemma advances_ctry [advances_rules]: "advances g m \<Longrightarrow> (\<And>e. advances g (h e)) \<Longrightarrow> advances g (ctry m h)"
  by (simp add: ctry_conv advances_ctry_else advances_leaf)

lemma emits_ctry [emits_rules]: "emits g P m \<Longrightarrow> (\<And>e. emits g P (h e)) \<Longrightarrow> emits g P (ctry m h)"
  by (simp add: ctry_conv emits_ctry_else emits_leaf)

lemma emits_if [emits_rules]: "emits g P m \<Longrightarrow> emits g P n \<Longrightarrow> emits g P (if b then m else n)"
  by simp

lemma emits_case_option [emits_rules]:
  "emits g P m \<Longrightarrow> (\<And>x. emits g P (n x)) \<Longrightarrow> emits g P (case v of None \<Rightarrow> m | Some x \<Rightarrow> n x)"
  by (simp split: option.splits)

subsection \<open>Commands that end\<close>

lemma returns_leaf [returns_rules]:
  "returns (creturn x)" "returns (craise e)" "returns (clift r)" "returns (cget f)" "returns (cmodify h)"
  by (simp_all add: returns_def creturn_def craise_def clift_def cget_def cmodify_def split: sum.splits)

lemma returns_ctry_else [returns_rules]:
  "returns m \<Longrightarrow> (\<And>e. returns (h e)) \<Longrightarrow> (\<And>x. returns (f x)) \<Longrightarrow> returns (ctry_else m h f)"
  by (simp add: returns_def ctry_else_def split: prod.splits outcome.splits) (metis fst_conv)

lemma cbind_conv: "cbind m f = ctry_else m craise f"
  by (simp add: fun_eq_iff cbind_def ctry_else_def craise_def split: prod.splits outcome.splits)

lemma returns_cbind [returns_rules]: "returns m \<Longrightarrow> (\<And>x. returns (f x)) \<Longrightarrow> returns (cbind m f)"
  by (simp add: cbind_conv returns_ctry_else returns_leaf)

lemma returns_ctry [returns_rules]: "returns m \<Longrightarrow> (\<And>e. returns (h e)) \<Longrightarrow> returns (ctry m h)"
  by (simp add: ctry_conv returns_ctry_else returns_leaf)

lemma returns_if [returns_rules]: "returns m \<Longrightarrow> returns n \<Longrightarrow> returns (if b then m else n)"
  by simp

lemma returns_case_option [returns_rules]:
  "returns m \<Longrightarrow> (\<And>x. returns (n x)) \<Longrightarrow> returns (case v of None \<Rightarrow> m | Some x \<Rightarrow> n x)"
  by (simp split: option.splits)

lemma returns_cbind_value:
  "returns m \<Longrightarrow> (\<And>s x s'. m s = (Ok x, s') \<Longrightarrow> fst (f x s') \<noteq> Diverge) \<Longrightarrow> returns (cbind m f)"
  by (auto simp: returns_def cbind_def split: prod.splits outcome.splits) (metis fst_conv)

end
