(* ===== verification/Assets.thy ===== *)
theory Assets
  imports Prelude
begin

text \<open>
  \<open>xrpl_x402_core/assets.py\<close>: currency codes of the XRP Ledger (three characters, or 20 bytes
  written as 40 hexadecimal digits), the default pegged assets of each network, and the list
  of assets a facilitator accepts. Bytes are characters with codes 0 to 255.
\<close>

section \<open>Constants\<close>

abbreviation XRP_CODE :: string where "XRP_CODE \<equiv> ''XRP''"
abbreviation RLUSD_CODE :: string where "RLUSD_CODE \<equiv> ''RLUSD''"
abbreviation RLUSD_HEX :: string where "RLUSD_HEX \<equiv> ''524C555344000000000000000000000000000000''"
abbreviation RLUSD_MAINNET_ISSUER :: string where
  "RLUSD_MAINNET_ISSUER \<equiv> ''rMxCKbEDwqr76QuheSUMdEGf4B9xJ8m5De''"
abbreviation RLUSD_TESTNET_ISSUER :: string where
  "RLUSD_TESTNET_ISSUER \<equiv> ''rQhWct2fv4Vc4KRjRgMrxa8xPN9Zx9iLKV''"
abbreviation LEGACY_RLUSD_TESTNET_ISSUER :: string where
  "LEGACY_RLUSD_TESTNET_ISSUER \<equiv> ''rnEVYfAWYP5HpPaWQiPSJMyDeUiEJ6zhy2''"

definition TF_PARTIAL_PAYMENT :: int where
  "TF_PARTIAL_PAYMENT = 0x00020000"

definition NETWORK_RLUSD_ISSUERS :: "(string \<times> string) list" where
  "NETWORK_RLUSD_ISSUERS = [(''xrpl:0'', RLUSD_MAINNET_ISSUER), (''xrpl:1'', RLUSD_TESTNET_ISSUER)]"

record default_asset =
  da_asset :: string
  da_decimals :: int
  da_symbol :: string
  da_issuer :: string

definition DEFAULT_ASSETS :: "(string \<times> default_asset list) list" where
  "DEFAULT_ASSETS =
    [(''xrpl:0'', [\<lparr>da_asset = RLUSD_HEX, da_decimals = 15, da_symbol = RLUSD_CODE,
                     da_issuer = RLUSD_MAINNET_ISSUER\<rparr>]),
     (''xrpl:1'', [\<lparr>da_asset = RLUSD_HEX, da_decimals = 15, da_symbol = RLUSD_CODE,
                     da_issuer = RLUSD_TESTNET_ISSUER\<rparr>])]"

definition network_assets :: "string \<Rightarrow> default_asset list" where
  "network_assets network = (case map_of DEFAULT_ASSETS network of None \<Rightarrow> [] | Some xs \<Rightarrow> xs)"

definition find_default_asset :: "string \<Rightarrow> string \<Rightarrow> default_asset option" where
  "find_default_asset asset network =
     find (\<lambda>entry. upper (da_asset entry) = upper asset) (network_assets network)"

definition get_default_asset :: "string \<Rightarrow> string option \<Rightarrow> exn + default_asset" where
  "get_default_asset network symbol =
     (case network_assets network of
        [] \<Rightarrow> Inl (ValueError (''No default asset configured for network '' @ network))
      | entry # entries \<Rightarrow>
          (case symbol of
             None \<Rightarrow> Inr entry
           | Some wanted \<Rightarrow>
               (case find (\<lambda>x. upper (da_symbol x) = upper wanted) (entry # entries) of
                  Some x \<Rightarrow> Inr x
                | None \<Rightarrow> Inl (ValueError
                    (''No '' @ wanted @ '' default asset configured for network '' @ network)))))"

record asset_key =
  ak_code :: string
  ak_issuer :: "string option"


section \<open>Currency codes\<close>

definition is_hex :: "char \<Rightarrow> bool" where
  "is_hex c \<longleftrightarrow> is_digit c \<or> (65 \<le> ord_c c \<and> ord_c c \<le> 70) \<or> (97 \<le> ord_c c \<and> ord_c c \<le> 102)"

definition hex_val :: "char \<Rightarrow> nat" where
  "hex_val c = (if is_digit c then ord_c c - 48
                else if 97 \<le> ord_c c then ord_c c - 87 else ord_c c - 55)"

text \<open>\<open>bytes.fromhex\<close> on a string already known to be hexadecimal and of even length.\<close>

fun hex_bytes :: "string \<Rightarrow> string" where
  "hex_bytes (a # b # s) = char_of (16 * hex_val a + hex_val b) # hex_bytes s"
| "hex_bytes _ = []"

text \<open>\<open>bytes.fromhex\<close>, which skips ASCII white space between bytes.\<close>

definition is_blank :: "char \<Rightarrow> bool" where
  "is_blank c \<longleftrightarrow> (9 \<le> ord_c c \<and> ord_c c \<le> 13) \<or> ord_c c = 32"

fun from_hex :: "string \<Rightarrow> exn + string" where
  "from_hex [] = Inr []"
| "from_hex (a # s) =
     (if is_blank a then from_hex s
      else case s of
        [] \<Rightarrow> Inl (ValueError ''non-hexadecimal number found in fromhex() arg'')
      | b # s' \<Rightarrow>
          if is_hex a \<and> is_hex b
          then rbind (from_hex s') (\<lambda>bs. Inr (char_of (16 * hex_val a + hex_val b) # bs))
          else Inl (ValueError ''non-hexadecimal number found in fromhex() arg''))"

definition to_hex :: "string \<Rightarrow> string" where
  "to_hex bs = concat (map (\<lambda>c. [hex_digit (ord_c c div 16), hex_digit (ord_c c mod 16)]) bs)"

definition is_nul :: "char \<Rightarrow> bool" where
  "is_nul c \<longleftrightarrow> ord_c c = 0"

definition printable :: "char \<Rightarrow> bool" where
  "printable c \<longleftrightarrow> 32 \<le> ord_c c \<and> ord_c c \<le> 126"

definition is_hex40 :: "string \<Rightarrow> bool" where
  "is_hex40 s \<longleftrightarrow> length s = 40 \<and> list_all is_hex s"

definition normalize_currency_code :: "string \<Rightarrow> exn + string" where
  "normalize_currency_code currency =
     (let normalized = upper (strip currency) in
      if normalized = [] then Inl (ValueError ''Asset code is required'')
      else if is_hex40 normalized then
        (let decoded = rstrip_by is_nul (hex_bytes normalized) in
         if decoded \<noteq> [] \<and> list_all printable decoded then Inr (upper decoded) else Inr normalized)
      else Inr normalized)"

text \<open>\<open>normalized.encode("ascii").hex().upper().ljust(40, "0")\<close>.\<close>

definition padded_hex :: "string \<Rightarrow> string" where
  "padded_hex n = ljust 40 (CHR ''0'') (upper (to_hex n))"

definition xrpl_currency_code :: "string \<Rightarrow> exn + string" where
  "xrpl_currency_code code =
     (let raw_code = strip code in
      if raw_code = [] then Inl (ValueError ''Asset code is required'')
      else if is_hex40 raw_code then Inr (upper raw_code)
      else rbind (normalize_currency_code raw_code) (\<lambda>normalized.
        if length normalized = 3 then Inr normalized
        else if 20 < length normalized
          then Inl (ValueError ''Issued currency codes must be 20 ASCII bytes or fewer'')
        else if \<not> list_all is_ascii normalized then Inl UnicodeError
        else Inr (padded_hex normalized)))"


section \<open>The assets a facilitator accepts\<close>

definition add_asset :: "asset_key \<Rightarrow> asset_key list \<Rightarrow> asset_key list" where
  "add_asset asset supported = (if asset \<in> set supported then supported else supported @ [asset])"

text \<open>One entry of \<open>ALLOWED_ISSUED_ASSETS\<close>; a blank entry is skipped.\<close>

definition parse_allowed_entry :: "string \<Rightarrow> exn + asset_key option" where
  "parse_allowed_entry raw_entry =
     (let entry = strip raw_entry in
      if entry = [] then Inr None
      else case partition_on (CHR '':'') entry of (code, separator, issuer) \<Rightarrow>
        rbind (normalize_currency_code code) (\<lambda>normalized_code.
          let normalized_issuer = strip issuer in
          if separator = [] \<or> normalized_issuer = []
            then Inl (ValueError ''ALLOWED_ISSUED_ASSETS entries must use CODE:ISSUER format'')
          else if normalized_code = XRP_CODE
            then Inl (ValueError ''ALLOWED_ISSUED_ASSETS cannot include XRP'')
          else if normalized_code = RLUSD_CODE \<and> normalized_issuer = LEGACY_RLUSD_TESTNET_ISSUER
            then Inl (ValueError (''The former XRPL Testnet RLUSD issuer is not canonical; '' @
                                  ''update the issuer explicitly''))
          else Inr (Some \<lparr>ak_code = normalized_code, ak_issuer = Some normalized_issuer\<rparr>)))"

fun parse_allowed_loop :: "string list \<Rightarrow> asset_key list \<Rightarrow> exn + asset_key list" where
  "parse_allowed_loop [] parsed = Inr parsed"
| "parse_allowed_loop (raw_entry # rest) parsed =
     rbind (parse_allowed_entry raw_entry) (\<lambda>asset.
       case asset of
         None \<Rightarrow> parse_allowed_loop rest parsed
       | Some asset \<Rightarrow> parse_allowed_loop rest (add_asset asset parsed))"

definition parse_allowed_issued_assets :: "string \<Rightarrow> exn + asset_key list" where
  "parse_allowed_issued_assets raw_assets = parse_allowed_loop (split_on (CHR '','') raw_assets) []"

definition supported_asset_keys :: "string \<Rightarrow> string \<Rightarrow> exn + asset_key list" where
  "supported_asset_keys network_id raw_assets =
     (let xrp = [\<lparr>ak_code = XRP_CODE, ak_issuer = None\<rparr>];
          builtin = (case map_of NETWORK_RLUSD_ISSUERS network_id of
              None \<Rightarrow> xrp
            | Some issuer \<Rightarrow> add_asset \<lparr>ak_code = RLUSD_CODE, ak_issuer = Some issuer\<rparr> xrp)
      in rbind (parse_allowed_issued_assets raw_assets) (\<lambda>parsed.
           Inr (fold add_asset parsed builtin)))"


section \<open>Characters and hexadecimal\<close>

lemma ord_c_char_of [simp]: "n < 256 \<Longrightarrow> ord_c (char_of n) = n"
  by (simp add: ord_c_def)

lemma ord_c_less [simp]: "ord_c c < 256"
  using nat_of_char_less_256 [of c] by (simp add: ord_c_def)

lemma ord_c_inject: "ord_c a = ord_c b \<longleftrightarrow> a = b"
  by (metis char_of_ord_c)

lemma ord_c_upper:
  "ord_c (upper_c c) = (if 97 \<le> ord_c c \<and> ord_c c \<le> 122 then ord_c c - 32 else ord_c c)"
  using ord_c_less [of c] by (auto simp: upper_c_def)

lemma upper_c_upper_c [simp]: "upper_c (upper_c c) = upper_c c"
  by (auto simp: ord_c_inject [symmetric] ord_c_upper)

lemma upper_upper [simp]: "upper (upper s) = upper s"
  by (simp add: upper_def)

lemma length_upper [simp]: "length (upper s) = length s"
  by (simp add: upper_def)

lemma upper_Nil [simp]: "upper s = [] \<longleftrightarrow> s = []"
  by (simp add: upper_def)

lemma is_space_upper [simp]: "is_space (upper_c c) = is_space c"
  by (auto simp: is_space_def ord_c_upper)

lemma is_hex_upper [simp]: "is_hex (upper_c c) = is_hex c"
  by (auto simp: is_hex_def is_digit_def ord_c_upper)

lemma is_ascii_upper [simp]: "is_ascii (upper_c c) = is_ascii c"
  by (auto simp: is_ascii_def ord_c_upper)

lemma is_hex40_upper [simp]: "is_hex40 (upper s) = is_hex40 s"
  by (simp add: is_hex40_def upper_def list.pred_map comp_def)

lemma hex_not_space: "is_hex c \<Longrightarrow> \<not> is_space c"
  by (auto simp: is_hex_def is_digit_def is_space_def)

lemma dropWhile_upper: "dropWhile is_space (upper s) = upper (dropWhile is_space s)"
  by (induction s) (auto simp: upper_def)

lemma rev_upper: "rev (upper s) = upper (rev s)"
  by (simp add: upper_def rev_map)

lemma strip_upper: "strip (upper s) = upper (strip s)"
  by (simp add: strip_def rstrip_by_def dropWhile_upper rev_upper)

lemma rstrip_by_id: "s = [] \<or> \<not> p (last s) \<Longrightarrow> rstrip_by p s = s"
  by (cases s rule: rev_cases) (auto simp: rstrip_by_def)

lemma strip_id: "s = [] \<or> \<not> is_space (hd s) \<and> \<not> is_space (last s) \<Longrightarrow> strip s = s"
  by (cases s) (auto simp: strip_def rstrip_by_id)

lemma rstrip_by_last: "rstrip_by p s = [] \<or> \<not> p (last (rstrip_by p s))"
  unfolding rstrip_by_def
  by (metis hd_dropWhile last_rev rev_is_Nil_conv)

lemma rstrip_by_prefix: "\<exists>t. s = rstrip_by p s @ t"
proof -
  have "rev (takeWhile p (rev s) @ dropWhile p (rev s)) = s"
    by simp
  then show ?thesis
    unfolding rstrip_by_def rev_append by metis
qed

lemma hd_rstrip_by: "rstrip_by p s \<noteq> [] \<Longrightarrow> hd (rstrip_by p s) = hd s"
  by (metis hd_append2 rstrip_by_prefix)

lemma strip_ends: "strip s = [] \<or> \<not> is_space (hd (strip s)) \<and> \<not> is_space (last (strip s))"
proof (cases "strip s = []")
  case False
  then have ne: "rstrip_by is_space (dropWhile is_space s) \<noteq> []"
    by (simp add: strip_def)
  then have "dropWhile is_space s \<noteq> []"
    by (metis rstrip_by_id)
  then have "\<not> is_space (hd (strip s))"
    using ne by (simp add: strip_def hd_rstrip_by hd_dropWhile)
  moreover have "\<not> is_space (last (strip s))"
    using rstrip_by_last [of is_space "dropWhile is_space s"] ne by (simp add: strip_def)
  ultimately show ?thesis by simp
qed simp

lemma strip_strip [simp]: "strip (strip s) = strip s"
  using strip_id strip_ends by blast

lemma strip_no_space: "list_all (\<lambda>c. \<not> is_space c) s \<Longrightarrow> strip s = s"
  by (rule strip_id) (auto simp: list_all_iff)

lemma strip_hex40: "is_hex40 s \<Longrightarrow> strip s = s"
  by (rule strip_no_space) (auto simp: is_hex40_def list_all_iff hex_not_space)

lemma hex_digit_hex:
  assumes "d < 16"
  shows "is_hex (upper_c (hex_digit d))" and "hex_val (upper_c (hex_digit d)) = d"
  using assms
  by (auto simp: hex_digit_def is_hex_def is_digit_def hex_val_def ord_c_upper)

lemma length_to_hex [simp]: "length (to_hex bs) = 2 * length bs"
  by (induction bs) (auto simp: to_hex_def)

lemma ord_c_div16 [simp]: "ord_c c div 16 < 16"
  using ord_c_less [of c] by (simp add: less_mult_imp_div_less)

lemma to_hex_hex: "list_all is_hex (upper (to_hex bs))"
  by (induction bs) (simp_all add: to_hex_def upper_def hex_digit_hex [simplified])

lemma hex_bytes_to_hex: "hex_bytes (upper (to_hex bs) @ s) = bs @ hex_bytes s"
proof (induction bs)
  case (Cons b bs)
  then show ?case
    by (simp add: to_hex_def upper_def hex_digit_hex)
qed (simp add: to_hex_def upper_def)

lemma hex_bytes_zeros: "hex_bytes (replicate (2 * n) (CHR ''0'')) = replicate n (char_of (0::nat))"
  by (induction n) (simp_all add: hex_val_def is_digit_def ord_c_def)


section \<open>Currency codes: normal forms\<close>

lemma normalize_hex40_upper: "is_hex40 s \<Longrightarrow> normalize_currency_code (upper s) = normalize_currency_code s"
  by (simp add: normalize_currency_code_def strip_upper)

lemma normalize_strip: "normalize_currency_code (strip s) = normalize_currency_code s"
  by (simp add: normalize_currency_code_def)

lemma normalize_plain: "strip s \<noteq> [] \<Longrightarrow> \<not> is_hex40 (strip s) \<Longrightarrow> normalize_currency_code s = Inr (upper (strip s))"
  by (simp add: normalize_currency_code_def)

lemma zero_is_hex: "is_hex (CHR ''0'')" and upper_zero: "upper_c (CHR ''0'') = CHR ''0''"
  by (simp_all add: is_hex_def is_digit_def ord_c_def upper_c_def)

lemma padded_hex_hex40: "length n \<le> 20 \<Longrightarrow> is_hex40 (padded_hex n)"
  by (auto simp: padded_hex_def ljust_def is_hex40_def to_hex_hex list_all_iff zero_is_hex
      dest: to_hex_hex [unfolded list_all_iff, rule_format])

lemma upper_padded_hex: "upper (padded_hex n) = padded_hex n"
  by (simp add: padded_hex_def ljust_def upper_def upper_zero)

lemma hex_bytes_padded:
  assumes "length n \<le> 20"
  shows "hex_bytes (padded_hex n) = n @ replicate (20 - length n) (char_of (0::nat))"
proof -
  have "40 - 2 * length n = 2 * (20 - length n)"
    using assms by simp
  then show ?thesis
    by (simp add: padded_hex_def ljust_def hex_bytes_to_hex hex_bytes_zeros)
qed

lemma rstrip_by_replicate: "p c \<Longrightarrow> rstrip_by p (s @ replicate k c) = rstrip_by p s"
  by (simp add: rstrip_by_def) (subst dropWhile_append2; auto)

lemma printable_not_nul: "printable c \<Longrightarrow> \<not> is_nul c"
  by (auto simp: printable_def is_nul_def)

lemma rstrip_nul_printable: "list_all printable n \<Longrightarrow> rstrip_by is_nul n = n"
  by (rule rstrip_by_id) (auto simp: list_all_iff printable_not_nul)

lemma normalize_padded_hex:
  assumes "length n \<le> 20" and "n \<noteq> []" and "list_all printable n"
  shows "normalize_currency_code (padded_hex n) = Inr (upper n)"
proof -
  have "is_nul (char_of (0::nat))"
    by (simp add: is_nul_def)
  then have "rstrip_by is_nul (hex_bytes (padded_hex n)) = n"
    using assms by (simp add: hex_bytes_padded rstrip_by_replicate rstrip_nul_printable)
  moreover have "padded_hex n \<noteq> []"
    using padded_hex_hex40 [OF assms(1)] by (auto simp: is_hex40_def)
  ultimately show ?thesis
    using assms padded_hex_hex40 [OF assms(1)]
    by (simp add: normalize_currency_code_def strip_hex40 upper_padded_hex)
qed

text \<open>The three shapes of a wire code: a hexadecimal code, a three-character code, or a longer
  code written in padded hexadecimal.\<close>

lemma xrpl_currency_code_cases:
  assumes "xrpl_currency_code code = Inr w"
  obtains (hex) "is_hex40 (strip code)" and "w = upper (strip code)"
  | (short) "\<not> is_hex40 (strip code)" and "strip code \<noteq> []" and "length (strip code) = 3"
      and "w = upper (strip code)"
  | (long) "\<not> is_hex40 (strip code)" and "strip code \<noteq> []" and "length (strip code) \<le> 20"
      and "length (strip code) \<noteq> 3" and "w = padded_hex (upper (strip code))"
  using assms
  by (auto simp: xrpl_currency_code_def Let_def normalize_plain split: if_splits)

text \<open>
  The wire form of a currency code is canonical: normalising a wire code again leaves
  it alone, so \<open>validate_requirements_shape\<close> can compare an asset with its canonical form.\<close>

theorem xrpl_currency_code_idem:
  assumes "xrpl_currency_code code = Inr w"
  shows "xrpl_currency_code w = Inr w"
  using assms
proof (cases rule: xrpl_currency_code_cases)
  case hex
  moreover have "strip code \<noteq> []"
    using hex by (auto simp: is_hex40_def)
  ultimately show ?thesis
    by (simp add: xrpl_currency_code_def strip_upper)
next
  case short
  then show ?thesis
    by (simp add: xrpl_currency_code_def strip_upper normalize_plain)
next
  case long
  then have "is_hex40 w"
    by (simp add: padded_hex_hex40)
  moreover from this have "w \<noteq> []"
    by (auto simp: is_hex40_def)
  ultimately show ?thesis
    using long by (simp add: xrpl_currency_code_def strip_hex40 upper_padded_hex)
qed

text \<open>Encoding a code for the wire and reading it back gives the same normalised code: for
  every code of printable characters, \<open>normalize_currency_code\<close> of the wire form is
  \<open>normalize_currency_code\<close> of the code itself.\<close>

theorem currency_code_roundtrip:
  assumes "xrpl_currency_code code = Inr w" and "normalize_currency_code code = Inr n"
    and "list_all printable n"
  shows "normalize_currency_code w = Inr n"
  using assms(1)
proof (cases rule: xrpl_currency_code_cases)
  case hex
  then show ?thesis
    using assms(2) by (simp add: normalize_hex40_upper normalize_strip)
next
  case short
  then have "n = upper (strip code)"
    using assms(2) by (simp add: normalize_plain)
  with short show ?thesis
    by (simp add: normalize_plain strip_upper)
next
  case long
  then have n: "n = upper (strip code)"
    using assms(2) by (simp add: normalize_plain)
  with long assms(3) show ?thesis
    by (simp add: normalize_padded_hex)
qed

theorem xrpl_currency_code_idem_witness:
  "xrpl_currency_code ''rlusd'' = Inr RLUSD_HEX \<and> xrpl_currency_code RLUSD_HEX = Inr RLUSD_HEX"
proof -
  have h: "xrpl_currency_code ''rlusd'' = Inr RLUSD_HEX"
    by code_simp
  show ?thesis
    using h xrpl_currency_code_idem [OF h] by simp
qed

theorem currency_code_roundtrip_witness:
  "xrpl_currency_code '' usdc'' = Inr ''5553444300000000000000000000000000000000''
   \<and> normalize_currency_code ''5553444300000000000000000000000000000000'' = Inr ''USDC''"
proof -
  have a: "xrpl_currency_code '' usdc'' = Inr ''5553444300000000000000000000000000000000''"
    by code_simp
  have b: "normalize_currency_code '' usdc'' = Inr ''USDC''"
    by code_simp
  have c: "list_all printable ''USDC''"
    by code_simp
  show ?thesis
    using a currency_code_roundtrip [OF a b c] by simp
qed


section \<open>The list of accepted assets\<close>

definition issued_ok :: "asset_key \<Rightarrow> bool" where
  "issued_ok k \<longleftrightarrow> ak_code k \<noteq> XRP_CODE \<and> (\<exists>i. ak_issuer k = Some i \<and> i \<noteq> [])
     \<and> k \<noteq> \<lparr>ak_code = RLUSD_CODE, ak_issuer = Some LEGACY_RLUSD_TESTNET_ISSUER\<rparr>"

lemma parse_allowed_entry_ok: "parse_allowed_entry raw = Inr (Some k) \<Longrightarrow> issued_ok k"
  by (auto simp: parse_allowed_entry_def Let_def issued_ok_def rbind_eq_Inr split: if_splits prod.splits)

lemma parse_allowed_loop_ok:
  "parse_allowed_loop rs acc = Inr ks \<Longrightarrow> distinct acc \<Longrightarrow> list_all issued_ok acc \<Longrightarrow>
   distinct ks \<and> list_all issued_ok ks"
proof (induction rs arbitrary: acc)
  case (Cons raw rest)
  then obtain k where k: "parse_allowed_entry raw = Inr k"
    by (auto simp: rbind_eq_Inr)
  with Cons show ?case
    by (cases k) (auto simp: add_asset_def dest: parse_allowed_entry_ok split: if_splits)
qed simp

lemma add_asset_appends: "\<exists>rest. add_asset k acc = acc @ rest \<and> set rest \<subseteq> {k}"
  by (simp add: add_asset_def)

lemma distinct_add_asset: "distinct acc \<Longrightarrow> distinct (add_asset k acc)"
  by (simp add: add_asset_def)

lemma fold_add_asset:
  "distinct acc \<Longrightarrow> distinct (fold add_asset ks acc)
     \<and> (\<exists>rest. fold add_asset ks acc = acc @ rest \<and> set rest \<subseteq> set ks)"
proof (induction ks arbitrary: acc)
  case (Cons k ks)
  obtain r1 where r1: "add_asset k acc = acc @ r1" "set r1 \<subseteq> {k}"
    using add_asset_appends by blast
  obtain r2 where "fold add_asset ks (acc @ r1) = acc @ r1 @ r2" "set r2 \<subseteq> set ks"
    using Cons.IH [of "acc @ r1"] distinct_add_asset [OF Cons.prems, of k] r1 by auto
  with Cons.IH [of "acc @ r1"] distinct_add_asset [OF Cons.prems, of k] r1 show ?case
    by auto
qed simp

text \<open>
  The assets a facilitator accepts: XRP comes first and is the only native entry, no
  asset is listed twice, and every other entry is an issued currency with a non-empty issuer,
  never the retired Testnet RLUSD issuer.\<close>

theorem supported_asset_keys_sound:
  assumes "supported_asset_keys network_id raw_assets = Inr ks"
  shows "distinct ks \<and> (\<exists>rest. ks = \<lparr>ak_code = XRP_CODE, ak_issuer = None\<rparr> # rest \<and> list_all issued_ok rest)"
proof -
  let ?xrp = "\<lparr>ak_code = XRP_CODE, ak_issuer = None\<rparr>"
  obtain parsed builtin where parsed: "parse_allowed_issued_assets raw_assets = Inr parsed"
    and ks: "ks = fold add_asset parsed (?xrp # builtin)"
    and b: "distinct (?xrp # builtin)" "list_all issued_ok builtin"
    using assms
    by (auto simp: supported_asset_keys_def rbind_eq_Inr add_asset_def NETWORK_RLUSD_ISSUERS_def
        issued_ok_def Let_def split: if_splits)
  have "list_all issued_ok parsed"
    using parse_allowed_loop_ok [of _ "[]" parsed] parsed
    by (simp add: parse_allowed_issued_assets_def)
  with fold_add_asset [OF b(1), of parsed] b(2) show ?thesis
    unfolding ks by (fastforce simp: list_all_iff)
qed

theorem supported_asset_keys_sound_witness:
  "supported_asset_keys ''xrpl:1'' ''USDC:rIssuer, ,usdc:rIssuer'' =
     Inr [\<lparr>ak_code = XRP_CODE, ak_issuer = None\<rparr>,
          \<lparr>ak_code = RLUSD_CODE, ak_issuer = Some RLUSD_TESTNET_ISSUER\<rparr>,
          \<lparr>ak_code = ''USDC'', ak_issuer = Some ''rIssuer''\<rparr>]
   \<and> distinct [\<lparr>ak_code = XRP_CODE, ak_issuer = None\<rparr>,
          \<lparr>ak_code = RLUSD_CODE, ak_issuer = Some RLUSD_TESTNET_ISSUER\<rparr>,
          \<lparr>ak_code = ''USDC'', ak_issuer = Some ''rIssuer''\<rparr>]"
proof -
  have h: "supported_asset_keys ''xrpl:1'' ''USDC:rIssuer, ,usdc:rIssuer'' =
     Inr [\<lparr>ak_code = XRP_CODE, ak_issuer = None\<rparr>,
          \<lparr>ak_code = RLUSD_CODE, ak_issuer = Some RLUSD_TESTNET_ISSUER\<rparr>,
          \<lparr>ak_code = ''USDC'', ak_issuer = Some ''rIssuer''\<rparr>]"
    by code_simp
  show ?thesis
    using h supported_asset_keys_sound [OF h] by blast
qed

end
