(* ===== verification/PyDecimal.thy ===== *)
theory PyDecimal
  imports Complex_Main Prelude
begin

text \<open>
  Python's \<open>decimal.Decimal\<close> as the stack uses it: sign, coefficient and exponent, with the
  default context (28 digits, round half even). Parsing and comparison are exact; addition
  and multiplication round to the context's precision. Exponents are unbounded here, where
  Python's stop at \<open>999999\<close>, far outside any amount the code handles.
\<close>

section \<open>Numbers\<close>

datatype pydec = DFin bool nat int | DInf bool | DNaN

definition signed :: "bool \<Rightarrow> nat \<Rightarrow> int" where
  "signed s c = (if s then - int c else int c)"

definition nonempty_digits :: "string \<Rightarrow> bool" where
  "nonempty_digits s \<longleftrightarrow> s \<noteq> [] \<and> list_all is_digit s"

definition parse_exponent :: "string \<Rightarrow> int option" where
  "parse_exponent r = (case r of
       [] \<Rightarrow> Some 0
     | _ # x \<Rightarrow> (let (neg, ds) = split_sign x in
         if nonempty_digits ds then Some (signed neg (digits_val ds)) else None))"

definition parse_finite :: "bool \<Rightarrow> string \<Rightarrow> pydec option" where
  "parse_finite neg u =
     (let m = takeWhile (\<lambda>c. lower_c c \<noteq> CHR ''e'') u;
          r = drop (length m) u;
          ip = takeWhile is_digit m;
          mr = drop (length ip) m;
          fp = (case mr of [] \<Rightarrow> Some [] | c # f \<Rightarrow> if c = CHR ''.'' then Some f else None)
      in case fp of
           None \<Rightarrow> None
         | Some f \<Rightarrow>
             if list_all is_digit f \<and> ip @ f \<noteq> [] then
               map_option (\<lambda>x. DFin neg (digits_val (ip @ f)) (x - int (length f))) (parse_exponent r)
             else None)"

definition parse_decimal :: "string \<Rightarrow> pydec option" where
  "parse_decimal s =
     (let (neg, u) = split_sign (filter (\<lambda>c. c \<noteq> CHR ''_'') (strip s)); l = lower u in
      if l = ''inf'' \<or> l = ''infinity'' then Some (DInf neg)
      else if starts_with ''nan'' l \<and> list_all is_digit (drop 3 l) then Some DNaN
      else if starts_with ''snan'' l \<and> list_all is_digit (drop 4 l) then Some DNaN
      else parse_finite neg u)"

definition decimal_of_str :: "string \<Rightarrow> exn + pydec" where
  "decimal_of_str s = (case parse_decimal s of None \<Rightarrow> Inl InvalidOperation | Some d \<Rightarrow> Inr d)"

definition dec_of_int :: "int \<Rightarrow> pydec" where
  "dec_of_int i = DFin (i < 0) (nat \<bar>i\<bar>) 0"

section \<open>Order\<close>

definition scaled :: "bool \<Rightarrow> nat \<Rightarrow> int \<Rightarrow> int \<Rightarrow> int" where
  "scaled s c e m = signed s c * 10 ^ nat (e - m)"

definition cmp_int :: "int \<Rightarrow> int \<Rightarrow> int" where
  "cmp_int i j = (if i < j then - 1 else if i = j then 0 else 1)"

text \<open>An ordering comparison with a NaN signals \<open>InvalidOperation\<close>.\<close>

fun dec_cmp :: "pydec \<Rightarrow> pydec \<Rightarrow> exn + int" where
  "dec_cmp (DFin s c e) (DFin t d f) =
     Inr (cmp_int (scaled s c e (min e f)) (scaled t d f (min e f)))"
| "dec_cmp (DInf s) (DInf t) = Inr (cmp_int (signed s 1) (signed t 1))"
| "dec_cmp (DInf s) (DFin _ _ _) = Inr (signed s 1)"
| "dec_cmp (DFin _ _ _) (DInf t) = Inr (- signed t 1)"
| "dec_cmp _ _ = Inl InvalidOperation"

definition dec_lt :: "pydec \<Rightarrow> pydec \<Rightarrow> exn + bool" where
  "dec_lt a b = rbind (dec_cmp a b) (\<lambda>c. Inr (c < 0))"

definition dec_le :: "pydec \<Rightarrow> pydec \<Rightarrow> exn + bool" where
  "dec_le a b = rbind (dec_cmp a b) (\<lambda>c. Inr (c \<le> 0))"

section \<open>Arithmetic\<close>

definition round_coeff :: "nat \<Rightarrow> nat \<times> nat" where
  "round_coeff c =
     (let n = length (show_nat c) in
      if n \<le> 28 then (c, 0)
      else let k = n - 28; q = c div 10 ^ k; r = c mod 10 ^ k;
               q' = (if 10 ^ k < 2 * r \<or> (2 * r = 10 ^ k \<and> odd q) then q + 1 else q)
           in if q' = 10 ^ 28 then (10 ^ 27, k + 1) else (q', k))"

definition dec_fix :: "bool \<Rightarrow> nat \<Rightarrow> int \<Rightarrow> pydec" where
  "dec_fix s c e = (case round_coeff c of (c', k) \<Rightarrow> DFin s c' (e + int k))"

fun dec_mul :: "pydec \<Rightarrow> pydec \<Rightarrow> exn + pydec" where
  "dec_mul (DFin s c e) (DFin t d f) = Inr (dec_fix (s \<noteq> t) (c * d) (e + f))"
| "dec_mul DNaN _ = Inr DNaN"
| "dec_mul _ DNaN = Inr DNaN"
| "dec_mul (DInf s) (DInf t) = Inr (DInf (s \<noteq> t))"
| "dec_mul (DInf s) (DFin t d f) = (if d = 0 then Inl InvalidOperation else Inr (DInf (s \<noteq> t)))"
| "dec_mul (DFin s c e) (DInf t) = (if c = 0 then Inl InvalidOperation else Inr (DInf (s \<noteq> t)))"

fun dec_add :: "pydec \<Rightarrow> pydec \<Rightarrow> exn + pydec" where
  "dec_add (DFin s c e) (DFin t d f) =
     (let m = min e f; v = scaled s c e m + scaled t d f m in
      Inr (dec_fix (if v = 0 then s \<and> t else v < 0) (nat \<bar>v\<bar>) m))"
| "dec_add DNaN _ = Inr DNaN"
| "dec_add _ DNaN = Inr DNaN"
| "dec_add (DInf s) (DInf t) = (if s = t then Inr (DInf s) else Inl InvalidOperation)"
| "dec_add (DInf s) (DFin _ _ _) = Inr (DInf s)"
| "dec_add (DFin _ _ _) (DInf t) = Inr (DInf t)"

fun dec_neg :: "pydec \<Rightarrow> pydec" where
  "dec_neg (DFin s c e) = DFin (\<not> s) c e"
| "dec_neg (DInf s) = DInf (\<not> s)"
| "dec_neg DNaN = DNaN"

definition dec_sub :: "pydec \<Rightarrow> pydec \<Rightarrow> exn + pydec" where
  "dec_sub a b = dec_add a (dec_neg b)"

section \<open>Printing\<close>

fun strip_zeros :: "nat \<Rightarrow> int \<Rightarrow> nat \<times> int" where
  "strip_zeros c e =
     (if c = 0 then (0, 0) else if c mod 10 = 0 then strip_zeros (c div 10) (e + 1) else (c, e))"

declare strip_zeros.simps [simp del]

fun dec_normalize :: "pydec \<Rightarrow> pydec" where
  "dec_normalize (DFin s c e) =
     (case round_coeff c of (c', k) \<Rightarrow> (case strip_zeros c' (e + int k) of (c'', e') \<Rightarrow> DFin s c'' e'))"
| "dec_normalize d = d"

text \<open>\<open>format(d, "f")\<close>.\<close>

definition point_at :: "nat \<Rightarrow> string \<Rightarrow> string" where
  "point_at k ds =
     (let p = replicate (Suc k - length ds) (CHR ''0'') @ ds; n = length p - k in
      if k = 0 then p else take n p @ CHR ''.'' # drop n p)"

fun format_f :: "pydec \<Rightarrow> string" where
  "format_f (DFin s c e) =
     (if s then ''-'' else []) @
     (if c = 0 \<and> 0 < e then ''0''
      else if 0 \<le> e then show_nat c @ replicate (nat e) (CHR ''0'')
      else point_at (nat (- e)) (show_nat c))"
| "format_f (DInf s) = (if s then ''-'' else []) @ ''Infinity''"
| "format_f DNaN = ''NaN''"

section \<open>Values\<close>

text \<open>The rational a finite decimal denotes.\<close>

fun dec_val :: "pydec \<Rightarrow> rat" where
  "dec_val (DFin s c e) = of_int (signed s c) * 10 powi e"
| "dec_val _ = 0"

fun is_finite :: "pydec \<Rightarrow> bool" where
  "is_finite (DFin _ _ _) = True"
| "is_finite _ = False"

lemma scaled_val:
  assumes "m \<le> e"
  shows "of_int (scaled s c e m) * (10::rat) powi m = dec_val (DFin s c e)"
proof -
  have "(10::rat) powi e = 10 powi (e - m) * 10 powi m"
    by (simp flip: power_int_add)
  moreover have "(10::rat) powi (e - m) = 10 ^ nat (e - m)"
    using assms by (simp add: power_int_def)
  ultimately show ?thesis
    by (simp add: scaled_def mult.assoc)
qed

lemma cmp_int_mult:
  fixes z :: rat
  assumes "0 < z"
  shows "cmp_int i j < 0 \<longleftrightarrow> of_int i * z < of_int j * z"
    and "cmp_int i j = 0 \<longleftrightarrow> of_int i * z = of_int j * z"
    and "cmp_int i j \<le> 0 \<longleftrightarrow> of_int i * z \<le> of_int j * z"
  using assms by (auto simp: cmp_int_def)

lemma dec_cmp_finite:
  assumes "is_finite a" and "is_finite b"
  obtains c where "dec_cmp a b = Inr c"
    and "c < 0 \<longleftrightarrow> dec_val a < dec_val b"
    and "c = 0 \<longleftrightarrow> dec_val a = dec_val b"
    and "c \<le> 0 \<longleftrightarrow> dec_val a \<le> dec_val b"
proof -
  obtain s c e where a: "a = DFin s c e" using assms(1) by (cases a) auto
  obtain t d f where b: "b = DFin t d f" using assms(2) by (cases b) auto
  define m where "m = min e f"
  have z: "(0::rat) < 10 powi m" by simp
  have va: "of_int (scaled s c e m) * (10::rat) powi m = dec_val a"
    and vb: "of_int (scaled t d f m) * (10::rat) powi m = dec_val b"
    unfolding a b by (rule scaled_val; simp add: m_def)+
  show ?thesis
  proof (rule that)
    show "dec_cmp a b = Inr (cmp_int (scaled s c e m) (scaled t d f m))"
      by (simp add: a b m_def)
  qed (simp_all only: cmp_int_mult [OF z] va vb)
qed

lemma dec_lt_finite: "is_finite a \<Longrightarrow> is_finite b \<Longrightarrow> dec_lt a b = Inr (dec_val a < dec_val b)"
  by (rule dec_cmp_finite [of a b]) (simp_all add: dec_lt_def)

lemma dec_le_finite: "is_finite a \<Longrightarrow> is_finite b \<Longrightarrow> dec_le a b = Inr (dec_val a \<le> dec_val b)"
  by (rule dec_cmp_finite [of a b]) (simp_all add: dec_le_def)

lemma dec_val_of_int [simp]: "dec_val (dec_of_int i) = of_int i"
  by (simp add: dec_of_int_def signed_def)

lemma is_finite_of_int [simp]: "is_finite (dec_of_int i)"
  by (simp add: dec_of_int_def)

end
