(* ===== verification/Protocol.thy ===== *)
theory Protocol
  imports Assets PyDecimal
begin

text \<open>
  \<open>xrpl_x402_core/models.py\<close> and \<open>helpers.py\<close>: the XRPL payload and extra models, the settlement
  state, and the pure helpers every package calls (network identifiers, ledger bounds, the
  shape check of payment requirements, transaction hashes and request fingerprints).

  The x402 message types (\<open>PaymentRequirements\<close>, \<open>PaymentPayload\<close>) come from the x402 SDK;
  their records below hold the fields the stack reads. Third-party functions are the fields
  of the record \<open>ext\<close>, an argument of every definition that calls them: the digests, the XRPL
  binary codec and key library, and pydantic's lax conversions to \<open>int\<close> and \<open>bool\<close>.
\<close>

section \<open>Third-party code\<close>

record ext =
  sha256_hex :: "string \<Rightarrow> string"
  sha512_hex :: "string \<Rightarrow> string"
  codec_decode :: "string \<Rightarrow> exn + pydict"
  encode_for_signing :: "pydict \<Rightarrow> exn + string"
  is_valid_classic_address :: "string \<Rightarrow> bool"
  derive_classic_address :: "string \<Rightarrow> exn + string"
  is_valid_message :: "string \<Rightarrow> string \<Rightarrow> string \<Rightarrow> exn + bool"
  payment_from_xrpl :: "pydict \<Rightarrow> exn + pydict"
  lax_int :: "pyval \<Rightarrow> int option"
  lax_bool :: "pyval \<Rightarrow> bool option"


section \<open>Messages\<close>

record payment_requirements =
  r_scheme :: string
  r_network :: string
  r_asset :: string
  r_amount :: string
  r_pay_to :: string
  r_max_timeout_seconds :: int
  r_extra :: "pydict option"

text \<open>The resource of a payload is kept in its wire form, the dictionary \<open>model_dump\<close> gives.\<close>

record payment_payload =
  p_x402_version :: int
  p_payload :: pydict
  p_accepted :: payment_requirements
  p_resource :: "pydict option"
  p_extensions :: "pydict option"

abbreviation extra_of :: "payment_requirements \<Rightarrow> pydict" where
  "extra_of r \<equiv> dict_or_empty (r_extra r)"

datatype settlement_status = Pending | Failed | Validated

text \<open>The \<open>result\<close> of a settlement state: \<open>{"amount": a}\<close>, \<open>{"errorReason": r}\<close> or absent.\<close>

datatype settlement_result = ResultAmount string | ResultError string

record settlement_state =
  st_transaction :: string
  st_network :: string
  st_payer :: "string option"
  st_first_ledger :: int
  st_last_ledger :: int
  st_fingerprint :: string
  st_status :: settlement_status
  st_result :: "settlement_result option"

record exact_xrpl_extra_model =
  x_issuer :: "string option"
  x_are_fees_sponsored :: bool
  x_asset_transfer_method :: "string option"
  x_payment_flow :: "string option"
  x_invoice_id :: "string option"
  x_destination_tag :: "int option"

abbreviation SIGNED_TX_BLOB_MAX_LENGTH :: nat where "SIGNED_TX_BLOB_MAX_LENGTH \<equiv> 16384"
abbreviation INVOICE_ID_MAX_LENGTH :: nat where "INVOICE_ID_MAX_LENGTH \<equiv> 128"


section \<open>The XRPL models\<close>

text \<open>\<open>ExactXRPLPayload\<close>: only the alias \<open>signedTxBlob\<close>, no other key, white space stripped.\<close>

definition validate_blob :: "string \<Rightarrow> exn + string" where
  "validate_blob value =
     (let normalized = upper (strip value) in
      if normalized = [] \<or> odd (length normalized)
           \<or> \<not> list_all (\<lambda>c. c \<in> set ''0123456789ABCDEF'') normalized
        then Inl (ValidationError ''signedTxBlob'') else Inr normalized)"

definition ExactXRPLPayload_validate :: "pydict \<Rightarrow> exn + string" where
  "ExactXRPLPayload_validate d =
     (if \<not> list_all (\<lambda>kv. fst kv = ''signedTxBlob'') d then Inl (ValidationError ''extra_forbidden'')
      else case map_of d ''signedTxBlob'' of
        Some (PStr s) \<Rightarrow>
          (if SIGNED_TX_BLOB_MAX_LENGTH < length (strip s) then Inl (ValidationError ''signedTxBlob'')
           else validate_blob (strip s))
      | _ \<Rightarrow> Inl (ValidationError ''signedTxBlob''))"

text \<open>\<open>ExactXRPLExtra\<close>: a field is populated by its alias or, failing that, by its name; a key
  that populates no field is forbidden.\<close>

definition field_key :: "pydict \<Rightarrow> string \<Rightarrow> string \<Rightarrow> string option" where
  "field_key d alias name =
     (if map_of d alias \<noteq> None then Some alias else if map_of d name \<noteq> None then Some name else None)"

definition field_value :: "pydict \<Rightarrow> string \<Rightarrow> string \<Rightarrow> pyval option" where
  "field_value d alias name =
     (case field_key d alias name of None \<Rightarrow> None | Some k \<Rightarrow> map_of d k)"

definition opt_str :: "string \<Rightarrow> pyval option \<Rightarrow> exn + string option" where
  "opt_str field v = (case v of
       None \<Rightarrow> Inr None
     | Some PNone \<Rightarrow> Inr None
     | Some (PStr s) \<Rightarrow> Inr (Some (strip s))
     | Some _ \<Rightarrow> Inl (ValidationError field))"

definition opt_flow :: "pyval option \<Rightarrow> exn + string option" where
  "opt_flow v = (case v of
       None \<Rightarrow> Inr None
     | Some PNone \<Rightarrow> Inr None
     | Some w \<Rightarrow> if w = PStr ''authorization'' then Inr (Some ''authorization'')
                 else Inl (ValidationError ''paymentFlow''))"

definition opt_tag :: "ext \<Rightarrow> pyval option \<Rightarrow> exn + int option" where
  "opt_tag E v = (case v of
       None \<Rightarrow> Inr None
     | Some PNone \<Rightarrow> Inr None
     | Some w \<Rightarrow> (case lax_int E w of
           Some n \<Rightarrow> if 0 \<le> n \<and> n \<le> 0xFFFFFFFF then Inr (Some n)
                     else Inl (ValidationError ''destinationTag'')
         | None \<Rightarrow> Inl (ValidationError ''destinationTag'')))"

definition EXTRA_FIELDS :: "(string \<times> string) list" where
  "EXTRA_FIELDS =
     [(''issuer'', ''issuer''), (''areFeesSponsored'', ''are_fees_sponsored''),
      (''assetTransferMethod'', ''asset_transfer_method''), (''paymentFlow'', ''payment_flow''),
      (''invoiceId'', ''invoice_id''), (''destinationTag'', ''destination_tag'')]"

definition ExactXRPLExtra_validate :: "ext \<Rightarrow> pydict \<Rightarrow> exn + exact_xrpl_extra_model" where
  "ExactXRPLExtra_validate E d =
     (if \<not> list_all (\<lambda>kv. list_ex (\<lambda>an. field_key d (fst an) (snd an) = Some (fst kv)) EXTRA_FIELDS) d
        then Inl (ValidationError ''extra_forbidden'')
      else
        rbind (opt_str ''issuer'' (field_value d ''issuer'' ''issuer'')) (\<lambda>issuer.
        rbind (case field_value d ''areFeesSponsored'' ''are_fees_sponsored'' of
                 None \<Rightarrow> Inr False
               | Some v \<Rightarrow> (case lax_bool E v of Some b \<Rightarrow> Inr b
                             | None \<Rightarrow> Inl (ValidationError ''areFeesSponsored''))) (\<lambda>fees.
        rbind (opt_str ''assetTransferMethod''
                 (field_value d ''assetTransferMethod'' ''asset_transfer_method'')) (\<lambda>atm.
        rbind (opt_flow (field_value d ''paymentFlow'' ''payment_flow'')) (\<lambda>flow.
        rbind (opt_str ''invoiceId'' (field_value d ''invoiceId'' ''invoice_id'')) (\<lambda>invoice.
        rbind (guard (case invoice of None \<Rightarrow> True | Some s \<Rightarrow> length s \<le> INVOICE_ID_MAX_LENGTH)
                 (ValidationError ''invoiceId'')) (\<lambda>_.
        rbind (opt_tag E (field_value d ''destinationTag'' ''destination_tag'')) (\<lambda>tag.
          Inr \<lparr>x_issuer = issuer, x_are_fees_sponsored = fees, x_asset_transfer_method = atm,
               x_payment_flow = flow, x_invoice_id = invoice, x_destination_tag = tag\<rparr>))))))))"


section \<open>Helpers\<close>

text \<open>The patterns \<open>(0|[1-9][0-9]*)\<close> and \<open>(0|[1-9][0-9]*)(\.[0-9]+)?\<close>.\<close>

definition canonical_nat :: "string \<Rightarrow> bool" where
  "canonical_nat s \<longleftrightarrow> s = ''0'' \<or> (isdigit s \<and> hd s \<noteq> CHR ''0'')"

definition decimal_amount :: "string \<Rightarrow> bool" where
  "decimal_amount s \<longleftrightarrow>
     (let a = takeWhile is_digit s; r = drop (length a) s in
      canonical_nat a \<and> (r = [] \<or> hd r = CHR ''.'' \<and> isdigit (tl r)))"

definition network_pattern :: "string \<Rightarrow> bool" where
  "network_pattern s \<longleftrightarrow> starts_with ''xrpl:'' s \<and> canonical_nat (drop 5 s)"

definition is_valid_xrpl_network :: "string \<Rightarrow> bool" where
  "is_valid_xrpl_network network = network_pattern (strip network)"

definition parse_xrpl_network_id :: "string \<Rightarrow> exn + int" where
  "parse_xrpl_network_id network =
     (let normalized = strip network in
      if \<not> is_valid_xrpl_network normalized
        then Inl (ValueError ''network must be a numeric CAIP-2 xrpl:<reference> identifier'')
      else case partition_on (CHR '':'') normalized of (_, _, reference) \<Rightarrow> int_of_str reference)"

text \<open>\<open>math.ceil(timeout / 5)\<close>; the float division of the code is exact enough below $2^{49}$.\<close>

definition ceil_div :: "int \<Rightarrow> int \<Rightarrow> int" where
  "ceil_div a b = - ((- a) div b)"

definition get_max_last_ledger_sequence :: "int \<Rightarrow> payment_requirements \<Rightarrow> int" where
  "get_max_last_ledger_sequence current_ledger requirements =
     current_ledger + ceil_div (r_max_timeout_seconds requirements) 5 + 2"

definition invoice_id_to_invoice_id_field :: "ext \<Rightarrow> string \<Rightarrow> exn + string" where
  "invoice_id_to_invoice_id_field E invoice_id =
     (if invoice_id = [] then Inl (ValueError ''extra.invoiceId must be non-empty'')
      else Inr (upper (sha256_hex E invoice_id)))"

definition signed_transaction_hash :: "ext \<Rightarrow> string \<Rightarrow> exn + string" where
  "signed_transaction_hash E signed_tx_blob =
     rbind (codec_decode E signed_tx_blob) (\<lambda>_.
       Inr (upper (take 64 (sha512_hex E (hex_bytes (''54584E00'' @ signed_tx_blob))))))"

definition exact_xrpl_payload :: "payment_payload \<Rightarrow> exn + string" where
  "exact_xrpl_payload payload = ExactXRPLPayload_validate (p_payload payload)"

definition exact_xrpl_extra :: "ext \<Rightarrow> payment_requirements \<Rightarrow> exn + exact_xrpl_extra_model" where
  "exact_xrpl_extra E requirements = ExactXRPLExtra_validate E (extra_of requirements)"

definition compare_decimal_strings :: "string \<Rightarrow> string \<Rightarrow> exn + int" where
  "compare_decimal_strings left right =
     (case (parse_decimal left, parse_decimal right) of
        (Some l, Some r) \<Rightarrow> dec_cmp l r
      | _ \<Rightarrow> Inl (ValueError ''XRPL IOU amount must be a decimal string''))"

definition validate_shape_amount ::
  "payment_requirements \<Rightarrow> exact_xrpl_extra_model \<Rightarrow> exn + exact_xrpl_extra_model" where
  "validate_shape_amount requirements extra =
     (if r_asset requirements = ''XRP'' then
        (if \<not> canonical_nat (r_amount requirements)
           then Inl (ValueError ''XRPL native payments require an integer drops amount'')
         else rbind (int_of_str (r_amount requirements)) (\<lambda>drops.
           if drops \<le> 0 then Inl (ValueError ''XRPL exact payment amount must be greater than zero'')
           else if x_issuer extra \<noteq> None
             then Inl (ValueError ''XRPL native payments must not include extra.issuer'')
           else Inr extra))
      else
        (if x_issuer extra = None \<or> x_issuer extra = Some []
           then Inl (ValueError ''XRPL IOU payments require extra.issuer'')
         else rbind
           (case find_default_asset (r_asset requirements) (r_network requirements) of
              None \<Rightarrow> Inr ()
            | Some entry \<Rightarrow>
                guard (x_issuer extra = Some (da_issuer entry))
                  (ValueError (''XRPL '' @ da_symbol entry @ '' payments require extra.issuer to be '' @
                               da_issuer entry))) (\<lambda>_.
           if \<not> decimal_amount (r_amount requirements)
             then Inl (ValueError ''XRPL IOU payments require a decimal ledger amount'')
           else rbind (decimal_of_str (r_amount requirements)) (\<lambda>amount.
             rbind (dec_le amount (dec_of_int 0)) (\<lambda>nonpos.
               if nonpos
                 then Inl (ValueError ''XRPL exact payment amount must be greater than zero'')
               else Inr extra)))))"

definition validate_requirements_shape ::
  "ext \<Rightarrow> payment_requirements \<Rightarrow> exn + exact_xrpl_extra_model" where
  "validate_requirements_shape E requirements =
     (if r_scheme requirements \<noteq> ''exact''
        then Inl (ValueError (''Unsupported scheme: '' @ r_scheme requirements))
      else if \<not> is_valid_xrpl_network (r_network requirements)
        then Inl (ValueError (''Unsupported XRPL network: '' @ r_network requirements))
      else if r_max_timeout_seconds requirements \<le> 0
        then Inl (ValueError ''maxTimeoutSeconds must be greater than zero'')
      else case xrpl_currency_code (r_asset requirements) of
        Inl e \<Rightarrow> if is_value_error e then Inl (ValueError ''Invalid XRPL asset currency code'') else Inl e
      | Inr canonical_asset \<Rightarrow>
          if r_asset requirements \<noteq> canonical_asset
            then Inl (ValueError (''XRPL wire assets must use XRP, an uppercase three-character '' @
                       ''currency code, or an uppercase 40-character hexadecimal code''))
          else rbind
            (if r_asset requirements \<noteq> ''XRP'' then
               rbind (normalize_currency_code (r_asset requirements)) (\<lambda>code.
                 guard (code \<noteq> ''XRP'') (ValueError ''XRP cannot be represented as an issued currency''))
             else Inr ()) (\<lambda>_.
          rbind (exact_xrpl_extra E requirements) (\<lambda>extra.
            if map_of (extra_of requirements) ''areFeesSponsored'' \<noteq> Some (PBool False)
              then Inl (ValueError ''XRPL exact payments require extra.areFeesSponsored to be false'')
            else let atm = (case x_asset_transfer_method extra of Some (c # cs) \<Rightarrow> c # cs | _ \<Rightarrow> ''sequence'') in
              if atm \<notin> {''sequence'', ''ticketSequence''}
                then Inl (ValueError (''Unsupported assetTransferMethod: '' @ atm))
              else validate_shape_amount requirements extra)))"


section \<open>Canonical JSON and fingerprints\<close>

text \<open>\<open>json.dumps(v, sort_keys=True, separators=(",", ":"), ensure_ascii=True)\<close>.\<close>

definition json_char :: "char \<Rightarrow> string" where
  "json_char c =
     (if c = CHR 0x22 \<or> c = CHR 0x5C then [CHR 0x5C, c]
      else if ord_c c = 10 then [CHR 0x5C, CHR ''n'']
      else if ord_c c = 13 then [CHR 0x5C, CHR ''r'']
      else if ord_c c = 9 then [CHR 0x5C, CHR ''t'']
      else if ord_c c = 8 then [CHR 0x5C, CHR ''b'']
      else if ord_c c = 12 then [CHR 0x5C, CHR ''f'']
      else if ord_c c < 32 \<or> 127 < ord_c c
        then [CHR 0x5C] @ ''u00'' @ [hex_digit (ord_c c div 16), hex_digit (ord_c c mod 16)]
      else [c])"

definition json_string :: "string \<Rightarrow> string" where
  "json_string s = [CHR 0x22] @ concat (map json_char s) @ [CHR 0x22]"

fun json_dumps :: "pyval \<Rightarrow> string"
  and json_dumps_list :: "pyval list \<Rightarrow> string list"
  and json_dumps_items :: "(string \<times> pyval) list \<Rightarrow> (string \<times> string) list" where
  "json_dumps PNone = ''null''"
| "json_dumps (PBool b) = (if b then ''true'' else ''false'')"
| "json_dumps (PInt i) = show_int i"
| "json_dumps (PStr s) = json_string s"
| "json_dumps (PList xs) = ''['' @ join '','' (json_dumps_list xs) @ '']''"
| "json_dumps (PDict d) =
     ''{'' @ join '','' (map (\<lambda>kr. json_string (fst kr) @ '':'' @ snd kr)
                        (sort_key fst (json_dumps_items d))) @ ''}''"
| "json_dumps_list [] = []"
| "json_dumps_list (x # xs) = json_dumps x # json_dumps_list xs"
| "json_dumps_items [] = []"
| "json_dumps_items (kv # d) = (fst kv, json_dumps (snd kv)) # json_dumps_items d"

text \<open>\<open>requirements.model_dump(by_alias=True, exclude_none=True)\<close>.\<close>

definition requirements_dump :: "payment_requirements \<Rightarrow> pydict" where
  "requirements_dump r =
     [(''scheme'', PStr (r_scheme r)), (''network'', PStr (r_network r)), (''asset'', PStr (r_asset r)),
      (''amount'', PStr (r_amount r)), (''payTo'', PStr (r_pay_to r)),
      (''maxTimeoutSeconds'', PInt (r_max_timeout_seconds r))]
     @ (case r_extra r of None \<Rightarrow> [] | Some d \<Rightarrow> [(''extra'', PDict d)])"

definition opt_dict :: "pydict option \<Rightarrow> pyval" where
  "opt_dict d = (case d of None \<Rightarrow> PNone | Some d \<Rightarrow> PDict d)"

definition fingerprint_document ::
  "payment_payload \<Rightarrow> payment_requirements \<Rightarrow> string option \<Rightarrow> pydict option \<Rightarrow> string option \<Rightarrow> pydict" where
  "fingerprint_document payload requirements resource_method authoritative_resource resource_identity =
     [(''accepted'', PDict (requirements_dump requirements)),
      (''payload'', PDict (p_payload payload)),
      (''resource'', opt_dict (if authoritative_resource \<noteq> None then authoritative_resource else p_resource payload)),
      (''extensions'', opt_dict (p_extensions payload)),
      (''method'', case resource_method of Some (c # cs) \<Rightarrow> PStr (upper (c # cs)) | _ \<Rightarrow> PNone)]
     @ (case resource_identity of None \<Rightarrow> [] | Some i \<Rightarrow> [(''resourceIdentity'', PStr i)])"

definition requirements_fingerprint_for ::
  "ext \<Rightarrow> payment_payload \<Rightarrow> payment_requirements \<Rightarrow> string option \<Rightarrow> pydict option \<Rightarrow> string option \<Rightarrow> string" where
  "requirements_fingerprint_for E payload requirements resource_method authoritative_resource resource_identity =
     sha256_hex E (json_dumps (PDict (fingerprint_document payload requirements
       resource_method authoritative_resource resource_identity)))"

text \<open>The call with no keyword argument, which the facilitator makes.\<close>

definition requirements_fingerprint :: "ext \<Rightarrow> payment_payload \<Rightarrow> payment_requirements \<Rightarrow> string" where
  "requirements_fingerprint E payload requirements =
     requirements_fingerprint_for E payload requirements None None None"


section \<open>Sample values\<close>

text \<open>One instance of the third-party functions and two sets of payment requirements, for the
  witnesses: one digest is constant, the other the bytes in hexadecimal, and every blob decodes to an empty
  transaction.\<close>

definition sample_ext :: ext where
  "sample_ext = \<lparr>sha256_hex = (\<lambda>_. ''F1''), sha512_hex = to_hex, codec_decode = (\<lambda>_. Inr []),
     encode_for_signing = (\<lambda>_. Inr ''00''), is_valid_classic_address = (\<lambda>a. a \<noteq> []),
     derive_classic_address = (\<lambda>k. Inr k), is_valid_message = (\<lambda>_ _ _. Inr True),
     payment_from_xrpl = (\<lambda>d. Inr d),
     lax_int = as_int, lax_bool = (\<lambda>v. case v of PBool b \<Rightarrow> Some b | _ \<Rightarrow> None)\<rparr>"

definition sample_xrp :: payment_requirements where
  "sample_xrp = \<lparr>r_scheme = ''exact'', r_network = ''xrpl:1'', r_asset = ''XRP'', r_amount = ''1000'',
     r_pay_to = ''rMerchant'', r_max_timeout_seconds = 60,
     r_extra = Some [(''areFeesSponsored'', PBool False), (''assetTransferMethod'', PStr ''sequence'')]\<rparr>"

definition sample_iou :: payment_requirements where
  "sample_iou = sample_xrp\<lparr>r_asset := RLUSD_HEX, r_amount := ''1.50'',
     r_extra := Some [(''issuer'', PStr RLUSD_TESTNET_ISSUER), (''areFeesSponsored'', PBool False)]\<rparr>"


section \<open>Amount strings\<close>

definition amount_char :: "char \<Rightarrow> bool" where
  "amount_char c \<longleftrightarrow> is_digit c \<or> c = CHR ''.''"

lemma dot_props: "\<not> is_digit (CHR ''.'')" "\<not> is_space (CHR ''.'')" "lower_c (CHR ''.'') = CHR ''.''"
  by (simp_all add: is_digit_def is_space_def lower_c_def ord_c_def)

lemma not_digit: "\<not> is_digit (CHR ''_'')" "\<not> is_digit (CHR ''e'')" "\<not> is_digit (CHR ''-'')" "\<not> is_digit (CHR ''+'')"
  "\<not> is_digit (CHR ''n'')" "\<not> is_digit (CHR ''s'')" "\<not> is_digit (CHR ''i'')"
  by (simp_all add: is_digit_def ord_c_def)

lemma digit_props:
  assumes "is_digit c"
  shows "\<not> is_space c" and "lower_c c = c" and "c \<noteq> CHR ''e''" and "c \<noteq> CHR ''_''"
    and "c \<noteq> CHR ''-''" and "c \<noteq> CHR ''+''" and "c \<noteq> CHR ''n''" and "c \<noteq> CHR ''s''" and "c \<noteq> CHR ''i''"
  using assms not_digit by (auto simp: is_digit_def is_space_def lower_c_def)

lemma amount_char_props:
  assumes "amount_char c"
  shows "\<not> is_space c" and "lower_c c = c" and "lower_c c \<noteq> CHR ''e''" and "c \<noteq> CHR ''_''"
  using assms not_digit by (auto simp: amount_char_def dot_props digit_props)

lemma parse_decimal_plain:
  assumes "list_all amount_char s" and "s \<noteq> []" and "is_digit (hd s)"
  shows "parse_decimal s = parse_finite False s"
proof -
  obtain c cs where s: "s = c # cs" using assms(2) by (cases s) auto
  have c: "is_digit c" using assms(3) s by simp
  have "strip s = s"
    using assms(1) by (intro strip_no_space) (auto simp: list_all_iff amount_char_props)
  moreover have "filter (\<lambda>c. c \<noteq> CHR ''_'') s = s"
    using assms(1) by (auto simp: filter_id_conv list_all_iff amount_char_props)
  moreover have "lower s = s"
    using assms(1) by (auto simp: lower_def list_all_iff amount_char_props intro: map_idI)
  moreover have "split_sign s = (False, s)"
    using c by (simp add: split_sign_def s digit_props)
  moreover have "s \<noteq> ''inf''" "s \<noteq> ''infinity''" "\<not> starts_with ''nan'' s" "\<not> starts_with ''snan'' s"
    using c by (auto simp: s starts_with_def digit_props)
  ultimately show ?thesis
    by (simp add: parse_decimal_def)
qed

lemma takeWhile_digits_append:
  "list_all is_digit a \<Longrightarrow> \<not> is_digit c \<Longrightarrow> takeWhile is_digit (a @ c # f) = a"
  by (simp add: takeWhile_tail list_all_iff)

lemma takeWhile_all: "list_all p s \<Longrightarrow> takeWhile p s = s"
  by (simp add: takeWhile_eq_all_conv list_all_iff)

lemma parse_finite_plain:
  assumes "list_all is_digit a" and "a \<noteq> []" and "list_all is_digit f"
  shows "parse_finite neg a = Some (DFin neg (digits_val a) 0)"
    and "parse_finite neg (a @ CHR ''.'' # f) = Some (DFin neg (digits_val (a @ f)) (- int (length f)))"
proof -
  have no_e: "takeWhile (\<lambda>c. lower_c c \<noteq> CHR ''e'') u = u" if "list_all amount_char u" for u
    using that unfolding takeWhile_eq_all_conv list_all_iff by (blast dest: amount_char_props(3))
  have "list_all amount_char a" "list_all amount_char (a @ CHR ''.'' # f)"
    using assms by (auto simp: list_all_iff amount_char_def)
  note e = this [THEN no_e]
  show "parse_finite neg a = Some (DFin neg (digits_val a) 0)"
    using assms by (simp add: parse_finite_def e takeWhile_all parse_exponent_def)
  show "parse_finite neg (a @ CHR ''.'' # f) = Some (DFin neg (digits_val (a @ f)) (- int (length f)))"
    using assms by (simp add: parse_finite_def e takeWhile_digits_append dot_props parse_exponent_def)
qed

lemma decimal_amount_parse:
  assumes "decimal_amount s"
  obtains c e where "parse_decimal s = Some (DFin False c e)" and "e \<le> 0"
proof -
  define a where "a = takeWhile is_digit s"
  define r where "r = drop (length a) s"
  have s: "s = a @ r"
    by (simp add: a_def r_def flip: dropWhile_eq_drop)
  have da: "list_all is_digit a"
    unfolding a_def list_all_iff by (blast dest: set_takeWhileD)
  have "canonical_nat a" and r: "r = [] \<or> hd r = CHR ''.'' \<and> isdigit (tl r)"
    using assms by (auto simp: decimal_amount_def Let_def a_def r_def)
  then have ne: "a \<noteq> []"
    by (auto simp: canonical_nat_def isdigit_def)
  show ?thesis
  proof (cases "r = []")
    case True
    then have "parse_decimal s = parse_finite False a"
      using da ne by (subst parse_decimal_plain) (auto simp: s list_all_iff amount_char_def)
    with parse_finite_plain(1) [OF da ne, of "[]" False] show ?thesis
      by (intro that) auto
  next
    case False
    then obtain f where f: "r = CHR ''.'' # f" "list_all is_digit f"
      using r by (cases r) (auto simp: isdigit_def)
    then have "parse_decimal s = parse_finite False (a @ CHR ''.'' # f)"
      using da ne by (subst parse_decimal_plain) (auto simp: s list_all_iff amount_char_def)
    with parse_finite_plain(2) [OF da ne f(2), of False] show ?thesis
      by (intro that) auto
  qed
qed

lemma isdigit_parse_int:
  assumes "isdigit s"
  shows "parse_int s = (if length s \<le> 4300 then Some (int (digits_val s)) else None)"
proof -
  have d: "list_all is_digit s" "s \<noteq> []"
    using assms by (auto simp: isdigit_def)
  then obtain c cs where s: "s = c # cs" by (cases s) auto
  have "underscored b t" if "list_all is_digit t" "b \<or> t \<noteq> []" for b t
    using that by (induction t arbitrary: b) auto
  with d have "underscored False s" by blast
  moreover have "strip s = s"
    using d by (intro strip_no_space) (auto simp: list_all_iff digit_props)
  moreover have "split_sign s = (False, s)"
    using d by (simp add: split_sign_def s digit_props)
  moreover have "filter is_digit s = s"
    using d by (simp add: filter_id_conv list_all_iff)
  ultimately show ?thesis
    by (simp add: parse_int_def)
qed

lemma canonical_nat_isdigit: "canonical_nat s \<Longrightarrow> isdigit s"
  by (auto simp: canonical_nat_def isdigit_def is_digit_def ord_c_def)

lemma isdigit_int_of_str [res_simps]:
  "isdigit s \<Longrightarrow> int_of_str s = Inr i \<longleftrightarrow> length s \<le> 4300 \<and> i = int (digits_val s)"
  by (auto simp: int_of_str_def isdigit_parse_int)

section \<open>The shape check\<close>

lemma validate_shape_amount_XRP:
  assumes "validate_shape_amount r x = Inr y" and "r_asset r = ''XRP''"
  shows "y = x \<and> canonical_nat (r_amount r) \<and> length (r_amount r) \<le> 4300
    \<and> 0 < digits_val (r_amount r) \<and> x_issuer x = None"
  using assms
  by (auto simp: validate_shape_amount_def rbind_eq_Inr isdigit_int_of_str canonical_nat_isdigit
      split: if_splits)

lemma validate_shape_amount_IOU:
  assumes "validate_shape_amount r x = Inr y" and "r_asset r \<noteq> ''XRP''"
  shows "y = x \<and> decimal_amount (r_amount r)
    \<and> (\<exists>d. parse_decimal (r_amount r) = Some d \<and> is_finite d \<and> 0 < dec_val d)
    \<and> (\<exists>i. x_issuer x = Some i \<and> i \<noteq> [] \<and>
         (\<forall>d. find_default_asset (r_asset r) (r_network r) = Some d \<longrightarrow> i = da_issuer d))"
proof -
  have amount: "decimal_amount (r_amount r)" and y: "y = x"
    and i: "\<exists>i. x_issuer x = Some i \<and> i \<noteq> []"
    and "\<exists>d. decimal_of_str (r_amount r) = Inr d \<and> dec_le d (dec_of_int 0) = Inr False"
    and m: "\<forall>d. find_default_asset (r_asset r) (r_network r) = Some d \<longrightarrow> x_issuer x = Some (da_issuer d)"
    using assms by (auto simp: validate_shape_amount_def rbind_eq_Inr split: if_splits option.splits)
  then obtain d where d: "parse_decimal (r_amount r) = Some d" "dec_le d (dec_of_int 0) = Inr False"
    by (auto simp: decimal_of_str_def split: option.splits)
  have fin: "is_finite d"
    by (rule decimal_amount_parse [OF amount]) (use d(1) in simp)
  with d(2) have "0 < dec_val d"
    by (simp add: dec_le_finite)
  with amount y i m d fin show ?thesis by auto
qed

lemma validate_shape_parts:
  assumes "validate_requirements_shape E r = Inr x"
  shows "r_scheme r = ''exact''" and "is_valid_xrpl_network (r_network r)"
    and "0 < r_max_timeout_seconds r" and "xrpl_currency_code (r_asset r) = Inr (r_asset r)"
    and "r_asset r \<noteq> ''XRP'' \<Longrightarrow> \<exists>c. normalize_currency_code (r_asset r) = Inr c \<and> c \<noteq> ''XRP''"
    and "exact_xrpl_extra E r = Inr x"
    and "map_of (extra_of r) ''areFeesSponsored'' = Some (PBool False)"
    and "validate_shape_amount r x = Inr x"
proof -
  have "\<exists>y. exact_xrpl_extra E r = Inr y \<and> validate_shape_amount r y = Inr x"
    using assms
    by (auto simp: validate_requirements_shape_def rbind_eq_Inr Let_def split: if_splits sum.splits)
  moreover have "y = x" if "validate_shape_amount r y = Inr x" for y
    using that validate_shape_amount_XRP validate_shape_amount_IOU by metis
  ultimately show "exact_xrpl_extra E r = Inr x" and "validate_shape_amount r x = Inr x"
    by auto
qed (use assms in \<open>auto simp: validate_requirements_shape_def rbind_eq_Inr Let_def
    split: if_splits sum.splits\<close>)


text \<open>What the shape check guarantees: an exact-scheme XRPL requirement with a positive
  timeout, a canonical wire asset and unsponsored fees. A native requirement has a positive
  whole number of drops and no issuer; an issued one is not XRP in disguise, names a non-empty
  issuer (the official one for a default asset of its network) and a positive finite decimal.\<close>

theorem requirements_shape_sound:
  assumes "validate_requirements_shape E r = Inr x"
  shows "r_scheme r = ''exact'' \<and> is_valid_xrpl_network (r_network r) \<and> 0 < r_max_timeout_seconds r
    \<and> xrpl_currency_code (r_asset r) = Inr (r_asset r)
    \<and> map_of (extra_of r) ''areFeesSponsored'' = Some (PBool False)
    \<and> (if r_asset r = ''XRP''
       then canonical_nat (r_amount r) \<and> 0 < digits_val (r_amount r) \<and> x_issuer x = None
       else (\<exists>c. normalize_currency_code (r_asset r) = Inr c \<and> c \<noteq> ''XRP'')
         \<and> (\<exists>d. parse_decimal (r_amount r) = Some d \<and> is_finite d \<and> 0 < dec_val d)
         \<and> (\<exists>i. x_issuer x = Some i \<and> i \<noteq> [] \<and>
              (\<forall>d. find_default_asset (r_asset r) (r_network r) = Some d \<longrightarrow> i = da_issuer d)))"
  using validate_shape_parts [OF assms] validate_shape_amount_XRP validate_shape_amount_IOU
  by (cases "r_asset r = ''XRP''") simp_all

theorem requirements_shape_sound_witness:
  "(\<exists>x. validate_requirements_shape sample_ext sample_iou = Inr x)
   \<and> (\<exists>d. parse_decimal (r_amount sample_iou) = Some d \<and> 0 < dec_val d)"
proof -
  have h: "validate_requirements_shape sample_ext sample_iou =
     Inr \<lparr>x_issuer = Some RLUSD_TESTNET_ISSUER, x_are_fees_sponsored = False,
       x_asset_transfer_method = None, x_payment_flow = None, x_invoice_id = None,
       x_destination_tag = None\<rparr>"
    by code_simp
  have "r_asset sample_iou \<noteq> ''XRP''"
    by (simp add: sample_iou_def)
  with h requirements_shape_sound [OF h] show ?thesis by auto
qed

lemma normalize_currency_code_error: "normalize_currency_code c = Inl e \<Longrightarrow> is_value_error e"
  by (auto simp: normalize_currency_code_def Let_def split: if_splits)

lemma xrpl_currency_code_error: "xrpl_currency_code c = Inl e \<Longrightarrow> is_value_error e"
  by (auto simp: xrpl_currency_code_def Let_def rbind_eq_Inl
      dest: normalize_currency_code_error split: if_splits)

lemma opt_field_errors:
  shows "opt_str f v = Inl e \<Longrightarrow> is_value_error e" and "opt_flow v = Inl e \<Longrightarrow> is_value_error e"
    and "opt_tag E v = Inl e \<Longrightarrow> is_value_error e"
  by (auto simp: opt_str_def opt_flow_def opt_tag_def split: option.splits pyval.splits if_splits)

lemma exact_xrpl_extra_error: "exact_xrpl_extra E r = Inl e \<Longrightarrow> is_value_error e"
  unfolding exact_xrpl_extra_def ExactXRPLExtra_validate_def
  by (auto simp: rbind_eq_Inl dest: opt_field_errors split: if_splits option.splits)

lemma int_of_str_error: "int_of_str s = Inl e \<Longrightarrow> is_value_error e"
  by (auto simp: int_of_str_def split: option.splits)

lemma decimal_amount_nonpos: "decimal_amount s \<Longrightarrow> \<exists>d b. decimal_of_str s = Inr d \<and> dec_le d (dec_of_int 0) = Inr b"
  by (rule decimal_amount_parse) (auto simp: decimal_of_str_def dec_le_finite)

lemma validate_shape_amount_error: "validate_shape_amount r x = Inl e \<Longrightarrow> is_value_error e"
  using decimal_amount_nonpos [of "r_amount r"]
  by (auto simp: validate_shape_amount_def rbind_eq_Inl dest: int_of_str_error
      split: if_splits option.splits)

text \<open>
  The shape check fails only with a \<open>ValueError\<close>, whatever the requirements hold, so the
  handler of \<open>_verify_envelope\<close> turns every malformed requirement into a verification result
  and none of them surfaces as an infrastructure failure.\<close>

theorem requirements_shape_error:
  assumes "validate_requirements_shape E r = Inl e"
  shows "is_value_error e"
  using assms xrpl_currency_code_error exact_xrpl_extra_error validate_shape_amount_error
  by (auto simp: validate_requirements_shape_def rbind_eq_Inl Let_def
      dest: normalize_currency_code_error exact_xrpl_extra_error validate_shape_amount_error
      split: if_splits sum.splits)

theorem requirements_shape_error_witness:
  "validate_requirements_shape sample_ext (sample_xrp\<lparr>r_amount := ''0''\<rparr>) =
     Inl (ValueError ''XRPL exact payment amount must be greater than zero'')
   \<and> is_value_error (ValueError ''XRPL exact payment amount must be greater than zero'')"
proof -
  have h: "validate_requirements_shape sample_ext (sample_xrp\<lparr>r_amount := ''0''\<rparr>) =
     Inl (ValueError ''XRPL exact payment amount must be greater than zero'')"
    by code_simp
  show ?thesis
    using h requirements_shape_error [OF h] by simp
qed

text \<open>A gap of the shape check: the network pattern ignores white space around the network
  identifier and the lookup of the default asset does not, so with such an identifier RLUSD of
  any issuer passes.\<close>

theorem shape_accepts_foreign_issuer:
  "\<exists>x. validate_requirements_shape sample_ext
         (sample_iou\<lparr>r_network := ''xrpl:1 '', r_extra := Some
            [(''issuer'', PStr ''rForeignIssuer''), (''areFeesSponsored'', PBool False)]\<rparr>) = Inr x"
proof -
  have "validate_requirements_shape sample_ext
         (sample_iou\<lparr>r_network := ''xrpl:1 '', r_extra := Some
            [(''issuer'', PStr ''rForeignIssuer''), (''areFeesSponsored'', PBool False)]\<rparr>) =
     Inr \<lparr>x_issuer = Some ''rForeignIssuer'', x_are_fees_sponsored = False,
       x_asset_transfer_method = None, x_payment_flow = None, x_invoice_id = None,
       x_destination_tag = None\<rparr>"
    by code_simp
  then show ?thesis by blast
qed

end
