(* ===== verification/Config.thy ===== *)
theory Config
  imports Protocol
begin

text \<open>
  \<open>xrpl_x402_facilitator/config.py\<close>: the facilitator's settings and the checks that run when
  they are loaded. A secret is its text.
\<close>

record settings =
  GATEWAY_AUTH_MODE :: string
  XRPL_RPC_URL :: string
  MY_DESTINATION_ADDRESS :: string
  FACILITATOR_BEARER_TOKEN :: "string option"
  REDIS_URL :: string
  NETWORK_ID :: string
  SETTLEMENT_MODE :: "string option"
  VALIDATION_TIMEOUT :: int
  MIN_XRP_DROPS :: int
  MAX_FEE_DROPS :: int
  ALLOWED_ISSUED_ASSETS :: string
  ENABLE_API_DOCS :: bool
  ENABLE_BAZAAR :: bool
  DISCOVERY_RETENTION_SECONDS :: int
  MAX_REQUEST_BODY_BYTES :: int
  REPLAY_PROCESSED_TTL_SECONDS :: int

definition validate_positive_int :: "string \<Rightarrow> int \<Rightarrow> exn + int" where
  "validate_positive_int field value =
     (if value \<le> 0 then Inl (ValidationError (field @ '': must be greater than zero'')) else Inr value)"

definition validate_non_negative_int :: "string \<Rightarrow> int \<Rightarrow> exn + int" where
  "validate_non_negative_int field value =
     (if value < 0 then Inl (ValidationError (field @ '': must be zero or greater'')) else Inr value)"

definition gateway_auth_uses_redis :: "settings \<Rightarrow> bool" where
  "gateway_auth_uses_redis s \<longleftrightarrow> GATEWAY_AUTH_MODE s = ''redis_gateways''"

definition validate_settings :: "settings \<Rightarrow> exn + settings" where
  "validate_settings s =
     (if SETTLEMENT_MODE s \<noteq> None
        then Inl (ValidationError ''SETTLEMENT_MODE was removed in 0.2.0; settlement always requires validated tesSUCCESS'')
      else if GATEWAY_AUTH_MODE s = ''single_token'' \<and> FACILITATOR_BEARER_TOKEN s = None
        then Inl (ValidationError ''FACILITATOR_BEARER_TOKEN is required when GATEWAY_AUTH_MODE=single_token'')
      else Inr s)"

text \<open>\<open>Settings(...)\<close>: the field checks, the literal type of the authentication mode, then the
  model check.\<close>

definition load_settings :: "settings \<Rightarrow> exn + settings" where
  "load_settings s =
     rbind (guard (GATEWAY_AUTH_MODE s \<in> {''single_token'', ''redis_gateways''})
              (ValidationError ''GATEWAY_AUTH_MODE'')) (\<lambda>_.
     rbind (validate_positive_int ''VALIDATION_TIMEOUT'' (VALIDATION_TIMEOUT s)) (\<lambda>_.
     rbind (validate_positive_int ''MAX_FEE_DROPS'' (MAX_FEE_DROPS s)) (\<lambda>_.
     rbind (validate_positive_int ''DISCOVERY_RETENTION_SECONDS'' (DISCOVERY_RETENTION_SECONDS s)) (\<lambda>_.
     rbind (validate_positive_int ''MAX_REQUEST_BODY_BYTES'' (MAX_REQUEST_BODY_BYTES s)) (\<lambda>_.
     rbind (validate_positive_int ''REPLAY_PROCESSED_TTL_SECONDS'' (REPLAY_PROCESSED_TTL_SECONDS s)) (\<lambda>_.
     rbind (validate_non_negative_int ''MIN_XRP_DROPS'' (MIN_XRP_DROPS s)) (\<lambda>_.
       validate_settings s)))))))"

definition sample_settings :: settings where
  "sample_settings = \<lparr>GATEWAY_AUTH_MODE = ''single_token'', XRPL_RPC_URL = ''https://s1.ripple.com:51234'',
     MY_DESTINATION_ADDRESS = ''rMerchant'', FACILITATOR_BEARER_TOKEN = Some ''token'', REDIS_URL = ''redis'',
     NETWORK_ID = ''xrpl:1'', SETTLEMENT_MODE = None, VALIDATION_TIMEOUT = 2, MIN_XRP_DROPS = 1000,
     MAX_FEE_DROPS = 1000, ALLOWED_ISSUED_ASSETS = [], ENABLE_API_DOCS = False, ENABLE_BAZAAR = True,
     DISCOVERY_RETENTION_SECONDS = 604800, MAX_REQUEST_BODY_BYTES = 32768,
     REPLAY_PROCESSED_TTL_SECONDS = 604800\<rparr>"

lemma load_settings_id: "load_settings s = Inr t \<Longrightarrow> t = s"
  by (auto simp: load_settings_def validate_settings_def rbind_eq_Inr split: if_splits)

lemma load_settings_bounds:
  assumes "load_settings s = Inr t"
  shows "0 < VALIDATION_TIMEOUT t" and "0 < MAX_FEE_DROPS t" and "0 \<le> MIN_XRP_DROPS t"
    and "0 < REPLAY_PROCESSED_TTL_SECONDS t" and "0 < MAX_REQUEST_BODY_BYTES t"
    and "0 < DISCOVERY_RETENTION_SECONDS t" and "SETTLEMENT_MODE t = None"
    and "gateway_auth_uses_redis t \<or> FACILITATOR_BEARER_TOKEN t \<noteq> None"
  using assms
  by (auto simp: load_settings_def validate_settings_def validate_positive_int_def
      validate_non_negative_int_def gateway_auth_uses_redis_def rbind_eq_Inr split: if_splits)

end
