(* ===== verification/FacilitatorVerify.thy ===== *)
theory FacilitatorVerify
  imports Config
begin

text \<open>
  \<open>xrpl_x402_facilitator/xrpl_service.py\<close>, the verification half: from the envelope of a payment
  to the balance checks. The JSON-RPC client is an argument: its reply to a request may depend
  on every request sent so far, which covers any ledger that changes between requests. The
  state records the requests in \<open>fs_log\<close> and carries the settlement store, which verification
  never touches. A paginated query that has not ended within its fuel is \<open>Diverge\<close>.
\<close>

unbundle bit_operations_syntax

section \<open>The JSON-RPC client\<close>

datatype rpc_request =
    AccountInfo string
  | AccountLines string pyval pyval
  | AccountObjects string pyval
  | Ledger
  | Simulate pydict
  | SubmitOnly string
  | ServerState
  | Tx string int int

type_synonym rpc_client = "rpc_request list \<Rightarrow> rpc_request \<Rightarrow> exn + pyval"

record facilitator =
  fe_ext :: ext
  fe_settings :: settings
  fe_client :: rpc_client
  fe_supported :: "asset_key list"
  fe_fuel :: nat

text \<open>\<open>fs_sent\<close> keeps each submitted blob with the store as its last command left it.\<close>

record 's fac_state =
  fs_store :: 's
  fs_log :: "rpc_request list"
  fs_sent :: "(string \<times> 's) list"

definition note_sent :: "rpc_request \<Rightarrow> 's fac_state \<Rightarrow> 's fac_state" where
  "note_sent request s =
     (case request of SubmitOnly blob \<Rightarrow> s\<lparr>fs_sent := fs_sent s @ [(blob, fs_store s)]\<rparr> | _ \<Rightarrow> s)"

definition rpc :: "facilitator \<Rightarrow> rpc_request \<Rightarrow> ('s fac_state, pyval) cmd" where
  "rpc F request = (\<lambda>s.
     (case fe_client F (fs_log s) request of Inl e \<Rightarrow> Raise e | Inr v \<Rightarrow> Ok v,
      (note_sent request s)\<lparr>fs_log := fs_log s @ [request]\<rparr>))"

lemma note_sent_simps [simp]:
  "note_sent (AccountInfo a) s = s" "note_sent (AccountLines a m l) s = s" "note_sent (AccountObjects a m) s = s"
  "note_sent Ledger s = s" "note_sent (Simulate d) s = s" "note_sent ServerState s = s"
  "note_sent (Tx h i j) s = s"
  "note_sent (SubmitOnly blob) s = s\<lparr>fs_sent := fs_sent s @ [(blob, fs_store s)]\<rparr>"
  by (simp_all add: note_sent_def)

lemma note_sent_fields [simp]:
  "fs_store (note_sent request s) = fs_store s" "fs_log (note_sent request s) = fs_log s"
  by (cases request; simp)+

text \<open>\<open>ExactXRPLFacilitatorScheme.__init__\<close>.\<close>

definition make_facilitator :: "ext \<Rightarrow> settings \<Rightarrow> rpc_client \<Rightarrow> nat \<Rightarrow> exn + facilitator" where
  "make_facilitator E s client fuel =
     rbind (supported_asset_keys (NETWORK_ID s) (ALLOWED_ISSUED_ASSETS s)) (\<lambda>supported.
       Inr \<lparr>fe_ext = E, fe_settings = s, fe_client = client, fe_supported = supported, fe_fuel = fuel\<rparr>)"


section \<open>Constants and small helpers\<close>

abbreviation pve :: "string \<Rightarrow> exn" where
  "pve reason \<equiv> PaymentVerificationError reason None None"

abbreviation pve_payer :: "string \<Rightarrow> string \<Rightarrow> exn" where
  "pve_payer reason payer \<equiv> PaymentVerificationError reason None (Some payer)"

definition canonical_signing_pub_key :: "string \<Rightarrow> bool" where
  "canonical_signing_pub_key s \<longleftrightarrow>
     length s = 66 \<and> list_all is_hex s \<and> upper (take 2 s) \<in> {''02'', ''03'', ''ED''}"

abbreviation LSF_DISABLE_MASTER :: int where "LSF_DISABLE_MASTER \<equiv> 0x00100000"
abbreviation SETTLEMENT_MARGIN_SECONDS :: int where "SETTLEMENT_MARGIN_SECONDS \<equiv> 120"

definition ALLOWED_PAYMENT_FIELDS :: "string list" where
  "ALLOWED_PAYMENT_FIELDS =
     [''TransactionType'', ''Account'', ''Destination'', ''DestinationTag'', ''Amount'', ''DeliverMax'',
      ''SendMax'', ''Fee'', ''Sequence'', ''TicketSequence'', ''LastLedgerSequence'', ''NetworkID'',
      ''InvoiceID'', ''Flags'', ''SigningPubKey'', ''TxnSignature'']"

definition FORBIDDEN_FIELDS :: "(string \<times> string) list" where
  "FORBIDDEN_FIELDS =
     [(''Memos'', ''invalid_exact_xrpl_payload_memos_not_allowed''),
      (''Delegate'', ''invalid_exact_xrpl_payload_delegate_not_allowed''),
      (''Paths'', ''invalid_exact_xrpl_payload_paths_not_allowed''),
      (''DeliverMin'', ''invalid_exact_xrpl_payload_delivermin_not_allowed'')]"

definition SIMULATION_UNAVAILABLE_ERRORS :: "string list" where
  "SIMULATION_UNAVAILABLE_ERRORS =
     [''methodnotfound'', ''notimplemented'', ''notsupported'', ''unknowncmd'', ''unknowncommand'',
      ''unknownmethod'']"

text \<open>\<open>re.sub(r"[^a-z0-9]+", "", s)\<close>.\<close>

definition alnum_only :: "string \<Rightarrow> string" where
  "alnum_only s = filter (\<lambda>c. is_digit c \<or> (97 \<le> ord_c c \<and> ord_c c \<le> 122)) s"

definition is_simulation_unavailable_result :: "pydict \<Rightarrow> bool" where
  "is_simulation_unavailable_result result =
     (let error = dget result ''error'';
          error_code = dget_default result ''error_code'' (dget result ''code'');
          base = [dget result ''error_message'', dget result ''message''];
          (error_code', candidates) = (case error of
              PDict d \<Rightarrow> (dget_default d ''code'' error_code, base @ [dget d ''name'', dget d ''message''])
            | _ \<Rightarrow> (error_code, base @ [error]))
      in py_str error_code' = ''-32601'' \<or>
         list_ex (\<lambda>c. case c of PStr s \<Rightarrow> alnum_only (lower s) \<in> set SIMULATION_UNAVAILABLE_ERRORS
                              | _ \<Rightarrow> False) candidates)"

definition friendly_currency :: "string \<Rightarrow> string" where
  "friendly_currency currency =
     (if length currency = 40 then
        (case from_hex currency of
           Inl _ \<Rightarrow> upper currency
         | Inr bs \<Rightarrow> let d = rstrip_by is_nul bs in if list_all is_ascii d then upper d else upper currency)
      else upper currency)"


section \<open>The envelope\<close>

definition issuer_is :: "pyval \<Rightarrow> string option \<Rightarrow> bool" where
  "issuer_is v i = (case i of None \<Rightarrow> v = PNone | Some s \<Rightarrow> v = PStr s)"

definition asset_allowed :: "facilitator \<Rightarrow> payment_requirements \<Rightarrow> bool" where
  "asset_allowed F requirements =
     (let issuer = dget (extra_of requirements) ''issuer'';
          code = r_asset requirements;
          normalized_code = (if code = ''XRP'' then ''XRP'' else friendly_currency code)
      in list_ex (\<lambda>a. ak_code a = normalized_code \<and> issuer_is issuer (ak_issuer a)) (fe_supported F))"

definition same_fields :: "payment_requirements \<Rightarrow> payment_requirements \<Rightarrow> bool" where
  "same_fields a r \<longleftrightarrow> r_scheme a = r_scheme r \<and> r_network a = r_network r \<and> r_asset a = r_asset r
     \<and> r_amount a = r_amount r \<and> r_pay_to a = r_pay_to r
     \<and> r_max_timeout_seconds a = r_max_timeout_seconds r"

definition verify_envelope_config ::
  "facilitator \<Rightarrow> payment_requirements \<Rightarrow> string \<Rightarrow> exn + string" where
  "verify_envelope_config F requirements selected =
     (if r_network requirements \<noteq> NETWORK_ID (fe_settings F)
        then Inl (pve ''invalid_exact_xrpl_network_mismatch'')
      else if r_pay_to requirements \<noteq> MY_DESTINATION_ADDRESS (fe_settings F)
        then Inl (pve ''invalid_exact_xrpl_pay_to_mismatch'')
      else if \<not> asset_allowed F requirements
        then Inl (pve ''invalid_exact_xrpl_asset_not_allowed'')
      else if r_asset requirements = ''XRP'' then
        rbind (int_of_str (r_amount requirements)) (\<lambda>drops.
          if drops < MIN_XRP_DROPS (fe_settings F)
            then Inl (pve ''invalid_exact_xrpl_amount_below_minimum'') else Inr selected)
      else Inr selected)"

definition verify_envelope ::
  "facilitator \<Rightarrow> payment_payload \<Rightarrow> payment_requirements \<Rightarrow> exn + string" where
  "verify_envelope F payload requirements =
     (let E = fe_ext F; accepted = p_accepted payload in
      case validate_requirements_shape E requirements of
        Inl e \<Rightarrow> if is_value_error e
          then Inl (PaymentVerificationError ''invalid_exact_xrpl_requirements'' (Some (str_exn e)) None)
          else Inl e
      | Inr _ \<Rightarrow>
      if p_x402_version payload \<noteq> 2 then Inl (pve ''invalid_x402_version'')
      else case validate_requirements_shape E accepted of
        Inl e \<Rightarrow> if is_value_error e
          then Inl (PaymentVerificationError ''invalid_exact_xrpl_accepted_requirements'' (Some (str_exn e)) None)
          else Inl e
      | Inr _ \<Rightarrow>
      if \<not> same_fields accepted requirements
        then Inl (pve ''invalid_exact_xrpl_accepted_requirements_mismatch'')
      else
      let accepted_extra = dpop ''paymentFlow'' (dpop ''assetTransferMethod'' (extra_of accepted));
          required_extra = dpop ''paymentFlow'' (dpop ''assetTransferMethod'' (extra_of requirements));
          accepted_method = dget (extra_of accepted) ''assetTransferMethod'';
          required_method = dget (extra_of requirements) ''assetTransferMethod'';
          accepted_flow = py_or (dget (extra_of accepted) ''paymentFlow'') (PStr ''authorization'');
          required_flow = py_or (dget (extra_of requirements) ''paymentFlow'') (PStr ''authorization'');
          selected_method = py_or (py_or accepted_method required_method) (PStr ''sequence'')
      in
      if \<not> py_eq accepted_flow required_flow then Inl (pve ''invalid_exact_xrpl_payment_flow_mismatch'')
      else if \<not> py_eq (PDict accepted_extra) (PDict required_extra)
        then Inl (pve ''invalid_exact_xrpl_accepted_requirements_mismatch'')
      else if selected_method \<noteq> PStr ''sequence'' \<and> selected_method \<noteq> PStr ''ticketSequence''
        then Inl (pve ''invalid_exact_xrpl_asset_transfer_method'')
      else if required_method \<noteq> PNone \<and> \<not> py_eq selected_method required_method
        then Inl (pve ''invalid_exact_xrpl_asset_transfer_method_mismatch'')
      else verify_envelope_config F requirements (py_str selected_method))"


section \<open>Signature and structure\<close>

definition signature_valid :: "ext \<Rightarrow> pydict \<Rightarrow> string \<Rightarrow> string \<Rightarrow> exn + bool" where
  "signature_valid E tx signature public_key =
     rbind (encode_for_signing E (dpop ''TxnSignature'' tx)) (\<lambda>h.
     rbind (from_hex h) (\<lambda>message.
     rbind (from_hex signature) (\<lambda>sig. is_valid_message E message sig public_key)))"

definition verify_signature :: "ext \<Rightarrow> pydict \<Rightarrow> string \<Rightarrow> exn + unit" where
  "verify_signature E tx payer =
     (if dget tx ''TransactionType'' \<noteq> PStr ''Payment''
        then Inl (pve_payer ''invalid_exact_xrpl_payload_transaction_type'' payer)
      else if dget tx ''Signers'' \<noteq> PNone
        then Inl (pve_payer ''invalid_exact_xrpl_payload_multisig_not_supported'' payer)
      else if \<not> is_valid_classic_address E payer
        then Inl (pve_payer ''invalid_exact_xrpl_payload_account'' payer)
      else case as_str (dget tx ''SigningPubKey'') of
        None \<Rightarrow> Inl (pve_payer ''invalid_exact_xrpl_payload_signing_pub_key'' payer)
      | Some public_key \<Rightarrow>
      if \<not> canonical_signing_pub_key public_key
        then Inl (pve_payer ''invalid_exact_xrpl_payload_signing_pub_key'' payer)
      else case as_str (dget tx ''TxnSignature'') of
        None \<Rightarrow> Inl (pve_payer ''invalid_exact_xrpl_payload_signature'' payer)
      | Some signature \<Rightarrow>
      if signature = [] then Inl (pve_payer ''invalid_exact_xrpl_payload_signature'' payer)
      else case signature_valid E tx signature public_key of
        Inl e \<Rightarrow> Inl (PaymentVerificationError ''invalid_exact_xrpl_payload_signature''
                    (Some (str_exn e)) (Some payer))
      | Inr valid \<Rightarrow>
          if valid then Inr () else Inl (pve_payer ''invalid_exact_xrpl_payload_signature'' payer))"

definition verify_iou_amount ::
  "pyval \<Rightarrow> pyval \<Rightarrow> payment_requirements \<Rightarrow> string \<Rightarrow> exn + unit" where
  "verify_iou_amount amount send_max requirements payer =
     (case as_dict amount of
        None \<Rightarrow> Inl (pve_payer ''invalid_exact_xrpl_payload_iou_amount'' payer)
      | Some a \<Rightarrow>
        rbind (xrpl_currency_code (r_asset requirements)) (\<lambda>expected_currency.
        let expected_issuer = dget (extra_of requirements) ''issuer'' in
        if dget a ''currency'' \<noteq> PStr expected_currency
          then Inl (pve_payer ''invalid_exact_xrpl_payload_iou_currency_mismatch'' payer)
        else if \<not> py_eq (dget a ''issuer'') expected_issuer
          then Inl (pve_payer ''invalid_exact_xrpl_payload_iou_issuer_mismatch'' payer)
        else rbind (compare_decimal_strings (py_str (dget a ''value'')) (r_amount requirements)) (\<lambda>c.
        if c \<noteq> 0 then Inl (pve_payer ''invalid_exact_xrpl_payload_iou_value_mismatch'' payer)
        else case as_dict send_max of
          None \<Rightarrow> Inl (pve_payer ''invalid_exact_xrpl_payload_sendmax_required'' payer)
        | Some m \<Rightarrow>
          if dget m ''currency'' \<noteq> PStr expected_currency \<or> \<not> py_eq (dget m ''issuer'') expected_issuer
            then Inl (pve_payer ''invalid_exact_xrpl_payload_sendmax_iou_mismatch'' payer)
          else rbind (compare_decimal_strings (py_str (dget m ''value'')) (r_amount requirements)) (\<lambda>c'.
            if c' < 0 then Inl (pve_payer ''invalid_exact_xrpl_payload_sendmax_too_low'' payer)
            else Inr ()))))"

definition verify_amount :: "pydict \<Rightarrow> payment_requirements \<Rightarrow> string \<Rightarrow> exn + unit" where
  "verify_amount tx requirements payer =
     (let amount_fields = filter (\<lambda>f. dget tx f \<noteq> PNone) [''Amount'', ''DeliverMax''] in
      if length amount_fields \<noteq> 1
        then Inl (pve_payer ''invalid_exact_xrpl_payload_ambiguous_amount_fields'' payer)
      else let destination_amount = dget tx (hd amount_fields) in
      if r_asset requirements = ''XRP'' then
        (case as_str destination_amount of
           None \<Rightarrow> Inl (pve_payer ''invalid_exact_xrpl_payload_amount_xrp'' payer)
         | Some s \<Rightarrow>
           if \<not> isdigit s then Inl (pve_payer ''invalid_exact_xrpl_payload_amount_xrp'' payer)
           else rbind (int_of_str s) (\<lambda>paid. rbind (int_of_str (r_amount requirements)) (\<lambda>due.
             if paid \<noteq> due then Inl (pve_payer ''invalid_exact_xrpl_payload_amount_mismatch'' payer)
             else if dget tx ''SendMax'' \<noteq> PNone
               then Inl (pve_payer ''invalid_exact_xrpl_payload_sendmax_not_allowed'' payer)
             else Inr ())))
      else verify_iou_amount destination_amount (dget tx ''SendMax'') requirements payer)"

definition expected_invoice :: "ext \<Rightarrow> payment_requirements \<Rightarrow> exn + string option" where
  "expected_invoice E requirements =
     (case dget (extra_of requirements) ''invoiceId'' of
        PNone \<Rightarrow> Inr None
      | v \<Rightarrow> rbind (invoice_id_to_invoice_id_field E (py_str v)) (\<lambda>h. Inr (Some h)))"

definition partial_payment :: "pyval \<Rightarrow> bool" where
  "partial_payment flags =
     ((case as_int flags of Some f \<Rightarrow> f AND TF_PARTIAL_PAYMENT \<noteq> 0 | None \<Rightarrow> False)
      \<or> (case as_dict flags of Some d \<Rightarrow> truthy (dget d ''tfPartialPayment'') | None \<Rightarrow> False))"

definition verify_binding :: "facilitator \<Rightarrow> pydict \<Rightarrow> payment_requirements \<Rightarrow> string \<Rightarrow> exn + unit" where
  "verify_binding F tx requirements payer =
     (if \<not> py_eq (dget tx ''DestinationTag'') (dget (extra_of requirements) ''destinationTag'')
        then Inl (pve_payer ''invalid_exact_xrpl_payload_destination_tag_mismatch'' payer)
      else rbind (expected_invoice (fe_ext F) requirements) (\<lambda>expected.
      let actual = dget tx ''InvoiceID'';
          normalized_invoice = (if actual \<noteq> PNone then Some (upper (py_str actual)) else None) in
      if normalized_invoice \<noteq> expected
        then Inl (pve_payer ''invalid_exact_xrpl_payload_invoice_id_mismatch'' payer)
      else rbind (parse_xrpl_network_id (r_network requirements)) (\<lambda>network_id.
      if network_id \<le> 1024 \<and> dget tx ''NetworkID'' \<noteq> PNone
        then Inl (pve_payer ''invalid_exact_xrpl_payload_network_id_for_standard_network'' payer)
      else if 1024 < network_id \<and> \<not> py_eq (dget tx ''NetworkID'') (PInt network_id)
        then Inl (pve_payer ''invalid_exact_xrpl_payload_network_id_mismatch'' payer)
      else case as_str (dget tx ''Fee'') of
        None \<Rightarrow> Inl (pve_payer ''invalid_exact_xrpl_payload_fee_missing'' payer)
      | Some fee \<Rightarrow>
        if \<not> isdigit fee then Inl (pve_payer ''invalid_exact_xrpl_payload_fee_missing'' payer)
        else rbind (int_of_str fee) (\<lambda>drops.
          if MAX_FEE_DROPS (fe_settings F) < drops
            then Inl (pve_payer ''invalid_exact_xrpl_payload_fee_too_high'' payer)
          else Inr ()))))"

definition verify_structure ::
  "facilitator \<Rightarrow> pydict \<Rightarrow> payment_requirements \<Rightarrow> string \<Rightarrow> exn + unit" where
  "verify_structure F tx requirements payer =
     (let unexpected = filter (\<lambda>k. k \<notin> set ALLOWED_PAYMENT_FIELDS) (remdups (map fst tx)) in
      if unexpected \<noteq> []
        then Inl (PaymentVerificationError ''invalid_exact_xrpl_payload_unexpected_fields''
               (Some (join '', '' (sort unexpected))) (Some payer))
      else if dget tx ''Destination'' \<noteq> PStr (r_pay_to requirements)
        then Inl (pve_payer ''invalid_exact_xrpl_payload_destination_mismatch'' payer)
      else case find (\<lambda>fr. dget tx (fst fr) \<noteq> PNone) FORBIDDEN_FIELDS of
        Some (_, reason) \<Rightarrow> Inl (pve_payer reason payer)
      | None \<Rightarrow>
      if partial_payment (py_or (dget tx ''Flags'') (PInt 0))
        then Inl (pve_payer ''invalid_exact_xrpl_payload_partial_payment_not_allowed'' payer)
      else rbind (verify_amount tx requirements payer) (\<lambda>_. verify_binding F tx requirements payer))"


section \<open>Ledger and account state\<close>

definition current_ledger :: "facilitator \<Rightarrow> ('s fac_state, int) cmd" where
  "current_ledger F =
     cbind (rpc F Ledger) (\<lambda>result. clift (rbind (vindex result ''ledger_index'') py_int))"

definition account_data :: "facilitator \<Rightarrow> string \<Rightarrow> ('s fac_state, pydict) cmd" where
  "account_data F account =
     cbind (rpc F (AccountInfo account)) (\<lambda>result.
       cbind (clift (vget result ''account_data'')) (\<lambda>data.
         case as_dict data of
           None \<Rightarrow> craise (pve_payer ''invalid_exact_xrpl_account_not_found'' account)
         | Some d \<Rightarrow> creturn d))"

definition has_ticket :: "int \<Rightarrow> pyval list \<Rightarrow> bool" where
  "has_ticket ticket objects =
     list_ex (\<lambda>obj. case obj of PDict d \<Rightarrow> py_eq (dget d ''TicketSequence'') (PInt ticket) | _ \<Rightarrow> False) objects"

fun ticket_loop ::
  "facilitator \<Rightarrow> string \<Rightarrow> int \<Rightarrow> nat \<Rightarrow> pyval \<Rightarrow> string list \<Rightarrow> ('s fac_state, bool) cmd" where
  "ticket_loop F payer ticket 0 marker seen = cdiverge"
| "ticket_loop F payer ticket (Suc fuel) marker seen =
     cbind (rpc F (AccountObjects payer marker)) (\<lambda>result.
       case as_dict result of
         None \<Rightarrow> craise (RuntimeError ''AccountObjects returned a malformed result'')
       | Some d \<Rightarrow>
         (case as_list (dget_default d ''account_objects'' (PList [])) of
            None \<Rightarrow> craise (RuntimeError ''AccountObjects returned malformed account_objects'')
          | Some objects \<Rightarrow>
            if has_ticket ticket objects then creturn True
            else let marker' = dget d ''marker'' in
              if marker' = PNone then creturn False
              else if py_repr marker' \<in> set seen
                then craise (RuntimeError ''AccountObjects returned a repeated pagination marker'')
              else ticket_loop F payer ticket fuel marker' (py_repr marker' # seen)))"

definition ticket_is_available :: "facilitator \<Rightarrow> string \<Rightarrow> int \<Rightarrow> ('s fac_state, bool) cmd" where
  "ticket_is_available F payer ticket = ticket_loop F payer ticket (fe_fuel F) PNone []"

definition signer_authorized :: "string \<Rightarrow> pydict \<Rightarrow> string \<Rightarrow> int \<Rightarrow> bool" where
  "signer_authorized public_key_address account payer flags \<longleftrightarrow>
     dget account ''RegularKey'' = PStr public_key_address
     \<or> (public_key_address = payer \<and> flags AND LSF_DISABLE_MASTER = 0)"

definition verify_sequence ::
  "facilitator \<Rightarrow> pydict \<Rightarrow> pydict \<Rightarrow> string \<Rightarrow> string \<Rightarrow> ('s fac_state, unit) cmd" where
  "verify_sequence F tx account payer selected_method =
     (if selected_method = ''sequence'' then
        (if dget tx ''TicketSequence'' \<noteq> PNone
           then craise (pve_payer ''invalid_exact_xrpl_payload_ticket_sequence_not_allowed'' payer)
         else if \<not> py_eq (dget tx ''Sequence'') (dget account ''Sequence'')
           then craise (pve_payer ''invalid_exact_xrpl_payload_sequence_not_current'' payer)
         else creturn ())
      else
        (case as_int (dget tx ''TicketSequence'') of
           None \<Rightarrow> craise (pve_payer ''invalid_exact_xrpl_payload_ticket_sequence_missing'' payer)
         | Some ticket \<Rightarrow>
           if \<not> py_eq (dget tx ''Sequence'') (PInt 0)
             then craise (pve_payer ''invalid_exact_xrpl_payload_ticket_sequence_missing'' payer)
           else cbind (ticket_is_available F payer ticket) (\<lambda>available.
             if available then creturn ()
             else craise (pve_payer ''invalid_exact_xrpl_payload_ticket_not_available'' payer))))"

definition verify_ledger_and_account_state ::
  "facilitator \<Rightarrow> pydict \<Rightarrow> payment_requirements \<Rightarrow> string \<Rightarrow> string \<Rightarrow> ('s fac_state, unit) cmd" where
  "verify_ledger_and_account_state F tx requirements payer selected_method =
     cbind (current_ledger F) (\<lambda>current.
       case as_int (dget tx ''LastLedgerSequence'') of
         None \<Rightarrow> craise (pve_payer ''invalid_exact_xrpl_payload_lastledgersequence_missing'' payer)
       | Some last_ledger \<Rightarrow>
         if last_ledger \<le> current then craise (pve_payer ''invalid_exact_xrpl_payload_expired'' payer)
         else if get_max_last_ledger_sequence current requirements < last_ledger
           then craise (pve_payer ''invalid_exact_xrpl_payload_lastledgersequence_too_large'' payer)
         else cbind (account_data F payer) (\<lambda>account.
           cbind (clift (rbind (dindex tx ''SigningPubKey'') (\<lambda>k. derive_classic_address (fe_ext F) (py_str k))))
             (\<lambda>public_key_address.
           cbind (clift (py_int (dget_default account ''Flags'' (PInt 0)))) (\<lambda>flags.
             if \<not> signer_authorized public_key_address account payer flags
               then craise (pve_payer ''invalid_exact_xrpl_payload_signer_not_authorized'' payer)
             else verify_sequence F tx account payer selected_method))))"

section \<open>Simulation or balances\<close>

definition reserve_values :: "pydict \<Rightarrow> exn + int \<times> int" where
  "reserve_values validated =
     (case rbind (rbind (dindex validated ''reserve_base'') py_int) (\<lambda>base.
             rbind (rbind (dindex validated ''reserve_inc'') py_int) (\<lambda>inc. Inr (base, inc))) of
        Inl e \<Rightarrow> Inl (RuntimeError ''ServerState returned invalid reserve values'')
      | Inr (base, inc) \<Rightarrow>
          if base < 0 \<or> inc < 0 then Inl (RuntimeError ''ServerState returned negative reserve values'')
          else Inr (base, inc))"

definition xrp_reserve_parameters :: "facilitator \<Rightarrow> ('s fac_state, int \<times> int) cmd" where
  "xrp_reserve_parameters F =
     cbind (rpc F ServerState) (\<lambda>result.
       let state = (case as_dict result of Some d \<Rightarrow> dget d ''state'' | None \<Rightarrow> PNone);
           validated = (case as_dict state of Some d \<Rightarrow> dget d ''validated_ledger'' | None \<Rightarrow> PNone)
       in case as_dict validated of
            None \<Rightarrow> craise (RuntimeError ''ServerState did not return a validated ledger'')
          | Some v \<Rightarrow> clift (reserve_values v))"

definition xrp_account_reserve :: "pydict \<Rightarrow> int \<Rightarrow> int \<Rightarrow> exn + int" where
  "xrp_account_reserve account reserve_base reserve_increment =
     (case as_int (dget account ''OwnerCount'') of
        None \<Rightarrow> Inl (RuntimeError ''AccountInfo returned an invalid OwnerCount'')
      | Some n \<Rightarrow> if n < 0 then Inl (RuntimeError ''AccountInfo returned an invalid OwnerCount'')
                  else Inr (reserve_base + n * reserve_increment))"

text \<open>\<open>e in {"actNotFound", "accountNotFound"}\<close>, which raises when \<open>e\<close> cannot be hashed.\<close>

definition account_missing :: "pyval \<Rightarrow> exn + bool" where
  "account_missing e = (case e of
       PList _ \<Rightarrow> Inl (TypeError ''unhashable type'')
     | PDict _ \<Rightarrow> Inl (TypeError ''unhashable type'')
     | _ \<Rightarrow> Inr (e = PStr ''actNotFound'' \<or> e = PStr ''accountNotFound''))"

definition account_exists :: "facilitator \<Rightarrow> string \<Rightarrow> ('s fac_state, bool) cmd" where
  "account_exists F account =
     cbind (rpc F (AccountInfo account)) (\<lambda>result.
       case as_dict result of
         None \<Rightarrow> craise (RuntimeError ''AccountInfo returned a malformed result'')
       | Some d \<Rightarrow>
         if as_dict (dget d ''account_data'') \<noteq> None then creturn True
         else cbind (clift (account_missing (dget d ''error''))) (\<lambda>missing.
           if missing then creturn False
           else craise (RuntimeError ''AccountInfo could not determine account existence'')))"

definition issuer_transfer_rate :: "facilitator \<Rightarrow> string \<Rightarrow> string \<Rightarrow> ('s fac_state, int) cmd" where
  "issuer_transfer_rate F issuer payer =
     cbind (rpc F (AccountInfo issuer)) (\<lambda>result.
       case as_dict (case as_dict result of Some d \<Rightarrow> dget d ''account_data'' | None \<Rightarrow> PNone) of
         None \<Rightarrow> craise (pve_payer ''invalid_exact_xrpl_payload_iou_issuer_account_not_found'' payer)
       | Some account \<Rightarrow>
         (case as_int (dget_default account ''TransferRate'' (PInt 1000000000)) of
            None \<Rightarrow> craise (RuntimeError ''AccountInfo returned an invalid TransferRate'')
          | Some rate \<Rightarrow>
            if 1000000000 \<le> rate \<and> rate \<le> 2000000000 then creturn rate
            else craise (RuntimeError ''AccountInfo returned an invalid TransferRate'')))"

text \<open>The pages of \<open>AccountLines\<close>, with the lines collected so far.\<close>

fun lines_loop ::
  "facilitator \<Rightarrow> string \<Rightarrow> pyval \<Rightarrow> nat \<Rightarrow> pyval \<Rightarrow> string list \<Rightarrow> pydict list \<Rightarrow> ('s fac_state, pydict list) cmd" where
  "lines_loop F payer issuer 0 marker seen acc = cdiverge"
| "lines_loop F payer issuer (Suc fuel) marker seen acc =
     cbind (rpc F (AccountLines payer issuer marker)) (\<lambda>result.
       case as_dict result of
         None \<Rightarrow> craise (RuntimeError ''AccountLines returned a malformed result'')
       | Some d \<Rightarrow>
         (case as_list (dget_default d ''lines'' (PList [])) of
            None \<Rightarrow> craise (RuntimeError ''AccountLines returned a malformed result'')
          | Some ls \<Rightarrow>
            let acc' = acc @ List.map_filter as_dict ls; marker' = dget d ''marker'' in
            if marker' = PNone then creturn acc'
            else if py_repr marker' \<in> set seen
              then craise (RuntimeError ''AccountLines returned a repeated pagination marker'')
            else lines_loop F payer issuer fuel marker' (py_repr marker' # seen) acc'))"

definition matching_line :: "pyval \<Rightarrow> string \<Rightarrow> pydict \<Rightarrow> bool" where
  "matching_line issuer currency line \<longleftrightarrow>
     py_eq (dget line ''account'') issuer
     \<and> friendly_currency (py_str (dget_default line ''currency'' (PStr []))) = friendly_currency currency"

definition sendmax_too_low ::
  "payment_requirements \<Rightarrow> pyval \<Rightarrow> string \<Rightarrow> pydec \<Rightarrow> pydec \<Rightarrow> int \<Rightarrow> exn + bool" where
  "sendmax_too_low requirements issuer payer source_amount destination_amount transfer_rate =
     (if PStr payer \<noteq> issuer \<and> PStr (r_pay_to requirements) \<noteq> issuer then
        rbind (dec_mul source_amount (dec_of_int 1000000000)) (\<lambda>available.
        rbind (dec_mul destination_amount (dec_of_int transfer_rate)) (\<lambda>needed.
          dec_lt available needed))
      else Inr False)"

definition trustline_short :: "pydict list \<Rightarrow> pydec \<Rightarrow> exn + bool" where
  "trustline_short matching source_amount =
     (case matching of
        [] \<Rightarrow> Inr True
      | line # _ \<Rightarrow>
        rbind (decimal_of_str (py_str (dget_default line ''balance'' (PStr ''0'')))) (\<lambda>balance.
          dec_lt balance source_amount))"

definition targeted_xrp_check ::
  "facilitator \<Rightarrow> payment_requirements \<Rightarrow> string \<Rightarrow> int \<Rightarrow> int \<Rightarrow> int \<Rightarrow> ('s fac_state, unit) cmd" where
  "targeted_xrp_check F requirements payer spendable fee reserve_base =
     cbind (clift (int_of_str (r_amount requirements))) (\<lambda>amount.
       if spendable < amount + fee
         then craise (pve_payer ''invalid_exact_xrpl_payload_insufficient_balance'' payer)
       else cbind (account_exists F (r_pay_to requirements)) (\<lambda>exists.
         if \<not> exists \<and> amount < reserve_base
           then craise (pve_payer
             ''invalid_exact_xrpl_payload_destination_account_creation_amount_too_low'' payer)
         else creturn ()))"

definition targeted_iou_check ::
  "facilitator \<Rightarrow> pydict \<Rightarrow> payment_requirements \<Rightarrow> string \<Rightarrow> int \<Rightarrow> int \<Rightarrow> ('s fac_state, unit) cmd" where
  "targeted_iou_check F tx requirements payer spendable fee =
     (if spendable < fee
        then craise (pve_payer ''invalid_exact_xrpl_payload_insufficient_balance'' payer)
      else let issuer = dget (extra_of requirements) ''issuer'' in
      cbind (clift (xrpl_currency_code (r_asset requirements))) (\<lambda>currency.
      cbind (lines_loop F payer issuer (fe_fuel F) PNone [] []) (\<lambda>ls.
      cbind (clift (rbind (rbind (dindex tx ''SendMax'') (\<lambda>m. vindex m ''value''))
               (\<lambda>v. decimal_of_str (py_str v)))) (\<lambda>source_amount.
      cbind (clift (decimal_of_str (r_amount requirements))) (\<lambda>destination_amount.
      cbind (issuer_transfer_rate F (py_str issuer) payer) (\<lambda>transfer_rate.
      cbind (clift (sendmax_too_low requirements issuer payer source_amount destination_amount transfer_rate))
        (\<lambda>low.
      if low then craise (pve_payer ''invalid_exact_xrpl_payload_sendmax_transfer_fee_too_low'' payer)
      else cbind (clift (trustline_short (filter (matching_line issuer currency) ls) source_amount)) (\<lambda>short.
      if short
        then craise (pve_payer ''invalid_exact_xrpl_payload_insufficient_trustline_balance'' payer)
      else creturn ()))))))))"

definition targeted_balance_check ::
  "facilitator \<Rightarrow> pydict \<Rightarrow> payment_requirements \<Rightarrow> string \<Rightarrow> ('s fac_state, unit) cmd" where
  "targeted_balance_check F tx requirements payer =
     cbind (account_data F payer) (\<lambda>account.
     cbind (clift (rbind (dindex account ''Balance'') py_int)) (\<lambda>balance.
     cbind (xrp_reserve_parameters F) (\<lambda>params.
     cbind (clift (xrp_account_reserve account (fst params) (snd params))) (\<lambda>reserve.
     cbind (clift (rbind (dindex tx ''Fee'') py_int)) (\<lambda>fee.
       if r_asset requirements = ''XRP''
         then targeted_xrp_check F requirements payer (balance - reserve) fee (fst params)
       else targeted_iou_check F tx requirements payer (balance - reserve) fee)))))"

definition simulate_or_check ::
  "facilitator \<Rightarrow> pydict \<Rightarrow> payment_requirements \<Rightarrow> string \<Rightarrow> ('s fac_state, string) cmd" where
  "simulate_or_check F tx requirements payer =
     cbind (clift (payment_from_xrpl (fe_ext F)
              (dpop ''Signers'' (dpop ''SigningPubKey'' (dpop ''TxnSignature'' tx))))) (\<lambda>payment.
     cbind (rpc F (Simulate payment)) (\<lambda>res.
       let result = (case as_dict res of Some d \<Rightarrow> d | None \<Rightarrow> []) in
       if is_simulation_unavailable_result result
         then cbind (targeted_balance_check F tx requirements payer) (\<lambda>_. creturn ''targetedChecks'')
       else let engine_result = dget result ''engine_result'' in
         if engine_result \<noteq> PStr ''tesSUCCESS''
           then craise (pve_payer (''invalid_exact_xrpl_payload_simulation_failed: '' @
                  py_str (py_or engine_result (PStr ''unknown''))) payer)
         else creturn ''simulation''))"

text \<open>The \<open>try\<close> covers the targeted check inside it: when that check fails with anything but a
  \<open>PaymentVerificationError\<close> it runs once more.\<close>

definition is_pve :: "exn \<Rightarrow> bool" where
  "is_pve e = (case e of PaymentVerificationError _ _ _ \<Rightarrow> True | _ \<Rightarrow> False)"

definition verify_simulation_or_balances ::
  "facilitator \<Rightarrow> pydict \<Rightarrow> payment_requirements \<Rightarrow> string \<Rightarrow> ('s fac_state, string) cmd" where
  "verify_simulation_or_balances F tx requirements payer =
     ctry (simulate_or_check F tx requirements payer) (\<lambda>e.
       if is_pve e then craise e
       else cbind (targeted_balance_check F tx requirements payer) (\<lambda>_. creturn ''targetedChecks''))"


section \<open>Verification\<close>

record verified_transaction =
  vt_transaction :: pydict
  vt_hash :: string
  vt_payer :: string
  vt_path :: string

record verify_response =
  vr_is_valid :: bool
  vr_invalid_reason :: "string option"
  vr_invalid_message :: "string option"
  vr_payer :: "string option"
  vr_verification_path :: "string option"

definition decode_blob :: "ext \<Rightarrow> string \<Rightarrow> exn + pydict" where
  "decode_blob E blob = (case codec_decode E blob of
       Inl e \<Rightarrow> Inl (PaymentVerificationError ''invalid_exact_xrpl_payload'' (Some (str_exn e)) None)
     | Inr tx \<Rightarrow> Inr tx)"

definition payer_of :: "pydict \<Rightarrow> string" where
  "payer_of tx = py_str (py_or (dget tx ''Account'') (PStr []))"

definition verify_transaction ::
  "facilitator \<Rightarrow> payment_payload \<Rightarrow> payment_requirements \<Rightarrow> ('s fac_state, verified_transaction) cmd" where
  "verify_transaction F payload requirements =
     cbind (clift (verify_envelope F payload requirements)) (\<lambda>selected_method.
     cbind (clift (exact_xrpl_payload payload)) (\<lambda>blob.
     cbind (clift (decode_blob (fe_ext F) blob)) (\<lambda>tx.
     let payer = payer_of tx in
     cbind (clift (verify_signature (fe_ext F) tx payer)) (\<lambda>_.
     cbind (clift (verify_structure F tx requirements payer)) (\<lambda>_.
     cbind (verify_ledger_and_account_state F tx requirements payer selected_method) (\<lambda>_.
     cbind (verify_simulation_or_balances F tx requirements payer) (\<lambda>path.
     cbind (clift (signed_transaction_hash (fe_ext F) blob)) (\<lambda>h.
       creturn \<lparr>vt_transaction = tx, vt_hash = h, vt_payer = payer, vt_path = path\<rparr>))))))))"

text \<open>The two \<open>except\<close> clauses of \<open>verify\<close>.\<close>

definition verify_failure :: "exn \<Rightarrow> ('s, verify_response) cmd" where
  "verify_failure e = (case e of
       PaymentVerificationError reason message payer \<Rightarrow>
         creturn \<lparr>vr_is_valid = False, vr_invalid_reason = Some reason, vr_invalid_message = message,
                  vr_payer = payer, vr_verification_path = None\<rparr>
     | _ \<Rightarrow> craise e)"

definition verify :: "facilitator \<Rightarrow> payment_payload \<Rightarrow> payment_requirements \<Rightarrow> ('s fac_state, verify_response) cmd" where
  "verify F payload requirements =
     ctry_else (verify_transaction F payload requirements) verify_failure (\<lambda>verified.
        creturn \<lparr>vr_is_valid = True, vr_invalid_reason = None, vr_invalid_message = None,
                     vr_payer = Some (vt_payer verified), vr_verification_path = Some (vt_path verified)\<rparr>)"

section \<open>A sample facilitator\<close>

text \<open>A payment of 1000 drops, and a ledger on which it is current, funded and later validated.\<close>

definition sample_tx :: pydict where
  "sample_tx =
     [(''Account'', PStr ''rPayer''), (''TransactionType'', PStr ''Payment''), (''Destination'', PStr ''rMerchant''),
      (''Amount'', PStr ''1000''), (''Fee'', PStr ''10''), (''Sequence'', PInt 5), (''Flags'', PInt 0),
      (''LastLedgerSequence'', PInt 1010), (''SigningPubKey'', PStr (''ED'' @ replicate 64 (CHR ''0''))),
      (''TxnSignature'', PStr ''00'')]"

definition sample_payload :: payment_payload where
  "sample_payload = \<lparr>p_x402_version = 2, p_payload = [(''signedTxBlob'', PStr ''AB12'')], p_accepted = sample_xrp,
     p_resource = None, p_extensions = None\<rparr>"

definition sample_client :: rpc_client where
  "sample_client h request = (case request of
       Ledger \<Rightarrow> Inr (PDict [(''ledger_index'', PInt 1000)])
     | AccountInfo _ \<Rightarrow> Inr (PDict [(''account_data'', PDict [(''Sequence'', PInt 5), (''Flags'', PInt 0),
           (''Balance'', PStr ''100000000''), (''OwnerCount'', PInt 0)])])
     | ServerState \<Rightarrow> Inr (PDict [(''state'', PDict [(''validated_ledger'',
           PDict [(''reserve_base'', PInt 1000000), (''reserve_inc'', PInt 200000)])])])
     | Simulate _ \<Rightarrow> Inr (PDict [(''engine_result'', PStr ''tesSUCCESS'')])
     | SubmitOnly _ \<Rightarrow> Inr (PDict [(''engine_result'', PStr ''tesSUCCESS'')])
     | Tx _ _ _ \<Rightarrow> Inr (PDict [(''validated'', PBool True), (''meta'', PDict
           [(''TransactionResult'', PStr ''tesSUCCESS''), (''delivered_amount'', PStr ''1000'')])])
     | _ \<Rightarrow> Inr (PDict []))"

definition sample_facilitator :: facilitator where
  "sample_facilitator = \<lparr>
     fe_ext = sample_ext\<lparr>codec_decode := \<lambda>_. Inr sample_tx, derive_classic_address := \<lambda>_. Inr ''rPayer''\<rparr>,
     fe_settings = sample_settings, fe_client = sample_client,
     fe_supported = [\<lparr>ak_code = ''XRP'', ak_issuer = None\<rparr>], fe_fuel = 10\<rparr>"

section \<open>What the scheme announces\<close>

text \<open>\<open>get_extra\<close> and \<open>get_signers\<close>, the parts of the answer of \<open>/supported\<close> that are of this scheme; both ignore
  the network.\<close>

definition payment_flow :: pyval where
  "payment_flow = PDict [(''supported'', PList [PStr ''authorization'']), (''default'', PStr ''authorization'')]"

definition get_extra :: "string \<Rightarrow> pydict" where
  "get_extra network =
     [(''areFeesSponsored'', PBool False), (''defaultAssetTransferMethod'', PStr ''sequence''),
      (''assetTransferMethods'', PList [PStr ''sequence'', PStr ''ticketSequence'']),
      (''paymentFlows'', PDict [(''sequence'', payment_flow), (''ticketSequence'', payment_flow)])]"

definition get_signers :: "string \<Rightarrow> string list" where
  "get_signers network = []"

end
