(* ===== verification/Signer.thy ===== *)
theory Signer
  imports FacilitatorVerify
begin

text \<open>
  \<open>xrpl_x402_client/signer.py\<close>: building and signing a payment for a set of requirements, the
  ticket inventory, and the choice among the offers of a 402 response. The JSON-RPC client, the
  transaction preparation and the signature of xrpl-py, and the header codec of the x402 SDK are
  arguments; the state is the list of calls made to the ledger so far.
\<close>

section \<open>Data\<close>

text \<open>The fields of xrpl-py's \<open>Payment\<close> that the signer sets or reads.\<close>

record payment =
  pm_account :: string
  pm_destination :: string
  pm_amount :: pyval
  pm_send_max :: "pyval option"
  pm_invoice_id :: "string option"
  pm_destination_tag :: "int option"
  pm_network_id :: "int option"
  pm_last_ledger_sequence :: "int option"
  pm_sequence :: "int option"
  pm_ticket_sequence :: "int option"
  pm_fee :: "string option"

datatype client_call = CLedger | CAccountObjects string pyval | CTicketCreate string int | CAutofill payment

record signer =
  sg_ext :: ext
  sg_address :: string
  sg_network :: "string option"
  sg_client :: "client_call list \<Rightarrow> client_call \<Rightarrow> exn + pyval"
  sg_check_issued :: "string \<Rightarrow> string \<Rightarrow> string \<Rightarrow> exn + unit"
  sg_check_payment :: "payment \<Rightarrow> exn + unit"
  sg_autofill :: "client_call list \<Rightarrow> payment \<Rightarrow> exn + payment"
  sg_sign :: "payment \<Rightarrow> exn + string"
  sg_autofill_enabled :: bool
  sg_default_fee :: string
  sg_default_sequence :: int
  sg_default_last_ledger_sequence :: "int option"
  sg_ticket_inventory_target :: int
  sg_get_current_ledger_index :: "(string \<Rightarrow> int) option"
  sg_get_available_ticket_sequence :: "(string \<Rightarrow> string \<Rightarrow> int option) option"
  sg_fuel :: nat

type_synonym 'a client_cmd = "(client_call list, 'a) cmd"

definition client_rpc :: "signer \<Rightarrow> client_call \<Rightarrow> pyval client_cmd" where
  "client_rpc S call = (\<lambda>h. (case sg_client S h call of Inl e \<Rightarrow> Raise e | Inr v \<Rightarrow> Ok v, h @ [call]))"

definition make_signer :: "signer \<Rightarrow> exn + signer" where
  "make_signer S =
     (if 0 \<le> sg_ticket_inventory_target S \<and> sg_ticket_inventory_target S \<le> 250 then Inr S
      else Inl (ValueError ''ticket_inventory_target must be between 0 and 250''))"


section \<open>Tickets\<close>

text \<open>\<open>k in v\<close>.\<close>

definition contains :: "string \<Rightarrow> pyval \<Rightarrow> exn + bool" where
  "contains k v = (case v of
       PDict d \<Rightarrow> Inr (map_of d k \<noteq> None)
     | PList xs \<Rightarrow> Inr (PStr k \<in> set xs)
     | PStr s \<Rightarrow> Inr (list_ex (\<lambda>n. starts_with k (drop n s)) [0..<Suc (length s)])
     | _ \<Rightarrow> Inl (TypeError ''argument is not iterable''))"

definition created_ticket :: "pyval \<Rightarrow> exn + int option" where
  "created_ticket node =
     (let created = (case node of PDict d \<Rightarrow> dget_default d ''CreatedNode'' (PDict []) | _ \<Rightarrow> PDict []) in
      rbind (vget created ''LedgerEntryType'') (\<lambda>t.
        if t \<noteq> PStr ''Ticket'' then Inr None
        else case created of
          PDict c \<Rightarrow>
            (let fields = dget_default c ''NewFields'' (PDict []) in
             rbind (contains ''TicketSequence'' fields) (\<lambda>has.
               if has then rbind (rbind (vindex fields ''TicketSequence'') py_int) (\<lambda>i. Inr (Some i))
               else Inr None))
        | _ \<Rightarrow> Inr None))"

text \<open>Iterating over something that is not a list: a dictionary or a string has string elements,
  which are no nodes.\<close>

definition iter_nodes :: "pyval \<Rightarrow> exn + pyval list" where
  "iter_nodes v = (case v of
       PList xs \<Rightarrow> Inr xs
     | PDict d \<Rightarrow> Inr (map (\<lambda>kv. PStr (fst kv)) d)
     | PStr s \<Rightarrow> Inr (map (\<lambda>c. PStr [c]) s)
     | _ \<Rightarrow> Inl (TypeError ''object is not iterable''))"

definition ticket_sequences_from_metadata :: "pyval \<Rightarrow> exn + int list" where
  "ticket_sequences_from_metadata meta = (case as_dict meta of
       None \<Rightarrow> Inr []
     | Some m \<Rightarrow>
       rbind (iter_nodes (dget_default m ''AffectedNodes'' (PList []))) (\<lambda>nodes.
       rbind (map_exn created_ticket nodes) (\<lambda>ts. Inr (List.map_filter id ts))))"

definition ticket_entries :: "pyval list \<Rightarrow> exn + int list" where
  "ticket_entries objects =
     map_exn py_int (List.map_filter (\<lambda>obj. case obj of PDict d \<Rightarrow> map_of d ''TicketSequence'' | _ \<Rightarrow> None) objects)"

fun client_ticket_loop :: "signer \<Rightarrow> nat \<Rightarrow> pyval \<Rightarrow> string list \<Rightarrow> int list \<Rightarrow> int list client_cmd" where
  "client_ticket_loop S 0 marker seen tickets = cdiverge"
| "client_ticket_loop S (Suc fuel) marker seen tickets =
     cbind (client_rpc S (CAccountObjects (sg_address S) marker)) (\<lambda>result.
       case as_dict result of
         None \<Rightarrow> craise (ValueError ''AccountObjects returned a malformed result'')
       | Some d \<Rightarrow>
         (case as_list (dget_default d ''account_objects'' (PList [])) of
            None \<Rightarrow> craise (ValueError ''AccountObjects returned malformed account_objects'')
          | Some objects \<Rightarrow>
            cbind (clift (ticket_entries objects)) (\<lambda>new.
              let tickets' = tickets @ new; marker' = dget d ''marker'' in
              if marker' = PNone then creturn (sort (remdups tickets'))
              else if py_repr marker' \<in> set seen
                then craise (ValueError ''AccountObjects returned a repeated pagination marker'')
              else client_ticket_loop S fuel marker' (py_repr marker' # seen) tickets')))"

definition available_ticket_sequences :: "signer \<Rightarrow> int list client_cmd" where
  "available_ticket_sequences S = client_ticket_loop S (sg_fuel S) PNone [] []"

definition ensure_tickets :: "signer \<Rightarrow> int list \<Rightarrow> int client_cmd" where
  "ensure_tickets S tickets =
     (let missing = sg_ticket_inventory_target S - int (length tickets) in
      cbind (if 0 < missing then
               cbind (client_rpc S (CTicketCreate (sg_address S) missing)) (\<lambda>result.
               cbind (clift (vget result ''meta'')) (\<lambda>meta.
               cbind (clift (ticket_sequences_from_metadata meta)) (\<lambda>new. creturn (tickets @ new))))
             else creturn tickets) (\<lambda>all_tickets.
        case all_tickets of
          t # ts \<Rightarrow> creturn (fold min ts t)
        | [] \<Rightarrow>
          if sg_ticket_inventory_target S = 0
            then craise (ValueError ''No available XRPL ticket; automatic ticket creation is disabled'')
          else craise (ValueError ''TicketCreate returned no tickets'')))"

definition available_ticket :: "signer \<Rightarrow> string \<Rightarrow> int client_cmd" where
  "available_ticket S network =
     (case sg_get_available_ticket_sequence S of
        Some f \<Rightarrow> (case f (sg_address S) network of
            Some ticket \<Rightarrow> creturn ticket
          | None \<Rightarrow> ensure_tickets S [])
      | None \<Rightarrow> cbind (available_ticket_sequences S) (ensure_tickets S))"


section \<open>Signing\<close>

definition client_current_ledger :: "signer \<Rightarrow> string \<Rightarrow> int option client_cmd" where
  "client_current_ledger S network =
     (case sg_get_current_ledger_index S of
        Some f \<Rightarrow> creturn (Some (f network))
      | None \<Rightarrow>
        if \<not> sg_autofill_enabled S then creturn None
        else cbind (client_rpc S CLedger) (\<lambda>result.
          cbind (clift (rbind (vindex result ''ledger_index'') py_int)) (\<lambda>i. creturn (Some i))))"

definition validate_prepared :: "payment \<Rightarrow> string \<Rightarrow> int \<Rightarrow> exn + unit" where
  "validate_prepared p transfer_method network_id =
     (if (case pm_fee p of None \<Rightarrow> True | Some fee \<Rightarrow> \<not> isdigit fee)
        then Inl (ValueError ''Prepared payment must set Fee in drops'')
      else if pm_last_ledger_sequence p = None
        then Inl (ValueError ''Prepared payment must set LastLedgerSequence'')
      else rbind
        (if transfer_method = ''sequence'' then
           (if pm_ticket_sequence p \<noteq> None
              then Inl (ValueError ''sequence payments must not set TicketSequence'')
            else if pm_sequence p \<in> {None, Some 0}
              then Inl (ValueError ''sequence payments must set the account Sequence'')
            else Inr ())
         else
           (if pm_sequence p \<noteq> Some 0 \<or> pm_ticket_sequence p = None
              then Inl (ValueError ''ticketSequence payments require Sequence 0 and TicketSequence'')
            else Inr ())) (\<lambda>_.
        if network_id \<le> 1024 \<and> pm_network_id p \<noteq> None
          then Inl (ValueError ''Standard XRPL networks must omit NetworkID'')
        else if 1024 < network_id \<and> pm_network_id p \<noteq> Some network_id
          then Inl (ValueError ''Custom XRPL networks must set the matching NetworkID'')
        else Inr ()))"

definition issued_amount :: "string \<Rightarrow> string \<Rightarrow> string \<Rightarrow> pyval" where
  "issued_amount currency issuer value =
     PDict [(''currency'', PStr currency), (''issuer'', PStr issuer), (''value'', PStr value)]"

definition payment_amount ::
  "signer \<Rightarrow> payment_requirements \<Rightarrow> exact_xrpl_extra_model \<Rightarrow> exn + pyval \<times> pyval option" where
  "payment_amount S requirements extra =
     (if r_asset requirements \<noteq> ''XRP'' then
        rbind (xrpl_currency_code (r_asset requirements)) (\<lambda>currency.
        let issuer = (case x_issuer extra of Some i \<Rightarrow> i | None \<Rightarrow> []) in
        rbind (sg_check_issued S currency issuer (r_amount requirements)) (\<lambda>_.
        let issued = issued_amount currency issuer (r_amount requirements) in
        Inr (issued, Some issued)))
      else Inr (PStr (r_amount requirements), None))"

definition transfer_method :: "exact_xrpl_extra_model \<Rightarrow> string" where
  "transfer_method extra = (case x_asset_transfer_method extra of Some (c # cs) \<Rightarrow> c # cs | _ \<Rightarrow> ''sequence'')"

definition payment_invoice :: "signer \<Rightarrow> exact_xrpl_extra_model \<Rightarrow> exn + string option" where
  "payment_invoice S extra = (case x_invoice_id extra of
       None \<Rightarrow> Inr None
     | Some i \<Rightarrow> rbind (invoice_id_to_invoice_id_field (sg_ext S) i) (\<lambda>f. Inr (Some f)))"

definition payment_ticket :: "signer \<Rightarrow> payment_requirements \<Rightarrow> string \<Rightarrow> int option client_cmd" where
  "payment_ticket S requirements tmethod =
     (if tmethod = ''ticketSequence''
        then cbind (available_ticket S (r_network requirements)) (\<lambda>t. creturn (Some t))
      else creturn None)"

text \<open>The \<open>Payment\<close> of the collected arguments.\<close>

definition payment_of ::
  "signer \<Rightarrow> payment_requirements \<Rightarrow> exact_xrpl_extra_model \<Rightarrow> int \<Rightarrow> int option \<Rightarrow> pyval \<times> pyval option
     \<Rightarrow> string option \<Rightarrow> int option \<Rightarrow> payment" where
  "payment_of S requirements extra network_id last_ledger_sequence amounts invoice ticket =
     \<lparr>pm_account = sg_address S, pm_destination = r_pay_to requirements, pm_amount = fst amounts,
      pm_send_max = snd amounts, pm_invoice_id = invoice, pm_destination_tag = x_destination_tag extra,
      pm_network_id = (if 1024 < network_id then Some network_id else None),
      pm_last_ledger_sequence = last_ledger_sequence,
      pm_sequence = (if transfer_method extra = ''ticketSequence'' then Some 0
                     else if \<not> sg_autofill_enabled S then Some (sg_default_sequence S) else None),
      pm_ticket_sequence = ticket,
      pm_fee = (if \<not> sg_autofill_enabled S then Some (sg_default_fee S) else None)\<rparr>"

definition prepare_payment :: "signer \<Rightarrow> payment \<Rightarrow> payment client_cmd" where
  "prepare_payment S p =
     (if sg_autofill_enabled S
        then (\<lambda>h. (case sg_autofill S h p of Inl e \<Rightarrow> Raise e | Inr q \<Rightarrow> Ok q, h @ [CAutofill p]))
      else creturn p)"

definition sign_requirements :: "signer \<Rightarrow> payment_requirements \<Rightarrow> string client_cmd" where
  "sign_requirements S requirements =
     cbind (clift (validate_requirements_shape (sg_ext S) requirements)) (\<lambda>extra.
     if sg_network S \<noteq> None \<and> sg_network S \<noteq> Some (r_network requirements)
       then craise (ValueError (''Payment requirements network '' @ r_network requirements @
              '' does not match signer network '' @ (case sg_network S of Some n \<Rightarrow> n | None \<Rightarrow> [])))
     else
     cbind (clift (parse_xrpl_network_id (r_network requirements))) (\<lambda>network_id.
     cbind (client_current_ledger S (r_network requirements)) (\<lambda>current_ledger.
     cbind (clift (payment_amount S requirements extra)) (\<lambda>amounts.
     cbind (clift (payment_invoice S extra)) (\<lambda>invoice.
     cbind (payment_ticket S requirements (transfer_method extra)) (\<lambda>ticket.
     let last_ledger_sequence = (case current_ledger of
             Some current \<Rightarrow> Some (get_max_last_ledger_sequence current requirements)
           | None \<Rightarrow> sg_default_last_ledger_sequence S);
         p = payment_of S requirements extra network_id last_ledger_sequence amounts invoice ticket in
     cbind (clift (sg_check_payment S p)) (\<lambda>_.
     cbind (prepare_payment S p) (\<lambda>prepared.
     cbind (clift (validate_prepared prepared (transfer_method extra) network_id)) (\<lambda>_.
     cbind (clift (sg_sign S prepared)) (\<lambda>blob. creturn (upper blob)))))))))))"

definition build_x402_payload :: "signer \<Rightarrow> payment_requirements \<Rightarrow> pydict client_cmd" where
  "build_x402_payload S requirements =
     cbind (sign_requirements S requirements) (\<lambda>blob.
     cbind (clift (ExactXRPLPayload_validate [(''signedTxBlob'', PStr blob)])) (\<lambda>b.
       creturn [(''signedTxBlob'', PStr b)]))"


section \<open>Choosing among the offers\<close>

record payment_required =
  pr_version :: int
  pr_accepts :: "payment_requirements list"
  pr_resource :: "pydict option"
  pr_extensions :: "pydict option"

text \<open>Membership in \<open>{None, "authorization"}\<close>, which raises for a value that cannot be hashed.\<close>

definition is_authorization_flow :: "payment_requirements \<Rightarrow> exn + bool" where
  "is_authorization_flow requirement = (case dget (extra_of requirement) ''paymentFlow'' of
       PList _ \<Rightarrow> Inl (TypeError ''unhashable type'')
     | PDict _ \<Rightarrow> Inl (TypeError ''unhashable type'')
     | v \<Rightarrow> Inr (v = PNone \<or> v = PStr ''authorization''))"

definition enforce_default_asset_issuers :: "payment_requirements list \<Rightarrow> exn + payment_requirements list" where
  "enforce_default_asset_issuers requirements =
     filter_exn (\<lambda>requirement.
       if \<not> (r_scheme requirement = ''exact'' \<and> is_valid_xrpl_network (r_network requirement)) then Inr True
       else rbind (is_authorization_flow requirement) (\<lambda>auth.
         if \<not> auth then Inr False
         else case find_default_asset (r_asset requirement) (r_network requirement) of
             None \<Rightarrow> Inr True
           | Some d \<Rightarrow> Inr (dget (extra_of requirement) ''issuer'' = PStr (da_issuer d)))) requirements"

definition select_payment_option ::
  "payment_required \<Rightarrow> string option \<Rightarrow> string option \<Rightarrow> string option \<Rightarrow> exn + payment_requirements" where
  "select_payment_option required network asset issuer =
     rbind (filter_exn (\<lambda>item.
              if r_scheme item = ''exact'' \<and> is_valid_xrpl_network (r_network item)
                then is_authorization_flow item else Inr False) (pr_accepts required)) (\<lambda>c0.
     let c1 = (case network of None \<Rightarrow> c0 | Some n \<Rightarrow> filter (\<lambda>item. r_network item = n) c0) in
     rbind (case asset of
              None \<Rightarrow> Inr c1
            | Some a \<Rightarrow> rbind (normalize_currency_code a) (\<lambda>wanted.
                filter_exn (\<lambda>item. rbind (normalize_currency_code (r_asset item)) (\<lambda>c. Inr (c = wanted))) c1)) (\<lambda>c2.
     let c3 = (case issuer of None \<Rightarrow> c2
               | Some i \<Rightarrow> filter (\<lambda>item. dget (extra_of item) ''issuer'' = PStr i) c2) in
     case c3 of
       [] \<Rightarrow> Inl (ValueError ''No matching XRPL authorization payment requirements found'')
     | item # _ \<Rightarrow> Inr item))"

text \<open>\<open>build_payment_signature\<close> for a 402 response, up to the header encoding; \<open>append_id\<close> is the
  SDK's payment identifier extension and \<open>fresh\<close> the new identifier.\<close>

definition build_payment_payload ::
  "(pydict \<Rightarrow> string \<Rightarrow> pydict) \<Rightarrow> payment_required \<Rightarrow> signer \<Rightarrow> string option \<Rightarrow> string option \<Rightarrow> string option
     \<Rightarrow> string option \<Rightarrow> string \<Rightarrow> payment_payload client_cmd" where
  "build_payment_payload append_id required S network asset issuer payment_identifier fresh =
     cbind (clift (select_payment_option required network asset issuer)) (\<lambda>requirements.
     let extensions = (case pr_extensions required of
           Some (e # es) \<Rightarrow> Some (append_id (e # es)
             (case payment_identifier of Some (c # cs) \<Rightarrow> c # cs | _ \<Rightarrow> ''xrpl-x402-'' @ fresh))
         | x \<Rightarrow> x) in
     cbind (build_x402_payload S requirements) (\<lambda>payload.
       creturn \<lparr>p_x402_version = 2, p_payload = payload, p_accepted = requirements,
                p_resource = pr_resource required, p_extensions = extensions\<rparr>))"

definition decode_payment_required :: "(string \<Rightarrow> exn + payment_required option) \<Rightarrow> string \<Rightarrow> exn + payment_required" where
  "decode_payment_required decode raw =
     rbind (decode raw) (\<lambda>decoded. case decoded of
         Some required \<Rightarrow>
           if pr_version required = 2 then Inr required
           else Inl (ValueError ''Only canonical x402 v2 PAYMENT-REQUIRED headers are supported'')
       | None \<Rightarrow> Inl (ValueError ''Only canonical x402 v2 PAYMENT-REQUIRED headers are supported''))"

definition decode_payment_required_response ::
  "(string \<Rightarrow> exn + payment_required option) \<Rightarrow> (string \<times> string) list \<Rightarrow> exn + payment_required" where
  "decode_payment_required_response decode headers =
     (case (map_of headers ''PAYMENT-REQUIRED'', map_of headers ''payment-required'') of
        (Some (c # cs), _) \<Rightarrow> decode_payment_required decode (c # cs)
      | (_, Some (c # cs)) \<Rightarrow> decode_payment_required decode (c # cs)
      | _ \<Rightarrow> Inl (ValueError ''402 response did not include PAYMENT-REQUIRED''))"

end
