(* ===== verification/VerifyCorrect.thy ===== *)
theory VerifyCorrect
  imports FacilitatorVerify
begin

text \<open>
  Correctness of \<open>ExactXRPLFacilitatorScheme.verify\<close>. The specification predicates
  \<open>pays_exactly\<close>, \<open>bound_to\<close> and \<open>in_ledger_window\<close> say what a payment that satisfies the
  requirements is; the theorems show that an accepted payment is one, that verification
  changes nothing and submits nothing, and that it always ends.
\<close>

section \<open>Specification\<close>

text \<open>The amount of a transaction: the value of \<open>Amount\<close> or \<open>DeliverMax\<close>, whichever is there.\<close>

definition delivers :: "pydict \<Rightarrow> pyval \<Rightarrow> bool" where
  "delivers tx v \<longleftrightarrow> v \<noteq> PNone \<and>
     ((dget tx ''Amount'' = v \<and> dget tx ''DeliverMax'' = PNone)
      \<or> (dget tx ''DeliverMax'' = v \<and> dget tx ''Amount'' = PNone))"

definition issued_value :: "pyval \<Rightarrow> string \<Rightarrow> pyval \<Rightarrow> rat \<Rightarrow> bool" where
  "issued_value v currency issuer q \<longleftrightarrow>
     (\<exists>d x. v = PDict d \<and> dget d ''currency'' = PStr currency \<and> py_eq (dget d ''issuer'') issuer
        \<and> parse_decimal (py_str (dget d ''value'')) = Some x \<and> is_finite x \<and> dec_val x = q)"

definition due :: "payment_requirements \<Rightarrow> rat \<Rightarrow> bool" where
  "due r q \<longleftrightarrow> (\<exists>x. parse_decimal (r_amount r) = Some x \<and> is_finite x \<and> dec_val x = q)"

definition pays_exactly :: "pydict \<Rightarrow> payment_requirements \<Rightarrow> bool" where
  "pays_exactly tx r \<longleftrightarrow>
     (if r_asset r = ''XRP''
      then \<exists>s. delivers tx (PStr s) \<and> isdigit s \<and> digits_val s = digits_val (r_amount r)
             \<and> 0 < digits_val s \<and> dget tx ''SendMax'' = PNone
      else \<exists>v q m. delivers tx v \<and> due r q \<and> 0 < q
             \<and> issued_value v (r_asset r) (dget (extra_of r) ''issuer'') q
             \<and> dget tx ''SendMax'' = PDict m \<and> dget m ''currency'' = PStr (r_asset r)
             \<and> py_eq (dget m ''issuer'') (dget (extra_of r) ''issuer'')
             \<and> (\<exists>x. parse_decimal (py_str (dget m ''value'')) = Some x
                  \<and> (x = DInf False \<or> is_finite x \<and> q \<le> dec_val x)))"

definition bound_to :: "facilitator \<Rightarrow> pydict \<Rightarrow> payment_requirements \<Rightarrow> bool" where
  "bound_to F tx r \<longleftrightarrow>
     set (map fst tx) \<subseteq> set ALLOWED_PAYMENT_FIELDS
     \<and> dget tx ''Destination'' = PStr (MY_DESTINATION_ADDRESS (fe_settings F))
     \<and> \<not> partial_payment (py_or (dget tx ''Flags'') (PInt 0))
     \<and> py_eq (dget tx ''DestinationTag'') (dget (extra_of r) ''destinationTag'')
     \<and> (dget (extra_of r) ''invoiceId'' = PNone \<longleftrightarrow> dget tx ''InvoiceID'' = PNone)
     \<and> (dget (extra_of r) ''invoiceId'' \<noteq> PNone \<longrightarrow> upper (py_str (dget tx ''InvoiceID'')) =
          upper (sha256_hex (fe_ext F) (py_str (dget (extra_of r) ''invoiceId''))))
     \<and> (\<exists>fee. dget tx ''Fee'' = PStr fee \<and> isdigit fee \<and> int (digits_val fee) \<le> MAX_FEE_DROPS (fe_settings F))"

definition authentic :: "ext \<Rightarrow> pydict \<Rightarrow> bool" where
  "authentic E tx \<longleftrightarrow> dget tx ''TransactionType'' = PStr ''Payment'' \<and> dget tx ''Signers'' = PNone
     \<and> (\<exists>key sig. dget tx ''SigningPubKey'' = PStr key \<and> canonical_signing_pub_key key
          \<and> dget tx ''TxnSignature'' = PStr sig \<and> signature_valid E tx sig key = Inr True)"


section \<open>The pure checks\<close>

lemma verify_envelope_ok:
  assumes "verify_envelope F p r = Inr m"
  shows "\<exists>x. validate_requirements_shape (fe_ext F) r = Inr x"
    and "same_fields (p_accepted p) r" and "p_x402_version p = 2"
    and "m = ''sequence'' \<or> m = ''ticketSequence''"
    and "r_network r = NETWORK_ID (fe_settings F)" and "r_pay_to r = MY_DESTINATION_ADDRESS (fe_settings F)"
    and "asset_allowed F r"
    and "r_asset r = ''XRP'' \<Longrightarrow> \<exists>i. int_of_str (r_amount r) = Inr i \<and> MIN_XRP_DROPS (fe_settings F) \<le> i"
proof -
  have "\<exists>x. validate_requirements_shape (fe_ext F) r = Inr x"
    and "same_fields (p_accepted p) r" and "p_x402_version p = 2"
    and "\<exists>m'. (m' = ''sequence'' \<or> m' = ''ticketSequence'') \<and> verify_envelope_config F r m' = Inr m"
    using assms
    by (simp_all add: verify_envelope_def Let_def py_str_def split: sum.split_asm if_split_asm)
      fastforce+
  note ok = this
  have config: "m' = m" "r_network r = NETWORK_ID (fe_settings F)" "r_pay_to r = MY_DESTINATION_ADDRESS (fe_settings F)"
    "asset_allowed F r"
    "r_asset r = ''XRP'' \<Longrightarrow> \<exists>i. int_of_str (r_amount r) = Inr i \<and> MIN_XRP_DROPS (fe_settings F) \<le> i"
    if "verify_envelope_config F r m' = Inr m" for m'
    using that by (auto simp: verify_envelope_config_def rbind_eq_Inr split: if_split_asm)
  show "\<exists>x. validate_requirements_shape (fe_ext F) r = Inr x"
    and "same_fields (p_accepted p) r" and "p_x402_version p = 2"
    by (fact ok)+
  show "m = ''sequence'' \<or> m = ''ticketSequence''" and "r_network r = NETWORK_ID (fe_settings F)"
    and "r_pay_to r = MY_DESTINATION_ADDRESS (fe_settings F)" and "asset_allowed F r"
    and "r_asset r = ''XRP'' \<Longrightarrow> \<exists>i. int_of_str (r_amount r) = Inr i \<and> MIN_XRP_DROPS (fe_settings F) \<le> i"
    using ok(4) config by blast+
qed

lemma verify_signature_ok:
  "verify_signature E tx payer = Inr u \<Longrightarrow> authentic E tx \<and> is_valid_classic_address E payer"
  by (auto simp: verify_signature_def authentic_def split: if_splits option.splits sum.splits
      elim!: as_str.elims)

lemma verify_amount_xrp:
  assumes "verify_amount tx r payer = Inr u" and "r_asset r = ''XRP''" and "isdigit (r_amount r)"
  shows "\<exists>s. delivers tx (PStr s) \<and> isdigit s \<and> digits_val s = digits_val (r_amount r) \<and> dget tx ''SendMax'' = PNone"
  using assms
  by (auto simp: verify_amount_def delivers_def Let_def rbind_eq_Inr isdigit_int_of_str
      split: if_splits option.splits elim!: as_str.elims)

lemma compare_decimal_strings_ok:
  assumes "compare_decimal_strings a b = Inr c" and "parse_decimal b = Some y" and "is_finite y"
  shows "\<exists>x. parse_decimal a = Some x \<and>
     (x = DInf False \<and> 0 < c \<or> x = DInf True \<and> c < 0 \<or>
      is_finite x \<and> (c = 0 \<longleftrightarrow> dec_val x = dec_val y) \<and> (c < 0 \<longleftrightarrow> dec_val x < dec_val y))"
proof -
  obtain x where x: "parse_decimal a = Some x" "dec_cmp x y = Inr c"
    using assms by (auto simp: compare_decimal_strings_def split: option.splits)
  show ?thesis
  proof (cases "is_finite x")
    case True
    then show ?thesis
      using x(2) dec_cmp_finite [OF True assms(3)] x(1) by (metis Inr_inject)
  next
    case False
    then show ?thesis
      using x assms(3) by (cases x; cases y) (auto simp: signed_def split: if_splits)
  qed
qed

lemma verify_iou_amount_ok:
  assumes "verify_iou_amount v sm r payer = Inr u" and "xrpl_currency_code (r_asset r) = Inr (r_asset r)"
    and "parse_decimal (r_amount r) = Some y" and "is_finite y"
  shows "issued_value v (r_asset r) (dget (extra_of r) ''issuer'') (dec_val y)"
    and "\<exists>m x. sm = PDict m \<and> dget m ''currency'' = PStr (r_asset r)
       \<and> py_eq (dget m ''issuer'') (dget (extra_of r) ''issuer'')
       \<and> parse_decimal (py_str (dget m ''value'')) = Some x
       \<and> (x = DInf False \<or> is_finite x \<and> dec_val y \<le> dec_val x)"
proof -
  obtain a m c where a: "v = PDict a" "dget a ''currency'' = PStr (r_asset r)"
      "py_eq (dget a ''issuer'') (dget (extra_of r) ''issuer'')"
      "compare_decimal_strings (py_str (dget a ''value'')) (r_amount r) = Inr 0"
    and m: "sm = PDict m" "dget m ''currency'' = PStr (r_asset r)"
      "py_eq (dget m ''issuer'') (dget (extra_of r) ''issuer'')"
      "compare_decimal_strings (py_str (dget m ''value'')) (r_amount r) = Inr c" "0 \<le> c"
    using assms(1,2)
    by (auto simp: verify_iou_amount_def rbind_eq_Inr Let_def split: option.splits if_splits
        elim!: as_dict.elims)
  show "issued_value v (r_asset r) (dget (extra_of r) ''issuer'') (dec_val y)"
    using a compare_decimal_strings_ok [OF a(4) assms(3,4)] by (auto simp: issued_value_def)
  show "\<exists>m x. sm = PDict m \<and> dget m ''currency'' = PStr (r_asset r)
       \<and> py_eq (dget m ''issuer'') (dget (extra_of r) ''issuer'')
       \<and> parse_decimal (py_str (dget m ''value'')) = Some x
       \<and> (x = DInf False \<or> is_finite x \<and> dec_val y \<le> dec_val x)"
    using m compare_decimal_strings_ok [OF m(4) assms(3,4)] by auto
qed

lemma verify_amount_iou:
  assumes "verify_amount tx r payer = Inr u" and "r_asset r \<noteq> ''XRP''"
  shows "\<exists>v. delivers tx v \<and> verify_iou_amount v (dget tx ''SendMax'') r payer = Inr ()"
  using assms by (auto simp: verify_amount_def delivers_def Let_def split: if_splits)

lemma verify_binding_ok:
  assumes "verify_binding F tx r payer = Inr u"
  shows "py_eq (dget tx ''DestinationTag'') (dget (extra_of r) ''destinationTag'')"
    and "dget (extra_of r) ''invoiceId'' = PNone \<longleftrightarrow> dget tx ''InvoiceID'' = PNone"
    and "dget (extra_of r) ''invoiceId'' \<noteq> PNone \<Longrightarrow> upper (py_str (dget tx ''InvoiceID'')) =
          upper (sha256_hex (fe_ext F) (py_str (dget (extra_of r) ''invoiceId'')))"
    and "\<exists>fee. dget tx ''Fee'' = PStr fee \<and> isdigit fee \<and> int (digits_val fee) \<le> MAX_FEE_DROPS (fe_settings F)"
  using assms
  by (auto simp: verify_binding_def expected_invoice_def invoice_id_to_invoice_id_field_def rbind_eq_Inr
      Let_def isdigit_int_of_str split: if_splits option.splits pyval.splits elim!: as_str.elims)

lemma verify_structure_ok:
  assumes "verify_structure F tx r payer = Inr u"
  shows "set (map fst tx) \<subseteq> set ALLOWED_PAYMENT_FIELDS" and "dget tx ''Destination'' = PStr (r_pay_to r)"
    and "\<not> partial_payment (py_or (dget tx ''Flags'') (PInt 0))"
    and "verify_amount tx r payer = Inr ()" and "verify_binding F tx r payer = Inr ()"
  using assms
  by (auto simp: verify_structure_def Let_def rbind_eq_Inr filter_empty_conv split: if_splits option.splits)

lemma structure_pays_exactly:
  assumes "validate_requirements_shape E r = Inr x" and "verify_structure F tx r payer = Inr u"
  shows "pays_exactly tx r"
proof (cases "r_asset r = ''XRP''")
  case True
  with validate_shape_amount_XRP [OF validate_shape_parts(8) [OF assms(1)] True]
  show ?thesis
    using verify_amount_xrp [OF verify_structure_ok(4) [OF assms(2)] True]
    by (auto simp: pays_exactly_def canonical_nat_isdigit)
next
  case False
  obtain y where y: "parse_decimal (r_amount r) = Some y" "is_finite y" "0 < dec_val y"
    using validate_shape_amount_IOU [OF validate_shape_parts(8) [OF assms(1)] False] by auto
  obtain v where v: "delivers tx v" "verify_iou_amount v (dget tx ''SendMax'') r payer = Inr ()"
    using verify_amount_iou [OF verify_structure_ok(4) [OF assms(2)] False] by auto
  note iou = verify_iou_amount_ok [OF v(2) validate_shape_parts(4) [OF assms(1)] y(1,2)]
  have "due r (dec_val y)"
    using y by (auto simp: due_def)
  with iou v(1) y(3) False show ?thesis
    unfolding pays_exactly_def by auto
qed


section \<open>A run of the verifier\<close>

lemma verify_valid_run:
  assumes "verify F p r s = (Ok v, s')" and "vr_is_valid v"
  shows "\<exists>vt. verify_transaction F p r s = (Ok vt, s') \<and> vr_payer v = Some (vt_payer vt)
     \<and> vr_verification_path v = Some (vt_path vt)"
proof -
  have "\<not> vr_is_valid v"
    if "verify_transaction F p r s = (Raise e, s1)" "verify F p r s = (Ok v, s')" for e s1
    using that by (cases e) (auto simp: verify_def verify_failure_def ctry_else_def creturn_def craise_def)
  with assms show ?thesis
    unfolding verify_def ctry_else_Ok by (auto simp: creturn_Ok verify_def)
qed

lemma decode_blob_ok: "decode_blob E blob = Inr tx \<longleftrightarrow> codec_decode E blob = Inr tx"
  by (auto simp: decode_blob_def split: sum.splits)

lemma verify_transaction_run:
  assumes "verify_transaction F p r s = (Ok vt, s')"
  obtains m blob s1 where "verify_envelope F p r = Inr m" and "exact_xrpl_payload p = Inr blob"
    and "codec_decode (fe_ext F) blob = Inr (vt_transaction vt)" and "vt_payer vt = payer_of (vt_transaction vt)"
    and "verify_signature (fe_ext F) (vt_transaction vt) (vt_payer vt) = Inr ()"
    and "verify_structure F (vt_transaction vt) r (vt_payer vt) = Inr ()"
    and "verify_ledger_and_account_state F (vt_transaction vt) r (vt_payer vt) m s = (Ok (), s1)"
    and "verify_simulation_or_balances F (vt_transaction vt) r (vt_payer vt) s1 = (Ok (vt_path vt), s')"
    and "signed_transaction_hash (fe_ext F) blob = Inr (vt_hash vt)"
  using assms
  by (auto simp: verify_transaction_def run_simps Let_def decode_blob_ok intro: that)


text \<open>C1. Only an exact payment is accepted: when \<open>verify\<close> answers that a payment is valid, the
  payload's blob decodes to a signed single-signature XRPL \<open>Payment\<close> by the reported payer, with
  only allowed fields, to the facilitator's own destination address and with the destination tag
  and invoice identifier of the requirements. It may not deliver less than its amount (no partial
  payment), its fee is within the configured bound, and its amount is exactly the required one:
  the same number of drops, or the same decimal value of the same currency and issuer.\<close>

theorem verify_accepts_exact_payment:
  assumes "verify F payload r s = (Ok v, s')" and "vr_is_valid v"
  shows "\<exists>blob tx. exact_xrpl_payload payload = Inr blob \<and> codec_decode (fe_ext F) blob = Inr tx
    \<and> vr_payer v = Some (payer_of tx) \<and> is_valid_classic_address (fe_ext F) (payer_of tx)
    \<and> authentic (fe_ext F) tx \<and> bound_to F tx r \<and> pays_exactly tx r"
proof -
  obtain vt where vt: "verify_transaction F payload r s = (Ok vt, s')" "vr_payer v = Some (vt_payer vt)"
    using verify_valid_run [OF assms] by blast
  let ?tx = "vt_transaction vt"
  obtain m blob s1 where run: "verify_envelope F payload r = Inr m" "exact_xrpl_payload payload = Inr blob"
    "codec_decode (fe_ext F) blob = Inr ?tx" "vt_payer vt = payer_of ?tx"
    "verify_signature (fe_ext F) ?tx (vt_payer vt) = Inr ()" "verify_structure F ?tx r (vt_payer vt) = Inr ()"
    by (rule verify_transaction_run [OF vt(1)]) blast
  obtain x where x: "validate_requirements_shape (fe_ext F) r = Inr x"
    using verify_envelope_ok(1) [OF run(1)] by blast
  have "bound_to F ?tx r"
    using verify_structure_ok(1-3) [OF run(6)] verify_binding_ok [OF verify_structure_ok(5) [OF run(6)]]
      verify_envelope_ok(6) [OF run(1)]
    by (auto simp: bound_to_def)
  then show ?thesis
    using run vt(2) verify_signature_ok [OF run(5)] structure_pays_exactly [OF x run(6)] by auto
qed

section \<open>Ledger state\<close>

lemma rpc_Ok [run_simps]:
  "rpc F q s = (Ok v, s') \<longleftrightarrow> fe_client F (fs_log s) q = Inr v \<and> s' = (note_sent q s)\<lparr>fs_log := fs_log s @ [q]\<rparr>"
  by (auto simp: rpc_def split: sum.splits)

lemma current_ledger_Ok [run_simps]:
  "current_ledger F s = (Ok c, s') \<longleftrightarrow>
     (\<exists>res. fe_client F (fs_log s) Ledger = Inr res \<and> rbind (vindex res ''ledger_index'') py_int = Inr c)
     \<and> s' = s\<lparr>fs_log := fs_log s @ [Ledger]\<rparr>"
  by (auto simp: current_ledger_def run_simps)

lemma account_data_Ok [run_simps]:
  "account_data F a s = (Ok d, s') \<longleftrightarrow>
     (\<exists>res. fe_client F (fs_log s) (AccountInfo a) = Inr (PDict res) \<and> dget res ''account_data'' = PDict d)
     \<and> s' = s\<lparr>fs_log := fs_log s @ [AccountInfo a]\<rparr>"
  by (auto simp: account_data_def run_simps res_simps)

lemma ticket_loop_True:
  assumes "ticket_loop F payer t n marker seen s = (Ok True, s')"
  shows "\<exists>h m d objects. fe_client F h (AccountObjects payer m) = Inr (PDict d)
    \<and> dget_default d ''account_objects'' (PList []) = PList objects \<and> has_ticket t objects"
  using assms
proof (induction n arbitrary: marker seen s)
  case (Suc n)
  then show ?case
    by (auto simp: run_simps Let_def split: option.splits if_splits elim!: as_dict.elims as_list.elims)
qed (simp add: run_simps)

text \<open>Whether the sequence number or the ticket of a payment is the payer's to use now.\<close>

definition sequence_current :: "facilitator \<Rightarrow> pydict \<Rightarrow> pydict \<Rightarrow> string \<Rightarrow> bool" where
  "sequence_current F tx account payer \<longleftrightarrow>
     (dget tx ''TicketSequence'' = PNone \<and> py_eq (dget tx ''Sequence'') (dget account ''Sequence''))
     \<or> (\<exists>t h m d objects. as_int (dget tx ''TicketSequence'') = Some t \<and> py_eq (dget tx ''Sequence'') (PInt 0)
          \<and> fe_client F h (AccountObjects payer m) = Inr (PDict d)
          \<and> dget_default d ''account_objects'' (PList []) = PList objects \<and> has_ticket t objects)"

lemma verify_sequence_ok:
  assumes "verify_sequence F tx account payer m s = (Ok (), s')"
  shows "sequence_current F tx account payer"
  using assms
  by (auto simp: verify_sequence_def sequence_current_def ticket_is_available_def run_simps
      split: option.splits if_splits dest!: ticket_loop_True) blast?

text \<open>C5. An accepted payment can only take effect soon and is the account holder's: in the ledger
  state the verifier read, its last ledger sequence lies after the current validated ledger and
  within the payment's timeout (one ledger for every five seconds started, and two more), its
  signing key is the payer's regular key or the payer's own master key while that is not
  disabled, and its sequence number is the account's current one, or it spends a ticket the
  account holds.\<close>

theorem verify_accepts_current_payment:
  assumes "verify F payload r s = (Ok v, s')" and "vr_is_valid v"
  shows "\<exists>blob tx current last ledger info account key addr flags.
    exact_xrpl_payload payload = Inr blob \<and> codec_decode (fe_ext F) blob = Inr tx
    \<and> fe_client F (fs_log s) Ledger = Inr ledger \<and> rbind (vindex ledger ''ledger_index'') py_int = Inr current
    \<and> as_int (dget tx ''LastLedgerSequence'') = Some last \<and> current < last
    \<and> last \<le> current + ceil_div (r_max_timeout_seconds r) 5 + 2
    \<and> fe_client F (fs_log s @ [Ledger]) (AccountInfo (payer_of tx)) = Inr (PDict info)
    \<and> dget info ''account_data'' = PDict account
    \<and> dget tx ''SigningPubKey'' = PStr key \<and> derive_classic_address (fe_ext F) key = Inr addr
    \<and> py_int (dget_default account ''Flags'' (PInt 0)) = Inr flags
    \<and> (dget account ''RegularKey'' = PStr addr \<or> addr = payer_of tx \<and> flags AND LSF_DISABLE_MASTER = 0)
    \<and> sequence_current F tx account (payer_of tx)"
proof -
  obtain vt where vt: "verify_transaction F payload r s = (Ok vt, s')"
    using verify_valid_run [OF assms] by blast
  let ?tx = "vt_transaction vt"
  obtain m blob s1 where run: "exact_xrpl_payload payload = Inr blob"
    "codec_decode (fe_ext F) blob = Inr ?tx" "vt_payer vt = payer_of ?tx"
    "verify_signature (fe_ext F) ?tx (vt_payer vt) = Inr ()"
    "verify_ledger_and_account_state F ?tx r (vt_payer vt) m s = (Ok (), s1)"
    by (rule verify_transaction_run [OF vt]) blast
  obtain key where key: "dget ?tx ''SigningPubKey'' = PStr key"
    using verify_signature_ok [OF run(4)] by (auto simp: authentic_def)
  then have "map_of ?tx ''SigningPubKey'' = Some (PStr key)"
    by (auto simp: dget_eq split: option.splits)
  with key run(1,2,3,5) show ?thesis
    by (auto simp: verify_ledger_and_account_state_def run_simps dindex_def py_str_def signer_authorized_def
        get_max_last_ledger_sequence_def dest!: verify_sequence_ok)
qed

section \<open>Funds\<close>

text \<open>The account's balance, as the ledger reports it, covers an amount in drops on top of the
  transaction's fee and the account's reserve.\<close>

definition funded :: "facilitator \<Rightarrow> pydict \<Rightarrow> int \<Rightarrow> bool" where
  "funded F tx amount \<longleftrightarrow>
     (\<exists>h info account b balance h' server state validated base inc owners fee.
        fe_client F h (AccountInfo (payer_of tx)) = Inr (PDict info) \<and> dget info ''account_data'' = PDict account
        \<and> map_of account ''Balance'' = Some b \<and> py_int b = Inr balance
        \<and> fe_client F h' ServerState = Inr (PDict server) \<and> dget server ''state'' = PDict state
        \<and> dget state ''validated_ledger'' = PDict validated \<and> reserve_values validated = Inr (base, inc)
        \<and> as_int (dget account ''OwnerCount'') = Some owners \<and> 0 \<le> owners
        \<and> rbind (dindex tx ''Fee'') py_int = Inr fee
        \<and> amount + fee + (base + owners * inc) \<le> balance)"

text \<open>A trust line of the ledger, towards the required issuer and for the required currency, holds
  at least what the transaction may send.\<close>

definition ledger_line :: "facilitator \<Rightarrow> string \<Rightarrow> pyval \<Rightarrow> pydict \<Rightarrow> bool" where
  "ledger_line F payer issuer line \<longleftrightarrow>
     (\<exists>h m d ls. fe_client F h (AccountLines payer issuer m) = Inr (PDict d)
        \<and> dget_default d ''lines'' (PList []) = PList ls \<and> PDict line \<in> set ls)"

definition trustline_funded :: "facilitator \<Rightarrow> pydict \<Rightarrow> payment_requirements \<Rightarrow> bool" where
  "trustline_funded F tx r \<longleftrightarrow>
     (\<exists>line currency m w x y. ledger_line F (payer_of tx) (dget (extra_of r) ''issuer'') line
        \<and> xrpl_currency_code (r_asset r) = Inr currency
        \<and> matching_line (dget (extra_of r) ''issuer'') currency line
        \<and> map_of tx ''SendMax'' = Some (PDict m) \<and> map_of m ''value'' = Some w
        \<and> parse_decimal (py_str w) = Some x
        \<and> parse_decimal (py_str (dget_default line ''balance'' (PStr ''0''))) = Some y
        \<and> dec_lt y x = Inr False)"

lemma lines_loop_from:
  assumes "lines_loop F payer issuer n marker seen acc s = (Ok ls, s')"
    and "\<forall>l \<in> set acc. ledger_line F payer issuer l"
  shows "\<forall>l \<in> set ls. ledger_line F payer issuer l"
  using assms
proof (induction n arbitrary: marker seen acc s)
  case (Suc n)
  have new: "ledger_line F payer issuer l"
    if "fe_client F h (AccountLines payer issuer m) = Inr (PDict d)"
      "dget_default d ''lines'' (PList []) = PList xs" "l \<in> set (List.map_filter as_dict xs)" for h m d xs l
    using that unfolding ledger_line_def by (auto simp: List.map_filter_def) blast
  from Suc.prems Suc.IH show ?case
    by (auto simp: run_simps Let_def split: if_splits dest: new) (metis UnE new set_append)+
qed (simp add: run_simps)

lemma decimal_of_str_ok: "decimal_of_str s = Inr d \<longleftrightarrow> parse_decimal s = Some d"
  by (auto simp: decimal_of_str_def split: option.splits)

lemma trustline_short_ok:
  assumes "trustline_short ls x = Inr False"
  shows "\<exists>l y. l \<in> set ls \<and> parse_decimal (py_str (dget_default l ''balance'' (PStr ''0''))) = Some y
    \<and> dec_lt y x = Inr False"
  using assms by (auto simp: trustline_short_def rbind_eq_Inr decimal_of_str_ok split: list.splits)

lemma targeted_iou_ok:
  assumes "targeted_iou_check F tx r (payer_of tx) spendable fee s = (Ok u, s')"
  shows "trustline_funded F tx r"
  using assms
  by (auto simp: targeted_iou_check_def run_simps res_simps Let_def decimal_of_str_ok trustline_funded_def
      dest!: lines_loop_from trustline_short_ok) blast

lemma xrp_reserve_parameters_ok:
  assumes "xrp_reserve_parameters F s = (Ok p, s')"
  shows "\<exists>server state validated. fe_client F (fs_log s) ServerState = Inr (PDict server)
    \<and> dget server ''state'' = PDict state \<and> dget state ''validated_ledger'' = PDict validated
    \<and> reserve_values validated = Inr p"
  using assms
  by (auto simp: xrp_reserve_parameters_def run_simps Let_def split: option.splits)

lemma xrp_account_reserve_ok:
  "xrp_account_reserve a base inc = Inr n \<longleftrightarrow>
     (\<exists>k. as_int (dget a ''OwnerCount'') = Some k \<and> 0 \<le> k \<and> n = base + k * inc)"
  by (auto simp: xrp_account_reserve_def split: option.splits)

lemma targeted_funded:
  assumes "targeted_balance_check F tx r (payer_of tx) s = (Ok u, s')"
  shows "funded F tx (if r_asset r = ''XRP'' then case int_of_str (r_amount r) of Inr i \<Rightarrow> i | _ \<Rightarrow> 0 else 0)"
    and "r_asset r \<noteq> ''XRP'' \<Longrightarrow> trustline_funded F tx r"
proof -
  obtain s1 info account b balance where
    a: "fe_client F (fs_log s) (AccountInfo (payer_of tx)) = Inr (PDict info)" "dget info ''account_data'' = PDict account"
      "map_of account ''Balance'' = Some b" "py_int b = Inr balance"
    and s1: "s1 = s\<lparr>fs_log := fs_log s @ [AccountInfo (payer_of tx)]\<rparr>"
    and rest: "cbind (xrp_reserve_parameters F) (\<lambda>params.
       cbind (clift (xrp_account_reserve account (fst params) (snd params))) (\<lambda>reserve.
       cbind (clift (rbind (dindex tx ''Fee'') py_int)) (\<lambda>fee.
         if r_asset r = ''XRP''
           then targeted_xrp_check F r (payer_of tx) (balance - reserve) fee (fst params)
         else targeted_iou_check F tx r (payer_of tx) (balance - reserve) fee))) s1 = (Ok u, s')"
    using assms by (auto simp: targeted_balance_check_def run_simps res_simps)
  obtain ps s2 owners fee where p: "xrp_reserve_parameters F s1 = (Ok ps, s2)"
      "as_int (dget account ''OwnerCount'') = Some owners" "0 \<le> owners"
      "rbind (dindex tx ''Fee'') py_int = Inr fee"
    and check: "(if r_asset r = ''XRP''
           then targeted_xrp_check F r (payer_of tx) (balance - (fst ps + owners * snd ps)) fee (fst ps)
         else targeted_iou_check F tx r (payer_of tx) (balance - (fst ps + owners * snd ps)) fee) s2 = (Ok u, s')"
    using rest unfolding cbind_Ok clift_Ok xrp_account_reserve_ok by blast
  obtain base inc where ps: "ps = (base, inc)" by (cases ps)
  show "r_asset r \<noteq> ''XRP'' \<Longrightarrow> trustline_funded F tx r"
    using check by (auto intro: targeted_iou_ok)
  have "(if r_asset r = ''XRP'' then case int_of_str (r_amount r) of Inr i \<Rightarrow> i | _ \<Rightarrow> 0 else 0)
      + fee + (base + owners * inc) \<le> balance"
    using check ps
    by (auto simp: targeted_xrp_check_def targeted_iou_check_def run_simps Let_def split: if_splits)
  with a p xrp_reserve_parameters_ok [OF p(1)] ps
  show "funded F tx (if r_asset r = ''XRP'' then case int_of_str (r_amount r) of Inr i \<Rightarrow> i | _ \<Rightarrow> 0 else 0)"
    unfolding funded_def by blast
qed

lemma simulation_or_balances_run:
  fixes s :: "'s fac_state"
  assumes "verify_simulation_or_balances F tx r payer s = (Ok path, s')"
  shows "(\<exists>h q res. path = ''simulation'' \<and> fe_client F h (Simulate q) = Inr (PDict res)
            \<and> payment_from_xrpl (fe_ext F) (dpop ''Signers'' (dpop ''SigningPubKey'' (dpop ''TxnSignature'' tx))) = Inr q
            \<and> dget res ''engine_result'' = PStr ''tesSUCCESS'')
       \<or> (path = ''targetedChecks'' \<and> (\<exists>(s1::'s fac_state) s2. targeted_balance_check F tx r payer s1 = (Ok (), s2)))"
  using assms
  by (auto simp: verify_simulation_or_balances_def simulate_or_check_def run_simps Let_def
      split: if_splits option.splits)

text \<open>C6. An accepted payment is funded. The verifier answers either that the ledger's own
  simulation of the unsigned transaction succeeded, or, where simulation is not available, that
  the payer's balance covers the account reserve, the transaction's fee and, for a native
  payment, the amount in drops on top, while for an issued currency a trust line of the payer
  towards the issuer holds at least what the transaction may send.\<close>

theorem verify_accepts_funded_payment:
  fixes s :: "'s fac_state"
  assumes "verify F payload r s = (Ok v, s')" and "vr_is_valid v"
  shows "\<exists>blob tx. exact_xrpl_payload payload = Inr blob \<and> codec_decode (fe_ext F) blob = Inr tx
    \<and> (vr_verification_path v = Some ''simulation''
         \<and> (\<exists>h q res. fe_client F h (Simulate q) = Inr (PDict res)
            \<and> payment_from_xrpl (fe_ext F) (dpop ''Signers'' (dpop ''SigningPubKey'' (dpop ''TxnSignature'' tx))) = Inr q
            \<and> dget res ''engine_result'' = PStr ''tesSUCCESS'')
       \<or> vr_verification_path v = Some ''targetedChecks''
         \<and> funded F tx (if r_asset r = ''XRP'' then int (digits_val (r_amount r)) else 0)
         \<and> (r_asset r = ''XRP'' \<or> trustline_funded F tx r))"
proof -
  obtain vt where vt: "verify_transaction F payload r s = (Ok vt, s')"
      "vr_verification_path v = Some (vt_path vt)"
    using verify_valid_run [OF assms] by blast
  let ?tx = "vt_transaction vt"
  obtain m blob s1 where run: "verify_envelope F payload r = Inr m" "exact_xrpl_payload payload = Inr blob"
    "codec_decode (fe_ext F) blob = Inr ?tx" "vt_payer vt = payer_of ?tx"
    "verify_simulation_or_balances F ?tx r (vt_payer vt) s1 = (Ok (vt_path vt), s')"
    by (rule verify_transaction_run [OF vt(1)]) blast
  obtain x where x: "validate_requirements_shape (fe_ext F) r = Inr x"
    using verify_envelope_ok(1) [OF run(1)] by blast
  have amount: "int_of_str (r_amount r) = Inr (int (digits_val (r_amount r)))" if "r_asset r = ''XRP''"
    using validate_shape_amount_XRP [OF validate_shape_parts(8) [OF x] that]
    by (simp add: isdigit_int_of_str canonical_nat_isdigit)
  have "funded F ?tx (if r_asset r = ''XRP'' then int (digits_val (r_amount r)) else 0)
      \<and> (r_asset r = ''XRP'' \<or> trustline_funded F ?tx r)"
    if "targeted_balance_check F ?tx r (payer_of ?tx) s2 = (Ok (), s3)" for s2 s3 :: "'s fac_state"
    using targeted_funded [OF that] amount by (cases "r_asset r = ''XRP''") simp_all
  note funded = this
  show ?thesis
    using simulation_or_balances_run [OF run(5)] run(2,3) funded unfolding vt(2) run(4) option.inject by blast
qed

section \<open>Verification only reads\<close>

text \<open>The requests that ask about the ledger without submitting or looking up a transaction.\<close>

fun probes :: "rpc_request \<Rightarrow> bool" where
  "probes (SubmitOnly _) = False"
| "probes (Tx _ _ _) = False"
| "probes _ = True"

text \<open>A command that leaves the settlement store alone and only probes the ledger.\<close>

definition reads_only :: "('s fac_state, 'a) cmd \<Rightarrow> bool" where
  "reads_only m \<longleftrightarrow> keeps fs_store m \<and> keeps fs_sent m \<and> emits fs_log probes m"

lemma reads_onlyD:
  assumes "reads_only m" and "m s = (v, s')"
  shows "fs_store s' = fs_store s \<and> (\<exists>l. fs_log s' = fs_log s @ l \<and> list_all probes l)"
    and "fs_sent s' = fs_sent s"
  using assms keepsD [of fs_store m s v s'] keepsD [of fs_sent m s v s'] emitsD [of fs_log _ m s v s'] by (auto simp: reads_only_def)

lemma reads_only_leaf:
  "reads_only (creturn x)" "reads_only (craise e)" "reads_only cdiverge" "reads_only (clift r)"
  by (simp_all add: reads_only_def keeps_rules emits_rules)

lemma reads_only_rpc: "probes q \<Longrightarrow> reads_only (rpc F q)"
  by (cases q) (auto simp: reads_only_def keeps_def emits_def rpc_def split: sum.splits)

lemma reads_only_cbind: "reads_only m \<Longrightarrow> (\<And>x. reads_only (f x)) \<Longrightarrow> reads_only (cbind m f)"
  by (simp add: reads_only_def keeps_rules emits_rules)

lemma reads_only_ctry: "reads_only m \<Longrightarrow> (\<And>e. reads_only (h e)) \<Longrightarrow> reads_only (ctry m h)"
  by (simp add: reads_only_def keeps_rules emits_rules)

lemma reads_only_ctry_else:
  "reads_only m \<Longrightarrow> (\<And>e. reads_only (h e)) \<Longrightarrow> (\<And>x. reads_only (f x)) \<Longrightarrow> reads_only (ctry_else m h f)"
  by (simp add: reads_only_def keeps_rules emits_rules)

lemma reads_only_cond:
  "reads_only m \<Longrightarrow> reads_only n \<Longrightarrow> reads_only (if b then m else n)"
  "reads_only m \<Longrightarrow> (\<And>x. reads_only (k x)) \<Longrightarrow> reads_only (case v of None \<Rightarrow> m | Some x \<Rightarrow> k x)"
  by (simp_all split: option.splits)

lemmas reads_only_rules = reads_only_leaf reads_only_rpc reads_only_cbind reads_only_ctry reads_only_ctry_else
  reads_only_cond

lemma reads_only_ticket_loop: "reads_only (ticket_loop F payer t n marker seen)"
  by (induction n arbitrary: marker seen) (auto simp: Let_def intro!: reads_only_rules)

lemma reads_only_lines_loop: "reads_only (lines_loop F payer issuer n marker seen acc)"
  by (induction n arbitrary: marker seen acc) (auto simp: Let_def intro!: reads_only_rules)

lemma reads_only_queries:
  "reads_only (current_ledger F)" "reads_only (account_data F a)" "reads_only (xrp_reserve_parameters F)"
  "reads_only (account_exists F a)" "reads_only (issuer_transfer_rate F i payer)"
  by (auto simp: current_ledger_def account_data_def xrp_reserve_parameters_def account_exists_def
      issuer_transfer_rate_def Let_def intro!: reads_only_rules)

lemma reads_only_sequence: "reads_only (verify_sequence F tx account payer m)"
  by (auto simp: verify_sequence_def ticket_is_available_def intro!: reads_only_rules reads_only_ticket_loop)

lemma reads_only_state: "reads_only (verify_ledger_and_account_state F tx r payer m)"
  unfolding verify_ledger_and_account_state_def
  by (auto intro!: reads_only_rules reads_only_queries reads_only_sequence)

lemma reads_only_targeted: "reads_only (targeted_balance_check F tx r payer)"
  unfolding targeted_balance_check_def targeted_xrp_check_def targeted_iou_check_def Let_def
  by (auto intro!: reads_only_rules reads_only_queries reads_only_lines_loop)

lemma reads_only_simulation: "reads_only (verify_simulation_or_balances F tx r payer)"
  unfolding verify_simulation_or_balances_def simulate_or_check_def Let_def
  by (auto intro!: reads_only_rules reads_only_targeted)

lemma reads_only_verify: "reads_only (verify F payload r :: ('s fac_state, verify_response) cmd)"
proof -
  have "reads_only (verify_failure e :: ('s fac_state, verify_response) cmd)" for e
    by (cases e) (simp_all add: verify_failure_def reads_only_leaf)
  then show ?thesis
    unfolding verify_def verify_transaction_def Let_def
    by (auto intro!: reads_only_rules reads_only_state reads_only_simulation)
qed

text \<open>Verification has no side effect: whatever the payload, the requirements and the replies of
  the ledger, and whether it answers or raises, \<open>verify\<close> leaves the settlement store as it was and
  sends the ledger only queries: it submits nothing and looks up no transaction.\<close>

theorem verify_has_no_effect:
  assumes "verify F payload r s = (v, s')"
  shows "fs_store s' = fs_store s \<and> (\<exists>requests. fs_log s' = fs_log s @ requests \<and> list_all probes requests)"
  by (rule reads_onlyD(1) [OF reads_only_verify assms])


section \<open>Verification ends\<close>

text \<open>The markers of a ledger's pages come from a finite set.\<close>

definition markers_in :: "facilitator \<Rightarrow> pyval set \<Rightarrow> bool" where
  "markers_in F M \<longleftrightarrow> finite M \<and>
     (\<forall>h q d. fe_client F h q = Inr (PDict d) \<longrightarrow> dget d ''marker'' = PNone \<or> dget d ''marker'' \<in> M)"

lemma unseen_marker:
  assumes "markers_in F M" and "fe_client F h q = Inr (PDict d)" and "dget d ''marker'' \<noteq> PNone"
    and "set seen \<subseteq> py_repr ` M" and "py_repr (dget d ''marker'') \<notin> set seen"
    and "card (py_repr ` M) - card (set seen) < Suc n"
  shows "set (py_repr (dget d ''marker'') # seen) \<subseteq> py_repr ` M"
    and "card (py_repr ` M) - card (set (py_repr (dget d ''marker'') # seen)) < n"
proof -
  have m: "dget d ''marker'' \<in> M" and fin: "finite M"
    using assms(1-3) by (auto simp: markers_in_def)
  show sub: "set (py_repr (dget d ''marker'') # seen) \<subseteq> py_repr ` M"
    using assms(4) m by auto
  have "card (set (py_repr (dget d ''marker'') # seen)) \<le> card (py_repr ` M)"
    using fin sub by (intro card_mono) auto
  then show "card (py_repr ` M) - card (set (py_repr (dget d ''marker'') # seen)) < n"
    using assms(5,6) by simp
qed

lemma returns_rpc [returns_rules]: "returns (rpc F q)"
  by (simp add: returns_def rpc_def split: sum.splits)

lemma ticket_loop_returns:
  assumes "markers_in F M" and "set seen \<subseteq> py_repr ` M" and "card (py_repr ` M) - card (set seen) < n"
  shows "returns (ticket_loop F payer t n marker seen :: ('s fac_state, bool) cmd)"
  using assms(2,3)
proof (induction n arbitrary: marker seen)
  case (Suc n)
  have "returns (ticket_loop F payer t n m (py_repr m # seen) :: ('s fac_state, bool) cmd)"
    if "fe_client F h (AccountObjects payer marker) = Inr (PDict d)" "m = dget d ''marker''"
      "m \<noteq> PNone" "py_repr m \<notin> set seen" for h d m
    unfolding that(2)
    by (rule Suc.IH; rule unseen_marker [OF assms(1) that(1)]) (use that Suc.prems in simp_all)
  then show ?case
    unfolding ticket_loop.simps
    by (intro returns_cbind_value returns_rpc)
      (auto simp: rpc_Ok Let_def returns_def creturn_def craise_def split: option.splits)
qed simp

lemma lines_loop_returns:
  assumes "markers_in F M" and "set seen \<subseteq> py_repr ` M" and "card (py_repr ` M) - card (set seen) < n"
  shows "returns (lines_loop F payer issuer n marker seen acc :: ('s fac_state, pydict list) cmd)"
  using assms(2,3)
proof (induction n arbitrary: marker seen acc)
  case (Suc n)
  have "returns (lines_loop F payer issuer n m (py_repr m # seen) acc' :: ('s fac_state, pydict list) cmd)"
    if "fe_client F h (AccountLines payer issuer marker) = Inr (PDict d)" "m = dget d ''marker''"
      "m \<noteq> PNone" "py_repr m \<notin> set seen" for h d m acc'
    unfolding that(2)
    by (rule Suc.IH; rule unseen_marker [OF assms(1) that(1)]) (use that Suc.prems in simp_all)
  then show ?case
    unfolding lines_loop.simps
    by (intro returns_cbind_value returns_rpc)
      (auto simp: rpc_Ok Let_def returns_def creturn_def craise_def split: option.splits)
qed simp

lemma returns_queries [returns_rules]:
  "returns (current_ledger F)" "returns (account_data F a)" "returns (xrp_reserve_parameters F)"
  "returns (account_exists F a)" "returns (issuer_transfer_rate F i payer)"
  by (auto simp: current_ledger_def account_data_def xrp_reserve_parameters_def account_exists_def
      issuer_transfer_rate_def Let_def intro!: returns_rules)

text \<open>C35. Verification always answers or raises: when the ledger's pagination markers come from a
  finite set, however it hands them out, a fuel above the size of that set is enough for the
  ticket and trust line queries, since a repeated marker stops them.\<close>

theorem verify_terminates:
  fixes s :: "'s fac_state"
  assumes "markers_in F M" and "card M < fe_fuel F"
  shows "fst (verify F payload r s) \<noteq> Diverge"
proof -
  have fuel: "card (py_repr ` M) - card (set []) < fe_fuel F"
    using assms card_image_le [of M py_repr] by (auto simp: markers_in_def)
  have "returns (verify_failure e :: ('s fac_state, verify_response) cmd)" for e
    by (cases e) (simp_all add: verify_failure_def returns_leaf)
  moreover have "returns (verify_ledger_and_account_state F tx r payer m :: ('s fac_state, unit) cmd)" for tx payer m
    unfolding verify_ledger_and_account_state_def verify_sequence_def ticket_is_available_def
    using ticket_loop_returns [OF assms(1) _ fuel] by (auto intro!: returns_rules)
  moreover have "returns (targeted_balance_check F tx r payer :: ('s fac_state, unit) cmd)" for tx payer
    unfolding targeted_balance_check_def targeted_xrp_check_def targeted_iou_check_def Let_def
    using lines_loop_returns [OF assms(1) _ fuel] by (auto intro!: returns_rules)
  ultimately have "returns (verify F payload r :: ('s fac_state, verify_response) cmd)"
    unfolding verify_def verify_transaction_def verify_simulation_or_balances_def simulate_or_check_def Let_def
    by (auto intro!: returns_rules)
  then show ?thesis
    by (simp add: returns_def)
qed

section \<open>Witnesses\<close>

text \<open>The sample payment is accepted on the sample ledger.\<close>

definition sample_state :: "unit fac_state" where
  "sample_state = \<lparr>fs_store = (), fs_log = [], fs_sent = []\<rparr>"

definition sample_hash :: string where
  "sample_hash = ''54584E00AB12''"

lemma sample_envelope: "verify_envelope sample_facilitator sample_payload sample_xrp = Inr ''sequence''"
  by code_simp

lemma sample_exact: "exact_xrpl_payload sample_payload = Inr ''AB12''"
  by code_simp

lemma sample_signature: "verify_signature (fe_ext sample_facilitator) sample_tx ''rPayer'' = Inr ()"
  by code_simp

lemma sample_structure: "verify_structure sample_facilitator sample_tx sample_xrp ''rPayer'' = Inr ()"
  by code_simp

lemma sample_decode: "codec_decode (fe_ext sample_facilitator) b = Inr sample_tx"
  by (simp add: sample_facilitator_def)

lemma sample_payer: "payer_of sample_tx = ''rPayer''"
  by (simp add: payer_of_def sample_tx_def py_or_def py_str_def)

lemma sample_account: "verify_ledger_and_account_state sample_facilitator sample_tx sample_xrp ''rPayer'' ''sequence'' s =
   (Ok (), s\<lparr>fs_log := fs_log s @ [Ledger, AccountInfo ''rPayer'']\<rparr>)"
  by (simp add: verify_ledger_and_account_state_def current_ledger_def account_data_def cbind_def clift_def creturn_def
     rpc_def sample_facilitator_def sample_client_def vindex_def dindex_def vget_def sample_tx_def sample_xrp_def
     get_max_last_ledger_sequence_def ceil_div_def signer_authorized_def verify_sequence_def py_str_def dget_default_def)

lemma sample_simulation: "verify_simulation_or_balances sample_facilitator sample_tx r p s =
   (Ok ''simulation'', s\<lparr>fs_log := fs_log s @ [Simulate (dpop ''Signers'' (dpop ''SigningPubKey'' (dpop ''TxnSignature'' sample_tx)))]\<rparr>)"
  by (simp add: verify_simulation_or_balances_def simulate_or_check_def ctry_def cbind_def clift_def creturn_def
     rpc_def sample_facilitator_def sample_client_def sample_ext_def is_simulation_unavailable_result_def
     Let_def dget_default_def py_str_def)

lemma sample_signed_hash: "signed_transaction_hash (fe_ext sample_facilitator) ''AB12'' = Inr sample_hash"
  by code_simp

lemma sample_verified_at:
  "verify sample_facilitator sample_payload sample_xrp s =
     (Ok \<lparr>vr_is_valid = True, vr_invalid_reason = None, vr_invalid_message = None,
        vr_payer = Some ''rPayer'', vr_verification_path = Some ''simulation''\<rparr>,
      s\<lparr>fs_log := fs_log s @ [Ledger, AccountInfo ''rPayer'',
         Simulate (dpop ''Signers'' (dpop ''SigningPubKey'' (dpop ''TxnSignature'' sample_tx)))]\<rparr>)"
  by (simp add: verify_def verify_transaction_def ctry_else_def cbind_def clift_def creturn_def decode_blob_def
      sample_envelope sample_exact sample_decode sample_payer sample_signature sample_structure sample_account
      sample_simulation sample_signed_hash Let_def)

lemmas sample_verified = sample_verified_at [of sample_state]

theorem verify_accepts_exact_payment_witness:
  "authentic (fe_ext sample_facilitator) sample_tx \<and> bound_to sample_facilitator sample_tx sample_xrp
   \<and> pays_exactly sample_tx sample_xrp"
proof -
  have "codec_decode (fe_ext sample_facilitator) b = Inr sample_tx" for b
    by (simp add: sample_facilitator_def)
  then show ?thesis
    using verify_accepts_exact_payment [OF sample_verified] by auto
qed

theorem verify_accepts_current_payment_witness:
  "\<exists>account. sequence_current sample_facilitator sample_tx account ''rPayer''"
proof -
  have "codec_decode (fe_ext sample_facilitator) b = Inr sample_tx" for b
    by (simp add: sample_facilitator_def)
  moreover have "payer_of sample_tx = ''rPayer''"
    by (simp add: payer_of_def sample_tx_def py_or_def py_str_def)
  ultimately show ?thesis
    using verify_accepts_current_payment [OF sample_verified] by auto
qed

theorem verify_accepts_funded_payment_witness:
  "\<exists>h q res. fe_client sample_facilitator h (Simulate q) = Inr (PDict res)
     \<and> dget res ''engine_result'' = PStr ''tesSUCCESS''"
  using verify_accepts_funded_payment [OF sample_verified] by auto

theorem verify_has_no_effect_witness:
  "\<exists>v s'. verify sample_facilitator sample_payload sample_xrp sample_state = (v, s')
     \<and> fs_store s' = fs_store sample_state"
  using verify_has_no_effect [OF sample_verified] sample_verified by blast

theorem verify_terminates_witness:
  "markers_in sample_facilitator {} \<and>
   fst (verify sample_facilitator sample_payload sample_iou sample_state) \<noteq> Diverge"
proof -
  have "markers_in sample_facilitator {}"
    by (auto simp: markers_in_def sample_facilitator_def sample_client_def split: rpc_request.splits)
  moreover have "card ({} :: pyval set) < fe_fuel sample_facilitator"
    by (simp add: sample_facilitator_def)
  ultimately show ?thesis
    using verify_terminates by blast
qed


section \<open>Gaps\<close>

text \<open>
  The reasons for memos, delegates, paths and minimum deliveries are never given: a
  transaction with one of these fields is refused for its unexpected field first, whatever the
  rest of it is.\<close>

theorem forbidden_field_is_unexpected:
  assumes "fr \<in> set FORBIDDEN_FIELDS" and "dget tx (fst fr) \<noteq> PNone"
  shows "\<exists>fields. verify_structure F tx r payer =
    Inl (PaymentVerificationError ''invalid_exact_xrpl_payload_unexpected_fields'' (Some fields) (Some payer))"
proof -
  have "fst fr \<notin> set ALLOWED_PAYMENT_FIELDS"
    using assms(1) by (auto simp: FORBIDDEN_FIELDS_def ALLOWED_PAYMENT_FIELDS_def)
  moreover have "fst fr \<in> set (map fst tx)"
    using map_of_SomeD [OF dget_not_None [OF assms(2)]] by force
  ultimately have "filter (\<lambda>k. k \<notin> set ALLOWED_PAYMENT_FIELDS) (remdups (map fst tx)) \<noteq> []"
    unfolding filter_empty_conv set_remdups by blast
  then show ?thesis
    by (simp add: verify_structure_def Let_def)
qed

theorem forbidden_field_is_unexpected_witness:
  "\<exists>fields. verify_structure sample_facilitator (dset ''Memos'' (PList []) sample_tx) sample_xrp ''rPayer'' =
    Inl (PaymentVerificationError ''invalid_exact_xrpl_payload_unexpected_fields'' (Some fields) (Some ''rPayer''))"
  by (rule forbidden_field_is_unexpected [where fr = "(''Memos'', ''invalid_exact_xrpl_payload_memos_not_allowed'')"])
    (simp_all add: FORBIDDEN_FIELDS_def)

definition empty_invoice :: payment_requirements where
  "empty_invoice = sample_xrp\<lparr>r_extra := Some [(''areFeesSponsored'', PBool False), (''invoiceId'', PStr [])]\<rparr>"

text \<open>An empty invoice identifier passes the shape check and is then no verification result:
  the digest helper refuses it with a \<open>ValueError\<close> that \<open>verify\<close> does not turn into an answer.\<close>

theorem empty_invoice_raises:
  "fst (verify sample_facilitator (sample_payload\<lparr>p_accepted := empty_invoice\<rparr>) empty_invoice sample_state) =
     Raise (ValueError ''extra.invoiceId must be non-empty'')"
proof -
  have "verify_envelope sample_facilitator (sample_payload\<lparr>p_accepted := empty_invoice\<rparr>) empty_invoice = Inr ''sequence''"
    by code_simp
  moreover have "verify_structure sample_facilitator sample_tx empty_invoice ''rPayer'' =
      Inl (ValueError ''extra.invoiceId must be non-empty'')"
    by code_simp
  moreover have "exact_xrpl_payload (sample_payload\<lparr>p_accepted := empty_invoice\<rparr>) = Inr ''AB12''"
    using sample_exact by (simp add: exact_xrpl_payload_def)
  ultimately show ?thesis
    by (simp add: verify_def verify_transaction_def verify_failure_def ctry_else_def cbind_def clift_def creturn_def
        craise_def decode_blob_def sample_decode sample_payer sample_signature Let_def)
qed

end
