(* ===== verification/ClientCorrect.thy ===== *)
theory ClientCorrect
  imports Signer VerifyCorrect
begin

text \<open>
  The client and the facilitator agree: what \<open>XRPLPaymentSigner\<close> signs for a set of requirements
  passes the structural checks of \<open>ExactXRPLFacilitatorScheme\<close> for the same requirements.
  What is relied on of xrpl-py is stated as hypotheses: \<open>autofill\<close> only adds what is missing,
  and decoding a signed payment gives its fields back.
\<close>

section \<open>What is relied on of the transaction library\<close>

text \<open>An amount after encoding and decoding: drops are the same text, an issued amount has the
  same currency, issuer and value, though perhaps written differently.\<close>

definition same_amount :: "pyval \<Rightarrow> pyval \<Rightarrow> bool" where
  "same_amount v w \<longleftrightarrow>
     (\<exists>s. v = PStr s \<and> w = PStr s)
     \<or> (\<exists>d e x y. v = PDict d \<and> w = PDict e \<and> dget e ''currency'' = dget d ''currency''
          \<and> dget e ''issuer'' = dget d ''issuer''
          \<and> parse_decimal (py_str (dget d ''value'')) = Some x \<and> parse_decimal (py_str (dget e ''value'')) = Some y
          \<and> is_finite x \<and> is_finite y \<and> dec_val y = dec_val x)"

abbreviation opt_int :: "int option \<Rightarrow> pyval" where
  "opt_int i \<equiv> (case i of None \<Rightarrow> PNone | Some n \<Rightarrow> PInt n)"

abbreviation opt_text :: "string option \<Rightarrow> pyval" where
  "opt_text s \<equiv> (case s of None \<Rightarrow> PNone | Some t \<Rightarrow> PStr t)"

definition faithful_tx :: "payment \<Rightarrow> pydict \<Rightarrow> bool" where
  "faithful_tx p tx \<longleftrightarrow>
     set (map fst tx) \<subseteq> set ALLOWED_PAYMENT_FIELDS
     \<and> dget tx ''TransactionType'' = PStr ''Payment'' \<and> dget tx ''Account'' = PStr (pm_account p)
     \<and> dget tx ''Destination'' = PStr (pm_destination p)
     \<and> same_amount (pm_amount p) (dget tx ''Amount'') \<and> dget tx ''DeliverMax'' = PNone
     \<and> (case pm_send_max p of None \<Rightarrow> dget tx ''SendMax'' = PNone | Some m \<Rightarrow> same_amount m (dget tx ''SendMax''))
     \<and> dget tx ''InvoiceID'' = opt_text (pm_invoice_id p) \<and> dget tx ''DestinationTag'' = opt_int (pm_destination_tag p)
     \<and> dget tx ''NetworkID'' = opt_int (pm_network_id p)
     \<and> dget tx ''LastLedgerSequence'' = opt_int (pm_last_ledger_sequence p)
     \<and> dget tx ''Sequence'' = opt_int (pm_sequence p) \<and> dget tx ''TicketSequence'' = opt_int (pm_ticket_sequence p)
     \<and> dget tx ''Fee'' = opt_text (pm_fee p) \<and> dget tx ''Flags'' \<in> {PNone, PInt 0}"

definition signer_faithful :: "signer \<Rightarrow> bool" where
  "signer_faithful S \<longleftrightarrow>
     (\<forall>p b. sg_sign S p = Inr b \<longrightarrow> (\<exists>tx. codec_decode (sg_ext S) (upper b) = Inr tx \<and> faithful_tx p tx))"

definition autofill_keeps :: "signer \<Rightarrow> bool" where
  "autofill_keeps S \<longleftrightarrow>
     (\<forall>h p q. sg_autofill S h p = Inr q \<longrightarrow>
        pm_account q = pm_account p \<and> pm_destination q = pm_destination p \<and> pm_amount q = pm_amount p
        \<and> pm_send_max q = pm_send_max p \<and> pm_invoice_id q = pm_invoice_id p
        \<and> pm_destination_tag q = pm_destination_tag p \<and> pm_ticket_sequence q = pm_ticket_sequence p
        \<and> (pm_last_ledger_sequence p \<noteq> None \<longrightarrow> pm_last_ledger_sequence q = pm_last_ledger_sequence p))"

text \<open>The extra fields are written the way the models read them: under their wire names, without
  surrounding white space, the destination tag as a number.\<close>

definition canonical_extra :: "ext \<Rightarrow> payment_requirements \<Rightarrow> bool" where
  "canonical_extra E r \<longleftrightarrow>
     (\<forall>x. exact_xrpl_extra E r = Inr x \<longrightarrow>
        dget (extra_of r) ''issuer'' = opt_text (x_issuer x)
        \<and> dget (extra_of r) ''invoiceId'' = opt_text (x_invoice_id x)
        \<and> dget (extra_of r) ''destinationTag'' = opt_int (x_destination_tag x))"


definition fee_within :: "facilitator \<Rightarrow> string \<Rightarrow> bool" where
  "fee_within F blob \<longleftrightarrow>
     (\<forall>tx fee. codec_decode (fe_ext F) blob = Inr tx \<and> dget tx ''Fee'' = PStr fee \<longrightarrow>
        length fee \<le> 4300 \<and> int (digits_val fee) \<le> MAX_FEE_DROPS (fe_settings F))"


section \<open>A run of the signer\<close>

definition offered :: "signer \<Rightarrow> payment_requirements \<Rightarrow> exact_xrpl_extra_model \<Rightarrow> int \<Rightarrow> int option \<Rightarrow> payment \<Rightarrow> bool" where
  "offered S r x network_id current p \<longleftrightarrow>
     pm_account p = sg_address S \<and> pm_destination p = r_pay_to r
     \<and> payment_amount S r x = Inr (pm_amount p, pm_send_max p)
     \<and> payment_invoice S x = Inr (pm_invoice_id p)
     \<and> pm_destination_tag p = x_destination_tag x
     \<and> (\<forall>c. current = Some c \<longrightarrow> pm_last_ledger_sequence p = Some (get_max_last_ledger_sequence c r))
     \<and> validate_prepared p (transfer_method x) network_id = Inr ()"

lemma prepared_offered:
  assumes "prepare_payment S (payment_of S r x network_id ll amounts invoice ticket) h = (Ok q, h')"
    and "autofill_keeps S" and "payment_amount S r x = Inr amounts" and "payment_invoice S x = Inr invoice"
    and "\<And>c. current = Some c \<Longrightarrow> ll = Some (get_max_last_ledger_sequence c r)"
    and "validate_prepared q (transfer_method x) network_id = Inr ()"
  shows "offered S r x network_id current q"
proof -
  let ?p = "payment_of S r x network_id ll amounts invoice ticket"
  have "q = ?p \<or> (\<exists>h. sg_autofill S h ?p = Inr q)"
    using assms(1) by (auto simp: prepare_payment_def creturn_def split: if_splits sum.splits)
  then have "pm_account q = pm_account ?p \<and> pm_destination q = pm_destination ?p \<and> pm_amount q = pm_amount ?p
        \<and> pm_send_max q = pm_send_max ?p \<and> pm_invoice_id q = pm_invoice_id ?p
        \<and> pm_destination_tag q = pm_destination_tag ?p
        \<and> (pm_last_ledger_sequence ?p \<noteq> None \<longrightarrow> pm_last_ledger_sequence q = pm_last_ledger_sequence ?p)"
    using assms(2) unfolding autofill_keeps_def by blast
  then show ?thesis
    using assms(3-6) by (auto simp: offered_def payment_of_def)
qed

lemma sign_requirements_run:
  assumes "sign_requirements S r h = (Ok blob, h')" and "autofill_keeps S"
  shows "\<exists>x network_id current h1 p b. validate_requirements_shape (sg_ext S) r = Inr x
     \<and> parse_xrpl_network_id (r_network r) = Inr network_id
     \<and> client_current_ledger S (r_network r) h = (Ok current, h1)
     \<and> offered S r x network_id current p \<and> sg_sign S p = Inr b \<and> blob = upper b"
proof -
  obtain x network_id current h1 amounts invoice ticket h2 h3 q b where
    "validate_requirements_shape (sg_ext S) r = Inr x" "parse_xrpl_network_id (r_network r) = Inr network_id"
    "client_current_ledger S (r_network r) h = (Ok current, h1)"
    and amounts: "payment_amount S r x = Inr amounts" "payment_invoice S x = Inr invoice"
    and prep: "prepare_payment S (payment_of S r x network_id
        (case current of Some c \<Rightarrow> Some (get_max_last_ledger_sequence c r) | None \<Rightarrow> sg_default_last_ledger_sequence S)
        amounts invoice ticket) h2 = (Ok q, h3)"
    and valid: "validate_prepared q (transfer_method x) network_id = Inr ()"
    and "sg_sign S q = Inr b" "blob = upper b"
    using assms(1) by (auto simp: sign_requirements_def run_simps Let_def)
  moreover have "offered S r x network_id current q"
    by (rule prepared_offered [OF prep assms(2) amounts _ valid]) simp
  ultimately show ?thesis by blast
qed


section \<open>The structural checks\<close>

lemma forbidden_none:
  assumes "set (map fst tx) \<subseteq> set ALLOWED_PAYMENT_FIELDS"
  shows "find (\<lambda>fr. dget tx (fst fr) \<noteq> PNone) FORBIDDEN_FIELDS = None"
proof -
  have "dget tx k = PNone" if "k \<notin> set ALLOWED_PAYMENT_FIELDS" for k
    using assms that dget_not_None [of tx k] map_of_SomeD by fastforce
  then show ?thesis
    by (simp add: FORBIDDEN_FIELDS_def ALLOWED_PAYMENT_FIELDS_def)
qed

lemma compare_decimal_same:
  assumes "parse_decimal s = Some x" and "parse_decimal t = Some y" and "is_finite x" and "is_finite y"
    and "dec_val x = dec_val y"
  shows "compare_decimal_strings s t = Inr 0"
  by (rule dec_cmp_finite [OF assms(3,4)]) (use assms in \<open>simp add: compare_decimal_strings_def\<close>)

lemma verify_amount_signed:
  assumes shape: "validate_requirements_shape E r = Inr x" and pay: "payment_amount S r x = Inr (pm_amount p, pm_send_max p)"
    and tx: "faithful_tx p tx" and issuer: "dget (extra_of r) ''issuer'' = opt_text (x_issuer x)"
  shows "verify_amount tx r payer = Inr ()"
proof (cases "r_asset r = ''XRP''")
  case True
  then have p: "pm_amount p = PStr (r_amount r)" "pm_send_max p = None"
    using pay by (simp_all add: payment_amount_def)
  then have a: "dget tx ''Amount'' = PStr (r_amount r)" "dget tx ''SendMax'' = PNone" "dget tx ''DeliverMax'' = PNone"
    using tx by (auto simp: faithful_tx_def same_amount_def)
  have "isdigit (r_amount r)" "length (r_amount r) \<le> 4300"
    using validate_shape_amount_XRP [OF validate_shape_parts(8) [OF shape] True] by (auto intro: canonical_nat_isdigit)
  then show ?thesis
    using a True by (simp add: verify_amount_def int_of_str_def isdigit_parse_int)
next
  case False
  note iou = validate_shape_amount_IOU [OF validate_shape_parts(8) [OF shape] False]
  then obtain i y where i: "x_issuer x = Some i" and y: "parse_decimal (r_amount r) = Some y" "is_finite y" by auto
  have code: "xrpl_currency_code (r_asset r) = Inr (r_asset r)"
    by (rule validate_shape_parts(4) [OF shape])
  have p: "pm_amount p = issued_amount (r_asset r) i (r_amount r)"
    "pm_send_max p = Some (issued_amount (r_asset r) i (r_amount r))"
    using pay False i by (auto simp: payment_amount_def code rbind_eq_Inr Let_def)
  have "\<exists>d z. v = PDict d \<and> dget d ''currency'' = PStr (r_asset r) \<and> dget d ''issuer'' = PStr i
      \<and> parse_decimal (py_str (dget d ''value'')) = Some z \<and> is_finite z \<and> dec_val z = dec_val y"
    if "same_amount (issued_amount (r_asset r) i (r_amount r)) v" for v
    using that y by (auto simp: same_amount_def issued_amount_def py_str_def)
  note same = this
  have "same_amount (issued_amount (r_asset r) i (r_amount r)) (dget tx ''Amount'')"
    "same_amount (issued_amount (r_asset r) i (r_amount r)) (dget tx ''SendMax'')"
    using tx p by (simp_all add: faithful_tx_def)
  from this [THEN same] obtain d z m w where d: "dget tx ''Amount'' = PDict d" "dget d ''currency'' = PStr (r_asset r)"
      "dget d ''issuer'' = PStr i" "parse_decimal (py_str (dget d ''value'')) = Some z" "is_finite z" "dec_val z = dec_val y"
    and m: "dget tx ''SendMax'' = PDict m" "dget m ''currency'' = PStr (r_asset r)"
      "dget m ''issuer'' = PStr i" "parse_decimal (py_str (dget m ''value'')) = Some w" "is_finite w" "dec_val w = dec_val y"
    by blast
  have "compare_decimal_strings (py_str (dget d ''value'')) (r_amount r) = Inr 0"
    "compare_decimal_strings (py_str (dget m ''value'')) (r_amount r) = Inr 0"
    using compare_decimal_same d m y by blast+
  moreover have "dget tx ''DeliverMax'' = PNone"
    using tx by (simp add: faithful_tx_def)
  ultimately show ?thesis
    using False d m code issuer i by (simp add: verify_amount_def verify_iou_amount_def)
qed

lemma validate_prepared_ok:
  assumes "validate_prepared p m network_id = Inr ()"
  shows "\<exists>fee. pm_fee p = Some fee \<and> isdigit fee" and "\<exists>n. pm_last_ledger_sequence p = Some n"
    and "network_id \<le> 1024 \<Longrightarrow> pm_network_id p = None" and "1024 < network_id \<Longrightarrow> pm_network_id p = Some network_id"
    and "m = ''sequence'' \<Longrightarrow> pm_ticket_sequence p = None"
    and "m \<noteq> ''sequence'' \<Longrightarrow> pm_sequence p = Some 0 \<and> pm_ticket_sequence p \<noteq> None"
  using assms by (auto simp: validate_prepared_def split: if_splits option.splits)

lemma verify_binding_signed:
  assumes offer: "offered S r x network_id current p" and tx: "faithful_tx p tx"
    and ext: "sg_ext S = fe_ext F" and canon: "canonical_extra (fe_ext F) r" and x: "exact_xrpl_extra (fe_ext F) r = Inr x"
    and net: "parse_xrpl_network_id (r_network r) = Inr network_id"
    and fee: "\<And>fee. pm_fee p = Some fee \<Longrightarrow> length fee \<le> 4300 \<and> int (digits_val fee) \<le> MAX_FEE_DROPS (fe_settings F)"
  shows "verify_binding F tx r payer = Inr ()"
proof -
  have raw: "dget (extra_of r) ''invoiceId'' = opt_text (x_invoice_id x)"
    "dget (extra_of r) ''destinationTag'' = opt_int (x_destination_tag x)"
    using canon x by (auto simp: canonical_extra_def)
  have tag: "py_eq (dget tx ''DestinationTag'') (dget (extra_of r) ''destinationTag'')"
    using offer tx raw by (auto simp: offered_def faithful_tx_def split: option.splits)
  have invoice: "expected_invoice (fe_ext F) r =
      Inr (if dget tx ''InvoiceID'' \<noteq> PNone then Some (upper (py_str (dget tx ''InvoiceID''))) else None)"
  proof (cases "x_invoice_id x")
    case None
    then have "dget tx ''InvoiceID'' = PNone" "dget (extra_of r) ''invoiceId'' = PNone"
      using offer tx raw by (simp_all add: offered_def faithful_tx_def payment_invoice_def)
    then show ?thesis by (simp add: expected_invoice_def)
  next
    case (Some i)
    then have i: "i \<noteq> []" and "pm_invoice_id p = Some (upper (sha256_hex (fe_ext F) i))"
      using offer ext
      by (auto simp: offered_def payment_invoice_def rbind_eq_Inr invoice_id_to_invoice_id_field_def split: if_splits)
    then have "dget tx ''InvoiceID'' = PStr (upper (sha256_hex (fe_ext F) i))"
      using tx by (simp add: faithful_tx_def)
    then show ?thesis
      using raw(1) Some i
      by (simp add: expected_invoice_def invoice_id_to_invoice_id_field_def py_str_def)
  qed
  have prep: "validate_prepared p (transfer_method x) network_id = Inr ()"
    using offer by (simp add: offered_def)
  obtain f where f: "pm_fee p = Some f" "isdigit f"
    using validate_prepared_ok(1) [OF prep] by blast
  have nid: "network_id \<le> 1024 \<longrightarrow> dget tx ''NetworkID'' = PNone"
    "1024 < network_id \<longrightarrow> dget tx ''NetworkID'' = PInt network_id"
    using validate_prepared_ok(3,4) [OF prep] tx by (auto simp: faithful_tx_def)
  have "dget tx ''Fee'' = PStr f" "int_of_str f = Inr (int (digits_val f))"
    using tx f fee by (auto simp: faithful_tx_def isdigit_int_of_str)
  then show ?thesis
    using tag invoice net nid f fee [OF f(1)] by (auto simp: verify_binding_def Let_def not_le)
qed


text \<open>C37. Client and facilitator agree: the payment the client signs for canonically written
  requirements decodes to a transaction that passes every structural check of the facilitator
  for the same requirements, as long as its fee is within the facilitator's bound. It is paid by
  the signer's account, carries the sequence or ticket fields of the chosen transfer method, and
  its last ledger sequence is the largest the facilitator allows at the ledger the client read.\<close>

theorem signed_payment_passes_structure:
  assumes "sign_requirements S r h = (Ok blob, h')" and "signer_faithful S" and "autofill_keeps S"
    and "sg_ext S = fe_ext F" and "canonical_extra (fe_ext F) r"
    and "fee_within F blob"
  shows "\<exists>tx x last. codec_decode (fe_ext F) blob = Inr tx
    \<and> exact_xrpl_extra (fe_ext F) r = Inr x
    \<and> payer_of tx = sg_address S \<and> verify_structure F tx r (payer_of tx) = Inr ()
    \<and> (if transfer_method x = ''sequence'' then dget tx ''TicketSequence'' = PNone
       else dget tx ''Sequence'' = PInt 0 \<and> is_int (dget tx ''TicketSequence''))
    \<and> as_int (dget tx ''LastLedgerSequence'') = Some last
    \<and> (\<forall>c h1. client_current_ledger S (r_network r) h = (Ok (Some c), h1) \<longrightarrow>
         last = get_max_last_ledger_sequence c r)"
proof -
  obtain x network_id current h1 p b where run: "validate_requirements_shape (fe_ext F) r = Inr x"
    "parse_xrpl_network_id (r_network r) = Inr network_id"
    "client_current_ledger S (r_network r) h = (Ok current, h1)"
    "offered S r x network_id current p" "sg_sign S p = Inr b" "blob = upper b"
    using sign_requirements_run [OF assms(1,3)] assms(4) by auto
  obtain tx where tx: "codec_decode (fe_ext F) blob = Inr tx" "faithful_tx p tx"
    using assms(2,4) run(5,6) by (auto simp: signer_faithful_def)
  have x: "exact_xrpl_extra (fe_ext F) r = Inr x"
    by (rule validate_shape_parts(6) [OF run(1)])
  have prep: "validate_prepared p (transfer_method x) network_id = Inr ()"
    using run(4) by (simp add: offered_def)
  have fee: "length fee \<le> 4300 \<and> int (digits_val fee) \<le> MAX_FEE_DROPS (fe_settings F)" if "pm_fee p = Some fee" for fee
    using assms(6) tx that by (simp add: faithful_tx_def fee_within_def)
  have amount: "verify_amount tx r (payer_of tx) = Inr ()"
    using verify_amount_signed [OF run(1) _ tx(2)] run(4) assms(5) x
    by (auto simp: offered_def canonical_extra_def)
  have binding: "verify_binding F tx r (payer_of tx) = Inr ()"
    by (rule verify_binding_signed [OF run(4) tx(2) assms(4,5) x run(2) fee])
  have flags: "\<not> partial_payment (py_or (dget tx ''Flags'') (PInt 0))"
    using tx(2) by (auto simp: faithful_tx_def partial_payment_def py_or_def)
  have dest: "dget tx ''Destination'' = PStr (r_pay_to r)" "dget tx ''Account'' = PStr (sg_address S)"
    and fields: "set (map fst tx) \<subseteq> set ALLOWED_PAYMENT_FIELDS"
    using tx(2) run(4) by (auto simp: faithful_tx_def offered_def)
  then have unexpected: "filter (\<lambda>k. k \<notin> set ALLOWED_PAYMENT_FIELDS) (remdups (map fst tx)) = []"
    by (auto simp: filter_empty_conv)
  have "verify_structure F tx r (payer_of tx) = Inr ()"
    using unexpected dest flags amount binding forbidden_none [OF fields] by (simp add: verify_structure_def)
  moreover have "payer_of tx = sg_address S"
    using dest by (simp add: payer_of_def py_or_def py_str_def)
  moreover obtain last where last: "pm_last_ledger_sequence p = Some last"
    using validate_prepared_ok(2) [OF prep] by blast
  moreover have "as_int (dget tx ''LastLedgerSequence'') = Some last"
    using tx(2) last by (simp add: faithful_tx_def)
  moreover have "last = get_max_last_ledger_sequence c r"
    if "client_current_ledger S (r_network r) h = (Ok (Some c), h2)" for c h2
    using that run(3,4) last by (simp add: offered_def)
  moreover have "if transfer_method x = ''sequence'' then dget tx ''TicketSequence'' = PNone
       else dget tx ''Sequence'' = PInt 0 \<and> is_int (dget tx ''TicketSequence'')"
    using validate_prepared_ok(5,6) [OF prep] tx(2) by (auto simp: faithful_tx_def is_int_def)
  ultimately show ?thesis
    using tx(1) x by blast
qed

section \<open>Witness\<close>

text \<open>A signer without autofill whose ledger index is 996, and the payment it makes.\<close>

definition sample_payment :: payment where
  "sample_payment = \<lparr>pm_account = ''rPayer'', pm_destination = ''rMerchant'', pm_amount = PStr ''1000'',
     pm_send_max = None, pm_invoice_id = None, pm_destination_tag = None, pm_network_id = None,
     pm_last_ledger_sequence = Some 1010, pm_sequence = Some 5, pm_ticket_sequence = None, pm_fee = Some ''10''\<rparr>"

definition sample_signer :: signer where
  "sample_signer = \<lparr>sg_ext = fe_ext sample_facilitator, sg_address = ''rPayer'', sg_network = Some ''xrpl:1'',
     sg_client = \<lambda>_ _. Inr PNone, sg_check_issued = \<lambda>_ _ _. Inr (), sg_check_payment = \<lambda>_. Inr (),
     sg_autofill = \<lambda>_ _. Inl (ClientError []),
     sg_sign = \<lambda>p. if p = sample_payment then Inr ''ab12'' else Inl (ClientError ''unknown payment''),
     sg_autofill_enabled = False, sg_default_fee = ''10'', sg_default_sequence = 5,
     sg_default_last_ledger_sequence = None, sg_ticket_inventory_target = 0,
     sg_get_current_ledger_index = Some (\<lambda>_. 996), sg_get_available_ticket_sequence = None, sg_fuel = 10\<rparr>"

definition sample_extra :: exact_xrpl_extra_model where
  "sample_extra = \<lparr>x_issuer = None, x_are_fees_sponsored = False, x_asset_transfer_method = Some ''sequence'',
     x_payment_flow = None, x_invoice_id = None, x_destination_tag = None\<rparr>"

lemma sample_shape: "validate_requirements_shape (fe_ext sample_facilitator) sample_xrp = Inr sample_extra"
  by code_simp

lemma sample_signs: "sign_requirements sample_signer sample_xrp [] = (Ok ''AB12'', [])"
proof -
  have nid: "parse_xrpl_network_id ''xrpl:1'' = Inr 1" and up: "upper ''ab12'' = ''AB12''"
    and dig: "isdigit ''10''"
    by code_simp+
  show ?thesis
    unfolding sign_requirements_def
    by (simp add: sample_signer_def sample_shape cbind_def clift_def creturn_def
        client_current_ledger_def payment_amount_def payment_invoice_def payment_ticket_def transfer_method_def
        payment_of_def prepare_payment_def validate_prepared_def sample_extra_def Let_def
        get_max_last_ledger_sequence_def ceil_div_def)
      (simp add: sample_xrp_def nid up dig sample_payment_def creturn_def get_max_last_ledger_sequence_def ceil_div_def)
qed

theorem signed_payment_passes_structure_witness:
  "sign_requirements sample_signer sample_xrp [] = (Ok ''AB12'', [])
   \<and> verify_structure sample_facilitator sample_tx sample_xrp ''rPayer'' = Inr ()"
proof
  show run: "sign_requirements sample_signer sample_xrp [] = (Ok ''AB12'', [])"
    by (rule sample_signs)
  have dec: "codec_decode (fe_ext sample_facilitator) b = Inr sample_tx" for b
    by (rule sample_decode)
  have "faithful_tx sample_payment sample_tx"
    by (simp add: faithful_tx_def sample_payment_def sample_tx_def same_amount_def ALLOWED_PAYMENT_FIELDS_def)
  then have faithful: "signer_faithful sample_signer"
    by (simp add: signer_faithful_def sample_signer_def dec)
  have keeps: "autofill_keeps sample_signer"
    by (simp add: autofill_keeps_def sample_signer_def)
  have canon: "canonical_extra (fe_ext sample_facilitator) sample_xrp"
    using validate_shape_parts(6) [OF sample_shape]
    by (simp add: canonical_extra_def sample_extra_def sample_xrp_def dict_or_empty_def)
  have fee: "fee_within sample_facilitator ''AB12''"
    by (auto simp: fee_within_def dec sample_tx_def sample_facilitator_def sample_settings_def digits_val_def
        digit_val_def ord_c_def)
  have ext: "sg_ext sample_signer = fe_ext sample_facilitator"
    by (simp add: sample_signer_def)
  show "verify_structure sample_facilitator sample_tx sample_xrp ''rPayer'' = Inr ()"
    using signed_payment_passes_structure [OF run faithful keeps ext canon fee] by (auto simp: dec sample_payer)
qed


section \<open>A gap\<close>

text \<open>
  The two sides read the invoice identifier differently: the client's model strips white
  space before it is hashed, the facilitator hashes the text as it stands, so an honest payment
  for a padded identifier is refused.\<close>

theorem padded_invoice_disagrees:
  "(let E = sample_ext\<lparr>sha256_hex := to_hex\<rparr>;
        r = sample_xrp\<lparr>r_extra := Some [(''areFeesSponsored'', PBool False), (''invoiceId'', PStr '' inv'')]\<rparr>
    in (case exact_xrpl_extra E r of
          Inr x \<Rightarrow> payment_invoice (sample_signer\<lparr>sg_ext := E\<rparr>) x \<noteq> expected_invoice E r
        | Inl _ \<Rightarrow> False))"
proof -
  have ex: "exact_xrpl_extra (sample_ext\<lparr>sha256_hex := to_hex\<rparr>)
      (sample_xrp\<lparr>r_extra := Some [(''areFeesSponsored'', PBool False), (''invoiceId'', PStr '' inv'')]\<rparr>) =
    Inr (sample_extra\<lparr>x_asset_transfer_method := None, x_invoice_id := Some ''inv''\<rparr>)"
    by code_simp
  have ne: "upper (to_hex ''inv'') \<noteq> upper (to_hex '' inv'')"
    by code_simp
  show ?thesis
    unfolding Let_def ex
    using ne by (simp add: payment_invoice_def expected_invoice_def invoice_id_to_invoice_id_field_def sample_extra_def
        sample_xrp_def dict_or_empty_def py_str_def)
qed

end
