(* ===== verification/Spend.thy ===== *)
theory Spend
  imports Protocol
begin

text \<open>
  \<open>xrpl_x402_client/spend.py\<close>: opt-in spend limits for XRPL assets. \<open>spend_policy\<close> is the policy
  closure the client registers; the SDK's own spend controls receive \<open>spend_controls\<close>.
\<close>

section \<open>Limits\<close>

record spend_limit =
  sl_network :: string
  sl_asset :: string
  sl_max_amount :: string
  sl_issuer :: "string option"

definition check_limit :: "spend_limit \<Rightarrow> exn + spend_limit" where
  "check_limit l = (case parse_decimal (sl_max_amount l) of
       None \<Rightarrow> Inl (ValueError ''max_amount must be a decimal string'')
     | Some cap \<Rightarrow>
       if \<not> is_finite cap then Inl (ValueError ''max_amount must be positive and finite'')
       else rbind (dec_le cap (dec_of_int 0)) (\<lambda>nonpos.
         if nonpos then Inl (ValueError ''max_amount must be positive and finite'')
         else rbind (normalize_currency_code (sl_asset l)) (\<lambda>code.
           if code \<noteq> ''XRP'' \<and> (sl_issuer l = None \<or> sl_issuer l = Some [])
             then Inl (ValueError ''Non-XRP spend limits require an explicit issuer'')
           else Inr l)))"

text \<open>One entry of \<open>allowed_assets\<close>: network, ledger currency and the cap, which is only set for
  the native asset.\<close>

definition allowed_entry :: "spend_limit \<Rightarrow> exn + string \<times> string \<times> string option" where
  "allowed_entry l =
     rbind (xrpl_currency_code (sl_asset l)) (\<lambda>asset.
     rbind (normalize_currency_code (sl_asset l)) (\<lambda>code.
       Inr (sl_network l, asset, if code = ''XRP'' then Some (sl_max_amount l) else None)))"

definition spend_controls :: "spend_limit list \<Rightarrow> exn + (string \<times> string \<times> string option) list" where
  "spend_controls limits = map_exn allowed_entry limits"

definition limit_issuer :: "spend_limit \<Rightarrow> pyval" where
  "limit_issuer l = (case sl_issuer l of None \<Rightarrow> PNone | Some i \<Rightarrow> PStr i)"

definition within_limit :: "payment_requirements \<Rightarrow> string \<Rightarrow> spend_limit \<Rightarrow> exn + bool" where
  "within_limit r code l =
     (if r_network r \<noteq> sl_network l then Inr False
      else rbind (normalize_currency_code (sl_asset l)) (\<lambda>limit_code.
        if code \<noteq> limit_code then Inr False
        else if dget (extra_of r) ''issuer'' \<noteq> limit_issuer l then Inr False
        else rbind (decimal_of_str (r_amount r)) (\<lambda>amount.
          rbind (decimal_of_str (sl_max_amount l)) (\<lambda>cap. dec_le amount cap))))"

fun any_limit :: "payment_requirements \<Rightarrow> string \<Rightarrow> spend_limit list \<Rightarrow> exn + bool" where
  "any_limit r code [] = Inr False"
| "any_limit r code (l # ls) =
     rbind (within_limit r code l) (\<lambda>ok. if ok then Inr True else any_limit r code ls)"

definition spend_policy :: "spend_limit list \<Rightarrow> payment_requirements list \<Rightarrow> exn + payment_requirements list" where
  "spend_policy limits requirements =
     filter_exn (\<lambda>r. rbind (normalize_currency_code (r_asset r)) (\<lambda>code. any_limit r code limits)) requirements"


section \<open>Properties\<close>

lemma any_limit_True: "any_limit r code ls = Inr True \<Longrightarrow> \<exists>l \<in> set ls. within_limit r code l = Inr True"
  by (induction ls) (auto simp: rbind_eq_Inr split: if_splits)

lemma check_limit_ok:
  assumes "check_limit l = Inr l'"
  shows "\<exists>cap. parse_decimal (sl_max_amount l) = Some cap \<and> is_finite cap \<and> 0 < dec_val cap"
  using assms by (auto simp: check_limit_def rbind_eq_Inr dec_le_finite split: option.splits if_splits)

lemma dec_le_cap:
  assumes "dec_le a c = Inr True" and "is_finite c"
  shows "a = DInf True \<or> is_finite a \<and> dec_val a \<le> dec_val c"
proof (cases "is_finite a")
  case True
  then show ?thesis using assms by (simp add: dec_le_finite)
next
  case False
  then show ?thesis
    using assms by (cases a; cases c) (auto simp: dec_le_def signed_def split: if_splits)
qed

text \<open>C40. No payment above its cap: a requirement that the spend policy lets through is for the
  network, the currency and the issuer of some configured limit, and its amount is a decimal
  number no larger than that limit's positive finite cap (or minus infinity, which the shape check
  refuses).\<close>

theorem spend_policy_caps:
  assumes "spend_policy limits rs = Inr accepted" and "r \<in> set accepted"
    and "\<forall>l \<in> set limits. check_limit l = Inr l"
  shows "r \<in> set rs \<and> (\<exists>l \<in> set limits. \<exists>amount cap code.
    r_network r = sl_network l \<and> normalize_currency_code (r_asset r) = Inr code
    \<and> normalize_currency_code (sl_asset l) = Inr code \<and> dget (extra_of r) ''issuer'' = limit_issuer l
    \<and> parse_decimal (r_amount r) = Some amount \<and> parse_decimal (sl_max_amount l) = Some cap
    \<and> is_finite cap \<and> 0 < dec_val cap
    \<and> (amount = DInf True \<or> is_finite amount \<and> dec_val amount \<le> dec_val cap))"
proof -
  have r: "r \<in> set rs" and ok: "rbind (normalize_currency_code (r_asset r)) (\<lambda>code. any_limit r code limits) = Inr True"
    using filter_exn_set [OF assms(1) [unfolded spend_policy_def]] assms(2) by auto
  obtain code l where code: "normalize_currency_code (r_asset r) = Inr code" and l: "l \<in> set limits"
    and w: "within_limit r code l = Inr True"
    using ok by (auto simp: rbind_eq_Inr dest!: any_limit_True)
  obtain cap where cap: "parse_decimal (sl_max_amount l) = Some cap" "is_finite cap" "0 < dec_val cap"
    using check_limit_ok assms(3) l by blast
  obtain amount where "r_network r = sl_network l" "normalize_currency_code (sl_asset l) = Inr code"
    "dget (extra_of r) ''issuer'' = limit_issuer l" "parse_decimal (r_amount r) = Some amount" "dec_le amount cap = Inr True"
    using w cap(1)
    by (auto simp: within_limit_def rbind_eq_Inr decimal_of_str_def split: if_splits option.splits)
  with r code l cap dec_le_cap [OF this(5) cap(2)] show ?thesis by blast
qed

definition sample_limit :: spend_limit where
  "sample_limit = \<lparr>sl_network = ''xrpl:1'', sl_asset = ''XRP'', sl_max_amount = ''5000'', sl_issuer = None\<rparr>"

theorem spend_policy_caps_witness:
  "\<exists>accepted. spend_policy [sample_limit] [sample_xrp, sample_xrp\<lparr>r_amount := ''5001''\<rparr>] = Inr accepted
     \<and> sample_xrp \<in> set accepted
     \<and> (\<exists>amount cap. parse_decimal (r_amount sample_xrp) = Some amount
          \<and> parse_decimal (sl_max_amount sample_limit) = Some cap
          \<and> (amount = DInf True \<or> dec_val amount \<le> dec_val cap))"
proof -
  have p: "spend_policy [sample_limit] [sample_xrp, sample_xrp\<lparr>r_amount := ''5001''\<rparr>] = Inr [sample_xrp]"
    by code_simp
  have "check_limit sample_limit = Inr sample_limit"
    by code_simp
  then show ?thesis
    using p spend_policy_caps [OF p, of sample_xrp] by auto
qed

end
