(* ===== verification/ClientTransport.thy ===== *)
theory ClientTransport
  imports Signer Spend
begin

text \<open>
  The wiring of the client to the x402 SDK: \<open>ExactXRPLClientScheme\<close> and the registration in
  \<open>xrpl_x402_client/signer.py\<close>, \<open>apply_xrpl_spend_limits\<close> in \<open>spend.py\<close>, and the HTTP adapter and transport
  of \<open>httpx.py\<close>. The SDK's client is a record of what was registered with it; its header codecs, its
  handling of a 402 response and the inner transport are arguments.
\<close>

section \<open>The SDK client\<close>

datatype spend_control = AllowedAssets "(string \<times> string \<times> string option) list" | Configured pyval

record sdk_client =
  sc_networks :: "string list"
  sc_policies :: "(payment_requirements list \<Rightarrow> exn + payment_requirements list) list"
  sc_controls :: "spend_control option"

definition x402Client :: sdk_client where
  "x402Client = \<lparr>sc_networks = [], sc_policies = [], sc_controls = None\<rparr>"

text \<open>\<open>networks\<close> is one network, or a list of them, or missing.\<close>

definition selected_networks :: "string + string list option \<Rightarrow> string list" where
  "selected_networks networks = (case networks of
       Inl network \<Rightarrow> [network]
     | Inr (Some (n # ns)) \<Rightarrow> n # ns
     | Inr _ \<Rightarrow> [''xrpl:0'', ''xrpl:1'', ''xrpl:2''])"

definition register_exact_xrpl_client :: "sdk_client \<Rightarrow> string + string list option \<Rightarrow> sdk_client" where
  "register_exact_xrpl_client client networks =
     client\<lparr>sc_networks := sc_networks client @ selected_networks networks,
            sc_policies := sc_policies client @ [enforce_default_asset_issuers]\<rparr>"

definition apply_xrpl_spend_limits :: "sdk_client \<Rightarrow> spend_limit list \<Rightarrow> exn + sdk_client" where
  "apply_xrpl_spend_limits client limits =
     (if limits = [] then Inr client
      else rbind (spend_controls limits) (\<lambda>allowed.
        Inr (client\<lparr>sc_controls := Some (AllowedAssets allowed),
                    sc_policies := sc_policies client @ [spend_policy limits]\<rparr>)))"


section \<open>The scheme\<close>

text \<open>The default asset with zero decimals.\<close>

definition scheme_find_default_asset :: "string \<Rightarrow> string \<Rightarrow> (default_asset \<times> int) option" where
  "scheme_find_default_asset asset network = map_option (\<lambda>d. (d, 0)) (find_default_asset asset network)"

definition create_payment_payload ::
  "(pydict \<Rightarrow> pydict) \<Rightarrow> signer \<Rightarrow> payment_requirements \<Rightarrow> pydict option \<Rightarrow> pydict client_cmd" where
  "create_payment_payload append_identifier S requirements extensions =
     cbind (build_x402_payload S requirements) (\<lambda>result.
       creturn (case extensions of
           Some (e # es) \<Rightarrow>
             let enriched = append_identifier (e # es) in
             if \<not> py_eq (PDict enriched) (PDict (e # es)) then dset ''__extensions'' (PDict enriched) result else result
         | _ \<Rightarrow> result))"


section \<open>The HTTP adapter\<close>

definition V2_REQUIRED :: exn where
  "V2_REQUIRED = ValueError ''Only canonical x402 v2 PAYMENT-REQUIRED headers are supported''"

text \<open>A decoder answers \<open>None\<close> for a value that is not of the expected model.\<close>

definition get_payment_required_response ::
  "(string \<Rightarrow> exn + payment_required option) \<Rightarrow> (string \<Rightarrow> string option) \<Rightarrow> exn + payment_required" where
  "get_payment_required_response decode get_header = (case get_header ''PAYMENT-REQUIRED'' of
       Some (c # cs) \<Rightarrow>
         rbind (decode (c # cs)) (\<lambda>parsed. case parsed of
             Some required \<Rightarrow> if pr_version required = 2 then Inr required else Inl V2_REQUIRED
           | None \<Rightarrow> Inl V2_REQUIRED)
     | _ \<Rightarrow> Inl V2_REQUIRED)"

definition get_payment_settle_response ::
  "(string \<Rightarrow> exn + 'r option) \<Rightarrow> (string \<Rightarrow> string option) \<Rightarrow> exn + 'r" where
  "get_payment_settle_response decode get_header = (case get_header ''PAYMENT-RESPONSE'' of
       Some (c # cs) \<Rightarrow>
         rbind (decode (c # cs)) (\<lambda>parsed. case parsed of
             Some settlement \<Rightarrow> Inr settlement
           | None \<Rightarrow> Inl (ValueError ''Invalid canonical x402 v2 settlement response''))
     | _ \<Rightarrow> Inl (ValueError ''Only canonical x402 v2 PAYMENT-RESPONSE headers are supported''))"

record 'r process_result =
  pp_recovered :: bool
  pp_settle_response :: "'r option"

text \<open>\<open>upstream\<close> is the SDK's result; a recovery, which would sign a second payload, is dropped.\<close>

definition process_payment_result :: "('s, 'r process_result) cmd \<Rightarrow> ('s, 'r process_result) cmd" where
  "process_payment_result upstream =
     cbind upstream (\<lambda>result. creturn \<lparr>pp_recovered = False, pp_settle_response = pp_settle_response result\<rparr>)"


section \<open>The transport\<close>

definition payment_transport_client ::
  "signer \<Rightarrow> (string + string list option) option \<Rightarrow> pyval option \<Rightarrow> spend_limit list option \<Rightarrow> sdk_client option
     \<Rightarrow> exn + sdk_client" where
  "payment_transport_client S networks controls asset_limits client = (case client of
       Some c \<Rightarrow> Inr c
     | None \<Rightarrow>
       let wanted = (case networks of
              Some (Inl (c # cs)) \<Rightarrow> Inl (c # cs)
            | Some (Inr (Some (n # ns))) \<Rightarrow> Inr (Some (n # ns))
            | _ \<Rightarrow> (case sg_network S of Some n \<Rightarrow> Inl n | None \<Rightarrow> Inr None));
           registered = register_exact_xrpl_client x402Client wanted in
       (case asset_limits of
          Some (l # ls) \<Rightarrow> apply_xrpl_spend_limits registered (l # ls)
        | _ \<Rightarrow> (case controls of
            Some c \<Rightarrow> Inr (registered\<lparr>sc_controls := Some (Configured c)\<rparr>)
          | None \<Rightarrow> Inr registered)))"

text \<open>A body that may not be replayed goes to the inner transport once; \<open>paying\<close> is the SDK's transport.\<close>

definition handle_async_request ::
  "('q \<Rightarrow> bool) \<Rightarrow> ('q \<Rightarrow> ('s, 'r) cmd) \<Rightarrow> ('q \<Rightarrow> ('s, 'r) cmd) \<Rightarrow> 'q \<Rightarrow> ('s, 'r) cmd" where
  "handle_async_request is_byte_stream inner paying request =
     (if \<not> is_byte_stream request then inner request else paying request)"

text \<open>\<open>wrap_httpx_with_xrpl_payment\<close>: one network, no client of the caller.\<close>

definition wrap_httpx_with_xrpl_payment ::
  "signer \<Rightarrow> string option \<Rightarrow> pyval option \<Rightarrow> spend_limit list option \<Rightarrow> exn + sdk_client" where
  "wrap_httpx_with_xrpl_payment S network controls asset_limits =
     payment_transport_client S (map_option Inl network) controls asset_limits None"


section \<open>What a client may pay\<close>

text \<open>The clients that the package builds with limits run the issuer policy first and then the caps, and
  list the limited assets only.\<close>

lemma transport_policies:
  assumes "payment_transport_client S networks controls (Some (l # ls)) None = Inr c"
  shows "sc_policies c = [enforce_default_asset_issuers, spend_policy (l # ls)]"
    and "\<exists>allowed. sc_controls c = Some (AllowedAssets allowed) \<and> length allowed = length (l # ls)"
proof -
  have *: "rbind (spend_controls (l # ls)) (\<lambda>allowed. Inr (register_exact_xrpl_client x402Client n
      \<lparr>sc_controls := Some (AllowedAssets allowed), sc_policies := sc_policies (register_exact_xrpl_client x402Client n) @ [spend_policy (l # ls)]\<rparr>))
      = Inr c" if "payment_transport_client S networks controls (Some (l # ls)) None = apply_xrpl_spend_limits (register_exact_xrpl_client x402Client n) (l # ls)" for n
    using assms that by (simp add: apply_xrpl_spend_limits_def)
  obtain n where "payment_transport_client S networks controls (Some (l # ls)) None =
      apply_xrpl_spend_limits (register_exact_xrpl_client x402Client n) (l # ls)"
    by (simp add: payment_transport_client_def Let_def)
  note run = * [OF this]
  then show "sc_policies c = [enforce_default_asset_issuers, spend_policy (l # ls)]"
    by (auto simp: rbind_eq_Inr register_exact_xrpl_client_def x402Client_def)
  have "map_exn f xs = Inr ys \<Longrightarrow> length ys = length xs" for f :: "spend_limit \<Rightarrow> exn + string \<times> string \<times> string option" and xs ys
    by (induction xs arbitrary: ys) (auto simp: rbind_eq_Inr)
  then show "\<exists>allowed. sc_controls c = Some (AllowedAssets allowed) \<and> length allowed = length (l # ls)"
    using run by (force simp: rbind_eq_Inr spend_controls_def)
qed

end
