(* ===== verification/SettlementStore.thy ===== *)
theory SettlementStore
  imports Protocol
begin

text \<open>
  \<open>xrpl_x402_facilitator/replay_store.py\<close>: the store that binds a transaction hash to its
  settlement state. \<open>store_ops\<close> is the \<open>SettlementStore\<close> protocol, \<open>mem_ops\<close> the in-memory store
  and \<open>redis_ops\<close> the Redis store with its Lua update script, key expiry and clock. Both obey
  the contract of the locale \<open>settlement_store\<close>, and the Redis store refines the in-memory one.
  Redis keeps the JSON text of a state; here it keeps the state itself.
\<close>

section \<open>The protocol\<close>

text \<open>\<open>so_others\<close> is what the other users of the store do, and the time that passes, before a
  command of this caller: nothing for a store that the caller has for itself.\<close>

record 's store_ops =
  so_get :: "string \<Rightarrow> 's \<Rightarrow> settlement_state option"
  so_reserve :: "settlement_state \<Rightarrow> int \<Rightarrow> 's \<Rightarrow> bool \<times> 's"
  so_update :: "settlement_state \<Rightarrow> int \<Rightarrow> 's \<Rightarrow> 's"
  so_others :: "'s \<Rightarrow> 's"

fun STATE_RANK :: "settlement_status \<Rightarrow> nat" where
  "STATE_RANK Pending = 0"
| "STATE_RANK Failed = 1"
| "STATE_RANK Validated = 2"

definition supersedes :: "settlement_state \<Rightarrow> settlement_state \<Rightarrow> bool" where
  "supersedes new cur \<longleftrightarrow>
     (st_status cur = Pending \<and> st_status new = Pending) \<or> STATE_RANK (st_status cur) < STATE_RANK (st_status new)"


section \<open>The in-memory store\<close>

type_synonym mem_store = "string \<rightharpoonup> settlement_state"

definition mem_get :: "string \<Rightarrow> mem_store \<Rightarrow> settlement_state option" where
  "mem_get transaction values = values (upper transaction)"

definition mem_reserve :: "settlement_state \<Rightarrow> int \<Rightarrow> mem_store \<Rightarrow> bool \<times> mem_store" where
  "mem_reserve state ttl_seconds values =
     (let key = upper (st_transaction state) in
      if values key \<noteq> None then (False, values) else (True, values(key \<mapsto> state)))"

definition mem_update :: "settlement_state \<Rightarrow> int \<Rightarrow> mem_store \<Rightarrow> mem_store" where
  "mem_update state ttl_seconds values =
     (let key = upper (st_transaction state) in
      case values key of
        None \<Rightarrow> values
      | Some current \<Rightarrow> if supersedes state current then values(key \<mapsto> state) else values)"

definition mem_ops :: "mem_store store_ops" where
  "mem_ops = \<lparr>so_get = mem_get, so_reserve = mem_reserve, so_update = mem_update,
     so_others = (\<lambda>values. values)\<rparr>"


section \<open>The Redis store\<close>

text \<open>A Redis value with the time at which it expires, if any. An expired key reads as absent.\<close>

record redis_store =
  rd_entries :: "string \<rightharpoonup> settlement_state \<times> int option"
  rd_clock :: int

definition redis_lookup :: "string \<Rightarrow> redis_store \<Rightarrow> (settlement_state \<times> int option) option" where
  "redis_lookup key r = (case rd_entries r key of
       Some (v, Some t) \<Rightarrow> if t \<le> rd_clock r then None else Some (v, Some t)
     | x \<Rightarrow> x)"

definition redis_set :: "string \<Rightarrow> settlement_state \<Rightarrow> int option \<Rightarrow> redis_store \<Rightarrow> redis_store" where
  "redis_set key v ex r =
     r\<lparr>rd_entries := (rd_entries r)(key \<mapsto> (v, map_option (\<lambda>ttl. rd_clock r + ttl) ex))\<rparr>"

definition settlement_key :: "string \<Rightarrow> string" where
  "settlement_key transaction = ''facilitator:settlement:'' @ upper transaction"

definition redis_get :: "string \<Rightarrow> redis_store \<Rightarrow> settlement_state option" where
  "redis_get transaction r = map_option fst (redis_lookup (settlement_key transaction) r)"

definition redis_reserve :: "settlement_state \<Rightarrow> int \<Rightarrow> redis_store \<Rightarrow> bool \<times> redis_store" where
  "redis_reserve state ttl_seconds r =
     (let key = settlement_key (st_transaction state);
          ex = (if st_status state \<noteq> Pending then Some ttl_seconds else None)
      in case redis_lookup key r of
           Some _ \<Rightarrow> (False, r)
         | None \<Rightarrow> (True, redis_set key state ex r))"

text \<open>\<open>_MONOTONIC_UPDATE_SCRIPT\<close>, which Redis runs atomically. Its reply is not used.\<close>

definition MONOTONIC_UPDATE_SCRIPT :: "string \<Rightarrow> settlement_state \<Rightarrow> int \<Rightarrow> redis_store \<Rightarrow> redis_store" where
  "MONOTONIC_UPDATE_SCRIPT key candidate ttl r =
     (case redis_lookup key r of
        None \<Rightarrow> r
      | Some (current, _) \<Rightarrow>
          if st_status current = Pending \<and> st_status candidate = Pending then redis_set key candidate None r
          else if STATE_RANK (st_status current) < STATE_RANK (st_status candidate)
            then redis_set key candidate (Some ttl) r
          else if st_status current \<noteq> Pending then redis_set key current (Some ttl) r
          else r)"

definition redis_update :: "settlement_state \<Rightarrow> int \<Rightarrow> redis_store \<Rightarrow> redis_store" where
  "redis_update state ttl_seconds r =
     MONOTONIC_UPDATE_SCRIPT (settlement_key (st_transaction state)) state ttl_seconds r"

definition redis_ops :: "redis_store store_ops" where
  "redis_ops = \<lparr>so_get = redis_get, so_reserve = redis_reserve, so_update = redis_update,
     so_others = (\<lambda>r. r)\<rparr>"

text \<open>What can happen to the shared store: a call from some process, or time passing.\<close>

datatype store_event = Reserve settlement_state int | Update settlement_state int | Tick nat

fun redis_event :: "store_event \<Rightarrow> redis_store \<Rightarrow> redis_store" where
  "redis_event (Reserve s ttl) r = snd (redis_reserve s ttl r)"
| "redis_event (Update s ttl) r = redis_update s ttl r"
| "redis_event (Tick n) r = r\<lparr>rd_clock := rd_clock r + int n\<rparr>"

fun redis_run :: "store_event list \<Rightarrow> redis_store \<Rightarrow> redis_store" where
  "redis_run [] r = r"
| "redis_run (e # es) r = redis_run es (redis_event e r)"

text \<open>The in-memory store a Redis store stands for: what is alive at its clock.\<close>

definition redis_abs :: "redis_store \<Rightarrow> mem_store" where
  "redis_abs r = (\<lambda>k. map_option fst (redis_lookup (''facilitator:settlement:'' @ k) r))"

text \<open>The invariant: a pending state carries no expiry.\<close>

definition pending_persistent :: "redis_store \<Rightarrow> bool" where
  "pending_persistent r \<longleftrightarrow> (\<forall>k v t. rd_entries r k = Some (v, Some t) \<longrightarrow> st_status v \<noteq> Pending)"

fun settles :: "string \<Rightarrow> store_event \<Rightarrow> bool" where
  "settles t (Update s ttl) \<longleftrightarrow> upper (st_transaction s) = upper t \<and> st_status s \<noteq> Pending"
| "settles t _ \<longleftrightarrow> False"

definition sample_pending :: settlement_state where
  "sample_pending = \<lparr>st_transaction = ''AB12'', st_network = ''xrpl:1'', st_payer = Some ''rPayer'',
     st_first_ledger = 1000, st_last_ledger = 1014, st_fingerprint = ''f'', st_status = Pending, st_result = None\<rparr>"

definition redis_empty :: redis_store where
  "redis_empty = \<lparr>rd_entries = Map.empty, rd_clock = 0\<rparr>"


section \<open>The contract\<close>

locale settlement_store =
  fixes ops :: "'s store_ops"
  assumes get_cong: "upper a = upper b \<Longrightarrow> so_get ops a \<sigma> = so_get ops b \<sigma>"
    and reserve_fresh: "0 < ttl \<Longrightarrow> so_get ops (st_transaction s) \<sigma> = None \<Longrightarrow>
      \<exists>\<sigma>'. so_reserve ops s ttl \<sigma> = (True, \<sigma>') \<and>
        (\<forall>t. so_get ops t \<sigma>' = (if upper t = upper (st_transaction s) then Some s else so_get ops t \<sigma>))"
    and reserve_taken: "so_get ops (st_transaction s) \<sigma> \<noteq> None \<Longrightarrow> so_reserve ops s ttl \<sigma> = (False, \<sigma>)"
    and get_update: "0 < ttl \<Longrightarrow> so_get ops t (so_update ops s ttl \<sigma>) =
      (if upper t = upper (st_transaction s)
       then map_option (\<lambda>cur. if supersedes s cur then s else cur) (so_get ops (st_transaction s) \<sigma>)
       else so_get ops t \<sigma>)"
    and alone [simp]: "so_others ops \<sigma> = \<sigma>"
begin

text \<open>A reservation succeeds exactly when the hash is free, and then the state is what was reserved.\<close>

lemma reserve_iff: "0 < ttl \<Longrightarrow> fst (so_reserve ops s ttl \<sigma>) \<longleftrightarrow> so_get ops (st_transaction s) \<sigma> = None"
  by (metis fst_conv reserve_fresh reserve_taken)

lemma reserve_True:
  assumes "so_reserve ops s ttl \<sigma> = (True, \<sigma>')" and "0 < ttl"
  shows "so_get ops (st_transaction s) \<sigma> = None" and "so_get ops (st_transaction s) \<sigma>' = Some s"
    and "upper t \<noteq> upper (st_transaction s) \<Longrightarrow> so_get ops t \<sigma>' = so_get ops t \<sigma>"
proof -
  show free: "so_get ops (st_transaction s) \<sigma> = None"
    using assms reserve_taken by fastforce
  then show "so_get ops (st_transaction s) \<sigma>' = Some s"
    and "upper t \<noteq> upper (st_transaction s) \<Longrightarrow> so_get ops t \<sigma>' = so_get ops t \<sigma>"
    using reserve_fresh [OF assms(2) free] assms(1) by auto
qed

lemma reserve_False:
  assumes "so_reserve ops s ttl \<sigma> = (False, \<sigma>')" and "0 < ttl"
  shows "\<sigma>' = \<sigma>" and "so_get ops (st_transaction s) \<sigma> \<noteq> None"
proof -
  show taken: "so_get ops (st_transaction s) \<sigma> \<noteq> None"
    using assms reserve_fresh by fastforce
  then show "\<sigma>' = \<sigma>"
    using reserve_taken [of s \<sigma> ttl] assms(1) by simp
qed

text \<open>An update never takes a hash back to a lower rank, and a second reservation never
  replaces what is there.\<close>

lemma update_rank:
  assumes "so_get ops t \<sigma> = Some c" and "0 < ttl"
  shows "\<exists>c'. so_get ops t (so_update ops s ttl \<sigma>) = Some c' \<and>
    STATE_RANK (st_status c) \<le> STATE_RANK (st_status c')"
proof (cases "upper t = upper (st_transaction s)")
  case True
  then have "so_get ops (st_transaction s) \<sigma> = Some c"
    using assms(1) get_cong [OF True] by simp
  then show ?thesis
    using True by (auto simp: get_update [OF assms(2)] supersedes_def)
next
  case False
  then show ?thesis
    using assms by (simp add: get_update)
qed

lemma reserve_rank:
  assumes "so_get ops t \<sigma> = Some c" and "0 < ttl"
  shows "so_get ops t (snd (so_reserve ops s ttl \<sigma>)) = Some c"
proof (cases "so_get ops (st_transaction s) \<sigma>")
  case None
  then have "upper t \<noteq> upper (st_transaction s)"
    using assms(1) get_cong [of t "st_transaction s" \<sigma>] by auto
  then show ?thesis
    using reserve_fresh [OF assms(2) None] assms(1) by auto
next
  case (Some x)
  then show ?thesis
    using assms(1) reserve_taken by simp
qed

lemma update_validated:
  assumes "so_get ops t \<sigma> = Some c" and "st_status c = Validated" and "0 < ttl"
  shows "so_get ops t (so_update ops s ttl \<sigma>) = Some c"
proof (cases "upper t = upper (st_transaction s)")
  case True
  then have "so_get ops (st_transaction s) \<sigma> = Some c"
    using assms(1) get_cong [OF True] by simp
  moreover have "\<not> supersedes s c"
    using assms(2) by (cases "st_status s") (auto simp: supersedes_def)
  ultimately show ?thesis
    using True by (simp add: get_update [OF assms(3)])
next
  case False
  then show ?thesis
    using assms by (simp add: get_update)
qed

end

interpretation mem: settlement_store mem_ops
  by unfold_locales (auto simp: mem_ops_def mem_get_def mem_reserve_def mem_update_def Let_def split: option.splits)


section \<open>The Redis store meets the contract\<close>

lemma settlement_key_inject [simp]: "settlement_key a = settlement_key b \<longleftrightarrow> upper a = upper b"
  by (simp add: settlement_key_def)

lemma redis_lookup_set:
  "redis_lookup k (redis_set key v ex r) =
     (if k = key then (case ex of Some ttl \<Rightarrow> if ttl \<le> 0 then None else Some (v, Some (rd_clock r + ttl))
                       | None \<Rightarrow> Some (v, None))
      else redis_lookup k r)"
  by (simp add: redis_lookup_def redis_set_def split: option.splits)

lemma redis_get_set:
  "ex = None \<or> (\<exists>ttl. ex = Some ttl \<and> 0 < ttl) \<Longrightarrow>
   redis_get t (redis_set (settlement_key u) v ex r) = (if upper t = upper u then Some v else redis_get t r)"
  by (auto simp: redis_get_def redis_lookup_set)

interpretation red: settlement_store redis_ops
proof unfold_locales
  fix a b :: string and \<sigma> :: redis_store
  assume "upper a = upper b"
  then show "so_get redis_ops a \<sigma> = so_get redis_ops b \<sigma>"
    by (simp add: redis_ops_def redis_get_def settlement_key_def)
next
  fix ttl :: int and s :: settlement_state and \<sigma> :: redis_store
  assume ttl: "0 < ttl" and free: "so_get redis_ops (st_transaction s) \<sigma> = None"
  then have "redis_lookup (settlement_key (st_transaction s)) \<sigma> = None"
    by (simp add: redis_ops_def redis_get_def)
  then show "\<exists>\<sigma>'. so_reserve redis_ops s ttl \<sigma> = (True, \<sigma>') \<and>
      (\<forall>t. so_get redis_ops t \<sigma>' = (if upper t = upper (st_transaction s) then Some s else so_get redis_ops t \<sigma>))"
    using ttl by (simp add: redis_ops_def redis_reserve_def Let_def redis_get_set)
next
  fix s :: settlement_state and \<sigma> :: redis_store and ttl :: int
  assume "so_get redis_ops (st_transaction s) \<sigma> \<noteq> None"
  then show "so_reserve redis_ops s ttl \<sigma> = (False, \<sigma>)"
    by (auto simp: redis_ops_def redis_get_def redis_reserve_def Let_def)
next
  fix ttl :: int and t :: string and s :: settlement_state and \<sigma> :: redis_store
  assume ttl: "0 < ttl"
  let ?key = "settlement_key (st_transaction s)"
  show "so_get redis_ops t (so_update redis_ops s ttl \<sigma>) =
      (if upper t = upper (st_transaction s)
       then map_option (\<lambda>cur. if supersedes s cur then s else cur) (so_get redis_ops (st_transaction s) \<sigma>)
       else so_get redis_ops t \<sigma>)"
  proof (cases "redis_lookup ?key \<sigma>")
    case None
    moreover from this have "redis_get t \<sigma> = None" if "upper t = upper (st_transaction s)"
      using that by (simp add: redis_get_def settlement_key_def)
    ultimately show ?thesis
      by (simp add: redis_ops_def redis_update_def MONOTONIC_UPDATE_SCRIPT_def redis_get_def)
  next
    case (Some ce)
    then obtain cur x where ce: "redis_lookup ?key \<sigma> = Some (cur, x)" by (cases ce) auto
    moreover from this have "redis_get t \<sigma> = Some cur" if "upper t = upper (st_transaction s)"
      using that by (simp add: redis_get_def settlement_key_def)
    ultimately show ?thesis
      using ttl
      by (auto simp: redis_ops_def redis_update_def MONOTONIC_UPDATE_SCRIPT_def redis_get_set supersedes_def
          redis_get_def [of "st_transaction s"])
  qed
qed (simp add: redis_ops_def)



section \<open>Properties\<close>

text \<open>C4. The Redis store, at any moment, behaves like the in-memory store: reading, reserving and
  updating commute with the abstraction that keeps the live entries.\<close>

theorem redis_refines_memory:
  assumes "0 < ttl"
  shows "redis_get t r = mem_get t (redis_abs r)
    \<and> mem_reserve s ttl (redis_abs r) =
        (fst (redis_reserve s ttl r), redis_abs (snd (redis_reserve s ttl r)))
    \<and> redis_abs (redis_update s ttl r) = mem_update s ttl (redis_abs r)"
proof (intro conjI)
  have abs_set: "redis_abs (redis_set (settlement_key u) v ex r) = (redis_abs r)(upper u \<mapsto> v)"
    if "ex = None \<or> ex = Some ttl" for u v ex
    using that assms by (auto simp: redis_abs_def redis_lookup_set settlement_key_def fun_eq_iff)
  show "redis_get t r = mem_get t (redis_abs r)"
    by (simp add: redis_get_def mem_get_def redis_abs_def settlement_key_def)
  have look: "redis_abs r (upper u) = map_option fst (redis_lookup (settlement_key u) r)" for u
    by (simp add: redis_abs_def settlement_key_def)
  show "mem_reserve s ttl (redis_abs r) =
      (fst (redis_reserve s ttl r), redis_abs (snd (redis_reserve s ttl r)))"
    by (auto simp: mem_reserve_def redis_reserve_def Let_def look abs_set split: option.splits)
  show "redis_abs (redis_update s ttl r) = mem_update s ttl (redis_abs r)"
    by (auto simp: mem_update_def redis_update_def MONOTONIC_UPDATE_SCRIPT_def Let_def look abs_set
        supersedes_def fun_upd_idem split: option.splits)
qed

text \<open>
  Settlement states only move forward: whatever a process writes to the Redis store, the
  rank of a live state (pending, failed, validated) never drops, a validated state is never
  replaced, and a second reservation of a hash changes nothing.\<close>

theorem redis_status_monotone:
  assumes "redis_get t r = Some c" and "0 < ttl"
  shows "redis_get t (snd (redis_reserve s ttl r)) = Some c
    \<and> (\<exists>c'. redis_get t (redis_update s ttl r) = Some c' \<and>
         STATE_RANK (st_status c) \<le> STATE_RANK (st_status c'))
    \<and> (st_status c = Validated \<longrightarrow> redis_get t (redis_update s ttl r) = Some c)"
  using red.reserve_rank [of t r c ttl s] red.update_rank [of t r c ttl s] red.update_validated [of t r c ttl s] assms
  by (simp_all add: redis_ops_def)

lemma pending_persistent_set:
  "pending_persistent r \<Longrightarrow> st_status v = Pending \<longrightarrow> ex = None \<Longrightarrow> pending_persistent (redis_set k v ex r)"
  by (auto simp: pending_persistent_def redis_set_def)

lemma redis_lookup_entry: "redis_lookup k r = Some (v, t) \<Longrightarrow> rd_entries r k = Some (v, t)"
  by (auto simp: redis_lookup_def split: option.splits if_splits)

lemma pending_persistent_event: "pending_persistent r \<Longrightarrow> pending_persistent (redis_event e r)"
  by (cases e)
    (auto simp: redis_reserve_def redis_update_def MONOTONIC_UPDATE_SCRIPT_def Let_def
      intro!: pending_persistent_set split: option.splits, simp add: pending_persistent_def)

lemma pending_lookup:
  "pending_persistent r \<Longrightarrow> redis_get t r = Some c \<Longrightarrow> st_status c = Pending \<Longrightarrow>
   rd_entries r (settlement_key t) = Some (c, None)"
  by (auto simp: redis_get_def pending_persistent_def dest!: redis_lookup_entry)
     (metis option.exhaust)

lemma pending_event:
  assumes "pending_persistent r" and "redis_get t r = Some c" and "st_status c = Pending" and "\<not> settles t e"
  shows "\<exists>c'. redis_get t (redis_event e r) = Some c' \<and> st_status c' = Pending"
proof -
  have entry: "rd_entries r (settlement_key t) = Some (c, None)"
    by (rule pending_lookup) (use assms in auto)
  then have look: "redis_lookup (settlement_key t) r = Some (c, None)"
    by (simp add: redis_lookup_def)
  show ?thesis
  proof (cases e)
    case (Tick n)
    then show ?thesis
      using entry assms(3) by (simp add: redis_get_def redis_lookup_def)
  next
    case (Reserve s ttl)
    then show ?thesis
      using look assms(3) settlement_key_inject [of t "st_transaction s"]
      by (auto simp: redis_get_def redis_reserve_def Let_def redis_lookup_set
          simp del: settlement_key_inject split: option.splits)
  next
    case (Update s ttl)
    then show ?thesis
      using look assms(3,4) settlement_key_inject [of t "st_transaction s"]
      by (auto simp: redis_get_def redis_update_def MONOTONIC_UPDATE_SCRIPT_def redis_lookup_set
          simp del: settlement_key_inject split: option.splits)
  qed
qed

text \<open>C33. A reservation is never lost: from the empty store, through any sequence of calls by any
  number of processes and any amount of time, a hash that is pending stays pending until some
  process records its outcome. No expiry can free the hash of an unsettled transaction.\<close>

theorem pending_never_dropped:
  assumes "redis_get t (redis_run es redis_empty) = Some c" and "st_status c = Pending"
    and "\<forall>e \<in> set fs. \<not> settles t e"
  shows "\<exists>c'. redis_get t (redis_run (es @ fs) redis_empty) = Some c' \<and> st_status c' = Pending"
proof -
  have run_append: "redis_run (es @ fs) r = redis_run fs (redis_run es r)" for r
    by (induction es arbitrary: r) simp_all
  have inv: "pending_persistent (redis_run es r)" if "pending_persistent r" for r
    using that by (induction es arbitrary: r) (simp_all add: pending_persistent_event)
  have "\<exists>c'. redis_get t (redis_run fs r) = Some c' \<and> st_status c' = Pending"
    if "pending_persistent r" "redis_get t r = Some c" "st_status c = Pending" for r c
    using that assms(3)
  proof (induction fs arbitrary: r c)
    case (Cons e fs)
    then obtain c' where "redis_get t (redis_event e r) = Some c'" "st_status c' = Pending"
      using pending_event [of r t c e] by auto
    with Cons show ?case
      by (auto simp: pending_persistent_event)
  qed simp
  moreover have "pending_persistent redis_empty"
    by (simp add: pending_persistent_def redis_empty_def)
  ultimately show ?thesis
    using assms(1,2) inv run_append by auto
qed

theorem redis_refines_memory_witness:
  "(0::int) < 300 \<and>
   mem_reserve sample_pending 300 (redis_abs redis_empty) =
     (True, redis_abs (snd (redis_reserve sample_pending 300 redis_empty)))"
proof -
  have "fst (redis_reserve sample_pending 300 redis_empty)"
    by (simp add: redis_reserve_def redis_lookup_def redis_empty_def Let_def)
  then show ?thesis
    using redis_refines_memory [of 300 "''AB12''" redis_empty sample_pending] by simp
qed

theorem redis_status_monotone_witness:
  "\<exists>r. redis_get ''AB12'' r = Some sample_pending \<and>
     (\<exists>c'. redis_get ''AB12'' (redis_update (sample_pending\<lparr>st_status := Validated\<rparr>) 300 r) = Some c' \<and>
       STATE_RANK Pending \<le> STATE_RANK (st_status c'))"
proof -
  let ?r = "snd (redis_reserve sample_pending 300 redis_empty)"
  have g: "redis_get ''AB12'' ?r = Some sample_pending"
    by (simp add: redis_reserve_def redis_lookup_def redis_empty_def Let_def redis_get_def redis_set_def
        settlement_key_def sample_pending_def)
  show ?thesis
    using g redis_status_monotone [OF g, of 300 "sample_pending\<lparr>st_status := Validated\<rparr>"]
    by (intro exI [of _ ?r]) (simp add: sample_pending_def)
qed

theorem pending_never_dropped_witness:
  "\<exists>c'. redis_get ''AB12'' (redis_run ([Reserve sample_pending 300] @ [Tick 1000000, Update sample_pending 300])
       redis_empty) = Some c' \<and> st_status c' = Pending"
proof -
  have g: "redis_get ''AB12'' (redis_run [Reserve sample_pending 300] redis_empty) = Some sample_pending"
    by (simp add: redis_reserve_def redis_lookup_def redis_empty_def Let_def redis_get_def redis_set_def
        settlement_key_def sample_pending_def)
  show ?thesis
    by (rule pending_never_dropped [OF g]) (simp_all add: sample_pending_def)
qed

end
