(* ===== verification/FacilitatorSettle.thy ===== *)
theory FacilitatorSettle
  imports FacilitatorVerify SettlementStore
begin

text \<open>
  \<open>xrpl_x402_facilitator/xrpl_service.py\<close>, the settlement half: reserve the transaction hash,
  submit once, wait for a validated result, and reconcile a hash that is already bound. The
  operations take the settlement store as an argument, the way the class does; before each command
  the other users of the store act. \<open>time.sleep\<close> is
  left out: the time it takes shows in the replies of the ledger.
\<close>

section \<open>The store and the responses\<close>

definition store_get :: "'s store_ops \<Rightarrow> string \<Rightarrow> ('s fac_state, settlement_state option) cmd" where
  "store_get ops transaction = (\<lambda>s. let \<sigma> = so_others ops (fs_store s) in
       (Ok (so_get ops transaction \<sigma>), s\<lparr>fs_store := \<sigma>\<rparr>))"

definition store_reserve :: "'s store_ops \<Rightarrow> settlement_state \<Rightarrow> int \<Rightarrow> ('s fac_state, bool) cmd" where
  "store_reserve ops st ttl = (\<lambda>s. case so_reserve ops st ttl (so_others ops (fs_store s)) of
       (b, \<sigma>) \<Rightarrow> (Ok b, s\<lparr>fs_store := \<sigma>\<rparr>))"

definition store_update :: "'s store_ops \<Rightarrow> settlement_state \<Rightarrow> int \<Rightarrow> ('s fac_state, unit) cmd" where
  "store_update ops st ttl = cmodify (\<lambda>s. s\<lparr>fs_store := so_update ops st ttl (so_others ops (fs_store s))\<rparr>)"

record settle_response =
  sr_success :: bool
  sr_error_reason :: "string option"
  sr_error_message :: "string option"
  sr_payer :: "string option"
  sr_transaction :: string
  sr_network :: string
  sr_amount :: "string option"
  sr_status :: "settlement_status option"

definition settle_error ::
  "string \<Rightarrow> string option \<Rightarrow> string option \<Rightarrow> string \<Rightarrow> string \<Rightarrow> settle_response" where
  "settle_error reason message payer transaction network =
     \<lparr>sr_success = False, sr_error_reason = Some reason, sr_error_message = message, sr_payer = payer,
      sr_transaction = transaction, sr_network = network, sr_amount = None, sr_status = None\<rparr>"

definition pending_response :: "string \<Rightarrow> string \<Rightarrow> string \<Rightarrow> string \<Rightarrow> settle_response" where
  "pending_response transaction network payer amount =
     \<lparr>sr_success = False, sr_error_reason = Some ''settlement_pending'',
      sr_error_message = Some ''Transaction submission is awaiting validated ledger confirmation'',
      sr_payer = Some payer, sr_transaction = transaction, sr_network = network, sr_amount = Some amount,
      sr_status = Some Pending\<rparr>"

definition state_response :: "settlement_state \<Rightarrow> string \<Rightarrow> settle_response" where
  "state_response state amount =
     (if st_status state = Validated then
        \<lparr>sr_success = True, sr_error_reason = None, sr_error_message = None, sr_payer = st_payer state,
         sr_transaction = st_transaction state, sr_network = st_network state, sr_amount = Some amount,
         sr_status = Some Validated\<rparr>
      else
        \<lparr>sr_success = False,
         sr_error_reason = Some (case st_result state of Some (ResultError e) \<Rightarrow> e | _ \<Rightarrow> ''transaction_failed''),
         sr_error_message = None, sr_payer = st_payer state, sr_transaction = st_transaction state,
         sr_network = st_network state, sr_amount = Some amount, sr_status = Some (st_status state)\<rparr>)"


section \<open>Reading a transaction\<close>

record transaction_lookup =
  tl_transaction :: "pydict option"
  tl_authoritative_absence :: bool

definition no_lookup :: transaction_lookup where
  "no_lookup = \<lparr>tl_transaction = None, tl_authoritative_absence = False\<rparr>"

definition classify_lookup :: "pyval \<Rightarrow> transaction_lookup" where
  "classify_lookup res = (case as_dict res of
       None \<Rightarrow> no_lookup
     | Some result \<Rightarrow>
       if dget result ''error'' \<noteq> PNone then
         \<lparr>tl_transaction = None,
          tl_authoritative_absence = (dget result ''error'' = PStr ''txnNotFound''
                                      \<and> dget result ''searched_all'' = PBool True)\<rparr>
       else if result = [] then no_lookup
       else \<lparr>tl_transaction = Some result, tl_authoritative_absence = False\<rparr>)"

definition query_transaction :: "facilitator \<Rightarrow> settlement_state \<Rightarrow> ('s fac_state, transaction_lookup) cmd" where
  "query_transaction F state =
     ctry_else (rpc F (Tx (st_transaction state) (st_first_ledger state) (st_last_ledger state)))
       (\<lambda>_. creturn no_lookup) (\<lambda>res. creturn (classify_lookup res))"

definition tx_meta :: "pydict \<Rightarrow> pyval" where
  "tx_meta result = py_or (py_or (dget result ''meta'') (dget result ''metaData'')) (PDict [])"

definition transaction_result :: "pydict \<Rightarrow> string" where
  "transaction_result result = (case as_dict (tx_meta result) of
       Some meta \<Rightarrow> py_str (py_or (py_or (dget meta ''TransactionResult'') (dget meta ''transaction_result''))
                              (PStr ''unknown''))
     | None \<Rightarrow> ''unknown'')"

definition delivered_iou_matches :: "pydict \<Rightarrow> payment_requirements \<Rightarrow> exn + bool" where
  "delivered_iou_matches delivered requirements =
     rbind (xrpl_currency_code (r_asset requirements)) (\<lambda>currency.
       if dget delivered ''currency'' \<noteq> PStr currency then Inr False
       else if \<not> py_eq (dget delivered ''issuer'') (dget (extra_of requirements) ''issuer'') then Inr False
       else rbind (compare_decimal_strings (py_str (dget delivered ''value'')) (r_amount requirements)) (\<lambda>c.
         Inr (c = 0)))"

definition delivered_xrp_matches :: "pyval \<Rightarrow> payment_requirements \<Rightarrow> exn + bool" where
  "delivered_xrp_matches delivered requirements = (case as_str delivered of
       None \<Rightarrow> Inr False
     | Some s \<Rightarrow>
       if \<not> isdigit s then Inr False
       else rbind (int_of_str s) (\<lambda>got. rbind (int_of_str (r_amount requirements)) (\<lambda>due. Inr (got = due))))"

definition delivered_amount_error :: "pydict \<Rightarrow> payment_requirements \<Rightarrow> exn + string option" where
  "delivered_amount_error result requirements =
     (case as_dict (tx_meta result) of
        None \<Rightarrow> Inr (Some ''transaction_failed: missing_metadata'')
      | Some meta \<Rightarrow>
        let delivered = dget_default meta ''delivered_amount'' (dget meta ''DeliveredAmount'') in
        if delivered = PNone \<or> delivered = PStr ''unavailable''
          then Inr (Some ''transaction_failed: delivered_amount_unavailable'')
        else rbind
          (if r_asset requirements = ''XRP'' then delivered_xrp_matches delivered requirements
           else case as_dict delivered of
               None \<Rightarrow> Inr False
             | Some d \<Rightarrow> delivered_iou_matches d requirements) (\<lambda>ok.
          Inr (if ok then None else Some ''transaction_failed: delivered_amount_mismatch'')))"


section \<open>Waiting and reconciling\<close>

definition completed :: "settlement_state \<Rightarrow> payment_requirements \<Rightarrow> settlement_state" where
  "completed state requirements =
     state\<lparr>st_status := Validated, st_result := Some (ResultAmount (r_amount requirements))\<rparr>"

definition fail_with :: "settlement_state \<Rightarrow> string \<Rightarrow> settlement_state" where
  "fail_with state reason = state\<lparr>st_status := Failed, st_result := Some (ResultError reason)\<rparr>"

definition record_state ::
  "'s store_ops \<Rightarrow> settlement_state \<Rightarrow> payment_requirements \<Rightarrow> int \<Rightarrow> ('s fac_state, settle_response) cmd" where
  "record_state ops state requirements ttl =
     cbind (store_update ops state ttl) (\<lambda>_. creturn (state_response state (r_amount requirements)))"

definition pending_answer :: "settlement_state \<Rightarrow> payment_requirements \<Rightarrow> settle_response" where
  "pending_answer state requirements =
     pending_response (st_transaction state) (st_network state)
       (case st_payer state of Some p \<Rightarrow> p | None \<Rightarrow> []) (r_amount requirements)"

fun wait_loop ::
  "facilitator \<Rightarrow> 's store_ops \<Rightarrow> nat \<Rightarrow> settlement_state \<Rightarrow> payment_requirements \<Rightarrow> int
     \<Rightarrow> ('s fac_state, settle_response) cmd" where
  "wait_loop F ops 0 state requirements ttl = creturn (pending_answer state requirements)"
| "wait_loop F ops (Suc n) state requirements ttl =
     cbind (query_transaction F state) (\<lambda>lookup.
       case tl_transaction lookup of
         None \<Rightarrow> wait_loop F ops n state requirements ttl
       | Some response \<Rightarrow>
         let result_code = transaction_result response in
         if truthy (dget response ''validated'') \<and> result_code = ''tesSUCCESS'' then
           cbind (clift (delivered_amount_error response requirements)) (\<lambda>delivered_error.
             case delivered_error of
               Some e \<Rightarrow> record_state ops (fail_with state e) requirements ttl
             | None \<Rightarrow> record_state ops (completed state requirements) requirements ttl)
         else if truthy (dget response ''validated'') then
           record_state ops (fail_with state (''transaction_failed: '' @ result_code)) requirements ttl
         else wait_loop F ops n state requirements ttl)"

definition wait_for_validation ::
  "facilitator \<Rightarrow> 's store_ops \<Rightarrow> settlement_state \<Rightarrow> payment_requirements \<Rightarrow> int
     \<Rightarrow> ('s fac_state, settle_response) cmd" where
  "wait_for_validation F ops state requirements ttl =
     wait_loop F ops (nat (VALIDATION_TIMEOUT (fe_settings F))) state requirements ttl"

definition reconcile_absent ::
  "facilitator \<Rightarrow> 's store_ops \<Rightarrow> settlement_state \<Rightarrow> payment_requirements \<Rightarrow> int
     \<Rightarrow> ('s fac_state, settle_response) cmd" where
  "reconcile_absent F ops state requirements ttl =
     ctry_else (current_ledger F)
       (\<lambda>_. creturn (pending_answer state requirements))
       (\<lambda>current. if st_last_ledger state \<le> current
          then record_state ops (fail_with state ''transaction_expired'') requirements ttl
          else creturn (pending_answer state requirements))"

definition reconcile ::
  "facilitator \<Rightarrow> 's store_ops \<Rightarrow> settlement_state \<Rightarrow> payment_requirements \<Rightarrow> int
     \<Rightarrow> ('s fac_state, settle_response) cmd" where
  "reconcile F ops state requirements ttl =
     (if st_status state \<noteq> Pending then creturn (state_response state (r_amount requirements))
      else cbind (query_transaction F state) (\<lambda>lookup.
        case tl_transaction lookup of
          Some response \<Rightarrow>
            if truthy (dget response ''validated'') then
              let result_code = transaction_result response in
              cbind (clift (if result_code = ''tesSUCCESS'' then delivered_amount_error response requirements
                            else Inr None)) (\<lambda>delivered_error.
                record_state ops
                  (if result_code = ''tesSUCCESS'' \<and> delivered_error = None then completed state requirements
                   else fail_with state (case delivered_error of
                       Some (c # cs) \<Rightarrow> c # cs | _ \<Rightarrow> ''transaction_failed: '' @ result_code))
                  requirements ttl)
            else if tl_authoritative_absence lookup then reconcile_absent F ops state requirements ttl
            else creturn (pending_answer state requirements)
        | None \<Rightarrow>
            if tl_authoritative_absence lookup then reconcile_absent F ops state requirements ttl
            else creturn (pending_answer state requirements)))"


section \<open>Settlement\<close>

definition settlement_ttl :: "facilitator \<Rightarrow> payment_requirements \<Rightarrow> int" where
  "settlement_ttl F requirements =
     max (max (r_max_timeout_seconds requirements + SETTLEMENT_MARGIN_SECONDS) 300)
       (REPLAY_PROCESSED_TTL_SECONDS (fe_settings F))"

definition hash_mismatch :: "settlement_state \<Rightarrow> string \<Rightarrow> settle_response" where
  "hash_mismatch existing transaction_hash =
     settle_error ''transaction_hash_request_mismatch''
       (Some ''The signed transaction hash is already bound to different payment requirements'')
       (st_payer existing) transaction_hash (st_network existing)"

definition settle_existing ::
  "facilitator \<Rightarrow> 's store_ops \<Rightarrow> settlement_state \<Rightarrow> string \<Rightarrow> string \<Rightarrow> payment_requirements
     \<Rightarrow> ('s fac_state, settle_response) cmd" where
  "settle_existing F ops existing fingerprint transaction_hash requirements =
     (if st_fingerprint existing \<noteq> fingerprint then creturn (hash_mismatch existing transaction_hash)
      else reconcile F ops existing requirements (settlement_ttl F requirements))"

text \<open>\<open>XRPLSettlementState(...)\<close>, whose model strips the white space of its string fields.\<close>

definition pending_state ::
  "string \<Rightarrow> string \<Rightarrow> string \<Rightarrow> int \<Rightarrow> int \<Rightarrow> string \<Rightarrow> settlement_state" where
  "pending_state transaction network payer first_ledger last_ledger fingerprint =
     \<lparr>st_transaction = strip transaction, st_network = strip network, st_payer = Some (strip payer),
      st_first_ledger = first_ledger, st_last_ledger = last_ledger, st_fingerprint = strip fingerprint,
      st_status = Pending, st_result = None\<rparr>"

definition submit_and_wait ::
  "facilitator \<Rightarrow> 's store_ops \<Rightarrow> string \<Rightarrow> settlement_state \<Rightarrow> string \<Rightarrow> string \<Rightarrow> string \<Rightarrow> payment_requirements
     \<Rightarrow> ('s fac_state, settle_response) cmd" where
  "submit_and_wait F ops blob pending transaction_hash network payer requirements =
     ctry_else (rpc F (SubmitOnly blob))
       (\<lambda>_. creturn (pending_response transaction_hash network payer (r_amount requirements)))
       (\<lambda>_. wait_for_validation F ops pending requirements (settlement_ttl F requirements))"

definition settle_new ::
  "facilitator \<Rightarrow> 's store_ops \<Rightarrow> string \<Rightarrow> string \<Rightarrow> string \<Rightarrow> payment_requirements
     \<Rightarrow> ('s fac_state, settle_response) cmd" where
  "settle_new F ops blob transaction_hash fingerprint requirements =
     cbind (clift (codec_decode (fe_ext F) blob)) (\<lambda>tx.
     cbind (clift (rbind (dindex tx ''Account'') (\<lambda>a. Inr (py_str a)))) (\<lambda>payer.
     cbind (clift (rbind (dindex tx ''LastLedgerSequence'') py_int)) (\<lambda>last_ledger.
     cbind (current_ledger F) (\<lambda>first_ledger.
     let network = r_network requirements;
         ttl = settlement_ttl F requirements;
         pending = pending_state transaction_hash network payer first_ledger last_ledger fingerprint in
     cbind (store_reserve ops pending ttl) (\<lambda>reserved.
       if \<not> reserved then
         cbind (store_get ops transaction_hash) (\<lambda>existing. case existing of
             None \<Rightarrow> creturn (pending_response transaction_hash network payer (r_amount requirements))
           | Some st \<Rightarrow> settle_existing F ops st fingerprint transaction_hash requirements)
       else if last_ledger \<le> first_ledger then reconcile F ops pending requirements ttl
       else submit_and_wait F ops blob pending transaction_hash network payer requirements)))))"

definition settle_verified ::
  "facilitator \<Rightarrow> 's store_ops \<Rightarrow> payment_payload \<Rightarrow> payment_requirements \<Rightarrow> string \<Rightarrow> string \<Rightarrow> string
     \<Rightarrow> ('s fac_state, settle_response) cmd" where
  "settle_verified F ops payload requirements blob transaction_hash fingerprint =
     cbind (verify F payload requirements) (\<lambda>verification.
       if \<not> vr_is_valid verification then
         creturn (settle_error
           (case vr_invalid_reason verification of Some (c # cs) \<Rightarrow> c # cs | _ \<Rightarrow> ''verification_failed'')
           (vr_invalid_message verification) (vr_payer verification) [] (r_network requirements))
       else settle_new F ops blob transaction_hash fingerprint requirements)"

definition blob_and_hash :: "ext \<Rightarrow> payment_payload \<Rightarrow> exn + string \<times> string" where
  "blob_and_hash E payload =
     rbind (exact_xrpl_payload payload) (\<lambda>blob.
     rbind (signed_transaction_hash E blob) (\<lambda>h. Inr (blob, h)))"

definition settle ::
  "facilitator \<Rightarrow> 's store_ops \<Rightarrow> payment_payload \<Rightarrow> payment_requirements \<Rightarrow> ('s fac_state, settle_response) cmd" where
  "settle F ops payload requirements =
     (case blob_and_hash (fe_ext F) payload of
        Inl e \<Rightarrow> creturn (settle_error ''invalid_exact_xrpl_payload'' (Some (str_exn e)) None [] (r_network requirements))
      | Inr (blob, transaction_hash) \<Rightarrow>
        let fingerprint = requirements_fingerprint (fe_ext F) payload requirements in
        cbind (store_get ops transaction_hash) (\<lambda>existing. case existing of
            Some st \<Rightarrow> settle_existing F ops st fingerprint transaction_hash requirements
          | None \<Rightarrow> settle_verified F ops payload requirements blob transaction_hash fingerprint))"

end
