(* ===== verification/Journal.thy ===== *)
theory Journal
  imports FacilitatorSettle
begin

text \<open>
  \<open>xrpl_x402_payer/journal.py\<close> and \<open>receipts.py\<close>: the payer's receipts and its attempt index.
  Every public operation runs under the file lock, so each is one step on the journal; the index
  file is absent, unreadable or a list of attempts. Times are rational numbers of seconds. The
  owner tokens (\<open>uuid4\<close>) are arguments, and \<open>extract_payment_identifier\<close> of the SDK is the
  argument \<open>extract\<close>. The encoding of both files as JSON is left out.
\<close>

section \<open>Data\<close>

datatype attempt_state = Claimed | Ready | AttemptPending | AttemptPaid

record payment_attempt =
  at_fingerprint :: string
  at_payer :: string
  at_recovery_scope :: string
  at_owner_token :: string
  at_state :: attempt_state
  at_lease_expires_at :: rat
  at_payload :: "payment_payload option"
  at_identifier :: "string option"

datatype receipt_state = ReceiptPaid | ReceiptPending | ReceiptFailed

record receipt_record =
  rc_created_at :: string
  rc_url :: string
  rc_method :: string
  rc_status_code :: int
  rc_state :: receipt_state
  rc_settlement :: settle_response
  rc_accepted :: payment_requirements
  rc_fingerprint :: "string option"

datatype index_file = NoIndex | BadIndex | Index "(string \<times> payment_attempt) list"

record journal =
  jr_index :: index_file
  jr_receipts :: "receipt_record list"
  jr_clock :: rat

type_synonym 'a journal_cmd = "(journal, 'a) cmd"

type_synonym id_extract = "payment_payload \<Rightarrow> string option"

record attempt_claim =
  cl_attempt :: payment_attempt
  cl_owner_token :: "string option"

abbreviation ATTEMPT_LEASE_SECONDS :: rat where "ATTEMPT_LEASE_SECONDS \<equiv> 30"
abbreviation TERMINAL_REUSE_SECONDS :: rat where "TERMINAL_REUSE_SECONDS \<equiv> 300"

definition is_owner :: "attempt_claim \<Rightarrow> bool" where
  "is_owner c \<longleftrightarrow> cl_owner_token c \<noteq> None"


section \<open>The attempt index\<close>

definition load_index :: "journal \<Rightarrow> exn + (string \<times> payment_attempt) list" where
  "load_index j = (case jr_index j of
       NoIndex \<Rightarrow> Inr []
     | BadIndex \<Rightarrow> Inl (ValueError ''Invalid x402 payer attempt index'')
     | Index attempts \<Rightarrow> Inr attempts)"

definition write_index :: "(string \<times> payment_attempt) list \<Rightarrow> unit journal_cmd" where
  "write_index attempts = cmodify (\<lambda>j. j\<lparr>jr_index := Index attempts\<rparr>)"

definition attempt_from_index ::
  "id_extract \<Rightarrow> (string \<times> payment_attempt) list \<Rightarrow> string \<Rightarrow> exn + payment_attempt option" where
  "attempt_from_index extract attempts fingerprint = (case map_of attempts fingerprint of
       None \<Rightarrow> Inr None
     | Some a \<Rightarrow>
       if (case at_payload a of Some p \<Rightarrow> extract p \<noteq> at_identifier a | None \<Rightarrow> False)
         then Inl (ValueError ''Stored payment identifier does not match its exact payload'')
       else Inr (Some a))"

definition put_attempt ::
  "payment_attempt \<Rightarrow> (string \<times> payment_attempt) list \<Rightarrow> (string \<times> payment_attempt) list" where
  "put_attempt a attempts = AList.update (at_fingerprint a) a attempts"

definition expired_paid :: "rat \<Rightarrow> payment_attempt \<Rightarrow> bool" where
  "expired_paid now a \<longleftrightarrow> at_state a = AttemptPaid \<and> at_lease_expires_at a \<le> now"

definition prune_expired_paid ::
  "rat \<Rightarrow> (string \<times> payment_attempt) list \<Rightarrow> nat \<times> (string \<times> payment_attempt) list" where
  "prune_expired_paid now attempts =
     (length (filter (\<lambda>kv. expired_paid now (snd kv)) attempts),
      filter (\<lambda>kv. \<not> expired_paid now (snd kv)) attempts)"

definition prune_expired_attempts :: "nat journal_cmd" where
  "prune_expired_attempts =
     cbind (cget id) (\<lambda>j.
     cbind (clift (load_index j)) (\<lambda>attempts.
     let (count, rest) = prune_expired_paid (jr_clock j) attempts in
     if 0 < count then cbind (write_index rest) (\<lambda>_. creturn count) else creturn count))"

definition write_if_pruned :: "nat \<Rightarrow> (string \<times> payment_attempt) list \<Rightarrow> unit journal_cmd" where
  "write_if_pruned count attempts = (if 0 < count then write_index attempts else creturn ())"

definition claim_attempt ::
  "id_extract \<Rightarrow> string \<Rightarrow> string \<Rightarrow> string \<Rightarrow> rat \<Rightarrow> string \<Rightarrow> attempt_claim journal_cmd" where
  "claim_attempt extract fingerprint payer recovery_scope lease_seconds token =
     (if strip recovery_scope = [] then craise (ValueError ''recovery_scope must be non-empty'')
      else cbind (cget id) (\<lambda>j.
      cbind (clift (load_index j)) (\<lambda>attempts.
      let (pruned, rest) = prune_expired_paid (jr_clock j) attempts;
          claimed = \<lparr>at_fingerprint = fingerprint, at_payer = payer, at_recovery_scope = recovery_scope,
                     at_owner_token = token, at_state = Claimed,
                     at_lease_expires_at = jr_clock j + lease_seconds, at_payload = None, at_identifier = None\<rparr>;
          fresh = cbind (write_index (put_attempt claimed rest)) (\<lambda>_.
                    creturn \<lparr>cl_attempt = claimed, cl_owner_token = Some token\<rparr>) in
      cbind (clift (attempt_from_index extract rest fingerprint)) (\<lambda>existing. case existing of
          None \<Rightarrow> fresh
        | Some a \<Rightarrow>
          if at_payer a \<noteq> payer \<or> at_recovery_scope a \<noteq> recovery_scope
            then craise (ValueError ''Payment attempt recovery scope mismatch'')
          else if at_payload a \<noteq> None \<or> jr_clock j < at_lease_expires_at a
            then cbind (write_if_pruned pruned rest) (\<lambda>_. creturn \<lparr>cl_attempt = a, cl_owner_token = None\<rparr>)
          else fresh))))"

definition get_attempt :: "id_extract \<Rightarrow> string \<Rightarrow> payment_attempt option journal_cmd" where
  "get_attempt extract fingerprint =
     cbind (cget id) (\<lambda>j.
     cbind (clift (load_index j)) (\<lambda>attempts. clift (attempt_from_index extract attempts fingerprint)))"

definition persist_attempt_payload ::
  "id_extract \<Rightarrow> string \<Rightarrow> string option \<Rightarrow> payment_payload \<Rightarrow> string option \<Rightarrow> payment_attempt journal_cmd" where
  "persist_attempt_payload extract fingerprint owner_token payload identifier =
     cbind (cget id) (\<lambda>j.
     cbind (clift (load_index j)) (\<lambda>attempts.
     cbind (clift (attempt_from_index extract attempts fingerprint)) (\<lambda>current. case current of
         None \<Rightarrow> craise (RuntimeError ''Payment attempt claim disappeared'')
       | Some a \<Rightarrow>
         if at_payload a \<noteq> None then creturn a
         else if owner_token \<noteq> Some (at_owner_token a)
           then craise (RuntimeError ''Payment attempt lease is owned by another payer'')
         else let ready = a\<lparr>at_state := Ready, at_lease_expires_at := 0, at_payload := Some payload,
                            at_identifier := identifier\<rparr> in
           cbind (write_index (put_attempt ready attempts)) (\<lambda>_. creturn ready))))"

definition release_claim :: "id_extract \<Rightarrow> string \<Rightarrow> string option \<Rightarrow> unit journal_cmd" where
  "release_claim extract fingerprint owner_token =
     (case owner_token of
        None \<Rightarrow> creturn ()
      | Some token \<Rightarrow>
        cbind (cget id) (\<lambda>j.
        cbind (clift (load_index j)) (\<lambda>attempts.
        cbind (clift (attempt_from_index extract attempts fingerprint)) (\<lambda>current. case current of
            None \<Rightarrow> creturn ()
          | Some a \<Rightarrow>
            if at_owner_token a = token \<and> at_payload a = None
              then write_index (AList.delete fingerprint attempts)
            else creturn ()))))"


section \<open>Receipts\<close>

text \<open>A fingerprint that is missing or empty gives no key.\<close>

definition fingerprint_of :: "receipt_record \<Rightarrow> string option" where
  "fingerprint_of r = (case rc_fingerprint r of Some (c # cs) \<Rightarrow> Some (c # cs) | _ \<Rightarrow> None)"

definition receipt_key :: "receipt_record \<Rightarrow> (string \<times> receipt_state \<times> string) option" where
  "receipt_key r = map_option (\<lambda>f. (f, rc_state r, sr_transaction (rc_settlement r))) (fingerprint_of r)"

definition append_receipt :: "receipt_record \<Rightarrow> bool journal_cmd" where
  "append_receipt r = cbind (cget jr_receipts) (\<lambda>records.
     if receipt_key r \<noteq> None \<and> list_ex (\<lambda>e. receipt_key e = receipt_key r) records then creturn False
     else cbind (cmodify (\<lambda>j. j\<lparr>jr_receipts := jr_receipts j @ [r]\<rparr>)) (\<lambda>_. creturn True))"

definition late_outcome :: "receipt_record \<Rightarrow> string \<Rightarrow> receipt_record list \<Rightarrow> bool" where
  "late_outcome r fingerprint records \<longleftrightarrow> rc_state r \<noteq> ReceiptPaid \<and>
     list_ex (\<lambda>e. rc_fingerprint e = Some fingerprint
        \<and> sr_transaction (rc_settlement e) = sr_transaction (rc_settlement r)
        \<and> rc_state e \<in> {ReceiptPaid, ReceiptFailed}) records"

definition outcome_index ::
  "rat \<Rightarrow> rat \<Rightarrow> receipt_state \<Rightarrow> string \<Rightarrow> payment_attempt \<Rightarrow> (string \<times> payment_attempt) list
     \<Rightarrow> (string \<times> payment_attempt) list" where
  "outcome_index now terminal_reuse_seconds st fingerprint a attempts = (case st of
       ReceiptPending \<Rightarrow> put_attempt (a\<lparr>at_state := AttemptPending, at_lease_expires_at := 0\<rparr>) attempts
     | ReceiptPaid \<Rightarrow>
         put_attempt (a\<lparr>at_state := AttemptPaid, at_lease_expires_at := now + terminal_reuse_seconds\<rparr>) attempts
     | ReceiptFailed \<Rightarrow> AList.delete fingerprint attempts)"

definition record_outcome :: "id_extract \<Rightarrow> receipt_record \<Rightarrow> rat \<Rightarrow> bool journal_cmd" where
  "record_outcome extract r terminal_reuse_seconds =
     cbind (cget id) (\<lambda>j.
     case fingerprint_of r of
       None \<Rightarrow> append_receipt r
     | Some fingerprint \<Rightarrow>
       if late_outcome r fingerprint (jr_receipts j) then creturn False
       else cbind (append_receipt r) (\<lambda>appended.
         cbind (clift (load_index j)) (\<lambda>attempts.
         cbind (clift (attempt_from_index extract attempts fingerprint)) (\<lambda>attempt. case attempt of
             None \<Rightarrow> creturn appended
           | Some a \<Rightarrow>
             cbind (write_index (outcome_index (jr_clock j) terminal_reuse_seconds (rc_state r) fingerprint a attempts))
               (\<lambda>_. creturn appended)))))"

definition list_receipts :: "int \<Rightarrow> journal \<Rightarrow> receipt_record list" where
  "list_receipts limit j =
     (if limit \<le> 0 then [] else rev (drop (length (jr_receipts j) - nat limit) (jr_receipts j)))"

definition latest_for_fingerprint :: "string \<Rightarrow> journal \<Rightarrow> receipt_record option" where
  "latest_for_fingerprint fingerprint j =
     fold (\<lambda>e latest. if rc_fingerprint e = Some fingerprint then Some e else latest) (jr_receipts j) None"


section \<open>The budget summary\<close>

definition counts_towards :: "string \<Rightarrow> string \<Rightarrow> string option \<Rightarrow> receipt_record \<Rightarrow> exn + bool" where
  "counts_towards network asset issuer e =
     (if rc_state e \<noteq> ReceiptPaid \<or> r_network (rc_accepted e) \<noteq> network then Inr False
      else rbind (normalize_currency_code (r_asset (rc_accepted e))) (\<lambda>c.
      rbind (normalize_currency_code asset) (\<lambda>c'.
        Inr (c = c' \<and> dget (extra_of (rc_accepted e)) ''issuer'' =
               (case issuer of None \<Rightarrow> PNone | Some i \<Rightarrow> PStr i)))))"

text \<open>\<open>sum\<close> starts from the integer 0, so an empty sum is an \<open>int\<close> and any other a \<open>Decimal\<close>.\<close>

datatype py_sum = IntZero | DecSum pydec

definition as_decimal :: "py_sum \<Rightarrow> pydec" where
  "as_decimal s = (case s of IntZero \<Rightarrow> dec_of_int 0 | DecSum d \<Rightarrow> d)"

fun sum_paid ::
  "string \<Rightarrow> string \<Rightarrow> string option \<Rightarrow> py_sum \<Rightarrow> receipt_record list \<Rightarrow> exn + py_sum" where
  "sum_paid network asset issuer acc [] = Inr acc"
| "sum_paid network asset issuer acc (e # es) =
     rbind (counts_towards network asset issuer e) (\<lambda>counts.
       if counts then
         rbind (decimal_of_str (r_amount (rc_accepted e))) (\<lambda>amount.
         rbind (dec_add (as_decimal acc) amount) (\<lambda>s. sum_paid network asset issuer (DecSum s) es))
       else sum_paid network asset issuer acc es)"

definition rstrip_char :: "char \<Rightarrow> string \<Rightarrow> string" where
  "rstrip_char c s = rstrip_by (\<lambda>x. x = c) s"

definition format_decimal :: "pydec \<Rightarrow> string" where
  "format_decimal value =
     (let normalized = format_f (dec_normalize value);
          shorter = (if CHR ''.'' \<in> set normalized
                     then rstrip_char (CHR ''.'') (rstrip_char (CHR ''0'') normalized) else normalized)
      in if shorter = [] then ''0'' else shorter)"

definition format_sum :: "py_sum \<Rightarrow> exn + string" where
  "format_sum s = (case s of
       IntZero \<Rightarrow> Inl (AttributeError ''normalize'')
     | DecSum d \<Rightarrow> Inr (format_decimal d))"

record budget =
  bu_spent :: string
  bu_max_spend :: "string option"
  bu_remaining :: "string option"

definition budget_summary ::
  "string \<Rightarrow> string \<Rightarrow> string option \<Rightarrow> pydec option \<Rightarrow> journal \<Rightarrow> exn + budget" where
  "budget_summary network asset issuer max_spend j =
     rbind (sum_paid network asset issuer IntZero (jr_receipts j)) (\<lambda>spent.
     rbind (case max_spend of
              None \<Rightarrow> Inr None
            | Some m \<Rightarrow> rbind (dec_sub m (as_decimal spent)) (\<lambda>d. Inr (Some d)))
       (\<lambda>remaining.
     rbind (format_sum spent) (\<lambda>text.
       Inr \<lparr>bu_spent = text, bu_max_spend = map_option format_decimal max_spend,
            bu_remaining = map_option format_decimal remaining\<rparr>)))"

end
