(* ===== verification/JournalCorrect.thy ===== *)
theory JournalCorrect
  imports Journal
begin

text \<open>
  Correctness of the payer's journal under any interleaving of the processes that share it: the
  signed payload of an unsettled attempt is never lost or replaced, a claim has one owner, and
  receipts are neither duplicated nor taken back.
\<close>

section \<open>Interleavings\<close>

datatype journal_event =
    EClaim string string string rat string
  | EPersist string "string option" payment_payload "string option"
  | ERelease string "string option"
  | EOutcome receipt_record rat
  | EAppend receipt_record
  | EPrune
  | ETime nat

fun journal_step :: "id_extract \<Rightarrow> journal_event \<Rightarrow> journal \<Rightarrow> journal" where
  "journal_step ex (EClaim fp payer scope lease token) j = snd (claim_attempt ex fp payer scope lease token j)"
| "journal_step ex (EPersist fp owner payload i) j = snd (persist_attempt_payload ex fp owner payload i j)"
| "journal_step ex (ERelease fp owner) j = snd (release_claim ex fp owner j)"
| "journal_step ex (EOutcome r reuse) j = snd (record_outcome ex r reuse j)"
| "journal_step ex (EAppend r) j = snd (append_receipt r j)"
| "journal_step ex EPrune j = snd (prune_expired_attempts j)"
| "journal_step ex (ETime n) j = j\<lparr>jr_clock := jr_clock j + of_nat n / 100\<rparr>"

fun journal_run :: "id_extract \<Rightarrow> journal_event list \<Rightarrow> journal \<Rightarrow> journal" where
  "journal_run ex [] j = j"
| "journal_run ex (e # es) j = journal_run ex es (journal_step ex e j)"

definition attempt_of :: "journal \<Rightarrow> string \<Rightarrow> payment_attempt option" where
  "attempt_of j fp = (case jr_index j of Index xs \<Rightarrow> map_of xs fp | _ \<Rightarrow> None)"

definition wf_index :: "(string \<times> payment_attempt) list \<Rightarrow> bool" where
  "wf_index xs \<longleftrightarrow> distinct (map fst xs) \<and> (\<forall>k a. map_of xs k = Some a \<longrightarrow> at_fingerprint a = k)"

definition wf_journal :: "journal \<Rightarrow> bool" where
  "wf_journal j \<longleftrightarrow> (case jr_index j of Index xs \<Rightarrow> wf_index xs | _ \<Rightarrow> True)"

text \<open>A terminal outcome is recorded for a fingerprint.\<close>

fun concludes :: "string \<Rightarrow> journal_event \<Rightarrow> bool" where
  "concludes fp (EOutcome r _) \<longleftrightarrow> rc_fingerprint r = Some fp \<and> rc_state r \<noteq> ReceiptPending"
| "concludes fp _ \<longleftrightarrow> False"

text \<open>The attempt of a fingerprint is unpaid and satisfies a condition.\<close>

definition held :: "string \<Rightarrow> (payment_attempt \<Rightarrow> bool) \<Rightarrow> journal \<Rightarrow> bool" where
  "held fp Q j \<longleftrightarrow> (\<exists>a. attempt_of j fp = Some a \<and> at_state a \<noteq> AttemptPaid \<and> Q a)"

text \<open>The attempt carries the signed payload \<open>p\<close>.\<close>

definition holds_payload :: "string \<Rightarrow> payment_payload \<Rightarrow> journal \<Rightarrow> bool" where
  "holds_payload fp p j \<longleftrightarrow> held fp (\<lambda>a. at_payload a = Some p) j"

text \<open>The attempt carries a payload, or it is the claim of \<open>token\<close> with a lease until \<open>until\<close>.\<close>

definition holds_claim :: "string \<Rightarrow> string \<Rightarrow> rat \<Rightarrow> journal \<Rightarrow> bool" where
  "holds_claim fp token until j \<longleftrightarrow>
     held fp (\<lambda>a. at_payload a \<noteq> None \<or> at_owner_token a = token \<and> at_lease_expires_at a = until) j"


section \<open>The index\<close>

lemma load_index_attempt: "load_index j = Inr xs \<Longrightarrow> map_of xs fp = attempt_of j fp"
  by (auto simp: load_index_def attempt_of_def split: index_file.splits)

lemma load_index_wf: "wf_journal j \<Longrightarrow> load_index j = Inr xs \<Longrightarrow> wf_index xs"
  by (auto simp: load_index_def wf_journal_def wf_index_def split: index_file.splits)

lemma map_of_put: "map_of (put_attempt a xs) fp = (if fp = at_fingerprint a then Some a else map_of xs fp)"
  by (simp add: put_attempt_def update_conv')

lemma map_of_delete: "map_of (AList.delete k xs) fp = (if fp = k then None else map_of xs fp)"
  by (simp add: delete_conv')

lemma map_of_prune:
  assumes "distinct (map fst xs)"
  shows "map_of (snd (prune_expired_paid now xs)) fp =
    (case map_of xs fp of Some a \<Rightarrow> if expired_paid now a then None else Some a | None \<Rightarrow> None)"
  using assms
proof (induction xs)
  case (Cons kv xs)
  moreover have "fp \<notin> fst ` set xs \<Longrightarrow> map_of xs fp = None"
    by (simp add: map_of_eq_None_iff)
  ultimately show ?case
    by (cases kv) (auto simp: prune_expired_paid_def map_of_eq_None_iff split: option.splits)
qed (simp add: prune_expired_paid_def)

lemma wf_put: "wf_index xs \<Longrightarrow> wf_index (put_attempt a xs)"
  by (auto simp: wf_index_def map_of_put) (simp add: put_attempt_def distinct_update)

lemma wf_delete: "wf_index xs \<Longrightarrow> wf_index (AList.delete k xs)"
  by (auto simp: wf_index_def map_of_delete distinct_delete)

lemma wf_prune: "wf_index xs \<Longrightarrow> wf_index (snd (prune_expired_paid now xs))"
  by (auto simp: wf_index_def map_of_prune split: option.splits if_splits)
    (auto simp: prune_expired_paid_def distinct_map intro: inj_on_subset)

lemma attempt_from_index_ok: "attempt_from_index ex xs fp = Inr v \<Longrightarrow> map_of xs fp = v"
  by (auto simp: attempt_from_index_def split: option.splits if_splits)

lemma map_of_fingerprint: "wf_index xs \<Longrightarrow> map_of xs fp = Some a \<Longrightarrow> at_fingerprint a = fp"
  by (simp add: wf_index_def)

lemmas op_defs = cbind_def cget_def clift_def craise_def creturn_def cmodify_def write_index_def write_if_pruned_def

definition claim_of :: "string \<Rightarrow> string \<Rightarrow> string \<Rightarrow> rat \<Rightarrow> string \<Rightarrow> journal \<Rightarrow> payment_attempt" where
  "claim_of fp payer scope lease token j =
     \<lparr>at_fingerprint = fp, at_payer = payer, at_recovery_scope = scope, at_owner_token = token,
      at_state = Claimed, at_lease_expires_at = jr_clock j + lease, at_payload = None, at_identifier = None\<rparr>"

lemma claim_of_fingerprint [simp]: "at_fingerprint (claim_of fp payer scope lease token j) = fp"
  by (simp add: claim_of_def)

text \<open>What each operation may do to the index.\<close>

lemma claim_index:
  "jr_index (snd (claim_attempt ex fp payer scope lease token j)) = jr_index j
   \<or> (\<exists>xs. load_index j = Inr xs \<and>
        (let rest = snd (prune_expired_paid (jr_clock j) xs) in
         jr_index (snd (claim_attempt ex fp payer scope lease token j)) = Index rest
         \<or> jr_index (snd (claim_attempt ex fp payer scope lease token j)) =
              Index (put_attempt (claim_of fp payer scope lease token j) rest)
            \<and> (\<forall>a. map_of rest fp = Some a \<longrightarrow> at_payload a = None \<and> at_lease_expires_at a \<le> jr_clock j)))"
  by (auto simp: claim_attempt_def claim_of_def op_defs Let_def prune_expired_paid_def dest: attempt_from_index_ok
      split: sum.splits option.splits)

lemma persist_index:
  "jr_index (snd (persist_attempt_payload ex fp owner payload i j)) = jr_index j
   \<or> (\<exists>xs a. load_index j = Inr xs \<and> map_of xs fp = Some a \<and> at_payload a = None
        \<and> jr_index (snd (persist_attempt_payload ex fp owner payload i j)) =
            Index (put_attempt (a\<lparr>at_state := Ready, at_lease_expires_at := 0, at_payload := Some payload,
                                 at_identifier := i\<rparr>) xs))"
  by (auto simp: persist_attempt_payload_def op_defs Let_def dest!: attempt_from_index_ok
      split: sum.splits option.splits)

lemma release_index:
  "jr_index (snd (release_claim ex fp owner j)) = jr_index j
   \<or> (\<exists>xs a. load_index j = Inr xs \<and> map_of xs fp = Some a \<and> at_payload a = None \<and> owner = Some (at_owner_token a)
        \<and> jr_index (snd (release_claim ex fp owner j)) = Index (AList.delete fp xs))"
  by (auto simp: release_claim_def op_defs dest!: attempt_from_index_ok split: sum.splits option.splits)

lemma outcome_index_change:
  "jr_index (snd (record_outcome ex r reuse j)) = jr_index j
   \<or> (\<exists>xs a fp. load_index j = Inr xs \<and> map_of xs fp = Some a \<and> rc_fingerprint r = Some fp
        \<and> jr_index (snd (record_outcome ex r reuse j)) = Index (outcome_index (jr_clock j) reuse (rc_state r) fp a xs))"
  by (auto simp: record_outcome_def append_receipt_def fingerprint_of_def op_defs dest!: attempt_from_index_ok
      split: sum.splits option.splits list.splits)

lemma prune_index:
  "jr_index (snd (prune_expired_attempts j)) = jr_index j
   \<or> (\<exists>xs. load_index j = Inr xs
        \<and> jr_index (snd (prune_expired_attempts j)) = Index (snd (prune_expired_paid (jr_clock j) xs)))"
  by (auto simp: prune_expired_attempts_def op_defs prune_expired_paid_def split: sum.splits)

lemma append_index: "jr_index (snd (append_receipt r j)) = jr_index j"
  by (simp add: append_receipt_def op_defs)

section \<open>The invariant\<close>

lemma wf_outcome: "wf_index xs \<Longrightarrow> wf_index (outcome_index now reuse st fp a xs)"
  by (simp add: outcome_index_def wf_put wf_delete split: receipt_state.splits)

lemma wf_journal_step: "wf_journal j \<Longrightarrow> wf_journal (journal_step ex e j)"
proof -
  assume wf: "wf_journal j"
  have keep: "wf_journal j'" if "jr_index j' = jr_index j" for j'
    using wf that by (simp add: wf_journal_def)
  have idx: "wf_journal j'" if "jr_index j' = Index xs" "wf_index xs" for j' xs
    using that by (simp add: wf_journal_def)
  show ?thesis
  proof (cases e)
    case (EClaim fp payer scope lease token)
    then show ?thesis
      using claim_index [of ex fp payer scope lease token j] wf
      by (auto simp: Let_def intro: keep idx wf_put wf_prune dest: load_index_wf)
  next
    case (EPersist fp owner payload i)
    then show ?thesis
      using persist_index [of ex fp owner payload i j] wf by (auto intro: keep idx wf_put dest: load_index_wf)
  next
    case (ERelease fp owner)
    then show ?thesis
      using release_index [of ex fp owner j] wf by (auto intro: keep idx wf_delete dest: load_index_wf)
  next
    case (EOutcome r reuse)
    then show ?thesis
      using outcome_index_change [of ex r reuse j] wf by (auto intro: keep idx wf_outcome dest: load_index_wf)
  next
    case (EAppend r)
    then show ?thesis
      by (simp add: keep append_index)
  next
    case EPrune
    then show ?thesis
      using prune_index [of j] wf by (auto intro: keep idx wf_prune dest: load_index_wf)
  next
    case (ETime n)
    then show ?thesis by (simp add: keep)
  qed
qed

lemma held_index:
  assumes "held fp Q j" and "jr_index j' = jr_index j"
  shows "held fp Q j'"
  using assms by (simp add: held_def attempt_of_def)

lemma held_new:
  "jr_index j' = Index ys \<Longrightarrow> map_of ys fp = Some a \<Longrightarrow> Q a \<Longrightarrow> at_state a \<noteq> AttemptPaid \<Longrightarrow> held fp Q j'"
  by (auto simp: held_def attempt_of_def)

lemma prune_keeps:
  assumes "wf_index xs" and "map_of xs fp = Some a" and "at_state a \<noteq> AttemptPaid"
  shows "map_of (snd (prune_expired_paid now xs)) fp = Some a"
  using assms by (simp add: map_of_prune wf_index_def expired_paid_def)

text \<open>Which events leave an attempt that satisfies \<open>Q\<close> in place: \<open>Q\<close> protects the attempt from
  claims, from persisting and from the releases and outcomes the events hold.\<close>

definition shields :: "string \<Rightarrow> (payment_attempt \<Rightarrow> bool) \<Rightarrow> rat \<Rightarrow> journal_event \<Rightarrow> bool" where
  "shields fp Q now e \<longleftrightarrow>
     (\<forall>a. Q a \<longrightarrow> at_payload a \<noteq> None \<or> now < at_lease_expires_at a)
   \<and> (\<forall>a payload i. Q a \<longrightarrow> Q (a\<lparr>at_state := Ready, at_lease_expires_at := 0, at_payload := Some payload, at_identifier := i\<rparr>)
        \<or> at_payload a \<noteq> None)
   \<and> (case e of
        ERelease fp' owner \<Rightarrow> \<forall>a. fp' = fp \<longrightarrow> Q a \<longrightarrow> at_payload a = None \<longrightarrow> owner \<noteq> Some (at_owner_token a)
      | EOutcome r _ \<Rightarrow> rc_fingerprint r = Some fp \<longrightarrow> rc_state r = ReceiptPending
          \<and> (\<forall>a. Q a \<longrightarrow> Q (a\<lparr>at_state := AttemptPending, at_lease_expires_at := 0\<rparr>))
      | _ \<Rightarrow> True)"

lemma held_lookup:
  assumes "wf_journal j" and "held fp Q j" and "load_index j = Inr xs"
  shows "\<exists>a. map_of xs fp = Some a \<and> Q a \<and> at_state a \<noteq> AttemptPaid \<and> wf_index xs"
  using assms load_index_attempt [OF assms(3)] load_index_wf [OF assms(1,3)] by (auto simp: held_def)

lemma held_claim:
  assumes "wf_journal j" and "held fp Q j" and "shields fp Q (jr_clock j) (EClaim fp' payer scope lease token)"
  shows "held fp Q (journal_step ex (EClaim fp' payer scope lease token) j)"
proof -
  let ?j = "snd (claim_attempt ex fp' payer scope lease token j)"
  from claim_index [of ex fp' payer scope lease token j] consider "jr_index ?j = jr_index j"
    | xs where "load_index j = Inr xs" "jr_index ?j = Index (snd (prune_expired_paid (jr_clock j) xs))"
    | xs where "load_index j = Inr xs"
        "jr_index ?j = Index (put_attempt (claim_of fp' payer scope lease token j) (snd (prune_expired_paid (jr_clock j) xs)))"
        "\<forall>a. map_of (snd (prune_expired_paid (jr_clock j) xs)) fp' = Some a \<longrightarrow>
           at_payload a = None \<and> at_lease_expires_at a \<le> jr_clock j"
    by (auto simp: Let_def)
  then show ?thesis
  proof cases
    case 1
    then show ?thesis using held_index [OF assms(2)] by simp
  next
    case 2
    then show ?thesis
      using held_lookup [OF assms(1,2) 2(1)] prune_keeps by (auto intro: held_new)
  next
    case 3
    from held_lookup [OF assms(1,2) 3(1)] obtain a where a: "map_of xs fp = Some a" "Q a" "at_state a \<noteq> AttemptPaid" "wf_index xs"
      by blast
    with 3(3) assms(3) have "fp' \<noteq> fp"
      using prune_keeps [OF a(4,1,3)] by (auto simp: shields_def not_less [symmetric])
    then show ?thesis
      using a 3(2) prune_keeps [OF a(4,1,3)] by (auto intro!: held_new simp: map_of_put)
  qed
qed

lemma held_persist:
  assumes "wf_journal j" and "held fp Q j" and "shields fp Q (jr_clock j) (EPersist fp' owner payload i)"
  shows "held fp Q (journal_step ex (EPersist fp' owner payload i) j)"
proof -
  let ?j = "snd (persist_attempt_payload ex fp' owner payload i j)"
  from persist_index [of ex fp' owner payload i j] consider "jr_index ?j = jr_index j"
    | xs a where "load_index j = Inr xs" "map_of xs fp' = Some a" "at_payload a = None"
        "jr_index ?j = Index (put_attempt (a\<lparr>at_state := Ready, at_lease_expires_at := 0,
                                              at_payload := Some payload, at_identifier := i\<rparr>) xs)"
    by blast
  then show ?thesis
  proof cases
    case 1
    then show ?thesis using held_index [OF assms(2)] by simp
  next
    case 2
    from held_lookup [OF assms(1,2) 2(1)] obtain b where b: "map_of xs fp = Some b" "Q b" "at_state b \<noteq> AttemptPaid" "wf_index xs"
      by blast
    have "at_fingerprint a = fp'"
      using map_of_fingerprint [OF b(4) 2(2)] .
    then show ?thesis
      using b 2 assms(3) by (cases "fp' = fp") (auto intro!: held_new simp: map_of_put shields_def)
  qed
qed

lemma held_release:
  assumes "wf_journal j" and "held fp Q j" and "shields fp Q (jr_clock j) (ERelease fp' owner)"
  shows "held fp Q (journal_step ex (ERelease fp' owner) j)"
proof -
  let ?j = "snd (release_claim ex fp' owner j)"
  from release_index [of ex fp' owner j] consider "jr_index ?j = jr_index j"
    | xs a where "load_index j = Inr xs" "map_of xs fp' = Some a" "at_payload a = None" "owner = Some (at_owner_token a)"
        "jr_index ?j = Index (AList.delete fp' xs)"
    by blast
  then show ?thesis
  proof cases
    case 1
    then show ?thesis using held_index [OF assms(2)] by simp
  next
    case 2
    then show ?thesis
      using held_lookup [OF assms(1,2) 2(1)] assms(3)
      by (cases "fp' = fp") (auto intro!: held_new simp: map_of_delete shields_def)
  qed
qed

lemma held_outcome:
  assumes "wf_journal j" and "held fp Q j" and "shields fp Q (jr_clock j) (EOutcome r reuse)"
  shows "held fp Q (journal_step ex (EOutcome r reuse) j)"
proof -
  let ?j = "snd (record_outcome ex r reuse j)"
  from outcome_index_change [of ex r reuse j] consider "jr_index ?j = jr_index j"
    | xs a fp' where "load_index j = Inr xs" "map_of xs fp' = Some a" "rc_fingerprint r = Some fp'"
        "jr_index ?j = Index (outcome_index (jr_clock j) reuse (rc_state r) fp' a xs)"
    by blast
  then show ?thesis
  proof cases
    case 1
    then show ?thesis using held_index [OF assms(2)] by simp
  next
    case 2
    from held_lookup [OF assms(1,2) 2(1)] obtain b where b: "map_of xs fp = Some b" "Q b" "at_state b \<noteq> AttemptPaid" "wf_index xs"
      by blast
    have "at_fingerprint a = fp'"
      using map_of_fingerprint [OF b(4) 2(2)] .
    then show ?thesis
      using b 2 assms(3) by (cases "fp' = fp"; cases "rc_state r")
        (auto intro!: held_new simp: outcome_index_def map_of_put map_of_delete shields_def)
  qed
qed

lemma held_prune:
  assumes "wf_journal j" and "held fp Q j"
  shows "held fp Q (snd (prune_expired_attempts j))"
  using prune_index [of j]
proof
  assume "\<exists>xs. load_index j = Inr xs \<and>
    jr_index (snd (prune_expired_attempts j)) = Index (snd (prune_expired_paid (jr_clock j) xs))"
  then show ?thesis
    using held_lookup [OF assms] prune_keeps by (metis held_new)
qed (rule held_index [OF assms(2)])

lemma held_step:
  assumes "wf_journal j" and "held fp Q j" and "shields fp Q (jr_clock j) e"
  shows "held fp Q (journal_step ex e j)"
proof (cases e)
  case (EAppend r)
  then show ?thesis by (simp add: held_index [OF assms(2)] append_index)
next
  case (ETime n)
  then show ?thesis by (simp add: held_index [OF assms(2)])
qed (use assms held_claim held_persist held_release held_outcome held_prune in auto)

section \<open>Runs\<close>

lemma journal_clock_step: "jr_clock j \<le> jr_clock (journal_step ex e j)"
  by (cases e) (auto simp: claim_attempt_def persist_attempt_payload_def release_claim_def record_outcome_def
      append_receipt_def prune_expired_attempts_def prune_expired_paid_def op_defs Let_def
      split: sum.splits option.splits)

lemma journal_clock_run: "jr_clock j \<le> jr_clock (journal_run ex es j)"
  by (induction es arbitrary: j) (auto intro: order_trans journal_clock_step)

lemma held_run:
  assumes "wf_journal j" and "held fp Q j"
    and "\<And>e now. e \<in> set es \<Longrightarrow> now \<le> jr_clock (journal_run ex es j) \<Longrightarrow> shields fp Q now e"
  shows "held fp Q (journal_run ex es j) \<and> wf_journal (journal_run ex es j)"
  using assms
proof (induction es arbitrary: j)
  case (Cons e es)
  have "jr_clock j \<le> jr_clock (journal_run ex es (journal_step ex e j))"
    using journal_clock_run [of j ex "e # es"] by simp
  then have "held fp Q (journal_step ex e j)"
    using Cons.prems by (intro held_step) auto
  then show ?case
    using Cons.IH [OF wf_journal_step [OF Cons.prems(1)]] Cons.prems(3) by auto
qed simp

lemma claim_keeps_held:
  assumes "wf_journal j" and "held fp Q j" and "\<And>a. Q a \<Longrightarrow> at_payload a \<noteq> None \<or> jr_clock j < at_lease_expires_at a"
    and "fst (claim_attempt ex fp payer scope lease token j) = Ok c"
  shows "\<not> is_owner c \<and> Q (cl_attempt c)"
proof -
  obtain xs where xs: "load_index j = Inr xs"
    using assms(4) by (cases "load_index j") (auto simp: claim_attempt_def op_defs split: if_splits)
  from held_lookup [OF assms(1,2) xs] obtain a where a: "map_of xs fp = Some a" "Q a" "at_state a \<noteq> AttemptPaid" "wf_index xs"
    by blast
  note m = prune_keeps [OF a(4,1,3)]
  show ?thesis
    using assms(4) xs m assms(3) [OF a(2)] a(2)
    by (auto simp: claim_attempt_def op_defs Let_def is_owner_def prune_expired_paid_def
        dest!: attempt_from_index_ok split: sum.splits option.splits if_splits)
qed

lemma persist_keeps_payload:
  assumes "wf_journal j" and "holds_payload fp p j"
    and "fst (persist_attempt_payload ex fp owner p' i j) = Ok a"
  shows "at_payload a = Some p"
proof -
  obtain xs where xs: "load_index j = Inr xs"
    using assms(3) by (cases "load_index j") (auto simp: persist_attempt_payload_def op_defs)
  from held_lookup [OF assms(1) assms(2) [unfolded holds_payload_def] xs] obtain b
    where "map_of xs fp = Some b" "at_payload b = Some p"
    by blast
  then show ?thesis
    using assms(3) xs by (auto simp: persist_attempt_payload_def op_defs Let_def
        dest!: attempt_from_index_ok split: sum.splits option.splits)
qed

lemma shields_payload: "\<not> concludes fp e \<Longrightarrow> shields fp (\<lambda>a. at_payload a = Some p) now e"
  by (cases e) (auto simp: shields_def)

text \<open>C38. Once the signed payload of a payment is in the journal, no sequence of operations of other
  processes loses or replaces it before a terminal outcome is recorded: it is still there, a claim
  of the same payment gets it back without becoming the owner (so nothing is signed again), and
  an attempt to store another payload for the payment gives back the first.
\<close>

theorem unsettled_payload_durable:
  assumes "wf_journal j" and "holds_payload fp p j" and "\<forall>e \<in> set es. \<not> concludes fp e"
  shows "holds_payload fp p (journal_run ex es j)
    \<and> (\<forall>payer scope lease token c. fst (claim_attempt ex fp payer scope lease token (journal_run ex es j)) = Ok c \<longrightarrow>
          \<not> is_owner c \<and> at_payload (cl_attempt c) = Some p)
    \<and> (\<forall>owner p' i a. fst (persist_attempt_payload ex fp owner p' i (journal_run ex es j)) = Ok a \<longrightarrow>
          at_payload a = Some p)"
proof -
  have run: "holds_payload fp p (journal_run ex es j)" "wf_journal (journal_run ex es j)"
    using held_run [OF assms(1) assms(2) [unfolded holds_payload_def]] assms(3) shields_payload
    by (auto simp: holds_payload_def)
  then show ?thesis
    using claim_keeps_held [OF run(2) run(1) [unfolded holds_payload_def]] persist_keeps_payload [OF run(2,1)]
    by auto
qed

text \<open>An event that cannot take the claim of \<open>token\<close> away.\<close>

fun leaves_claim :: "string \<Rightarrow> string \<Rightarrow> journal_event \<Rightarrow> bool" where
  "leaves_claim fp token (ERelease fp' owner) \<longleftrightarrow> fp' \<noteq> fp \<or> owner \<noteq> Some token"
| "leaves_claim fp token (EOutcome r _) \<longleftrightarrow> rc_fingerprint r \<noteq> Some fp"
| "leaves_claim fp token _ \<longleftrightarrow> True"

lemma shields_claim:
  "leaves_claim fp token e \<Longrightarrow> now < until \<Longrightarrow>
   shields fp (\<lambda>a. at_payload a \<noteq> None \<or> at_owner_token a = token \<and> at_lease_expires_at a = until) now e"
  by (cases e) (auto simp: shields_def)

lemma owner_holds_claim:
  assumes "fst (claim_attempt ex fp payer scope lease token j) = Ok c" and "is_owner c"
  shows "holds_claim fp token (jr_clock j + lease) (snd (claim_attempt ex fp payer scope lease token j))"
  using assms
  by (auto simp: claim_attempt_def op_defs Let_def is_owner_def holds_claim_def held_def attempt_of_def map_of_put
      prune_expired_paid_def split: sum.splits option.splits if_splits)

text \<open>C39. At most one process owns a payment at a time: after a claim that made its caller the owner,
  every claim of the same payment before the lease ends is refused the ownership, whatever the
  other processes did in between, unless the owner released the claim or an outcome was recorded.
\<close>

theorem claim_has_one_owner:
  assumes "wf_journal j" and "claim_attempt ex fp payer scope lease token j = (Ok c, j1)" and "is_owner c"
    and "\<forall>e \<in> set es. leaves_claim fp token e"
    and "jr_clock (journal_run ex es j1) < jr_clock j + lease"
    and "fst (claim_attempt ex fp payer' scope' lease' token' (journal_run ex es j1)) = Ok c'"
  shows "\<not> is_owner c'"
proof -
  have wf: "wf_journal j1"
    using wf_journal_step [OF assms(1), of ex "EClaim fp payer scope lease token"] assms(2) by simp
  have "holds_claim fp token (jr_clock j + lease) j1"
    using owner_holds_claim [of ex fp payer scope lease token j c] assms(2,3) by simp
  from held_run [OF wf this [unfolded holds_claim_def], of es ex] assms(4,5) shields_claim
  have run: "holds_claim fp token (jr_clock j + lease) (journal_run ex es j1)" "wf_journal (journal_run ex es j1)"
    unfolding holds_claim_def by (meson le_less_trans)+
  show ?thesis
    using claim_keeps_held [OF run(2) run(1) [unfolded holds_claim_def] _ assms(6), THEN conjunct1] assms(5) by fastforce
qed

section \<open>Receipts\<close>

fun keys_of :: "receipt_record list \<Rightarrow> (string \<times> receipt_state \<times> string) list" where
  "keys_of [] = []"
| "keys_of (r # rs) = (case receipt_key r of None \<Rightarrow> keys_of rs | Some k \<Rightarrow> k # keys_of rs)"

definition receipt_keys :: "journal \<Rightarrow> (string \<times> receipt_state \<times> string) list" where
  "receipt_keys j = keys_of (jr_receipts j)"

lemma keys_of_append: "keys_of (rs @ ss) = keys_of rs @ keys_of ss"
  by (induction rs) (auto split: option.splits)

lemma receipt_key_in: "k \<in> set (receipt_keys j) \<longleftrightarrow> list_ex (\<lambda>e. receipt_key e = Some k) (jr_receipts j)"
proof -
  have "k \<in> set (keys_of rs) \<longleftrightarrow> list_ex (\<lambda>e. receipt_key e = Some k) rs" for rs
    by (induction rs) (auto split: option.splits)
  then show ?thesis by (simp add: receipt_keys_def)
qed

lemma append_receipts:
  "jr_receipts (snd (append_receipt r j)) = jr_receipts j
   \<or> jr_receipts (snd (append_receipt r j)) = jr_receipts j @ [r] \<and> receipt_key r \<notin> Some ` set (receipt_keys j)"
  by (auto simp: append_receipt_def op_defs receipt_key_in)

lemma record_outcome_receipts:
  "jr_receipts (snd (record_outcome ex r reuse j)) = jr_receipts j
   \<or> jr_receipts (snd (record_outcome ex r reuse j)) = jr_receipts (snd (append_receipt r j))"
  by (auto simp: record_outcome_def append_receipt_def op_defs split: sum.splits option.splits)

lemma other_receipts:
  "jr_receipts (snd (claim_attempt ex fp payer scope lease token j)) = jr_receipts j"
  "jr_receipts (snd (persist_attempt_payload ex fp owner payload i j)) = jr_receipts j"
  "jr_receipts (snd (release_claim ex fp owner j)) = jr_receipts j"
  "jr_receipts (snd (prune_expired_attempts j)) = jr_receipts j"
  by (auto simp: claim_attempt_def persist_attempt_payload_def release_claim_def
      prune_expired_attempts_def prune_expired_paid_def op_defs Let_def
      split: sum.splits option.splits)

lemma step_receipts:
  "jr_receipts (journal_step ex e j) = jr_receipts j
   \<or> (\<exists>r. jr_receipts (journal_step ex e j) = jr_receipts j @ [r] \<and> receipt_key r \<notin> Some ` set (receipt_keys j))"
  using append_receipts record_outcome_receipts
  by (cases e) (simp_all add: other_receipts; metis)+

lemma step_keys: "distinct (receipt_keys j) \<Longrightarrow> distinct (receipt_keys (journal_step ex e j))"
  using step_receipts [of ex e j] by (auto simp: receipt_keys_def keys_of_append split: option.splits)

text \<open>The receipt log is append-only and free of duplicates: whatever operations run, the receipts
  already written stay in place and in order, and no two receipts share fingerprint, state and
  transaction.
\<close>

theorem receipts_append_only:
  assumes "distinct (receipt_keys j)"
  shows "(\<exists>new. jr_receipts (journal_run ex es j) = jr_receipts j @ new)
    \<and> distinct (receipt_keys (journal_run ex es j))"
  using assms
proof (induction es arbitrary: j)
  case (Cons e es)
  from Cons.IH [OF step_keys [OF Cons.prems], of ex e] step_receipts [of ex e j] show ?case
    by auto
qed simp

text \<open>
  A settlement that ended stays ended: when the log holds a paid or failed receipt for a
  fingerprint and transaction, recording a pending or failed outcome for the same two returns
  \<open>False\<close> and changes neither the log nor the attempt.
\<close>

theorem late_outcome_ignored:
  assumes "rc_state r \<noteq> ReceiptPaid" and "fingerprint_of r = Some fp"
    and "e \<in> set (jr_receipts j)" and "rc_fingerprint e = Some fp" and "rc_state e \<noteq> ReceiptPending"
    and "sr_transaction (rc_settlement e) = sr_transaction (rc_settlement r)"
  shows "record_outcome ex r reuse j = (Ok False, j)"
proof -
  have "rc_state e \<in> {ReceiptPaid, ReceiptFailed}"
    using assms(5) by (cases "rc_state e") auto
  then have "late_outcome r fp (jr_receipts j)"
    using assms by (auto simp: late_outcome_def list_ex_iff)
  then show ?thesis
    using assms(2) by (simp add: record_outcome_def op_defs)
qed

section \<open>The budget\<close>

lemma nothing_counts:
  "\<forall>e \<in> set es. rc_state e \<noteq> ReceiptPaid \<or> r_network (rc_accepted e) \<noteq> network \<Longrightarrow>
   sum_paid network asset issuer acc es = Inr acc"
  by (induction es) (auto simp: counts_towards_def rbind_def)

text \<open>The budget summary of a journal without a paid receipt on the network raises: Python's
  \<open>sum\<close> of no amounts is the integer 0, which has no method \<open>normalize\<close>.
\<close>

theorem budget_of_nothing_raises:
  assumes "\<forall>e \<in> set (jr_receipts j). rc_state e \<noteq> ReceiptPaid \<or> r_network (rc_accepted e) \<noteq> network"
  shows "budget_summary network asset issuer None j = Inl (AttributeError ''normalize'')"
  using nothing_counts [OF assms] by (simp add: budget_summary_def rbind_def format_sum_def)

section \<open>Witnesses\<close>

definition sample_attempt :: payment_attempt where
  "sample_attempt = \<lparr>at_fingerprint = ''f1'', at_payer = ''rPayer'', at_recovery_scope = ''s'',
     at_owner_token = ''t1'', at_state = Ready, at_lease_expires_at = 0, at_payload = Some sample_payload,
     at_identifier = None\<rparr>"

definition sample_receipt :: receipt_record where
  "sample_receipt = \<lparr>rc_created_at = ''2026'', rc_url = ''https://shop'', rc_method = ''GET'', rc_status_code = 200,
     rc_state = ReceiptFailed,
     rc_settlement = \<lparr>sr_success = False, sr_error_reason = None, sr_error_message = None, sr_payer = None,
       sr_transaction = ''H1'', sr_network = ''xrpl:1'', sr_amount = None, sr_status = None\<rparr>,
     rc_accepted = sample_xrp, rc_fingerprint = Some ''f2''\<rparr>"

definition sample_journal :: journal where
  "sample_journal = \<lparr>jr_index = Index [(''f1'', sample_attempt)], jr_receipts = [sample_receipt], jr_clock = 1000\<rparr>"

lemma sample_wf_journal: "wf_journal sample_journal"
  by (simp add: wf_journal_def wf_index_def sample_journal_def sample_attempt_def)

theorem unsettled_payload_durable_witness:
  "holds_payload ''f1'' sample_payload
     (journal_run (\<lambda>_. None) [EPrune, ETime 100000, ERelease ''f1'' (Some ''t1'')] sample_journal)"
  by (rule unsettled_payload_durable [OF sample_wf_journal, THEN conjunct1])
    (simp_all add: holds_payload_def held_def attempt_of_def sample_journal_def sample_attempt_def)

definition sample_claim :: attempt_claim where
  "sample_claim = \<lparr>cl_attempt = claim_of ''f3'' ''rPayer'' ''s'' 30 ''t3'' sample_journal, cl_owner_token = Some ''t3''\<rparr>"

definition sample_claimed :: journal where
  "sample_claimed = snd (claim_attempt (\<lambda>_. None) ''f3'' ''rPayer'' ''s'' 30 ''t3'' sample_journal)"

lemma strip_s: "strip ''s'' = ''s''"
  by code_simp

lemma sample_claim_run:
  "claim_attempt (\<lambda>_. None) ''f3'' ''rPayer'' ''s'' 30 ''t3'' sample_journal = (Ok sample_claim, sample_claimed)"
  by (simp add: sample_claimed_def sample_claim_def claim_of_def claim_attempt_def op_defs Let_def strip_s load_index_def
      sample_journal_def sample_attempt_def prune_expired_paid_def expired_paid_def attempt_from_index_def)

lemma sample_second_claim:
  "fst (claim_attempt (\<lambda>_. None) ''f3'' ''rPayer'' ''s'' 30 ''t4'' (journal_run (\<lambda>_. None) [ETime 2900] sample_claimed)) =
     Ok (sample_claim\<lparr>cl_owner_token := None\<rparr>)"
  by (simp add: sample_claimed_def sample_claim_def claim_of_def claim_attempt_def op_defs Let_def strip_s load_index_def
      sample_journal_def sample_attempt_def prune_expired_paid_def expired_paid_def attempt_from_index_def put_attempt_def)

theorem claim_has_one_owner_witness: "\<not> is_owner (sample_claim\<lparr>cl_owner_token := None\<rparr>)"
  by (rule claim_has_one_owner [OF sample_wf_journal sample_claim_run _ _ _ sample_second_claim])
    (simp_all add: is_owner_def sample_claim_def sample_claimed_def claim_attempt_def op_defs Let_def strip_s load_index_def
      sample_journal_def sample_attempt_def prune_expired_paid_def expired_paid_def attempt_from_index_def)

theorem receipts_append_only_witness:
  "distinct (receipt_keys (journal_run (\<lambda>_. None) [EAppend sample_receipt, EOutcome sample_receipt 300] sample_journal))"
  by (rule receipts_append_only [THEN conjunct2])
    (simp add: receipt_keys_def sample_journal_def receipt_key_def fingerprint_of_def sample_receipt_def)

theorem late_outcome_ignored_witness:
  "record_outcome (\<lambda>_. None) (sample_receipt\<lparr>rc_state := ReceiptPending\<rparr>) 300 sample_journal = (Ok False, sample_journal)"
  by (rule late_outcome_ignored [where fp = "''f2''" and e = sample_receipt])
    (simp_all add: sample_receipt_def sample_journal_def fingerprint_of_def)

theorem budget_of_nothing_raises_witness:
  "budget_summary ''xrpl:1'' ''XRP'' None None sample_journal = Inl (AttributeError ''normalize'')"
  by (rule budget_of_nothing_raises) (simp add: sample_journal_def sample_receipt_def)

end
