(* ===== verification/Payer.thy ===== *)
theory Payer
  imports JournalCorrect Signer Spend
begin

text \<open>
  \<open>xrpl_x402_payer/payer.py\<close> and the endpoint choice of \<open>xrpl_x402_core/testnet_rpc.py\<close>: one paid
  HTTP request, from the first response to the recorded outcome.

  Arguments of the model (the record \<open>payer_env\<close>): the HTTP transport, whose answer may depend on
  every request sent so far; the header codecs and the client of the x402 SDK, which chooses an
  offer under the spend controls it is given and signs it; httpx's normal form of a URL; the
  tokens of \<open>uuid4\<close>; and the other processes that share the journal. \<open>pe_others n\<close> is what they do
  before the \<open>n\<close>-th step of this process: an operation on the journal, or a request that it sends. The
  state keeps, with every request sent, the journal as the last operation of this process left it
  and the journal at the moment of sending.
\<close>

section \<open>Data\<close>

record http_request =
  hq_method :: string
  hq_url :: string
  hq_headers :: "(string \<times> string) list"
  hq_content :: "string option"

text \<open>The headers of a response have lower-case names, as httpx gives them.\<close>

record http_response =
  hr_status :: int
  hr_headers :: "(string \<times> string) list"
  hr_body :: string

text \<open>What the client of the SDK is configured with: explicit limits, or the default cap.\<close>

datatype spend_setup = Limits "spend_limit list" | MaxPerPayment string

record payer_env =
  pe_ext :: ext
  pe_send :: "http_request list \<Rightarrow> http_request \<Rightarrow> exn + http_response"
  pe_decode_required :: "string \<Rightarrow> exn + payment_required option"
  pe_decode_settlement :: "string \<Rightarrow> exn + settle_response option"
  pe_base64 :: "string \<Rightarrow> string"
  pe_create :: "signer \<Rightarrow> string \<Rightarrow> spend_setup \<Rightarrow> payment_required \<Rightarrow> payment_payload option client_cmd"
  pe_extract :: id_extract
  pe_url :: "string \<Rightarrow> exn + string"
  pe_iso :: "rat \<Rightarrow> string"
  pe_token :: "nat \<Rightarrow> string"
  pe_others :: "nat \<Rightarrow> journal_event list"
  pe_fuel :: nat

record payer =
  pa_signer :: "signer option"
  pa_account :: "string option"
  pa_network :: string

record payer_state =
  ps_journal :: journal
  ps_sent :: "(http_request \<times> journal \<times> journal) list"
  ps_calls :: "client_call list"
  ps_ops :: nat

type_synonym 'a payer_cmd = "(payer_state, 'a) cmd"

record preview =
  pv_challenge_present :: bool
  pv_accepted :: "payment_requirements option"
  pv_would_pay :: "bool option"

record pay_result =
  res_status_code :: int
  res_body :: string
  res_headers :: "(string \<times> string) list"
  res_challenge_present :: bool
  res_dry_run :: bool
  res_paid :: bool
  res_pending :: bool
  res_preview :: "preview option"
  res_receipt :: "receipt_record option"
  res_payment_response :: "settle_response option"
  res_accepted :: "payment_requirements option"

record pay_args =
  arg_url :: string
  arg_asset :: "string option"
  arg_issuer :: "string option"
  arg_max_spend :: "string option"
  arg_dry_run :: bool
  arg_method :: string
  arg_headers :: "(string \<times> string) list"
  arg_content :: "string option"

abbreviation DEFAULT_NETWORK :: string where "DEFAULT_NETWORK \<equiv> ''xrpl:1''"
abbreviation PAYMENT_SIGNATURE_HEADER :: string where "PAYMENT_SIGNATURE_HEADER \<equiv> ''PAYMENT-SIGNATURE''"
abbreviation PAYMENT_RESPONSE_HEADER :: string where "PAYMENT_RESPONSE_HEADER \<equiv> ''PAYMENT-RESPONSE''"

text \<open>\<open>a or b\<close> for optional strings.\<close>

definition or_str :: "string option \<Rightarrow> string option \<Rightarrow> string option" where
  "or_str a b = (case a of Some (c # cs) \<Rightarrow> Some (c # cs) | _ \<Rightarrow> b)"

definition make_payer :: "signer option \<Rightarrow> string option \<Rightarrow> string option \<Rightarrow> exn + payer" where
  "make_payer own network payer_account =
     (if own \<noteq> None \<and> payer_account \<noteq> None \<and> map_option sg_address own \<noteq> payer_account
        then Inl (ValueError ''payer_account does not match the signer'')
      else Inr \<lparr>pa_signer = own, pa_account = or_str payer_account (map_option sg_address own),
                pa_network = (case or_str network (case own of None \<Rightarrow> None | Some S \<Rightarrow> sg_network S) of
                    Some (c # cs) \<Rightarrow> c # cs | _ \<Rightarrow> DEFAULT_NETWORK)\<rparr>)"


section \<open>Pure helpers\<close>

definition explicit_limit ::
  "string \<Rightarrow> string option \<Rightarrow> string option \<Rightarrow> string option \<Rightarrow> exn + spend_limit option" where
  "explicit_limit network asset issuer max_spend = (case asset of
       None \<Rightarrow>
         if issuer \<noteq> None \<or> max_spend \<noteq> None
           then Inl (ValueError ''asset is required when issuer or max_spend is configured'')
         else Inr None
     | Some a \<Rightarrow>
       rbind (normalize_currency_code a) (\<lambda>code. case max_spend of
           None \<Rightarrow> Inl (ValueError ''XRP, USDC, and custom IOUs require an explicit per-payment cap'')
         | Some cap \<Rightarrow>
           if code \<noteq> ''XRP'' \<and> issuer \<in> {None, Some []}
             then Inl (ValueError ''explicit IOU payments require an issuer'')
           else if code = ''XRP'' \<and> issuer \<noteq> None
             then Inl (ValueError ''XRP does not have an issuer'')
           else rbind (check_limit \<lparr>sl_network = network, sl_asset = code, sl_max_amount = cap, sl_issuer = issuer\<rparr>)
                  (\<lambda>l. Inr (Some l))))"

definition decode_required :: "payer_env \<Rightarrow> http_response \<Rightarrow> exn + payment_required" where
  "decode_required E response = decode_payment_required_response (pe_decode_required E) (hr_headers response)"

text \<open>\<open>_decode_payment_required\<close>: a 402 response whose header is no canonical challenge has none.\<close>

definition challenge_of :: "payer_env \<Rightarrow> http_response \<Rightarrow> exn + payment_required option" where
  "challenge_of E response =
     (if hr_status response \<noteq> 402 then Inr None
      else case decode_required E response of
          Inr required \<Rightarrow> Inr (Some required)
        | Inl e \<Rightarrow> if is_value_error e then Inr None else Inl e)"

definition decode_settlement :: "payer_env \<Rightarrow> http_response \<Rightarrow> exn + settle_response option" where
  "decode_settlement E response = (case map_of (hr_headers response) (lower PAYMENT_RESPONSE_HEADER) of
       Some (c # cs) \<Rightarrow> pe_decode_settlement E (c # cs)
     | _ \<Rightarrow> Inr None)"

definition pending_settlement :: "payer_env \<Rightarrow> payment_payload \<Rightarrow> exn + settle_response" where
  "pending_settlement E payload =
     rbind (exact_xrpl_payload payload) (\<lambda>signed_blob.
     rbind (signed_transaction_hash (pe_ext E) signed_blob) (\<lambda>h.
       Inr \<lparr>sr_success = False, sr_error_reason = Some ''settlement_pending'', sr_error_message = None,
            sr_payer = None, sr_transaction = h, sr_network = r_network (p_accepted payload),
            sr_amount = Some (r_amount (p_accepted payload)), sr_status = None\<rparr>))"

text \<open>\<open>payload.model_dump(mode="json", by_alias=True, exclude_none=True)\<close>.\<close>

definition payload_dump :: "payment_payload \<Rightarrow> pydict" where
  "payload_dump p =
     [(''x402Version'', PInt (p_x402_version p)), (''payload'', PDict (p_payload p)),
      (''accepted'', PDict (requirements_dump (p_accepted p)))]
     @ (case p_resource p of None \<Rightarrow> [] | Some d \<Rightarrow> [(''resource'', PDict d)])
     @ (case p_extensions p of None \<Rightarrow> [] | Some d \<Rightarrow> [(''extensions'', PDict d)])"

definition encode_payment_payload_header :: "payer_env \<Rightarrow> payment_payload \<Rightarrow> string" where
  "encode_payment_payload_header E payload = pe_base64 E (json_dumps (PDict (payload_dump payload)))"

text \<open>Equality of requirements in Python: field by field, the extra dictionaries without regard to
  order.\<close>

definition requirements_eq :: "payment_requirements \<Rightarrow> payment_requirements \<Rightarrow> bool" where
  "requirements_eq a b \<longleftrightarrow> r_scheme a = r_scheme b \<and> r_network a = r_network b \<and> r_asset a = r_asset b
     \<and> r_amount a = r_amount b \<and> r_pay_to a = r_pay_to b \<and> r_max_timeout_seconds a = r_max_timeout_seconds b
     \<and> py_eq (opt_dict (r_extra a)) (opt_dict (r_extra b))"

definition validate_payload_for_challenge :: "payment_payload \<Rightarrow> payment_required \<Rightarrow> exn + unit" where
  "validate_payload_for_challenge payload challenge =
     (if p_x402_version payload \<noteq> 2
        then Inl (ValueError ''Stored payment attempt is not canonical x402 v2'')
      else if \<not> py_eq (opt_dict (p_resource payload)) (opt_dict (pr_resource challenge))
        then Inl (ValueError ''Stored payment attempt resource does not match the current challenge'')
      else if \<not> list_ex (requirements_eq (p_accepted payload)) (pr_accepts challenge)
        then Inl (ValueError ''Stored accepted requirements do not match the current challenge'')
      else Inr ())"

definition bound_headers :: "(string \<times> string) list \<Rightarrow> (string \<times> string) list" where
  "bound_headers headers =
     sort_key fst (sort_key snd (filter (\<lambda>kv. fst kv \<notin> {lower PAYMENT_SIGNATURE_HEADER, lower PAYMENT_RESPONSE_HEADER})
       (map (\<lambda>(k, v). (lower k, v)) headers)))"

definition request_fingerprint ::
  "payer_env \<Rightarrow> string \<Rightarrow> string \<Rightarrow> string \<Rightarrow> (string \<times> string) list \<Rightarrow> string option \<Rightarrow> exn + string" where
  "request_fingerprint E payer_account url http_method headers content =
     rbind (pe_url E url) (\<lambda>normal_url.
       Inr (sha256_hex (pe_ext E) (json_dumps (PDict
         [(''payer'', PStr payer_account),
          (''bodySha256'', PStr (sha256_hex (pe_ext E) (case content of None \<Rightarrow> [] | Some c \<Rightarrow> c))),
          (''headers'', PList (map (\<lambda>(k, v). PList [PStr k, PStr v]) (bound_headers headers))),
          (''method'', PStr (upper http_method)),
          (''url'', PStr normal_url)]))))"

definition default_offers :: "string \<Rightarrow> payment_requirements list \<Rightarrow> payment_requirements list" where
  "default_offers network accepts =
     filter (\<lambda>item. r_network item = network \<and>
       (case find_default_asset (r_asset item) network of
          None \<Rightarrow> False
        | Some d \<Rightarrow> dget (extra_of item) ''issuer'' = PStr (da_issuer d))) accepts"

definition preview_of :: "payment_required option \<Rightarrow> string \<Rightarrow> spend_limit option \<Rightarrow> exn + preview" where
  "preview_of challenge network limit = (case challenge of
       None \<Rightarrow> Inr \<lparr>pv_challenge_present = False, pv_accepted = None, pv_would_pay = None\<rparr>
     | Some required \<Rightarrow>
       rbind (case limit of
           Some l \<Rightarrow>
             rbind (select_payment_option required (Some network) (Some (sl_asset l)) (sl_issuer l)) (\<lambda>selected.
             rbind (decimal_of_str (r_amount selected)) (\<lambda>amount.
             rbind (decimal_of_str (sl_max_amount l)) (\<lambda>cap.
             rbind (dec_le amount cap) (\<lambda>permitted. Inr (selected, permitted)))))
         | None \<Rightarrow>
             (case default_offers network (pr_accepts required) of
                [] \<Rightarrow> Inl (ValueError ''challenge has no recognized default XRPL pegged asset'')
              | selected # _ \<Rightarrow>
                  rbind (decimal_of_str (r_amount selected)) (\<lambda>amount.
                  rbind (dec_le amount (dec_of_int 1)) (\<lambda>permitted. Inr (selected, permitted)))))
         (\<lambda>(selected, permitted).
           Inr \<lparr>pv_challenge_present = True, pv_accepted = Some selected, pv_would_pay = Some permitted\<rparr>))"


section \<open>Effects\<close>

text \<open>The step of the other processes, which leaves what this process sees next.\<close>

definition others_act :: "payer_env \<Rightarrow> payer_state \<Rightarrow> payer_state" where
  "others_act E s = s\<lparr>ps_journal := journal_run (pe_extract E) (pe_others E (ps_ops s)) (ps_journal s),
     ps_ops := Suc (ps_ops s)\<rparr>"

definition http_send :: "payer_env \<Rightarrow> http_request \<Rightarrow> http_response payer_cmd" where
  "http_send E request = (\<lambda>s.
     let s1 = others_act E s in
     (case pe_send E (map fst (ps_sent s)) request of Inl e \<Rightarrow> Raise e | Inr r \<Rightarrow> Ok r,
      s1\<lparr>ps_sent := ps_sent s @ [(request, ps_journal s, ps_journal s1)]\<rparr>))"

text \<open>An operation on the journal, after what the other processes did to it.\<close>

definition on_journal :: "payer_env \<Rightarrow> 'a journal_cmd \<Rightarrow> 'a payer_cmd" where
  "on_journal E m = (\<lambda>s.
     let (r, j) = m (journal_run (pe_extract E) (pe_others E (ps_ops s)) (ps_journal s)) in
     (r, s\<lparr>ps_journal := j, ps_ops := Suc (ps_ops s)\<rparr>))"

definition sdk_create ::
  "payer_env \<Rightarrow> signer \<Rightarrow> string \<Rightarrow> spend_setup \<Rightarrow> payment_required \<Rightarrow> payment_payload option payer_cmd" where
  "sdk_create E S network setup required = (\<lambda>s.
     let (r, calls) = pe_create E S network setup required (ps_calls s) in (r, s\<lparr>ps_calls := calls\<rparr>))"

text \<open>\<open>asyncio.sleep(0.01)\<close>.\<close>

definition sleep_tick :: "unit payer_cmd" where
  "sleep_tick = cmodify (\<lambda>s. s\<lparr>ps_journal := (ps_journal s)\<lparr>jr_clock := jr_clock (ps_journal s) + 1 / 100\<rparr>\<rparr>)"

definition claim_now :: "payer_env \<Rightarrow> string \<Rightarrow> string \<Rightarrow> string \<Rightarrow> attempt_claim payer_cmd" where
  "claim_now E fingerprint payer_account recovery_scope =
     cbind (cget ps_ops) (\<lambda>n.
       on_journal E (claim_attempt (pe_extract E) fingerprint payer_account recovery_scope ATTEMPT_LEASE_SECONDS
         (pe_token E n)))"

fun claim_or_wait :: "payer_env \<Rightarrow> nat \<Rightarrow> string \<Rightarrow> string \<Rightarrow> string \<Rightarrow> attempt_claim payer_cmd" where
  "claim_or_wait E 0 fingerprint payer_account recovery_scope = cdiverge"
| "claim_or_wait E (Suc fuel) fingerprint payer_account recovery_scope =
     cbind (claim_now E fingerprint payer_account recovery_scope) (\<lambda>claim.
       if is_owner claim \<or> at_payload (cl_attempt claim) \<noteq> None then creturn claim
       else cbind sleep_tick (\<lambda>_. claim_or_wait E fuel fingerprint payer_account recovery_scope))"

definition receipt_of ::
  "payer_env \<Rightarrow> pay_args \<Rightarrow> int \<Rightarrow> receipt_state \<Rightarrow> settle_response \<Rightarrow> payment_payload \<Rightarrow> string \<Rightarrow> rat \<Rightarrow> receipt_record" where
  "receipt_of E args status_code st settlement payload fingerprint now =
     \<lparr>rc_created_at = pe_iso E now, rc_url = arg_url args, rc_method = upper (arg_method args),
      rc_status_code = status_code, rc_state = st, rc_settlement = settlement,
      rc_accepted = p_accepted payload, rc_fingerprint = Some fingerprint\<rparr>"

definition record_receipt :: "payer_env \<Rightarrow> receipt_record \<Rightarrow> bool payer_cmd" where
  "record_receipt E r = on_journal E (record_outcome (pe_extract E) r TERMINAL_REUSE_SECONDS)"

definition now_of :: "rat payer_cmd" where
  "now_of = cget (\<lambda>s. jr_clock (ps_journal s))"

section \<open>Paying\<close>

text \<open>The payload to send: the stored one, bound to the current challenge, or a new one, which is
  in the journal before it is used.\<close>

definition spend_setup_of :: "spend_limit option \<Rightarrow> exn + spend_setup" where
  "spend_setup_of limit = (case limit of
       Some l \<Rightarrow> rbind (spend_controls [l]) (\<lambda>_. Inr (Limits [l]))
     | None \<Rightarrow> Inr (MaxPerPayment ''$1''))"

definition new_payload ::
  "payer_env \<Rightarrow> payer \<Rightarrow> spend_limit option \<Rightarrow> payment_required \<Rightarrow> string \<Rightarrow> string option \<Rightarrow> payment_payload payer_cmd" where
  "new_payload E A limit required fingerprint owner_token = (case pa_signer A of
       None \<Rightarrow> craise (RuntimeError ''XRPL_WALLET_SEED is required to create a new x402 payment'')
     | Some S \<Rightarrow>
       cbind (clift (spend_setup_of limit)) (\<lambda>setup.
       cbind (sdk_create E S (pa_network A) setup required) (\<lambda>created. case created of
           None \<Rightarrow> craise (TypeError ''XRPL payer only supports x402 v2 payloads'')
         | Some payload \<Rightarrow>
           cbind (on_journal E (persist_attempt_payload (pe_extract E) fingerprint owner_token payload
                    (pe_extract E payload))) (\<lambda>attempt. case at_payload attempt of
               None \<Rightarrow> craise (RuntimeError ''Persisted payment payload disappeared'')
             | Some stored \<Rightarrow> creturn stored))))"

definition obtain_payload ::
  "payer_env \<Rightarrow> payer \<Rightarrow> spend_limit option \<Rightarrow> payment_required \<Rightarrow> string \<Rightarrow> attempt_claim \<Rightarrow> payment_payload payer_cmd" where
  "obtain_payload E A limit required fingerprint claim = (case at_payload (cl_attempt claim) of
       Some stored \<Rightarrow> cbind (clift (validate_payload_for_challenge stored required)) (\<lambda>_. creturn stored)
     | None \<Rightarrow> new_payload E A limit required fingerprint (cl_owner_token claim))"

definition first_request :: "pay_args \<Rightarrow> http_request" where
  "first_request args = \<lparr>hq_method = arg_method args, hq_url = arg_url args, hq_headers = arg_headers args,
     hq_content = arg_content args\<rparr>"

definition paid_request :: "payer_env \<Rightarrow> pay_args \<Rightarrow> payment_payload \<Rightarrow> http_request" where
  "paid_request E args payload = (first_request args)\<lparr>hq_headers :=
     AList.update PAYMENT_SIGNATURE_HEADER (encode_payment_payload_header E payload) (arg_headers args)\<rparr>"

text \<open>The \<open>except BaseException\<close> clause.\<close>

definition recover_failure ::
  "payer_env \<Rightarrow> pay_args \<Rightarrow> string \<Rightarrow> attempt_claim \<Rightarrow> payment_payload option \<Rightarrow> exn \<Rightarrow> 'a payer_cmd" where
  "recover_failure E args fingerprint claim payload e =
     cbind (case payload of
         None \<Rightarrow> creturn False
       | Some p \<Rightarrow>
         cbind now_of (\<lambda>now.
         cbind (clift (pending_settlement E p)) (\<lambda>settlement.
           record_receipt E (receipt_of E args 0 ReceiptPending settlement p fingerprint now)))) (\<lambda>_.
     cbind (on_journal E (release_claim (pe_extract E) fingerprint (cl_owner_token claim))) (\<lambda>_.
       craise e))"

definition send_paid ::
  "payer_env \<Rightarrow> payer \<Rightarrow> pay_args \<Rightarrow> spend_limit option \<Rightarrow> payment_required \<Rightarrow> string \<Rightarrow> attempt_claim
     \<Rightarrow> (payment_payload \<times> http_response) payer_cmd" where
  "send_paid E A args limit required fingerprint claim =
     ctry_else (obtain_payload E A limit required fingerprint claim)
       (recover_failure E args fingerprint claim (at_payload (cl_attempt claim)))
       (\<lambda>payload. ctry_else (http_send E (paid_request E args payload))
          (recover_failure E args fingerprint claim (Some payload))
          (\<lambda>response. creturn (payload, response)))"

definition outcome_state :: "settle_response \<Rightarrow> receipt_state" where
  "outcome_state settlement =
     (if sr_success settlement then ReceiptPaid
      else if sr_error_reason settlement = Some ''settlement_pending'' then ReceiptPending
      else ReceiptFailed)"

definition concluded_state :: "settle_response option \<Rightarrow> receipt_state" where
  "concluded_state decoded = (case decoded of None \<Rightarrow> ReceiptPending | Some settlement \<Rightarrow> outcome_state settlement)"

definition paid_result ::
  "http_response \<Rightarrow> settle_response option \<Rightarrow> settle_response \<Rightarrow> receipt_record \<Rightarrow> payment_payload \<Rightarrow> pay_result" where
  "paid_result response decoded settlement receipt payload =
     (let paid = (decoded \<noteq> None \<and> sr_success settlement) in
      \<lparr>res_status_code = hr_status response, res_body = (if paid then hr_body response else []),
       res_headers = hr_headers response, res_challenge_present = True, res_dry_run = False,
       res_paid = paid, res_pending = (concluded_state decoded = ReceiptPending), res_preview = None,
       res_receipt = Some receipt, res_payment_response = Some settlement,
       res_accepted = Some (p_accepted payload)\<rparr>)"

definition record_settlement ::
  "payer_env \<Rightarrow> pay_args \<Rightarrow> string \<Rightarrow> payment_payload \<Rightarrow> http_response \<Rightarrow> settle_response option \<Rightarrow> settle_response
     \<Rightarrow> pay_result payer_cmd" where
  "record_settlement E args fingerprint payload response decoded settlement =
     cbind now_of (\<lambda>now.
     let receipt = receipt_of E args (hr_status response) (concluded_state decoded) settlement payload fingerprint now in
     cbind (record_receipt E receipt) (\<lambda>_. creturn (paid_result response decoded settlement receipt payload)))"

text \<open>What follows the paid response. A response without a settlement header is a pending payment.\<close>

definition conclude ::
  "payer_env \<Rightarrow> pay_args \<Rightarrow> string \<Rightarrow> payment_payload \<Rightarrow> http_response \<Rightarrow> pay_result payer_cmd" where
  "conclude E args fingerprint payload response =
     cbind (clift (decode_settlement E response)) (\<lambda>decoded.
     cbind (clift (case decoded of None \<Rightarrow> pending_settlement E payload | Some settlement \<Rightarrow> Inr settlement)) (\<lambda>settlement.
       record_settlement E args fingerprint payload response decoded settlement))"

definition unpaid_result :: "http_response \<Rightarrow> bool \<Rightarrow> bool \<Rightarrow> preview option \<Rightarrow> pay_result" where
  "unpaid_result response challenge dry preview =
     \<lparr>res_status_code = hr_status response, res_body = hr_body response, res_headers = hr_headers response,
      res_challenge_present = challenge, res_dry_run = dry, res_paid = False, res_pending = False,
      res_preview = preview, res_receipt = None, res_payment_response = None, res_accepted = None\<rparr>"

definition dry_pay :: "payer_env \<Rightarrow> payer \<Rightarrow> pay_args \<Rightarrow> spend_limit option \<Rightarrow> pay_result payer_cmd" where
  "dry_pay E A args limit =
     cbind (http_send E (first_request args)) (\<lambda>response.
     cbind (clift (challenge_of E response)) (\<lambda>challenge.
     cbind (clift (preview_of challenge (pa_network A) limit)) (\<lambda>preview.
       creturn (unpaid_result response (challenge \<noteq> None) True (Some preview)))))"

definition pay_challenge ::
  "payer_env \<Rightarrow> payer \<Rightarrow> pay_args \<Rightarrow> spend_limit option \<Rightarrow> string \<Rightarrow> string \<Rightarrow> http_response \<Rightarrow> pay_result payer_cmd" where
  "pay_challenge E A args limit account fingerprint response =
     cbind (clift (case decode_required E response of
         Inl e \<Rightarrow> if is_value_error e
           then Inl (ValueError ''Only canonical x402 v2 PAYMENT-REQUIRED headers are supported'') else Inl e
       | Inr required \<Rightarrow> Inr required)) (\<lambda>required.
     cbind (claim_or_wait E (pe_fuel E) fingerprint account ''http'') (\<lambda>claim.
     cbind (send_paid E A args limit required fingerprint claim) (\<lambda>(payload, paid_response).
       conclude E args fingerprint payload paid_response)))"

definition pay :: "payer_env \<Rightarrow> payer \<Rightarrow> pay_args \<Rightarrow> pay_result payer_cmd" where
  "pay E A args =
     cbind (clift (explicit_limit (pa_network A) (arg_asset args) (arg_issuer args) (arg_max_spend args))) (\<lambda>limit.
     if arg_dry_run args then dry_pay E A args limit
     else case pa_account A of
       None \<Rightarrow> craise (RuntimeError ''A signer or explicit payer_account is required for durable payment recovery'')
     | Some account \<Rightarrow>
       cbind (clift (request_fingerprint E account (arg_url args) (arg_method args) (arg_headers args)
                (arg_content args))) (\<lambda>fingerprint.
       cbind (http_send E (first_request args)) (\<lambda>response.
         if hr_status response \<noteq> 402 then creturn (unpaid_result response False False None)
         else pay_challenge E A args limit account fingerprint response)))"


section \<open>The wallet and its endpoint\<close>

definition PUBLIC_TESTNET_RPC_URLS :: "string list" where
  "PUBLIC_TESTNET_RPC_URLS = [''https://testnet.xrpl-labs.com/'', ''https://s.altnet.rippletest.net:51234/'']"

text \<open>The \<open>server_info\<close> response of an endpoint is an argument; \<open>int(str(...))\<close> reads the identifier.\<close>

definition probe_rpc_network_id :: "(string \<Rightarrow> exn + pyval) \<Rightarrow> string \<Rightarrow> exn + int" where
  "probe_rpc_network_id server_info rpc_url =
     rbind (server_info rpc_url) (\<lambda>payload.
     rbind (vget payload ''result'') (\<lambda>result. case as_dict result of
         None \<Rightarrow> Inl (ValueError ''missing result object in server_info response'')
       | Some r \<Rightarrow>
         if dget r ''status'' \<noteq> PStr ''success''
           then Inl (ValueError (''unexpected server_info status '' @ py_repr (dget r ''status'')))
         else case as_dict (dget r ''info'') of
           None \<Rightarrow> Inl (ValueError ''missing result.info in server_info response'')
         | Some info \<Rightarrow>
           if dget info ''network_id'' = PNone
             then Inl (ValueError ''missing result.info.network_id in server_info response'')
           else case int_of_str (py_str (dget info ''network_id'')) of
               Inr i \<Rightarrow> Inr i
             | Inl _ \<Rightarrow> Inl (ValueError (''invalid network_id value '' @ py_repr (dget info ''network_id'')))))"

fun resolve_loop :: "(string \<Rightarrow> exn + pyval) \<Rightarrow> string list \<Rightarrow> string list \<Rightarrow> exn + string" where
  "resolve_loop server_info [] attempts =
     Inl (RuntimeError (''Unable to resolve a healthy XRPL Testnet JSON-RPC endpoint. Attempted: '' @
       (if attempts = [] then ''none'' else join '', '' attempts)))"
| "resolve_loop server_info (candidate # candidates) attempts =
     (let url = strip candidate in
      if url = [] then resolve_loop server_info candidates attempts
      else case probe_rpc_network_id server_info url of
          Inl e \<Rightarrow> resolve_loop server_info candidates (attempts @ [url @ '' ('' @ str_exn e @ '')''])
        | Inr network_id \<Rightarrow>
            if network_id \<noteq> 1
              then resolve_loop server_info candidates
                (attempts @ [url @ '' (reported network_id '' @ show_int network_id @ '')''])
            else Inr url)"

definition resolve_testnet_rpc_url ::
  "(string \<Rightarrow> exn + pyval) \<Rightarrow> string option \<Rightarrow> string list \<Rightarrow> exn + string" where
  "resolve_testnet_rpc_url server_info explicit_url candidate_urls =
     (let url = strip (case explicit_url of None \<Rightarrow> [] | Some u \<Rightarrow> u) in
      if url \<noteq> [] then Inr url else resolve_loop server_info candidate_urls [])"

text \<open>\<open>build_signer_from_env\<close>: the seed, the network and the endpoint of the signer; \<open>getenv\<close> is the
  environment of the process.\<close>

definition signer_from_env ::
  "(string \<Rightarrow> string option) \<Rightarrow> (string \<Rightarrow> exn + pyval) \<Rightarrow> string option \<Rightarrow> string option
     \<Rightarrow> exn + string \<times> string \<times> string" where
  "signer_from_env getenv server_info rpc_url network =
     (let seed = strip (case getenv ''XRPL_WALLET_SEED'' of None \<Rightarrow> [] | Some s \<Rightarrow> s) in
      if seed = [] then Inl (RuntimeError ''XRPL_WALLET_SEED is required to pay x402 resources'')
      else
        let resolved_network = (case or_str network (or_str (getenv ''XRPL_NETWORK'') (getenv ''NETWORK_ID'')) of
              Some (c # cs) \<Rightarrow> c # cs | _ \<Rightarrow> DEFAULT_NETWORK);
            given = strip (case or_str rpc_url (getenv ''XRPL_RPC_URL'') of None \<Rightarrow> [] | Some u \<Rightarrow> u) in
        rbind (if given \<noteq> [] then Inr given
               else if resolved_network = ''xrpl:0'' then Inr ''https://s1.ripple.com:51234''
               else if resolved_network = ''xrpl:1''
                 then resolve_testnet_rpc_url server_info None PUBLIC_TESTNET_RPC_URLS
               else if resolved_network = ''xrpl:2'' then Inr ''https://s.devnet.rippletest.net:51234''
               else Inl (RuntimeError ''XRPL_RPC_URL is required for custom XRPL networks''))
          (\<lambda>url. Inr (seed, resolved_network, url)))"

text \<open>\<open>pay_with_x402\<close>: which signer is built, then the payment. \<open>build\<close> is
  \<open>build_signer_from_env\<close> with its wallet.\<close>

definition pay_with_x402 ::
  "payer_env \<Rightarrow> (string \<Rightarrow> exn + signer) \<Rightarrow> signer option \<Rightarrow> string option \<Rightarrow> string option \<Rightarrow> pay_args
     \<Rightarrow> pay_result payer_cmd" where
  "pay_with_x402 E build own payer_account network args =
     (let net = (case network of Some (c # cs) \<Rightarrow> c # cs | _ \<Rightarrow> DEFAULT_NETWORK) in
      cbind (clift (if own = None \<and> \<not> arg_dry_run args \<and> payer_account = None
                    then rbind (build net) (\<lambda>S. Inr (Some S)) else Inr own)) (\<lambda>the_signer.
      cbind (clift (make_payer the_signer (Some net) payer_account)) (\<lambda>A. pay E A args)))"

definition budget_status ::
  "(string \<Rightarrow> string option) \<Rightarrow> string \<Rightarrow> string option \<Rightarrow> string option \<Rightarrow> string option \<Rightarrow> journal \<Rightarrow> exn + budget" where
  "budget_status getenv asset issuer network max_spend j =
     (let net = (case or_str network (getenv ''XRPL_NETWORK'') of Some (c # cs) \<Rightarrow> c # cs | _ \<Rightarrow> DEFAULT_NETWORK) in
      rbind (normalize_currency_code asset) (\<lambda>code.
      rbind (case max_spend of None \<Rightarrow> Inr None | Some m \<Rightarrow> rbind (decimal_of_str m) (\<lambda>d. Inr (Some d))) (\<lambda>cap.
        budget_summary net code issuer cap j)))"

end
