(* ===== verification/PayerCorrect.thy ===== *)
theory PayerCorrect
  imports Payer
begin

text \<open>
  Correctness of a paid request: no signed payload leaves the process before it is in the journal,
  a payment whose outcome is unknown stays recoverable, waiting for another signer ends, and a
  result that reports success is backed by the server's settlement and a receipt.
\<close>

section \<open>Operations of one payer as journal events\<close>

definition journal_after :: "payer_env \<Rightarrow> nat \<Rightarrow> journal_event list \<Rightarrow> journal \<Rightarrow> journal" where
  "journal_after E n es j = journal_run (pe_extract E) (pe_others E n @ es) j"

lemma journal_run_append: "journal_run ex (es @ fs) j = journal_run ex fs (journal_run ex es j)"
  by (induction es arbitrary: j) simp_all

lemma wf_journal_run: "wf_journal j \<Longrightarrow> wf_journal (journal_run ex es j)"
  by (induction es arbitrary: j) (simp_all add: wf_journal_step)

lemma on_journal_eq:
  "on_journal E m s = (fst (m j), s\<lparr>ps_journal := snd (m j), ps_ops := Suc (ps_ops s)\<rparr>)"
  if "j = journal_run (pe_extract E) (pe_others E (ps_ops s)) (ps_journal s)"
  using that by (simp add: on_journal_def Let_def split: prod.splits)

text \<open>What a command of the payer may do: send requests of one kind and act on the journal by the
  events of another kind, between those of the other processes.\<close>

definition acts ::
  "payer_env \<Rightarrow> (journal_event \<Rightarrow> bool) \<Rightarrow> 'a payer_cmd \<Rightarrow> bool" where
  "acts E P m \<longleftrightarrow> (\<forall>s. \<exists>es. ps_journal (snd (m s)) = journal_run (pe_extract E) es (ps_journal s)
     \<and> (\<forall>e \<in> set es. P e \<or> (\<exists>n. e \<in> set (pe_others E n))))"

lemma actsD:
  assumes "acts E P m" and "m s = (r, s')"
  obtains es where "ps_journal s' = journal_run (pe_extract E) es (ps_journal s)"
    and "\<forall>e \<in> set es. P e \<or> (\<exists>n. e \<in> set (pe_others E n))"
  using assms unfolding acts_def by (metis snd_conv)

lemma acts_nothing: "keeps ps_journal m \<Longrightarrow> acts E P m"
  unfolding acts_def keeps_def by (metis journal_run.simps(1) empty_iff empty_set)

lemma acts_on_journal:
  assumes "\<And>j. snd (m j) = journal_step (pe_extract E) e j" and "P e"
  shows "acts E P (on_journal E m)"
  unfolding acts_def
proof
  fix s
  have "ps_journal (snd (on_journal E m s)) = journal_run (pe_extract E) (pe_others E (ps_ops s) @ [e]) (ps_journal s)"
    using assms(1) by (simp add: on_journal_def Let_def journal_run_append split: prod.splits) (metis snd_conv)
  then show "\<exists>es. ps_journal (snd (on_journal E m s)) = journal_run (pe_extract E) es (ps_journal s)
     \<and> (\<forall>e\<in>set es. P e \<or> (\<exists>n. e \<in> set (pe_others E n)))"
    using assms(2) by (intro exI [of _ "pe_others E (ps_ops s) @ [e]"]) auto
qed

lemma acts_ctry_else:
  assumes "acts E P m" and "\<And>e. acts E P (h e)" and "\<And>x. acts E P (f x)"
  shows "acts E P (ctry_else m h f)"
  unfolding acts_def
proof
  fix s
  obtain r s1 where m: "m s = (r, s1)" by fastforce
  from actsD [OF assms(1) m] obtain es where es: "ps_journal s1 = journal_run (pe_extract E) es (ps_journal s)"
    "\<forall>e \<in> set es. P e \<or> (\<exists>n. e \<in> set (pe_others E n))" .
  have "\<exists>fs. ps_journal (snd (ctry_else m h f s)) = journal_run (pe_extract E) fs (ps_journal s1)
     \<and> (\<forall>e \<in> set fs. P e \<or> (\<exists>n. e \<in> set (pe_others E n)))"
  proof (cases r)
    case (Ok x)
    then show ?thesis using assms(3) [of x] m by (simp add: acts_def ctry_else_def)
  next
    case (Raise e)
    then show ?thesis using assms(2) [of e] m by (simp add: acts_def ctry_else_def)
  next
    case Diverge
    then show ?thesis using m by (intro exI [of _ "[]"]) (simp add: ctry_else_def)
  qed
  then obtain fs where "ps_journal (snd (ctry_else m h f s)) = journal_run (pe_extract E) (es @ fs) (ps_journal s)"
    "\<forall>e \<in> set fs. P e \<or> (\<exists>n. e \<in> set (pe_others E n))"
    using es(1) by (auto simp: journal_run_append)
  with es(2) show "\<exists>es. ps_journal (snd (ctry_else m h f s)) = journal_run (pe_extract E) es (ps_journal s)
     \<and> (\<forall>e\<in>set es. P e \<or> (\<exists>n. e \<in> set (pe_others E n)))"
    by (intro exI [of _ "es @ fs"]) auto
qed

lemma acts_leaf: "acts E P (creturn x)" "acts E P (craise e)" "acts E P cdiverge" "acts E P (clift r)" "acts E P (cget g)"
  by (simp_all add: acts_nothing keeps_rules)

lemma acts_cbind: "acts E P m \<Longrightarrow> (\<And>x. acts E P (f x)) \<Longrightarrow> acts E P (cbind m f)"
  by (simp add: cbind_conv acts_ctry_else acts_leaf)

lemma acts_case_option: "acts E P m \<Longrightarrow> (\<And>x. acts E P (n x)) \<Longrightarrow> acts E P (case v of None \<Rightarrow> m | Some x \<Rightarrow> n x)"
  by (simp split: option.splits)

lemma acts_if: "acts E P m \<Longrightarrow> acts E P n \<Longrightarrow> acts E P (if b then m else n)"
  by simp

lemmas acts_rules = acts_leaf acts_cbind acts_ctry_else acts_case_option acts_if

lemma acts_http_send: "acts E P (http_send E q)"
  unfolding acts_def
proof
  fix s
  show "\<exists>es. ps_journal (snd (http_send E q s)) = journal_run (pe_extract E) es (ps_journal s)
     \<and> (\<forall>e \<in> set es. P e \<or> (\<exists>n. e \<in> set (pe_others E n)))"
    by (intro exI [of _ "pe_others E (ps_ops s)"]) (auto simp: http_send_def others_act_def Let_def)
qed

lemma acts_now_of: "acts E P now_of"
  by (simp add: now_of_def acts_leaf)

lemma acts_sdk_create: "acts E P (sdk_create E S network setup required)"
  by (rule acts_nothing) (simp add: keeps_def sdk_create_def Let_def split: prod.splits)

lemma acts_sleep_tick:
  assumes "\<And>n. P (ETime n)"
  shows "acts E P sleep_tick"
  unfolding acts_def
proof
  fix s
  have "ps_journal (snd (sleep_tick s)) = journal_run (pe_extract E) [ETime 1] (ps_journal s)"
    by (simp add: sleep_tick_def cmodify_def)
  then show "\<exists>es. ps_journal (snd (sleep_tick s)) = journal_run (pe_extract E) es (ps_journal s)
     \<and> (\<forall>e\<in>set es. P e \<or> (\<exists>n. e \<in> set (pe_others E n)))"
    using assms by (metis empty_iff empty_set set_ConsD)
qed

text \<open>Which events a payment of \<open>fp\<close> causes before its outcome is known.\<close>

fun open_event :: "string \<Rightarrow> journal_event \<Rightarrow> bool" where
  "open_event fp (EOutcome r _) \<longleftrightarrow> rc_fingerprint r = Some fp \<and> rc_state r = ReceiptPending"
| "open_event fp (EAppend _) \<longleftrightarrow> False"
| "open_event fp _ \<longleftrightarrow> True"

lemma open_event_open: "open_event fp e \<Longrightarrow> \<not> concludes fp e"
  by (cases e) auto

lemma acts_claim_now: "acts E (open_event fp) (claim_now E fp account scope)"
  unfolding claim_now_def
  by (intro acts_rules acts_on_journal [where e = "EClaim fp account scope ATTEMPT_LEASE_SECONDS t" for t]) simp_all

lemma acts_claim_or_wait: "acts E (open_event fp) (claim_or_wait E fuel fp account scope)"
  by (induction fuel) (auto intro!: acts_rules acts_claim_now acts_sleep_tick)

lemma acts_record_receipt:
  "acts E (open_event fp) (record_receipt E (receipt_of E args n ReceiptPending st p fp now))"
  unfolding record_receipt_def
  by (rule acts_on_journal [where e = "EOutcome (receipt_of E args n ReceiptPending st p fp now) TERMINAL_REUSE_SECONDS"])
    (simp_all add: receipt_of_def)

lemma acts_new_payload: "acts E (open_event fp) (new_payload E A limit required fp owner)"
  unfolding new_payload_def
  by (intro acts_rules acts_sdk_create
      acts_on_journal [where e = "EPersist fp owner p i" for p i]) simp_all

lemma acts_obtain_payload: "acts E (open_event fp) (obtain_payload E A limit required fp claim)"
  unfolding obtain_payload_def by (intro acts_rules acts_new_payload)

lemma acts_recover_failure: "acts E (open_event fp) (recover_failure E args fp claim p e)"
  unfolding recover_failure_def
  by (intro acts_rules acts_now_of acts_record_receipt
      acts_on_journal [where e = "ERelease fp t" for t]) simp_all

lemma acts_send_paid: "acts E (open_event fp) (send_paid E A args limit required fp claim)"
  unfolding send_paid_def by (intro acts_rules acts_obtain_payload acts_recover_failure acts_http_send)

section \<open>Unpaid attempts stay unpaid\<close>

definition unpaid :: "string \<Rightarrow> journal \<Rightarrow> bool" where
  "unpaid fp j \<longleftrightarrow> (\<forall>a. attempt_of j fp = Some a \<longrightarrow> at_state a \<noteq> AttemptPaid)"

lemma unpaid_index: "unpaid fp j \<Longrightarrow> jr_index j' = jr_index j \<Longrightarrow> unpaid fp j'"
  by (simp add: unpaid_def attempt_of_def)

lemma unpaid_new:
  "jr_index j' = Index ys \<Longrightarrow> (\<And>a. map_of ys fp = Some a \<Longrightarrow> at_state a \<noteq> AttemptPaid) \<Longrightarrow> unpaid fp j'"
  by (simp add: unpaid_def attempt_of_def)

lemma unpaid_load: "unpaid fp j \<Longrightarrow> load_index j = Inr xs \<Longrightarrow> map_of xs fp = Some a \<Longrightarrow> at_state a \<noteq> AttemptPaid"
  by (auto simp: unpaid_def dest: load_index_attempt [where fp = fp])

lemma unpaid_prune:
  "wf_index xs \<Longrightarrow> (\<And>a. map_of xs fp = Some a \<Longrightarrow> at_state a \<noteq> AttemptPaid) \<Longrightarrow>
   map_of (snd (prune_expired_paid now xs)) fp = Some a \<Longrightarrow> at_state a \<noteq> AttemptPaid"
  by (auto simp: map_of_prune wf_index_def split: option.splits if_splits)

lemma unpaid_step:
  assumes "wf_journal j" and "unpaid fp j" and "\<not> concludes fp e"
  shows "unpaid fp (journal_step ex e j)"
proof (cases e)
  case (EClaim fp' payer scope lease token)
  have pruned: "at_state a \<noteq> AttemptPaid"
    if "load_index j = Inr xs" "map_of (snd (prune_expired_paid (jr_clock j) xs)) fp = Some a" for xs a
    using unpaid_prune [OF load_index_wf [OF assms(1) that(1)] unpaid_load [OF assms(2) that(1)] that(2)] by blast
  show ?thesis
    using claim_index [of ex fp' payer scope lease token j] unfolding Let_def
  proof (elim disjE exE conjE)
    fix xs
    assume "load_index j = Inr xs"
      "jr_index (snd (claim_attempt ex fp' payer scope lease token j)) = Index (snd (prune_expired_paid (jr_clock j) xs))"
    then show ?thesis
      using EClaim pruned by (auto elim!: unpaid_new)
  next
    fix xs
    assume "load_index j = Inr xs"
      "jr_index (snd (claim_attempt ex fp' payer scope lease token j)) =
        Index (put_attempt (claim_of fp' payer scope lease token j) (snd (prune_expired_paid (jr_clock j) xs)))"
    then show ?thesis
      using EClaim pruned by (auto simp: map_of_put claim_of_def elim!: unpaid_new split: if_splits)
  qed (use EClaim unpaid_index [OF assms(2)] in simp)
next
  case (EPersist fp' owner payload i)
  then show ?thesis
    using persist_index [of ex fp' owner payload i j] unpaid_load [OF assms(2)]
    by (auto simp: map_of_put intro: unpaid_index [OF assms(2)] elim!: unpaid_new split: if_splits)
next
  case (ERelease fp' owner)
  then show ?thesis
    using release_index [of ex fp' owner j] unpaid_load [OF assms(2)]
    by (auto simp: map_of_delete intro: unpaid_index [OF assms(2)] elim!: unpaid_new split: if_splits)
next
  case (EOutcome r reuse)
  show ?thesis
    using outcome_index_change [of ex r reuse j]
  proof (elim disjE exE conjE)
    fix xs a fp'
    assume *: "load_index j = Inr xs" "map_of xs fp' = Some a" "rc_fingerprint r = Some fp'"
      "jr_index (snd (record_outcome ex r reuse j)) = Index (outcome_index (jr_clock j) reuse (rc_state r) fp' a xs)"
    have "at_fingerprint a = fp'"
      using map_of_fingerprint [OF load_index_wf [OF assms(1) *(1)] *(2)] .
    then show ?thesis
      using EOutcome * assms(3) unpaid_load [OF assms(2) *(1)]
      by (cases "rc_state r") (auto simp: outcome_index_def map_of_put map_of_delete elim!: unpaid_new split: if_splits)
  qed (use EOutcome unpaid_index [OF assms(2)] in simp)
next
  case EPrune
  then show ?thesis
    using prune_index [of j] load_index_wf [OF assms(1)] unpaid_load [OF assms(2)]
    by (auto intro: unpaid_index [OF assms(2)] elim!: unpaid_new dest: unpaid_prune [of _ fp])
qed (simp_all add: unpaid_index [OF assms(2)] append_index)

lemma unpaid_run:
  "wf_journal j \<Longrightarrow> unpaid fp j \<Longrightarrow> \<forall>e \<in> set es. \<not> concludes fp e \<Longrightarrow> unpaid fp (journal_run ex es j)"
  by (induction es arbitrary: j) (simp_all add: unpaid_step wf_journal_step)

lemma holds_payload_run:
  "wf_journal j \<Longrightarrow> holds_payload fp p j \<Longrightarrow> \<forall>e \<in> set es. \<not> concludes fp e \<Longrightarrow>
   holds_payload fp p (journal_run ex es j)"
  using held_run [where Q = "\<lambda>a. at_payload a = Some p"] shields_payload by (auto simp: holds_payload_def)

text \<open>The other processes record no terminal outcome of the payment.\<close>

definition quiet :: "payer_env \<Rightarrow> string \<Rightarrow> bool" where
  "quiet E fp \<longleftrightarrow> (\<forall>n. \<forall>e \<in> set (pe_others E n). \<not> concludes fp e)"

lemma acts_open:
  assumes "acts E (open_event fp) m" and "m s = (r, s')" and "wf_journal (ps_journal s)"
  shows "wf_journal (ps_journal s')"
    and "quiet E fp \<Longrightarrow> unpaid fp (ps_journal s) \<Longrightarrow> unpaid fp (ps_journal s')"
    and "quiet E fp \<Longrightarrow> holds_payload fp p (ps_journal s) \<Longrightarrow> holds_payload fp p (ps_journal s')"
proof -
  from actsD [OF assms(1,2)] obtain es where es: "ps_journal s' = journal_run (pe_extract E) es (ps_journal s)"
    "\<forall>e \<in> set es. open_event fp e \<or> (\<exists>n. e \<in> set (pe_others E n))" .
  have q: "\<forall>e \<in> set es. \<not> concludes fp e" if "quiet E fp"
    using es(2) that open_event_open by (auto simp: quiet_def)
  show "wf_journal (ps_journal s')"
    using assms(3) by (simp add: es(1) wf_journal_run)
  show "quiet E fp \<Longrightarrow> unpaid fp (ps_journal s) \<Longrightarrow> unpaid fp (ps_journal s')"
    using unpaid_run [OF assms(3)] q by (simp add: es(1))
  show "quiet E fp \<Longrightarrow> holds_payload fp p (ps_journal s) \<Longrightarrow> holds_payload fp p (ps_journal s')"
    using holds_payload_run [OF assms(3)] q by (simp add: es(1))
qed

section \<open>The payload that is sent\<close>

definition stores :: "string \<Rightarrow> payment_payload \<Rightarrow> journal \<Rightarrow> bool" where
  "stores fp p j \<longleftrightarrow> (\<exists>a. attempt_of j fp = Some a \<and> at_payload a = Some p)"

lemma claim_stores:
  assumes "claim_attempt ex fp payer scope lease token j = (Ok c, j')" and "at_payload (cl_attempt c) = Some p"
  shows "stores fp p j'"
  using assms
  by (auto simp: claim_attempt_def op_defs Let_def prune_expired_paid_def stores_def attempt_of_def load_index_def
      filter_empty_conv filter_id_conv dest!: attempt_from_index_ok
      split: sum.splits option.splits if_splits index_file.splits)

lemma attempt_of_new: "attempt_of (j\<lparr>jr_index := Index xs\<rparr>) fp = map_of xs fp"
  by (simp add: attempt_of_def)

lemma persist_stores:
  assumes "persist_attempt_payload ex fp owner payload i j = (Ok a, j')" and "at_payload a = Some p" and "wf_journal j"
  shows "stores fp p j'"
proof -
  obtain xs where xs: "load_index j = Inr xs"
    using assms(1) by (cases "load_index j") (auto simp: persist_attempt_payload_def op_defs)
  then show ?thesis
    using assms load_index_attempt [OF xs, of fp] map_of_fingerprint [OF load_index_wf [OF assms(3) xs], of fp]
    by (auto simp: persist_attempt_payload_def op_defs Let_def stores_def map_of_put attempt_of_new
        dest!: attempt_from_index_ok split: sum.splits option.splits if_splits) metis
qed

lemma on_journal_Ok:
  "on_journal E m s = (r, s') \<longleftrightarrow> (\<exists>j. m (journal_run (pe_extract E) (pe_others E (ps_ops s)) (ps_journal s)) = (r, j)
     \<and> s' = s\<lparr>ps_journal := j, ps_ops := Suc (ps_ops s)\<rparr>)"
  by (auto simp: on_journal_def Let_def split: prod.splits)

lemma claim_or_wait_stores:
  assumes "claim_or_wait E fuel fp account scope s = (Ok c, s')" and "at_payload (cl_attempt c) = Some p"
  shows "stores fp p (ps_journal s')"
  using assms
proof (induction fuel arbitrary: s)
  case (Suc fuel)
  then obtain c1 s1 where c1: "claim_now E fp account scope s = (Ok c1, s1)"
    and rest: "(if is_owner c1 \<or> at_payload (cl_attempt c1) \<noteq> None then creturn c1
      else cbind sleep_tick (\<lambda>_. claim_or_wait E fuel fp account scope)) s1 = (Ok c, s')"
    by (auto simp: cbind_Ok)
  show ?case
  proof (cases "is_owner c1 \<or> at_payload (cl_attempt c1) \<noteq> None")
    case True
    then show ?thesis
      using rest c1 Suc.prems(2) by (auto simp: run_simps claim_now_def on_journal_Ok dest!: claim_stores)
  next
    case False
    then show ?thesis
      using rest Suc.IH Suc.prems(2) by (auto simp: run_simps)
  qed
qed (simp add: run_simps)

lemma obtain_payload_stores:
  assumes "obtain_payload E A limit required fp claim s = (Ok p, s')" and "wf_journal (ps_journal s)"
    and "\<And>q. at_payload (cl_attempt claim) = Some q \<Longrightarrow> stores fp q (ps_journal s)"
  shows "stores fp p (ps_journal s')"
proof (cases "at_payload (cl_attempt claim)")
  case None
  then obtain S controls created s1 payload attempt where
    "sdk_create E S (pa_network A) controls required s = (Ok created, s1)"
    and persist: "on_journal E (persist_attempt_payload (pe_extract E) fp (cl_owner_token claim) payload (pe_extract E payload)) s1
        = (Ok attempt, s')"
    and p: "at_payload attempt = Some p"
    using assms(1) by (auto simp: obtain_payload_def new_payload_def run_simps)
  then have "ps_journal s1 = ps_journal s"
    by (auto simp: sdk_create_def Let_def split: prod.splits)
  then show ?thesis
    using persist p assms(2) by (auto simp: on_journal_Ok dest!: persist_stores simp: wf_journal_run)
next
  case (Some q)
  then show ?thesis
    using assms(1,3) by (auto simp: obtain_payload_def run_simps)
qed

lemma http_send_Ok: "http_send E q s = (Ok response, s') \<longleftrightarrow>
    pe_send E (map fst (ps_sent s)) q = Inr response
    \<and> s' = (others_act E s)\<lparr>ps_sent := ps_sent s @ [(q, ps_journal s, ps_journal (others_act E s))]\<rparr>"
  by (auto simp: http_send_def Let_def split: sum.splits)

lemma keeps_on_journal: "keeps ps_sent (on_journal E m)"
  by (simp add: keeps_def on_journal_def Let_def split: prod.splits)

lemma keeps_sent_leaf:
  "keeps ps_sent (sdk_create E S network setup required)" "keeps ps_sent sleep_tick" "keeps ps_sent now_of"
  by (simp_all add: keeps_def sdk_create_def sleep_tick_def cmodify_def now_of_def cget_def Let_def split: prod.splits)

lemmas sent_rules = keeps_rules keeps_on_journal keeps_sent_leaf

lemma keeps_claim_or_wait: "keeps ps_sent (claim_or_wait E fuel fp account scope)"
  by (induction fuel) (auto simp: claim_now_def intro!: sent_rules)

lemma keeps_obtain_payload: "keeps ps_sent (obtain_payload E A limit required fp claim)"
  unfolding obtain_payload_def new_payload_def by (intro sent_rules)

lemma keeps_recover_failure: "keeps ps_sent (recover_failure E args fp claim p e)"
  unfolding recover_failure_def record_receipt_def by (intro sent_rules)

lemma keeps_conclude: "keeps ps_sent (conclude E args fp p response)"
  unfolding conclude_def record_settlement_def record_receipt_def Let_def by (intro sent_rules)

lemma recover_failure_fails: "recover_failure E args fp claim p e s \<noteq> (Ok v, s')"
  by (simp add: recover_failure_def run_simps)

text \<open>What sending the paid request amounts to.\<close>

lemma send_paid_cases:
  assumes "send_paid E A args limit required fp claim s = (r, s')"
  obtains (unsent) "ps_sent s' = ps_sent s" "\<And>v. r \<noteq> Ok v"
  | (sent) p s1 where "obtain_payload E A limit required fp claim s = (Ok p, s1)"
      "ps_sent s' = ps_sent s @ [(paid_request E args p, ps_journal s1, ps_journal (others_act E s1))]"
      "(\<exists>response. r = Ok (p, response) \<and> ps_journal s' = ps_journal (others_act E s1))
       \<or> (\<exists>e s2. ps_journal s2 = ps_journal (others_act E s1) \<and> recover_failure E args fp claim (Some p) e s2 = (r, s') \<and> (\<forall>v. r \<noteq> Ok v))"
proof -
  obtain x s1 where o: "obtain_payload E A limit required fp claim s = (x, s1)" by fastforce
  note keep = keepsD [OF keeps_obtain_payload o]
  show thesis
  proof (cases x)
    case (Raise e)
    then have "recover_failure E args fp claim (at_payload (cl_attempt claim)) e s1 = (r, s')"
      using assms o by (simp add: send_paid_def ctry_else_def)
    then show thesis
      using unsent keepsD [OF keeps_recover_failure] recover_failure_fails keep by metis
  next
    case Diverge
    then show thesis
      using unsent assms o keep by (simp add: send_paid_def ctry_else_def)
  next
    case (Ok p)
    obtain y s2 where h: "http_send E (paid_request E args p) s1 = (y, s2)" by fastforce
    then have s2: "ps_sent s2 = ps_sent s1 @ [(paid_request E args p, ps_journal s1, ps_journal (others_act E s1))]"
      "ps_journal s2 = ps_journal (others_act E s1)"
      "y \<noteq> Diverge"
      by (auto simp: http_send_def Let_def split: sum.splits)
    show thesis
    proof (cases y)
      case (Raise e)
      then have "recover_failure E args fp claim (Some p) e s2 = (r, s')"
        using assms o Ok h by (simp add: send_paid_def ctry_else_def)
      then show thesis
        using sent o Ok s2 keep keepsD [OF keeps_recover_failure] recover_failure_fails by metis
    next
      case (Ok response)
      then show thesis
        using sent [OF _ _ disjI1] o \<open>x = Ok p\<close> s2 keep assms h by (auto simp: send_paid_def ctry_else_def creturn_def)
    qed (use s2 in simp)
  qed
qed

lemma http_send_result:
  assumes "http_send E q s = (r, s')"
  shows "ps_sent s' = ps_sent s @ [(q, ps_journal s, ps_journal s')]"
    and "ps_journal s' = ps_journal (others_act E s)" and "r \<noteq> Diverge"
  using assms by (auto simp: http_send_def Let_def split: sum.splits)

text \<open>The course of a payment: it ends with at most the unpaid request sent, or it claims the
  attempt and sends a paid request.\<close>

lemma pay_challenge_cases:
  assumes "pay_challenge E A args limit account fp response s = (r, s')"
  obtains (plain) "ps_sent s' = ps_sent s" "\<And>v. r \<noteq> Ok v"
  | (claimed) required claim s1 x s2 where
      "claim_or_wait E (pe_fuel E) fp account ''http'' s = (Ok claim, s1)"
      "send_paid E A args limit required fp claim s1 = (x, s2)"
      "(\<exists>p paid_response. x = Ok (p, paid_response) \<and> conclude E args fp p paid_response s2 = (r, s'))
       \<or> (\<forall>v. x \<noteq> Ok v) \<and> (\<forall>v. r \<noteq> Ok v) \<and> s' = s2"
  using assms unfolding pay_challenge_def
proof (cases rule: clift_cases)
  case (returned required)
  from returned(2) show ?thesis
  proof (cases rule: cbind_cases)
    case inner: (returned claim s1)
    from inner(2) show ?thesis
    proof (cases rule: cbind_cases)
      case (returned x s2)
      then show ?thesis using claimed [OF inner(1)] by (auto split: prod.splits)
    next
      case fails
      then show ?thesis using claimed [OF inner(1)] by blast
    qed
  next
    case fails
    then show ?thesis using plain keepsD [OF keeps_claim_or_wait] by blast
  qed
qed simp

lemma dry_pay_sends:
  assumes "dry_pay E A args limit s = (r, s')"
  shows "ps_sent s' = ps_sent s @ [(first_request args, ps_journal s, ps_journal (others_act E s))]"
    and "r = Ok v \<Longrightarrow> \<not> res_paid v \<and> res_receipt v = None"
proof -
  show "ps_sent s' = ps_sent s @ [(first_request args, ps_journal s, ps_journal (others_act E s))]"
    using assms unfolding dry_pay_def
  proof (cases rule: cbind_cases)
    case (returned response s1)
    have "keeps ps_sent (cbind (clift (challenge_of E response)) (\<lambda>challenge.
        cbind (clift (preview_of challenge (pa_network A) limit)) (\<lambda>preview.
          creturn (unpaid_result response (challenge \<noteq> None) True (Some preview)))))"
      by (intro keeps_rules)
    from keepsD [OF this returned(2)] http_send_result [OF returned(1)] show ?thesis by simp
  qed (use http_send_result in fastforce)
  show "r = Ok v \<Longrightarrow> \<not> res_paid v \<and> res_receipt v = None"
    using assms by (auto simp: dry_pay_def run_simps unpaid_result_def)
qed

text \<open>The run of a payment once the fingerprint is known.\<close>

lemma pay_request_cases:
  assumes "cbind (http_send E (first_request args)) (\<lambda>response.
      if hr_status response \<noteq> 402 then creturn (unpaid_result response False False None)
      else pay_challenge E A args limit account fp response) s = (r, s')"
  obtains (plain) "ps_sent s' = ps_sent s @ [(first_request args, ps_journal s, ps_journal (others_act E s))]"
      "\<And>v. r = Ok v \<Longrightarrow> \<not> res_paid v \<and> res_receipt v = None"
  | (claimed) s0 required claim s1 x s2 where
      "ps_journal s0 = ps_journal (others_act E s)"
      "ps_sent s0 = ps_sent s @ [(first_request args, ps_journal s, ps_journal (others_act E s))]"
      "claim_or_wait E (pe_fuel E) fp account ''http'' s0 = (Ok claim, s1)"
      "send_paid E A args limit required fp claim s1 = (x, s2)"
      "(\<exists>p paid_response. x = Ok (p, paid_response) \<and> conclude E args fp p paid_response s2 = (r, s'))
       \<or> (\<forall>v. x \<noteq> Ok v) \<and> (\<forall>v. r \<noteq> Ok v) \<and> s' = s2"
  using assms
proof (cases rule: cbind_cases)
  case (returned response s0)
  note s0 = http_send_result [OF returned(1)]
  show ?thesis
  proof (cases "hr_status response = 402")
    case True
    with returned(2) have "pay_challenge E A args limit account fp response s0 = (r, s')" by simp
    then show ?thesis
    proof (cases rule: pay_challenge_cases)
      case plain': plain
      then show ?thesis using plain s0 by simp
    next
      case (claimed required claim s1 x s2)
      then show ?thesis using that(2) [OF s0(2) s0(1) [unfolded s0(2)]] by blast
    qed
  next
    case False
    then show ?thesis using plain returned(2) s0 by (auto simp: creturn_def unpaid_result_def)
  qed
next
  case fails
  then show ?thesis using plain http_send_result by fastforce
qed

lemma pay_cases:
  assumes "pay E A args s = (r, s')"
  obtains (plain) l where "ps_sent s' = ps_sent s @ l" "\<forall>x \<in> set l. fst x = first_request args"
      "\<And>v. r = Ok v \<Longrightarrow> \<not> res_paid v \<and> res_receipt v = None"
  | (claimed) account fp limit s0 required claim s1 x s2 where
      "pa_account A = Some account"
      "request_fingerprint E account (arg_url args) (arg_method args) (arg_headers args) (arg_content args) = Inr fp"
      "ps_journal s0 = ps_journal (others_act E s)"
      "ps_sent s0 = ps_sent s @ [(first_request args, ps_journal s, ps_journal (others_act E s))]"
      "claim_or_wait E (pe_fuel E) fp account ''http'' s0 = (Ok claim, s1)"
      "send_paid E A args limit required fp claim s1 = (x, s2)"
      "(\<exists>p paid_response. x = Ok (p, paid_response) \<and> conclude E args fp p paid_response s2 = (r, s'))
       \<or> (\<forall>v. x \<noteq> Ok v) \<and> (\<forall>v. r \<noteq> Ok v) \<and> s' = s2"
  using assms unfolding pay_def
proof (cases rule: clift_cases)
  case (returned limit)
  consider (dry) "arg_dry_run args" | (no_account) "\<not> arg_dry_run args" "pa_account A = None"
    | (live) account where "\<not> arg_dry_run args" "pa_account A = Some account" by blast
  then show ?thesis
  proof cases
    case dry
    then show ?thesis using plain returned(2) dry_pay_sends [of E A args limit s r s'] by auto
  next
    case no_account
    then have "s' = s" "\<And>v. r \<noteq> Ok v" using returned(2) by (auto simp: craise_def)
    then show ?thesis by (intro plain [of "[]"]) auto
  next
    case (live account)
    with returned(2) have "cbind (clift (request_fingerprint E account (arg_url args) (arg_method args)
          (arg_headers args) (arg_content args))) (\<lambda>fp.
        cbind (http_send E (first_request args)) (\<lambda>response.
          if hr_status response \<noteq> 402 then creturn (unpaid_result response False False None)
          else pay_challenge E A args limit account fp response)) s = (r, s')" by simp
    then show ?thesis
    proof (cases rule: clift_cases)
      case fp: (returned fp)
      from fp(2) show ?thesis
      proof (cases rule: pay_request_cases)
        case plain': plain
        then show ?thesis using plain by auto
      next
        case (claimed s0 required claim s1 x s2)
        then show ?thesis using that(2) [OF live(2) fp(1)] by blast
      qed
    next
      case fails
      then show ?thesis by (intro plain [of "[]"]) auto
    qed
  qed
next
  case fails
  then show ?thesis using plain [of "[]"] by simp
qed

section \<open>Properties\<close>

lemma claimed_stores:
  assumes "claim_or_wait E fuel fp account scope s0 = (Ok claim, s1)" and "wf_journal (ps_journal s0)"
    and "obtain_payload E A limit required fp claim s1 = (Ok p, s2)"
  shows "stores fp p (ps_journal s2)" and "wf_journal (ps_journal s2)"
proof -
  have wf: "wf_journal (ps_journal s1)"
    using acts_open(1) [OF acts_claim_or_wait assms(1,2)] .
  then show "stores fp p (ps_journal s2)"
    using obtain_payload_stores [OF assms(3)] claim_or_wait_stores [OF assms(1)] by blast
  show "wf_journal (ps_journal s2)"
    using acts_open(1) [OF acts_obtain_payload assms(3) wf] .
qed

lemma stores_holds: "stores fp p j \<Longrightarrow> unpaid fp j \<Longrightarrow> holds_payload fp p j"
  by (auto simp: stores_def unpaid_def holds_payload_def held_def)

text \<open>The state of the journal after the step of the other processes.\<close>

lemma others_act_journal: "ps_journal (others_act E s) = journal_run (pe_extract E) (pe_others E (ps_ops s)) (ps_journal s)"
  by (simp add: others_act_def)

lemma others_act_open:
  assumes "wf_journal (ps_journal s)"
  shows "wf_journal (ps_journal (others_act E s))"
    and "quiet E fp \<Longrightarrow> unpaid fp (ps_journal s) \<Longrightarrow> unpaid fp (ps_journal (others_act E s))"
    and "quiet E fp \<Longrightarrow> holds_payload fp p (ps_journal s) \<Longrightarrow> holds_payload fp p (ps_journal (others_act E s))"
  using assms wf_journal_run unpaid_run holds_payload_run by (simp_all add: others_act_journal quiet_def)

text \<open>A payload that is sent from the journal \<open>j0\<close>, after one more step of the other processes led to
  \<open>j\<close>: \<open>j0\<close> held it, and \<open>j\<close> still does, unless the attempt was already paid or one of the other
  processes recorded its outcome in that step.\<close>

definition sent_durably :: "payer_env \<Rightarrow> string \<Rightarrow> payment_payload \<Rightarrow> journal \<Rightarrow> journal \<Rightarrow> bool" where
  "sent_durably E fp p j0 j \<longleftrightarrow> stores fp p j0 \<and>
     (\<exists>n. j = journal_run (pe_extract E) (pe_others E n) j0 \<and>
       (stores fp p j \<or> \<not> unpaid fp j0 \<or> (\<exists>e \<in> set (pe_others E n). concludes fp e)))"

lemma holds_stores: "holds_payload fp p j \<Longrightarrow> stores fp p j"
  by (auto simp: holds_payload_def held_def stores_def)

lemma sent_durablyI:
  assumes "stores fp p (ps_journal s)" and "wf_journal (ps_journal s)"
  shows "sent_durably E fp p (ps_journal s) (ps_journal (others_act E s))"
proof -
  have "stores fp p (ps_journal (others_act E s))"
    if "unpaid fp (ps_journal s)" "\<forall>e \<in> set (pe_others E (ps_ops s)). \<not> concludes fp e"
    using holds_payload_run [OF assms(2) stores_holds [OF assms(1) that(1)] that(2)]
    by (simp add: others_act_journal holds_stores)
  then show ?thesis
    using assms(1) unfolding sent_durably_def others_act_journal by blast
qed

text \<open>C7. No signed payment crosses the network before it is durable: every request that a payment
  sends is the unpaid request, or it carries a payload \<open>p\<close> that the shared journal held for this very
  request after this payment's last operation on it. Between that operation and the sending the
  other processes may do anything to the journal and any time may pass, the expiry of this
  payment's lease included; at the moment of sending the journal still holds \<open>p\<close> unless the attempt
  was already paid, or another process has recorded the outcome of the payment in between.
\<close>

theorem pay_sends_durable_payload:
  assumes "wf_journal (ps_journal s)" and "pay E A args s = (r, s')"
  shows "\<exists>l. ps_sent s' = ps_sent s @ l \<and> (\<forall>(q, j0, j) \<in> set l. q = first_request args
    \<or> (\<exists>account fp p. pa_account A = Some account
        \<and> request_fingerprint E account (arg_url args) (arg_method args) (arg_headers args) (arg_content args) = Inr fp
        \<and> q = paid_request E args p \<and> sent_durably E fp p j0 j))"
  using assms(2)
proof (cases rule: pay_cases)
  case (plain l)
  then show ?thesis by (intro exI [of _ l]) auto
next
  case (claimed account fp limit s0 required claim s1 x s2)
  have tail: "ps_sent s' = ps_sent s2"
    using claimed(7) keepsD [OF keeps_conclude] by blast
  have front: "ps_sent s1 = ps_sent s @ [(first_request args, ps_journal s, ps_journal (others_act E s))]"
    using keepsD [OF keeps_claim_or_wait claimed(5)] claimed(4) by simp
  from claimed(6) show ?thesis
  proof (cases rule: send_paid_cases)
    case unsent
    then show ?thesis using tail front by simp
  next
    case (sent p s3)
    have "wf_journal (ps_journal s0)"
      using others_act_open(1) [OF assms(1)] claimed(3) by simp
    note s3 = claimed_stores [OF claimed(5) this sent(1)]
    show ?thesis
      using tail front sent(2) claimed(1,2) sent_durablyI [OF s3] by auto
  qed
qed

lemma record_outcome_raise:
  "record_outcome ex r reuse j = (Raise e, j') \<Longrightarrow> jr_index j' = jr_index j"
  by (auto simp: record_outcome_def append_receipt_def op_defs split: sum.splits option.splits if_splits)

lemma record_outcome_returns: "record_outcome ex r reuse j \<noteq> (Diverge, j')"
  by (auto simp: record_outcome_def append_receipt_def op_defs split: sum.splits option.splits if_splits)

lemma record_receipt_raise:
  assumes "record_receipt E rc s = (r, s')" and "\<And>v. r \<noteq> Ok v" and "wf_journal (ps_journal s)"
    and "quiet E fp" and "holds_payload fp p (ps_journal s)"
  shows "holds_payload fp p (ps_journal s')"
proof -
  let ?j = "journal_run (pe_extract E) (pe_others E (ps_ops s)) (ps_journal s)"
  obtain j' where j': "record_outcome (pe_extract E) rc TERMINAL_REUSE_SECONDS ?j = (r, j')" "ps_journal s' = j'"
    using assms(1) by (auto simp: record_receipt_def on_journal_Ok)
  then have "jr_index j' = jr_index ?j"
    using assms(2) record_outcome_raise record_outcome_returns by (cases r) auto
  moreover have "holds_payload fp p ?j"
    using holds_payload_run [OF assms(3,5)] assms(4) by (simp add: quiet_def)
  ultimately show ?thesis
    using j'(2) held_index by (simp add: holds_payload_def)
qed

lemma record_settlement_cases:
  assumes "record_settlement E args fp p response decoded settlement s = (r, s')"
  obtains x where "record_receipt E (receipt_of E args (hr_status response) (concluded_state decoded) settlement p fp
      (jr_clock (ps_journal s))) s = (x, s')"
    "\<And>b. x = Ok b \<Longrightarrow> r = Ok (paid_result response decoded settlement
       (receipt_of E args (hr_status response) (concluded_state decoded) settlement p fp (jr_clock (ps_journal s))) p)"
    "(\<forall>b. x \<noteq> Ok b) \<Longrightarrow> \<forall>v. r \<noteq> Ok v"
  using assms unfolding record_settlement_def Let_def
  by (auto simp: now_of_def cget_def cbind_def creturn_def split: prod.splits outcome.splits)

lemma conclude_keeps:
  assumes "conclude E args fp p response s = (r, s')" and "wf_journal (ps_journal s)"
    and "quiet E fp" and "holds_payload fp p (ps_journal s)" and "\<And>v. r = Ok v \<Longrightarrow> res_pending v"
  shows "holds_payload fp p (ps_journal s')"
  using assms(1) unfolding conclude_def
proof (cases rule: clift_cases)
  case d: (returned decoded)
  from d(2) show ?thesis
  proof (cases rule: clift_cases)
    case (returned settlement)
    from record_settlement_cases [OF returned(2)] obtain x where
      x: "record_receipt E (receipt_of E args (hr_status response) (concluded_state decoded) settlement p fp
        (jr_clock (ps_journal s))) s = (x, s')"
      "\<And>b. x = Ok b \<Longrightarrow> r = Ok (paid_result response decoded settlement
       (receipt_of E args (hr_status response) (concluded_state decoded) settlement p fp (jr_clock (ps_journal s))) p)"
      by blast
    show ?thesis
    proof (cases "concluded_state decoded = ReceiptPending")
      case True
      show ?thesis
        using acts_open(3) [OF acts_record_receipt x(1) [unfolded True] assms(2,3,4)] .
    next
      case False
      then have "\<not> res_pending (paid_result response decoded settlement rc p)" for rc
        by (simp add: paid_result_def Let_def)
      then have "x \<noteq> Ok b" for b
        using x(2) [of b] assms(5) by metis
      then show ?thesis using record_receipt_raise [OF x(1) _ assms(2,3,4)] by blast
    qed
  qed (use assms(4) in simp)
qed (use assms(4) in simp)

text \<open>C8. A payment whose outcome is unknown can be resumed: when a payment that sent the payload \<open>p\<close>
  raises, or returns a pending result, the journal still holds \<open>p\<close> as the unsettled attempt of the
  request, so the next call sends the same signed transaction again instead of signing a second one.
  It is assumed that no other process records a terminal outcome for the request meanwhile.
\<close>

theorem pay_unresolved_is_recoverable:
  assumes "wf_journal (ps_journal s)" and "pay E A args s = (r, s')" and "pa_account A = Some account"
    and "request_fingerprint E account (arg_url args) (arg_method args) (arg_headers args) (arg_content args) = Inr fp"
    and "quiet E fp" and "unpaid fp (ps_journal s)" and "\<And>v. r = Ok v \<Longrightarrow> res_pending v"
  shows "\<exists>l. ps_sent s' = ps_sent s @ l \<and> (\<forall>(q, j) \<in> set l. q = first_request args
    \<or> (\<exists>p. q = paid_request E args p \<and> holds_payload fp p (ps_journal s')))"
  using assms(2)
proof (cases rule: pay_cases)
  case (plain l)
  then show ?thesis by (intro exI [of _ l]) auto
next
  case (claimed account' fp' limit s0 required claim s1 x s2)
  then have fp: "fp' = fp" using assms(3,4) by simp
  have tail: "ps_sent s' = ps_sent s2"
    using claimed(7) keepsD [OF keeps_conclude] by blast
  have front: "ps_sent s1 = ps_sent s @ [(first_request args, ps_journal s, ps_journal (others_act E s))]"
    using keepsD [OF keeps_claim_or_wait claimed(5)] claimed(4) by simp
  have s0: "wf_journal (ps_journal s0)" "unpaid fp (ps_journal s0)"
    using others_act_open(1,2) [OF assms(1)] claimed(3) assms(5,6) by simp_all
  have s1: "wf_journal (ps_journal s1)" "unpaid fp (ps_journal s1)"
    using acts_open(1,2) [OF acts_claim_or_wait claimed(5)] s0 assms(5) by (simp_all add: fp)
  from claimed(6) show ?thesis
  proof (cases rule: send_paid_cases)
    case unsent
    then show ?thesis using tail front by simp
  next
    case (sent p s3)
    have "holds_payload fp p (ps_journal s3)" "wf_journal (ps_journal s3)"
      using claimed_stores [OF claimed(5) s0(1) sent(1)] assms(5)
        acts_open(2) [OF acts_obtain_payload sent(1) s1(1)] s1(2) by (simp_all add: fp stores_holds)
    then have s3: "holds_payload fp p (ps_journal (others_act E s3))" "wf_journal (ps_journal (others_act E s3))"
      using others_act_open(1,3) assms(5) by simp_all
    have "holds_payload fp p (ps_journal s')"
      using sent(3) claimed(7)
    proof (elim disjE exE conjE)
      fix response p' paid_response
      assume "x = Ok (p, response)" "ps_journal s2 = ps_journal (others_act E s3)" "x = Ok (p', paid_response)"
        "conclude E args fp' p' paid_response s2 = (r, s')"
      then show ?thesis
        using conclude_keeps [of E args fp p response s2 r s'] s3 assms(5,7) by (simp add: fp)
    next
      fix e s4
      assume "ps_journal s4 = ps_journal (others_act E s3)" "recover_failure E args fp' claim (Some p) e s4 = (x, s2)" "s' = s2"
      then show ?thesis
        using acts_open(3) [OF acts_recover_failure _ _ assms(5)] s3 by (metis fp)
    qed simp_all
    then show ?thesis
      using tail front sent(2) by auto
  qed
qed

lemma append_receipt_present:
  assumes "append_receipt rc j = (Ok b, j')"
  shows "\<exists>e \<in> set (jr_receipts j'). e = rc \<or> receipt_key rc \<noteq> None \<and> receipt_key e = receipt_key rc"
  using assms by (auto simp: append_receipt_def op_defs list_ex_iff split: if_splits)

lemma append_receipt_ok: "\<exists>b j'. append_receipt rc j = (Ok b, j')"
  unfolding append_receipt_def cget_def cbind_def by (auto simp: creturn_def cmodify_def)

lemma receipt_key_same:
  "receipt_key e = receipt_key rc \<Longrightarrow> receipt_key rc \<noteq> None \<Longrightarrow>
   rc_fingerprint e = rc_fingerprint rc \<and> rc_state e = rc_state rc
   \<and> sr_transaction (rc_settlement e) = sr_transaction (rc_settlement rc)"
  by (auto simp: receipt_key_def fingerprint_of_def split: option.splits list.splits)

lemma record_paid_present:
  assumes "record_outcome ex rc reuse j = (Ok b, j')" and "rc_state rc = ReceiptPaid"
  shows "\<exists>e \<in> set (jr_receipts j'). rc_state e = ReceiptPaid \<and> rc_fingerprint e = rc_fingerprint rc
    \<and> sr_transaction (rc_settlement e) = sr_transaction (rc_settlement rc)"
proof -
  obtain b1 j1 where a: "append_receipt rc j = (Ok b1, j1)"
    using append_receipt_ok by blast
  have wr: "keeps jr_receipts (write_index xs)" for xs
    by (simp add: keeps_def write_index_def cmodify_def)
  have "jr_receipts j' = jr_receipts j1"
  proof (cases "fingerprint_of rc")
    case None
    then show ?thesis using assms(1) a by (simp add: record_outcome_def cbind_def cget_def)
  next
    case (Some fp)
    have "\<not> late_outcome rc fp (jr_receipts j)"
      using assms(2) by (simp add: late_outcome_def)
    then have "cbind (clift (load_index j)) (\<lambda>attempts.
        cbind (clift (attempt_from_index ex attempts fp)) (\<lambda>attempt. case attempt of
            None \<Rightarrow> creturn b1
          | Some a \<Rightarrow> cbind (write_index (outcome_index (jr_clock j) reuse (rc_state rc) fp a attempts))
              (\<lambda>_. creturn b1))) j1 = (Ok b, j')"
      using assms(1) Some by (simp add: record_outcome_def cbind_cget cbind_step [of "append_receipt rc", OF a])
    then show ?thesis
      by (rule keepsD [rotated]) (intro keeps_rules wr)
  qed
  with append_receipt_present [OF a] obtain e where "e \<in> set (jr_receipts j')"
    "e = rc \<or> receipt_key rc \<noteq> None \<and> receipt_key e = receipt_key rc" by auto
  then show ?thesis
    using receipt_key_same [of e rc] assms(2) by auto
qed

text \<open>A paid result is backed by the server and by the journal: when a payment reports success, the
  server answered the paid request with a settlement that succeeded, the body is that answer's, and
  the journal holds a paid receipt for this request and this transaction.
\<close>

theorem pay_success_is_settled:
  assumes "pay E A args s = (Ok v, s')" and "res_paid v"
  shows "\<exists>account fp p h response settlement e. pa_account A = Some account
    \<and> request_fingerprint E account (arg_url args) (arg_method args) (arg_headers args) (arg_content args) = Inr fp
    \<and> pe_send E h (paid_request E args p) = Inr response \<and> decode_settlement E response = Inr (Some settlement)
    \<and> sr_success settlement \<and> res_body v = hr_body response
    \<and> e \<in> set (jr_receipts (ps_journal s')) \<and> rc_state e = ReceiptPaid \<and> rc_fingerprint e = Some fp
    \<and> sr_transaction (rc_settlement e) = sr_transaction settlement"
  using assms(1)
proof (cases rule: pay_cases)
  case (plain l)
  then show ?thesis using assms(2) by simp
next
  case (claimed account fp limit s0 required claim s1 x s2)
  then obtain p response where x: "x = Ok (p, response)" and c: "conclude E args fp p response s2 = (Ok v, s')"
    by auto
  obtain h where h: "pe_send E h (paid_request E args p) = Inr response"
    using claimed(6) by (auto simp: x send_paid_def run_simps recover_failure_fails http_send_Ok)
  obtain decoded settlement rc b where d: "decode_settlement E response = Inr decoded"
    and st: "(case decoded of None \<Rightarrow> pending_settlement E p | Some st \<Rightarrow> Inr st) = Inr settlement"
    and rc: "rc = receipt_of E args (hr_status response) (concluded_state decoded) settlement p fp (jr_clock (ps_journal s2))"
    and r: "record_receipt E rc s2 = (Ok b, s')" and v: "v = paid_result response decoded settlement rc p"
    using c by (auto simp: conclude_def record_settlement_def now_of_def run_simps Let_def)
  have paid: "decoded = Some settlement" "sr_success settlement" "res_body v = hr_body response"
    using assms(2) st by (auto simp: v paid_result_def Let_def)
  then have "rc_state rc = ReceiptPaid" "rc_fingerprint rc = Some fp" "rc_settlement rc = settlement"
    by (simp_all add: rc receipt_of_def concluded_state_def outcome_state_def)
  moreover from r obtain j where "record_outcome (pe_extract E) rc TERMINAL_REUSE_SECONDS j = (Ok b, ps_journal s')"
    by (auto simp: record_receipt_def on_journal_Ok)
  ultimately obtain e where "e \<in> set (jr_receipts (ps_journal s'))" "rc_state e = ReceiptPaid"
    "rc_fingerprint e = Some fp" "sr_transaction (rc_settlement e) = sr_transaction settlement"
    using record_paid_present by metis
  then show ?thesis
    using claimed(1,2) h d paid by blast
qed

section \<open>Waiting for another signer ends\<close>

definition lease_bounded :: "string \<Rightarrow> rat \<Rightarrow> journal \<Rightarrow> bool" where
  "lease_bounded fp until j \<longleftrightarrow>
     (\<forall>a. attempt_of j fp = Some a \<longrightarrow> at_payload a = None \<longrightarrow> at_lease_expires_at a \<le> until)"

text \<open>An event of another process that takes no new lease on the payment.\<close>

fun leases_nothing :: "string \<Rightarrow> journal_event \<Rightarrow> bool" where
  "leases_nothing fp (EClaim fp' _ _ _ _) \<longleftrightarrow> fp' \<noteq> fp"
| "leases_nothing fp e \<longleftrightarrow> \<not> concludes fp e"

lemma lease_bounded_index: "lease_bounded fp until j \<Longrightarrow> jr_index j' = jr_index j \<Longrightarrow> lease_bounded fp until j'"
  by (simp add: lease_bounded_def attempt_of_def)

lemma lease_bounded_new:
  "jr_index j' = Index ys \<Longrightarrow> (\<And>a. map_of ys fp = Some a \<Longrightarrow> at_payload a = None \<Longrightarrow> at_lease_expires_at a \<le> until) \<Longrightarrow>
   lease_bounded fp until j'"
  by (simp add: lease_bounded_def attempt_of_def)

lemma lease_bounded_load:
  "lease_bounded fp until j \<Longrightarrow> load_index j = Inr xs \<Longrightarrow> map_of xs fp = Some a \<Longrightarrow> at_payload a = None \<Longrightarrow>
   at_lease_expires_at a \<le> until"
  by (auto simp: lease_bounded_def dest: load_index_attempt [where fp = fp])

lemma prune_lookup:
  "wf_index xs \<Longrightarrow> map_of (snd (prune_expired_paid now xs)) fp = Some a \<Longrightarrow> map_of xs fp = Some a"
  by (auto simp: map_of_prune wf_index_def split: option.splits if_splits)

lemma lease_bounded_step:
  assumes "wf_journal j" and "lease_bounded fp until j" and "leases_nothing fp e" and "0 \<le> until"
  shows "lease_bounded fp until (journal_step ex e j)"
proof (cases e)
  case (EClaim fp' payer scope lease token)
  have fp: "fp' \<noteq> fp" using assms(3) EClaim by simp
  show ?thesis
    using claim_index [of ex fp' payer scope lease token j] unfolding Let_def
  proof (elim disjE exE conjE)
    fix xs
    assume "load_index j = Inr xs"
      "jr_index (snd (claim_attempt ex fp' payer scope lease token j)) = Index (snd (prune_expired_paid (jr_clock j) xs))"
    then show ?thesis
      using EClaim prune_lookup load_index_wf [OF assms(1)] lease_bounded_load [OF assms(2)]
      by (auto elim!: lease_bounded_new)
  next
    fix xs
    assume "load_index j = Inr xs"
      "jr_index (snd (claim_attempt ex fp' payer scope lease token j)) =
        Index (put_attempt (claim_of fp' payer scope lease token j) (snd (prune_expired_paid (jr_clock j) xs)))"
    then show ?thesis
      using EClaim fp prune_lookup load_index_wf [OF assms(1)] lease_bounded_load [OF assms(2)]
      by (auto simp: map_of_put elim!: lease_bounded_new)
  qed (use EClaim lease_bounded_index [OF assms(2)] in simp)
next
  case (EPersist fp' owner payload i)
  then show ?thesis
    using persist_index [of ex fp' owner payload i j] lease_bounded_load [OF assms(2)]
    by (auto simp: map_of_put intro: lease_bounded_index [OF assms(2)] elim!: lease_bounded_new split: if_splits)
next
  case (ERelease fp' owner)
  then show ?thesis
    using release_index [of ex fp' owner j] lease_bounded_load [OF assms(2)]
    by (auto simp: map_of_delete intro: lease_bounded_index [OF assms(2)] elim!: lease_bounded_new split: if_splits)
next
  case (EOutcome r reuse)
  show ?thesis
    using outcome_index_change [of ex r reuse j]
  proof (elim disjE exE conjE)
    fix xs a fp'
    assume *: "load_index j = Inr xs" "map_of xs fp' = Some a" "rc_fingerprint r = Some fp'"
      "jr_index (snd (record_outcome ex r reuse j)) = Index (outcome_index (jr_clock j) reuse (rc_state r) fp' a xs)"
    have "at_fingerprint a = fp'"
      using map_of_fingerprint [OF load_index_wf [OF assms(1) *(1)] *(2)] .
    then show ?thesis
      using EOutcome * assms(3,4) lease_bounded_load [OF assms(2) *(1)]
      by (cases "rc_state r") (auto simp: outcome_index_def map_of_put map_of_delete elim!: lease_bounded_new split: if_splits)
  qed (use EOutcome lease_bounded_index [OF assms(2)] in simp)
next
  case EPrune
  then show ?thesis
    using prune_index [of j] load_index_wf [OF assms(1)] lease_bounded_load [OF assms(2)] prune_lookup
    by (auto intro: lease_bounded_index [OF assms(2)] elim!: lease_bounded_new)
qed (simp_all add: lease_bounded_index [OF assms(2)] append_index)

lemma lease_bounded_run:
  "wf_journal j \<Longrightarrow> lease_bounded fp until j \<Longrightarrow> 0 \<le> until \<Longrightarrow> \<forall>e \<in> set es. leases_nothing fp e \<Longrightarrow>
   lease_bounded fp until (journal_run ex es j)"
  by (induction es arbitrary: j) (simp_all add: lease_bounded_step wf_journal_step)

lemma claim_waits:
  assumes "claim_attempt ex fp payer scope lease token j = (Ok c, j')" and "\<not> is_owner c" and "wf_journal j"
    and "at_payload (cl_attempt c) = None"
  shows "attempt_of j fp = Some (cl_attempt c)" and "jr_clock j < at_lease_expires_at (cl_attempt c)"
    and "lease_bounded fp until j \<Longrightarrow> lease_bounded fp until j'" and "jr_clock j' = jr_clock j"
proof -
  obtain xs where xs: "load_index j = Inr xs"
    using assms(1) by (cases "load_index j") (auto simp: claim_attempt_def op_defs split: if_splits)
  have *: "map_of (snd (prune_expired_paid (jr_clock j) xs)) fp = Some (cl_attempt c)"
    "jr_clock j < at_lease_expires_at (cl_attempt c)"
    "jr_index j' = jr_index j \<or> jr_index j' = Index (snd (prune_expired_paid (jr_clock j) xs))" "jr_clock j' = jr_clock j"
    using assms(1,2,4) xs
    by (auto simp: claim_attempt_def op_defs Let_def is_owner_def prune_expired_paid_def
        dest!: attempt_from_index_ok split: sum.splits option.splits if_splits)
  note look = prune_lookup [OF load_index_wf [OF assms(3) xs]]
  show "attempt_of j fp = Some (cl_attempt c)"
    using look [OF *(1)] load_index_attempt [OF xs, of fp] by simp
  show "jr_clock j < at_lease_expires_at (cl_attempt c)" "jr_clock j' = jr_clock j"
    using * by simp_all
  show "lease_bounded fp until j \<Longrightarrow> lease_bounded fp until j'"
    using *(3) lease_bounded_index lease_bounded_new [of j'] lease_bounded_load [OF _ xs] look by metis
qed

lemma on_journal_state:
  assumes "on_journal E m s = (r, s')"
  shows "\<exists>j. j = journal_run (pe_extract E) (pe_others E (ps_ops s)) (ps_journal s) \<and> m j = (r, ps_journal s')"
  using assms by (auto simp: on_journal_Ok)

lemma claim_attempt_returns: "fst (claim_attempt ex fp payer scope lease token j) \<noteq> Diverge"
  by (auto simp: claim_attempt_def op_defs Let_def prune_expired_paid_def split: sum.splits option.splits)

definition no_new_lease :: "payer_env \<Rightarrow> string \<Rightarrow> bool" where
  "no_new_lease E fp \<longleftrightarrow> (\<forall>n. \<forall>e \<in> set (pe_others E n). leases_nothing fp e)"

lemma claim_now_waits:
  assumes "wf_journal (ps_journal s)" and "lease_bounded fp until (ps_journal s)" and "0 \<le> until"
    and "no_new_lease E fp" and "claim_now E fp account scope s = (x, s1)"
  shows "x \<noteq> Diverge"
    and "x = Ok c \<Longrightarrow> \<not> (is_owner c \<or> at_payload (cl_attempt c) \<noteq> None) \<Longrightarrow>
      jr_clock (ps_journal s) < until \<and> wf_journal (ps_journal s1) \<and> lease_bounded fp until (ps_journal s1)
      \<and> jr_clock (ps_journal s) \<le> jr_clock (ps_journal s1)"
proof -
  obtain j token where j: "j = journal_run (pe_extract E) (pe_others E (ps_ops s)) (ps_journal s)"
    and c: "claim_attempt (pe_extract E) fp account scope ATTEMPT_LEASE_SECONDS token j = (x, ps_journal s1)"
    using assms(5) by (auto simp: claim_now_def cbind_def cget_def on_journal_Ok)
  show "x \<noteq> Diverge"
    using claim_attempt_returns [of "pe_extract E" fp account scope ATTEMPT_LEASE_SECONDS token j] c by auto
  assume x: "x = Ok c" "\<not> (is_owner c \<or> at_payload (cl_attempt c) \<noteq> None)"
  have wf: "wf_journal j" and b: "lease_bounded fp until j" and clock: "jr_clock (ps_journal s) \<le> jr_clock j"
    using wf_journal_run [OF assms(1)] lease_bounded_run [OF assms(1-3)] journal_clock_run assms(4)
    by (auto simp: j no_new_lease_def)
  note w = claim_waits [OF c [unfolded x(1)] _ wf]
  have "jr_clock j < until"
    using w(1,2) b x(2) by (auto simp: lease_bounded_def intro: less_le_trans)
  moreover have "wf_journal (ps_journal s1)"
    using wf_journal_step [OF wf, of "pe_extract E" "EClaim fp account scope ATTEMPT_LEASE_SECONDS token"] c by simp
  ultimately show "jr_clock (ps_journal s) < until \<and> wf_journal (ps_journal s1) \<and> lease_bounded fp until (ps_journal s1)
      \<and> jr_clock (ps_journal s) \<le> jr_clock (ps_journal s1)"
    using w(3,4) b x(2) clock by auto
qed

lemma claim_or_wait_bounded:
  assumes "wf_journal (ps_journal s)" and "lease_bounded fp until (ps_journal s)" and "0 \<le> until"
    and "no_new_lease E fp"
    and "until \<le> jr_clock (ps_journal s) + of_nat n / 100"
  shows "fst (claim_or_wait E (Suc n) fp account scope s) \<noteq> Diverge"
  using assms(1,2,5)
proof (induction n arbitrary: s)
  case (0 s)
  obtain x s1 where x: "claim_now E fp account scope s = (x, s1)" by fastforce
  note w = claim_now_waits [OF 0(1,2) assms(3,4) x]
  have "is_owner c \<or> at_payload (cl_attempt c) \<noteq> None" if "x = Ok c" for c
    using w(2) [OF that] 0(3) by fastforce
  then show ?case
    using w(1) x by (cases x) (auto simp: cbind_def creturn_def)
next
  case (Suc n s)
  obtain x s1 where x: "claim_now E fp account scope s = (x, s1)" by fastforce
  note w = claim_now_waits [OF Suc.prems(1,2) assms(3,4) x]
  let ?s = "s1\<lparr>ps_journal := (ps_journal s1)\<lparr>jr_clock := jr_clock (ps_journal s1) + 1 / 100\<rparr>\<rparr>"
  show ?case
  proof (cases "\<exists>c. x = Ok c \<and> \<not> (is_owner c \<or> at_payload (cl_attempt c) \<noteq> None)")
    case True
    then obtain c where c: "x = Ok c" "\<not> (is_owner c \<or> at_payload (cl_attempt c) \<noteq> None)" by blast
    have "wf_journal (ps_journal ?s)" "lease_bounded fp until (ps_journal ?s)"
      using w(2) [OF c] by (simp_all add: wf_journal_def lease_bounded_def attempt_of_def)
    moreover have "until \<le> jr_clock (ps_journal ?s) + of_nat n / 100"
      using w(2) [OF c] Suc.prems(3) by (simp add: field_simps)
    ultimately have "fst (claim_or_wait E (Suc n) fp account scope ?s) \<noteq> Diverge"
      using Suc.IH by blast
    moreover have "claim_or_wait E (Suc (Suc n)) fp account scope s = claim_or_wait E (Suc n) fp account scope ?s"
      using x c by (subst claim_or_wait.simps) (simp add: cbind_def sleep_tick_def cmodify_def)
    ultimately show ?thesis by metis
  next
    case False
    then show ?thesis
      using w(1) x by (cases x) (auto simp: cbind_def creturn_def)
  qed
qed

text \<open>C36. Waiting for another signer ends: when the lease on the attempt runs out within the lease time
  and no other process takes a new one, the polling loop of a payment returns (or raises) within
  3001 polls; it never waits for a process that died before it stored its payload.
\<close>

theorem claim_or_wait_ends:
  assumes "wf_journal (ps_journal s)" and "0 \<le> jr_clock (ps_journal s)"
    and "\<And>a. attempt_of (ps_journal s) fp = Some a \<Longrightarrow> at_payload a = None \<Longrightarrow>
      at_lease_expires_at a \<le> jr_clock (ps_journal s) + ATTEMPT_LEASE_SECONDS"
    and "no_new_lease E fp" and "3001 \<le> fuel"
  shows "fst (claim_or_wait E fuel fp account scope s) \<noteq> Diverge"
proof -
  obtain n where n: "fuel = Suc n" "3000 \<le> n" using assms(5) by (cases fuel) auto
  have "(3000 :: rat) \<le> of_nat n" using n(2) by (metis of_nat_le_iff of_nat_numeral)
  then have "jr_clock (ps_journal s) + ATTEMPT_LEASE_SECONDS \<le> jr_clock (ps_journal s) + of_nat n / 100" by simp
  moreover have "lease_bounded fp (jr_clock (ps_journal s) + ATTEMPT_LEASE_SECONDS) (ps_journal s)"
    using assms(3) by (simp add: lease_bounded_def)
  moreover have "0 \<le> jr_clock (ps_journal s) + ATTEMPT_LEASE_SECONDS"
    using assms(2) by simp
  ultimately show ?thesis
    unfolding n(1) by (intro claim_or_wait_bounded [OF assms(1) _ _ assms(4)])
qed

section \<open>Witnesses\<close>

definition sample_required :: payment_required where
  "sample_required = \<lparr>pr_version = 2, pr_accepts = [sample_xrp], pr_resource = None, pr_extensions = None\<rparr>"

definition sample_settled :: settle_response where
  "sample_settled = \<lparr>sr_success = True, sr_error_reason = None, sr_error_message = None, sr_payer = Some ''rPayer'',
     sr_transaction = ''H1'', sr_network = ''xrpl:1'', sr_amount = Some ''1000'', sr_status = None\<rparr>"

definition sample_env :: payer_env where
  "sample_env = \<lparr>pe_ext = sample_ext,
     pe_send = (\<lambda>h q. if h = [] then Inr \<lparr>hr_status = 402, hr_headers = [(''payment-required'', ''c'')], hr_body = []\<rparr>
       else Inr \<lparr>hr_status = 200, hr_headers = [(''payment-response'', ''s'')], hr_body = ''data''\<rparr>),
     pe_decode_required = (\<lambda>_. Inr (Some sample_required)), pe_decode_settlement = (\<lambda>_. Inr (Some sample_settled)),
     pe_base64 = id, pe_create = (\<lambda>_ _ _ _. creturn (Some sample_payload)), pe_extract = (\<lambda>_. None),
     pe_url = Inr, pe_iso = (\<lambda>_. ''2026''), pe_token = (\<lambda>n. replicate (Suc n) (CHR ''t'')), pe_others = (\<lambda>_. []),
     pe_fuel = 3001\<rparr>"

text \<open>The same, with the answer to the paid request lost.\<close>

definition sample_lossy :: payer_env where
  "sample_lossy = sample_env\<lparr>pe_send := (\<lambda>h q. if h = [] then pe_send sample_env h q else Inl (ClientError ''timeout''))\<rparr>"

definition sample_wallet :: signer where
  "sample_wallet = \<lparr>sg_ext = sample_ext, sg_address = ''rPayer'', sg_network = None, sg_client = (\<lambda>_ _. Inr PNone),
     sg_check_issued = (\<lambda>_ _ _. Inr ()), sg_check_payment = (\<lambda>_. Inr ()), sg_autofill = (\<lambda>_. Inr),
     sg_sign = (\<lambda>_. Inr ''AB12''), sg_autofill_enabled = False, sg_default_fee = ''10'', sg_default_sequence = 5,
     sg_default_last_ledger_sequence = Some 1010, sg_ticket_inventory_target = 0, sg_get_current_ledger_index = None,
     sg_get_available_ticket_sequence = None, sg_fuel = 1\<rparr>"

definition sample_payer :: payer where
  "sample_payer = \<lparr>pa_signer = Some sample_wallet, pa_account = Some ''rPayer'', pa_network = ''xrpl:1''\<rparr>"

definition sample_args :: pay_args where
  "sample_args = \<lparr>arg_url = ''https://shop'', arg_asset = None, arg_issuer = None, arg_max_spend = None,
     arg_dry_run = False, arg_method = ''GET'', arg_headers = [], arg_content = None\<rparr>"

definition sample_state :: payer_state where
  "sample_state = \<lparr>ps_journal = \<lparr>jr_index = NoIndex, jr_receipts = [], jr_clock = 1000\<rparr>, ps_sent = [], ps_calls = [], ps_ops = 0\<rparr>"

lemma sample_request_fingerprint:
  "request_fingerprint sample_env ''rPayer'' (arg_url sample_args) (arg_method sample_args) (arg_headers sample_args)
     (arg_content sample_args) = Inr ''F1''"
  "request_fingerprint sample_lossy ''rPayer'' (arg_url sample_args) (arg_method sample_args) (arg_headers sample_args)
     (arg_content sample_args) = Inr ''F1''"
  by (simp_all add: request_fingerprint_def sample_env_def sample_lossy_def sample_ext_def
      del: json_dumps.simps json_dumps_list.simps json_dumps_items.simps)

lemma strip_http: "strip ''http'' = ''http''" "lower ''PAYMENT-RESPONSE'' = ''payment-response''"
  by code_simp+

lemma sample_claimed_run:
  "\<exists>c s1. claim_or_wait E 3001 ''F1'' ''rPayer'' ''http'' s = (Ok c, s1) \<and> is_owner c
     \<and> at_payload (cl_attempt c) = None \<and> cl_owner_token c = Some (at_owner_token (cl_attempt c))
     \<and> jr_index (ps_journal s1) = Index [(''F1'', cl_attempt c)] \<and> ps_sent s1 = ps_sent s
     \<and> at_fingerprint (cl_attempt c) = ''F1''"
  if "jr_index (ps_journal s) = NoIndex" "pe_extract E = (\<lambda>_. None)" "pe_others E = (\<lambda>_. [])"
proof -
  have "3001 = Suc 3000" by simp
  then show ?thesis
    using that by (simp only: claim_or_wait.simps)
      (simp add: claim_now_def on_journal_def claim_attempt_def op_defs Let_def strip_http
        load_index_def prune_expired_paid_def attempt_from_index_def is_owner_def put_attempt_def)
qed

lemma sample_obtain:
  assumes "at_payload (cl_attempt c) = None" "cl_owner_token c = Some (at_owner_token (cl_attempt c))"
    "jr_index (ps_journal s) = Index [(''F1'', cl_attempt c)]" "pe_others E = (\<lambda>_. [])"
    "pe_create E = (\<lambda>_ _ _ _. creturn (Some sample_payload))" "pe_extract E = (\<lambda>_. None)"
    "at_fingerprint (cl_attempt c) = ''F1''"
  shows "\<exists>s1 a. obtain_payload E sample_payer None sample_required ''F1'' c s = (Ok sample_payload, s1)
    \<and> ps_sent s1 = ps_sent s \<and> jr_index (ps_journal s1) = Index [(''F1'', a)] \<and> at_identifier a = None"
  using assms
  by (simp add: obtain_payload_def new_payload_def sample_payer_def spend_setup_of_def sdk_create_def on_journal_def
      persist_attempt_payload_def op_defs Let_def load_index_def attempt_from_index_def put_attempt_def)

lemma sample_first_response:
  "http_send E (first_request sample_args) sample_state =
     (Ok \<lparr>hr_status = 402, hr_headers = [(''payment-required'', ''c'')], hr_body = []\<rparr>,
      sample_state\<lparr>ps_sent := [(first_request sample_args, ps_journal sample_state, ps_journal sample_state)], ps_ops := 1\<rparr>)"
  if "pe_send E [] = pe_send sample_env []" "pe_others E = (\<lambda>_. [])"
  by (simp add: http_send_def others_act_def Let_def sample_state_def that) (simp add: sample_env_def)

lemma sample_until_paid:
  assumes "claim_or_wait E (pe_fuel E) ''F1'' ''rPayer'' ''http''
      (sample_state\<lparr>ps_sent := [(first_request sample_args, ps_journal sample_state, ps_journal sample_state)], ps_ops := 1\<rparr>) = (Ok c, s1)"
    and "pe_send E [] = pe_send sample_env []" and "pe_others E = (\<lambda>_. [])" and "pe_decode_required E = pe_decode_required sample_env"
    and "request_fingerprint E ''rPayer'' (arg_url sample_args) (arg_method sample_args) (arg_headers sample_args)
      (arg_content sample_args) = Inr ''F1''"
  shows "pay E sample_payer sample_args sample_state =
    cbind (send_paid E sample_payer sample_args None sample_required ''F1'' c)
      (\<lambda>(payload, paid_response). conclude E sample_args ''F1'' payload paid_response) s1"
proof -
  have "decode_required E \<lparr>hr_status = 402, hr_headers = [(''payment-required'', ''c'')], hr_body = []\<rparr> = Inr sample_required"
    by (simp add: decode_required_def decode_payment_required_response_def decode_payment_required_def assms(4))
      (simp add: sample_env_def sample_required_def)
  moreover have "explicit_limit ''xrpl:1'' None None None = Inr None"
    by (simp add: explicit_limit_def)
  moreover have "arg_dry_run sample_args = False" "arg_asset sample_args = None" "arg_issuer sample_args = None"
    "arg_max_spend sample_args = None" "pa_network sample_payer = ''xrpl:1''" "pa_account sample_payer = Some ''rPayer''"
    by (simp_all add: sample_args_def sample_payer_def)
  ultimately show ?thesis
    using assms(1,5) sample_first_response [OF assms(2,3)]
    by (simp add: pay_def cbind_clift cbind_step [of "http_send E q" for q] pay_challenge_def
        cbind_step [of "claim_or_wait E f fp a sc" for f fp a sc])
qed

lemma sample_records:
  assumes "jr_index (ps_journal s) = Index [(''F1'', a)]" and "at_identifier a = None"
    and "rc_state rc = ReceiptPaid" and "fingerprint_of rc = Some ''F1''"
  shows "\<exists>b s'. record_receipt sample_env rc s = (Ok b, s')"
proof -
  have env: "pe_extract sample_env = (\<lambda>_. None)" "pe_others sample_env = (\<lambda>_. [])"
    by (simp_all add: sample_env_def)
  have load: "load_index (ps_journal s) = Inr [(''F1'', a)]" "attempt_from_index (\<lambda>_. None) [(''F1'', a)] ''F1'' = Inr (Some a)"
    using assms by (auto simp: load_index_def attempt_from_index_def split: option.splits)
  obtain b j where "append_receipt rc (ps_journal s) = (Ok b, j)" using append_receipt_ok by blast
  then show ?thesis
    by (simp add: record_receipt_def on_journal_def env Let_def record_outcome_def assms(3,4) late_outcome_def cbind_cget
        cbind_step [of "append_receipt r" for r] load cbind_clift)
      (simp add: op_defs)
qed

lemma sample_conclude:
  assumes "jr_index (ps_journal s) = Index [(''F1'', a)]" and "at_identifier a = None"
  shows "\<exists>v s'. conclude sample_env sample_args ''F1'' sample_payload
      \<lparr>hr_status = 200, hr_headers = [(''payment-response'', ''s'')], hr_body = ''data''\<rparr> s = (Ok v, s') \<and> res_paid v"
    (is "\<exists>v s'. conclude _ _ _ _ ?r s = _ \<and> _")
proof -
  have dec: "decode_settlement sample_env ?r = Inr (Some sample_settled)"
    by (simp add: decode_settlement_def strip_http) (simp add: sample_env_def)
  let ?rc = "receipt_of sample_env sample_args 200 ReceiptPaid sample_settled sample_payload ''F1'' (jr_clock (ps_journal s))"
  have "\<exists>b' s'. record_receipt sample_env ?rc s = (Ok b', s')"
    by (rule sample_records [OF assms]) (simp_all add: receipt_of_def fingerprint_of_def)
  then show ?thesis
    by (auto simp: conclude_def dec cbind_clift record_settlement_def now_of_def cbind_cget Let_def concluded_state_def
        outcome_state_def sample_settled_def [THEN arg_cong [where f = sr_success]] cbind_step [of "record_receipt E r" for E r]
        creturn_def paid_result_def)
qed

lemma sample_paid_run: "\<exists>v s'. pay sample_env sample_payer sample_args sample_state = (Ok v, s') \<and> res_paid v"
proof -
  let ?s = "sample_state\<lparr>ps_sent := [(first_request sample_args, ps_journal sample_state, ps_journal sample_state)], ps_ops := 1\<rparr>"
  obtain c s1 where c: "claim_or_wait sample_env 3001 ''F1'' ''rPayer'' ''http'' ?s = (Ok c, s1)"
    "at_payload (cl_attempt c) = None" "cl_owner_token c = Some (at_owner_token (cl_attempt c))"
    "jr_index (ps_journal s1) = Index [(''F1'', cl_attempt c)]" "ps_sent s1 \<noteq> []" "at_fingerprint (cl_attempt c) = ''F1''"
    using sample_claimed_run [of ?s sample_env] by (auto simp: sample_state_def sample_env_def)
  obtain s2 a where s2: "obtain_payload sample_env sample_payer None sample_required ''F1'' c s1 = (Ok sample_payload, s2)"
    "ps_sent s2 \<noteq> []" "jr_index (ps_journal s2) = Index [(''F1'', a)]" "at_identifier a = None"
    using sample_obtain [OF c(2-4), of sample_env] c(5,6) by (auto simp: sample_env_def)
  have run: "pay sample_env sample_payer sample_args sample_state =
      cbind (send_paid sample_env sample_payer sample_args None sample_required ''F1'' c)
        (\<lambda>(payload, paid_response). conclude sample_env sample_args ''F1'' payload paid_response) s1"
    using sample_until_paid [of sample_env c s1] c(1) sample_request_fingerprint(1) by (simp add: sample_env_def)
  let ?r = "\<lparr>hr_status = 200, hr_headers = [(''payment-response'', ''s'')], hr_body = ''data''\<rparr>"
  let ?s3 = "s2\<lparr>ps_sent := ps_sent s2 @ [(paid_request sample_env sample_args sample_payload, ps_journal s2, ps_journal s2)],
    ps_ops := Suc (ps_ops s2)\<rparr>"
  have sent: "send_paid sample_env sample_payer sample_args None sample_required ''F1'' c s1 = (Ok (sample_payload, ?r), ?s3)"
    using s2 by (simp add: send_paid_def ctry_else_def http_send_def others_act_def Let_def creturn_def) (simp add: sample_env_def)
  then show ?thesis
    using sample_conclude [of ?s3 a] s2(3,4) by (simp add: run cbind_step [of "send_paid E A g l q f c" for E A g l q f c])
qed

lemma sample_lossy_run: "pay sample_lossy sample_payer sample_args sample_state \<noteq> (Ok v, s')"
proof -
  let ?s = "sample_state\<lparr>ps_sent := [(first_request sample_args, ps_journal sample_state, ps_journal sample_state)], ps_ops := 1\<rparr>"
  obtain c s1 where c: "claim_or_wait sample_lossy 3001 ''F1'' ''rPayer'' ''http'' ?s = (Ok c, s1)"
    using sample_claimed_run [of ?s sample_lossy] by (auto simp: sample_state_def sample_lossy_def sample_env_def)
  then have run: "pay sample_lossy sample_payer sample_args sample_state =
      cbind (send_paid sample_lossy sample_payer sample_args None sample_required ''F1'' c)
        (\<lambda>(payload, paid_response). conclude sample_lossy sample_args ''F1'' payload paid_response) s1"
    using sample_until_paid [of sample_lossy c s1] sample_request_fingerprint(2) by (simp add: sample_lossy_def sample_env_def)
  have "send_paid sample_lossy sample_payer sample_args None sample_required ''F1'' c s1 \<noteq> (Ok y, s3)" for y s3
  proof
    assume "send_paid sample_lossy sample_payer sample_args None sample_required ''F1'' c s1 = (Ok y, s3)"
    then obtain p s2 response where "obtain_payload sample_lossy sample_payer None sample_required ''F1'' c s1 = (Ok p, s2)"
      "pe_send sample_lossy (map fst (ps_sent s2)) (paid_request sample_lossy sample_args p) = Inr response"
      by (auto simp: send_paid_def run_simps recover_failure_fails http_send_Ok)
    then show False
      using keepsD [OF keeps_claim_or_wait c] keepsD [OF keeps_obtain_payload] by (fastforce simp: sample_lossy_def)
  qed
  then show ?thesis by (simp add: run cbind_Ok)
qed

theorem pay_sends_durable_payload_witness:
  "\<exists>l. ps_sent (snd (pay sample_env sample_payer sample_args sample_state)) = ps_sent sample_state @ l
    \<and> (\<forall>(q, j0, j) \<in> set l. q = first_request sample_args
      \<or> (\<exists>account fp p. pa_account sample_payer = Some account
        \<and> request_fingerprint sample_env account (arg_url sample_args) (arg_method sample_args) (arg_headers sample_args)
            (arg_content sample_args) = Inr fp
        \<and> q = paid_request sample_env sample_args p \<and> sent_durably sample_env fp p j0 j))"
  by (rule pay_sends_durable_payload [OF _ surjective_pairing]) (simp add: wf_journal_def sample_state_def)

theorem pay_unresolved_is_recoverable_witness:
  "\<exists>l. ps_sent (snd (pay sample_lossy sample_payer sample_args sample_state)) = ps_sent sample_state @ l
    \<and> (\<forall>(q, j) \<in> set l. q = first_request sample_args \<or> (\<exists>p. q = paid_request sample_lossy sample_args p
        \<and> holds_payload ''F1'' p (ps_journal (snd (pay sample_lossy sample_payer sample_args sample_state)))))"
proof (rule pay_unresolved_is_recoverable [OF _ surjective_pairing _ sample_request_fingerprint(2)])
  show "wf_journal (ps_journal sample_state)" "unpaid ''F1'' (ps_journal sample_state)"
    by (simp_all add: wf_journal_def unpaid_def attempt_of_def sample_state_def)
  show "pa_account sample_payer = Some ''rPayer''" "quiet sample_lossy ''F1''"
    by (simp_all add: sample_payer_def quiet_def sample_lossy_def sample_env_def)
  show "res_pending v" if "fst (pay sample_lossy sample_payer sample_args sample_state) = Ok v" for v
    using that sample_lossy_run [of v] by (metis prod.collapse)
qed

theorem pay_success_is_settled_witness:
  "\<exists>e \<in> set (jr_receipts (ps_journal (snd (pay sample_env sample_payer sample_args sample_state)))). rc_state e = ReceiptPaid"
proof -
  obtain v s' where v: "pay sample_env sample_payer sample_args sample_state = (Ok v, s')" "res_paid v"
    using sample_paid_run by blast
  from pay_success_is_settled [OF v] show ?thesis using v(1) by auto
qed

theorem claim_or_wait_ends_witness:
  "fst (claim_or_wait sample_env 3001 ''f3'' ''rPayer'' ''s'' (sample_state\<lparr>ps_journal := sample_claimed\<rparr>)) \<noteq> Diverge"
proof (rule claim_or_wait_ends)
  have j: "sample_claimed = sample_journal\<lparr>jr_index := Index [(''f1'', sample_attempt), (''f3'', cl_attempt sample_claim)]\<rparr>"
    by (simp add: sample_claimed_def sample_claim_def claim_of_def claim_attempt_def op_defs Let_def strip_s load_index_def
      sample_journal_def sample_attempt_def prune_expired_paid_def expired_paid_def attempt_from_index_def put_attempt_def)
  show "wf_journal (ps_journal (sample_state\<lparr>ps_journal := sample_claimed\<rparr>))"
    by (auto simp: j wf_journal_def wf_index_def sample_attempt_def sample_claim_def claim_of_def)
  show "0 \<le> jr_clock (ps_journal (sample_state\<lparr>ps_journal := sample_claimed\<rparr>))"
    by (simp add: j sample_journal_def)
  show "no_new_lease sample_env ''f3''"
    by (simp add: no_new_lease_def sample_env_def)
  fix a
  assume "attempt_of (ps_journal (sample_state\<lparr>ps_journal := sample_claimed\<rparr>)) ''f3'' = Some a"
  then show "at_lease_expires_at a \<le> jr_clock (ps_journal (sample_state\<lparr>ps_journal := sample_claimed\<rparr>)) + ATTEMPT_LEASE_SECONDS"
    by (auto simp: j attempt_of_def sample_claim_def claim_of_def sample_journal_def)
qed simp

end
