(* ===== verification/PayerMcp.thy ===== *)
theory PayerMcp
  imports Payer ClientTransport
begin

text \<open>
  \<open>xrpl_x402_payer/mcp.py\<close>: paid MCP tool calls over the same journal as paid HTTP requests.

  The client of the x402 SDK, whose methods \<open>XRPLMCPClient\<close> overrides, is an argument: \<open>me_call\<close> is its
  \<open>call_tool_with_payment\<close>, whose answer may depend on every paid call made so far, and \<open>upstream\<close> its
  \<open>call_tool\<close>, which is given the hook and the paying method of this class. The state adds to the
  payer's the paid calls sent, each with the journal before and after the step of the other
  processes that precedes the sending, and the context
  variable of the current attempt.
\<close>

section \<open>Data\<close>

record tool_call =
  tc_name :: string
  tc_args :: pydict
  tc_payload :: payment_payload

record tool_result =
  tr_content :: "pyval list"
  tr_is_error :: bool
  tr_raw_result :: pyval
  tr_payment_response :: "settle_response option"

record mcp_env =
  me_payer :: payer_env
  me_call :: "tool_call list \<Rightarrow> tool_call \<Rightarrow> exn + tool_result"

record mcp_client =
  mc_id :: nat
  mc_payer_account :: string
  mc_recovery_scope :: string

record mcp_attempt =
  ma_client_id :: nat
  ma_fingerprint :: string
  ma_claim :: attempt_claim
  ma_challenge :: payment_required

record mcp_state =
  mx_payer :: payer_state
  mx_calls :: "(tool_call \<times> journal \<times> journal) list"
  mx_current :: "mcp_attempt option"

type_synonym 'a mcp_cmd = "(mcp_state, 'a) cmd"

definition on_payer :: "'a payer_cmd \<Rightarrow> 'a mcp_cmd" where
  "on_payer m = (\<lambda>s. case m (mx_payer s) of (r, p) \<Rightarrow> (r, s\<lparr>mx_payer := p\<rparr>))"

definition set_current :: "mcp_attempt option \<Rightarrow> unit mcp_cmd" where
  "set_current a = cmodify (\<lambda>s. s\<lparr>mx_current := a\<rparr>)"


section \<open>Construction\<close>

definition build_xrpl_payment_client :: "signer \<Rightarrow> string option \<Rightarrow> spend_limit list option \<Rightarrow> exn + sdk_client" where
  "build_xrpl_payment_client S network asset_limits =
     (let client = register_exact_xrpl_client x402Client
            (case or_str network (sg_network S) of Some n \<Rightarrow> Inl n | None \<Rightarrow> Inr None) in
      case asset_limits of
        Some (l # ls) \<Rightarrow> apply_xrpl_spend_limits client (l # ls)
      | _ \<Rightarrow> Inr (client\<lparr>sc_controls := Some (Configured (PDict [(''max_amount_per_payment'', PStr ''$1'')]))\<rparr>))"

definition make_mcp_client :: "ext \<Rightarrow> nat \<Rightarrow> string \<Rightarrow> string \<Rightarrow> exn + mcp_client" where
  "make_mcp_client E ident payer_account recovery_scope =
     (if strip payer_account = [] then Inl (ValueError ''payer_account must be non-empty'')
      else if strip recovery_scope = [] then Inl (ValueError ''recovery_scope must be non-empty'')
      else Inr \<lparr>mc_id = ident, mc_payer_account = payer_account, mc_recovery_scope = sha256_hex E recovery_scope\<rparr>)"

definition wrap_mcp_client_with_xrpl_payment ::
  "ext \<Rightarrow> nat \<Rightarrow> signer \<Rightarrow> string option \<Rightarrow> spend_limit list option \<Rightarrow> string \<Rightarrow> exn + sdk_client \<times> mcp_client" where
  "wrap_mcp_client_with_xrpl_payment E ident S network asset_limits recovery_scope =
     rbind (build_xrpl_payment_client S network asset_limits) (\<lambda>sdk_client.
     rbind (make_mcp_client E ident (sg_address S) recovery_scope) (\<lambda>C. Inr (sdk_client, C)))"

text \<open>\<open>_mcp_request_fingerprint\<close>; the resource is the dumped model or nothing.\<close>

definition mcp_request_fingerprint :: "ext \<Rightarrow> mcp_client \<Rightarrow> string \<Rightarrow> pydict \<Rightarrow> pydict option \<Rightarrow> string" where
  "mcp_request_fingerprint E C tool args resource =
     sha256_hex E (json_dumps (PDict
       [(''arguments'', PDict args), (''payer'', PStr (mc_payer_account C)),
        (''recoveryScopeSha256'', PStr (mc_recovery_scope C)), (''resource'', opt_dict resource), (''tool'', PStr tool)]))"


section \<open>One paid call\<close>

abbreviation mcp_ext :: "mcp_env \<Rightarrow> ext" where "mcp_ext E \<equiv> pe_ext (me_payer E)"

definition mcp_claim :: "mcp_env \<Rightarrow> mcp_client \<Rightarrow> string \<Rightarrow> attempt_claim mcp_cmd" where
  "mcp_claim E C fingerprint =
     on_payer (claim_or_wait (me_payer E) (pe_fuel (me_payer E)) fingerprint (mc_payer_account C) (mc_recovery_scope C))"

text \<open>The hook \<open>_resume_pending\<close>: it claims the call and hands a stored payload to the SDK.\<close>

definition resume_pending ::
  "mcp_env \<Rightarrow> mcp_client \<Rightarrow> string \<Rightarrow> pydict \<Rightarrow> payment_required \<Rightarrow> payment_payload option mcp_cmd" where
  "resume_pending E C tool args required =
     (let fingerprint = mcp_request_fingerprint (mcp_ext E) C tool args (pr_resource required) in
      cbind (mcp_claim E C fingerprint) (\<lambda>claim.
      cbind (set_current (Some \<lparr>ma_client_id = mc_id C, ma_fingerprint = fingerprint, ma_claim = claim,
               ma_challenge = required\<rparr>)) (\<lambda>_. case at_payload (cl_attempt claim) of
          None \<Rightarrow> creturn None
        | Some payload \<Rightarrow>
          cbind (clift (validate_payload_for_challenge payload required)) (\<lambda>_. creturn (Some payload)))))"

text \<open>Equality of payloads in Python.\<close>

definition payload_eq :: "payment_payload \<Rightarrow> payment_payload \<Rightarrow> bool" where
  "payload_eq a b \<longleftrightarrow> p_x402_version a = p_x402_version b \<and> py_eq (PDict (p_payload a)) (PDict (p_payload b))
     \<and> requirements_eq (p_accepted a) (p_accepted b) \<and> py_eq (opt_dict (p_resource a)) (opt_dict (p_resource b))
     \<and> py_eq (opt_dict (p_extensions a)) (opt_dict (p_extensions b))"

definition own_attempt :: "mcp_client \<Rightarrow> mcp_attempt option \<Rightarrow> mcp_attempt option" where
  "own_attempt C current = (case current of
       Some a \<Rightarrow> if ma_client_id a = mc_id C then Some a else None
     | None \<Rightarrow> None)"

text \<open>The claim a paid call works under: that of the current attempt of this client, or its own.\<close>

definition paying_claim ::
  "mcp_env \<Rightarrow> mcp_client \<Rightarrow> string \<Rightarrow> pydict \<Rightarrow> payment_payload \<Rightarrow> (string \<times> attempt_claim) mcp_cmd" where
  "paying_claim E C tool args payload =
     cbind (cget mx_current) (\<lambda>current. case own_attempt C current of
         Some a \<Rightarrow>
           if mcp_request_fingerprint (mcp_ext E) C tool args (pr_resource (ma_challenge a)) \<noteq> ma_fingerprint a
             then craise (ValueError ''MCP payment attempt context mismatch'')
           else cbind (clift (validate_payload_for_challenge payload (ma_challenge a))) (\<lambda>_.
             creturn (ma_fingerprint a, ma_claim a))
       | None \<Rightarrow>
           let fingerprint = mcp_request_fingerprint (mcp_ext E) C tool args (p_resource payload) in
           cbind (mcp_claim E C fingerprint) (\<lambda>claim. creturn (fingerprint, claim)))"

definition winning_payload ::
  "mcp_env \<Rightarrow> string \<Rightarrow> attempt_claim \<Rightarrow> payment_payload \<Rightarrow> payment_payload mcp_cmd" where
  "winning_payload E fingerprint claim payload = (case at_payload (cl_attempt claim) of
       None \<Rightarrow>
         cbind (on_payer (on_journal (me_payer E) (persist_attempt_payload (pe_extract (me_payer E)) fingerprint
             (cl_owner_token claim) payload (pe_extract (me_payer E) payload)))) (\<lambda>attempt. case at_payload attempt of
             None \<Rightarrow> craise (RuntimeError ''Persisted MCP payment payload disappeared'')
           | Some winner \<Rightarrow> creturn winner)
     | Some winner \<Rightarrow>
         if \<not> payload_eq winner payload
           then craise (ValueError ''A different signed payload is already bound to this MCP request'')
         else creturn winner)"

definition mcp_send :: "mcp_env \<Rightarrow> tool_call \<Rightarrow> tool_result mcp_cmd" where
  "mcp_send E call = (\<lambda>s.
     let p = others_act (me_payer E) (mx_payer s) in
     (case me_call E (map fst (mx_calls s)) call of Inl e \<Rightarrow> Raise e | Inr r \<Rightarrow> Ok r,
      s\<lparr>mx_payer := p, mx_calls := mx_calls s @ [(call, ps_journal (mx_payer s), ps_journal p)]\<rparr>))"

definition mcp_receipt ::
  "mcp_env \<Rightarrow> string \<Rightarrow> payment_payload \<Rightarrow> string \<Rightarrow> settle_response \<Rightarrow> int \<Rightarrow> rat \<Rightarrow> receipt_record" where
  "mcp_receipt E tool payload fingerprint settlement status_code now =
     \<lparr>rc_created_at = pe_iso (me_payer E) now,
      rc_url = (case p_resource payload of Some d \<Rightarrow> py_str (dget d ''url'') | None \<Rightarrow> ''mcp://tool/'' @ tool),
      rc_method = ''MCP:'' @ tool, rc_status_code = status_code, rc_state = outcome_state settlement,
      rc_settlement = settlement, rc_accepted = p_accepted payload, rc_fingerprint = Some fingerprint\<rparr>"

definition record_mcp_outcome ::
  "mcp_env \<Rightarrow> string \<Rightarrow> payment_payload \<Rightarrow> string \<Rightarrow> settle_response \<Rightarrow> int \<Rightarrow> unit mcp_cmd" where
  "record_mcp_outcome E tool payload fingerprint settlement status_code =
     on_payer (cbind now_of (\<lambda>now.
       cbind (record_receipt (me_payer E) (mcp_receipt E tool payload fingerprint settlement status_code now))
         (\<lambda>_. creturn ())))"

text \<open>\<open>except BaseException\<close> around the paid call.\<close>

definition mcp_failure :: "mcp_env \<Rightarrow> string \<Rightarrow> payment_payload \<Rightarrow> string \<Rightarrow> exn \<Rightarrow> 'a mcp_cmd" where
  "mcp_failure E tool winner fingerprint e =
     cbind (clift (pending_settlement (me_payer E) winner)) (\<lambda>settlement.
     cbind (record_mcp_outcome E tool winner fingerprint settlement 0) (\<lambda>_. craise e))"

text \<open>What a result becomes: without a successful settlement it carries no content.\<close>

definition settled_result :: "settle_response \<Rightarrow> tool_result \<Rightarrow> tool_result" where
  "settled_result settlement result =
     (let answered = result\<lparr>tr_payment_response := Some settlement\<rparr> in
      if sr_success settlement then answered
      else answered\<lparr>tr_content := [], tr_is_error := True, tr_raw_result := PNone\<rparr>)"

definition conclude_call ::
  "mcp_env \<Rightarrow> string \<Rightarrow> payment_payload \<Rightarrow> string \<Rightarrow> tool_result \<Rightarrow> tool_result mcp_cmd" where
  "conclude_call E tool winner fingerprint result =
     cbind (clift (case tr_payment_response result of
         Some settlement \<Rightarrow> Inr settlement
       | None \<Rightarrow> pending_settlement (me_payer E) winner)) (\<lambda>settlement.
     cbind (record_mcp_outcome E tool winner fingerprint settlement (if sr_success settlement then 200 else 402)) (\<lambda>_.
       creturn (settled_result settlement result)))"

definition call_tool_with_payment ::
  "mcp_env \<Rightarrow> mcp_client \<Rightarrow> string \<Rightarrow> pydict \<Rightarrow> payment_payload \<Rightarrow> tool_result mcp_cmd" where
  "call_tool_with_payment E C tool args payload =
     cbind (paying_claim E C tool args payload) (\<lambda>(fingerprint, claim).
     cbind (winning_payload E fingerprint claim payload) (\<lambda>winner.
       ctry_else (mcp_send E \<lparr>tc_name = tool, tc_args = args, tc_payload = winner\<rparr>)
         (mcp_failure E tool winner fingerprint)
         (conclude_call E tool winner fingerprint)))"


section \<open>A call with its payment\<close>

text \<open>\<open>except BaseException\<close> of \<open>call_tool\<close>: the claim of this client's attempt is given back.\<close>

definition release_attempt :: "mcp_env \<Rightarrow> mcp_client \<Rightarrow> exn \<Rightarrow> 'a mcp_cmd" where
  "release_attempt E C e =
     cbind (cget mx_current) (\<lambda>current.
     cbind (case own_attempt C current of
         Some a \<Rightarrow> on_payer (on_journal (me_payer E)
             (release_claim (pe_extract (me_payer E)) (ma_fingerprint a) (cl_owner_token (ma_claim a))))
       | None \<Rightarrow> creturn ()) (\<lambda>_.
       craise e))"

text \<open>\<open>finally: _CURRENT_ATTEMPT.reset(token)\<close>.\<close>

definition resetting :: "mcp_attempt option \<Rightarrow> 'a mcp_cmd \<Rightarrow> 'a mcp_cmd" where
  "resetting outer m = (\<lambda>s. case m s of (r, s') \<Rightarrow> (r, s'\<lparr>mx_current := outer\<rparr>))"

definition call_tool ::
  "mcp_env \<Rightarrow> mcp_client
     \<Rightarrow> ((string \<Rightarrow> pydict \<Rightarrow> payment_required \<Rightarrow> payment_payload option mcp_cmd)
         \<Rightarrow> (string \<Rightarrow> pydict \<Rightarrow> payment_payload \<Rightarrow> tool_result mcp_cmd) \<Rightarrow> string \<Rightarrow> pydict \<Rightarrow> tool_result mcp_cmd)
     \<Rightarrow> string \<Rightarrow> pydict \<Rightarrow> tool_result mcp_cmd" where
  "call_tool E C upstream tool args =
     cbind (cget mx_current) (\<lambda>outer.
       resetting outer
         (cbind (set_current None) (\<lambda>_.
            ctry (upstream (resume_pending E C) (call_tool_with_payment E C) tool args) (release_attempt E C))))"

text \<open>\<open>_call_mcp_tool\<close>: a raw MCP session takes keyword arguments, any other client the parameters
  themselves. \<open>upstream\<close> and \<open>raw_call\<close> are the two clients; \<open>convert\<close> is the SDK's conversion and
  \<open>raw_meta\<close> the metadata of a raw result.\<close>

record 'm mcp_reply =
  rp_result :: 'm
  rp_meta :: pyval

definition call_mcp_tool ::
  "bool \<Rightarrow> (pydict \<Rightarrow> ('s, 'm mcp_reply) cmd) \<Rightarrow> (pyval \<Rightarrow> pyval \<Rightarrow> pyval \<Rightarrow> ('s, 'raw) cmd) \<Rightarrow> ('raw \<Rightarrow> 'm mcp_reply)
     \<Rightarrow> ('raw \<Rightarrow> pyval) \<Rightarrow> pydict \<Rightarrow> ('s, 'm mcp_reply) cmd" where
  "call_mcp_tool takes_arguments upstream raw_call convert raw_meta params =
     (if \<not> takes_arguments then upstream params
      else
        cbind (clift (dindex params ''name'')) (\<lambda>tool.
        cbind (raw_call tool (dget_default params ''arguments'' (PDict [])) (dget params ''_meta'')) (\<lambda>raw.
          creturn (case raw_meta raw of
              PDict d \<Rightarrow> (convert raw)\<lparr>rp_meta := PDict d\<rparr>
            | _ \<Rightarrow> convert raw))))"

end
