(* ===== verification/PayerMcpCorrect.thy ===== *)
theory PayerMcpCorrect
  imports PayerMcp PayerCorrect
begin

text \<open>
  Correctness of paid tool calls: a paid call carries a payload that the journal holds, an unknown
  outcome stays recoverable, and a result has content only when its settlement succeeded.
\<close>

section \<open>Commands on the state of the payer\<close>

lemma on_payer_eq: "on_payer m s = (r, s') \<longleftrightarrow> (\<exists>p. m (mx_payer s) = (r, p) \<and> s' = s\<lparr>mx_payer := p\<rparr>)"
  by (auto simp: on_payer_def split: prod.splits)

lemma keeps_on_payer: "keeps mx_calls (on_payer m)" "keeps mx_current (on_payer m)"
  by (simp_all add: keeps_def on_payer_def split: prod.splits)

definition mx_journal :: "mcp_state \<Rightarrow> journal" where
  "mx_journal s = ps_journal (mx_payer s)"

text \<open>The fingerprint that a paid call works under.\<close>

definition call_fingerprint :: "mcp_env \<Rightarrow> mcp_client \<Rightarrow> string \<Rightarrow> pydict \<Rightarrow> payment_payload \<Rightarrow> mcp_state \<Rightarrow> string" where
  "call_fingerprint E C tool args payload s = mcp_request_fingerprint (mcp_ext E) C tool args
     (case own_attempt C (mx_current s) of Some a \<Rightarrow> pr_resource (ma_challenge a) | None \<Rightarrow> p_resource payload)"

text \<open>The journal holds the payload that the current attempt was given.\<close>

definition attempt_backed :: "mcp_client \<Rightarrow> mcp_state \<Rightarrow> bool" where
  "attempt_backed C s \<longleftrightarrow> (\<forall>a q. own_attempt C (mx_current s) = Some a \<longrightarrow>
     at_payload (cl_attempt (ma_claim a)) = Some q \<longrightarrow> stores (ma_fingerprint a) q (mx_journal s))"

lemma resume_pending_backed:
  assumes "resume_pending E C tool args required s = (Ok hook, s')"
  shows "attempt_backed C s'" and "hook \<noteq> None \<longleftrightarrow> (\<exists>a q. mx_current s' = Some a \<and> at_payload (cl_attempt (ma_claim a)) = Some q)"
proof -
  let ?fp = "mcp_request_fingerprint (mcp_ext E) C tool args (pr_resource required)"
  obtain claim p where claim: "claim_or_wait (me_payer E) (pe_fuel (me_payer E)) ?fp (mc_payer_account C) (mc_recovery_scope C) (mx_payer s) = (Ok claim, p)"
    and s': "s' = s\<lparr>mx_payer := p, mx_current := Some \<lparr>ma_client_id = mc_id C, ma_fingerprint = ?fp, ma_claim = claim, ma_challenge = required\<rparr>\<rparr>"
    and hook: "hook = at_payload (cl_attempt claim)"
    using assms by (auto simp: resume_pending_def mcp_claim_def set_current_def cmodify_def Let_def run_simps on_payer_eq split: option.splits)
  show "attempt_backed C s'"
    using claim_or_wait_stores [OF claim] by (auto simp: attempt_backed_def own_attempt_def s' mx_journal_def)
  show "hook \<noteq> None \<longleftrightarrow> (\<exists>a q. mx_current s' = Some a \<and> at_payload (cl_attempt (ma_claim a)) = Some q)"
    by (auto simp: hook s')
qed


section \<open>The course of a paid call\<close>

text \<open>Before the call is sent: the claim, and the payload the journal holds.\<close>

lemma paying_claim_fails: "keeps mx_calls (paying_claim E C tool args payload)"
  unfolding paying_claim_def mcp_claim_def Let_def by (intro keeps_rules keeps_on_payer)

lemma keeps_winning: "keeps mx_calls (winning_payload E fp claim payload)"
  unfolding winning_payload_def by (intro keeps_rules keeps_on_payer)

lemma keeps_record_mcp: "keeps mx_calls (record_mcp_outcome E tool p fp st n)"
  unfolding record_mcp_outcome_def by (rule keeps_on_payer)

lemma keeps_mcp_tail: "keeps mx_calls (mcp_failure E tool p fp e)" "keeps mx_calls (conclude_call E tool p fp result)"
  unfolding mcp_failure_def conclude_call_def by (intro keeps_rules keeps_record_mcp)+

lemma paying_claim_Ok:
  assumes "paying_claim E C tool args payload s = (Ok (fp, claim), s')" and "attempt_backed C s"
    and "wf_journal (mx_journal s)"
  shows "fp = call_fingerprint E C tool args payload s"
    and "at_payload (cl_attempt claim) = Some q \<Longrightarrow> stores fp q (mx_journal s')"
    and "wf_journal (mx_journal s')"
    and "quiet (me_payer E) fp \<Longrightarrow> unpaid fp (mx_journal s) \<Longrightarrow> unpaid fp (mx_journal s')"
proof -
  have "fp = call_fingerprint E C tool args payload s \<and> (at_payload (cl_attempt claim) = Some q \<longrightarrow> stores fp q (mx_journal s'))
    \<and> wf_journal (mx_journal s') \<and> (quiet (me_payer E) fp \<longrightarrow> unpaid fp (mx_journal s) \<longrightarrow> unpaid fp (mx_journal s'))"
  proof (cases "own_attempt C (mx_current s)")
    case None
    let ?fp = "mcp_request_fingerprint (mcp_ext E) C tool args (p_resource payload)"
    obtain p where p: "claim_or_wait (me_payer E) (pe_fuel (me_payer E)) ?fp (mc_payer_account C) (mc_recovery_scope C) (mx_payer s) = (Ok claim, p)"
      and s': "s' = s\<lparr>mx_payer := p\<rparr>" and fp: "fp = ?fp"
      using assms(1) None by (auto simp: paying_claim_def mcp_claim_def Let_def run_simps on_payer_eq)
    have wf: "wf_journal (ps_journal (mx_payer s))"
      using assms(3) by (simp add: mx_journal_def)
    show ?thesis
      using claim_or_wait_stores [OF p] acts_open(1,2) [OF acts_claim_or_wait p wf] None
      by (simp add: fp s' call_fingerprint_def mx_journal_def)
  next
    case (Some a)
    then show ?thesis
      using assms by (auto simp: paying_claim_def run_simps call_fingerprint_def attempt_backed_def split: if_splits)
  qed
  then show "fp = call_fingerprint E C tool args payload s"
    and "at_payload (cl_attempt claim) = Some q \<Longrightarrow> stores fp q (mx_journal s')"
    and "wf_journal (mx_journal s')"
    and "quiet (me_payer E) fp \<Longrightarrow> unpaid fp (mx_journal s) \<Longrightarrow> unpaid fp (mx_journal s')"
    by blast+
qed

lemma winning_payload_Ok:
  assumes "winning_payload E fp claim payload s = (Ok w, s')" and "wf_journal (mx_journal s)"
    and "\<And>q. at_payload (cl_attempt claim) = Some q \<Longrightarrow> stores fp q (mx_journal s)"
  shows "stores fp w (mx_journal s')" and "wf_journal (mx_journal s')"
    and "quiet (me_payer E) fp \<Longrightarrow> unpaid fp (mx_journal s) \<Longrightarrow> unpaid fp (mx_journal s')"
proof -
  have "stores fp w (mx_journal s') \<and> wf_journal (mx_journal s')
    \<and> (quiet (me_payer E) fp \<longrightarrow> unpaid fp (mx_journal s) \<longrightarrow> unpaid fp (mx_journal s'))"
  proof (cases "at_payload (cl_attempt claim)")
    case None
    let ?m = "on_journal (me_payer E) (persist_attempt_payload (pe_extract (me_payer E)) fp
             (cl_owner_token claim) payload (pe_extract (me_payer E) payload))"
    obtain attempt p where m: "?m (mx_payer s) = (Ok attempt, p)" and s': "s' = s\<lparr>mx_payer := p\<rparr>" "at_payload attempt = Some w"
      using assms(1) None by (auto simp: winning_payload_def run_simps on_payer_eq split: option.splits)
    have acts: "acts (me_payer E) (open_event fp) ?m"
      by (rule acts_on_journal [where e = "EPersist fp (cl_owner_token claim) payload (pe_extract (me_payer E) payload)"]) simp_all
    have wf: "wf_journal (ps_journal (mx_payer s))"
      using assms(2) by (simp add: mx_journal_def)
    have "stores fp w (ps_journal p)"
      using m s'(2) wf by (auto simp: on_journal_Ok dest!: persist_stores simp: wf_journal_run)
    then show ?thesis
      using acts_open(1,2) [OF acts m wf] by (simp add: s'(1) mx_journal_def)
  next
    case (Some q)
    then show ?thesis
      using assms by (auto simp: winning_payload_def run_simps split: if_splits)
  qed
  then show "stores fp w (mx_journal s')" and "wf_journal (mx_journal s')"
    and "quiet (me_payer E) fp \<Longrightarrow> unpaid fp (mx_journal s) \<Longrightarrow> unpaid fp (mx_journal s')"
    by blast+
qed

lemma mcp_call_cases:
  assumes "call_tool_with_payment E C tool args payload s = (r, s')" and "attempt_backed C s" and "wf_journal (mx_journal s)"
  obtains (unsent) "mx_calls s' = mx_calls s" "\<And>v. r \<noteq> Ok v"
  | (sent) w s1 where "stores (call_fingerprint E C tool args payload s) w (mx_journal s1)" "wf_journal (mx_journal s1)"
      "quiet (me_payer E) (call_fingerprint E C tool args payload s) \<Longrightarrow>
         unpaid (call_fingerprint E C tool args payload s) (mx_journal s) \<Longrightarrow>
         unpaid (call_fingerprint E C tool args payload s) (mx_journal s1)"
      "mx_calls s1 = mx_calls s" 
      "ctry_else (mcp_send E \<lparr>tc_name = tool, tc_args = args, tc_payload = w\<rparr>)
         (mcp_failure E tool w (call_fingerprint E C tool args payload s))
         (conclude_call E tool w (call_fingerprint E C tool args payload s)) s1 = (r, s')"
  using assms(1) unfolding call_tool_with_payment_def
proof (cases rule: cbind_cases)
  case outer: (returned x s0)
  obtain fp claim where x: "x = (fp, claim)" by fastforce
  note claim = paying_claim_Ok [OF outer(1) [unfolded x] assms(2,3)]
  from outer(2) show ?thesis
    unfolding x prod.case
  proof (cases rule: cbind_cases)
    case (returned w s1)
    note win = winning_payload_Ok [OF returned(1) claim(3,2)]
    show ?thesis
      using sent [of w s1] win claim(1,4) returned(2) keepsD [OF paying_claim_fails outer(1)] keepsD [OF keeps_winning returned(1)]
      by simp
  next
    case fails
    then show ?thesis
      using unsent keepsD [OF paying_claim_fails outer(1)] keepsD [OF keeps_winning] by metis
  qed
next
  case fails
  then show ?thesis using unsent keepsD [OF paying_claim_fails] by blast
qed

text \<open>The journal when the call is sent.\<close>

abbreviation journal_sent :: "mcp_env \<Rightarrow> mcp_state \<Rightarrow> journal" where
  "journal_sent E s \<equiv> ps_journal (others_act (me_payer E) (mx_payer s))"

lemma mcp_send_result:
  assumes "mcp_send E call s = (r, s')"
  shows "mx_calls s' = mx_calls s @ [(call, mx_journal s, journal_sent E s)]" and "mx_journal s' = journal_sent E s"
    and "r \<noteq> Diverge" and "r = Ok result \<Longrightarrow> me_call E (map fst (mx_calls s)) call = Inr result"
    and "mx_current s' = mx_current s"
  using assms by (auto simp: mcp_send_def Let_def mx_journal_def split: sum.splits)

lemma mcp_failure_fails: "mcp_failure E tool w fp e s \<noteq> (Ok v, s')"
  by (simp add: mcp_failure_def run_simps)

text \<open>After the payload was sent.\<close>

lemma sent_call_cases:
  assumes "ctry_else (mcp_send E call) (mcp_failure E tool w fp) (conclude_call E tool w fp) s = (r, s')"
  obtains (raised) e s1 where "mx_calls s1 = mx_calls s @ [(call, mx_journal s, journal_sent E s)]"
      "mx_journal s1 = journal_sent E s" "mcp_failure E tool w fp e s1 = (r, s')"
  | (answered) result s1 where "mx_calls s1 = mx_calls s @ [(call, mx_journal s, journal_sent E s)]"
      "mx_journal s1 = journal_sent E s"
      "me_call E (map fst (mx_calls s)) call = Inr result" "conclude_call E tool w fp result s1 = (r, s')"
proof -
  obtain x s1 where x: "mcp_send E call s = (x, s1)" by fastforce
  note send = mcp_send_result [OF x]
  show thesis
    using assms x send raised answered by (cases x) (auto simp: ctry_else_def)
qed

lemma sent_call_log:
  assumes "ctry_else (mcp_send E call) (mcp_failure E tool w fp) (conclude_call E tool w fp) s = (r, s')"
  shows "mx_calls s' = mx_calls s @ [(call, mx_journal s, journal_sent E s)]"
  using assms
proof (cases rule: sent_call_cases)
  case (raised e s1)
  then show ?thesis using keepsD [OF keeps_mcp_tail(1) raised(3)] by simp
next
  case (answered result s1)
  then show ?thesis using keepsD [OF keeps_mcp_tail(2) answered(4)] by simp
qed


section \<open>Properties\<close>

text \<open>A paid call sends at most one call to the server, with a payload that the journal holds.\<close>

lemma paid_call_durable:
  assumes "call_tool_with_payment E C tool args payload s = (r, s')"
    and "attempt_backed C s" and "wf_journal (mx_journal s)"
  shows "\<exists>l. mx_calls s' = mx_calls s @ l \<and> length l \<le> 1
    \<and> (\<forall>(call, j0, j) \<in> set l. tc_name call = tool \<and> tc_args call = args
        \<and> sent_durably (me_payer E) (call_fingerprint E C tool args payload s) (tc_payload call) j0 j)"
  using assms
proof (cases rule: mcp_call_cases)
  case unsent
  then show ?thesis by simp
next
  case (sent w s1)
  then show ?thesis
    using sent_call_log [OF sent(5)] sent_durablyI [of _ w "mx_payer s1" "me_payer E"] by (auto simp: mx_journal_def)
qed

lemma record_mcp_run:
  assumes "record_mcp_outcome E tool w fp st n s = (r, s')"
  obtains x where "record_receipt (me_payer E) (mcp_receipt E tool w fp st n (jr_clock (mx_journal s))) (mx_payer s) = (x, mx_payer s')"
    "\<And>b. x = Ok b \<Longrightarrow> r = Ok ()" "(\<forall>b. x \<noteq> Ok b) \<Longrightarrow> \<forall>v. r \<noteq> Ok v"
  using assms by (auto simp: record_mcp_outcome_def on_payer_eq now_of_def cget_def cbind_def creturn_def mx_journal_def
      split: prod.splits outcome.splits)

lemma record_mcp_keeps:
  assumes "record_mcp_outcome E tool w fp st n s = (r, s')" and "wf_journal (mx_journal s)"
    and "quiet (me_payer E) fp" and "holds_payload fp w (mx_journal s)"
    and "outcome_state st = ReceiptPending \<or> (\<forall>v. r \<noteq> Ok v)"
  shows "holds_payload fp w (mx_journal s')"
proof -
  let ?rc = "mcp_receipt E tool w fp st n (jr_clock (mx_journal s))"
  obtain x where x: "record_receipt (me_payer E) ?rc (mx_payer s) = (x, mx_payer s')" "\<And>b. x = Ok b \<Longrightarrow> r = Ok ()"
    using record_mcp_run [OF assms(1)] by metis
  note j = assms(2,4) [unfolded mx_journal_def]
  show ?thesis
    unfolding mx_journal_def
  proof (cases "\<exists>b. x = Ok b")
    case True
    then have "outcome_state st = ReceiptPending"
      using assms(5) x(2) by auto
    then have "acts (me_payer E) (open_event fp) (record_receipt (me_payer E) ?rc)"
      unfolding record_receipt_def
      by (intro acts_on_journal [where e = "EOutcome ?rc TERMINAL_REUSE_SECONDS"]) (simp_all add: mcp_receipt_def)
    from acts_open(3) [OF this x(1) j(1) assms(3) j(2)] show "holds_payload fp w (ps_journal (mx_payer s'))" .
  next
    case False
    then show "holds_payload fp w (ps_journal (mx_payer s'))"
      using record_receipt_raise [OF x(1) _ j(1) assms(3) j(2)] by blast
  qed
qed

lemma settled_result_response [simp]: "tr_payment_response (settled_result st result) = Some st"
  by (simp add: settled_result_def Let_def)

lemma pending_settlement_state: "pending_settlement P w = Inr st \<Longrightarrow> outcome_state st = ReceiptPending \<and> \<not> sr_success st"
  by (auto simp: pending_settlement_def outcome_state_def rbind_eq_Inr)

text \<open>A paid call leaves the index of the journal well-formed.\<close>

abbreviation mcp_wf :: "mcp_state \<Rightarrow> bool" where
  "mcp_wf s \<equiv> wf_journal (mx_journal s)"

lemma wf_on_payer:
  assumes "acts E P m"
  shows "advances mcp_wf (on_payer m)"
  unfolding advances_def
proof
  fix s :: mcp_state
  obtain r p where m: "m (mx_payer s) = (r, p)" by fastforce
  from actsD [OF assms m] obtain es where "ps_journal p = journal_run (pe_extract E) es (mx_journal s)"
    unfolding mx_journal_def by blast
  then show "mcp_wf s \<le> mcp_wf (snd (on_payer m s))"
    using m by (simp add: on_payer_def mx_journal_def wf_journal_run)
qed

lemma wf_journal_step_commands:
  "advances mcp_wf (on_payer (on_journal (me_payer E) (persist_attempt_payload (pe_extract (me_payer E)) fp owner p i)))"
  "advances mcp_wf (on_payer (on_journal (me_payer E) (record_outcome (pe_extract (me_payer E)) rc reuse)))"
  by (rule wf_on_payer [OF acts_on_journal [where P = "\<lambda>_. True" and e = "EPersist fp owner p i"]]; simp)
    (rule wf_on_payer [OF acts_on_journal [where P = "\<lambda>_. True" and e = "EOutcome rc reuse"]]; simp)

lemma on_payer_cbind: "on_payer (cbind m f) = cbind (on_payer m) (\<lambda>x. on_payer (f x))"
  by (auto simp: fun_eq_iff on_payer_def cbind_def split: prod.splits outcome.splits)

lemma on_payer_leaf: "on_payer (creturn x) = creturn x" "on_payer (cget g) = cget (\<lambda>s. g (mx_payer s))"
  by (simp_all add: fun_eq_iff on_payer_def creturn_def cget_def)

lemma wf_record_mcp: "advances mcp_wf (record_mcp_outcome E tool p fp st n)"
  unfolding record_mcp_outcome_def record_receipt_def now_of_def on_payer_cbind on_payer_leaf
  by (intro advances_rules wf_journal_step_commands)

lemma wf_mcp_send: "advances mcp_wf (mcp_send E call)"
  using others_act_open(1) by (auto simp: advances_def mcp_send_def Let_def mx_journal_def)

lemma wf_mcp_claim: "advances mcp_wf (mcp_claim E C fp)"
  unfolding mcp_claim_def by (rule wf_on_payer [OF acts_claim_or_wait])

lemma wf_call_tool_with_payment: "advances mcp_wf (call_tool_with_payment E C tool args payload)"
  unfolding call_tool_with_payment_def paying_claim_def winning_payload_def mcp_failure_def conclude_call_def Let_def split_def
  by (intro advances_rules wf_mcp_send wf_record_mcp wf_mcp_claim wf_journal_step_commands)

lemma paid_call_recoverable:
  assumes "call_tool_with_payment E C tool args payload s = (r, s')"
    and "attempt_backed C s" and "wf_journal (mx_journal s)"
    and "fp = call_fingerprint E C tool args payload s" and "quiet (me_payer E) fp" and "unpaid fp (mx_journal s)"
    and "\<And>v st. r = Ok v \<Longrightarrow> tr_payment_response v = Some st \<Longrightarrow> outcome_state st = ReceiptPending"
  shows "\<exists>l. mx_calls s' = mx_calls s @ l \<and> (\<forall>(call, j) \<in> set l. holds_payload fp (tc_payload call) (mx_journal s'))"
  using assms(1-3)
proof (cases rule: mcp_call_cases)
  case unsent
  then show ?thesis by simp
next
  case (sent w s1)
  have "holds_payload fp w (mx_journal s1)"
    using sent(1,3) assms(4-6) by (simp add: stores_holds)
  then have held: "holds_payload fp w (journal_sent E s1)" "wf_journal (journal_sent E s1)"
    using others_act_open(1,3) assms(5) sent(2) by (simp_all add: mx_journal_def)
  have "holds_payload fp w (mx_journal s')"
    using sent(5) [folded assms(4)]
  proof (cases rule: sent_call_cases)
    case (raised e s2)
    from raised(3) show ?thesis
      unfolding mcp_failure_def
    proof (cases rule: clift_cases)
      case (returned st)
      then obtain x where x: "record_mcp_outcome E tool w fp st 0 s2 = (x, s')"
        by (auto simp: cbind_def craise_def split: prod.splits outcome.splits)
      show ?thesis
        by (rule record_mcp_keeps [OF x]) (use raised(2) held assms(5) pending_settlement_state [OF returned(1)] in simp_all)
    qed (use raised(2) held in simp)
  next
    case (answered result s2)
    from answered(4) show ?thesis
      unfolding conclude_call_def
    proof (cases rule: clift_cases)
      case (returned st)
      let ?n = "if sr_success st then 200 else 402 :: int"
      obtain x where x: "record_mcp_outcome E tool w fp st ?n s2 = (x, s')"
        and r: "\<And>b. x = Ok b \<Longrightarrow> r = Ok (settled_result st result)"
        using returned(2) by (auto simp: cbind_def creturn_def split: prod.splits outcome.splits)
      have "outcome_state st = ReceiptPending \<or> (\<forall>v. x \<noteq> Ok v)"
        using r assms(7) [of "settled_result st result" st] by auto
      then show ?thesis
        by (intro record_mcp_keeps [OF x]) (use answered(2) held assms(5) in simp_all)
    qed (use answered(2) held in simp)
  qed
  then show ?thesis
    using sent_call_log [OF sent(5)] sent(4) by simp
qed

section \<open>A tool call with its payment\<close>

text \<open>What the SDK's \<open>call_tool\<close> is documented to do with the hook and the paying method it is given: the
  tool is called without payment first; when the server answers with a challenge, the hook is asked,
  and the payment it resumes, or else one that the payment client creates, is handed to the paying
  method once. \<open>probe\<close> and \<open>create\<close> are the SDK's own steps. They have no access to the receipt store
  nor to this module's context variable and send no paid call.\<close>

definition neutral :: "'a mcp_cmd \<Rightarrow> bool" where
  "neutral m \<longleftrightarrow> keeps mx_journal m \<and> keeps mx_calls m \<and> keeps mx_current m"

type_synonym sdk_call_tool =
  "(string \<Rightarrow> pydict \<Rightarrow> payment_required \<Rightarrow> payment_payload option mcp_cmd)
     \<Rightarrow> (string \<Rightarrow> pydict \<Rightarrow> payment_payload \<Rightarrow> tool_result mcp_cmd) \<Rightarrow> string \<Rightarrow> pydict \<Rightarrow> tool_result mcp_cmd"

definition sdk_calls ::
  "(string \<Rightarrow> pydict \<Rightarrow> (tool_result + payment_required) mcp_cmd)
     \<Rightarrow> (string \<Rightarrow> pydict \<Rightarrow> payment_required \<Rightarrow> payment_payload mcp_cmd) \<Rightarrow> sdk_call_tool \<Rightarrow> bool" where
  "sdk_calls probe create upstream \<longleftrightarrow>
     (\<forall>tool args. neutral (probe tool args) \<and> (\<forall>required. neutral (create tool args required))) \<and>
     (\<forall>hook pay tool args. upstream hook pay tool args =
        cbind (probe tool args) (\<lambda>answer. case answer of
            Inl result \<Rightarrow> creturn result
          | Inr required \<Rightarrow>
            cbind (hook tool args required) (\<lambda>resumed.
            cbind (case resumed of Some payment \<Rightarrow> creturn payment | None \<Rightarrow> create tool args required)
              (pay tool args))))"

text \<open>The challenge that the server answers the unpaid call of \<open>call_tool\<close> with.\<close>

definition challenged ::
  "(string \<Rightarrow> pydict \<Rightarrow> (tool_result + payment_required) mcp_cmd) \<Rightarrow> string \<Rightarrow> pydict \<Rightarrow> mcp_state
     \<Rightarrow> payment_required \<Rightarrow> bool" where
  "challenged probe tool args s required \<longleftrightarrow> fst (probe tool args (s\<lparr>mx_current := None\<rparr>)) = Ok (Inr required)"

lemma keeps_resume_pending: "keeps mx_calls (resume_pending E C tool args required)"
proof -
  have "keeps mx_calls (set_current a)" for a
    by (simp add: keeps_def set_current_def cmodify_def)
  then show ?thesis
    unfolding resume_pending_def mcp_claim_def Let_def by (intro keeps_rules keeps_on_payer)
qed

lemma resume_pending_Ok:
  assumes "resume_pending E C tool args required s = (Ok hook, s')" and "mcp_wf s"
  shows "\<exists>a. mx_current s' = Some a \<and> own_attempt C (Some a) = Some a \<and> ma_challenge a = required"
    and "mcp_wf s'" and "quiet (me_payer E) (mcp_request_fingerprint (mcp_ext E) C tool args (pr_resource required)) \<Longrightarrow>
      unpaid (mcp_request_fingerprint (mcp_ext E) C tool args (pr_resource required)) (mx_journal s) \<Longrightarrow>
      unpaid (mcp_request_fingerprint (mcp_ext E) C tool args (pr_resource required)) (mx_journal s')"
proof -
  let ?fp = "mcp_request_fingerprint (mcp_ext E) C tool args (pr_resource required)"
  obtain claim p where claim: "claim_or_wait (me_payer E) (pe_fuel (me_payer E)) ?fp (mc_payer_account C) (mc_recovery_scope C) (mx_payer s) = (Ok claim, p)"
    and s': "s' = s\<lparr>mx_payer := p, mx_current := Some \<lparr>ma_client_id = mc_id C, ma_fingerprint = ?fp, ma_claim = claim, ma_challenge = required\<rparr>\<rparr>"
    using assms(1) by (auto simp: resume_pending_def mcp_claim_def set_current_def cmodify_def Let_def run_simps on_payer_eq split: option.splits)
  show "\<exists>a. mx_current s' = Some a \<and> own_attempt C (Some a) = Some a \<and> ma_challenge a = required"
    by (simp add: s' own_attempt_def)
  show "mcp_wf s'" "quiet (me_payer E) ?fp \<Longrightarrow> unpaid ?fp (mx_journal s) \<Longrightarrow> unpaid ?fp (mx_journal s')"
    using acts_open(1,2) [OF acts_claim_or_wait claim] assms(2) by (simp_all add: s' mx_journal_def)
qed

text \<open>The state in which the paying method is called: the attempt is this client's own.\<close>

definition ready_to_pay ::
  "mcp_env \<Rightarrow> mcp_client \<Rightarrow> string \<Rightarrow> pydict \<Rightarrow> payment_required \<Rightarrow> mcp_state \<Rightarrow> mcp_state \<Rightarrow> bool" where
  "ready_to_pay E C tool args required s s2 \<longleftrightarrow> mx_calls s2 = mx_calls s \<and> mcp_wf s2 \<and> attempt_backed C s2
     \<and> (let fp = mcp_request_fingerprint (mcp_ext E) C tool args (pr_resource required) in
        (\<forall>payload. call_fingerprint E C tool args payload s2 = fp)
        \<and> (quiet (me_payer E) fp \<longrightarrow> unpaid fp (mx_journal s) \<longrightarrow> unpaid fp (mx_journal s2)))"

lemma ready_to_payI:
  fixes s :: mcp_state
  assumes "neutral (probe tool args)" and "probe tool args s = (Ok (Inr required), s1)"
    and "resume_pending E C tool args required s1 = (Ok hook, s2)" and "neutral m" and "m s2 = (x, s3)" and "mcp_wf s"
  shows "ready_to_pay E C tool args required s s3"
proof -
  note n = assms(1,4) [unfolded neutral_def]
  have s1: "mx_journal s1 = mx_journal s" "mx_calls s1 = mx_calls s"
    using n(1) keepsD assms(2) by metis+
  have s3: "mx_journal s3 = mx_journal s2" "mx_calls s3 = mx_calls s2" "mx_current s3 = mx_current s2"
    using n(2) keepsD assms(5) by metis+
  note r = resume_pending_Ok [OF assms(3), unfolded s1, OF assms(6)]
  obtain a where a: "mx_current s3 = Some a" "own_attempt C (Some a) = Some a" "ma_challenge a = required"
    using r(1) s3(3) by auto
  have "attempt_backed C s3"
    using resume_pending_backed(1) [OF assms(3)] by (simp add: attempt_backed_def s3)
  then show ?thesis
    using r(2,3) keepsD [OF keeps_resume_pending assms(3)] s1 a
    by (simp add: ready_to_pay_def Let_def s3 call_fingerprint_def)
qed

lemma sdk_call_cases:
  assumes "sdk_calls probe create upstream" and "mcp_wf s"
    and "upstream (resume_pending E C) paying tool args s = (x, s')"
  obtains (unpaid_call) "mx_calls s' = mx_calls s"
  | (paid_call) required payload s2 where "fst (probe tool args s) = Ok (Inr required)"
      "ready_to_pay E C tool args required s s2" "paying tool args payload s2 = (x, s')"
proof -
  have n: "neutral (probe tool args)" "\<And>required. neutral (create tool args required)"
    using assms(1) by (simp_all add: sdk_calls_def)
  have run: "cbind (probe tool args) (\<lambda>answer. case answer of Inl result \<Rightarrow> creturn result
      | Inr required \<Rightarrow> cbind (resume_pending E C tool args required) (\<lambda>resumed.
          cbind (case resumed of Some payment \<Rightarrow> creturn payment | None \<Rightarrow> create tool args required) (paying tool args))) s = (x, s')"
    using assms(1,3) by (simp add: sdk_calls_def)
  note keep = n [unfolded neutral_def]
  from run show thesis
  proof (cases rule: cbind_cases)
    case outer: (returned answer s1)
    note s1 = keepsD [OF conjunct1 [OF conjunct2 [OF keep(1)]] outer(1)]
    show thesis
    proof (cases answer)
      case (Inl result)
      then show thesis using outer(2) s1 unpaid_call by (simp add: creturn_def)
    next
      case (Inr required)
      with outer(2) have "cbind (resume_pending E C tool args required) (\<lambda>resumed.
          cbind (case resumed of Some payment \<Rightarrow> creturn payment | None \<Rightarrow> create tool args required) (paying tool args)) s1 = (x, s')"
        by simp
      then show thesis
      proof (cases rule: cbind_cases)
        case hook: (returned resumed s2)
        let ?m = "case resumed of Some payment \<Rightarrow> creturn payment | None \<Rightarrow> create tool args required"
        have m: "neutral ?m"
          using n(2) by (simp add: neutral_def keeps_creturn split: option.splits)
        have ready: "ready_to_pay E C tool args required s s3" if "?m s2 = (y, s3)" for y s3
          by (rule ready_to_payI [where probe = probe and m = ?m, OF n(1) outer(1) [unfolded Inr] hook(1) m that assms(2)])
        from hook(2) show thesis
        proof (cases rule: cbind_cases)
          case (returned payload s3)
          then show thesis using paid_call [OF _ ready] outer(1) Inr by simp
        next
          case fails
          then show thesis using unpaid_call ready by (auto simp: ready_to_pay_def)
        qed
      next
        case fails
        then show thesis using unpaid_call keepsD [OF keeps_resume_pending] s1 by metis
      qed
    qed
  next
    case fails
    then show thesis using unpaid_call keepsD [OF conjunct1 [OF conjunct2 [OF keep(1)]]] by blast
  qed
qed


lemma call_tool_cases:
  assumes "call_tool E C upstream tool args s = (r, s')"
  obtains (kept) s3 where
      "upstream (resume_pending E C) (call_tool_with_payment E C) tool args (s\<lparr>mx_current := None\<rparr>) = (r, s3)"
      "\<And>e. r \<noteq> Raise e" "s' = s3\<lparr>mx_current := mx_current s\<rparr>"
  | (released) e s3 s4 where
      "upstream (resume_pending E C) (call_tool_with_payment E C) tool args (s\<lparr>mx_current := None\<rparr>) = (Raise e, s3)"
      "release_attempt E C e s3 = (r, s4)" "s' = s4\<lparr>mx_current := mx_current s\<rparr>"
proof -
  obtain x s3 where x: "upstream (resume_pending E C) (call_tool_with_payment E C) tool args (s\<lparr>mx_current := None\<rparr>) = (x, s3)"
    by fastforce
  show thesis
    using assms x kept released
    by (cases x) (auto simp: call_tool_def cbind_def cget_def resetting_def set_current_def cmodify_def ctry_def split: prod.splits)
qed

lemma keeps_release_attempt: "keeps mx_calls (release_attempt E C e)"
  unfolding release_attempt_def by (intro keeps_rules keeps_on_payer)

lemma release_attempt_fails: "release_attempt E C e s \<noteq> (Ok v, s')"
  by (simp add: release_attempt_def run_simps)

lemma release_attempt_holds:
  assumes "release_attempt E C e s = (r, s')" and "mcp_wf s" and "quiet (me_payer E) fp" and "holds_payload fp w (mx_journal s)"
  shows "holds_payload fp w (mx_journal s')"
proof (cases "own_attempt C (mx_current s)")
  case None
  then show ?thesis
    using assms(1,4) by (simp add: release_attempt_def cbind_cget cbind_step creturn_def craise_def)
next
  case (Some a)
  let ?m = "on_journal (me_payer E) (release_claim (pe_extract (me_payer E)) (ma_fingerprint a) (cl_owner_token (ma_claim a)))"
  obtain x p where m: "?m (mx_payer s) = (x, p)" by fastforce
  have acts: "acts (me_payer E) (open_event fp) ?m"
    by (rule acts_on_journal [where e = "ERelease (ma_fingerprint a) (cl_owner_token (ma_claim a))"]) simp_all
  have "holds_payload fp w (ps_journal p)"
    using acts_open(3) [OF acts m] assms(2-4) by (simp add: mx_journal_def)
  moreover have "mx_journal s' = ps_journal p"
    using assms(1) Some m
    by (cases x) (auto simp: release_attempt_def cbind_def cget_def on_payer_def craise_def mx_journal_def)
  ultimately show ?thesis by simp
qed

text \<open>What a call of the tool sends, and the state after it up to the release of a claim.\<close>

lemma call_tool_sends:
  assumes "sdk_calls probe create upstream" and "mcp_wf s" and "call_tool E C upstream tool args s = (r, s')"
  obtains (unpaid_call) "mx_calls s' = mx_calls s"
  | (paid_call) required payload s2 x s3 where "challenged probe tool args s required"
      "ready_to_pay E C tool args required s s2" "call_tool_with_payment E C tool args payload s2 = (x, s3)"
      "mx_calls s' = mx_calls s3"
      "x = r \<and> mx_journal s' = mx_journal s3 \<or> (\<forall>v. x \<noteq> Ok v) \<and>
         (\<exists>e s4. release_attempt E C e s3 = (r, s4) \<and> mx_journal s' = mx_journal s4)"
proof -
  let ?s = "s\<lparr>mx_current := None\<rparr>"
  have wf: "mcp_wf ?s"
    using assms(2) by (simp add: mx_journal_def)
  have ready: "ready_to_pay E C tool args required s s2" if "ready_to_pay E C tool args required ?s s2" for required s2
    using that by (simp add: ready_to_pay_def mx_journal_def)
  from assms(3) show thesis
  proof (cases rule: call_tool_cases)
    case (kept s3)
    from assms(1) wf kept(1) show thesis
    proof (cases rule: sdk_call_cases)
      case unpaid_call
      then show thesis using that(1) kept(3) by simp
    next
      case (paid_call required payload s2)
      show thesis
        by (rule that(2) [OF _ ready [OF paid_call(2)] paid_call(3)])
          (use paid_call(1) kept(3) in \<open>simp_all add: challenged_def mx_journal_def\<close>)
    qed
  next
    case (released e s3 s4)
    note calls = keepsD [OF keeps_release_attempt released(2)]
    from assms(1) wf released(1) show thesis
    proof (cases rule: sdk_call_cases)
      case unpaid_call
      then show thesis using that(1) released(3) calls by simp
    next
      case (paid_call required payload s2)
      have "mx_journal s' = mx_journal s4"
        using released(3) by (simp add: mx_journal_def)
      then show thesis
        by (intro that(2) [OF _ ready [OF paid_call(2)] paid_call(3)])
          (use paid_call(1) released calls in \<open>auto simp: challenged_def\<close>)
    qed
  qed
qed

text \<open>C17. No signed payment of a tool call crosses the network before it is durable: whatever the SDK and the
  server do, a call of the tool sends at most one paid call, and only for a challenge that the server
  answered the unpaid call with. The paid call repeats the tool and the arguments, and the shared journal
  held its payload for this very request after this client's last operation on it. Between that
  operation and the sending the other processes may do anything to the journal; at the moment of
  sending it still holds the payload unless the attempt was already paid, or another process has
  recorded the outcome of the payment in between. It is assumed that the SDK's own \<open>call_tool\<close> follows its
  documented course (\<open>sdk_calls\<close>).
\<close>

theorem mcp_sends_durable_payload:
  assumes "sdk_calls probe create upstream" and "wf_journal (ps_journal (mx_payer s))"
    and "call_tool E C upstream tool args s = (r, s')"
  shows "\<exists>l. mx_calls s' = mx_calls s @ l \<and> length l \<le> 1
    \<and> (\<forall>(call, j0, j) \<in> set l. tc_name call = tool \<and> tc_args call = args
        \<and> (\<exists>required. challenged probe tool args s required
            \<and> sent_durably (me_payer E) (mcp_request_fingerprint (mcp_ext E) C tool args (pr_resource required))
                (tc_payload call) j0 j))"
  using assms(1) assms(2) [folded mx_journal_def] assms(3)
proof (cases rule: call_tool_sends)
  case (paid_call required payload s2 x s3)
  note ready = paid_call(2) [unfolded ready_to_pay_def Let_def]
  from paid_call_durable [OF paid_call(3)] ready obtain l where
    l: "mx_calls s3 = mx_calls s2 @ l" "length l \<le> 1" "\<forall>(call, j0, j) \<in> set l. tc_name call = tool \<and> tc_args call = args
      \<and> sent_durably (me_payer E) (mcp_request_fingerprint (mcp_ext E) C tool args (pr_resource required)) (tc_payload call) j0 j"
    by auto
  then show ?thesis
    using paid_call(1,4) ready by (intro exI [of _ l]) auto
qed simp

text \<open>C18. A tool call whose payment has an unknown outcome can be resumed: when a call of the tool that sent a
  payload raises, its claim given back, or returns a pending result, the journal still holds that payload
  as the unsettled attempt of the request, so the next call sends the same signed transaction again. It
  is assumed that no other process records a terminal outcome for the request meanwhile and that the
  SDK's own \<open>call_tool\<close> follows its documented course.
\<close>

theorem mcp_unresolved_is_recoverable:
  assumes "sdk_calls probe create upstream" and "wf_journal (ps_journal (mx_payer s))"
    and "call_tool E C upstream tool args s = (r, s')" and "challenged probe tool args s required"
    and "fp = mcp_request_fingerprint (mcp_ext E) C tool args (pr_resource required)"
    and "quiet (me_payer E) fp" and "unpaid fp (ps_journal (mx_payer s))"
    and "\<And>v st. r = Ok v \<Longrightarrow> tr_payment_response v = Some st \<Longrightarrow> outcome_state st = ReceiptPending"
  shows "\<exists>l. mx_calls s' = mx_calls s @ l
    \<and> (\<forall>(call, j) \<in> set l. holds_payload fp (tc_payload call) (ps_journal (mx_payer s')))"
  using assms(1) assms(2) [folded mx_journal_def] assms(3)
proof (cases rule: call_tool_sends)
  case (paid_call required' payload s2 x s3)
  then have fp: "required' = required"
    using assms(4) by (simp add: challenged_def)
  note ready = paid_call(2) [unfolded ready_to_pay_def Let_def fp, folded assms(5)]
  have "outcome_state st = ReceiptPending" if "x = Ok v" "tr_payment_response v = Some st" for v st
    using paid_call(5) that assms(8) by auto
  then obtain l where l: "mx_calls s3 = mx_calls s2 @ l" "\<forall>(call, j) \<in> set l. holds_payload fp (tc_payload call) (mx_journal s3)"
    using paid_call_recoverable [OF paid_call(3), of fp] ready assms(6,7) by (auto simp: mx_journal_def)
  have "mcp_wf s3"
    using advancesD [OF wf_call_tool_with_payment paid_call(3)] ready by simp
  then have "holds_payload fp w (mx_journal s')" if "holds_payload fp w (mx_journal s3)" for w
    using paid_call(5) that release_attempt_holds assms(6) by metis
  then show ?thesis
    using l paid_call(4) ready by (intro exI [of _ l]) (auto simp: mx_journal_def)
qed simp

text \<open>C19. Content is only released for settled payments: the result of a paid call names its settlement; if
  the settlement succeeded, it is the server's own answer to the payload the call sent and the journal
  holds a paid receipt for this call and this transaction; otherwise the result is an error without
  content, whatever the server sent along.
\<close>

theorem mcp_result_is_settled:
  assumes "call_tool_with_payment E C tool args payload s = (Ok v, s')"
    and "attempt_backed C s" and "wf_journal (ps_journal (mx_payer s))"
  shows "\<exists>st. tr_payment_response v = Some st \<and>
    (if sr_success st
     then (\<exists>h w result. me_call E h \<lparr>tc_name = tool, tc_args = args, tc_payload = w\<rparr> = Inr result
             \<and> tr_payment_response result = Some st \<and> v = result)
       \<and> (\<exists>e \<in> set (jr_receipts (ps_journal (mx_payer s'))). rc_state e = ReceiptPaid
             \<and> rc_fingerprint e = Some (call_fingerprint E C tool args payload s)
             \<and> sr_transaction (rc_settlement e) = sr_transaction st)
     else tr_content v = [] \<and> tr_is_error v \<and> tr_raw_result v = PNone)"
  using assms(1,2) assms(3) [folded mx_journal_def]
proof (cases rule: mcp_call_cases)
  case (sent w s1)
  let ?fp = "call_fingerprint E C tool args payload s"
  from sent(5) show ?thesis
  proof (cases rule: sent_call_cases)
    case (answered result s2)
    then obtain st s3 where st: "(case tr_payment_response result of Some t \<Rightarrow> Inr t | None \<Rightarrow> pending_settlement (me_payer E) w) = Inr st"
      and rec: "record_mcp_outcome E tool w ?fp st (if sr_success st then 200 else 402) s2 = (Ok (), s')"
      and v: "v = settled_result st result"
      by (auto simp: conclude_call_def run_simps)
    have "tr_payment_response v = Some st"
      by (simp add: v)
    moreover have "tr_content v = [] \<and> tr_is_error v \<and> tr_raw_result v = PNone" if "\<not> sr_success st"
      using that by (simp add: v settled_result_def Let_def)
    moreover have "tr_payment_response result = Some st \<and> v = result" if success: "sr_success st"
      using st success pending_settlement_state by (auto simp: v settled_result_def split: option.splits)
    moreover have "\<exists>e \<in> set (jr_receipts (ps_journal (mx_payer s'))). rc_state e = ReceiptPaid
        \<and> rc_fingerprint e = Some ?fp \<and> sr_transaction (rc_settlement e) = sr_transaction st" if success: "sr_success st"
    proof -
      let ?rc = "mcp_receipt E tool w ?fp st (if sr_success st then 200 else 402) (jr_clock (mx_journal s2))"
      obtain b where "record_receipt (me_payer E) ?rc (mx_payer s2) = (Ok b, mx_payer s')"
        using record_mcp_run [OF rec] by metis
      then obtain j where "record_outcome (pe_extract (me_payer E)) ?rc TERMINAL_REUSE_SECONDS j = (Ok b, ps_journal (mx_payer s'))"
        by (auto simp: record_receipt_def on_journal_Ok)
      from record_paid_present [OF this] show ?thesis
        using success by (simp add: mcp_receipt_def outcome_state_def)
    qed
    ultimately show ?thesis
      using answered(3) by auto
  next
    case (raised e s2)
    then show ?thesis using mcp_failure_fails by metis
  qed
next
  case unsent
  then show ?thesis by blast
qed

section \<open>Witnesses\<close>

definition sample_stored :: payment_attempt where
  "sample_stored = \<lparr>at_fingerprint = ''F1'', at_payer = ''rPayer'', at_recovery_scope = ''s'', at_owner_token = ''t'',
     at_state = Ready, at_lease_expires_at = 0, at_payload = Some sample_payload, at_identifier = None\<rparr>"

definition sample_mcp :: mcp_env where
  "sample_mcp = \<lparr>me_payer = sample_env, me_call = (\<lambda>_ _. Inr \<lparr>tr_content = [PStr ''data''], tr_is_error = False,
     tr_raw_result = PStr ''data'', tr_payment_response = Some sample_settled\<rparr>)\<rparr>"

definition sample_mcp_lossy :: mcp_env where
  "sample_mcp_lossy = sample_mcp\<lparr>me_call := (\<lambda>_ _. Inl (ClientError ''timeout''))\<rparr>"

definition sample_mcp_client :: mcp_client where
  "sample_mcp_client = \<lparr>mc_id = 1, mc_payer_account = ''rPayer'', mc_recovery_scope = ''s''\<rparr>"

definition sample_mcp_state :: mcp_state where
  "sample_mcp_state = \<lparr>mx_payer = sample_state\<lparr>ps_journal :=
       \<lparr>jr_index = Index [(''F1'', sample_stored)], jr_receipts = [], jr_clock = 1000\<rparr>\<rparr>,
     mx_calls = [], mx_current = Some \<lparr>ma_client_id = 1, ma_fingerprint = ''F1'',
       ma_claim = \<lparr>cl_attempt = sample_stored, cl_owner_token = None\<rparr>, ma_challenge = sample_required\<rparr>\<rparr>"

abbreviation sample_call :: "mcp_env \<Rightarrow> tool_result mcp_cmd" where
  "sample_call E \<equiv> call_tool_with_payment E sample_mcp_client ''t'' [] sample_payload"

lemma sample_mcp_parts:
  "attempt_backed sample_mcp_client sample_mcp_state" "wf_journal (ps_journal (mx_payer sample_mcp_state))"
  "own_attempt sample_mcp_client (mx_current sample_mcp_state) = mx_current sample_mcp_state"
  by (simp_all add: attempt_backed_def sample_mcp_state_def sample_mcp_client_def own_attempt_def stores_def attempt_of_def
      mx_journal_def sample_stored_def wf_journal_def wf_index_def)

lemma sample_mcp_fingerprint: "mcp_request_fingerprint sample_ext C tool args resource = ''F1''"
  by (simp add: mcp_request_fingerprint_def sample_ext_def del: json_dumps.simps json_dumps_list.simps json_dumps_items.simps)

lemma sample_valid: "validate_payload_for_challenge sample_payload sample_required = Inr ()"
  "payload_eq sample_payload sample_payload"
  by code_simp+

text \<open>The calls before sending.\<close>

lemma sample_call_eq:
  assumes "mcp_ext E = sample_ext"
  shows "sample_call E sample_mcp_state =
    ctry_else (mcp_send E \<lparr>tc_name = ''t'', tc_args = [], tc_payload = sample_payload\<rparr>)
      (mcp_failure E ''t'' sample_payload ''F1'') (conclude_call E ''t'' sample_payload ''F1'') sample_mcp_state"
proof -
  have "paying_claim E sample_mcp_client ''t'' [] sample_payload sample_mcp_state =
      (Ok (''F1'', \<lparr>cl_attempt = sample_stored, cl_owner_token = None\<rparr>), sample_mcp_state)"
    by (simp add: paying_claim_def cbind_cget sample_mcp_parts(3))
      (simp add: sample_mcp_state_def assms sample_mcp_fingerprint sample_valid(1) cbind_clift creturn_def)
  moreover have "winning_payload E ''F1'' \<lparr>cl_attempt = sample_stored, cl_owner_token = None\<rparr> sample_payload sample_mcp_state =
      (Ok sample_payload, sample_mcp_state)"
    by (simp add: winning_payload_def sample_stored_def sample_valid(2) creturn_def)
  ultimately show ?thesis
    by (simp add: call_tool_with_payment_def cbind_step)
qed

text \<open>The client of the SDK: the server answers the unpaid call with a challenge.\<close>

definition sample_probe :: "string \<Rightarrow> pydict \<Rightarrow> (tool_result + payment_required) mcp_cmd" where
  "sample_probe tool args = creturn (Inr sample_required)"

definition sample_create :: "string \<Rightarrow> pydict \<Rightarrow> payment_required \<Rightarrow> payment_payload mcp_cmd" where
  "sample_create tool args required = creturn sample_payload"

definition sample_upstream :: sdk_call_tool where
  "sample_upstream hook paying tool args =
     cbind (sample_probe tool args) (\<lambda>answer. case answer of
         Inl result \<Rightarrow> creturn result
       | Inr required \<Rightarrow>
         cbind (hook tool args required) (\<lambda>resumed.
         cbind (case resumed of Some payment \<Rightarrow> creturn payment | None \<Rightarrow> sample_create tool args required)
           (paying tool args)))"

abbreviation sample_tool_call :: "mcp_env \<Rightarrow> tool_result mcp_cmd" where
  "sample_tool_call E \<equiv> call_tool E sample_mcp_client sample_upstream ''t'' []"

lemma sample_sdk: "sdk_calls sample_probe sample_create sample_upstream"
  by (simp add: sdk_calls_def neutral_def sample_upstream_def sample_probe_def sample_create_def keeps_creturn)

lemma sample_challenged: "challenged sample_probe tool args s sample_required"
  by (simp add: challenged_def sample_probe_def creturn_def)

text \<open>The call is really made: it resumes the payload of the journal.\<close>

lemma sample_tool_call_sends: "map (tc_payload \<circ> fst) (mx_calls (snd (sample_tool_call sample_mcp sample_mcp_state))) = [sample_payload]"
  by code_simp

theorem mcp_sends_durable_payload_witness:
  "\<exists>l. l \<noteq> [] \<and> mx_calls (snd (sample_tool_call sample_mcp sample_mcp_state)) = mx_calls sample_mcp_state @ l \<and> length l \<le> 1
    \<and> (\<forall>(call, j0, j) \<in> set l. tc_name call = ''t'' \<and> tc_args call = []
        \<and> (\<exists>required. challenged sample_probe ''t'' [] sample_mcp_state required
            \<and> sent_durably (me_payer sample_mcp) (mcp_request_fingerprint (mcp_ext sample_mcp) sample_mcp_client ''t'' []
                (pr_resource required)) (tc_payload call) j0 j))"
proof -
  have "mx_calls sample_mcp_state = []"
    by (simp add: sample_mcp_state_def)
  with mcp_sends_durable_payload [OF sample_sdk sample_mcp_parts(2) surjective_pairing, of sample_mcp sample_mcp_client "''t''" "[]"]
    sample_tool_call_sends show ?thesis by auto
qed

lemma sample_lossy_call: "sample_tool_call sample_mcp_lossy sample_mcp_state \<noteq> (Ok v, s')"
proof -
  have send: "mcp_send sample_mcp_lossy call s \<noteq> (Ok x, s'')" for call s x s''
    by (simp add: mcp_send_def sample_mcp_lossy_def Let_def)
  have "call_tool_with_payment sample_mcp_lossy C tool args payload s \<noteq> (Ok x, s'')" for C tool args payload s x s''
    by (auto simp: call_tool_with_payment_def run_simps send mcp_failure_fails)
  then have "sample_upstream hook (call_tool_with_payment sample_mcp_lossy C) tool args s \<noteq> (Ok x, s'')"
    for hook C tool args s x s''
    by (auto simp: sample_upstream_def sample_probe_def run_simps)
  then show ?thesis
    by (auto elim!: call_tool_cases simp: release_attempt_fails)
qed

theorem mcp_unresolved_is_recoverable_witness:
  "\<exists>l. mx_calls (snd (sample_tool_call sample_mcp_lossy sample_mcp_state)) = mx_calls sample_mcp_state @ l
    \<and> (\<forall>(call, j) \<in> set l. holds_payload ''F1'' (tc_payload call)
        (ps_journal (mx_payer (snd (sample_tool_call sample_mcp_lossy sample_mcp_state)))))"
proof (rule mcp_unresolved_is_recoverable [OF sample_sdk sample_mcp_parts(2) surjective_pairing sample_challenged])
  show "''F1'' = mcp_request_fingerprint (mcp_ext sample_mcp_lossy) sample_mcp_client ''t'' [] (pr_resource sample_required)"
    by (simp add: sample_mcp_fingerprint sample_mcp_lossy_def sample_mcp_def sample_env_def)
  show "quiet (me_payer sample_mcp_lossy) ''F1''" "unpaid ''F1'' (ps_journal (mx_payer sample_mcp_state))"
    by (simp_all add: quiet_def unpaid_def attempt_of_def sample_mcp_state_def sample_mcp_lossy_def sample_mcp_def
        sample_env_def sample_stored_def)
  show "outcome_state st = ReceiptPending" if "fst (sample_tool_call sample_mcp_lossy sample_mcp_state) = Ok v" for v st
    using that sample_lossy_call [of v] by (metis prod.collapse)
qed

lemma sample_settled_call: "\<exists>v s'. sample_call sample_mcp sample_mcp_state = (Ok v, s') \<and> tr_payment_response v = Some sample_settled"
proof -
  let ?call = "\<lparr>tc_name = ''t'', tc_args = [], tc_payload = sample_payload\<rparr>"
  let ?p = "others_act sample_env (mx_payer sample_mcp_state)"
  let ?s = "sample_mcp_state\<lparr>mx_payer := ?p, mx_calls := [(?call, mx_journal sample_mcp_state, ps_journal ?p)]\<rparr>"
  let ?result = "\<lparr>tr_content = [PStr ''data''], tr_is_error = False, tr_raw_result = PStr ''data'', tr_payment_response = Some sample_settled\<rparr>"
  let ?rc = "mcp_receipt sample_mcp ''t'' sample_payload ''F1'' sample_settled 200 (jr_clock (mx_journal ?s))"
  have send: "mcp_send sample_mcp ?call sample_mcp_state = (Ok ?result, ?s)"
    by (simp add: mcp_send_def sample_mcp_def mx_journal_def sample_mcp_state_def Let_def)
  have settled: "sr_success sample_settled"
    by (simp add: sample_settled_def)
  have "\<exists>b p. record_receipt sample_env ?rc (mx_payer ?s) = (Ok b, p)"
  proof (rule sample_records)
    show "jr_index (ps_journal (mx_payer ?s)) = Index [(''F1'', sample_stored)]" "at_identifier sample_stored = None"
      by (simp_all add: sample_mcp_state_def sample_stored_def others_act_def sample_env_def)
    show "rc_state ?rc = ReceiptPaid" "fingerprint_of ?rc = Some ''F1''"
      by (simp_all add: mcp_receipt_def outcome_state_def settled fingerprint_of_def)
  qed
  then obtain b p where "record_receipt sample_env ?rc (mx_payer ?s) = (Ok b, p)" by blast
  then have "record_mcp_outcome sample_mcp ''t'' sample_payload ''F1'' sample_settled 200 ?s = (Ok (), ?s\<lparr>mx_payer := p\<rparr>)"
    by (simp add: record_mcp_outcome_def on_payer_def now_of_def cbind_cget mx_journal_def cbind_step creturn_def)
      (simp add: sample_mcp_def cbind_step creturn_def)
  then have "conclude_call sample_mcp ''t'' sample_payload ''F1'' ?result ?s = (Ok (settled_result sample_settled ?result), ?s\<lparr>mx_payer := p\<rparr>)"
    by (simp add: conclude_call_def cbind_clift settled cbind_step creturn_def)
  moreover have "mcp_ext sample_mcp = sample_ext"
    by (simp add: sample_mcp_def sample_env_def)
  ultimately show ?thesis
    using send by (simp add: sample_call_eq ctry_else_def)
qed

theorem mcp_result_is_settled_witness:
  "\<exists>e \<in> set (jr_receipts (ps_journal (mx_payer (snd (sample_call sample_mcp sample_mcp_state))))). rc_state e = ReceiptPaid"
proof -
  obtain v s' where v: "sample_call sample_mcp sample_mcp_state = (Ok v, s')" "tr_payment_response v = Some sample_settled"
    using sample_settled_call by blast
  from mcp_result_is_settled [OF v(1) sample_mcp_parts(1,2)] show ?thesis
    using v by (auto simp: sample_settled_def)
qed

end
