(* ===== verification/PayerProxy.thy ===== *)
theory PayerProxy
  imports Payer
begin

text \<open>
  \<open>xrpl_x402_payer/proxy.py\<close>, the forward proxy that pays for the requests it passes on and its
  manager; the rendering of results and receipts in \<open>payer.py\<close>; and the tools of the payer's MCP server
  in \<open>mcp.py\<close>. Starlette, uvicorn and FastMCP call these functions.
\<close>

section \<open>The proxy\<close>

definition HOP_BY_HOP_HEADERS :: "string list" where
  "HOP_BY_HOP_HEADERS = [''connection'', ''content-length'', ''keep-alive'', ''proxy-authenticate'',
     ''proxy-authorization'', ''te'', ''trailers'', ''transfer-encoding'', ''upgrade'']"

record proxy_request =
  px_path :: string
  px_query :: string
  px_method :: string
  px_headers :: "(string \<times> string) list"
  px_body :: string

record proxy_response =
  po_status_code :: int
  po_body :: string
  po_headers :: "(string \<times> string) list"

record proxy_config =
  pf_target_base_url :: string
  pf_asset :: "string option"
  pf_issuer :: "string option"
  pf_max_spend :: "string option"
  pf_dry_run :: bool

text \<open>A dictionary built from pairs: a later value replaces an earlier one in its place.\<close>

definition dict_of_pairs :: "(string \<times> string) list \<Rightarrow> (string \<times> string) list" where
  "dict_of_pairs kvs = foldl (\<lambda>d kv. AList.update (fst kv) (snd kv) d) [] kvs"

definition forwarded_headers :: "(string \<times> string) list \<Rightarrow> (string \<times> string) list" where
  "forwarded_headers hs =
     dict_of_pairs (filter (\<lambda>kv. lower (fst kv) \<notin> set HOP_BY_HOP_HEADERS \<and> lower (fst kv) \<noteq> ''host'') hs)"

definition response_headers :: "(string \<times> string) list \<Rightarrow> (string \<times> string) list" where
  "response_headers hs = dict_of_pairs (filter (\<lambda>kv. lower (fst kv) \<notin> set HOP_BY_HOP_HEADERS) hs)"

definition proxy_target_url :: "string \<Rightarrow> string \<Rightarrow> string \<Rightarrow> string" where
  "proxy_target_url target_base_url path query =
     (let target = rstrip_char (CHR ''/'') target_base_url;
          with_path = (if path = [] then target else target @ ''/'' @ dropWhile (\<lambda>c. c = CHR ''/'') path) in
      if query = [] then with_path else with_path @ ''?'' @ query)"

definition proxy_args :: "proxy_config \<Rightarrow> proxy_request \<Rightarrow> pay_args" where
  "proxy_args F request =
     \<lparr>arg_url = proxy_target_url (pf_target_base_url F) (px_path request) (px_query request),
      arg_asset = pf_asset F, arg_issuer = pf_issuer F, arg_max_spend = pf_max_spend F, arg_dry_run = pf_dry_run F,
      arg_method = px_method request, arg_headers = forwarded_headers (px_headers request),
      arg_content = (if px_body request = [] then None else Some (px_body request))\<rparr>"

definition proxy :: "payer_env \<Rightarrow> payer \<Rightarrow> proxy_config \<Rightarrow> proxy_request \<Rightarrow> proxy_response payer_cmd" where
  "proxy E A F request =
     cbind (pay E A (proxy_args F request)) (\<lambda>result.
       creturn \<lparr>po_status_code = res_status_code result, po_body = res_body result,
                po_headers = response_headers (res_headers result)\<rparr>)"

text \<open>\<open>create_proxy_app\<close>: the payer of the caller, or one whose signer comes from the environment.\<close>

definition proxy_payer :: "(unit \<Rightarrow> exn + signer) \<Rightarrow> payer option \<Rightarrow> bool \<Rightarrow> exn + payer" where
  "proxy_payer signer_from_environment own dry_run = (case own of
       Some A \<Rightarrow> Inr A
     | None \<Rightarrow>
         rbind (if dry_run then Inr None else rbind (signer_from_environment ()) (\<lambda>S. Inr (Some S))) (\<lambda>the_signer.
           make_payer the_signer None None))"


section \<open>The proxy of the MCP server\<close>

text \<open>\<open>ProxyManager\<close>; \<open>started n\<close> tells whether the server is up when it is asked for the n-th time.\<close>

record proxy_manager =
  pm_running :: bool
  pm_bind_url :: string
  pm_target_base_url :: string

definition new_manager :: proxy_manager where
  "new_manager = \<lparr>pm_running = False, pm_bind_url = [], pm_target_base_url = []\<rparr>"

definition START_POLLS :: nat where "START_POLLS = 100"

definition start_proxy ::
  "(unit \<Rightarrow> exn + payer) \<Rightarrow> (nat \<Rightarrow> bool) \<Rightarrow> string \<Rightarrow> string \<Rightarrow> int \<Rightarrow> (proxy_manager, string) cmd" where
  "start_proxy create_app started target_base_url host port = (\<lambda>m.
     let bind_url = ''http://'' @ host @ '':'' @ show_int port in
     if pm_running m then
       (if pm_bind_url m = bind_url \<and> pm_target_base_url m = target_base_url then Ok bind_url
        else Raise (RuntimeError ''Proxy is already running with a different configuration. Restart the MCP server to change it.''), m)
     else (case create_app () of
         Inl e \<Rightarrow> (Raise e, m)
       | Inr app \<Rightarrow>
           if list_ex started [0..<START_POLLS]
             then (Ok bind_url, \<lparr>pm_running = True, pm_bind_url = bind_url, pm_target_base_url = target_base_url\<rparr>)
           else (Raise (RuntimeError ''Proxy server failed to start''), m)))"


section \<open>Rendering\<close>

text \<open>\<open>json.dumps(value, indent=2, sort_keys=True)\<close>, at a level of nesting.\<close>

definition newline :: "nat \<Rightarrow> string" where
  "newline level = CHR 0x0A # replicate (2 * level) (CHR '' '')"

fun json_pretty :: "nat \<Rightarrow> pyval \<Rightarrow> string"
  and json_pretty_list :: "nat \<Rightarrow> pyval list \<Rightarrow> string list"
  and json_pretty_items :: "nat \<Rightarrow> (string \<times> pyval) list \<Rightarrow> (string \<times> string) list" where
  "json_pretty n PNone = ''null''"
| "json_pretty n (PBool b) = (if b then ''true'' else ''false'')"
| "json_pretty n (PInt i) = show_int i"
| "json_pretty n (PStr s) = json_string s"
| "json_pretty n (PList xs) =
     (if xs = [] then ''[]''
      else ''['' @ newline (Suc n) @ join ('','' @ newline (Suc n)) (json_pretty_list (Suc n) xs) @ newline n @ '']'')"
| "json_pretty n (PDict d) =
     (if d = [] then [CHR 0x7B, CHR 0x7D]
      else CHR 0x7B # newline (Suc n) @ join ('','' @ newline (Suc n)) (map (\<lambda>kr. json_string (fst kr) @ '': '' @ snd kr)
             (sort_key fst (json_pretty_items (Suc n) d))) @ newline n @ [CHR 0x7D])"
| "json_pretty_list n [] = []"
| "json_pretty_list n (x # xs) = json_pretty n x # json_pretty_list n xs"
| "json_pretty_items n [] = []"
| "json_pretty_items n (kv # d) = (fst kv, json_pretty n (snd kv)) # json_pretty_items n d"

definition preview_dict :: "preview \<Rightarrow> pydict" where
  "preview_dict p =
     [(''mode'', PStr ''dry_run''), (''x402Version'', PInt 2), (''challengePresent'', PBool (pv_challenge_present p))]
     @ (case pv_accepted p of None \<Rightarrow> [] | Some r \<Rightarrow> [(''accepted'', PDict (requirements_dump r))])
     @ (case pv_would_pay p of None \<Rightarrow> [] | Some b \<Rightarrow> [(''wouldPay'', PBool b)])"

text \<open>\<open>receipt.model_dump(mode="json", by_alias=True)\<close>; the dumps of the two models of the SDK are arguments.\<close>

fun state_text :: "receipt_state \<Rightarrow> string" where
  "state_text ReceiptPaid = ''paid''"
| "state_text ReceiptPending = ''pending''"
| "state_text ReceiptFailed = ''failed''"

definition receipt_dict ::
  "(settle_response \<Rightarrow> pydict) \<Rightarrow> (payment_requirements \<Rightarrow> pydict) \<Rightarrow> receipt_record \<Rightarrow> pydict" where
  "receipt_dict settle_dump accepted_dump r =
     [(''created_at'', PStr (rc_created_at r)), (''url'', PStr (rc_url r)), (''method'', PStr (rc_method r)),
      (''status_code'', PInt (rc_status_code r)), (''state'', PStr (state_text (rc_state r))),
      (''settlement'', PDict (settle_dump (rc_settlement r))), (''accepted'', PDict (accepted_dump (rc_accepted r))),
      (''request_fingerprint'', case rc_fingerprint r of None \<Rightarrow> PNone | Some f \<Rightarrow> PStr f)]"

text \<open>\<open>decode\<close> is \<open>PayResult.text\<close>, the decoding of the body.\<close>

definition format_pay_result :: "(string \<Rightarrow> string) \<Rightarrow> (receipt_record \<Rightarrow> pydict) \<Rightarrow> pay_result \<Rightarrow> string" where
  "format_pay_result decode dump result = (case res_preview result of
       Some p \<Rightarrow> json_pretty 0 (PDict (preview_dict p))
     | None \<Rightarrow>
         if strip (decode (res_body result)) \<noteq> [] then decode (res_body result)
         else json_pretty 0 (PDict
           [(''statusCode'', PInt (res_status_code result)), (''paid'', PBool (res_paid result)),
            (''pending'', PBool (res_pending result)),
            (''receipt'', case res_receipt result of None \<Rightarrow> PNone | Some r \<Rightarrow> PDict (dump r))]))"

definition get_receipts :: "(receipt_record \<Rightarrow> pydict) \<Rightarrow> int \<Rightarrow> journal \<Rightarrow> pydict list" where
  "get_receipts dump limit j = map dump (list_receipts limit j)"

definition receipt_store_path :: "(string \<Rightarrow> string option) \<Rightarrow> (string \<Rightarrow> string) \<Rightarrow> string \<Rightarrow> string" where
  "receipt_store_path getenv expanduser default_path =
     (let raw_path = strip (case getenv ''XRPL_X402_RECEIPTS_PATH'' of None \<Rightarrow> [] | Some p \<Rightarrow> p) in
      if raw_path \<noteq> [] then expanduser raw_path else default_path)"


section \<open>The tools of the MCP server\<close>

definition url_args :: "string \<Rightarrow> string option \<Rightarrow> string option \<Rightarrow> string option \<Rightarrow> bool \<Rightarrow> pay_args" where
  "url_args url asset issuer max_spend dry_run =
     \<lparr>arg_url = url, arg_asset = asset, arg_issuer = issuer, arg_max_spend = max_spend, arg_dry_run = dry_run,
      arg_method = ''GET'', arg_headers = [], arg_content = None\<rparr>"

definition pay_url ::
  "payer_env \<Rightarrow> (string \<Rightarrow> exn + signer) \<Rightarrow> (string \<Rightarrow> string) \<Rightarrow> (receipt_record \<Rightarrow> pydict) \<Rightarrow> string \<Rightarrow> string option \<Rightarrow> string option
     \<Rightarrow> string option \<Rightarrow> bool \<Rightarrow> string payer_cmd" where
  "pay_url E build decode dump url asset issuer max_spend dry_run =
     cbind (pay_with_x402 E build None None None (url_args url asset issuer max_spend dry_run)) (\<lambda>result. creturn (format_pay_result decode dump result))"

definition list_receipts_tool :: "(receipt_record \<Rightarrow> pydict) \<Rightarrow> int \<Rightarrow> journal \<Rightarrow> string" where
  "list_receipts_tool dump limit j =
     (let receipts = get_receipts dump limit j in
      if receipts = [] then ''No receipts recorded yet.''
      else json_pretty 0 (PList (map PDict receipts)))"

definition opt_str_value :: "string option \<Rightarrow> pyval" where
  "opt_str_value s = (case s of None \<Rightarrow> PNone | Some x \<Rightarrow> PStr x)"

definition budget_status_tool ::
  "(string \<Rightarrow> string option) \<Rightarrow> string \<Rightarrow> string option \<Rightarrow> string option \<Rightarrow> journal \<Rightarrow> exn + string" where
  "budget_status_tool getenv asset issuer max_spend j =
     rbind (normalize_currency_code asset) (\<lambda>code.
     rbind (budget_status getenv asset issuer None max_spend j) (\<lambda>summary.
       Inr (json_pretty 0 (PDict
         [(''network'', PStr (case getenv ''XRPL_NETWORK'' of Some (c # cs) \<Rightarrow> c # cs | _ \<Rightarrow> DEFAULT_NETWORK)),
          (''asset'', PStr code), (''issuer'', opt_str_value issuer), (''spent'', PStr (bu_spent summary)),
          (''max_spend'', opt_str_value (bu_max_spend summary)), (''remaining'', opt_str_value (bu_remaining summary))]))))"

definition proxy_mode ::
  "(unit \<Rightarrow> exn + payer) \<Rightarrow> (nat \<Rightarrow> bool) \<Rightarrow> string \<Rightarrow> int \<Rightarrow> (proxy_manager, string) cmd" where
  "proxy_mode create_app started target_base_url local_port =
     cbind (start_proxy create_app started target_base_url ''127.0.0.1'' local_port) (\<lambda>bind_url.
       creturn (''Proxy ready at '' @ bind_url @ '' -> '' @ target_base_url))"


section \<open>What the proxy passes on\<close>

lemma keys_dict_of_pairs: "set (map fst (dict_of_pairs kvs)) = set (map fst kvs)"
proof -
  have "set (map fst (foldl (\<lambda>d kv. AList.update (fst kv) (snd kv) d) d kvs)) = set (map fst d) \<union> set (map fst kvs)" for d
    by (induction kvs arbitrary: d) (auto simp: dom_update)
  then show ?thesis
    by (simp add: dict_of_pairs_def)
qed

lemma distinct_dict_of_pairs: "distinct (map fst (dict_of_pairs kvs))"
proof -
  have "distinct (map fst d) \<Longrightarrow> distinct (map fst (foldl (\<lambda>d kv. AList.update (fst kv) (snd kv) d) d kvs))" for d
    by (induction kvs arbitrary: d) (auto simp: distinct_update)
  then show ?thesis
    by (simp add: dict_of_pairs_def)
qed

text \<open>No header that belongs to one connection passes the proxy, in either direction.\<close>

lemma proxy_headers:
  shows "k \<in> set (map fst (arg_headers (proxy_args F request))) \<Longrightarrow> lower k \<notin> set (''host'' # HOP_BY_HOP_HEADERS)"
    and "k \<in> set (map fst (response_headers hs)) \<Longrightarrow> lower k \<notin> set HOP_BY_HOP_HEADERS"
  unfolding proxy_args_def forwarded_headers_def response_headers_def pay_args.simps keys_dict_of_pairs by auto

text \<open>One proxy per process: once started it stays at its address and target, and another
  configuration is refused.\<close>

lemma proxy_stays:
  assumes "start_proxy create_app started target host port m = (Ok url, m')"
  shows "pm_running m' \<and> pm_bind_url m' = url \<and> pm_target_base_url m' = target
    \<and> start_proxy create_app' started' target' host' port' m' =
        (if ''http://'' @ host' @ '':'' @ show_int port' = url \<and> target' = target then Ok url
         else Raise (RuntimeError ''Proxy is already running with a different configuration. Restart the MCP server to change it.''), m')"
  using assms by (auto simp: start_proxy_def Let_def split: if_splits sum.splits)

end
