(* ===== verification/SettleCorrect.thy ===== *)
theory SettleCorrect
  imports FacilitatorSettle VerifyCorrect
begin

text \<open>
  Correctness of \<open>ExactXRPLFacilitatorScheme.settle\<close>, proved once for every store that meets the
  contract \<open>settlement_store\<close> and then stated for the Redis and the in-memory store. A settlement
  is reported only on the ledger's word, a hash is submitted at most once, and a hash bound to
  other requirements is refused without effect.
\<close>

section \<open>Specification\<close>

text \<open>The ledger's word on a transaction: it is in a validated ledger, succeeded and delivered
  exactly the required amount; or it is validated and did not, or it is known to be absent from
  a fully searched range that the validated ledger has passed.\<close>

definition confirmed :: "facilitator \<Rightarrow> payment_requirements \<Rightarrow> settlement_state \<Rightarrow> bool" where
  "confirmed F r st \<longleftrightarrow>
     (\<exists>h res. fe_client F h (Tx (st_transaction st) (st_first_ledger st) (st_last_ledger st)) = Inr (PDict res)
        \<and> truthy (dget res ''validated'') \<and> transaction_result res = ''tesSUCCESS''
        \<and> delivered_amount_error res r = Inr None)"

definition refuted :: "facilitator \<Rightarrow> payment_requirements \<Rightarrow> settlement_state \<Rightarrow> bool" where
  "refuted F r st \<longleftrightarrow>
     (\<exists>h res. fe_client F h (Tx (st_transaction st) (st_first_ledger st) (st_last_ledger st)) = Inr (PDict res)
        \<and> truthy (dget res ''validated'')
        \<and> (transaction_result res \<noteq> ''tesSUCCESS'' \<or> (\<exists>e. delivered_amount_error res r = Inr (Some e))))
     \<or> (\<exists>h h' res ledger current.
          fe_client F h (Tx (st_transaction st) (st_first_ledger st) (st_last_ledger st)) = Inr (PDict res)
        \<and> dget res ''error'' = PStr ''txnNotFound'' \<and> dget res ''searched_all'' = PBool True
        \<and> fe_client F h' Ledger = Inr ledger \<and> rbind (vindex ledger ''ledger_index'') py_int = Inr current
        \<and> st_last_ledger st \<le> current)"

definition decided :: "facilitator \<Rightarrow> payment_requirements \<Rightarrow> settlement_state \<Rightarrow> settlement_state \<Rightarrow> bool" where
  "decided F r st st' \<longleftrightarrow>
     st' = completed st r \<and> confirmed F r st \<or> (\<exists>reason. st' = fail_with st reason \<and> refuted F r st)"

fun is_submit :: "rpc_request \<Rightarrow> bool" where
  "is_submit (SubmitOnly _) = True"
| "is_submit _ = False"

fun is_tx :: "rpc_request \<Rightarrow> bool" where
  "is_tx (Tx _ _ _) = True"
| "is_tx _ = False"

text \<open>Every state is stored under the hash of its own transaction.\<close>

definition wf_store :: "'s store_ops \<Rightarrow> 's \<Rightarrow> bool" where
  "wf_store ops \<sigma> \<longleftrightarrow> (\<forall>t c. so_get ops t \<sigma> = Some c \<longrightarrow> upper (st_transaction c) = upper t)"

text \<open>Digests are hexadecimal text.\<close>

definition hex_digests :: "ext \<Rightarrow> bool" where
  "hex_digests E \<longleftrightarrow> (\<forall>s. list_all is_hex (sha256_hex E s)) \<and> (\<forall>s. list_all is_hex (sha512_hex E s))"

text \<open>A command that answers for a pending state either leaves the store alone and reports no
  success, or writes a decided state and reports exactly it.\<close>

definition settles_state ::
  "facilitator \<Rightarrow> 's store_ops \<Rightarrow> payment_requirements \<Rightarrow> int \<Rightarrow> settlement_state \<Rightarrow>
     's \<Rightarrow> settle_response outcome \<Rightarrow> 's \<Rightarrow> bool" where
  "settles_state F ops r ttl st \<sigma> out \<sigma>' \<longleftrightarrow>
     \<sigma>' = \<sigma> \<and> (\<forall>v. out = Ok v \<longrightarrow> \<not> sr_success v)
     \<or> (\<exists>st'. decided F r st st' \<and> \<sigma>' = so_update ops st' ttl \<sigma> \<and> out = Ok (state_response st' (r_amount r)))"


section \<open>Waiting and reconciling\<close>

lemma query_transaction_run:
  "query_transaction F st s =
     (Ok (case fe_client F (fs_log s) (Tx (st_transaction st) (st_first_ledger st) (st_last_ledger st)) of
            Inl _ \<Rightarrow> no_lookup | Inr res \<Rightarrow> classify_lookup res),
      s\<lparr>fs_log := fs_log s @ [Tx (st_transaction st) (st_first_ledger st) (st_last_ledger st)]\<rparr>)"
  by (simp add: query_transaction_def ctry_else_def rpc_def creturn_def split: sum.splits)

lemma query_transaction_Ok:
  assumes "query_transaction F st s = (Ok lookup, s1)"
  shows "fs_store s1 = fs_store s"
    and "tl_transaction lookup = Some res \<Longrightarrow>
       fe_client F (fs_log s) (Tx (st_transaction st) (st_first_ledger st) (st_last_ledger st)) = Inr (PDict res)"
    and "tl_authoritative_absence lookup \<Longrightarrow>
       \<exists>res. fe_client F (fs_log s) (Tx (st_transaction st) (st_first_ledger st) (st_last_ledger st)) = Inr (PDict res)
         \<and> dget res ''error'' = PStr ''txnNotFound'' \<and> dget res ''searched_all'' = PBool True"
  using assms
  by (auto simp: query_transaction_run classify_lookup_def no_lookup_def split: sum.splits option.splits if_splits)

lemma query_transaction_total: "\<exists>lookup s1. query_transaction F st s = (Ok lookup, s1)"
  by (simp add: query_transaction_run)

lemma record_state_run:
  "record_state ops st r ttl s = (Ok (state_response st (r_amount r)), s\<lparr>fs_store := so_update ops st ttl (so_others ops (fs_store s))\<rparr>)"
  by (simp add: record_state_def store_update_def cbind_def cmodify_def creturn_def)

lemma pending_answer_fails [simp]: "\<not> sr_success (pending_answer st r)"
  by (simp add: pending_answer_def pending_response_def)

context settlement_store
begin

lemma settles_recorded:
  assumes "record_state ops st' r ttl s = (out, s')" and "decided F r st st'" and "fs_store s = \<sigma>"
  shows "settles_state F ops r ttl st \<sigma> out (fs_store s')"
  using assms by (auto simp: settles_state_def record_state_run)

end

lemma settles_unchanged:
  "fs_store s' = \<sigma> \<Longrightarrow> (\<And>v. out = Ok v \<Longrightarrow> \<not> sr_success v) \<Longrightarrow> settles_state F ops r ttl st \<sigma> out (fs_store s')"
  by (simp add: settles_state_def)

context settlement_store
begin

lemma wait_loop_settles:
  assumes "wait_loop F ops n st r ttl s = (out, s')"
  shows "settles_state F ops r ttl st (fs_store s) out (fs_store s')"
  using assms
proof (induction n arbitrary: s)
  case (Suc n)
  obtain lookup s1 where q: "query_transaction F st s = (Ok lookup, s1)"
    using query_transaction_total by blast
  note lookup = query_transaction_Ok [OF q]
  have IH: "settles_state F ops r ttl st (fs_store s) out (fs_store s')"
    if "wait_loop F ops n st r ttl s1 = (out, s')"
    using Suc.IH [OF that] lookup(1) by simp
  show ?case
  proof (cases "tl_transaction lookup")
    case None
    then show ?thesis
      using Suc.prems IH by (simp add: cbind_def q)
  next
    case (Some res)
    note reply = lookup(2) [OF Some]
    have good: "decided F r st (completed st r)"
      if "truthy (dget res ''validated'')" "transaction_result res = ''tesSUCCESS''"
        "delivered_amount_error res r = Inr None"
      using that reply by (auto simp: decided_def confirmed_def)
    have bad: "decided F r st (fail_with st e)"
      if "truthy (dget res ''validated'')"
        "transaction_result res \<noteq> ''tesSUCCESS'' \<or> (\<exists>e. delivered_amount_error res r = Inr (Some e))" for e
      using that reply unfolding decided_def refuted_def by blast
    show ?thesis
      using Suc.prems IH Some lookup(1)
      by (auto simp: cbind_def q Let_def clift_def craise_def creturn_def
          intro: settles_recorded good bad settles_unchanged split: if_splits sum.splits option.splits)
  qed
qed (auto simp: creturn_def intro: settles_unchanged)

lemma reconcile_absent_settles:
  assumes "reconcile_absent F ops st r ttl s = (out, s')"
    and "fe_client F h (Tx (st_transaction st) (st_first_ledger st) (st_last_ledger st)) = Inr (PDict res)"
    and "dget res ''error'' = PStr ''txnNotFound''" and "dget res ''searched_all'' = PBool True"
  shows "settles_state F ops r ttl st (fs_store s) out (fs_store s')"
proof -
  obtain q s1 where q: "current_ledger F s = (q, s1)" by fastforce
  then have store: "fs_store s1 = fs_store s"
    using reads_onlyD(1) [OF reads_only_queries(1) q] by simp
  show ?thesis
  proof (cases q)
    case (Ok current)
    then have "decided F r st (fail_with st ''transaction_expired'')" if "st_last_ledger st \<le> current"
      using that q assms(2-4) unfolding decided_def refuted_def by (auto simp: current_ledger_Ok)
    then show ?thesis
      using assms(1) q Ok store
      by (auto simp: reconcile_absent_def ctry_else_def creturn_def intro: settles_recorded settles_unchanged
          split: if_splits)
  qed (use assms(1) q store in \<open>auto simp: reconcile_absent_def ctry_else_def creturn_def intro: settles_unchanged\<close>)
qed

lemma reconcile_settles:
  assumes "reconcile F ops st r ttl s = (out, s')" and "st_status st = Pending"
  shows "settles_state F ops r ttl st (fs_store s) out (fs_store s')"
proof -
  obtain lookup s1 where q: "query_transaction F st s = (Ok lookup, s1)"
    using query_transaction_total by blast
  note lookup = query_transaction_Ok [OF q]
  have absent: "settles_state F ops r ttl st (fs_store s) out (fs_store s')"
    if "reconcile_absent F ops st r ttl s1 = (out, s')" "tl_authoritative_absence lookup"
    using reconcile_absent_settles [OF that(1)] lookup(1) lookup(3) [OF that(2)] by auto
  show ?thesis
  proof (cases "tl_transaction lookup")
    case None
    then show ?thesis
      using assms absent lookup(1)
      by (auto simp: reconcile_def cbind_def q creturn_def intro: settles_unchanged split: if_splits)
  next
    case (Some res)
    note reply = lookup(2) [OF Some]
    have good: "decided F r st (completed st r)"
      if "truthy (dget res ''validated'')" "transaction_result res = ''tesSUCCESS''"
        "delivered_amount_error res r = Inr None"
      using that reply by (auto simp: decided_def confirmed_def)
    have bad: "decided F r st (fail_with st e)"
      if "truthy (dget res ''validated'')"
        "transaction_result res \<noteq> ''tesSUCCESS'' \<or> (\<exists>e. delivered_amount_error res r = Inr (Some e))" for e
      using that reply unfolding decided_def refuted_def by blast
    show ?thesis
      using assms absent Some lookup(1)
      by (auto simp: reconcile_def cbind_def q Let_def clift_def craise_def creturn_def
          intro: settles_recorded good bad settles_unchanged split: if_splits sum.splits)
  qed
qed

end

lemma reconcile_final:
  "st_status st \<noteq> Pending \<Longrightarrow> reconcile F ops st r ttl s = (Ok (state_response st (r_amount r)), s)"
  by (simp add: reconcile_def creturn_def)

section \<open>One settlement\<close>

text \<open>What a settlement does to the store and what it may report: nothing changes and a success
  repeats a validated state; a pending state bound to the same request is brought up to date; or
  a free hash is reserved and then settled.\<close>

definition settle_effect ::
  "facilitator \<Rightarrow> 's store_ops \<Rightarrow> payment_requirements \<Rightarrow> string \<Rightarrow> string \<Rightarrow>
     's \<Rightarrow> settle_response outcome \<Rightarrow> 's \<Rightarrow> bool" where
  "settle_effect F ops r h fp \<sigma> out \<sigma>' \<longleftrightarrow>
     \<sigma>' = \<sigma> \<and> (\<forall>v. out = Ok v \<and> sr_success v \<longrightarrow>
        (\<exists>st. so_get ops h \<sigma> = Some st \<and> st_status st = Validated \<and> st_fingerprint st = fp
            \<and> v = state_response st (r_amount r)))
     \<or> (\<exists>st. so_get ops h \<sigma> = Some st \<and> st_status st = Pending \<and> st_fingerprint st = fp
          \<and> settles_state F ops r (settlement_ttl F r) st \<sigma> out \<sigma>')
     \<or> (\<exists>st \<sigma>1. so_get ops h \<sigma> = None \<and> st_status st = Pending \<and> st_transaction st = h \<and> st_fingerprint st = fp
          \<and> so_reserve ops st (settlement_ttl F r) \<sigma> = (True, \<sigma>1)
          \<and> settles_state F ops r (settlement_ttl F r) st \<sigma>1 out \<sigma>')"

lemma settlement_ttl_pos: "0 < settlement_ttl F r"
  by (simp add: settlement_ttl_def)

lemma hash_mismatch_fails [simp]: "\<not> sr_success (hash_mismatch st h)"
  and settle_error_fails [simp]: "\<not> sr_success (settle_error a b c d e)"
  and pending_response_fails [simp]: "\<not> sr_success (pending_response a' b' c' d')"
  by (simp_all add: hash_mismatch_def settle_error_def pending_response_def)

lemma state_response_success: "sr_success (state_response st a) \<longleftrightarrow> st_status st = Validated"
  by (simp add: state_response_def)

lemma hex_strip: "list_all is_hex s \<Longrightarrow> strip s = s"
  by (rule strip_no_space) (auto simp: list_all_iff hex_not_space)

lemma hex_digest_strip:
  assumes "hex_digests E"
  shows "strip (requirements_fingerprint E p r) = requirements_fingerprint E p r"
    and "signed_transaction_hash E blob = Inr h \<Longrightarrow> strip h = h"
proof -
  show "strip (requirements_fingerprint E p r) = requirements_fingerprint E p r"
    using assms by (auto simp: requirements_fingerprint_def requirements_fingerprint_for_def hex_digests_def
        intro: hex_strip)
  have "list_all is_hex (upper (take 64 s))" if "list_all is_hex s" for s
    using that by (auto simp: upper_def list_all_iff dest: in_set_takeD)
  then show "strip h = h" if "signed_transaction_hash E blob = Inr h"
    using that assms by (auto simp: signed_transaction_hash_def rbind_eq_Inr hex_digests_def intro!: hex_strip)
qed

lemma settles_diverge:
  assumes "fs_store s' = \<sigma>" and "\<And>v. out = Ok v \<Longrightarrow> \<not> sr_success v"
  shows "settle_effect F ops r h fp \<sigma> out (fs_store s')"
  using assms by (auto simp: settle_effect_def)

context settlement_store
begin

lemma settle_existing_effect:
  assumes "settle_existing F ops st fp h r s = (out, s')" and "so_get ops h (fs_store s) = Some st"
  shows "settle_effect F ops r h fp (fs_store s) out (fs_store s')"
proof (cases "st_fingerprint st = fp \<and> st_status st = Pending")
  case True
  then show ?thesis
    using assms reconcile_settles [of F st r "settlement_ttl F r" s out s']
    by (auto simp: settle_existing_def settle_effect_def)
next
  case False
  then show ?thesis
    using assms
    by (auto simp: settle_existing_def settle_effect_def creturn_def reconcile_final state_response_success
        split: if_splits)
qed

lemma submit_and_wait_settles:
  assumes "submit_and_wait F ops blob st h network payer r s = (out, s')"
  shows "settles_state F ops r (settlement_ttl F r) st (fs_store s) out (fs_store s')"
  using assms
  by (auto simp: submit_and_wait_def ctry_else_def rpc_def wait_for_validation_def creturn_def
      dest!: wait_loop_settles intro: settles_unchanged split: sum.splits)

lemma settle_new_effect:
  assumes run: "settle_new F ops blob h fp r s = (out, s')"
    and free: "so_get ops h (fs_store s) = None" and h: "strip h = h" and fp: "strip fp = fp"
  shows "settle_effect F ops r h fp (fs_store s) out (fs_store s')"
proof (cases "\<exists>tx payer last. codec_decode (fe_ext F) blob = Inr tx
    \<and> rbind (dindex tx ''Account'') (\<lambda>a. Inr (py_str a)) = Inr payer
    \<and> rbind (dindex tx ''LastLedgerSequence'') py_int = Inr last")
  case False
  then show ?thesis
    using run
    by (auto simp: settle_new_def cbind_def clift_def craise_def creturn_def intro!: settles_diverge
        split: sum.splits)
next
  case True
  then obtain tx payer last where d: "codec_decode (fe_ext F) blob = Inr tx"
    "rbind (dindex tx ''Account'') (\<lambda>a. Inr (py_str a)) = Inr payer"
    "rbind (dindex tx ''LastLedgerSequence'') py_int = Inr last" by blast
  obtain q s1 where q: "current_ledger F s = (q, s1)" by fastforce
  then have store: "fs_store s1 = fs_store s"
    using reads_onlyD(1) [OF reads_only_queries(1) q] by simp
  show ?thesis
  proof (cases q)
    case (Ok first)
    define st where "st = pending_state h (r_network r) payer first last fp"
    have st: "st_status st = Pending" "st_transaction st = h" "st_fingerprint st = fp"
      by (simp_all add: st_def pending_state_def h fp)
    obtain \<sigma>1 where res: "so_reserve ops st (settlement_ttl F r) (fs_store s) = (True, \<sigma>1)"
      using reserve_fresh [OF settlement_ttl_pos [of F r], of st "fs_store s"] free st by auto
    have "settles_state F ops r (settlement_ttl F r) st \<sigma>1 out (fs_store s')"
      using run d q Ok store res
        reconcile_settles [of F st r "settlement_ttl F r" "s1\<lparr>fs_store := \<sigma>1\<rparr>" out s']
        submit_and_wait_settles [of F blob st h "r_network r" payer r "s1\<lparr>fs_store := \<sigma>1\<rparr>" out s'] st
      by (auto simp: settle_new_def cbind_def clift_def creturn_def store_reserve_def Let_def
          simp flip: st_def split: if_splits)
    then show ?thesis
      using free st res by (auto simp: settle_effect_def)
  qed (use run d q store in \<open>auto simp: settle_new_def cbind_def clift_def creturn_def intro: settles_diverge\<close>)
qed

lemma settle_effect_run:
  assumes "settle F ops p r s = (out, s')" and "blob_and_hash (fe_ext F) p = Inr (blob, h)"
    and "hex_digests (fe_ext F)"
  shows "settle_effect F ops r h (requirements_fingerprint (fe_ext F) p r) (fs_store s) out (fs_store s')"
proof (cases "so_get ops h (fs_store s)")
  case (Some st)
  then show ?thesis
    using assms(1,2) settle_existing_effect
    by (auto simp: settle_def store_get_def cbind_def Let_def)
next
  case None
  let ?fp = "requirements_fingerprint (fe_ext F) p r"
  have hash: "signed_transaction_hash (fe_ext F) blob = Inr h"
    using assms(2) by (auto simp: blob_and_hash_def rbind_eq_Inr)
  have run: "settle_verified F ops p r blob h ?fp s = (out, s')"
    using assms(1,2) None by (simp add: settle_def store_get_def cbind_def Let_def)
  obtain v s1 where v: "verify F p r s = (v, s1)" by fastforce
  then have store: "fs_store s1 = fs_store s"
    using reads_onlyD(1) [OF reads_only_verify v] by simp
  show ?thesis
    using run v store None hex_digest_strip [OF assms(3)] hash
      settle_new_effect [of F blob h ?fp r s1 out s']
    by (cases v) (auto simp: settle_verified_def cbind_def creturn_def intro: settles_diverge split: if_splits)
qed

end

section \<open>What a settlement guarantees\<close>

lemma decided_fields:
  assumes "decided F r st st'"
  shows "st_transaction st' = st_transaction st" and "st_fingerprint st' = st_fingerprint st"
    and "st_status st' \<noteq> Pending" and "st_status st' = Validated \<Longrightarrow> confirmed F r st"
    and "st_status st' = Failed \<Longrightarrow> refuted F r st"
  using assms by (auto simp: decided_def completed_def fail_with_def)

context settlement_store
begin

lemma wf_reserve:
  assumes "wf_store ops \<sigma>" and "so_reserve ops s ttl \<sigma> = (b, \<sigma>')" and "0 < ttl"
  shows "wf_store ops \<sigma>'"
  unfolding wf_store_def
proof (intro allI impI)
  fix t c assume c: "so_get ops t \<sigma>' = Some c"
  show "upper (st_transaction c) = upper t"
  proof (cases "so_get ops (st_transaction s) \<sigma>")
    case None
    then show ?thesis
      using reserve_fresh [OF assms(3) None] assms(1,2) c by (auto simp: wf_store_def split: if_splits)
  next
    case (Some x)
    then show ?thesis
      using reserve_taken [of s \<sigma> ttl] assms(1,2) c by (auto simp: wf_store_def)
  qed
qed

lemma wf_update:
  assumes "wf_store ops \<sigma>" and "0 < ttl"
  shows "wf_store ops (so_update ops s ttl \<sigma>)"
  using assms by (auto simp: wf_store_def get_update split: if_splits)

lemma settles_wf:
  "settles_state F ops r ttl st \<sigma> out \<sigma>' \<Longrightarrow> wf_store ops \<sigma> \<Longrightarrow> 0 < ttl \<Longrightarrow> wf_store ops \<sigma>'"
  by (auto simp: settles_state_def wf_update)

lemma settle_effect_wf:
  "settle_effect F ops r h fp \<sigma> out \<sigma>' \<Longrightarrow> wf_store ops \<sigma> \<Longrightarrow> wf_store ops \<sigma>'"
  using settlement_ttl_pos [of F r] by (auto simp: settle_effect_def intro: settles_wf wf_reserve)

text \<open>A decided state takes the place of the pending one it was made from.\<close>

lemma update_decided:
  assumes "so_get ops h \<sigma> = Some st" and "st_status st = Pending" and "upper (st_transaction st) = upper h"
    and "decided F r st st'" and "0 < ttl"
  shows "so_get ops h (so_update ops st' ttl \<sigma>) = Some st'"
proof -
  have "so_get ops (st_transaction st') \<sigma> = Some st"
    using assms(1,3) get_cong [of "st_transaction st" h \<sigma>] decided_fields(1) [OF assms(4)] by simp
  moreover have "supersedes st' st"
    using decided_fields(3) [OF assms(4)] assms(2) by (cases "st_status st'") (simp_all add: supersedes_def)
  ultimately show ?thesis
    using assms(3) decided_fields(1) [OF assms(4)] by (simp add: get_update [OF assms(5)])
qed

lemma settles_get:
  assumes "settles_state F ops r ttl st \<sigma> out \<sigma>'" and "so_get ops h \<sigma> = Some st" and "st_status st = Pending"
    and "upper (st_transaction st) = upper h" and "0 < ttl"
  shows "(so_get ops h \<sigma>' = Some st \<and> (\<forall>v. out = Ok v \<longrightarrow> \<not> sr_success v))
    \<or> (\<exists>st'. so_get ops h \<sigma>' = Some st' \<and> decided F r st st' \<and> out = Ok (state_response st' (r_amount r)))"
  using assms(1) update_decided [OF assms(2-4) _ assms(5)] assms(2) unfolding settles_state_def by blast

text \<open>The life of one hash through a settlement.\<close>

lemma settle_effect_get:
  assumes "settle_effect F ops r h fp \<sigma> out \<sigma>'" and "wf_store ops \<sigma>"
  shows "(so_get ops h \<sigma>' = so_get ops h \<sigma>
            \<and> (\<forall>v. out = Ok v \<and> sr_success v \<longrightarrow>
                (\<exists>st. so_get ops h \<sigma> = Some st \<and> st_status st = Validated \<and> st_fingerprint st = fp
                   \<and> v = state_response st (r_amount r))))
    \<or> (\<exists>st. st_status st = Pending \<and> st_fingerprint st = fp \<and> upper (st_transaction st) = upper h
         \<and> so_get ops h \<sigma> \<in> {None, Some st} \<and>
         ((so_get ops h \<sigma>' = Some st \<and> (\<forall>v. out = Ok v \<longrightarrow> \<not> sr_success v))
          \<or> (\<exists>st'. so_get ops h \<sigma>' = Some st' \<and> decided F r st st' \<and> out = Ok (state_response st' (r_amount r)))))"
proof -
  note ttl = settlement_ttl_pos [of F r]
  from assms(1) consider
      (same) "\<sigma>' = \<sigma>" "\<forall>v. out = Ok v \<and> sr_success v \<longrightarrow>
        (\<exists>st. so_get ops h \<sigma> = Some st \<and> st_status st = Validated \<and> st_fingerprint st = fp
            \<and> v = state_response st (r_amount r))"
    | (pending) st where "so_get ops h \<sigma> = Some st" "st_status st = Pending" "st_fingerprint st = fp"
        "settles_state F ops r (settlement_ttl F r) st \<sigma> out \<sigma>'"
    | (fresh) st \<sigma>1 where "so_get ops h \<sigma> = None" "st_status st = Pending" "st_transaction st = h"
        "st_fingerprint st = fp" "so_reserve ops st (settlement_ttl F r) \<sigma> = (True, \<sigma>1)"
        "settles_state F ops r (settlement_ttl F r) st \<sigma>1 out \<sigma>'"
    unfolding settle_effect_def by blast
  then show ?thesis
  proof cases
    case same
    then show ?thesis by simp
  next
    case pending
    then have "upper (st_transaction st) = upper h"
      using assms(2) by (simp add: wf_store_def)
    with settles_get [OF pending(4,1,2) this ttl] pending show ?thesis by blast
  next
    case fresh
    then have "so_get ops h \<sigma>1 = Some st"
      using reserve_True(2) [OF fresh(5) ttl] by simp
    with settles_get [OF fresh(6) this fresh(2) _ ttl] fresh show ?thesis by auto
  qed
qed

lemma settle_success:
  assumes "settle F ops p r s = (Ok v, s')" and "sr_success v" and "blob_and_hash (fe_ext F) p = Inr (blob, h)"
    and "hex_digests (fe_ext F)" and "wf_store ops (fs_store s)"
  shows "\<exists>st. so_get ops h (fs_store s') = Some st \<and> st_status st = Validated
    \<and> st_fingerprint st = requirements_fingerprint (fe_ext F) p r \<and> v = state_response st (r_amount r)
    \<and> (so_get ops h (fs_store s) = Some st
       \<or> (\<exists>st0. st = completed st0 r \<and> confirmed F r st0 \<and> so_get ops h (fs_store s) \<in> {None, Some st0}))"
  using settle_effect_get [OF settle_effect_run [OF assms(1,3,4)] assms(5)] assms(2)
  by (auto simp: state_response_success decided_def completed_def fail_with_def)

lemma settle_failure:
  assumes "settle F ops p r s = (out, s')" and "blob_and_hash (fe_ext F) p = Inr (blob, h)"
    and "hex_digests (fe_ext F)" and "wf_store ops (fs_store s)"
    and "so_get ops h (fs_store s') = Some st" and "st_status st = Failed"
  shows "so_get ops h (fs_store s) = Some st
    \<or> (\<exists>st0 reason. st = fail_with st0 reason \<and> refuted F r st0 \<and> so_get ops h (fs_store s) \<in> {None, Some st0})"
  using settle_effect_get [OF settle_effect_run [OF assms(1,2,3)] assms(4)] assms(5,6)
  by (auto simp: decided_def completed_def fail_with_def)

end

section \<open>Submissions\<close>

definition no_submit :: "('s fac_state, 'a) cmd \<Rightarrow> bool" where
  "no_submit m \<longleftrightarrow> emits fs_log (\<lambda>q. \<not> is_submit q) m"

lemma no_submit_reads_only: "reads_only m \<Longrightarrow> no_submit m"
  by (auto simp: no_submit_def reads_only_def intro: emits_mono elim!: probes.elims)

lemma no_submit_rules:
  "no_submit (creturn x)" "no_submit (clift c)" "\<not> is_submit q \<Longrightarrow> no_submit (rpc F q)"
  "no_submit m \<Longrightarrow> (\<And>x. no_submit (f x)) \<Longrightarrow> no_submit (cbind m f)"
  "no_submit m1 \<Longrightarrow> (\<And>e. no_submit (g1 e)) \<Longrightarrow> (\<And>y. no_submit (f1 y)) \<Longrightarrow> no_submit (ctry_else m1 g1 f1)"
  "no_submit m2 \<Longrightarrow> no_submit n2 \<Longrightarrow> no_submit (if b then m2 else n2)"
  "no_submit m3 \<Longrightarrow> (\<And>z. no_submit (f3 z)) \<Longrightarrow> no_submit (case v of None \<Rightarrow> m3 | Some z \<Rightarrow> f3 z)"
  by (simp_all add: no_submit_def emits_rules split: option.splits)
    (auto simp: emits_def rpc_def split: sum.splits)

lemma no_submit_record: "no_submit (record_state ops st r ttl)"
  by (simp add: no_submit_def emits_def record_state_run)

lemma no_submit_wait: "no_submit (wait_loop F ops n st r ttl)"
proof (induction n)
  case (Suc n)
  then show ?case
    unfolding wait_loop.simps query_transaction_def Let_def
    by (auto intro!: no_submit_rules no_submit_record)
qed (simp add: no_submit_rules)

lemma no_submit_reconcile: "no_submit (reconcile F ops st r ttl)"
  unfolding reconcile_def reconcile_absent_def query_transaction_def Let_def
  by (auto intro!: no_submit_rules no_submit_record no_submit_reads_only [OF reads_only_queries(1)])

lemma no_submit_existing: "no_submit (settle_existing F ops st fp h r)"
  by (auto simp: settle_existing_def intro!: no_submit_rules no_submit_reconcile)

lemma no_submitD:
  "no_submit m \<Longrightarrow> m s = (out, s') \<Longrightarrow> \<exists>l. fs_log s' = fs_log s @ l \<and> filter is_submit l = []"
  using emitsD [of fs_log "\<lambda>q. \<not> is_submit q" m s out s'] by (auto simp: no_submit_def list_all_iff filter_empty_conv)

lemma submit_and_wait_log:
  assumes "submit_and_wait F ops blob st h network payer r s = (out, s')"
  shows "\<exists>l. fs_log s' = fs_log s @ l \<and> filter is_submit l = [SubmitOnly blob]"
proof (cases "fe_client F (fs_log s) (SubmitOnly blob)")
  case (Inl e)
  then show ?thesis
    using assms by (auto simp: submit_and_wait_def ctry_else_def rpc_def creturn_def)
next
  case (Inr v)
  then have "wait_loop F ops (nat (VALIDATION_TIMEOUT (fe_settings F))) st r (settlement_ttl F r)
      (s\<lparr>fs_sent := fs_sent s @ [(blob, fs_store s)], fs_log := fs_log s @ [SubmitOnly blob]\<rparr>) = (out, s')"
    using assms by (simp add: submit_and_wait_def ctry_else_def rpc_def wait_for_validation_def)
  from no_submitD [OF no_submit_wait this] show ?thesis by auto
qed

context settlement_store
begin

lemma settle_new_log:
  assumes run: "settle_new F ops blob h fp r s = (out, s')"
    and free: "so_get ops h (fs_store s) = None" and h: "strip h = h"
  shows "\<exists>l. fs_log s' = fs_log s @ l \<and>
    (filter is_submit l = [] \<or> filter is_submit l = [SubmitOnly blob] \<and> so_get ops h (fs_store s') \<noteq> None)"
proof (cases "\<exists>tx payer last. codec_decode (fe_ext F) blob = Inr tx
    \<and> rbind (dindex tx ''Account'') (\<lambda>a. Inr (py_str a)) = Inr payer
    \<and> rbind (dindex tx ''LastLedgerSequence'') py_int = Inr last")
  case False
  then show ?thesis
    using run by (auto simp: settle_new_def cbind_def clift_def craise_def creturn_def split: sum.splits)
next
  case True
  then obtain tx payer last where d: "codec_decode (fe_ext F) blob = Inr tx"
    "rbind (dindex tx ''Account'') (\<lambda>a. Inr (py_str a)) = Inr payer"
    "rbind (dindex tx ''LastLedgerSequence'') py_int = Inr last" by blast
  obtain q s1 where q: "current_ledger F s = (q, s1)" by fastforce
  then have store: "fs_store s1 = fs_store s"
    using reads_onlyD(1) [OF reads_only_queries(1) q] by simp
  obtain l1 where l1: "fs_log s1 = fs_log s @ l1" "filter is_submit l1 = []"
    using no_submitD [OF no_submit_reads_only [OF reads_only_queries(1)] q] by blast
  show ?thesis
  proof (cases q)
    case (Ok first)
    define st where "st = pending_state h (r_network r) payer first last fp"
    have st: "st_status st = Pending" "st_transaction st = h"
      by (simp_all add: st_def pending_state_def h)
    obtain \<sigma>1 where res: "so_reserve ops st (settlement_ttl F r) (fs_store s) = (True, \<sigma>1)"
      using reserve_fresh [OF settlement_ttl_pos [of F r], of st "fs_store s"] free st by auto
    have get1: "so_get ops h \<sigma>1 = Some st"
      using reserve_True(2) [OF res settlement_ttl_pos] st by simp
    let ?s2 = "s1\<lparr>fs_store := \<sigma>1\<rparr>"
    have "reconcile F ops st r (settlement_ttl F r) ?s2 = (out, s')
        \<or> submit_and_wait F ops blob st h (r_network r) payer r ?s2 = (out, s')"
      using run d q Ok store res
      by (auto simp: settle_new_def cbind_def clift_def creturn_def store_reserve_def Let_def
          simp flip: st_def split: if_splits)
    then show ?thesis
    proof
      assume "reconcile F ops st r (settlement_ttl F r) ?s2 = (out, s')"
      from no_submitD [OF no_submit_reconcile this] l1 show ?thesis by auto
    next
      assume sub: "submit_and_wait F ops blob st h (r_network r) payer r ?s2 = (out, s')"
      have "settles_state F ops r (settlement_ttl F r) st \<sigma>1 out (fs_store s')"
        using submit_and_wait_settles [OF sub] by simp
      from settles_get [OF this get1 st(1) _ settlement_ttl_pos] st(2)
      have "so_get ops h (fs_store s') \<noteq> None" by auto
      with submit_and_wait_log [OF sub] l1 show ?thesis by auto
    qed
  qed (use run d q l1 in \<open>auto simp: settle_new_def cbind_def clift_def creturn_def\<close>)
qed

text \<open>A settlement submits its own blob at most once, and only when the hash was free before and
  is bound afterwards.\<close>

lemma settle_log:
  assumes "settle F ops p r s = (out, s')" and "blob_and_hash (fe_ext F) p = Inr (blob, h)"
    and "hex_digests (fe_ext F)"
  shows "\<exists>l. fs_log s' = fs_log s @ l \<and>
    (filter is_submit l = [] \<or> filter is_submit l = [SubmitOnly blob]
       \<and> so_get ops h (fs_store s) = None \<and> so_get ops h (fs_store s') \<noteq> None)"
proof (cases "so_get ops h (fs_store s)")
  case (Some st)
  then have "settle_existing F ops st (requirements_fingerprint (fe_ext F) p r) h r s = (out, s')"
    using assms(1,2) by (auto simp: settle_def store_get_def cbind_def Let_def)
  from no_submitD [OF no_submit_existing this] show ?thesis by auto
next
  case None
  let ?fp = "requirements_fingerprint (fe_ext F) p r"
  have hash: "signed_transaction_hash (fe_ext F) blob = Inr h"
    using assms(2) by (auto simp: blob_and_hash_def rbind_eq_Inr)
  have run: "settle_verified F ops p r blob h ?fp s = (out, s')"
    using assms(1,2) None by (simp add: settle_def store_get_def cbind_def Let_def)
  obtain v s1 where v: "verify F p r s = (v, s1)" by fastforce
  then have store: "fs_store s1 = fs_store s"
    using reads_onlyD(1) [OF reads_only_verify v] by simp
  obtain l1 where l1: "fs_log s1 = fs_log s @ l1" "filter is_submit l1 = []"
    using no_submitD [OF no_submit_reads_only [OF reads_only_verify] v] by blast
  show ?thesis
    using run v store None hex_digest_strip [OF assms(3)] hash l1
      settle_new_log [of F blob h ?fp r s1 out s']
    by (cases v) (auto simp: settle_verified_def cbind_def creturn_def split: if_splits)
qed

lemma settle_invalid:
  assumes "blob_and_hash (fe_ext F) p = Inl e"
  shows "\<exists>v. settle F ops p r s = (Ok v, s) \<and> \<not> sr_success v"
  using assms by (simp add: settle_def creturn_def)

text \<open>A bound hash stays bound, and its rank never drops.\<close>

lemma settles_rank:
  assumes "settles_state F ops r ttl st \<sigma> out \<sigma>'" and "so_get ops t \<sigma> = Some c" and "0 < ttl"
  shows "\<exists>c'. so_get ops t \<sigma>' = Some c' \<and> STATE_RANK (st_status c) \<le> STATE_RANK (st_status c')"
  using assms update_rank [OF assms(2,3)] by (auto simp: settles_state_def)

lemma settle_effect_rank:
  assumes "settle_effect F ops r h fp \<sigma> out \<sigma>'" and "so_get ops t \<sigma> = Some c"
  shows "\<exists>c'. so_get ops t \<sigma>' = Some c' \<and> STATE_RANK (st_status c) \<le> STATE_RANK (st_status c')"
proof -
  note ttl = settlement_ttl_pos [of F r]
  have "so_get ops t \<sigma>1 = Some c" if "so_reserve ops st (settlement_ttl F r) \<sigma> = (True, \<sigma>1)" for st \<sigma>1
    using reserve_rank [OF assms(2) ttl, of st] that by simp
  then show ?thesis
    using assms settles_rank [OF _ _ ttl] unfolding settle_effect_def by blast
qed

lemma settle_rank:
  assumes "settle F ops p r s = (out, s')" and "hex_digests (fe_ext F)" and "so_get ops t (fs_store s) = Some c"
  shows "\<exists>c'. so_get ops t (fs_store s') = Some c' \<and> STATE_RANK (st_status c) \<le> STATE_RANK (st_status c')"
proof (cases "blob_and_hash (fe_ext F) p")
  case (Inl e)
  then show ?thesis
    using settle_invalid [OF Inl, of r s] assms(1,3) by auto
next
  case (Inr bh)
  then show ?thesis
    using settle_effect_rank [OF settle_effect_run [OF assms(1) _ assms(2)] assms(3)] by (cases bh) blast
qed

end

context settlement_store
begin

lemma settle_again:
  assumes "settle F ops p r s = (Ok v, s')" and "sr_success v" and "hex_digests (fe_ext F)"
    and "wf_store ops (fs_store s)"
  shows "settle F ops p r s' = (Ok v, s')"
proof (cases "blob_and_hash (fe_ext F) p")
  case (Inl e)
  then show ?thesis
    using settle_invalid [OF Inl, of r s] assms by auto
next
  case (Inr bh)
  obtain blob h where bh: "blob_and_hash (fe_ext F) p = Inr (blob, h)"
    using Inr by (cases bh) auto
  obtain st where "so_get ops h (fs_store s') = Some st" "st_status st = Validated"
    "st_fingerprint st = requirements_fingerprint (fe_ext F) p r" "v = state_response st (r_amount r)"
    using settle_success [OF assms(1,2) bh assms(3,4)] by blast
  then show ?thesis
    using bh by (simp add: settle_def store_get_def cbind_def settle_existing_def reconcile_final Let_def)
qed

end


section \<open>Bounded work\<close>

text \<open>A command that looks a transaction up at most \<open>k\<close> times.\<close>

definition lookups :: "nat \<Rightarrow> ('s fac_state, 'a) cmd \<Rightarrow> bool" where
  "lookups k m \<longleftrightarrow> (\<forall>s. \<exists>l. fs_log (snd (m s)) = fs_log s @ l \<and> length (filter is_tx l) \<le> k)"

lemma lookups_mono: "lookups k m \<Longrightarrow> k \<le> n \<Longrightarrow> lookups n m"
  unfolding lookups_def by (meson order_trans)

lemma lookups_reads_only: "reads_only m \<Longrightarrow> lookups 0 m"
proof -
  have "filter is_tx l = []" if "list_all probes l" for l
    using that by (auto simp: filter_empty_conv list_all_iff elim!: is_tx.elims)
  then show "reads_only m \<Longrightarrow> lookups 0 m"
    unfolding reads_only_def emits_def lookups_def by (metis le_zero_eq list.size(3))
qed

lemma lookups_else:
  assumes "lookups a m" and "\<And>e. lookups b (h e)" and "\<And>x. lookups b (f x)"
  shows "lookups (a + b) (ctry_else m h f)"
  unfolding lookups_def
proof
  fix s
  obtain out s1 where m: "m s = (out, s1)" by fastforce
  then obtain l where l: "fs_log s1 = fs_log s @ l" "length (filter is_tx l) \<le> a"
    using assms(1) unfolding lookups_def by (metis snd_conv)
  have "\<exists>l'. fs_log (snd (ctry_else m h f s)) = fs_log s1 @ l' \<and> length (filter is_tx l') \<le> b"
    using assms(2,3) m unfolding lookups_def by (cases out) (simp_all add: ctry_else_def)
  then obtain l' where "fs_log (snd (ctry_else m h f s)) = fs_log s1 @ l'" "length (filter is_tx l') \<le> b"
    by blast
  with l have "fs_log (snd (ctry_else m h f s)) = fs_log s @ (l @ l')" "length (filter is_tx (l @ l')) \<le> a + b"
    by simp_all
  then show "\<exists>l. fs_log (snd (ctry_else m h f s)) = fs_log s @ l \<and> length (filter is_tx l) \<le> a + b"
    by blast
qed

lemma lookups_leaf: "lookups b (creturn x)" "lookups b (clift y)" "lookups b (record_state ops st r ttl)"
    "lookups b (craise e)" "lookups b (cget g)" "lookups b (store_get ops t)" "lookups b (store_reserve ops st ttl)"
    "lookups b (rpc F (SubmitOnly blob))"
  by (simp_all add: lookups_def creturn_def clift_def craise_def cget_def record_state_run store_get_def Let_def
      store_reserve_def rpc_def split: sum.splits prod.splits)

lemma lookups_bind: "lookups a m \<Longrightarrow> (\<And>x. lookups b (f x)) \<Longrightarrow> lookups (a + b) (cbind m f)"
  by (simp add: cbind_conv lookups_else lookups_leaf)

lemma lookups_bind0: "lookups 0 m \<Longrightarrow> (\<And>x. lookups b (f x)) \<Longrightarrow> lookups b (cbind m f)"
  using lookups_bind [of 0 m b f] by simp

lemma lookups_cond:
  "lookups b m \<Longrightarrow> lookups b n \<Longrightarrow> lookups b (if c then m else n)"
  "lookups b m \<Longrightarrow> (\<And>x. lookups b (k x)) \<Longrightarrow> lookups b (case v of None \<Rightarrow> m | Some x \<Rightarrow> k x)"
  by (simp_all split: option.splits)

lemma lookups_query: "lookups 1 (query_transaction F st)"
  by (simp add: lookups_def query_transaction_run)

lemma lookups_wait: "lookups n (wait_loop F ops n st r ttl)"
proof (induction n)
  case (Suc n)
  have "lookups (1 + n) (wait_loop F ops (Suc n) st r ttl)"
    unfolding wait_loop.simps Let_def
    by (rule lookups_bind [OF lookups_query]) (intro lookups_cond lookups_bind0 lookups_leaf Suc)
  then show ?case by simp
qed (simp add: lookups_leaf)

lemma lookups_reconcile: "lookups 1 (reconcile F ops st r ttl)"
proof -
  have "lookups 0 (reconcile_absent F ops st r ttl)"
    unfolding reconcile_absent_def
    by (rule lookups_else [of 0 _ 0, simplified]) (auto intro: lookups_reads_only reads_only_queries lookups_leaf)
  then have "lookups (1 + 0) (reconcile F ops st r ttl)"
    unfolding reconcile_def Let_def
    by (intro lookups_cond lookups_leaf lookups_bind [OF lookups_query] lookups_bind0)
  then show ?thesis by simp
qed

lemma lookups_existing: "lookups 1 (settle_existing F ops st fp h r)"
  unfolding settle_existing_def by (intro lookups_cond lookups_leaf lookups_reconcile)

lemma lookups_settle: "lookups (max 1 (nat (VALIDATION_TIMEOUT (fe_settings F)))) (settle F ops p r)"
proof -
  let ?n = "max 1 (nat (VALIDATION_TIMEOUT (fe_settings F)))"

  have existing: "lookups ?n (settle_existing F ops st fp h r)" for st fp h
    by (rule lookups_mono [OF lookups_existing]) simp
  have reconcile: "lookups ?n (reconcile F ops st r ttl)" for st ttl
    by (rule lookups_mono [OF lookups_reconcile]) simp
  have submit: "lookups ?n (submit_and_wait F ops blob st h nw payer r)" for blob st h nw payer
    unfolding submit_and_wait_def wait_for_validation_def
    by (rule lookups_else [of 0 _ ?n, unfolded add_0]) (auto intro: lookups_leaf lookups_mono [OF lookups_wait])
  have new: "lookups ?n (settle_new F ops blob h fp r)" for blob h fp
    unfolding settle_new_def Let_def
    by (intro lookups_bind0 lookups_cond lookups_leaf lookups_reads_only [OF reads_only_queries(1)]
        existing submit reconcile)
  have verified: "lookups ?n (settle_verified F ops p r blob h fp)" for blob h fp
    unfolding settle_verified_def
    by (intro lookups_bind0 lookups_cond lookups_leaf lookups_reads_only [OF reads_only_verify] new)
  show ?thesis
    unfolding settle_def Let_def
    by (cases "blob_and_hash (fe_ext F) p")
      (auto simp del: One_nat_def split: prod.split intro!: lookups_bind0 lookups_cond lookups_leaf existing verified)
qed

section \<open>Properties of the facilitator on Redis\<close>

lemma redis_get_ops [simp]: "so_get redis_ops = redis_get"
  by (simp add: redis_ops_def)

text \<open>C2. A success is the ledger's word. When \<open>settle\<close> reports success, the Redis store holds a
  validated state for the transaction's hash, bound to this very request, and the report repeats
  it. Unless that state was already there, the ledger has confirmed the transaction during the
  call: it is in a validated ledger with \<open>tesSUCCESS\<close> and delivered exactly the required amount.\<close>

theorem settle_success_is_confirmed:
  assumes "settle F redis_ops payload r s = (Ok v, s')" and "sr_success v"
    and "blob_and_hash (fe_ext F) payload = Inr (blob, h)"
    and "hex_digests (fe_ext F)" and "wf_store redis_ops (fs_store s)"
  shows "\<exists>st. redis_get h (fs_store s') = Some st \<and> st_status st = Validated
    \<and> st_fingerprint st = requirements_fingerprint (fe_ext F) payload r \<and> v = state_response st (r_amount r)
    \<and> (redis_get h (fs_store s) = Some st
       \<or> (\<exists>st0. st = completed st0 r \<and> confirmed F r st0 \<and> redis_get h (fs_store s) \<in> {None, Some st0}))"
  using red.settle_success [OF assms] by simp

text \<open>C32. A failure is the ledger's word too: a settlement leaves a failed state for the hash only
  if it was there before, or if the ledger refuted the transaction: validated without success or
  with another amount, or authoritatively absent from the whole range up to its last ledger after
  the validated ledger has reached it. No timeout, lost connection or unclear reply fails one.\<close>

theorem settle_failure_is_refuted:
  assumes "settle F redis_ops payload r s = (out, s')" and "blob_and_hash (fe_ext F) payload = Inr (blob, h)"
    and "hex_digests (fe_ext F)" and "wf_store redis_ops (fs_store s)"
    and "redis_get h (fs_store s') = Some st" and "st_status st = Failed"
  shows "redis_get h (fs_store s) = Some st
    \<or> (\<exists>st0 reason. st = fail_with st0 reason \<and> refuted F r st0 \<and> redis_get h (fs_store s) \<in> {None, Some st0})"
  using red.settle_failure [OF assms(1-4)] assms(5,6) by simp

text \<open>A retry of a settled payment is answered from the store: after a success, settling the
  same payload again gives the same answer, changes nothing and sends nothing to the ledger.\<close>

theorem settle_idempotent:
  assumes "settle F redis_ops payload r s = (Ok v, s')" and "sr_success v"
    and "hex_digests (fe_ext F)" and "wf_store redis_ops (fs_store s)"
  shows "settle F redis_ops payload r s' = (Ok v, s')"
  by (rule red.settle_again [OF assms])

text \<open>C34. A transaction cannot be moved to another request: while its hash is bound to a payment
  fingerprint, settling it with a payload or requirements of another fingerprint is refused, and
  neither the store nor the ledger is touched.\<close>

theorem settle_refuses_rebinding:
  assumes "blob_and_hash (fe_ext F) payload = Inr (blob, h)" and "redis_get h (fs_store s) = Some st"
    and "st_fingerprint st \<noteq> requirements_fingerprint (fe_ext F) payload r"
  shows "settle F redis_ops payload r s = (Ok (hash_mismatch st h), s)"
  using assms by (simp add: settle_def store_get_def cbind_def settle_existing_def creturn_def Let_def)

text \<open>The settlement store stays well-formed: every state is kept under its own hash, and
  through a settlement a hash never loses its state nor drops in rank.\<close>

theorem settle_keeps_store:
  assumes "settle F redis_ops payload r s = (out, s')" and "hex_digests (fe_ext F)"
    and "wf_store redis_ops (fs_store s)"
  shows "wf_store redis_ops (fs_store s') \<and>
    (\<forall>t c. redis_get t (fs_store s) = Some c \<longrightarrow>
       (\<exists>c'. redis_get t (fs_store s') = Some c' \<and> STATE_RANK (st_status c) \<le> STATE_RANK (st_status c')))"
proof (intro conjI allI impI)
  show "wf_store redis_ops (fs_store s')"
  proof (cases "blob_and_hash (fe_ext F) payload")
    case (Inl e)
    then show ?thesis
      using red.settle_invalid [OF Inl, of r s] assms by auto
  next
    case (Inr bh)
    then show ?thesis
      using red.settle_effect_wf [OF red.settle_effect_run [OF assms(1) _ assms(2)] assms(3)] by (cases bh) blast
  qed
  show "\<exists>c'. redis_get t (fs_store s') = Some c' \<and> STATE_RANK (st_status c) \<le> STATE_RANK (st_status c')"
    if "redis_get t (fs_store s) = Some c" for t c
    using red.settle_rank [OF assms(1,2), of t c] that by simp
qed

lemma returns_store [returns_rules]:
  "returns (store_get ops t)" "returns (store_reserve ops st ttl)" "returns (record_state ops st r ttl)"
  "returns (query_transaction F st)"
  by (simp_all add: returns_def store_get_def store_reserve_def Let_def record_state_run query_transaction_run
      split: prod.splits)

lemma returns_wait [returns_rules]: "returns (wait_loop F ops n st r ttl)"
proof (induction n)
  case (Suc n)
  then show ?case
    unfolding wait_loop.simps Let_def by (auto intro!: returns_rules)
qed (simp add: returns_rules)

lemma returns_reconcile [returns_rules]:
  "returns (reconcile F ops st r ttl)" "returns (settle_existing F ops st fp h r)"
  unfolding settle_existing_def reconcile_def reconcile_absent_def Let_def
  by (auto intro!: returns_rules)

text \<open>Settlement always answers or raises, and it looks the transaction up at most
  \<open>VALIDATION_TIMEOUT\<close> times (once when it only reconciles), under the same condition on the
  ledger's pagination as verification.\<close>

theorem settle_bounded:
  fixes s :: "redis_store fac_state"
  assumes "markers_in F M" and "card M < fe_fuel F" and "settle F redis_ops payload r s = (out, s')"
  shows "out \<noteq> Diverge \<and> (\<exists>requests. fs_log s' = fs_log s @ requests
    \<and> length (filter is_tx requests) \<le> max 1 (nat (VALIDATION_TIMEOUT (fe_settings F))))"
proof
  have "returns (verify F payload r :: (redis_store fac_state, verify_response) cmd)"
    unfolding returns_def by (intro allI verify_terminates [OF assms(1,2)])
  then have "returns (settle F redis_ops payload r)"
    unfolding settle_def settle_verified_def settle_new_def submit_and_wait_def wait_for_validation_def Let_def
    by (auto intro!: returns_rules split: sum.splits)
  then show "out \<noteq> Diverge"
    using assms(3) unfolding returns_def by (metis fst_conv)
  show "\<exists>requests. fs_log s' = fs_log s @ requests
      \<and> length (filter is_tx requests) \<le> max 1 (nat (VALIDATION_TIMEOUT (fe_settings F)))"
    using lookups_settle [of F redis_ops payload r] assms(3) unfolding lookups_def by (metis snd_conv)
qed

section \<open>Witnesses\<close>

definition sample_redis :: "redis_store fac_state" where
  "sample_redis = \<lparr>fs_store = redis_empty, fs_log = [], fs_sent = []\<rparr>"

text \<open>A ledger on which the sample transaction was included and failed.\<close>

definition failing_facilitator :: facilitator where
  "failing_facilitator = sample_facilitator\<lparr>fe_client := \<lambda>h q. case q of
       Tx _ _ _ \<Rightarrow> Inr (PDict [(''validated'', PBool True), (''meta'', PDict [(''TransactionResult'', PStr ''tecPATH_DRY'')])])
     | _ \<Rightarrow> sample_client h q\<rparr>"

lemma sample_hex_digests: "hex_digests (fe_ext sample_facilitator)"
proof -
  have "list_all is_hex (to_hex s)" for s
    using to_hex_hex [of s] by (simp add: upper_def list_all_iff)
  then show ?thesis
    by (simp add: hex_digests_def sample_facilitator_def sample_ext_def is_hex_def is_digit_def ord_c_def)
qed

lemma sample_wf: "wf_store redis_ops (fs_store sample_redis)"
  by (simp add: wf_store_def sample_redis_def redis_get_def redis_lookup_def redis_empty_def)

lemma sample_blob: "blob_and_hash (fe_ext sample_facilitator) sample_payload = Inr (''AB12'', sample_hash)"
  by (simp add: blob_and_hash_def sample_exact sample_signed_hash)

lemma sample_fingerprint: "requirements_fingerprint (fe_ext sample_facilitator) p r = ''F1''"
  by (simp add: requirements_fingerprint_def requirements_fingerprint_for_def sample_facilitator_def sample_ext_def)

lemmas run_defs = settle_def settle_verified_def settle_new_def settle_existing_def store_get_def store_reserve_def
  submit_and_wait_def wait_for_validation_def reconcile_def current_ledger_def cbind_def clift_def creturn_def cget_def
  ctry_else_def rpc_def query_transaction_run classify_lookup_def record_state_run transaction_result_def
  delivered_amount_error_def delivered_xrp_matches_def tx_meta_def py_or_def py_str_def Let_def vindex_def dindex_def

lemmas redis_defs = redis_ops_def redis_get_def redis_lookup_def redis_reserve_def redis_update_def redis_set_def
  MONOTONIC_UPDATE_SCRIPT_def settlement_key_def redis_empty_def

lemma sample_delivered: "isdigit ''1000''" "int_of_str ''1000'' = Inr 1000"
  by code_simp+

lemma sample_settles:
  obtains v s' where "settle sample_facilitator redis_ops sample_payload sample_xrp sample_redis = (Ok v, s')"
    and "sr_success v"
proof -
  have "nat (VALIDATION_TIMEOUT (fe_settings sample_facilitator)) = Suc 1"
    by (simp add: sample_facilitator_def sample_settings_def)
  then have "case settle sample_facilitator redis_ops sample_payload sample_xrp sample_redis of
      (Ok v, _) \<Rightarrow> sr_success v | _ \<Rightarrow> False"
    by (simp add: run_defs redis_defs sample_blob sample_verified_at sample_decode sample_fingerprint sample_redis_def
        del: redis_get_ops)
      (simp add: sample_tx_def sample_facilitator_def sample_client_def run_defs redis_defs sample_delivered sample_xrp_def
        pending_state_def completed_def state_response_def supersedes_def dget_default_def)
  then show ?thesis
    by (auto split: prod.splits outcome.splits intro: that)
qed

theorem settle_success_is_confirmed_witness:
  "\<exists>v s' st. settle sample_facilitator redis_ops sample_payload sample_xrp sample_redis = (Ok v, s')
     \<and> redis_get sample_hash (fs_store s') = Some st \<and> st_status st = Validated"
  by (rule sample_settles)
    (use settle_success_is_confirmed [OF _ _ sample_blob sample_hex_digests sample_wf] in blast)

theorem settle_idempotent_witness:
  "\<exists>v s'. settle sample_facilitator redis_ops sample_payload sample_xrp sample_redis = (Ok v, s') \<and> sr_success v
     \<and> settle sample_facilitator redis_ops sample_payload sample_xrp s' = (Ok v, s')"
  by (rule sample_settles) (use settle_idempotent [OF _ _ sample_hex_digests sample_wf] in blast)

text \<open>A store in which the sample transaction is pending under a given fingerprint.\<close>

definition bound_redis :: "string \<Rightarrow> redis_store fac_state" where
  "bound_redis fp = sample_redis\<lparr>fs_store := snd (redis_reserve
     (sample_pending\<lparr>st_transaction := sample_hash, st_fingerprint := fp\<rparr>) 300 redis_empty)\<rparr>"

lemma bound_redis_get:
  "redis_get t (fs_store (bound_redis fp)) =
     (if upper t = upper sample_hash then Some (sample_pending\<lparr>st_transaction := sample_hash, st_fingerprint := fp\<rparr>)
      else None)"
  by (auto simp: bound_redis_def sample_redis_def redis_defs Let_def sample_pending_def)

lemma bound_redis_wf: "wf_store redis_ops (fs_store (bound_redis fp))"
  by (auto simp: wf_store_def bound_redis_get split: if_splits)

theorem settle_failure_is_refuted_witness:
  "\<exists>st0. refuted failing_facilitator sample_xrp st0"
proof -
  have ext: "fe_ext failing_facilitator = fe_ext sample_facilitator"
    by (simp add: failing_facilitator_def)
  let ?st = "sample_pending\<lparr>st_transaction := sample_hash, st_fingerprint := ''F1''\<rparr>"
  let ?f = "fail_with ?st ''transaction_failed: tecPATH_DRY''"
  obtain out s' where run: "settle failing_facilitator redis_ops sample_payload sample_xrp (bound_redis ''F1'') = (out, s')"
    by fastforce
  then have "fs_store s' = redis_update ?f (settlement_ttl failing_facilitator sample_xrp) (fs_store (bound_redis ''F1''))"
    by (auto simp: run_defs sample_blob sample_fingerprint ext bound_redis_get failing_facilitator_def sample_pending_def redis_ops_def)
  then have st: "redis_get sample_hash (fs_store s') = Some ?f"
    using red.get_update [OF settlement_ttl_pos, of sample_hash ?f failing_facilitator sample_xrp "fs_store (bound_redis ''F1'')"]
    by (simp add: redis_ops_def bound_redis_get fail_with_def supersedes_def sample_pending_def)
  have "st_status ?f = Failed"
    by (simp add: fail_with_def)
  from settle_failure_is_refuted [OF run _ _ bound_redis_wf st this, unfolded ext, OF sample_blob sample_hex_digests]
  show ?thesis
    by (auto simp: bound_redis_get fail_with_def sample_pending_def)
qed

theorem settle_refuses_rebinding_witness:
  "\<exists>st. settle sample_facilitator redis_ops sample_payload sample_xrp (bound_redis ''00'') =
     (Ok (hash_mismatch st sample_hash), bound_redis ''00'')"
proof -
  let ?st = "sample_pending\<lparr>st_transaction := sample_hash, st_fingerprint := ''00''\<rparr>"
  have "st_fingerprint ?st \<noteq> requirements_fingerprint (fe_ext sample_facilitator) sample_payload sample_xrp"
    by (simp add: sample_fingerprint)
  moreover have "redis_get sample_hash (fs_store (bound_redis ''00'')) = Some ?st"
    by (simp add: bound_redis_get)
  ultimately show ?thesis
    using settle_refuses_rebinding [OF sample_blob, of "bound_redis ''00''" ?st] by blast
qed

theorem settle_keeps_store_witness:
  "\<exists>v s'. settle sample_facilitator redis_ops sample_payload sample_xrp sample_redis = (v, s')
     \<and> wf_store redis_ops (fs_store s')"
  by (rule sample_settles) (use settle_keeps_store [OF _ sample_hex_digests sample_wf] in blast)

theorem settle_bounded_witness:
  "\<exists>v s'. settle sample_facilitator redis_ops sample_payload sample_xrp sample_redis = (Ok v, s')
     \<and> length (filter is_tx (fs_log s')) \<le> 2"
proof (rule sample_settles)
  fix v s' assume run: "settle sample_facilitator redis_ops sample_payload sample_xrp sample_redis = (Ok v, s')"
  have "markers_in sample_facilitator {}" and "card ({} :: pyval set) < fe_fuel sample_facilitator"
    by (auto simp: markers_in_def sample_facilitator_def sample_client_def split: rpc_request.splits)
  from settle_bounded [OF this run] run show ?thesis
    by (auto simp: sample_facilitator_def sample_settings_def sample_redis_def)
qed

end
