(* ===== verification/SettleShared.thy ===== *)
theory SettleShared
  imports SettleCorrect
begin

text \<open>
  Several facilitator workers on one Redis. The shared store is the history of everything that
  happened to it: the commands of every worker, each with the worker that ran it, and the passing
  of time. Between any two store commands of a worker the others may have done anything and any
  time may have passed. A transaction is submitted only by a worker whose own reservation bound
  its hash, and two reservations of one hash are separated by a recorded outcome and its whole
  time to live.
\<close>

section \<open>The shared store\<close>

type_synonym history = "(nat \<times> store_event) list"

definition redis_at :: "history \<Rightarrow> redis_store" where
  "redis_at H = redis_run (map snd H) redis_empty"

definition shared_ops :: "nat \<Rightarrow> (history \<Rightarrow> history) \<Rightarrow> history store_ops" where
  "shared_ops me others =
     \<lparr>so_get = (\<lambda>t H. redis_get t (redis_at H)),
      so_reserve = (\<lambda>st ttl H. (fst (redis_reserve st ttl (redis_at H)), H @ [(me, Reserve st ttl)])),
      so_update = (\<lambda>st ttl H. H @ [(me, Update st ttl)]),
      so_others = (\<lambda>H. H @ others H)\<rparr>"

lemma redis_run_append: "redis_run (es @ fs) r = redis_run fs (redis_run es r)"
  by (induction es arbitrary: r) simp_all

lemma redis_at_snoc: "redis_at (H @ [x]) = redis_event (snd x) (redis_at H)"
  by (simp add: redis_at_def redis_run_append)

text \<open>The seconds that pass in a part of the history.\<close>

fun event_seconds :: "store_event \<Rightarrow> int" where
  "event_seconds (Tick n) = int n"
| "event_seconds _ = 0"

definition elapsed :: "history \<Rightarrow> int" where
  "elapsed H = sum_list (map (event_seconds \<circ> snd) H)"

lemma event_seconds_nonneg: "0 \<le> event_seconds e"
  by (cases e) simp_all

lemma elapsed_simps [simp]:
  "elapsed [] = 0" "elapsed (x # H) = event_seconds (snd x) + elapsed H" "elapsed (G @ H) = elapsed G + elapsed H"
  by (simp_all add: elapsed_def)

lemma elapsed_nonneg: "0 \<le> elapsed H"
  by (induction H) (simp_all add: event_seconds_nonneg)


section \<open>The protocol of the workers\<close>

text \<open>What every worker does to the entry of a hash: it reserves it with a pending state, and
  updates it with a time to live of at least \<open>\<tau>\<close> seconds.\<close>

fun obeys :: "string \<Rightarrow> int \<Rightarrow> store_event \<Rightarrow> bool" where
  "obeys h \<tau> (Reserve st ttl) \<longleftrightarrow> (upper (st_transaction st) = upper h \<longrightarrow> st_status st = Pending)"
| "obeys h \<tau> (Update st ttl) \<longleftrightarrow> (upper (st_transaction st) = upper h \<longrightarrow> \<tau> \<le> ttl)"
| "obeys h \<tau> (Tick n) \<longleftrightarrow> True"

text \<open>An outcome of the hash was recorded, and at least \<open>\<tau>\<close> seconds have passed since.\<close>

definition outcome_lapsed :: "string \<Rightarrow> int \<Rightarrow> history \<Rightarrow> bool" where
  "outcome_lapsed h \<tau> H \<longleftrightarrow> (\<exists>us x vs. H = us @ x # vs \<and> settles h (snd x) \<and> \<tau> \<le> elapsed vs)"

lemma outcome_lapsed_snoc: "outcome_lapsed h \<tau> H \<Longrightarrow> outcome_lapsed h \<tau> (H @ [x])"
proof -
  assume "outcome_lapsed h \<tau> H"
  then obtain us y vs where "H = us @ y # vs" "settles h (snd y)" "\<tau> \<le> elapsed vs"
    by (auto simp: outcome_lapsed_def)
  then have "H @ [x] = us @ y # (vs @ [x])" "settles h (snd y)" "\<tau> \<le> elapsed (vs @ [x])"
    using event_seconds_nonneg [of "snd x"] by simp_all
  then show ?thesis
    unfolding outcome_lapsed_def by blast
qed

text \<open>The entry of a reserved hash, as the history goes on: pending without expiry, or decided with
  an expiry that is at least \<open>\<tau>\<close> seconds after the outcome was recorded, or lapsed.\<close>

definition kept_since :: "string \<Rightarrow> int \<Rightarrow> redis_store \<Rightarrow> history \<Rightarrow> bool" where
  "kept_since h \<tau> r H \<longleftrightarrow>
     (\<exists>c. rd_entries r (settlement_key h) = Some (c, None) \<and> st_status c = Pending)
     \<or> (\<exists>c t us x vs. rd_entries r (settlement_key h) = Some (c, Some t) \<and> st_status c \<noteq> Pending
          \<and> H = us @ x # vs \<and> settles h (snd x) \<and> rd_clock r + \<tau> - elapsed vs \<le> t)
     \<or> outcome_lapsed h \<tau> H"

lemma kept_since_tick: "kept_since h \<tau> r H \<Longrightarrow> kept_since h \<tau> (redis_event (Tick n) r) (H @ [(w, Tick n)])"
proof -
  assume "kept_since h \<tau> r H"
  then consider (pending) c where "rd_entries r (settlement_key h) = Some (c, None)" "st_status c = Pending"
    | (final) c t us x vs where "rd_entries r (settlement_key h) = Some (c, Some t)" "st_status c \<noteq> Pending"
        "H = us @ x # vs" "settles h (snd x)" "rd_clock r + \<tau> - elapsed vs \<le> t"
    | (lapsed) "outcome_lapsed h \<tau> H"
    unfolding kept_since_def by blast
  then show ?thesis
  proof cases
    case final
    then have "H @ [(w, Tick n)] = us @ x # (vs @ [(w, Tick n)])"
      "rd_clock (redis_event (Tick n) r) + \<tau> - elapsed (vs @ [(w, Tick n)]) \<le> t" by simp_all
    with final show ?thesis
      unfolding kept_since_def by (metis (no_types, lifting) redis_event.simps(3) redis_store.ext_inject redis_store.surjective redis_store.update_convs(2))
  qed (simp_all add: kept_since_def outcome_lapsed_snoc)
qed

text \<open>An entry that reads as absent was never replaced: it lapsed.\<close>

lemma kept_since_absent: "kept_since h \<tau> r H \<Longrightarrow> redis_lookup (settlement_key h) r = None \<Longrightarrow> outcome_lapsed h \<tau> H"
proof -
  assume kept: "kept_since h \<tau> r H" and none: "redis_lookup (settlement_key h) r = None"
  then consider (final) c t us x vs where "rd_entries r (settlement_key h) = Some (c, Some t)"
        "H = us @ x # vs" "settles h (snd x)" "rd_clock r + \<tau> - elapsed vs \<le> t"
    | (lapsed) "outcome_lapsed h \<tau> H"
    unfolding kept_since_def redis_lookup_def by force
  then show ?thesis
  proof cases
    case final
    then have "\<tau> \<le> elapsed vs"
      using none by (auto simp: redis_lookup_def split: if_splits)
    with final show ?thesis
      unfolding outcome_lapsed_def by blast
  qed
qed

text \<open>The entry stays kept through a command that leaves it alone, and through one that writes it.\<close>

lemma kept_since_same:
  assumes "kept_since h \<tau> r H" and "rd_entries r' (settlement_key h) = rd_entries r (settlement_key h)"
    and "rd_clock r' = rd_clock r"
  shows "kept_since h \<tau> r' (H @ [x])"
proof -
  from assms(1) consider (pending) c where "rd_entries r (settlement_key h) = Some (c, None)" "st_status c = Pending"
    | (final) c t us y vs where "rd_entries r (settlement_key h) = Some (c, Some t)" "st_status c \<noteq> Pending"
        "H = us @ y # vs" "settles h (snd y)" "rd_clock r + \<tau> - elapsed vs \<le> t"
    | (lapsed) "outcome_lapsed h \<tau> H"
    unfolding kept_since_def by blast
  then show ?thesis
  proof cases
    case final
    then have "H @ [x] = us @ y # (vs @ [x])" "rd_clock r' + \<tau> - elapsed (vs @ [x]) \<le> t"
      using event_seconds_nonneg [of "snd x"] assms(3) by simp_all
    with final assms(2) show ?thesis
      unfolding kept_since_def by metis
  qed (use assms(2) in \<open>simp_all add: kept_since_def outcome_lapsed_snoc\<close>)
qed

lemma kept_since_update:
  assumes kept: "kept_since h \<tau> r H" and key: "upper (st_transaction st) = upper h" and ttl: "\<tau> \<le> ttl"
    and live: "redis_lookup (settlement_key h) r = Some (c, x)"
  shows "kept_since h \<tau> (redis_update st ttl r) (H @ [(w, Update st ttl)])"
proof -
  have k: "settlement_key (st_transaction st) = settlement_key h"
    using key by simp
  note upd = redis_update_def k MONOTONIC_UPDATE_SCRIPT_def live redis_set_def
  have entry: "rd_entries r (settlement_key h) = Some (c, x)"
    using live by (auto simp: redis_lookup_def split: option.splits prod.splits if_splits)
  have decided: "kept_since h \<tau> (r\<lparr>rd_entries := (rd_entries r)(settlement_key h \<mapsto> (st, Some (rd_clock r + ttl)))\<rparr>) (H @ [(w, Update st ttl)])"
    if "st_status st \<noteq> Pending"
  proof -
    have "H @ [(w, Update st ttl)] = H @ (w, Update st ttl) # []" "settles h (snd (w, Update st ttl))" using that key by simp_all
    then show ?thesis
      using that ttl unfolding kept_since_def by fastforce
  qed
  from kept entry consider (pending) "x = None" "st_status c = Pending"
    | (final) us y vs where "st_status c \<noteq> Pending" "H = us @ y # vs" "settles h (snd y)"
    | (lapsed) "outcome_lapsed h \<tau> H"
    unfolding kept_since_def by auto
  then show ?thesis
  proof cases
    case pending
    then show ?thesis
      using decided by (cases "st_status st") (auto simp: upd kept_since_def)
  next
    case final
    have "kept_since h \<tau> (r\<lparr>rd_entries := (rd_entries r)(settlement_key h \<mapsto> (c, Some (rd_clock r + ttl)))\<rparr>) (H @ [(w, Update st ttl)])"
    proof -
      have "H @ [(w, Update st ttl)] = us @ y # (vs @ [(w, Update st ttl)])"
  "rd_clock r + \<tau> - elapsed (vs @ [(w, Update st ttl)]) \<le> rd_clock r + ttl"
        using final ttl elapsed_nonneg [of vs] by simp_all
      then show ?thesis
        using final unfolding kept_since_def by fastforce
    qed
    then show ?thesis
      using final(1) decided by (cases "st_status st"; cases "st_status c") (auto simp: upd)
  qed (simp add: kept_since_def outcome_lapsed_snoc)
qed

lemma kept_since_event:
  assumes "kept_since h \<tau> r H" and "obeys h \<tau> e"
  shows "kept_since h \<tau> (redis_event e r) (H @ [(w, e)])"
proof (cases e)
  case (Tick n)
  then show ?thesis
    using kept_since_tick assms(1) by blast
next
  case (Reserve st ttl)
  show ?thesis
  proof (cases "upper (st_transaction st) = upper h \<and> redis_lookup (settlement_key h) r = None")
    case True
    then show ?thesis
      using kept_since_absent [OF assms(1)] by (simp add: kept_since_def outcome_lapsed_snoc)
  next
    case False
    then show ?thesis
      using Reserve settlement_key_inject [of h "st_transaction st"]
      by (auto intro!: kept_since_same [OF assms(1)] simp: redis_reserve_def redis_set_def Let_def
          simp del: settlement_key_inject split: option.splits)
  qed
next
  case (Update st ttl)
  show ?thesis
  proof (cases "upper (st_transaction st) = upper h")
    case True
    then have k: "settlement_key (st_transaction st) = settlement_key h" by simp
    show ?thesis
    proof (cases "redis_lookup (settlement_key h) r")
      case None
      then show ?thesis
        using Update by (auto intro!: kept_since_same [OF assms(1)] simp: redis_update_def MONOTONIC_UPDATE_SCRIPT_def k)
    next
      case (Some cx)
      then show ?thesis
        using Update True kept_since_update [OF assms(1) True] assms(2) by (cases cx) simp
    qed
  next
    case False
    then have "settlement_key h \<noteq> settlement_key (st_transaction st)"
      by simp
    then show ?thesis
      using Update by (auto intro!: kept_since_same [OF assms(1)]
          simp: redis_update_def MONOTONIC_UPDATE_SCRIPT_def redis_set_def simp del: settlement_key_inject split: option.splits)
  qed
qed

text \<open>Between two successful reservations of a hash its outcome was recorded and lapsed.\<close>

lemma reservations_apart:
  assumes "redis_get h (redis_at G) = None" and "st_status st = Pending" and "upper (st_transaction st) = upper h"
    and "\<forall>x \<in> set H. obeys h \<tau> (snd x)" and "redis_get h (redis_at (G @ (w, Reserve st ttl) # H)) = None"
  shows "outcome_lapsed h \<tau> H"
proof -
  have k: "settlement_key (st_transaction st) = settlement_key h"
    using assms(3) by simp
  have "kept_since h \<tau> (redis_at (G @ [(w, Reserve st ttl)])) []"
    using assms(1,2) by (simp add: redis_at_snoc redis_reserve_def k redis_get_def Let_def redis_set_def kept_since_def)
  then have "kept_since h \<tau> (redis_at ((G @ [(w, Reserve st ttl)]) @ H)) H"
    using assms(4)
  proof (induction H rule: rev_induct)
    case (snoc x H)
    then show ?case
      using kept_since_event [of h \<tau> "redis_at ((G @ [(w, Reserve st ttl)]) @ H)" H "snd x" "fst x"]
      by (simp add: redis_at_snoc flip: append_assoc)
  qed simp
  then show ?thesis
    using kept_since_absent assms(5) by (auto simp: redis_get_def)
qed

section \<open>The run of one worker\<close>

text \<open>What a settlement itself issues: reservations of pending states, and updates with the time to
  live of the settlement.\<close>

fun issued :: "int \<Rightarrow> store_event \<Rightarrow> bool" where
  "issued ttl (Reserve st t) \<longleftrightarrow> st_status st = Pending"
| "issued ttl (Update st t) \<longleftrightarrow> t = ttl"
| "issued ttl (Tick n) \<longleftrightarrow> False"

definition own :: "nat \<Rightarrow> int \<Rightarrow> nat \<times> store_event \<Rightarrow> bool" where
  "own me ttl x \<longleftrightarrow> (fst x = me \<longrightarrow> issued ttl (snd x))"

lemma own_others: "me \<notin> fst ` set H \<Longrightarrow> list_all (own me ttl) H"
  by (auto simp: list_all_iff own_def)

lemma emits_reads_only: "reads_only m \<Longrightarrow> emits fs_store P m"
  by (simp add: reads_only_def emitsI_keeps)

lemma emits_rpc_store: "emits fs_store P (rpc F q)"
  by (simp add: emits_def rpc_def split: sum.splits)

lemma emits_query_store: "emits fs_store P (query_transaction F st)"
  by (simp add: emits_def query_transaction_run)

lemma emits_store_ops:
  assumes "\<And>H. me \<notin> fst ` set (others H)"
  shows "emits fs_store (own me ttl) (store_get (shared_ops me others) t)"
    and "st_status st = Pending \<Longrightarrow> emits fs_store (own me ttl) (store_reserve (shared_ops me others) st ttl')"
    and "emits fs_store (own me ttl) (record_state (shared_ops me others) st' r ttl)"
  using assms own_others [OF assms]
  by (auto simp: emits_def store_get_def store_reserve_def record_state_run shared_ops_def Let_def)
    (simp_all add: own_def)

lemma pending_state_Pending [simp]: "st_status (pending_state t n p i j fp) = Pending"
  by (simp add: pending_state_def)

lemma emits_wait_store:
  assumes "\<And>H. me \<notin> fst ` set (others H)"
  shows "emits fs_store (own me ttl) (wait_loop F (shared_ops me others) n st r ttl)"
proof (induction n)
  case (Suc n)
  then show ?case
    unfolding wait_loop.simps Let_def
    by (auto intro!: emits_rules emits_query_store emits_store_ops [OF assms])
qed (simp add: emits_rules)

lemma emits_existing_store:
  assumes "\<And>H. me \<notin> fst ` set (others H)"
  shows "emits fs_store (own me ttl) (reconcile F (shared_ops me others) st r ttl)"
    and "ttl = settlement_ttl F r \<Longrightarrow> emits fs_store (own me ttl) (settle_existing F (shared_ops me others) st fp h r)"
  unfolding settle_existing_def reconcile_def reconcile_absent_def Let_def
  by (auto intro!: emits_rules emits_query_store emits_store_ops [OF assms] emits_reads_only [OF reads_only_queries(1)])

lemma emits_settle_store:
  assumes "\<And>H. me \<notin> fst ` set (others H)"
  shows "emits fs_store (own me (settlement_ttl F r)) (settle F (shared_ops me others) p r)"
proof -
  note rules = emits_rules emits_query_store emits_store_ops [OF assms] emits_reads_only [OF reads_only_queries(1)]
    emits_existing_store [OF assms] emits_wait_store [OF assms] emits_rpc_store emits_reads_only [OF reads_only_verify]
  show ?thesis
    unfolding settle_def settle_verified_def settle_new_def submit_and_wait_def wait_for_validation_def Let_def
    by (cases "blob_and_hash (fe_ext F) p") (auto intro!: rules)
qed


section \<open>Submissions\<close>

text \<open>Only \<open>submit_and_wait\<close> submits.\<close>

lemma sent_leaf:
  "keeps fs_sent (store_get ops t)" "keeps fs_sent (store_reserve ops st ttl)" "keeps fs_sent (record_state ops st r ttl)"
  "keeps fs_sent (query_transaction F st)"
  by (simp_all add: keeps_def store_get_def store_reserve_def record_state_run query_transaction_run Let_def split: prod.splits)

lemma sent_reads_only: "reads_only m \<Longrightarrow> keeps fs_sent m"
  by (simp add: reads_only_def)

lemma sent_wait: "keeps fs_sent (wait_loop F ops n st r ttl)"
proof (induction n)
  case (Suc n)
  then show ?case
    unfolding wait_loop.simps Let_def by (auto intro!: keeps_rules sent_leaf)
qed (simp add: keeps_rules)

lemma sent_existing: "keeps fs_sent (reconcile F ops st r ttl)" "keeps fs_sent (settle_existing F ops st fp h r)"
  unfolding settle_existing_def reconcile_def reconcile_absent_def Let_def
  by (auto intro!: keeps_rules sent_leaf sent_reads_only [OF reads_only_queries(1)])

lemma submit_and_wait_sent:
  assumes "submit_and_wait F ops blob st h network payer r s = (out, s')"
  shows "fs_sent s' = fs_sent s @ [(blob, fs_store s)]"
proof (cases "fe_client F (fs_log s) (SubmitOnly blob)")
  case (Inl e)
  then show ?thesis
    using assms by (auto simp: submit_and_wait_def ctry_else_def rpc_def creturn_def)
next
  case (Inr v)
  then have "wait_loop F ops (nat (VALIDATION_TIMEOUT (fe_settings F))) st r (settlement_ttl F r)
      (s\<lparr>fs_sent := fs_sent s @ [(blob, fs_store s)], fs_log := fs_log s @ [SubmitOnly blob]\<rparr>) = (out, s')"
    using assms by (simp add: submit_and_wait_def ctry_else_def rpc_def wait_for_validation_def)
  from keepsD [OF sent_wait this] show ?thesis by simp
qed

text \<open>The settlement as a prefix that submits nothing, and the submission after its own reservation.\<close>

definition reserved_then_sent ::
  "nat \<Rightarrow> int \<Rightarrow> string \<Rightarrow> string \<Rightarrow> history fac_state \<Rightarrow> history fac_state \<Rightarrow> bool" where
  "reserved_then_sent me ttl h blob s s' \<longleftrightarrow>
     (\<exists>G st rest. fs_sent s' = fs_sent s @ [(blob, fs_store s @ G @ [(me, Reserve st ttl)])]
        \<and> fs_store s' = fs_store s @ G @ (me, Reserve st ttl) # rest
        \<and> st_transaction st = h \<and> st_status st = Pending \<and> redis_get h (redis_at (fs_store s @ G)) = None)"

lemma emits_submit_store:
  assumes "\<And>H. me \<notin> fst ` set (others H)"
  shows "emits fs_store (own me (settlement_ttl F r)) (submit_and_wait F (shared_ops me others) blob st h network payer r)"
  unfolding submit_and_wait_def wait_for_validation_def
  by (intro emits_rules emits_rpc_store emits_wait_store assms)

definition sends :: "nat \<Rightarrow> int \<Rightarrow> string \<Rightarrow> string \<Rightarrow> (history fac_state, 'a) cmd \<Rightarrow> bool" where
  "sends me ttl h blob m \<longleftrightarrow> (\<forall>s. fs_sent (snd (m s)) = fs_sent s \<or> reserved_then_sent me ttl h blob s (snd (m s)))"

lemma sends_quiet: "keeps fs_sent m \<Longrightarrow> sends me ttl h blob m"
  by (simp add: sends_def keeps_def)

lemma sends_bind:
  assumes "keeps fs_sent m" and "emits fs_store (\<lambda>_. True) m" and "\<And>x. sends me ttl h blob (f x)"
  shows "sends me ttl h blob (cbind m f)"
  unfolding sends_def
proof
  fix s
  obtain out s1 where m: "m s = (out, s1)" by fastforce
  then obtain l where l: "fs_store s1 = fs_store s @ l" "fs_sent s1 = fs_sent s"
    using emitsD [OF assms(2) m] keepsD [OF assms(1) m] by auto
  show "fs_sent (snd (cbind m f s)) = fs_sent s \<or> reserved_then_sent me ttl h blob s (snd (cbind m f s))"
  proof (cases out)
    case (Ok x)
    have "reserved_then_sent me ttl h blob s s'" if sent: "reserved_then_sent me ttl h blob s1 s'" for s'
    proof -
      obtain G st rest where "fs_sent s' = fs_sent s1 @ [(blob, fs_store s1 @ G @ [(me, Reserve st ttl)])]"
        "fs_store s' = fs_store s1 @ G @ (me, Reserve st ttl) # rest"
        "st_transaction st = h" "st_status st = Pending" "redis_get h (redis_at (fs_store s1 @ G)) = None"
        using sent by (auto simp: reserved_then_sent_def)
      then show ?thesis
        unfolding reserved_then_sent_def by (intro exI [of _ "l @ G"] exI [of _ st] exI [of _ rest]) (simp add: l)
    qed
    then show ?thesis
      using m Ok l(2) assms(3) [of x, unfolded sends_def, rule_format, of s1] by (auto simp: cbind_step)
  qed (use m l in \<open>simp_all add: cbind_def\<close>)
qed

lemma sends_reserve:
  assumes "st_status st = Pending" and "st_transaction st = h" and "keeps fs_sent existing" and "keeps fs_sent late"
    and "\<And>H. me \<notin> fst ` set (others H)"
  shows "sends me ttl h blob (cbind (store_reserve (shared_ops me others) st ttl) (\<lambda>reserved.
      if \<not> reserved then existing
      else if b then late else submit_and_wait F (shared_ops me others) blob st' h' network payer r))"
  unfolding sends_def
proof
  fix s :: "history fac_state"
  let ?G = "others (fs_store s)"
  let ?s1 = "s\<lparr>fs_store := fs_store s @ ?G @ [(me, Reserve st ttl)]\<rparr>"
  let ?reserved = "fst (redis_reserve st ttl (redis_at (fs_store s @ ?G)))"
  let ?m = "if \<not> ?reserved then existing else if b then late
    else submit_and_wait F (shared_ops me others) blob st' h' network payer r"
  have run: "store_reserve (shared_ops me others) st ttl s = (Ok ?reserved, ?s1)"
    by (simp add: store_reserve_def shared_ops_def)
  have free: "redis_get h (redis_at (fs_store s @ ?G)) = None" if "?reserved"
    using that assms(2) by (simp add: redis_reserve_def redis_get_def Let_def split: option.splits)
  have "fs_sent (snd (?m ?s1)) = fs_sent s \<or> reserved_then_sent me ttl h blob s (snd (?m ?s1))"
  proof (cases "?reserved \<and> \<not> b")
    case True
    obtain out s' where sub: "submit_and_wait F (shared_ops me others) blob st' h' network payer r ?s1 = (out, s')"
      by fastforce
    obtain rest where "fs_store s' = fs_store ?s1 @ rest"
      using emitsD [OF emits_submit_store [OF assms(5)] sub] by blast
    with submit_and_wait_sent [OF sub] have "reserved_then_sent me ttl h blob s s'"
      using assms(1,2) free True unfolding reserved_then_sent_def by auto
    then show ?thesis
      using True sub by simp
  next
    case False
    then show ?thesis
      using assms(3,4) by (auto simp: keeps_def)
  qed
  then show "fs_sent (snd (cbind (store_reserve (shared_ops me others) st ttl) (\<lambda>reserved.
      if \<not> reserved then existing
      else if b then late else submit_and_wait F (shared_ops me others) blob st' h' network payer r) s)) = fs_sent s
    \<or> reserved_then_sent me ttl h blob s (snd (cbind (store_reserve (shared_ops me others) st ttl) (\<lambda>reserved.
      if \<not> reserved then existing
      else if b then late else submit_and_wait F (shared_ops me others) blob st' h' network payer r) s))"
    by (simp add: cbind_step [of "store_reserve (shared_ops me others) st ttl", OF run])
qed

lemma emits_any_store:
  "emits fs_store (\<lambda>_. True) (store_get (shared_ops me others) t)"
  by (auto simp: emits_def store_get_def shared_ops_def Let_def list_all_iff)

lemma sends_settle:
  assumes "blob_and_hash (fe_ext F) p = Inr (blob, h)" and "strip h = h" and "\<And>H. me \<notin> fst ` set (others H)"
  shows "sends me (settlement_ttl F r) h blob (settle F (shared_ops me others) p r)"
proof -
  let ?ops = "shared_ops me others"
  have quiet: "keeps fs_sent (case v of None \<Rightarrow> creturn x | Some st \<Rightarrow> settle_existing F ?ops st fp h r)"
    for v x fp by (auto intro!: keeps_rules sent_existing split: option.splits)
  have new: "sends me (settlement_ttl F r) h blob (settle_new F ?ops blob h fp r)" for fp
    unfolding settle_new_def Let_def
    by (intro sends_bind sends_reserve sent_reads_only [OF reads_only_queries(1)] emits_reads_only [OF reads_only_queries(1)]
        keeps_rules emits_rules sent_leaf sent_existing quiet assms(3)) (simp_all add: pending_state_def assms(2))
  have "sends me (settlement_ttl F r) h blob (settle_verified F ?ops p r blob h fp)" for fp
    unfolding settle_verified_def
    by (intro sends_bind sent_reads_only [OF reads_only_verify] emits_reads_only [OF reads_only_verify])
      (auto intro: sends_quiet keeps_rules new)
  then show ?thesis
    unfolding settle_def assms(1) Let_def sum.case prod.case
    by (intro sends_bind sent_leaf emits_any_store) (auto intro: sends_quiet sent_existing split: option.splits)
qed

section \<open>Workers on one history\<close>

text \<open>The part of worker \<open>me\<close> in the history \<open>H\<close> is one call of \<open>settle\<close>.\<close>

definition worker_run ::
  "history \<Rightarrow> nat \<Rightarrow> (history \<Rightarrow> history) \<Rightarrow> facilitator \<Rightarrow> payment_payload \<Rightarrow> payment_requirements \<Rightarrow>
     history fac_state \<Rightarrow> history fac_state \<Rightarrow> bool" where
  "worker_run H me others F p r s s' \<longleftrightarrow>
     s' = snd (settle F (shared_ops me others) p r s)
     \<and> me \<notin> fst ` set (fs_store s) \<and> (\<forall>G. me \<notin> fst ` set (others G))
     \<and> (\<exists>tail. H = fs_store s' @ tail \<and> me \<notin> fst ` set tail)"

lemma worker_obeys:
  assumes "worker_run H me others F p r s s'" and "\<tau> \<le> settlement_ttl F r" and "(me, e) \<in> set H"
  shows "obeys h \<tau> e"
proof -
  have fresh: "\<And>G. me \<notin> fst ` set (others G)" and s': "s' = snd (settle F (shared_ops me others) p r s)"
    using assms(1) by (auto simp: worker_run_def)
  obtain l where l: "fs_store s' = fs_store s @ l" "list_all (own me (settlement_ttl F r)) l"
    using emits_settle_store [of me others F r p, OF fresh] unfolding emits_def s' by blast
  obtain tail where "H = fs_store s @ l @ tail" "me \<notin> fst ` set tail" "me \<notin> fst ` set (fs_store s)"
    using assms(1) l(1) by (auto simp: worker_run_def)
  then have "(me, e) \<in> set l"
    using assms(3) by (metis Un_iff fst_conv imageI set_append)
  then have "issued (settlement_ttl F r) e"
    using l(2) by (auto simp: list_all_iff own_def)
  then show ?thesis
    using assms(2) by (cases e) auto
qed

text \<open>A worker that submitted has its successful reservation in the history.\<close>

lemma worker_reserved:
  assumes "worker_run H me others F p r s s'" and "blob_and_hash (fe_ext F) p = Inr (blob, h)" and "hex_digests (fe_ext F)"
  shows "fs_sent s' = fs_sent s \<or> reserved_then_sent me (settlement_ttl F r) h blob s s'"
    and "fs_sent s' \<noteq> fs_sent s \<Longrightarrow> \<exists>G st rest. H = G @ (me, Reserve st (settlement_ttl F r)) # rest
      \<and> st_transaction st = h \<and> st_status st = Pending \<and> redis_get h (redis_at G) = None"
proof -
  have fresh: "\<And>G. me \<notin> fst ` set (others G)" and s': "s' = snd (settle F (shared_ops me others) p r s)"
    using assms(1) by (auto simp: worker_run_def)
  have "strip h = h"
    using assms(2) hex_digest_strip(2) [OF assms(3)] by (auto simp: blob_and_hash_def rbind_eq_Inr)
  then show sent: "fs_sent s' = fs_sent s \<or> reserved_then_sent me (settlement_ttl F r) h blob s s'"
    using sends_settle [of F p blob h me others r, OF assms(2) _ fresh] by (auto simp: sends_def s')
  show "\<exists>G st rest. H = G @ (me, Reserve st (settlement_ttl F r)) # rest
      \<and> st_transaction st = h \<and> st_status st = Pending \<and> redis_get h (redis_at G) = None" if "fs_sent s' \<noteq> fs_sent s"
    using sent that assms(1) unfolding reserved_then_sent_def worker_run_def by (metis append.assoc append_Cons)
qed

fun reserves :: "string \<Rightarrow> nat \<times> store_event \<Rightarrow> bool" where
  "reserves h (w, Reserve st ttl) \<longleftrightarrow> upper (st_transaction st) = upper h \<and> st_status st = Pending"
| "reserves h _ \<longleftrightarrow> False"

text \<open>Two reservations of one hash in the history, an outcome recorded and lapsed between them.\<close>

definition apart :: "string \<Rightarrow> int \<Rightarrow> nat \<Rightarrow> nat \<Rightarrow> history \<Rightarrow> bool" where
  "apart h \<tau> a b H \<longleftrightarrow> (\<exists>G x M y N. H = G @ x # M @ y # N \<and> {fst x, fst y} = {a, b}
     \<and> reserves h x \<and> reserves h y \<and> outcome_lapsed h \<tau> M)"

lemma apart_commute: "apart h \<tau> a b H \<Longrightarrow> apart h \<tau> b a H"
  unfolding apart_def by (simp add: insert_commute)

lemma first_reservation:
  assumes "H = G @ (a, Reserve st ttl) # rest" and "st_transaction st = h" and "st_status st = Pending"
    and "redis_get h (redis_at G) = None"
    and "H = G' @ (b, Reserve st' ttl') # rest'" and "st_transaction st' = h" and "st_status st' = Pending"
    and "redis_get h (redis_at G') = None"
    and "length G < length G'" and "\<forall>x \<in> set H. obeys h \<tau> (snd x)"
  shows "apart h \<tau> a b H"
proof -
  obtain M where M: "G' = G @ (a, Reserve st ttl) # M"
    using assms(1,5,9) by (auto simp: append_eq_append_conv2 append_eq_Cons_conv)
  have "outcome_lapsed h \<tau> M"
    by (rule reservations_apart [OF assms(4,3)]) (use assms(2,8,10) M assms(5) in auto)
  moreover have "H = G @ (a, Reserve st ttl) # M @ (b, Reserve st' ttl') # rest'"
    using assms(5) M by simp
  moreover have "reserves h (a, Reserve st ttl)" "reserves h (b, Reserve st' ttl')"
    using assms(2,3,6,7) by simp_all
  ultimately show ?thesis
    unfolding apart_def by (metis fst_conv)
qed


section \<open>Submitted once\<close>

text \<open>C3. One broadcast per transaction, with any number of workers and as time passes: let two calls
  of \<open>settle\<close>, by different workers of one Redis, concern the same transaction hash, while other
  workers that keep to the protocol run any commands between any two commands of these calls, and
  any time passes. A call submits at most one blob, its own, and only after its own reservation
  bound the hash at a moment when no live state was bound to it. If both calls submit, then
  between their two reservations an outcome of the transaction was recorded and its whole time to
  live passed: while the hash is pending, however long, and while its outcome is kept, no second
  submission is made. That the two calls keep to the protocol themselves is part of the proof.\<close>

theorem settlements_submit_once:
  assumes "worker_run H a othersA FA pA rA sA sA'" and "worker_run H b othersB FB pB rB sB sB'" and "a \<noteq> b"
    and "blob_and_hash (fe_ext FA) pA = Inr (blobA, h)" and "hex_digests (fe_ext FA)"
    and "blob_and_hash (fe_ext FB) pB = Inr (blobB, h)" and "hex_digests (fe_ext FB)"
    and "\<forall>x \<in> set H. fst x \<noteq> a \<longrightarrow> fst x \<noteq> b \<longrightarrow> obeys h \<tau> (snd x)"
    and "\<tau> \<le> settlement_ttl FA rA" and "\<tau> \<le> settlement_ttl FB rB"
  shows "(fs_sent sA' = fs_sent sA \<or> reserved_then_sent a (settlement_ttl FA rA) h blobA sA sA')
    \<and> (fs_sent sA' \<noteq> fs_sent sA \<longrightarrow> fs_sent sB' \<noteq> fs_sent sB \<longrightarrow> apart h \<tau> a b H)"
proof (intro conjI impI)
  show "fs_sent sA' = fs_sent sA \<or> reserved_then_sent a (settlement_ttl FA rA) h blobA sA sA'"
    by (rule worker_reserved(1) [OF assms(1,4,5)])
  assume "fs_sent sA' \<noteq> fs_sent sA" "fs_sent sB' \<noteq> fs_sent sB"
  then obtain G st rest G' st' rest' where
      A: "H = G @ (a, Reserve st (settlement_ttl FA rA)) # rest" "st_transaction st = h" "st_status st = Pending"
        "redis_get h (redis_at G) = None"
    and B: "H = G' @ (b, Reserve st' (settlement_ttl FB rB)) # rest'" "st_transaction st' = h" "st_status st' = Pending"
        "redis_get h (redis_at G') = None"
    using worker_reserved(2) [OF assms(1,4,5)] worker_reserved(2) [OF assms(2,6,7)] by metis
  have obey: "\<forall>x \<in> set H. obeys h \<tau> (snd x)"
    using assms(8) worker_obeys [OF assms(1,9)] worker_obeys [OF assms(2,10)] by (metis prod.collapse)
  have "length G \<noteq> length G'"
    using A(1) B(1) assms(3) by auto
  then show "apart h \<tau> a b H"
    using first_reservation [OF A B _ obey] first_reservation [OF B A _ obey] apart_commute by (metis linorder_neqE_nat)
qed

section \<open>Witness\<close>

definition shared_start :: "history \<Rightarrow> history fac_state" where
  "shared_start H = \<lparr>fs_store = H, fs_log = [], fs_sent = []\<rparr>"

abbreviation shared_pending :: settlement_state where
  "shared_pending \<equiv> pending_state sample_hash ''xrpl:1'' ''rPayer'' 1000 1010 ''F1''"

abbreviation shared_ttl :: int where
  "shared_ttl \<equiv> settlement_ttl sample_facilitator sample_xrp"

abbreviation shared_events :: "nat \<Rightarrow> history" where
  "shared_events me \<equiv> [(me, Reserve shared_pending shared_ttl), (me, Update (completed shared_pending sample_xrp) shared_ttl)]"

lemma sample_timeout: "nat (VALIDATION_TIMEOUT (fe_settings sample_facilitator)) = Suc 1"
  by (simp add: sample_facilitator_def sample_settings_def)

lemma sample_hash_strip: "strip sample_hash = sample_hash"
  by code_simp

lemma sample_parts: "fe_client sample_facilitator = sample_client" "r_network sample_xrp = ''xrpl:1''"
  "r_asset sample_xrp = ''XRP''" "r_amount sample_xrp = ''1000''"
  by (simp_all add: sample_facilitator_def sample_xrp_def)

lemma sample_wait:
  "wait_loop sample_facilitator ops (Suc n) st sample_xrp ttl s =
     record_state ops (completed st sample_xrp) sample_xrp ttl
       (s\<lparr>fs_log := fs_log s @ [Tx (st_transaction st) (st_first_ledger st) (st_last_ledger st)]\<rparr>)"
  by (simp add: run_defs sample_parts sample_client_def sample_delivered dget_default_def)

lemma sample_shared_run:
  assumes "others H = T" and "\<And>G. G \<noteq> H \<Longrightarrow> others G = []" and "redis_get sample_hash (redis_at (H @ T)) = None"
  shows "\<exists>v s'. settle sample_facilitator (shared_ops me others) sample_payload sample_xrp (shared_start H) = (Ok v, s')
     \<and> fs_sent s' \<noteq> [] \<and> fs_store s' = H @ T @ shared_events me"
proof -
  have [simp]: "others (H @ T) = []" using assms(1,2) by (cases "T = []") auto
  have [simp]: "others (H @ T @ x # xs) = []" for x xs using assms(2) by simp
  have [simp]: "fst (redis_reserve (pending_state sample_hash a b c d e) ttl (redis_at (H @ T))) = True" for a b c d e ttl
    using assms(3) by (simp add: redis_reserve_def redis_get_def pending_state_def sample_hash_strip Let_def)
  have "case settle sample_facilitator (shared_ops me others) sample_payload sample_xrp (shared_start H) of
      (Ok v, s') \<Rightarrow> fs_sent s' \<noteq> [] \<and> fs_store s' = H @ T @ shared_events me | _ \<Rightarrow> False"
    by (simp add: run_defs sample_blob sample_verified_at sample_decode sample_fingerprint shared_ops_def sample_timeout
        shared_start_def assms sample_parts sample_client_def del: redis_get_ops wait_loop.simps)
      (simp add: sample_tx_def run_defs sample_parts sample_timeout completed_def sample_client_def sample_wait
        record_state_run del: wait_loop.simps)
  then show ?thesis
    by (auto split: prod.splits outcome.splits)
qed

text \<open>Worker 0 settles the sample payment; its outcome lapses; worker 1 settles it again.\<close>

abbreviation long_pause :: "history \<Rightarrow> history" where
  "long_pause G \<equiv> (if G = shared_events 0 then [(2, Tick 1000000)] else [])"

theorem settlements_submit_once_witness:
  "\<exists>sA' sB'. worker_run (fs_store sB') 0 (\<lambda>_. []) sample_facilitator sample_payload sample_xrp (shared_start []) sA'
     \<and> worker_run (fs_store sB') 1 long_pause sample_facilitator sample_payload sample_xrp (shared_start (fs_store sA')) sB'
     \<and> fs_sent sA' \<noteq> [] \<and> fs_sent sB' \<noteq> [] \<and> apart sample_hash 300 0 1 (fs_store sB')"
proof -
  have free: "redis_get sample_hash (redis_at ([] @ [])) = None"
    by (simp add: redis_at_def redis_defs del: redis_get_ops)
  obtain vA sA where A: "settle sample_facilitator (shared_ops 0 (\<lambda>_. [])) sample_payload sample_xrp (shared_start []) = (Ok vA, sA)"
    "fs_sent sA \<noteq> []" "fs_store sA = shared_events 0"
    using sample_shared_run [of "\<lambda>_. []" "[]" "[]" 0] free by auto
  have lapsed: "redis_get sample_hash (redis_at (shared_events 0 @ [(2, Tick 1000000)])) = None"
  proof -
    have "shared_ttl \<le> 1000000"
      by (simp add: settlement_ttl_def sample_facilitator_def sample_settings_def sample_xrp_def)
    then show ?thesis
      by (simp add: redis_at_def redis_defs pending_state_def completed_def sample_hash_strip del: redis_get_ops)
  qed
  obtain vB sB where B: "settle sample_facilitator (shared_ops 1 long_pause) sample_payload sample_xrp (shared_start (shared_events 0)) = (Ok vB, sB)"
    "fs_sent sB \<noteq> []" "fs_store sB = shared_events 0 @ [(2, Tick 1000000)] @ shared_events 1"
    using sample_shared_run [of long_pause "shared_events 0" "[(2, Tick 1000000)]" 1] lapsed by auto
  have runs: "worker_run (fs_store sB) 0 (\<lambda>_. []) sample_facilitator sample_payload sample_xrp (shared_start []) sA"
    "worker_run (fs_store sB) 1 long_pause sample_facilitator sample_payload sample_xrp (shared_start (shared_events 0)) sB"
    using A B by (auto simp: worker_run_def shared_start_def split: if_splits)
  have "fs_sent sA \<noteq> fs_sent (shared_start [])" "fs_sent sB \<noteq> fs_sent (shared_start (shared_events 0))"
    using A(2) B(2) by (simp_all add: shared_start_def)
  moreover have "300 \<le> shared_ttl"
    by (simp add: settlement_ttl_def)
  ultimately have "apart sample_hash 300 0 1 (fs_store sB)"
    using settlements_submit_once [OF runs _ sample_blob sample_hex_digests sample_blob sample_hex_digests, of 300]
    by (simp add: B(3))
  then show ?thesis
    using runs A(2) B(2) by (intro exI [of _ sA] exI [of _ sB]) (simp add: A(3))
qed

end
