(* ===== verification/Redis.thy ===== *)
theory Redis
  imports Protocol
begin

text \<open>
  The Redis commands that the payment identifier store, the gateway records, the discovery catalog
  and the resource response store use: \<open>SET\<close> with \<open>EX\<close> and \<open>NX\<close>, \<open>GET\<close>, the hash commands, \<open>EXPIRE\<close>
  and the sorted-set commands with every score 0. Each command is one atomic step on the database;
  between two commands of a caller the other clients may run any commands and time may pass. A value
  that the code stores as JSON text is kept as the value itself; the text sorts the keys of its
  objects, which no Python dictionary comparison sees.
\<close>

section \<open>The database\<close>

datatype redis_value = RVal pyval | RHash pydict | RZset "string list"

record redis_db =
  db_entries :: "string \<rightharpoonup> redis_value \<times> int option"
  db_clock :: int

datatype redis_op =
    OGet string
  | OSet string pyval int bool
  | OHsetnx string string pyval
  | OHget string string
  | OHset string string pyval
  | OHgetall string
  | OExpire string int
  | OZadd string string
  | OZrange string
  | OZrem string "string list"

datatype redis_reply = ReplyNone | ReplyBool bool | ReplyVal pyval | ReplyFields pydict | ReplyKeys "string list" | ReplyError

text \<open>An expired key reads as absent.\<close>

definition db_live :: "redis_db \<Rightarrow> string \<Rightarrow> (redis_value \<times> int option) option" where
  "db_live db key = (case db_entries db key of
       Some (v, Some t) \<Rightarrow> if t \<le> db_clock db then None else Some (v, Some t)
     | x \<Rightarrow> x)"

definition db_put :: "string \<Rightarrow> redis_value \<times> int option \<Rightarrow> redis_db \<Rightarrow> redis_db" where
  "db_put key v db = db\<lparr>db_entries := (db_entries db)(key \<mapsto> v)\<rparr>"

definition hash_fields :: "redis_db \<Rightarrow> string \<Rightarrow> (pydict \<times> int option) option" where
  "hash_fields db key = (case db_live db key of
       None \<Rightarrow> Some ([], None)
     | Some (RHash hash, t) \<Rightarrow> Some (hash, t)
     | Some _ \<Rightarrow> None)"

definition zset_members :: "redis_db \<Rightarrow> string \<Rightarrow> (string list \<times> int option) option" where
  "zset_members db key = (case db_live db key of
       None \<Rightarrow> Some ([], None)
     | Some (RZset members, t) \<Rightarrow> Some (members, t)
     | Some _ \<Rightarrow> None)"

fun redis_exec :: "redis_op \<Rightarrow> redis_db \<Rightarrow> redis_reply \<times> redis_db" where
  "redis_exec (OGet key) db = (case db_live db key of
       None \<Rightarrow> (ReplyNone, db)
     | Some (RVal v, _) \<Rightarrow> (ReplyVal v, db)
     | Some _ \<Rightarrow> (ReplyError, db))"
| "redis_exec (OSet key v ex nx) db =
     (if ex \<le> 0 then (ReplyError, db)
      else if nx \<and> db_live db key \<noteq> None then (ReplyNone, db)
      else (ReplyBool True, db_put key (RVal v, Some (db_clock db + ex)) db))"
| "redis_exec (OHsetnx key field v) db = (case hash_fields db key of
       None \<Rightarrow> (ReplyError, db)
     | Some (hash, t) \<Rightarrow>
         if map_of hash field \<noteq> None then (ReplyBool False, db)
         else (ReplyBool True, db_put key (RHash (dset field v hash), t) db))"
| "redis_exec (OHget key field) db = (case hash_fields db key of
       None \<Rightarrow> (ReplyError, db)
     | Some (hash, _) \<Rightarrow> (case map_of hash field of None \<Rightarrow> (ReplyNone, db) | Some v \<Rightarrow> (ReplyVal v, db)))"
| "redis_exec (OHset key field v) db = (case hash_fields db key of
       None \<Rightarrow> (ReplyError, db)
     | Some (hash, t) \<Rightarrow> (ReplyBool (map_of hash field = None), db_put key (RHash (dset field v hash), t) db))"
| "redis_exec (OHgetall key) db = (case hash_fields db key of
       None \<Rightarrow> (ReplyError, db)
     | Some (hash, _) \<Rightarrow> (ReplyFields hash, db))"
| "redis_exec (OExpire key ttl) db = (case db_live db key of
       None \<Rightarrow> (ReplyBool False, db)
     | Some (v, _) \<Rightarrow> (ReplyBool True, db_put key (v, Some (db_clock db + ttl)) db))"
| "redis_exec (OZadd key member) db = (case zset_members db key of
       None \<Rightarrow> (ReplyError, db)
     | Some (members, t) \<Rightarrow>
         (ReplyBool (member \<notin> set members), db_put key (RZset (List.insert member members), t) db))"
| "redis_exec (OZrange key) db = (case zset_members db key of
       None \<Rightarrow> (ReplyError, db)
     | Some (members, _) \<Rightarrow> (ReplyKeys (sort members), db))"
| "redis_exec (OZrem key gone) db = (case zset_members db key of
       None \<Rightarrow> (ReplyError, db)
     | Some (members, t) \<Rightarrow>
         (ReplyBool True, db_put key (RZset (filter (\<lambda>m. m \<notin> set gone) members), t) db))"

datatype redis_event = ROp redis_op | RTick nat

fun db_step :: "redis_event \<Rightarrow> redis_db \<Rightarrow> redis_db" where
  "db_step (ROp x) db = snd (redis_exec x db)"
| "db_step (RTick n) db = db\<lparr>db_clock := db_clock db + int n\<rparr>"

fun db_run :: "redis_event list \<Rightarrow> redis_db \<Rightarrow> redis_db" where
  "db_run [] db = db"
| "db_run (e # es) db = db_run es (db_step e db)"


section \<open>Clients\<close>

text \<open>\<open>others n\<close> is what the other clients do before the \<open>n\<close>-th command of this caller.\<close>

type_synonym interference = "nat \<Rightarrow> redis_event list"

record redis_conn =
  cn_db :: redis_db
  cn_calls :: nat

type_synonym 'a redis_cmd = "(redis_conn, 'a) cmd"

definition redis_call :: "interference \<Rightarrow> redis_op \<Rightarrow> redis_reply redis_cmd" where
  "redis_call others x = (\<lambda>s.
     let (reply, db) = redis_exec x (db_run (others (cn_calls s)) (cn_db s));
         s' = s\<lparr>cn_db := db, cn_calls := Suc (cn_calls s)\<rparr> in
     if reply = ReplyError then (Raise (ClientError ''redis''), s') else (Ok reply, s'))"


section \<open>Lemmas\<close>

lemma db_live_put:
  "db_live (db_put key (v, t) db) k =
     (if k = key then (case t of Some u \<Rightarrow> if u \<le> db_clock db then None else Some (v, t) | None \<Rightarrow> Some (v, t))
      else db_live db k)"
  by (simp add: db_live_def db_put_def split: option.splits)

lemma db_put_clock [simp]: "db_clock (db_put key v db) = db_clock db"
  by (simp add: db_put_def)

lemma redis_exec_clock: "db_clock (snd (redis_exec x db)) = db_clock db"
  by (cases x) (auto split: option.splits redis_value.splits prod.splits)

lemma db_clock_step: "db_clock db \<le> db_clock (db_step e db)"
  by (cases e) (simp_all add: redis_exec_clock)

lemma db_clock_run: "db_clock db \<le> db_clock (db_run es db)"
  by (induction es arbitrary: db) (auto intro: order_trans db_clock_step)

lemma db_run_append: "db_run (es @ fs) db = db_run fs (db_run es db)"
  by (induction es arbitrary: db) simp_all

lemma redis_call_run:
  "redis_call others x s = (r, s') \<longleftrightarrow>
     (\<exists>reply db. redis_exec x (db_run (others (cn_calls s)) (cn_db s)) = (reply, db)
       \<and> s' = s\<lparr>cn_db := db, cn_calls := Suc (cn_calls s)\<rparr>
       \<and> r = (if reply = ReplyError then Raise (ClientError ''redis'') else Ok reply))"
  by (auto simp: redis_call_def Let_def split: prod.splits)

text \<open>An entry that lives until some time and satisfies a condition, and the events that leave it so.\<close>

definition db_holds :: "redis_db \<Rightarrow> string \<Rightarrow> int \<Rightarrow> (redis_value \<Rightarrow> bool) \<Rightarrow> bool" where
  "db_holds db key until Q \<longleftrightarrow>
     (\<exists>v t. db_entries db key = Some (v, t) \<and> Q v \<and> (case t of None \<Rightarrow> True | Some u \<Rightarrow> until \<le> u))"

lemma db_holds_live:
  assumes "db_holds db key until Q" and "db_clock db < until"
  shows "\<exists>v t. db_live db key = Some (v, t) \<and> Q v \<and> (case t of None \<Rightarrow> True | Some u \<Rightarrow> until \<le> u)"
proof -
  obtain v t where v: "db_entries db key = Some (v, t)" "Q v" "case t of None \<Rightarrow> True | Some u \<Rightarrow> until \<le> u"
    using assms(1) by (auto simp: db_holds_def)
  then show ?thesis
    using assms(2) by (cases t) (auto simp: db_live_def)
qed

fun writes_to :: "redis_op \<Rightarrow> string option" where
  "writes_to (OSet key _ _ _) = Some key"
| "writes_to (OHsetnx key _ _) = Some key"
| "writes_to (OHset key _ _) = Some key"
| "writes_to (OExpire key _) = Some key"
| "writes_to (OZadd key _) = Some key"
| "writes_to (OZrem key _) = Some key"
| "writes_to _ = None"

lemma redis_exec_frame:
  "writes_to x \<noteq> Some key \<Longrightarrow> db_entries (snd (redis_exec x db)) key = db_entries db key"
  by (cases x) (auto simp: db_put_def split: option.splits redis_value.splits prod.splits)

definition benign :: "string \<Rightarrow> int \<Rightarrow> (redis_value \<Rightarrow> bool) \<Rightarrow> redis_event \<Rightarrow> bool" where
  "benign key until Q e \<longleftrightarrow> (\<forall>db. db_holds db key until Q \<longrightarrow> db_clock db < until \<longrightarrow> db_holds (db_step e db) key until Q)"

lemma benign_tick: "benign key until Q (RTick n)"
  by (simp add: benign_def db_holds_def)

lemma benign_elsewhere: "writes_to x \<noteq> Some key \<Longrightarrow> benign key until Q (ROp x)"
  by (simp add: benign_def db_holds_def redis_exec_frame)

lemma db_holds_run:
  assumes "db_holds db key until Q" and "\<forall>e \<in> set es. benign key until Q e" and "db_clock (db_run es db) < until"
  shows "db_holds (db_run es db) key until Q"
  using assms
proof (induction es arbitrary: db)
  case (Cons e es)
  have "db_clock db < until"
    using Cons.prems(3) db_clock_run [of db "e # es"] by simp
  then show ?case
    using Cons by (simp add: benign_def)
qed simp

end
