(* ===== verification/Idempotency.thy ===== *)
theory Idempotency
  imports Redis
begin

text \<open>
  \<open>xrpl_x402_facilitator/idempotency.py\<close>: the facilitator's payment identifiers, Redis hashes that
  bind an identifier to the fingerprint of one request and keep its final settlement response.
  The payment identifier extension of the x402 SDK is the record \<open>pid_ext\<close>: what it extracts from a
  payload and the errors of its two validations (\<open>None\<close> when valid).

  The locale \<open>exclusive_binding\<close> states what this store and the resource server's response store
  have in common: the commands they send never change the fingerprint of a live key and never
  shorten its life below the store's time to live.
\<close>

section \<open>The payment identifier extension\<close>

abbreviation PAYMENT_IDENTIFIER :: string where "PAYMENT_IDENTIFIER \<equiv> ''payment-identifier''"

record pid_ext =
  pid_extract :: "payment_payload \<Rightarrow> string option \<times> string list option"
  pid_required :: "pyval \<Rightarrow> bool"
  pid_check :: "payment_payload \<Rightarrow> bool \<Rightarrow> string list option"

definition identifier_scope :: "payment_requirements \<Rightarrow> string \<Rightarrow> string" where
  "identifier_scope requirements identifier = r_network requirements @ ''|'' @ r_pay_to requirements @ ''|'' @ identifier"


section \<open>The store\<close>

record identifier_store =
  is_ext :: ext
  is_pid :: pid_ext
  is_ttl :: int
  is_others :: interference

definition identifier_key :: "ext \<Rightarrow> string \<Rightarrow> payment_requirements \<Rightarrow> string" where
  "identifier_key E identifier requirements =
     ''facilitator:idempotency:'' @ sha256_hex E (identifier_scope requirements identifier)"

text \<open>The two validations of \<open>bind\<close>, which answer 400.\<close>

definition checked_identifier :: "pid_ext \<Rightarrow> payment_payload \<Rightarrow> exn + string option" where
  "checked_identifier P payload = (case pid_extract P payload of
       (_, Some errors) \<Rightarrow> Inl (HTTPException 400 (join ''; '' errors))
     | (identifier, None) \<Rightarrow>
       (case pid_check P payload (pid_required P (dget (dict_or_empty (p_extensions payload)) PAYMENT_IDENTIFIER)) of
          Some errors \<Rightarrow> Inl (HTTPException 400 (join ''; '' errors))
        | None \<Rightarrow> Inr identifier))"

abbreviation IDENTIFIER_CONFLICT :: exn where
  "IDENTIFIER_CONFLICT \<equiv> HTTPException 409 ''payment-identifier was already used with a different request''"

definition bind_key :: "identifier_store \<Rightarrow> string \<Rightarrow> string \<Rightarrow> string redis_cmd" where
  "bind_key I key fingerprint =
     cbind (redis_call (is_others I) (OHsetnx key ''fingerprint'' (PStr fingerprint))) (\<lambda>_.
     cbind (redis_call (is_others I) (OHget key ''fingerprint'')) (\<lambda>existing.
       if existing \<noteq> ReplyVal (PStr fingerprint) then craise IDENTIFIER_CONFLICT
       else cbind (redis_call (is_others I) (OExpire key (is_ttl I))) (\<lambda>_. creturn key)))"

definition bind_identifier :: "identifier_store \<Rightarrow> payment_payload \<Rightarrow> payment_requirements \<Rightarrow> string option redis_cmd" where
  "bind_identifier I payload requirements =
     cbind (clift (checked_identifier (is_pid I) payload)) (\<lambda>identifier. case identifier of
         None \<Rightarrow> creturn None
       | Some i \<Rightarrow>
         cbind (bind_key I (identifier_key (is_ext I) i requirements)
                  (requirements_fingerprint (is_ext I) payload requirements)) (\<lambda>key. creturn (Some key)))"

definition get_cached ::
  "identifier_store \<Rightarrow> string \<Rightarrow> payment_payload \<Rightarrow> payment_requirements \<Rightarrow> (string option \<times> pyval option) redis_cmd" where
  "get_cached I stage payload requirements =
     cbind (bind_identifier I payload requirements) (\<lambda>key. case key of
         None \<Rightarrow> creturn (None, None)
       | Some k \<Rightarrow>
         cbind (redis_call (is_others I) (OHget k stage)) (\<lambda>cached.
           creturn (Some k, case cached of ReplyVal v \<Rightarrow> Some v | _ \<Rightarrow> None)))"

definition put_cached :: "identifier_store \<Rightarrow> string option \<Rightarrow> string \<Rightarrow> pyval \<Rightarrow> unit redis_cmd" where
  "put_cached I key stage response = (case key of
       None \<Rightarrow> creturn ()
     | Some k \<Rightarrow>
       cbind (redis_call (is_others I) (OHset k stage response)) (\<lambda>_.
       cbind (redis_call (is_others I) (OExpire k (is_ttl I))) (\<lambda>_. creturn ())))"


section \<open>Exclusive bindings\<close>

locale exclusive_binding =
  fixes fp_of :: "redis_value \<Rightarrow> string option"
    and allowed :: "string \<Rightarrow> int \<Rightarrow> string \<Rightarrow> redis_op \<Rightarrow> bool"
  assumes allowed_keeps:
    "allowed key ttl f x \<Longrightarrow> db_holds db key until (\<lambda>v. fp_of v = Some f) \<Longrightarrow> db_clock db < until \<Longrightarrow>
     until \<le> db_clock db + ttl \<Longrightarrow> db_holds (snd (redis_exec x db)) key until (\<lambda>v. fp_of v = Some f)"
begin

definition bound :: "redis_db \<Rightarrow> string \<Rightarrow> int \<Rightarrow> string \<Rightarrow> bool" where
  "bound db key until f \<longleftrightarrow> db_holds db key until (\<lambda>v. fp_of v = Some f)"

definition obeys :: "string \<Rightarrow> int \<Rightarrow> string \<Rightarrow> redis_event list \<Rightarrow> bool" where
  "obeys key ttl f es \<longleftrightarrow> (\<forall>x. ROp x \<in> set es \<longrightarrow> allowed key ttl f x)"

lemma bound_step:
  assumes "bound db key until f" and "db_clock db < until" and "until \<le> db_clock db + ttl" and "obeys key ttl f [e]"
  shows "bound (db_step e db) key until f"
  using assms allowed_keeps benign_tick by (cases e) (auto simp: bound_def obeys_def benign_def)

lemma bound_run:
  assumes "bound db key until f" and "db_clock (db_run es db) < until" and "until \<le> db_clock db + ttl"
    and "obeys key ttl f es"
  shows "bound (db_run es db) key until f"
  using assms
proof (induction es arbitrary: db)
  case (Cons e es)
  have clock: "db_clock db \<le> db_clock (db_step e db)" "db_clock (db_step e db) \<le> db_clock (db_run (e # es) db)"
    using db_clock_step db_clock_run by simp_all
  have "bound (db_step e db) key until f"
    using Cons.prems clock by (intro bound_step [where ttl = ttl]) (auto simp: obeys_def)
  then show ?case
    using Cons.IH Cons.prems clock by (simp add: obeys_def)
qed simp

text \<open>A command of the store, with what other clients do before it.\<close>

lemma call_bound:
  assumes "redis_call others x s = (r, s')" and "bound (cn_db s) key until f" and "obeys key ttl f (others (cn_calls s))"
    and "allowed key ttl f x" and "db_clock (cn_db s') < until" and "until \<le> db_clock (cn_db s) + ttl"
  shows "bound (cn_db s') key until f"
    and "\<exists>db reply. bound db key until f \<and> db_clock db < until \<and> redis_exec x db = (reply, cn_db s')
      \<and> r = (if reply = ReplyError then Raise (ClientError ''redis'') else Ok reply)"
proof -
  obtain reply db where db: "db = db_run (others (cn_calls s)) (cn_db s)" "redis_exec x db = (reply, cn_db s')"
    and r: "r = (if reply = ReplyError then Raise (ClientError ''redis'') else Ok reply)"
    using assms(1) by (auto simp: redis_call_run)
  have clock: "db_clock db = db_clock (cn_db s')" "db_clock (cn_db s) \<le> db_clock db"
    using redis_exec_clock [of x db] db(2) db_clock_run by (simp_all add: db(1))
  have b: "bound db key until f"
    using bound_run [OF assms(2) _ assms(6,3)] clock assms(5) by (simp add: db(1))
  have "bound (db_step (ROp x) db) key until f"
    using clock assms(4-6) by (intro bound_step [OF b, where ttl = ttl]) (auto simp: obeys_def)
  then show "bound (cn_db s') key until f"
    using db(2) by simp
  show "\<exists>db reply. bound db key until f \<and> db_clock db < until \<and> redis_exec x db = (reply, cn_db s')
      \<and> r = (if reply = ReplyError then Raise (ClientError ''redis'') else Ok reply)"
    using b clock assms(5) db(2) r by force
qed

text \<open>A live key that is bound reads as its fingerprint.\<close>

lemma bound_live:
  "bound db key until f \<Longrightarrow> db_clock db < until \<Longrightarrow> \<exists>v t. db_live db key = Some (v, t) \<and> fp_of v = Some f"
  unfolding bound_def using db_holds_live by blast

end


section \<open>The identifiers obey it\<close>

fun hash_fingerprint :: "redis_value \<Rightarrow> string option" where
  "hash_fingerprint (RHash h) = (case map_of h ''fingerprint'' of Some (PStr f) \<Rightarrow> Some f | _ \<Rightarrow> None)"
| "hash_fingerprint _ = None"

fun identifier_op :: "string \<Rightarrow> int \<Rightarrow> string \<Rightarrow> redis_op \<Rightarrow> bool" where
  "identifier_op key ttl f (OHsetnx k field v) \<longleftrightarrow> True"
| "identifier_op key ttl f (OHset k field v) \<longleftrightarrow> k = key \<longrightarrow> field \<noteq> ''fingerprint''"
| "identifier_op key ttl f (OExpire k t) \<longleftrightarrow> k = key \<longrightarrow> ttl \<le> t"
| "identifier_op key ttl f x \<longleftrightarrow> writes_to x \<noteq> Some key"

lemma hash_fingerprint_Some:
  "hash_fingerprint v = Some f \<longleftrightarrow> (\<exists>h. v = RHash h \<and> map_of h ''fingerprint'' = Some (PStr f))"
  by (cases v) (auto split: option.splits pyval.splits)

lemma identifier_op_keeps:
  assumes "identifier_op key ttl f x" and "db_holds db key until (\<lambda>v. hash_fingerprint v = Some f)"
    and "db_clock db < until" and "until \<le> db_clock db + ttl"
  shows "db_holds (snd (redis_exec x db)) key until (\<lambda>v. hash_fingerprint v = Some f)"
proof (cases "writes_to x = Some key")
  case True
  from db_holds_live [OF assms(2,3)] obtain h t where h: "db_live db key = Some (RHash h, t)"
    "map_of h ''fingerprint'' = Some (PStr f)" "case t of None \<Rightarrow> True | Some u \<Rightarrow> until \<le> u"
    by (auto simp: hash_fingerprint_Some)
  show ?thesis
    using True assms(1,2,4) h
    by (cases x) (auto simp: hash_fields_def db_holds_def db_put_def map_of_dset hash_fingerprint_Some)
next
  case False
  then show ?thesis
    using assms(2) benign_elsewhere [OF False] assms(3) by (simp add: benign_def)
qed

interpretation ids: exclusive_binding hash_fingerprint identifier_op
  by unfold_locales (rule identifier_op_keeps)


section \<open>One request per identifier\<close>

lemma hget_fingerprint:
  assumes "ids.bound db key until f" and "db_clock db < until"
  shows "redis_exec (OHget key ''fingerprint'') db = (ReplyVal (PStr f), db)"
  using ids.bound_live [OF assms] by (auto simp: hash_fields_def hash_fingerprint_Some)

lemma redis_call_advances [advances_rules]: "advances (\<lambda>s. db_clock (cn_db s)) (redis_call others x)"
  unfolding advances_def
proof
  fix s
  obtain r s' where c: "redis_call others x s = (r, s')" by fastforce
  then obtain reply db where db: "redis_exec x (db_run (others (cn_calls s)) (cn_db s)) = (reply, db)" "cn_db s' = db"
    by (auto simp: redis_call_run)
  have "db_clock db = db_clock (db_run (others (cn_calls s)) (cn_db s))"
    using redis_exec_clock [of x "db_run (others (cn_calls s)) (cn_db s)"] db by simp
  then show "db_clock (cn_db s) \<le> db_clock (cn_db (snd (redis_call others x s)))"
    using c db db_clock_run by simp
qed

lemma hsetnx_total: "hash_fields db key = Some (h, t) \<Longrightarrow> fst (redis_exec (OHsetnx key field v) db) \<noteq> ReplyError"
  by simp

lemma bound_hash:
  assumes "ids.bound db key until f" and "db_clock db < until"
  shows "\<exists>h t. hash_fields db key = Some (h, t) \<and> map_of h ''fingerprint'' = Some (PStr f)"
  using ids.bound_live [OF assms] by (auto simp: hash_fields_def hash_fingerprint_Some)

text \<open>Binding a key that is bound to another fingerprint is refused.\<close>

lemma bind_key_conflict:
  assumes "ids.bound (cn_db s) key until f" and "until \<le> db_clock (cn_db s) + ttl" and "g \<noteq> f"
    and "\<And>n. ids.obeys key ttl f (is_others J n)" and "bind_key J key g s = (r, s')" and "db_clock (cn_db s') < until"
  shows "r = Raise IDENTIFIER_CONFLICT"
proof -
  let ?set = "redis_call (is_others J) (OHsetnx key ''fingerprint'' (PStr g))"
  let ?get = "redis_call (is_others J) (OHget key ''fingerprint'')"
  let ?tail = "\<lambda>existing. if existing \<noteq> ReplyVal (PStr g) then craise IDENTIFIER_CONFLICT
       else cbind (redis_call (is_others J) (OExpire key (is_ttl J))) (\<lambda>_. creturn key)"
  obtain r1 s1 where c1: "?set s = (r1, s1)" by fastforce
  obtain r2 s2 where c2: "?get s1 = (r2, s2)" by fastforce
  have run: "bind_key J key g = cbind ?set (\<lambda>_. cbind ?get ?tail)"
    by (simp add: bind_key_def)
  have adv: "advances (\<lambda>s. db_clock (cn_db s)) (cbind ?get ?tail)" "\<And>x. advances (\<lambda>s. db_clock (cn_db s)) (?tail x)"
    by (intro advances_rules)+
  have le1: "db_clock (cn_db s1) \<le> db_clock (cn_db s')"
    using assms(5) c1 advancesD [OF adv(1)] by (cases r1) (auto simp: run cbind_def)
  note b1 = ids.call_bound [OF c1 assms(1) assms(4) _ _ assms(2)]
  obtain db x1 where db: "ids.bound db key until f" "db_clock db < until"
    "redis_exec (OHsetnx key ''fingerprint'' (PStr g)) db = (x1, cn_db s1)"
    "r1 = (if x1 = ReplyError then Raise (ClientError ''redis'') else Ok x1)"
    using b1(2) le1 assms(6) by auto
  have "x1 \<noteq> ReplyError"
    using bound_hash [OF db(1,2)] hsetnx_total db(3) by (metis fst_conv)
  then have r1: "r1 = Ok x1" using db(4) by simp
  then have rest: "cbind ?get ?tail s1 = (r, s')"
    using assms(5) c1 by (simp add: run cbind_step)
  then have le2: "db_clock (cn_db s2) \<le> db_clock (cn_db s')"
    using c2 advancesD [OF adv(2)] by (cases r2) (auto simp: cbind_def split: if_splits)
  have "ids.bound (cn_db s1) key until f"
    using b1(1) le1 assms(6) by simp
  from ids.call_bound(2) [OF c2 this assms(4)] le2 assms(2,6) advancesD [OF redis_call_advances c1]
  have "r2 = Ok (ReplyVal (PStr f))"
    using hget_fingerprint by (fastforce split: if_splits)
  then show ?thesis
    using rest c2 assms(3) by (simp add: cbind_step craise_def)
qed

text \<open>An entry that has lapsed or lives until some time: what the commands of the stores leave when
  they find no earlier expiry.\<close>

definition expires_late :: "redis_db \<Rightarrow> string \<Rightarrow> int \<Rightarrow> bool" where
  "expires_late db key until \<longleftrightarrow>
     (\<forall>v t. db_entries db key = Some (v, Some t) \<longrightarrow> t \<le> db_clock db \<or> until \<le> t)"

lemma expires_late_live:
  "expires_late db key until \<Longrightarrow> db_live db key = Some (v, t) \<Longrightarrow> case t of None \<Rightarrow> True | Some u \<Rightarrow> until \<le> u"
  by (auto simp: expires_late_def db_live_def split: option.splits prod.splits if_splits)

lemma expires_late_put:
  "expires_late db key until \<Longrightarrow> (\<And>u. k = key \<Longrightarrow> t = Some u \<Longrightarrow> until \<le> u) \<Longrightarrow> expires_late (db_put k (v, t) db) key until"
  by (auto simp: expires_late_def db_put_def)

lemma expires_late_step:
  assumes "expires_late db key until" and "until \<le> db_clock db + ttl" and "ids.obeys key ttl f [e]"
  shows "expires_late (db_step e db) key until"
proof (cases e)
  case (RTick n)
  then show ?thesis
    using assms(1) by (fastforce simp: expires_late_def)
next
  case (ROp x)
  then have x: "identifier_op key ttl f x"
    using assms(3) by (simp add: ids.obeys_def)
  show ?thesis
  proof (cases "writes_to x = Some key")
    case True
    then show ?thesis
      using x ROp assms(1,2) expires_late_live [OF assms(1)]
      by (cases x) (auto simp: hash_fields_def intro!: expires_late_put split: option.splits redis_value.splits prod.splits)
  next
    case False
    then show ?thesis
      using assms(1) ROp redis_exec_clock [of x db] by (simp add: expires_late_def redis_exec_frame)
  qed
qed

lemma expires_late_run:
  "expires_late db key until \<Longrightarrow> until \<le> db_clock db + ttl \<Longrightarrow> ids.obeys key ttl f es \<Longrightarrow> expires_late (db_run es db) key until"
proof (induction es arbitrary: db)
  case (Cons e es)
  have "expires_late (db_step e db) key until"
    using Cons.prems by (intro expires_late_step [where ttl = ttl and f = f]) (auto simp: ids.obeys_def)
  then show ?case
    using Cons db_clock_step [of db e] by (simp add: ids.obeys_def)
qed simp

lemma expires_late_call:
  assumes "redis_call others x s = (r, s')" and "expires_late (cn_db s) key until" and "until \<le> db_clock (cn_db s) + ttl"
    and "ids.obeys key ttl f (others (cn_calls s))" and "identifier_op key ttl f x"
  shows "expires_late (cn_db s') key until"
proof -
  let ?db = "db_run (others (cn_calls s)) (cn_db s)"
  have "expires_late (db_step (ROp x) ?db) key until"
    using expires_late_run [OF assms(2-4)] assms(3,5) db_clock_run [of "cn_db s" "others (cn_calls s)"]
    by (intro expires_late_step [where ttl = ttl and f = f]) (auto simp: ids.obeys_def)
  then show ?thesis
    using assms(1) by (auto simp: redis_call_run)
qed

text \<open>A call that binds a key leaves it bound for the time to live, when the entry it found, if any,
  does not lapse before the call ends and the call takes less than the time to live.\<close>

lemma late_bound:
  assumes "db_live db key = Some (RHash h, t)" and "map_of h ''fingerprint'' = Some (PStr f)" and "expires_late db key until"
  shows "ids.bound db key until f"
proof -
  have "db_entries db key = Some (RHash h, t)"
    using assms(1) by (auto simp: db_live_def split: option.splits prod.splits if_splits)
  then show ?thesis
    using assms(2) expires_late_live [OF assms(3,1)] by (auto simp: ids.bound_def db_holds_def hash_fingerprint_Some)
qed

lemma expire_binds:
  assumes "ids.bound db key until f" and "db_clock db < until" and "redis_exec (OExpire key ttl) db = (reply, db')"
  shows "ids.bound db' key (db_clock db' + ttl) f"
proof -
  from ids.bound_live [OF assms(1,2)] obtain v t where "db_live db key = Some (v, t)" "hash_fingerprint v = Some f"
    by blast
  then show ?thesis
    using assms(3) by (auto simp: ids.bound_def db_holds_def db_put_def)
qed

lemma bind_key_binds:
  assumes "bind_key I key f s = (Ok k, s')" and "\<And>n. ids.obeys key (is_ttl I) f (is_others I n)"
    and "expires_late (cn_db s) key until" and "db_clock (cn_db s') < until" and "until \<le> db_clock (cn_db s) + is_ttl I"
  shows "ids.bound (cn_db s') key (db_clock (cn_db s') + is_ttl I) f" and "k = key"
proof -
  obtain x1 s1 x2 s2 x3 where c1: "redis_call (is_others I) (OHsetnx key ''fingerprint'' (PStr f)) s = (Ok x1, s1)"
    and c2: "redis_call (is_others I) (OHget key ''fingerprint'') s1 = (Ok (ReplyVal (PStr f)), s2)"
    and c3: "redis_call (is_others I) (OExpire key (is_ttl I)) s2 = (Ok x3, s')" and k: "k = key"
    using assms(1) by (auto simp: bind_key_def run_simps split: if_splits)
  note clock = advancesD [OF redis_call_advances c1] advancesD [OF redis_call_advances c2] advancesD [OF redis_call_advances c3]
  have late1: "expires_late (cn_db s1) key until"
    by (rule expires_late_call [OF c1 assms(3,5,2)]) simp
  have late2: "expires_late (cn_db s2) key until"
    by (rule expires_late_call [OF c2 late1 _ assms(2)]) (use clock assms(5) in auto)
  from c2 obtain h t where "db_live (cn_db s2) key = Some (RHash h, t)" "map_of h ''fingerprint'' = Some (PStr f)"
    by (auto simp: redis_call_run hash_fields_def split: option.splits redis_value.splits if_splits)
  note b = late_bound [OF this late2]
  have "\<exists>db reply. ids.bound db key until f \<and> db_clock db < until \<and> redis_exec (OExpire key (is_ttl I)) db = (reply, cn_db s')"
    using ids.call_bound(2) [OF c3 b assms(2) _ assms(4)] clock assms(5) by auto
  then show "ids.bound (cn_db s') key (db_clock (cn_db s') + is_ttl I) f"
    using expire_binds by blast
  show "k = key" by (rule k)
qed

text \<open>C21. A payment identifier stands for one request: once the facilitator has bound an identifier to a
  request, binding it to a request with another fingerprint answers 409 as long as the time to live
  has not passed since. Before any command of either call and between the calls, the other workers
  may run any commands of this protocol on the identifier and any commands on other keys, and time
  may pass. The first call has to finish in time: if the identifier is alive when it begins, with
  an expiry, it ends before that expiry, and in any case within the time to live. A call that is
  slower may see its fingerprint, lose the key before its own \<open>EXPIRE\<close>, and report a binding that no
  longer exists; an identifier that is new or lapsed when the call begins does not have this race.
\<close>

theorem identifier_binds_one_request:
  assumes "bind_identifier I payload requirements s = (Ok (Some key), s1)"
    and "f = requirements_fingerprint (is_ext I) payload requirements"
    and "\<And>n. ids.obeys key (is_ttl I) f (is_others I n)"
    and "\<And>v t. db_entries (cn_db s) key = Some (v, Some t) \<Longrightarrow> t \<le> db_clock (cn_db s) \<or> db_clock (cn_db s1) < t"
    and "db_clock (cn_db s1) < db_clock (cn_db s) + is_ttl I"
    and "ids.obeys key (is_ttl I) f es" and "\<And>n. ids.obeys key (is_ttl I) f (is_others J n)"
    and "checked_identifier (is_pid J) payload' = Inr (Some i)" and "identifier_key (is_ext J) i requirements' = key"
    and "requirements_fingerprint (is_ext J) payload' requirements' \<noteq> f"
    and "bind_identifier J payload' requirements' (s1\<lparr>cn_db := db_run es (cn_db s1)\<rparr>) = (r, s2)"
    and "db_clock (cn_db s2) < db_clock (cn_db s1) + is_ttl I"
  shows "r = Raise IDENTIFIER_CONFLICT"
proof -
  let ?until = "db_clock (cn_db s1) + is_ttl I"
  let ?s = "s1\<lparr>cn_db := db_run es (cn_db s1)\<rparr>"
  obtain k where "bind_key I k f s = (Ok key, s1)"
    using assms(1) by (auto simp: bind_identifier_def run_simps assms(2) split: option.splits)
  then have run: "bind_key I key f s = (Ok key, s1)"
    by (auto simp: bind_key_def run_simps split: if_splits)
  have "expires_late (cn_db s) key (db_clock (cn_db s1) + 1)"
    using assms(4) by (force simp: expires_late_def)
  note b = bind_key_binds(1) [OF run assms(3) this]
  have bound: "ids.bound (cn_db s1) key ?until f"
    using b assms(5) by simp
  have "cbind (bind_key J key (requirements_fingerprint (is_ext J) payload' requirements')) (\<lambda>key. creturn (Some key)) ?s = (r, s2)"
    using assms(8,9,11) by (simp add: bind_identifier_def cbind_clift)
  then obtain r' where r': "bind_key J key (requirements_fingerprint (is_ext J) payload' requirements') ?s = (r', s2)"
    "r' = Raise IDENTIFIER_CONFLICT \<Longrightarrow> r = Raise IDENTIFIER_CONFLICT"
    by (auto simp: cbind_def creturn_def split: outcome.splits prod.splits)
  have "advances (\<lambda>s. db_clock (cn_db s)) (bind_key J key g)" for g
    unfolding bind_key_def by (intro advances_rules)
  note clock = advancesD [OF this r'(1)] db_clock_run [of "cn_db s1" es]
  have "ids.bound (cn_db ?s) key ?until f"
    using ids.bound_run [OF bound _ _ assms(6)] clock assms(12) by simp
  then have "r' = Raise IDENTIFIER_CONFLICT"
    using clock assms(10,12) by (intro bind_key_conflict [OF _ _ _ assms(7) r'(1)]) auto
  then show ?thesis by (rule r'(2))
qed

section \<open>Witness\<close>

text \<open>The race of a call that is too slow: the entry it found lapses between its \<open>HGET\<close> and its
  \<open>EXPIRE\<close>, and it reports a binding that does not exist.\<close>

definition slow_store :: identifier_store where
  "slow_store = \<lparr>is_ext = sample_ext,
     is_pid = \<lparr>pid_extract = (\<lambda>_. (Some ''order-1'', None)), pid_required = (\<lambda>_. False), pid_check = (\<lambda>_ _. None)\<rparr>,
     is_ttl = 300, is_others = (\<lambda>n. if n = 2 then [RTick 1] else [])\<rparr>"

lemma slow_bind_loses_key:
  "\<exists>s'. bind_key slow_store key f
       \<lparr>cn_db = \<lparr>db_entries = [key \<mapsto> (RHash [(''fingerprint'', PStr f)], Some 300)], db_clock = 299\<rparr>, cn_calls = 0\<rparr> = (Ok key, s')
     \<and> db_live (cn_db s') key = None"
  by (simp add: bind_key_def slow_store_def redis_call_def hash_fields_def db_live_def db_put_def
      cbind_def creturn_def Let_def)

definition sample_ids :: identifier_store where
  "sample_ids = \<lparr>is_ext = sample_ext\<lparr>sha256_hex := id\<rparr>,
     is_pid = \<lparr>pid_extract = (\<lambda>_. (Some ''order-1'', None)), pid_required = (\<lambda>_. False), pid_check = (\<lambda>_ _. None)\<rparr>,
     is_ttl = 300, is_others = (\<lambda>_. [])\<rparr>"

definition sample_conn :: redis_conn where
  "sample_conn = \<lparr>cn_db = \<lparr>db_entries = Map.empty, db_clock = 0\<rparr>, cn_calls = 0\<rparr>"

definition small_requirements :: payment_requirements where
  "small_requirements = \<lparr>r_scheme = [], r_network = [], r_asset = [], r_amount = [], r_pay_to = [],
     r_max_timeout_seconds = 1, r_extra = None\<rparr>"

definition small_payload :: "string \<Rightarrow> payment_payload" where
  "small_payload blob = \<lparr>p_x402_version = 2, p_payload = [([], PStr blob)], p_accepted = small_requirements,
     p_resource = None, p_extensions = None\<rparr>"

abbreviation sample_key :: string where
  "sample_key \<equiv> identifier_key (is_ext sample_ids) ''order-1'' small_requirements"

lemma sample_checked: "checked_identifier (is_pid sample_ids) payload = Inr (Some ''order-1'')"
  by (simp add: checked_identifier_def sample_ids_def)

lemma sample_fingerprints_differ:
  "requirements_fingerprint (is_ext sample_ids) (small_payload ''a'') small_requirements
   \<noteq> requirements_fingerprint (is_ext sample_ids) (small_payload []) small_requirements"
  by code_simp

lemma sample_bind_key:
  "bind_key sample_ids key f sample_conn = (Ok key,
     \<lparr>cn_db = \<lparr>db_entries = [key \<mapsto> (RHash [(''fingerprint'', PStr f)], Some 300)], db_clock = 0\<rparr>, cn_calls = 3\<rparr>)"
  by (simp add: bind_key_def sample_ids_def sample_conn_def redis_call_def hash_fields_def db_live_def db_put_def
      cbind_def creturn_def Let_def)

lemma sample_bind:
  "bind_identifier sample_ids payload small_requirements sample_conn = (Ok (Some sample_key),
     \<lparr>cn_db = \<lparr>db_entries = [sample_key \<mapsto> (RHash [(''fingerprint'', PStr (requirements_fingerprint (is_ext sample_ids) payload
        small_requirements))], Some 300)], db_clock = 0\<rparr>, cn_calls = 3\<rparr>)"
  by (simp add: bind_identifier_def sample_checked cbind_clift cbind_step [of "bind_key I k f" for I k f, OF sample_bind_key]
      creturn_def)

theorem identifier_binds_one_request_witness:
  "\<exists>s1 s2. bind_identifier sample_ids (small_payload []) small_requirements sample_conn = (Ok (Some sample_key), s1)
    \<and> bind_identifier sample_ids (small_payload ''a'') small_requirements (s1\<lparr>cn_db := db_run [RTick 299] (cn_db s1)\<rparr>)
      = (Raise IDENTIFIER_CONFLICT, s2)"
proof -
  let ?s1 = "snd (bind_identifier sample_ids (small_payload []) small_requirements sample_conn)"
  let ?b = "bind_identifier sample_ids (small_payload ''a'') small_requirements (?s1\<lparr>cn_db := db_run [RTick 299] (cn_db ?s1)\<rparr>)"
  have run: "bind_identifier sample_ids (small_payload []) small_requirements sample_conn = (Ok (Some sample_key), ?s1)"
    by (simp add: sample_bind)
  have obey: "ids.obeys k t f []" "ids.obeys k t f [RTick 299]" "is_others sample_ids n = []" for k t f n
    by (simp_all add: ids.obeys_def sample_ids_def)
  have "fst ?b = Raise IDENTIFIER_CONFLICT"
  proof (rule identifier_binds_one_request [OF run refl _ _ _ obey(2) _ sample_checked refl sample_fingerprints_differ])
    show "?b = (fst ?b, snd ?b)" by simp
    have "bind_identifier sample_ids (small_payload ''a'') small_requirements = cbind (bind_key sample_ids sample_key
        (requirements_fingerprint (is_ext sample_ids) (small_payload ''a'') small_requirements)) (\<lambda>key. creturn (Some key))"
      by (simp add: bind_identifier_def sample_checked cbind_clift)
    then show "db_clock (cn_db (snd ?b)) < db_clock (cn_db ?s1) + is_ttl sample_ids"
      by (simp add: sample_bind bind_key_def redis_call_def sample_ids_def [THEN arg_cong [where f = is_others]]
          sample_ids_def [THEN arg_cong [where f = is_ttl]] hash_fields_def db_live_def db_put_def cbind_def creturn_def craise_def Let_def
          split: if_splits)
  qed (simp_all add: obey sample_bind, simp_all add: sample_ids_def sample_conn_def)
  then show ?thesis
    using run by (metis prod.collapse)
qed

end
