(* ===== verification/GatewayAuth.thy ===== *)
theory GatewayAuth
  imports Config Redis
begin

text \<open>
  \<open>xrpl_x402_facilitator/gateway_auth.py\<close>: who may call the payment endpoints. A gateway presents a
  bearer token, which is either the one configured token or is looked up by its digest among the
  gateway records in Redis.
\<close>

abbreviation DEFAULT_SINGLE_GATEWAY_ID :: string where "DEFAULT_SINGLE_GATEWAY_ID \<equiv> ''default-gateway''"
abbreviation ACTIVE_GATEWAY_STATUS :: string where "ACTIVE_GATEWAY_STATUS \<equiv> ''active''"

record authenticated_gateway =
  gateway_id :: string

datatype gateway_authenticator = SingleTokenGatewayAuthenticator string string | RedisGatewayAuthenticator

definition hash_gateway_token :: "ext \<Rightarrow> string \<Rightarrow> string" where
  "hash_gateway_token E token = sha256_hex E token"

definition single_token_authenticate :: "string \<Rightarrow> string \<Rightarrow> string \<Rightarrow> exn + authenticated_gateway" where
  "single_token_authenticate token gateway bearer_token =
     rbind (compare_digest bearer_token token) (\<lambda>same.
       if \<not> same then Inl (GatewayAuthenticationError ''invalid token'') else Inr \<lparr>gateway_id = gateway\<rparr>)"

definition gateway_token_key :: "ext \<Rightarrow> string \<Rightarrow> string" where
  "gateway_token_key E bearer_token = ''facilitator:gateway_token:'' @ hash_gateway_token E bearer_token"

definition gateway_of_record :: "pydict \<Rightarrow> exn + authenticated_gateway" where
  "gateway_of_record token_record =
     (let status = lower (strip (py_str (dget_default token_record ''status'' (PStr []))));
          gateway = strip (py_str (dget_default token_record ''gateway_id'' (PStr []))) in
      if status \<noteq> ACTIVE_GATEWAY_STATUS \<or> gateway = [] then Inl (GatewayAuthenticationError ''inactive token'')
      else Inr \<lparr>gateway_id = gateway\<rparr>)"

definition redis_authenticate :: "ext \<Rightarrow> interference \<Rightarrow> string \<Rightarrow> authenticated_gateway redis_cmd" where
  "redis_authenticate E others bearer_token =
     cbind (redis_call others (OHgetall (gateway_token_key E bearer_token))) (\<lambda>reply. case reply of
         ReplyFields (field # rest) \<Rightarrow> clift (gateway_of_record (field # rest))
       | _ \<Rightarrow> craise (GatewayAuthenticationError ''unknown token''))"

definition authenticate :: "ext \<Rightarrow> interference \<Rightarrow> gateway_authenticator \<Rightarrow> string \<Rightarrow> authenticated_gateway redis_cmd" where
  "authenticate E others auth bearer_token = (case auth of
       SingleTokenGatewayAuthenticator token gateway \<Rightarrow> clift (single_token_authenticate token gateway bearer_token)
     | RedisGatewayAuthenticator \<Rightarrow> redis_authenticate E others bearer_token)"

text \<open>With no client passed in, the Redis authenticator opens its own connection to the same database.\<close>

definition build_gateway_authenticator :: "settings \<Rightarrow> exn + gateway_authenticator" where
  "build_gateway_authenticator s =
     (if GATEWAY_AUTH_MODE s = ''single_token'' then
        (case FACILITATOR_BEARER_TOKEN s of
           None \<Rightarrow> Inl (AttributeError ''get_secret_value'')
         | Some token \<Rightarrow> Inr (SingleTokenGatewayAuthenticator token DEFAULT_SINGLE_GATEWAY_ID))
      else Inr RedisGatewayAuthenticator)"


section \<open>Lemmas\<close>

text \<open>Authentication reads at most one record and writes nothing.\<close>

lemma authenticate_reads:
  assumes "authenticate E others auth token s = (r, s')"
  shows "s' = s \<or> s' = s\<lparr>cn_db := db_run (others (cn_calls s)) (cn_db s), cn_calls := Suc (cn_calls s)\<rparr>"
  using assms
  by (cases auth) (auto simp: authenticate_def redis_authenticate_def redis_call_def Let_def cbind_def clift_def craise_def creturn_def
      split: option.splits sum.splits redis_reply.splits list.splits if_splits)

text \<open>What a successful authentication rests on.\<close>

lemma authenticate_Ok:
  assumes "authenticate E others auth token s = (Ok g, s')"
  shows "(\<exists>gateway. auth = SingleTokenGatewayAuthenticator token gateway \<and> gateway_id g = gateway) \<or>
    (\<exists>d. auth = RedisGatewayAuthenticator \<and>
      redis_exec (OHgetall (gateway_token_key E token)) (db_run (others (cn_calls s)) (cn_db s)) = (ReplyFields d, cn_db s')
      \<and> gateway_of_record d = Inr g)"
proof (cases auth)
  case (SingleTokenGatewayAuthenticator t gateway)
  then show ?thesis
    using assms by (auto simp: authenticate_def single_token_authenticate_def compare_digest_def run_simps split: if_splits)
next
  case RedisGatewayAuthenticator
  then obtain reply s1 where c: "redis_call others (OHgetall (gateway_token_key E token)) s = (Ok reply, s1)"
    and rest: "(case reply of ReplyFields (field # rest) \<Rightarrow> clift (gateway_of_record (field # rest))
       | _ \<Rightarrow> craise (GatewayAuthenticationError ''unknown token'')) s1 = (Ok g, s')"
    using assms by (auto simp: authenticate_def redis_authenticate_def cbind_Ok)
  then obtain d where "reply = ReplyFields d" "gateway_of_record d = Inr g" "s' = s1"
    by (cases reply) (auto simp: run_simps split: list.splits)
  then show ?thesis
    using c RedisGatewayAuthenticator by (auto simp: redis_call_run split: if_splits)
qed

end
