(* ===== verification/Catalog.thy ===== *)
theory Catalog
  imports Redis "HOL-Library.Product_Lexorder"
begin

text \<open>
  \<open>xrpl_x402_facilitator/catalog.py\<close>: the discovery catalog, one Redis value per resource and one
  sorted set of their keys. The Bazaar extension of the x402 SDK is a parameter: \<open>ct_extract\<close> is
  \<open>extract_discovery_info\<close> and \<open>ct_to_dict\<close> the constructor and \<open>to_dict\<close> of \<open>DiscoveryResource\<close>;
  \<open>ct_timestamp\<close> renders a time.
\<close>

section \<open>Data\<close>

abbreviation BAZAAR_INDEX :: string where "BAZAAR_INDEX \<equiv> ''facilitator:bazaar:index''"

record discovered =
  dc_resource_url :: string
  dc_method :: "string option"
  dc_tool_name :: "string option"
  dc_x402_version :: int
  dc_description :: pyval
  dc_mime_type :: pyval
  dc_service_name :: pyval
  dc_tags :: pyval
  dc_icon_url :: pyval
  dc_extensions :: pyval

record discovery_resource =
  dr_resource :: string
  dr_type :: string
  dr_x402_version :: int
  dr_accepts :: "pydict list"
  dr_last_updated :: string
  dr_description :: pyval
  dr_mime_type :: pyval
  dr_service_name :: pyval
  dr_tags :: pyval
  dr_icon_url :: pyval
  dr_extensions :: pyval

record catalog =
  ct_ext :: ext
  ct_extract :: "payment_payload \<Rightarrow> payment_requirements \<Rightarrow> exn + discovered option"
  ct_to_dict :: "discovery_resource \<Rightarrow> pydict"
  ct_timestamp :: "int \<Rightarrow> string"
  ct_retention_seconds :: int
  ct_others :: interference

text \<open>The keyword arguments of \<open>list\<close>.\<close>

record catalog_query =
  cq_resource_type :: "string option"
  cq_pay_to :: "string option"
  cq_scheme :: "string option"
  cq_network :: "string option"
  cq_extension :: "string option"
  cq_limit :: int
  cq_offset :: int
  cq_query :: "string option"

record catalog_page =
  pg_items :: "pydict list"
  pg_limit :: int
  pg_offset :: int
  pg_total :: int


section \<open>Indexing\<close>

definition catalog_entry_key :: "ext \<Rightarrow> string \<Rightarrow> string" where
  "catalog_entry_key E identity = ''facilitator:bazaar:entry:'' @ sha256_hex E identity"

abbreviation tool_name_of :: "discovered \<Rightarrow> string" where
  "tool_name_of d \<equiv> (case dc_tool_name d of None \<Rightarrow> [] | Some t \<Rightarrow> t)"

definition catalog_identity :: "discovered \<Rightarrow> string \<Rightarrow> string" where
  "catalog_identity d http_method =
     (if tool_name_of d \<noteq> [] then dc_resource_url d @ ''|tool:'' @ tool_name_of d
      else dc_resource_url d @ ''|'' @ http_method)"

definition catalog_item :: "catalog \<Rightarrow> discovered \<Rightarrow> payment_requirements \<Rightarrow> int \<Rightarrow> pydict" where
  "catalog_item C d requirements now = ct_to_dict C
     \<lparr>dr_resource = dc_resource_url d, dr_type = (if tool_name_of d \<noteq> [] then ''mcp'' else ''http''),
      dr_x402_version = dc_x402_version d, dr_accepts = [requirements_dump requirements],
      dr_last_updated = ct_timestamp C now, dr_description = dc_description d, dr_mime_type = dc_mime_type d,
      dr_service_name = dc_service_name d, dr_tags = dc_tags d, dr_icon_url = dc_icon_url d,
      dr_extensions = dc_extensions d\<rparr>"

definition catalog_index :: "catalog \<Rightarrow> payment_payload \<Rightarrow> payment_requirements \<Rightarrow> bool redis_cmd" where
  "catalog_index C payload requirements = (case ct_extract C payload requirements of
       Inr (Some d) \<Rightarrow>
         (case dc_method d of
            None \<Rightarrow> craise (AttributeError ''upper'')
          | Some m \<Rightarrow>
            if dc_resource_url d = [] then creturn False
            else
              let key = catalog_entry_key (ct_ext C) (catalog_identity d (upper m)) in
              cbind (cget (\<lambda>s. db_clock (cn_db s))) (\<lambda>now.
              cbind (redis_call (ct_others C)
                       (OSet key (PDict (catalog_item C d requirements now)) (ct_retention_seconds C) False)) (\<lambda>_.
              cbind (redis_call (ct_others C) (OZadd BAZAAR_INDEX key)) (\<lambda>_.
                creturn True))))
     | _ \<Rightarrow> creturn False)"


section \<open>Listing\<close>

text \<open>\<open>json.dumps(v, sort_keys=True)\<close>, with Python's default separators.\<close>

fun json_spaced :: "pyval \<Rightarrow> string"
  and json_spaced_list :: "pyval list \<Rightarrow> string list"
  and json_spaced_items :: "(string \<times> pyval) list \<Rightarrow> (string \<times> string) list" where
  "json_spaced PNone = ''null''"
| "json_spaced (PBool b) = (if b then ''true'' else ''false'')"
| "json_spaced (PInt i) = show_int i"
| "json_spaced (PStr s) = json_string s"
| "json_spaced (PList xs) = ''['' @ join '', '' (json_spaced_list xs) @ '']''"
| "json_spaced (PDict d) =
     ''{'' @ join '', '' (map (\<lambda>kr. json_string (fst kr) @ '': '' @ snd kr)
                        (sort_key fst (json_spaced_items d))) @ ''}''"
| "json_spaced_list [] = []"
| "json_spaced_list (x # xs) = json_spaced x # json_spaced_list xs"
| "json_spaced_items [] = []"
| "json_spaced_items (kv # d) = (fst kv, json_spaced (snd kv)) # json_spaced_items d"

text \<open>\<open>needle in text\<close>, and \<open>not filter or v == filter\<close>.\<close>

fun occurs_in :: "string \<Rightarrow> string \<Rightarrow> bool" where
  "occurs_in needle [] \<longleftrightarrow> needle = []"
| "occurs_in needle (c # cs) \<longleftrightarrow> starts_with needle (c # cs) \<or> occurs_in needle cs"

definition unset :: "string option \<Rightarrow> bool" where
  "unset f \<longleftrightarrow> f = None \<or> f = Some []"

definition filter_is :: "string option \<Rightarrow> pyval \<Rightarrow> bool" where
  "filter_is f v \<longleftrightarrow> unset f \<or> v = PStr (the f)"

definition accepts_match :: "catalog_query \<Rightarrow> pydict \<Rightarrow> bool" where
  "accepts_match q item =
     (let accepts = (case dget item ''accepts'' of PList xs \<Rightarrow> xs | _ \<Rightarrow> []) in
      unset (cq_pay_to q) \<and> unset (cq_scheme q) \<and> unset (cq_network q) \<or>
      list_ex (\<lambda>accepted. case accepted of
          PDict a \<Rightarrow> filter_is (cq_pay_to q) (dget a ''payTo'') \<and> filter_is (cq_scheme q) (dget a ''scheme'')
            \<and> filter_is (cq_network q) (dget a ''network'')
        | _ \<Rightarrow> False) accepts)"

definition extension_match :: "catalog_query \<Rightarrow> pydict \<Rightarrow> bool" where
  "extension_match q item \<longleftrightarrow> unset (cq_extension q) \<or>
     (case dget item ''extensions'' of PDict d \<Rightarrow> map_of d (the (cq_extension q)) \<noteq> None | _ \<Rightarrow> False)"

definition searchable :: "pydict \<Rightarrow> string" where
  "searchable item = lower (json_spaced (PDict
     [(''resource'', dget item ''resource''), (''description'', dget item ''description''),
      (''mimeType'', dget item ''mimeType''), (''serviceName'', dget item ''serviceName''),
      (''tags'', dget item ''tags''), (''extensions'', dget item ''extensions'')]))"

definition needle_of :: "catalog_query \<Rightarrow> string" where
  "needle_of q = lower (strip (case cq_query q of None \<Rightarrow> [] | Some s \<Rightarrow> s))"

definition item_matches :: "catalog_query \<Rightarrow> pydict \<Rightarrow> bool" where
  "item_matches q item \<longleftrightarrow> filter_is (cq_resource_type q) (dget item ''type'') \<and> accepts_match q item
     \<and> extension_match q item \<and> (needle_of q = [] \<or> occurs_in (needle_of q) (searchable item))"

text \<open>One round of the loop: a value that is no dictionary has no \<open>get\<close>.\<close>

definition listed_item :: "catalog_query \<Rightarrow> pyval \<Rightarrow> exn + pydict option" where
  "listed_item q v = (case v of
       PDict item \<Rightarrow> Inr (if item_matches q item then Some item else None)
     | _ \<Rightarrow> Inl (AttributeError ''get''))"

fun list_loop :: "catalog \<Rightarrow> catalog_query \<Rightarrow> string list \<Rightarrow> (pydict list \<times> string list) redis_cmd" where
  "list_loop C q [] = creturn ([], [])"
| "list_loop C q (key # keys) =
     cbind (redis_call (ct_others C) (OGet key)) (\<lambda>raw. case raw of
         ReplyVal v \<Rightarrow>
           cbind (clift (listed_item q v)) (\<lambda>item.
           cbind (list_loop C q keys) (\<lambda>(items, stale).
             creturn (case item of None \<Rightarrow> items | Some i \<Rightarrow> i # items, stale)))
       | _ \<Rightarrow> cbind (list_loop C q keys) (\<lambda>(items, stale). creturn (items, key # stale)))"

definition item_order :: "pydict \<Rightarrow> string \<times> string \<times> string" where
  "item_order item =
     (lower (py_str (dget_default item ''resource'' (PStr []))), lower (py_str (dget_default item ''type'' (PStr []))),
      json_spaced (dget item ''extensions''))"

definition drop_stale :: "catalog \<Rightarrow> string list \<Rightarrow> unit redis_cmd" where
  "drop_stale C stale =
     (if stale = [] then creturn ()
      else cbind (redis_call (ct_others C) (OZrem BAZAAR_INDEX stale)) (\<lambda>_. creturn ()))"

definition page_of :: "catalog_query \<Rightarrow> pydict list \<Rightarrow> catalog_page" where
  "page_of q items =
     \<lparr>pg_items = py_slice items (cq_offset q) (cq_offset q + cq_limit q), pg_limit = cq_limit q,
      pg_offset = cq_offset q, pg_total = int (length items)\<rparr>"

definition catalog_list :: "catalog \<Rightarrow> catalog_query \<Rightarrow> catalog_page redis_cmd" where
  "catalog_list C q =
     cbind (redis_call (ct_others C) (OZrange BAZAAR_INDEX)) (\<lambda>reply.
     cbind (list_loop C q (case reply of ReplyKeys keys \<Rightarrow> keys | _ \<Rightarrow> [])) (\<lambda>(items, stale).
     cbind (drop_stale C stale) (\<lambda>_.
       creturn (page_of q (sort_key item_order items)))))"

section \<open>What the catalog lists\<close>

text \<open>The catalog as a function of the database: the matching entries of the indexed keys, in order.\<close>

definition indexed_keys :: "redis_db \<Rightarrow> string list" where
  "indexed_keys db = (case zset_members db BAZAAR_INDEX of None \<Rightarrow> [] | Some (members, _) \<Rightarrow> sort members)"

definition key_item :: "redis_db \<Rightarrow> catalog_query \<Rightarrow> string \<Rightarrow> pydict option" where
  "key_item db q key = (case db_live db key of
       Some (RVal (PDict item), _) \<Rightarrow> if item_matches q item then Some item else None
     | _ \<Rightarrow> None)"

definition catalog_listing :: "redis_db \<Rightarrow> catalog_query \<Rightarrow> pydict list" where
  "catalog_listing db q = sort_key item_order (List.map_filter (key_item db q) (indexed_keys db))"

definition entry_ok :: "redis_db \<Rightarrow> string \<Rightarrow> bool" where
  "entry_ok db key \<longleftrightarrow> (case db_live db key of None \<Rightarrow> True | Some (RVal (PDict _), _) \<Rightarrow> True | _ \<Rightarrow> False)"

definition wf_catalog :: "redis_db \<Rightarrow> bool" where
  "wf_catalog db \<longleftrightarrow> zset_members db BAZAAR_INDEX \<noteq> None \<and> list_all (entry_ok db) (indexed_keys db)"

lemma map_filter_filter:
  "(\<And>x. x \<in> set xs \<Longrightarrow> \<not> p x \<Longrightarrow> f x = None) \<Longrightarrow> List.map_filter f (filter p xs) = List.map_filter f xs"
  by (induction xs) (auto simp: map_filter_simps split: option.splits)

lemma map_filter_cong:
  "(\<And>x. x \<in> set xs \<Longrightarrow> f x = g x) \<Longrightarrow> List.map_filter f xs = List.map_filter g xs"
  by (induction xs) (auto simp: map_filter_simps split: option.splits)

lemma quiet_call: "others (cn_calls s) = [] \<Longrightarrow> redis_exec x (cn_db s) = (reply, db) \<Longrightarrow> reply \<noteq> ReplyError \<Longrightarrow>
    redis_call others x s = (Ok reply, s\<lparr>cn_db := db, cn_calls := Suc (cn_calls s)\<rparr>)"
  by (simp add: redis_call_def)

lemma db_live_keep: "db_live db key = Some (v, t) \<Longrightarrow> db_live (db_put key (w, t) db) key = Some (w, t)"
  by (auto simp: db_live_def db_put_def split: option.splits prod.splits if_splits)

lemma list_loop_quiet:
  assumes "\<And>n. ct_others C n = []" and "list_all (entry_ok (cn_db s)) keys"
  shows "list_loop C q keys s =
    (Ok (List.map_filter (key_item (cn_db s) q) keys, filter (\<lambda>k. db_live (cn_db s) k = None) keys),
     s\<lparr>cn_calls := cn_calls s + length keys\<rparr>)"
  using assms(2)
proof (induction keys arbitrary: s)
  case Nil
  then show ?case by (simp add: creturn_def map_filter_simps)
next
  case (Cons key keys)
  let ?s1 = "s\<lparr>cn_calls := Suc (cn_calls s)\<rparr>"
  have IH: "list_loop C q keys ?s1 =
    (Ok (List.map_filter (key_item (cn_db s) q) keys, filter (\<lambda>k. db_live (cn_db s) k = None) keys),
     s\<lparr>cn_calls := cn_calls s + length (key # keys)\<rparr>)"
    using Cons.IH [of ?s1] Cons.prems by simp
  show ?case
  proof (cases "db_live (cn_db s) key")
    case None
    then have "redis_call (ct_others C) (OGet key) s = (Ok ReplyNone, ?s1)"
      by (subst quiet_call [OF assms(1)]) auto
    moreover have "key_item (cn_db s) q key = None"
      using None by (simp add: key_item_def)
    ultimately show ?thesis
      using IH None by (simp add: cbind_step map_filter_simps creturn_def)
  next
    case (Some vt)
    then obtain item t where item: "db_live (cn_db s) key = Some (RVal (PDict item), t)"
      using Cons.prems by (auto simp: entry_ok_def split: redis_value.splits pyval.splits prod.splits)
    then have "redis_call (ct_others C) (OGet key) s = (Ok (ReplyVal (PDict item)), ?s1)"
      by (subst quiet_call [OF assms(1)]) auto
    moreover have "key_item (cn_db s) q key = (if item_matches q item then Some item else None)"
      using item by (simp add: key_item_def)
    ultimately show ?thesis
      using IH item by (simp add: cbind_step listed_item_def cbind_clift map_filter_simps creturn_def)
  qed
qed

lemma drop_stale_quiet:
  assumes "\<And>n. ct_others C n = []" and "wf_catalog (cn_db s)"
    and "stale = filter (\<lambda>k. db_live (cn_db s) k = None) (indexed_keys (cn_db s))"
  obtains s' where "drop_stale C stale s = (Ok (), s')" "wf_catalog (cn_db s')"
    "catalog_listing (cn_db s') q' = catalog_listing (cn_db s) q'" "db_clock (cn_db s') = db_clock (cn_db s)"
proof (cases "stale = []")
  case True
  then show thesis
    using that assms(2) by (simp add: drop_stale_def creturn_def)
next
  case False
  let ?db = "cn_db s"
  obtain members t where m: "zset_members ?db BAZAAR_INDEX = Some (members, t)"
    using assms(2) by (auto simp: wf_catalog_def)
  then have live: "db_live ?db BAZAAR_INDEX = Some (RZset members, t)"
    using False assms(3) by (auto simp: zset_members_def indexed_keys_def split: option.splits redis_value.splits)
  let ?keep = "filter (\<lambda>k. k \<notin> set stale) members"
  let ?db' = "db_put BAZAAR_INDEX (RZset ?keep, t) ?db"
  have drop: "drop_stale C stale s = (Ok (), s\<lparr>cn_db := ?db', cn_calls := Suc (cn_calls s)\<rparr>)"
    using False m by (simp add: drop_stale_def cbind_step quiet_call [OF assms(1)] creturn_def)
  have other: "k \<noteq> BAZAAR_INDEX \<Longrightarrow> db_live ?db' k = db_live ?db k" for k
    by (simp add: db_live_put)
  have zset: "zset_members ?db' BAZAAR_INDEX = Some (?keep, t)"
    using db_live_keep [OF live] by (simp add: zset_members_def)
  have keys: "indexed_keys ?db' = filter (\<lambda>k. k \<notin> set stale) (indexed_keys ?db)"
    using zset m by (simp add: indexed_keys_def filter_sort)
  have distinct_index: "k \<noteq> BAZAAR_INDEX" if "k \<in> set (indexed_keys ?db)" for k
    using that assms(2) live by (auto simp: wf_catalog_def list_all_iff entry_ok_def)
  have wf: "wf_catalog ?db'"
    using assms(2) zset keys other distinct_index by (auto simp: wf_catalog_def list_all_iff entry_ok_def)
  have "List.map_filter (key_item ?db' q') (indexed_keys ?db') = List.map_filter (key_item ?db q') (indexed_keys ?db')"
    using other distinct_index by (intro map_filter_cong) (auto simp: keys key_item_def)
  also have "\<dots> = List.map_filter (key_item ?db q') (indexed_keys ?db)"
    unfolding keys by (rule map_filter_filter) (auto simp: assms(3) key_item_def split: option.splits)
  finally show thesis
    using that drop wf by (simp add: catalog_listing_def)
qed

text \<open>With no other client at work, \<open>list\<close> returns its page of the listing and leaves the listing as
  it is.\<close>

lemma catalog_list_quiet:
  assumes "\<And>n. ct_others C n = []" and "wf_catalog (cn_db s)"
  obtains s' where "catalog_list C q s = (Ok (page_of q (catalog_listing (cn_db s) q)), s')" "wf_catalog (cn_db s')"
    "catalog_listing (cn_db s') q' = catalog_listing (cn_db s) q'" "db_clock (cn_db s') = db_clock (cn_db s)"
proof -
  let ?keys = "indexed_keys (cn_db s)"
  let ?stale = "filter (\<lambda>k. db_live (cn_db s) k = None) ?keys"
  let ?s1 = "s\<lparr>cn_calls := Suc (cn_calls s)\<rparr>"
  let ?s2 = "?s1\<lparr>cn_calls := cn_calls ?s1 + length ?keys\<rparr>"
  have range: "redis_call (ct_others C) (OZrange BAZAAR_INDEX) s = (Ok (ReplyKeys ?keys), ?s1)"
    using assms(2) by (auto simp: wf_catalog_def indexed_keys_def quiet_call [OF assms(1)])
  have loop: "list_loop C q ?keys ?s1 = (Ok (List.map_filter (key_item (cn_db s) q) ?keys, ?stale), ?s2)"
    using list_loop_quiet [of C ?s1 ?keys q] assms by (simp add: wf_catalog_def)
  obtain s' where "drop_stale C ?stale ?s2 = (Ok (), s')" "wf_catalog (cn_db s')"
    "catalog_listing (cn_db s') q' = catalog_listing (cn_db s) q'" "db_clock (cn_db s') = db_clock (cn_db s)"
    using drop_stale_quiet [OF assms(1), of ?s2 ?stale q'] assms(2) by auto
  then show thesis
    using that range loop by (simp add: catalog_list_def cbind_step creturn_def catalog_listing_def)
qed

lemma catalog_listing_offset [simp]: "catalog_listing db (q\<lparr>cq_offset := n\<rparr>) = catalog_listing db q"
proof -
  have "item_matches (q\<lparr>cq_offset := n\<rparr>) = item_matches q"
    by (simp add: fun_eq_iff item_matches_def accepts_match_def extension_match_def needle_of_def split: pyval.splits)
  then have "key_item db (q\<lparr>cq_offset := n\<rparr>) = key_item db q"
    unfolding key_item_def by presburger
  then show ?thesis
    by (simp add: catalog_listing_def)
qed


section \<open>Indexed resources are listed\<close>

lemma in_map_filter: "x \<in> set xs \<Longrightarrow> f x = Some y \<Longrightarrow> y \<in> set (List.map_filter f xs)"
  by (induction xs) (auto simp: map_filter_simps split: option.splits)

lemma entry_key_index: "catalog_entry_key E identity \<noteq> BAZAAR_INDEX"
  by (simp add: catalog_entry_key_def)

text \<open>What a settled payment advertises can be discovered: after the catalog indexed a resource, its
  entry is in every listing whose filters it satisfies until the retention time has passed.
\<close>

theorem indexed_resource_is_listed:
  assumes "ct_extract C payload requirements = Inr (Some d)" and "\<forall>n. ct_others C n = []"
    and "catalog_index C payload requirements s = (Ok True, s1)"
    and "item_matches q (catalog_item C d requirements (db_clock (cn_db s)))"
    and "\<forall>members t. db_entries (cn_db s) BAZAAR_INDEX = Some (RZset members, t) \<longrightarrow> t = None"
    and "int n < ct_retention_seconds C"
  shows "catalog_item C d requirements (db_clock (cn_db s)) \<in> set (catalog_listing (db_run [RTick n] (cn_db s1)) q)"
proof -
  let ?item = "catalog_item C d requirements (db_clock (cn_db s))" and ?ttl = "ct_retention_seconds C"
  obtain m where m: "dc_method d = Some m"
    using assms(1,3) by (auto simp: catalog_index_def craise_def split: option.splits)
  let ?key = "catalog_entry_key (ct_ext C) (catalog_identity d (upper m))"
  obtain x s0 y where set: "redis_call (ct_others C) (OSet ?key (PDict ?item) ?ttl False) s = (Ok x, s0)"
    and add: "redis_call (ct_others C) (OZadd BAZAAR_INDEX ?key) s0 = (Ok y, s1)"
    using assms(1,3) m by (auto simp: catalog_index_def Let_def run_simps split: if_splits)
  have s0: "cn_db s0 = db_put ?key (RVal (PDict ?item), Some (db_clock (cn_db s) + ?ttl)) (cn_db s)"
    using set assms(2) by (auto simp: redis_call_run split: if_splits)
  obtain members t where z: "zset_members (cn_db s0) BAZAAR_INDEX = Some (members, t)"
    and s1: "cn_db s1 = db_put BAZAAR_INDEX (RZset (List.insert ?key members), t) (cn_db s0)"
    using add assms(2) by (auto simp: redis_call_run split: option.splits prod.splits if_splits)
  have "t = None"
    using z assms(5) entry_key_index [of "ct_ext C" "catalog_identity d (upper m)", THEN not_sym]
    by (auto simp: zset_members_def s0 db_live_def db_put_def split: option.splits redis_value.splits prod.splits if_splits)
  let ?db = "db_run [RTick n] (cn_db s1)"
  have "zset_members ?db BAZAAR_INDEX = Some (List.insert ?key members, None)"
    by (simp add: zset_members_def db_live_def s1 db_put_def \<open>t = None\<close>)
  then have "?key \<in> set (indexed_keys ?db)"
    by (simp add: indexed_keys_def)
  moreover have "key_item ?db q ?key = Some ?item"
    using assms(4,6) entry_key_index [of "ct_ext C" "catalog_identity d (upper m)"]
    by (simp add: key_item_def db_live_def s1 s0 db_put_def)
  ultimately show ?thesis
    by (simp add: catalog_listing_def in_map_filter)
qed

section \<open>Witness\<close>

definition sample_discovered :: discovered where
  "sample_discovered = \<lparr>dc_resource_url = ''u'', dc_method = Some ''get'', dc_tool_name = None, dc_x402_version = 2,
     dc_description = PNone, dc_mime_type = PNone, dc_service_name = PNone, dc_tags = PNone, dc_icon_url = PNone,
     dc_extensions = PNone\<rparr>"

definition sample_catalog :: catalog where
  "sample_catalog = \<lparr>ct_ext = sample_ext, ct_extract = (\<lambda>_ _. Inr (Some sample_discovered)),
     ct_to_dict = (\<lambda>d. [(''resource'', PStr (dr_resource d)), (''type'', PStr (dr_type d)),
       (''accepts'', PList (map PDict (dr_accepts d)))]),
     ct_timestamp = show_int, ct_retention_seconds = 3600, ct_others = (\<lambda>_. [])\<rparr>"

definition sample_query :: catalog_query where
  "sample_query = \<lparr>cq_resource_type = Some ''http'', cq_pay_to = Some (r_pay_to sample_xrp), cq_scheme = Some ''exact'',
     cq_network = None, cq_extension = None, cq_limit = 20, cq_offset = 0, cq_query = None\<rparr>"

definition empty_conn :: redis_conn where
  "empty_conn = \<lparr>cn_db = \<lparr>db_entries = Map.empty, db_clock = 0\<rparr>, cn_calls = 0\<rparr>"

definition catalog_payload :: payment_payload where
  "catalog_payload = \<lparr>p_x402_version = 2, p_payload = [], p_accepted = sample_xrp, p_resource = None, p_extensions = None\<rparr>"

theorem indexed_resource_is_listed_witness:
  "catalog_item sample_catalog sample_discovered sample_xrp 0 \<in>
     set (catalog_listing (db_run [RTick 3599] (cn_db (snd (catalog_index sample_catalog catalog_payload sample_xrp empty_conn)))) sample_query)"
proof -
  have run: "catalog_index sample_catalog catalog_payload sample_xrp empty_conn =
      (Ok True, snd (catalog_index sample_catalog catalog_payload sample_xrp empty_conn))"
    by (simp add: catalog_index_def sample_catalog_def sample_discovered_def empty_conn_def cbind_def cget_def creturn_def
        redis_call_def zset_members_def db_live_def db_put_def catalog_entry_key_def Let_def)
  have matches: "item_matches sample_query (catalog_item sample_catalog sample_discovered sample_xrp (db_clock (cn_db empty_conn)))"
    by (simp add: item_matches_def sample_query_def catalog_item_def sample_catalog_def sample_discovered_def filter_is_def
        unset_def accepts_match_def extension_match_def needle_of_def requirements_dump_def sample_xrp_def strip_def rstrip_by_def
        lower_def)
  have "catalog_item sample_catalog sample_discovered sample_xrp (db_clock (cn_db empty_conn)) \<in>
     set (catalog_listing (db_run [RTick 3599] (cn_db (snd (catalog_index sample_catalog catalog_payload sample_xrp empty_conn)))) sample_query)"
    by (rule indexed_resource_is_listed [OF _ _ run matches]) (simp_all add: sample_catalog_def empty_conn_def)
  then show ?thesis
    by (simp add: empty_conn_def)
qed

end
