(* ===== verification/Base64.thy ===== *)
theory Base64
  imports Prelude
begin

text \<open>
  Python's \<open>base64\<close> as the stack uses it: \<open>b64encode\<close>, \<open>b64decode(validate=True)\<close> for cached
  response bodies, and the URL-safe pair for discovery cursors. The decoder is the loop of
  \<open>binascii.a2b_base64\<close>, in its strict and its lenient mode; every error is a \<open>ValueError\<close>.
\<close>

definition B64_ALPHABET :: string where
  "B64_ALPHABET = ''ABCDEFGHIJKLMNOPQRSTUVWXYZabcdefghijklmnopqrstuvwxyz0123456789+/''"

definition b64_char :: "nat \<Rightarrow> char" where
  "b64_char n = B64_ALPHABET ! n"

fun index_from :: "nat \<Rightarrow> string \<Rightarrow> char \<Rightarrow> nat option" where
  "index_from n [] c = None"
| "index_from n (x # xs) c = (if x = c then Some n else index_from (Suc n) xs c)"

definition b64_value :: "char \<Rightarrow> nat option" where
  "b64_value c = index_from 0 B64_ALPHABET c"

fun b64encode :: "string \<Rightarrow> string" where
  "b64encode [] = []"
| "b64encode [a] = [b64_char (ord_c a div 4), b64_char (ord_c a mod 4 * 16), CHR ''='', CHR ''='']"
| "b64encode [a, b] =
     [b64_char (ord_c a div 4), b64_char (ord_c a mod 4 * 16 + ord_c b div 16), b64_char (ord_c b mod 16 * 4), CHR ''='']"
| "b64encode (a # b # c # rest) =
     b64_char (ord_c a div 4) # b64_char (ord_c a mod 4 * 16 + ord_c b div 16)
     # b64_char (ord_c b mod 16 * 4 + ord_c c div 64) # b64_char (ord_c c mod 64) # b64encode rest"

abbreviation b64_error :: "exn + 'a" where
  "b64_error \<equiv> Inl (ValueError ''Invalid base64-encoded string'')"

text \<open>The loop keeps the position in the current group of four, the bits left over, the number of
  pads seen, whether padding has begun, and the bytes so far in reverse.\<close>

fun a2b_base64 :: "bool \<Rightarrow> nat \<Rightarrow> nat \<Rightarrow> nat \<Rightarrow> bool \<Rightarrow> string \<Rightarrow> string \<Rightarrow> exn + string" where
  "a2b_base64 strict quad_pos leftchar pads started out [] =
     (if quad_pos = 0 then Inr (rev out) else b64_error)"
| "a2b_base64 strict quad_pos leftchar pads started out (c # cs) =
     (if c = CHR ''='' then
        (if 2 \<le> quad_pos \<and> 4 \<le> quad_pos + Suc pads then
           (if strict \<and> cs \<noteq> [] then b64_error else Inr (rev out))
         else a2b_base64 strict quad_pos leftchar (if 2 \<le> quad_pos then Suc pads else pads) True out cs)
      else case b64_value c of
          None \<Rightarrow> if strict then b64_error else a2b_base64 strict quad_pos leftchar pads started out cs
        | Some n \<Rightarrow>
            if strict \<and> started then b64_error
            else if quad_pos = 0 then a2b_base64 strict 1 n 0 started out cs
            else if quad_pos = 1
              then a2b_base64 strict 2 (n mod 16) 0 started (char_of (leftchar * 4 + n div 16) # out) cs
            else if quad_pos = 2
              then a2b_base64 strict 3 (n mod 4) 0 started (char_of (leftchar * 16 + n div 4) # out) cs
            else a2b_base64 strict 0 0 0 started (char_of (leftchar * 64 + n) # out) cs)"

definition b64decode_validate :: "string \<Rightarrow> exn + string" where
  "b64decode_validate s =
     (if s \<noteq> [] \<and> hd s = CHR ''='' then b64_error else a2b_base64 True 0 0 0 False [] s)"

definition urlsafe_b64encode :: "string \<Rightarrow> string" where
  "urlsafe_b64encode s =
     map (\<lambda>c. if c = CHR ''+'' then CHR ''-'' else if c = CHR ''/'' then CHR ''_'' else c) (b64encode s)"

definition urlsafe_b64decode :: "string \<Rightarrow> exn + string" where
  "urlsafe_b64decode s = a2b_base64 False 0 0 0 False []
     (map (\<lambda>c. if c = CHR ''-'' then CHR ''+'' else if c = CHR ''_'' then CHR ''/'' else c) s)"


section \<open>Round trips\<close>

lemma b64_table:
  "list_all (\<lambda>n. b64_value (b64_char n) = Some n \<and> b64_char n \<notin> {CHR ''='', CHR ''-'', CHR ''_''}) [0..<64]"
  by code_simp

lemma b64_value_char:
  assumes "n < 64"
  shows "b64_value (b64_char n) = Some n" and "b64_char n \<noteq> CHR ''=''" and "b64_char n \<noteq> CHR ''-''"
    and "b64_char n \<noteq> CHR ''_''"
  using b64_table assms by (auto simp: list_all_iff)

lemma ord_c_bound: "ord_c c < 256"
  by (simp add: ord_c_def)

lemma top_bits: "c < 256 \<Longrightarrow> c div 64 < 4" "b < 256 \<Longrightarrow> b div 16 < 16" "a < 256 \<Longrightarrow> a div 4 < 64" for a b c :: nat
  by (simp_all add: less_mult_imp_div_less)

lemma sextet_1: "b < 256 \<Longrightarrow> a div 4 * 4 + (a mod 4 * 16 + b div 16) div 16 = a" for a b :: nat
  using top_bits(2) [of b] by simp

lemma sextet_2: "b < 256 \<Longrightarrow> c < 256 \<Longrightarrow>
    (a mod 4 * 16 + b div 16) mod 16 * 16 + (b mod 16 * 4 + c div 64) div 4 = b" for a b c :: nat
  using top_bits(1) [of c] top_bits(2) [of b] by simp

lemma sextet_3: "c < 256 \<Longrightarrow> (b mod 16 * 4 + c div 64) mod 4 * 64 + c mod 64 = c" for b c :: nat
  using top_bits(1) [of c] by simp

lemma sextet_bounds:
  "a < 256 \<Longrightarrow> a div 4 < 64" "b < 256 \<Longrightarrow> a mod 4 * 16 + b div 16 < 64" "c < 256 \<Longrightarrow> b mod 16 * 4 + c div 64 < 64"
  "c mod 64 < 64" "a mod 4 * 16 < 64" "b mod 16 * 4 < 64" for a b c :: nat
proof -
  have *: "a mod 4 < 4" "b mod 16 < 16" by simp_all
  show "a < 256 \<Longrightarrow> a div 4 < 64" "b < 256 \<Longrightarrow> a mod 4 * 16 + b div 16 < 64"
    "c < 256 \<Longrightarrow> b mod 16 * 4 + c div 64 < 64" "c mod 64 < 64" "a mod 4 * 16 < 64" "b mod 16 * 4 < 64"
    using * top_bits(1) [of c] top_bits(2) [of b] top_bits(3) [of a] by simp_all
qed

lemma a2b_encode: "a2b_base64 strict 0 0 0 False out (b64encode s) = Inr (rev out @ s)"
proof (induction s arbitrary: out rule: b64encode.induct)
  case (2 a)
  show ?case
    using sextet_1 [of 0 "ord_c a"] ord_c_bound [of a]
    by (simp add: b64_value_char sextet_bounds)
next
  case (3 a b)
  show ?case
    using sextet_1 [of "ord_c b" "ord_c a"] sextet_2 [of "ord_c b" 0 "ord_c a"] ord_c_bound [of a] ord_c_bound [of b]
    by (simp add: b64_value_char sextet_bounds)
next
  case (4 a b c rest)
  then show ?case
    using sextet_1 [of "ord_c b" "ord_c a"] sextet_2 [of "ord_c b" "ord_c c" "ord_c a"] sextet_3 [of "ord_c c" "ord_c b"]
      ord_c_bound [of a] ord_c_bound [of b] ord_c_bound [of c]
    by (simp add: b64_value_char sextet_bounds)
qed simp

lemma b64encode_hd: "s \<noteq> [] \<Longrightarrow> b64encode s \<noteq> [] \<and> hd (b64encode s) \<noteq> CHR ''=''"
  by (cases s rule: b64encode.cases) (simp_all add: b64_value_char sextet_bounds ord_c_bound)

lemma b64decode_encode [simp]: "b64decode_validate (b64encode s) = Inr s"
  using b64encode_hd [of s] by (cases "s = []") (simp_all add: b64decode_validate_def a2b_encode)

lemma b64encode_chars: "list_all (\<lambda>c. c \<noteq> CHR ''-'' \<and> c \<noteq> CHR ''_'') (b64encode s)"
  by (induction s rule: b64encode.induct) (simp_all add: b64_value_char sextet_bounds ord_c_bound)

lemma urlsafe_b64decode_encode [simp]: "urlsafe_b64decode (urlsafe_b64encode s) = Inr s"
proof -
  have "map (\<lambda>c. if c = CHR ''-'' then CHR ''+'' else if c = CHR ''_'' then CHR ''/'' else c) (urlsafe_b64encode s) = b64encode s"
    unfolding urlsafe_b64encode_def map_map using b64encode_chars [of s]
    by (intro map_idI) (auto simp: list_all_iff)
  then show ?thesis by (simp add: urlsafe_b64decode_def a2b_encode)
qed

end
