(* ===== verification/FacilitatorApi.thy ===== *)
theory FacilitatorApi
  imports FacilitatorSettle Idempotency GatewayAuth Catalog Base64
begin

text \<open>
  \<open>xrpl_x402_facilitator/factory.py\<close>: the HTTP application of the facilitator. The request context
  authenticates the gateway, the body limit counts what the application reads, and the endpoints
  combine the scheme, the identifier store and the catalog.

  FastAPI, slowapi and the x402 SDK are parameters, collected in \<open>framework\<close>: the SDK facilitator, which
  dispatches to the registered mechanism, the wire models, and the decision of the rate limiter, whose own
  counters in Redis are not modelled.
  A handler gets the body that FastAPI parsed as a dictionary; an exception is the response FastAPI
  makes of it. What the requests of other workers do to Redis is the interference of the stores.
\<close>

section \<open>State\<close>

record 's api_world =
  aw_conn :: redis_conn
  aw_fac :: "'s fac_state"

type_synonym ('s, 'a) api_cmd = "('s api_world, 'a) cmd"

definition on_redis :: "'a redis_cmd \<Rightarrow> ('s, 'a) api_cmd" where
  "on_redis m = (\<lambda>w. case m (aw_conn w) of (r, c) \<Rightarrow> (r, w\<lparr>aw_conn := c\<rparr>))"

definition on_fac :: "('s fac_state, 'a) cmd \<Rightarrow> ('s, 'a) api_cmd" where
  "on_fac m = (\<lambda>w. case m (aw_fac w) of (r, f) \<Rightarrow> (r, w\<lparr>aw_fac := f\<rparr>))"

text \<open>A request with the state that the request context attaches, and the parsed body of the payment
  endpoints (\<open>VerifyRequest\<close> and \<open>SettleRequest\<close>). Header names are in lower case.\<close>

record api_request =
  rq_method :: string
  rq_path :: string
  rq_headers :: "(string \<times> string) list"
  rq_remote_address :: string
  rq_gateway :: "authenticated_gateway option"
  rq_auth_failed :: bool

record facilitator_request =
  fr_x402_version :: int
  fr_payment_payload :: payment_payload
  fr_payment_requirements :: payment_requirements

text \<open>A \<open>SettleResponse\<close> with its extensions.\<close>

record api_settlement =
  as_response :: settle_response
  as_extensions :: "pydict option"

type_synonym ('s, 'a) mechanism_call = "payment_payload \<Rightarrow> payment_requirements \<Rightarrow> ('s fac_state, 'a) cmd"

record 's framework =
  sdk_ext :: ext
  sdk_pid :: pid_ext
  sdk_client :: rpc_client
  sdk_fuel :: nat
  sdk_ops :: "'s store_ops"
  sdk_verify :: "('s, verify_response) mechanism_call \<Rightarrow> ('s, verify_response) mechanism_call"
  sdk_settle :: "('s, settle_response) mechanism_call \<Rightarrow> ('s, settle_response) mechanism_call"
  sdk_validate :: "pydict \<Rightarrow> exn + facilitator_request"
  sdk_dump :: "api_settlement \<Rightarrow> pydict"
  sdk_load :: "pyval \<Rightarrow> exn + api_settlement"
  sdk_extract :: "payment_payload \<Rightarrow> payment_requirements \<Rightarrow> exn + discovered option"
  sdk_to_dict :: "discovery_resource \<Rightarrow> pydict"
  sdk_timestamp :: "int \<Rightarrow> string"
  sdk_limiter_storage :: bool
  sdk_rate_exceeded :: "string \<Rightarrow> string \<Rightarrow> bool"
  sdk_others :: interference

record 's api =
  ap_sdk :: "'s framework"
  ap_settings :: settings
  ap_mechanism :: facilitator
  ap_gateway_auth :: gateway_authenticator
  ap_identifiers :: identifier_store
  ap_catalog :: catalog

definition build_rate_limiter :: "'s framework \<Rightarrow> exn + unit" where
  "build_rate_limiter S =
     guard (sdk_limiter_storage S) (RuntimeError ''Redis-backed rate limiter storage is unavailable'')"

definition create_app ::
  "'s framework \<Rightarrow> settings \<Rightarrow> facilitator option \<Rightarrow> gateway_authenticator option \<Rightarrow> exn + 's api" where
  "create_app S settings xrpl_service gateway_authenticator =
     rbind (case xrpl_service of
         Some m \<Rightarrow> Inr m
       | None \<Rightarrow> make_facilitator (sdk_ext S) settings (sdk_client S) (sdk_fuel S)) (\<lambda>mechanism.
     rbind (case gateway_authenticator of
         Some a \<Rightarrow> Inr a
       | None \<Rightarrow> build_gateway_authenticator settings) (\<lambda>gateway_auth.
     rbind (build_rate_limiter S) (\<lambda>_.
       Inr \<lparr>ap_sdk = S, ap_settings = settings, ap_mechanism = mechanism, ap_gateway_auth = gateway_auth,
            ap_identifiers = \<lparr>is_ext = sdk_ext S, is_pid = sdk_pid S,
              is_ttl = max (REPLAY_PROCESSED_TTL_SECONDS settings) 300, is_others = sdk_others S\<rparr>,
            ap_catalog = \<lparr>ct_ext = sdk_ext S, ct_extract = sdk_extract S, ct_to_dict = sdk_to_dict S,
              ct_timestamp = sdk_timestamp S, ct_retention_seconds = DISCOVERY_RETENTION_SECONDS settings,
              ct_others = sdk_others S\<rparr>\<rparr>)))"


section \<open>The body limit\<close>

definition PAYMENT_ENDPOINT_PATHS :: "string list" where
  "PAYMENT_ENDPOINT_PATHS = [''/verify'', ''/settle'']"

datatype asgi_message = HttpRequest string bool | OtherMessage

datatype asgi_reply = JSONResponse int pydict

record asgi_scope =
  sc_type :: string
  sc_method :: string
  sc_path :: string
  sc_headers :: "(string \<times> string) list"

record 'w asgi =
  ag_messages :: "asgi_message list"
  ag_received :: int
  ag_world :: 'w

text \<open>The server's \<open>receive\<close>: the next message of the connection.\<close>

definition receive :: "('w asgi, asgi_message) cmd" where
  "receive = (\<lambda>s. case ag_messages s of
       [] \<Rightarrow> (Ok OtherMessage, s)
     | m # ms \<Rightarrow> (Ok m, s\<lparr>ag_messages := ms\<rparr>))"

definition limited_receive :: "int \<Rightarrow> ('w asgi, asgi_message) cmd" where
  "limited_receive max_body_bytes =
     cbind receive (\<lambda>message. case message of
         HttpRequest part more_body \<Rightarrow>
           cbind (cmodify (\<lambda>s. s\<lparr>ag_received := ag_received s + int (length part)\<rparr>)) (\<lambda>_.
           cbind (cget ag_received) (\<lambda>received_bytes.
             if received_bytes > max_body_bytes then craise PayloadTooLargeError else creturn message))
       | OtherMessage \<Rightarrow> creturn message)"

definition send_413 :: "('w asgi, asgi_reply) cmd" where
  "send_413 = creturn (JSONResponse 413 [(''detail'', PStr ''Request body too large'')])"

definition content_length_exceeds :: "int \<Rightarrow> asgi_scope \<Rightarrow> exn + bool" where
  "content_length_exceeds max_body_bytes scope = (case map_of (sc_headers scope) ''content-length'' of
       None \<Rightarrow> Inr False
     | Some content_length \<Rightarrow>
       if isdigit content_length then rbind (int_of_str content_length) (\<lambda>n. Inr (n > max_body_bytes)) else Inr False)"

definition body_size_limit ::
  "int \<Rightarrow> asgi_scope \<Rightarrow> (('w asgi, asgi_message) cmd \<Rightarrow> ('w asgi, asgi_reply) cmd) \<Rightarrow> ('w asgi, asgi_reply) cmd" where
  "body_size_limit max_body_bytes scope app =
     (if sc_type scope \<noteq> ''http'' \<or> sc_method scope \<noteq> ''POST'' \<or> sc_path scope \<notin> set PAYMENT_ENDPOINT_PATHS
      then app receive
      else
        cbind (clift (content_length_exceeds max_body_bytes scope)) (\<lambda>too_large.
          if too_large then send_413
          else
            cbind (cmodify (\<lambda>s. s\<lparr>ag_received := 0\<rparr>)) (\<lambda>_.
              ctry (app (limited_receive max_body_bytes))
                (\<lambda>e. if e = PayloadTooLargeError then send_413 else craise e))))"


section \<open>Authentication\<close>

abbreviation AUTHENTICATION_ERROR :: exn where
  "AUTHENTICATION_ERROR \<equiv> HTTPException 401 ''Invalid authentication credentials''"

definition authorization_parts :: "api_request \<Rightarrow> string \<times> string" where
  "authorization_parts request = (case map_of (rq_headers request) ''authorization'' of
       None \<Rightarrow> ([], [])
     | Some authorization \<Rightarrow>
       if authorization = [] then ([], [])
       else (case partition_on CHR '' '' authorization of (scheme, _, token) \<Rightarrow> (scheme, token)))"

definition request_context :: "'s api \<Rightarrow> (api_request \<Rightarrow> ('s, 'a) api_cmd) \<Rightarrow> api_request \<Rightarrow> ('s, 'a) api_cmd" where
  "request_context A call_next request =
     (if rq_method request = ''POST'' \<and> rq_path request \<in> set PAYMENT_ENDPOINT_PATHS then
        (case authorization_parts request of (scheme, token) \<Rightarrow>
          if token = [] then call_next (request\<lparr>rq_auth_failed := True\<rparr>)
          else
            cbind (clift (compare_digest (lower scheme) ''bearer'')) (\<lambda>bearer.
              if \<not> bearer then call_next (request\<lparr>rq_auth_failed := True\<rparr>)
              else
                ctry_else (on_redis (authenticate (sdk_ext (ap_sdk A)) (sdk_others (ap_sdk A)) (ap_gateway_auth A) (strip token)))
                  (\<lambda>e. case e of
                      GatewayAuthenticationError _ \<Rightarrow> call_next (request\<lparr>rq_auth_failed := True\<rparr>)
                    | _ \<Rightarrow> craise e)
                  (\<lambda>gateway. call_next (request\<lparr>rq_gateway := Some gateway\<rparr>))))
      else call_next request)"

definition require_gateway :: "api_request \<Rightarrow> exn + authenticated_gateway" where
  "require_gateway request = (case rq_gateway request of
       None \<Rightarrow> Inl AUTHENTICATION_ERROR
     | Some gateway \<Rightarrow> if rq_auth_failed request then Inl AUTHENTICATION_ERROR else Inr gateway)"

definition payment_rate_limit_key :: "api_request \<Rightarrow> string" where
  "payment_rate_limit_key request = (case rq_gateway request of
       Some g \<Rightarrow> if gateway_id g \<noteq> [] then ''gateway:'' @ gateway_id g else ''ip:'' @ rq_remote_address request
     | None \<Rightarrow> ''ip:'' @ rq_remote_address request)"

definition limited :: "'s api \<Rightarrow> string \<Rightarrow> api_request \<Rightarrow> ('s, 'a) api_cmd \<Rightarrow> ('s, 'a) api_cmd" where
  "limited A rate request handler =
     (if sdk_rate_exceeded (ap_sdk A) rate (payment_rate_limit_key request) then craise (RateLimitExceeded rate)
      else handler)"


section \<open>Request bodies\<close>

definition FACILITATOR_FIELDS :: "string list" where
  "FACILITATOR_FIELDS = [''x402Version'', ''paymentPayload'', ''paymentRequirements'']"

definition PAYMENT_PAYLOAD_FIELDS :: "string list" where
  "PAYMENT_PAYLOAD_FIELDS = [''x402Version'', ''payload'', ''accepted'', ''resource'', ''extensions'']"

definition PAYMENT_REQUIREMENTS_FIELDS :: "string list" where
  "PAYMENT_REQUIREMENTS_FIELDS =
     [''scheme'', ''network'', ''asset'', ''amount'', ''payTo'', ''maxTimeoutSeconds'', ''extra'']"

definition XRPL_PAYLOAD_FIELDS :: "string list" where
  "XRPL_PAYLOAD_FIELDS = [''signedTxBlob'']"

definition XRPL_EXTRA_FIELDS :: "string list" where
  "XRPL_EXTRA_FIELDS =
     [''issuer'', ''areFeesSponsored'', ''assetTransferMethod'', ''paymentFlow'', ''invoiceId'', ''destinationTag'']"

definition RESOURCE_FIELDS :: "string list" where
  "RESOURCE_FIELDS = [''url'', ''description'', ''mimeType'', ''serviceName'', ''tags'', ''iconUrl'']"

definition reject_unexpected_fields :: "pyval \<Rightarrow> string list \<Rightarrow> string \<Rightarrow> exn + unit" where
  "reject_unexpected_fields v allowed path = (case v of
       PDict d \<Rightarrow>
         let unexpected = filter (\<lambda>k. k \<notin> set allowed) (remdups (map fst d)) in
         if unexpected \<noteq> []
         then Inl (HTTPException 400 (''Unexpected fields at '' @ path @ '': '' @ join '', '' (sort unexpected)))
         else Inr ()
     | _ \<Rightarrow> Inr ())"

definition validate_requirements_fields :: "pyval \<Rightarrow> string \<Rightarrow> exn + unit" where
  "validate_requirements_fields v path =
     rbind (reject_unexpected_fields v PAYMENT_REQUIREMENTS_FIELDS path) (\<lambda>_. case v of
         PDict d \<Rightarrow> reject_unexpected_fields (dget d ''extra'') XRPL_EXTRA_FIELDS (path @ ''.extra'')
       | _ \<Rightarrow> Inr ())"

definition validate_canonical_wire_fields :: "pydict \<Rightarrow> exn + unit" where
  "validate_canonical_wire_fields raw =
     rbind (reject_unexpected_fields (PDict raw) FACILITATOR_FIELDS ''facilitator request'') (\<lambda>_.
     let payload = dget raw ''paymentPayload'' in
     rbind (reject_unexpected_fields payload PAYMENT_PAYLOAD_FIELDS ''paymentPayload'') (\<lambda>_.
     rbind (case payload of
         PDict d \<Rightarrow>
           rbind (reject_unexpected_fields (dget d ''payload'') XRPL_PAYLOAD_FIELDS ''paymentPayload.payload'') (\<lambda>_.
           rbind (validate_requirements_fields (dget d ''accepted'') ''paymentPayload.accepted'') (\<lambda>_.
             reject_unexpected_fields (dget d ''resource'') RESOURCE_FIELDS ''paymentPayload.resource''))
       | _ \<Rightarrow> Inr ()) (\<lambda>_.
       validate_requirements_fields (dget raw ''paymentRequirements'') ''paymentRequirements'')))"

definition parse_request :: "'s api \<Rightarrow> pydict \<Rightarrow> exn + facilitator_request" where
  "parse_request A raw =
     rbind (validate_canonical_wire_fields raw) (\<lambda>_.
     case sdk_validate (ap_sdk A) raw of
       Inl (ValidationError m) \<Rightarrow> Inl (HTTPException 400 m)
     | Inl e \<Rightarrow> Inl e
     | Inr parsed \<Rightarrow>
         if fr_x402_version parsed \<noteq> 2 \<or> p_x402_version (fr_payment_payload parsed) \<noteq> 2
         then Inl (HTTPException 400 ''Only x402Version 2 is supported'')
         else Inr parsed)"


section \<open>The payment endpoints\<close>

definition encode_extension_response :: "pydict \<Rightarrow> string" where
  "encode_extension_response v = b64encode (json_dumps (PDict v))"

definition facilitator_verify :: "'s api \<Rightarrow> ('s, verify_response) mechanism_call" where
  "facilitator_verify A = sdk_verify (ap_sdk A) (verify (ap_mechanism A))"

definition facilitator_settle :: "'s api \<Rightarrow> ('s, settle_response) mechanism_call" where
  "facilitator_settle A = sdk_settle (ap_sdk A) (settle (ap_mechanism A) (sdk_ops (ap_sdk A)))"

definition verify_endpoint :: "'s api \<Rightarrow> pydict \<Rightarrow> api_request \<Rightarrow> ('s, verify_response) api_cmd" where
  "verify_endpoint A raw_body request = limited A ''30/minute'' request (
     cbind (clift (require_gateway request)) (\<lambda>_.
     cbind (clift (parse_request A raw_body)) (\<lambda>parsed.
     cbind (on_redis (bind_identifier (ap_identifiers A) (fr_payment_payload parsed) (fr_payment_requirements parsed))) (\<lambda>_.
       on_fac (facilitator_verify A (fr_payment_payload parsed) (fr_payment_requirements parsed))))))"

text \<open>Index a settled payment: the response with its extensions and the extra headers.\<close>

definition catalog_settlement ::
  "'s api \<Rightarrow> facilitator_request \<Rightarrow> settle_response \<Rightarrow> ('s, api_settlement \<times> (string \<times> string) list) api_cmd" where
  "catalog_settlement A parsed response =
     (if sr_success response \<and> ENABLE_BAZAAR (ap_settings A) then
        cbind (on_redis (catalog_index (ap_catalog A) (fr_payment_payload parsed) (fr_payment_requirements parsed))) (\<lambda>cataloged.
          if cataloged then
            let extension_result = [(''bazaar'', PDict [(''status'', PStr ''success'')])] in
            creturn (\<lparr>as_response = response, as_extensions = Some extension_result\<rparr>,
                     [(''EXTENSION-RESPONSES'', encode_extension_response extension_result)])
          else creturn (\<lparr>as_response = response, as_extensions = None\<rparr>, []))
      else creturn (\<lparr>as_response = response, as_extensions = None\<rparr>, []))"

definition terminal_cached :: "pyval option \<Rightarrow> exn + bool" where
  "terminal_cached cached = (case cached of
       None \<Rightarrow> Inr False
     | Some v \<Rightarrow> rbind (vget v ''errorReason'') (\<lambda>reason. Inr (reason \<noteq> PStr ''settlement_pending'')))"

text \<open>The settlement of a request with no cached answer, and the choice between the two.\<close>

definition settle_fresh ::
  "'s api \<Rightarrow> facilitator_request \<Rightarrow> string option \<Rightarrow> ('s, api_settlement \<times> (string \<times> string) list) api_cmd" where
  "settle_fresh A parsed cache_key =
     cbind (on_fac (facilitator_settle A (fr_payment_payload parsed) (fr_payment_requirements parsed))) (\<lambda>response.
     cbind (catalog_settlement A parsed response) (\<lambda>(result, headers).
     cbind (if sr_error_reason response \<noteq> Some ''settlement_pending''
            then on_redis (put_cached (ap_identifiers A) cache_key ''settle'' (PDict (sdk_dump (ap_sdk A) result)))
            else creturn ()) (\<lambda>_.
       creturn (result, headers))))"

definition settle_parsed ::
  "'s api \<Rightarrow> facilitator_request \<Rightarrow> ('s, api_settlement \<times> (string \<times> string) list) api_cmd" where
  "settle_parsed A parsed =
     cbind (on_redis (get_cached (ap_identifiers A) ''settle'' (fr_payment_payload parsed) (fr_payment_requirements parsed)))
       (\<lambda>(cache_key, cached).
     cbind (clift (terminal_cached cached)) (\<lambda>replay.
       if replay then cbind (clift (sdk_load (ap_sdk A) (the cached))) (\<lambda>response. creturn (response, []))
       else settle_fresh A parsed cache_key))"

definition settle_endpoint ::
  "'s api \<Rightarrow> pydict \<Rightarrow> api_request \<Rightarrow> ('s, api_settlement \<times> (string \<times> string) list) api_cmd" where
  "settle_endpoint A raw_body request = limited A ''20/minute'' request (
     cbind (clift (require_gateway request)) (\<lambda>_.
     cbind (clift (parse_request A raw_body)) (settle_parsed A)))"


section \<open>The discovery endpoints\<close>

abbreviation BAZAAR_DISABLED :: exn where
  "BAZAAR_DISABLED \<equiv> HTTPException 404 ''Bazaar discovery is disabled''"

abbreviation UNPROCESSABLE :: exn where
  "UNPROCESSABLE \<equiv> HTTPException 422 ''query parameter out of range''"

definition encode_cursor :: "int \<Rightarrow> string" where
  "encode_cursor offset = urlsafe_b64encode (show_int offset)"

definition decode_cursor :: "string option \<Rightarrow> exn + int" where
  "decode_cursor cursor = (case cursor of
       None \<Rightarrow> Inr 0
     | Some c \<Rightarrow>
       if c = [] then Inr 0
       else (case rbind (urlsafe_b64decode c) int_of_str of
           Inr offset \<Rightarrow> Inr (max 0 offset)
         | Inl e \<Rightarrow> if is_value_error e then Inl (HTTPException 400 ''Invalid discovery cursor'') else Inl e))"

text \<open>The bounds that the endpoints declare for their parameters, which FastAPI checks.\<close>

definition discovery_resources :: "'s api \<Rightarrow> catalog_query \<Rightarrow> ('s, catalog_page) api_cmd" where
  "discovery_resources A q =
     (if \<not> (1 \<le> cq_limit q \<and> cq_limit q \<le> 100 \<and> 0 \<le> cq_offset q) then craise UNPROCESSABLE
      else if \<not> ENABLE_BAZAAR (ap_settings A) then craise BAZAAR_DISABLED
      else on_redis (catalog_list (ap_catalog A) (q\<lparr>cq_query := None\<rparr>)))"

record search_page =
  sg_resources :: "pydict list"
  sg_partial_results :: bool
  sg_limit :: int
  sg_cursor :: "string option"

definition discovery_search :: "'s api \<Rightarrow> catalog_query \<Rightarrow> string option \<Rightarrow> ('s, search_page) api_cmd" where
  "discovery_search A q cursor =
     (if \<not> (1 \<le> cq_limit q \<and> cq_limit q \<le> 100 \<and> cq_query q \<noteq> None \<and> cq_query q \<noteq> Some []) then craise UNPROCESSABLE
      else if \<not> ENABLE_BAZAAR (ap_settings A) then craise BAZAAR_DISABLED
      else
        cbind (clift (decode_cursor cursor)) (\<lambda>offset.
        cbind (on_redis (catalog_list (ap_catalog A) (q\<lparr>cq_offset := offset\<rparr>))) (\<lambda>result.
          let items = pg_items result; total = pg_total result; next_offset = offset + int (length items) in
          creturn \<lparr>sg_resources = items, sg_partial_results = next_offset < total, sg_limit = cq_limit q,
                   sg_cursor = (if next_offset < total then Some (encode_cursor next_offset) else None)\<rparr>)))"

definition health_endpoint :: "'s api \<Rightarrow> pydict" where
  "health_endpoint A = [(''status'', PStr ''healthy''), (''network'', PStr (NETWORK_ID (ap_settings A))),
     (''x402Version'', PStr ''2'')]"

text \<open>What is registered with the SDK's facilitator, which answers \<open>/supported\<close> from it: \<open>get_supported\<close>;
  \<open>bazaar\<close> is the key of its discovery extension.\<close>

record registration =
  rg_networks :: "string list"
  rg_extensions :: "string list"
  rg_extra :: "string \<Rightarrow> pydict"
  rg_signers :: "string \<Rightarrow> string list"

definition registered_mechanism :: "string \<Rightarrow> settings \<Rightarrow> registration" where
  "registered_mechanism bazaar settings =
     \<lparr>rg_networks = [NETWORK_ID settings],
      rg_extensions = ''payment-identifier'' # (if ENABLE_BAZAAR settings then [bazaar] else []),
      rg_extra = get_extra, rg_signers = get_signers\<rparr>"

definition supported_endpoint :: "(registration \<Rightarrow> pydict) \<Rightarrow> string \<Rightarrow> 's api \<Rightarrow> pydict" where
  "supported_endpoint get_supported bazaar A = get_supported (registered_mechanism bazaar (ap_settings A))"

text \<open>The paths of the documentation: \<open>docs_url\<close>, \<open>redoc_url\<close> and \<open>openapi_url\<close>.\<close>

definition documentation_paths :: "settings \<Rightarrow> string option list" where
  "documentation_paths settings = map (\<lambda>path. if ENABLE_API_DOCS settings then Some path else None) [''/docs'', ''/redoc'', ''/openapi.json'']"


section \<open>Lemmas\<close>

lemma on_redis_eq: "on_redis m w = (r, w') \<longleftrightarrow> (\<exists>c. m (aw_conn w) = (r, c) \<and> w' = w\<lparr>aw_conn := c\<rparr>)"
  by (auto simp: on_redis_def split: prod.splits)

lemma on_fac_eq: "on_fac m w = (r, w') \<longleftrightarrow> (\<exists>f. m (aw_fac w) = (r, f) \<and> w' = w\<lparr>aw_fac := f\<rparr>)"
  by (auto simp: on_fac_def split: prod.splits)

section \<open>A sample application\<close>

text \<open>An SDK facilitator that dispatches every payment to the registered mechanism, models that keep
  every field, and one gateway token.\<close>

definition str_or_none :: "string option \<Rightarrow> pyval" where
  "str_or_none x = (case x of None \<Rightarrow> PNone | Some s \<Rightarrow> PStr s)"

definition sample_dump :: "api_settlement \<Rightarrow> pydict" where
  "sample_dump x = (let r = as_response x in
     [(''success'', PBool (sr_success r)), (''errorReason'', str_or_none (sr_error_reason r)),
      (''errorMessage'', str_or_none (sr_error_message r)), (''payer'', str_or_none (sr_payer r)),
      (''transaction'', PStr (sr_transaction r)), (''network'', PStr (sr_network r)), (''amount'', str_or_none (sr_amount r)),
      (''status'', case sr_status r of None \<Rightarrow> PNone | Some Pending \<Rightarrow> PInt 0 | Some Failed \<Rightarrow> PInt 1 | Some Validated \<Rightarrow> PInt 2),
      (''extensions'', opt_dict (as_extensions x))])"

definition sample_load :: "pyval \<Rightarrow> exn + api_settlement" where
  "sample_load v = (case v of
       PDict d \<Rightarrow> Inr \<lparr>as_response = \<lparr>sr_success = truthy (dget d ''success''), sr_error_reason = as_str (dget d ''errorReason''),
         sr_error_message = as_str (dget d ''errorMessage''), sr_payer = as_str (dget d ''payer''),
         sr_transaction = the (as_str (dget d ''transaction'')), sr_network = the (as_str (dget d ''network'')),
         sr_amount = as_str (dget d ''amount''),
         sr_status = (case dget d ''status'' of
             PInt i \<Rightarrow> Some (if i = 0 then Pending else if i = 1 then Failed else Validated)
           | _ \<Rightarrow> None)\<rparr>, as_extensions = as_dict (dget d ''extensions'')\<rparr>
     | _ \<Rightarrow> Inl (ValidationError ''SettleResponse''))"

lemma sample_load_dump: "sample_load (PDict (sample_dump x)) = Inr x"
  by (auto simp: sample_load_def sample_dump_def str_or_none_def opt_dict_def Let_def split: option.splits settlement_status.splits)

definition sample_framework :: "redis_store framework" where
  "sample_framework = \<lparr>sdk_ext = is_ext sample_ids, sdk_pid = is_pid sample_ids, sdk_client = fe_client sample_facilitator,
     sdk_fuel = 5, sdk_ops = redis_ops, sdk_verify = id, sdk_settle = id,
     sdk_validate = (\<lambda>_. Inr \<lparr>fr_x402_version = 2, fr_payment_payload = small_payload [], fr_payment_requirements = small_requirements\<rparr>),
     sdk_dump = sample_dump, sdk_load = sample_load, sdk_extract = ct_extract sample_catalog, sdk_to_dict = ct_to_dict sample_catalog,
     sdk_timestamp = show_int, sdk_limiter_storage = True, sdk_rate_exceeded = (\<lambda>_ _. False), sdk_others = (\<lambda>_. [])\<rparr>"

definition sample_api :: "redis_store api" where
  "sample_api = \<lparr>ap_sdk = sample_framework, ap_settings = sample_settings\<lparr>ENABLE_BAZAAR := True\<rparr>, ap_mechanism = sample_facilitator,
     ap_gateway_auth = SingleTokenGatewayAuthenticator ''secret'' DEFAULT_SINGLE_GATEWAY_ID,
     ap_identifiers = sample_ids, ap_catalog = sample_catalog\<rparr>"

definition sample_request :: api_request where
  "sample_request = \<lparr>rq_method = ''POST'', rq_path = ''/settle'', rq_headers = [(''authorization'', ''Bearer wrong'')],
     rq_remote_address = ''10.0.0.1'', rq_gateway = None, rq_auth_failed = False\<rparr>"

definition sample_world :: "redis_store api_world" where
  "sample_world = \<lparr>aw_conn = sample_conn, aw_fac = \<lparr>fs_store = \<lparr>rd_entries = Map.empty, rd_clock = 0\<rparr>, fs_log = [], fs_sent = []\<rparr>\<rparr>"

end
