(* ===== verification/ApiCorrect.thy ===== *)
theory ApiCorrect
  imports FacilitatorApi
begin

text \<open>
  Properties of the facilitator's HTTP application: unauthenticated requests have no effect,
  non-canonical bodies are refused, oversized bodies never reach a handler, the settle endpoint replays
  a cached final answer, and the search cursors enumerate the catalog.
\<close>

section \<open>Authentication\<close>

definition guarded :: "(api_request \<Rightarrow> ('s, 'a) api_cmd) \<Rightarrow> bool" where
  "guarded handler \<longleftrightarrow> (\<forall>request w. rq_gateway request = None \<longrightarrow> (\<exists>e. handler request w = (Raise e, w)))"

lemma guarded_endpoints: "guarded (settle_endpoint A raw)" "guarded (verify_endpoint A raw)"
  by (simp_all add: guarded_def settle_endpoint_def verify_endpoint_def limited_def require_gateway_def craise_def cbind_def clift_def)

text \<open>Credentials that the authenticator accepts in the present state.\<close>

definition credentials_accepted :: "'s api \<Rightarrow> api_request \<Rightarrow> redis_conn \<Rightarrow> bool" where
  "credentials_accepted A request c = (case authorization_parts request of (scheme, token) \<Rightarrow>
     token \<noteq> [] \<and> lower scheme = ''bearer'' \<and>
     (case authenticate (sdk_ext (ap_sdk A)) (sdk_others (ap_sdk A)) (ap_gateway_auth A) (strip token) c of
        (Ok g, _) \<Rightarrow> True | _ \<Rightarrow> False))"

definition only_read :: "interference \<Rightarrow> redis_conn \<Rightarrow> redis_conn \<Rightarrow> bool" where
  "only_read others c c' \<longleftrightarrow> c' = c \<or> cn_db c' = db_run (others (cn_calls c)) (cn_db c)"

lemma compare_digest_eq: "compare_digest a b = Inr x \<Longrightarrow> x = (a = b)"
  by (simp add: compare_digest_def split: if_splits)

lemma guardedD: "guarded h \<Longrightarrow> rq_gateway request = None \<Longrightarrow> \<exists>e. h (request\<lparr>rq_auth_failed := b\<rparr>) w = (Raise e, w)"
  by (simp add: guarded_def)

lemma authenticate_returns: "authenticate E others auth token c \<noteq> (Diverge, c')"
  by (cases auth) (auto simp: authenticate_def redis_authenticate_def redis_call_def Let_def cbind_def clift_def craise_def creturn_def
      split: option.splits sum.splits redis_reply.splits list.splits if_splits prod.splits)

lemma request_context_refuses:
  assumes "guarded handler" and "rq_method request = ''POST''" and "rq_path request \<in> set PAYMENT_ENDPOINT_PATHS"
    and "rq_gateway request = None" and "\<not> credentials_accepted A request (aw_conn w)"
  shows "\<exists>e w'. request_context A handler request w = (Raise e, w') \<and> aw_fac w' = aw_fac w
    \<and> only_read (sdk_others (ap_sdk A)) (aw_conn w) (aw_conn w')"
proof -
  obtain scheme token where parts: "authorization_parts request = (scheme, token)" by fastforce
  let ?auth = "authenticate (sdk_ext (ap_sdk A)) (sdk_others (ap_sdk A)) (ap_gateway_auth A) (strip token)"
  note h = guardedD [OF assms(1,4)]
  consider (missing) "token = []" | (ascii) e where "token \<noteq> []" "compare_digest (lower scheme) ''bearer'' = Inl e"
    | (other) "token \<noteq> []" "compare_digest (lower scheme) ''bearer'' = Inr False"
    | (bearer) "token \<noteq> []" "compare_digest (lower scheme) ''bearer'' = Inr True"
    by (metis (full_types) sum.exhaust)
  then show ?thesis
  proof cases
    case missing
    then show ?thesis
      using h [of True w] assms(2,3) parts by (auto simp: request_context_def only_read_def)
  next
    case ascii
    then show ?thesis
      using assms(2,3) parts by (auto simp: request_context_def only_read_def cbind_def clift_def craise_def)
  next
    case other
    then show ?thesis
      using h [of True w] assms(2,3) parts by (auto simp: request_context_def only_read_def cbind_clift)
  next
    case bearer
    obtain r c where auth: "?auth (aw_conn w) = (r, c)" by fastforce
    have r: "\<And>g. r \<noteq> Ok g"
      using assms(5) parts bearer auth compare_digest_eq [OF bearer(2)] by (auto simp: credentials_accepted_def)
    have ro: "only_read (sdk_others (ap_sdk A)) (aw_conn w) c"
      using authenticate_reads [OF auth] by (auto simp: only_read_def)
    have "on_redis ?auth w = (r, w\<lparr>aw_conn := c\<rparr>)"
      using auth by (simp add: on_redis_def)
    then show ?thesis
      using h [of True "w\<lparr>aw_conn := c\<rparr>"] assms(2,3) parts bearer r ro authenticate_returns auth
      by (cases r) (auto simp: request_context_def cbind_clift ctry_else_def craise_def split: exn.splits)
  qed
qed

lemma ascii_parts:
  assumes "authorization_parts request = (scheme, token)"
    and "\<forall>h. map_of (rq_headers request) ''authorization'' = Some h \<longrightarrow> list_all is_ascii h"
  shows "list_all is_ascii scheme" and "list_all is_ascii token"
  using assms
  by (auto simp: authorization_parts_def partition_on_def Let_def list_all_iff split: option.splits if_splits
      dest: set_takeWhileD in_set_dropD)

lemma ascii_lower: "list_all is_ascii s \<Longrightarrow> list_all is_ascii (lower s)"
  by (auto simp: list_all_iff lower_def lower_c_def is_ascii_def ord_c_def)

lemma ascii_strip: "list_all is_ascii s \<Longrightarrow> list_all is_ascii (strip s)"
  by (auto simp: list_all_iff strip_def rstrip_by_def dest!: set_dropWhileD)

text \<open>With one configured token and an ASCII header the answer is 401.\<close>

lemma single_token_refuses:
  assumes "rq_method request = ''POST''" and "rq_path request \<in> set PAYMENT_ENDPOINT_PATHS" and "rq_gateway request = None"
    and "\<not> credentials_accepted A request (aw_conn w)" and "ap_gateway_auth A = SingleTokenGatewayAuthenticator t g"
    and "list_all is_ascii t" and "\<forall>h. map_of (rq_headers request) ''authorization'' = Some h \<longrightarrow> list_all is_ascii h"
  shows "request_context A handler request w = handler (request\<lparr>rq_auth_failed := True\<rparr>) w"
proof -
  obtain scheme token where parts: "authorization_parts request = (scheme, token)" by fastforce
  note ascii = ascii_lower [OF ascii_parts(1) [OF parts assms(7)]] ascii_strip [OF ascii_parts(2) [OF parts assms(7)]]
  show ?thesis
  proof (cases "token \<noteq> [] \<and> lower scheme = ''bearer''")
    case True
    then have "strip token \<noteq> t"
      using assms(4,5,6) parts ascii by (auto simp: credentials_accepted_def authenticate_def single_token_authenticate_def
          compare_digest_def clift_def creturn_def)
    then show ?thesis
      using True assms(1,2,5,6) parts ascii
      by (simp add: request_context_def compare_digest_def cbind_def creturn_def ctry_else_def on_redis_def authenticate_def
          single_token_authenticate_def clift_def craise_def is_ascii_def ord_c_def)
  next
    case False
    then show ?thesis
      using assms(1,2) parts ascii by (auto simp: request_context_def compare_digest_def cbind_clift is_ascii_def ord_c_def)
  qed
qed

lemma endpoint_401:
  assumes "rq_gateway request = None"
  shows "\<not> sdk_rate_exceeded (ap_sdk A) ''20/minute'' (payment_rate_limit_key request) \<Longrightarrow>
      settle_endpoint A raw (request\<lparr>rq_auth_failed := b\<rparr>) w = (Raise AUTHENTICATION_ERROR, w)"
    and "\<not> sdk_rate_exceeded (ap_sdk A) ''30/minute'' (payment_rate_limit_key request) \<Longrightarrow>
      verify_endpoint A raw (request\<lparr>rq_auth_failed := b\<rparr>) w = (Raise AUTHENTICATION_ERROR, w)"
  using assms by (simp_all add: settle_endpoint_def verify_endpoint_def limited_def payment_rate_limit_key_def require_gateway_def
      cbind_def clift_def craise_def)

text \<open>C25. A payment request without accepted credentials has no effect: whatever its body, neither
  endpoint returns a result, the settlement store and the ledger are not touched, and the only Redis
  command sent is the look-up of the token. With one configured token, an ASCII authorization header
  and the rate limits not reached, the answer is 401.
\<close>

theorem unauthenticated_request_refused:
  assumes "rq_method request = ''POST''" and "rq_path request \<in> set PAYMENT_ENDPOINT_PATHS" and "rq_gateway request = None"
    and "\<not> credentials_accepted A request (aw_conn w)"
    and "run = request_context A (settle_endpoint A raw) request w"
    and "run' = request_context A (verify_endpoint A raw) request w"
  shows "(\<exists>e. fst run = Raise e) \<and> (\<exists>e. fst run' = Raise e)
    \<and> aw_fac (snd run) = aw_fac w \<and> aw_fac (snd run') = aw_fac w
    \<and> only_read (sdk_others (ap_sdk A)) (aw_conn w) (aw_conn (snd run))
    \<and> only_read (sdk_others (ap_sdk A)) (aw_conn w) (aw_conn (snd run'))
    \<and> (\<forall>t g. ap_gateway_auth A = SingleTokenGatewayAuthenticator t g \<longrightarrow> list_all is_ascii t \<longrightarrow>
         (\<forall>h. map_of (rq_headers request) ''authorization'' = Some h \<longrightarrow> list_all is_ascii h) \<longrightarrow>
         (\<forall>rate. \<not> sdk_rate_exceeded (ap_sdk A) rate (payment_rate_limit_key request)) \<longrightarrow>
         fst run = Raise AUTHENTICATION_ERROR \<and> fst run' = Raise AUTHENTICATION_ERROR)"
proof -
  obtain e w1 where settle: "run = (Raise e, w1)" "aw_fac w1 = aw_fac w"
    "only_read (sdk_others (ap_sdk A)) (aw_conn w) (aw_conn w1)"
    using request_context_refuses [OF guarded_endpoints(1) assms(1-4)] assms(5) by metis
  obtain e' w2 where verify: "run' = (Raise e', w2)" "aw_fac w2 = aw_fac w"
    "only_read (sdk_others (ap_sdk A)) (aw_conn w) (aw_conn w2)"
    using request_context_refuses [OF guarded_endpoints(2) assms(1-4)] assms(6) by metis
  have "fst run = Raise AUTHENTICATION_ERROR \<and> fst run' = Raise AUTHENTICATION_ERROR"
    if "ap_gateway_auth A = SingleTokenGatewayAuthenticator t g" "list_all is_ascii t"
      "\<forall>h. map_of (rq_headers request) ''authorization'' = Some h \<longrightarrow> list_all is_ascii h"
      "\<forall>rate. \<not> sdk_rate_exceeded (ap_sdk A) rate (payment_rate_limit_key request)" for t g
    unfolding assms(5,6) using that(4) by (simp add: single_token_refuses [OF assms(1-4) that(1-3)] endpoint_401 [OF assms(3)])
  then show ?thesis
    using settle verify by auto
qed

section \<open>Canonical bodies\<close>

definition fields_within :: "pyval \<Rightarrow> string list \<Rightarrow> bool" where
  "fields_within v allowed \<longleftrightarrow> (case v of PDict d \<Rightarrow> fst ` set d \<subseteq> set allowed | _ \<Rightarrow> True)"

definition field_of :: "pyval \<Rightarrow> string \<Rightarrow> pyval" where
  "field_of v k = (case v of PDict d \<Rightarrow> dget d k | _ \<Rightarrow> PNone)"

definition requirements_within :: "pyval \<Rightarrow> bool" where
  "requirements_within v \<longleftrightarrow> fields_within v PAYMENT_REQUIREMENTS_FIELDS \<and> fields_within (field_of v ''extra'') XRPL_EXTRA_FIELDS"

definition canonical_body :: "pydict \<Rightarrow> bool" where
  "canonical_body raw \<longleftrightarrow>
     (let payload = dget raw ''paymentPayload'' in
      fields_within (PDict raw) FACILITATOR_FIELDS \<and> fields_within payload PAYMENT_PAYLOAD_FIELDS
      \<and> fields_within (field_of payload ''payload'') XRPL_PAYLOAD_FIELDS
      \<and> requirements_within (field_of payload ''accepted'') \<and> fields_within (field_of payload ''resource'') RESOURCE_FIELDS
      \<and> requirements_within (dget raw ''paymentRequirements''))"

definition answers_400 :: "exn + 'a \<Rightarrow> bool" where
  "answers_400 r \<longleftrightarrow> (\<exists>m. r = Inl (HTTPException 400 m))"

lemma reject_unexpected_cases:
  "if fields_within v allowed then reject_unexpected_fields v allowed path = Inr ()
   else answers_400 (reject_unexpected_fields v allowed path)"
  by (cases v) (auto simp: fields_within_def reject_unexpected_fields_def answers_400_def Let_def filter_empty_conv)

lemma rbind_400: "answers_400 r \<Longrightarrow> answers_400 (rbind r f)"
  by (auto simp: answers_400_def)

lemma requirements_fields_cases:
  "if requirements_within v then validate_requirements_fields v path = Inr ()
   else answers_400 (validate_requirements_fields v path)"
  using reject_unexpected_cases [of v PAYMENT_REQUIREMENTS_FIELDS path]
    reject_unexpected_cases [of "field_of v ''extra''" XRPL_EXTRA_FIELDS "path @ ''.extra''"]
  by (cases v) (auto simp: requirements_within_def validate_requirements_fields_def field_of_def fields_within_def
      intro: rbind_400 split: if_splits)

lemma canonical_fields_cases:
  "if canonical_body raw then validate_canonical_wire_fields raw = Inr ()
   else answers_400 (validate_canonical_wire_fields raw)"
  using reject_unexpected_cases [of "PDict raw" FACILITATOR_FIELDS "''facilitator request''"]
    reject_unexpected_cases [of "dget raw ''paymentPayload''" PAYMENT_PAYLOAD_FIELDS "''paymentPayload''"]
    reject_unexpected_cases [of "field_of (dget raw ''paymentPayload'') ''payload''" XRPL_PAYLOAD_FIELDS "''paymentPayload.payload''"]
    requirements_fields_cases [of "field_of (dget raw ''paymentPayload'') ''accepted''" "''paymentPayload.accepted''"]
    reject_unexpected_cases [of "field_of (dget raw ''paymentPayload'') ''resource''" RESOURCE_FIELDS "''paymentPayload.resource''"]
    requirements_fields_cases [of "dget raw ''paymentRequirements''" "''paymentRequirements''"]
  by (cases "dget raw ''paymentPayload''")
    (auto simp: canonical_body_def validate_canonical_wire_fields_def Let_def field_of_def fields_within_def requirements_within_def
      intro: rbind_400 split: if_splits)

text \<open>C26. The facilitator takes canonical bodies only: a body with a field outside the x402 and XRPL wire
  format at any level is answered 400 before the permissive models of the SDK see it, and a body that
  is accepted is canonical and of protocol version 2 throughout.
\<close>

theorem noncanonical_body_refused:
  "(\<not> canonical_body raw \<longrightarrow> answers_400 (parse_request A raw)) \<and>
   (\<forall>parsed. parse_request A raw = Inr parsed \<longrightarrow> canonical_body raw \<and> sdk_validate (ap_sdk A) raw = Inr parsed
      \<and> fr_x402_version parsed = 2 \<and> p_x402_version (fr_payment_payload parsed) = 2)"
  using canonical_fields_cases [of raw] unfolding parse_request_def
  by (auto simp: rbind_eq_Inr answers_400_def split: if_splits sum.splits exn.splits)


section \<open>Bounded bodies\<close>

text \<open>How the framework reads the body of a request: message by message until the last part.\<close>

fun read_body :: "('w asgi, asgi_message) cmd \<Rightarrow> nat \<Rightarrow> ('w asgi, string) cmd" where
  "read_body recv 0 = cdiverge"
| "read_body recv (Suc n) = cbind recv (\<lambda>message. case message of
       HttpRequest part more_body \<Rightarrow>
         if more_body then cbind (read_body recv n) (\<lambda>rest. creturn (part @ rest)) else creturn part
     | OtherMessage \<Rightarrow> craise (ClientError ''disconnect''))"

fun request_body :: "asgi_message list \<Rightarrow> string option" where
  "request_body (HttpRequest part more_body # messages) =
     (if more_body then map_option ((@) part) (request_body messages) else Some part)"
| "request_body _ = None"

lemma limited_receive_part:
  assumes "ag_messages s = HttpRequest part more_body # messages"
  shows "limited_receive m s =
    (let s' = s\<lparr>ag_messages := messages, ag_received := ag_received s + int (length part)\<rparr> in
     if ag_received s' > m then (Raise PayloadTooLargeError, s') else (Ok (HttpRequest part more_body), s'))"
  using assms by (simp add: limited_receive_def receive_def cbind_def cmodify_def cget_def craise_def creturn_def Let_def)

lemma read_limited_exceeds:
  assumes "request_body (ag_messages s) = Some b" and "m < ag_received s + int (length b)"
  shows "read_body (limited_receive m) n s \<noteq> (Ok x, s')"
  using assms
proof (induction n arbitrary: s b x)
  case (Suc n)
  from Suc.prems(1) obtain part more_body messages where ms: "ag_messages s = HttpRequest part more_body # messages"
    by (cases "ag_messages s" rule: request_body.cases) auto
  let ?s = "s\<lparr>ag_messages := messages, ag_received := ag_received s + int (length part)\<rparr>"
  show ?case
  proof (cases "ag_received ?s > m")
    case False
    then obtain rest where "more_body" "request_body messages = Some rest" "b = part @ rest"
      using Suc.prems ms by (auto split: if_splits)
    then have "read_body (limited_receive m) n ?s \<noteq> (Ok y, s')" for y
      using Suc.IH [of ?s rest] Suc.prems(2) by simp
    then show ?thesis
      using False \<open>more_body\<close> by (auto simp: run_simps limited_receive_part [OF ms] Let_def)
  qed (auto simp: run_simps limited_receive_part [OF ms] Let_def)
qed (simp add: cdiverge_def)

lemma read_limited_within:
  assumes "request_body (ag_messages s) = Some b" and "ag_received s + int (length b) \<le> m" and "length (ag_messages s) \<le> n"
  shows "\<exists>s'. read_body (limited_receive m) n s = (Ok b, s') \<and> ag_world s' = ag_world s"
  using assms
proof (induction n arbitrary: s b)
  case 0
  then show ?case by simp
next
  case (Suc n)
  from Suc.prems(1) obtain part more_body messages where ms: "ag_messages s = HttpRequest part more_body # messages"
    by (cases "ag_messages s" rule: request_body.cases) auto
  let ?s = "s\<lparr>ag_messages := messages, ag_received := ag_received s + int (length part)\<rparr>"
  have part: "limited_receive m s = (Ok (HttpRequest part more_body), ?s)"
    using Suc.prems ms by (auto simp: limited_receive_part [OF ms] Let_def split: if_splits)
  show ?case
  proof (cases more_body)
    case True
    then obtain rest where "request_body messages = Some rest" "b = part @ rest"
      using Suc.prems(1) ms by auto
    then show ?thesis
      using Suc.IH [of ?s rest] Suc.prems(2,3) ms part True by (auto simp: cbind_step creturn_def)
  next
    case False
    then show ?thesis
      using Suc.prems(1) ms part by (simp add: cbind_step creturn_def)
  qed
qed

text \<open>C27. The body limit holds for any framework: an application that reads the body of a payment request
  through the middleware runs its handler only on a complete body of at most
  \<open>MAX_REQUEST_BODY_BYTES\<close> bytes. On a longer one, whatever the content length says and however the
  framework reacts to the error, the result does not depend on the handler; on a shorter one with an
  honest content length the handler gets the body.
\<close>

theorem body_limit_enforced:
  assumes "sc_type scope = ''http''" and "sc_method scope = ''POST''" and "sc_path scope \<in> set PAYMENT_ENDPOINT_PATHS"
    and "request_body (ag_messages s) = Some b" and "\<And>h. app h = (\<lambda>recv. ctry_else (read_body recv n) on_error h)"
  shows "(int (length b) > limit \<longrightarrow> body_size_limit limit scope (app h) s = body_size_limit limit scope (app h') s) \<and>
    (int (length b) \<le> limit \<longrightarrow> content_length_exceeds limit scope = Inr False \<longrightarrow> length (ag_messages s) \<le> n \<longrightarrow>
      (\<exists>s'. ag_world s' = ag_world s \<and>
        body_size_limit limit scope (app h) s = ctry (h b) (\<lambda>e. if e = PayloadTooLargeError then send_413 else craise e) s'))"
proof -
  let ?s = "s\<lparr>ag_received := 0\<rparr>" and ?read = "read_body (limited_receive limit) n"
  let ?handle = "\<lambda>e. if e = PayloadTooLargeError then send_413 else craise e"
  have limited: "body_size_limit limit scope (app h) s = ctry (app h (limited_receive limit)) ?handle ?s"
    if "content_length_exceeds limit scope = Inr False" for h
    using assms(1-3) that by (simp add: body_size_limit_def cbind_clift) (simp add: cbind_def cmodify_def)
  have "body_size_limit limit scope (app h) s = body_size_limit limit scope (app h') s" if "int (length b) > limit"
  proof -
    have "?read ?s \<noteq> (Ok x, s')" for x s'
      using read_limited_exceeds [of ?s b limit n x s'] assms(4) that by simp
    then have "app h (limited_receive limit) ?s = app h' (limited_receive limit) ?s"
      unfolding assms(5) by (auto simp: ctry_else_def split: prod.splits outcome.splits)
    then show ?thesis
    proof (cases "content_length_exceeds limit scope = Inr False")
      case True
      then show ?thesis
        using \<open>app h (limited_receive limit) ?s = app h' (limited_receive limit) ?s\<close> limited by (simp add: ctry_def)
    next
      case False
      then show ?thesis
        using assms(1-3) by (cases "content_length_exceeds limit scope") (auto simp: body_size_limit_def cbind_def clift_def craise_def creturn_def)
    qed
  qed
  moreover have "\<exists>s'. ag_world s' = ag_world s \<and> body_size_limit limit scope (app h) s = ctry (h b) ?handle s'"
    if within: "int (length b) \<le> limit" "content_length_exceeds limit scope = Inr False" "length (ag_messages s) \<le> n"
  proof -
    obtain s' where "?read ?s = (Ok b, s')" "ag_world s' = ag_world s"
      using read_limited_within [of ?s b limit n] assms(4) within by auto
    then show ?thesis
      using limited [OF within(2)] unfolding assms(5) by (auto simp: ctry_def ctry_else_def)
  qed
  ultimately show ?thesis by blast
qed

section \<open>Witnesses\<close>

lemma sample_rejected: "\<not> credentials_accepted sample_api sample_request (aw_conn sample_world)"
  by (simp add: credentials_accepted_def sample_request_def sample_api_def authorization_parts_def partition_on_def
      authenticate_def single_token_authenticate_def compare_digest_def strip_def rstrip_by_def is_space_def ord_c_def is_ascii_def
      clift_def craise_def Let_def)

theorem unauthenticated_request_refused_witness:
  "fst (request_context sample_api (settle_endpoint sample_api []) sample_request sample_world) = Raise AUTHENTICATION_ERROR
   \<and> aw_fac (snd (request_context sample_api (settle_endpoint sample_api []) sample_request sample_world)) = aw_fac sample_world"
proof -
  have request: "rq_method sample_request = ''POST''" "rq_path sample_request \<in> set PAYMENT_ENDPOINT_PATHS" "rq_gateway sample_request = None"
    by (simp_all add: sample_request_def PAYMENT_ENDPOINT_PATHS_def)
  have auth: "ap_gateway_auth sample_api = SingleTokenGatewayAuthenticator ''secret'' DEFAULT_SINGLE_GATEWAY_ID"
    "list_all is_ascii ''secret''" "\<forall>h. map_of (rq_headers sample_request) ''authorization'' = Some h \<longrightarrow> list_all is_ascii h"
    "\<forall>rate. \<not> sdk_rate_exceeded (ap_sdk sample_api) rate (payment_rate_limit_key sample_request)"
    by (simp_all add: sample_api_def sample_framework_def sample_request_def is_ascii_def ord_c_def)
  show ?thesis
    using unauthenticated_request_refused [OF request sample_rejected refl refl, of "[]"] auth by blast
qed

theorem noncanonical_body_refused_witness:
  "answers_400 (parse_request sample_api [(''x402Version'', PInt 2), (''bogus'', PNone)])"
proof -
  have "\<not> canonical_body [(''x402Version'', PInt 2), (''bogus'', PNone)]"
    by (simp add: canonical_body_def fields_within_def FACILITATOR_FIELDS_def)
  then show ?thesis
    using noncanonical_body_refused [of "[(''x402Version'', PInt 2), (''bogus'', PNone)]" sample_api] by blast
qed

abbreviation sample_scope :: asgi_scope where
  "sample_scope \<equiv> \<lparr>sc_type = ''http'', sc_method = ''POST'', sc_path = ''/verify'', sc_headers = []\<rparr>"

abbreviation sample_upload :: "unit asgi" where
  "sample_upload \<equiv> \<lparr>ag_messages = [HttpRequest ''ab'' True, HttpRequest ''cd'' False], ag_received = 0, ag_world = ()\<rparr>"

abbreviation sample_application :: "(string \<Rightarrow> (unit asgi, asgi_reply) cmd) \<Rightarrow> (unit asgi, asgi_message) cmd \<Rightarrow> (unit asgi, asgi_reply) cmd" where
  "sample_application h \<equiv> \<lambda>recv. ctry_else (read_body recv 9) craise h"

theorem body_limit_enforced_witness:
  "body_size_limit 3 sample_scope (sample_application (\<lambda>_. creturn (JSONResponse 200 []))) sample_upload
   = body_size_limit 3 sample_scope (sample_application (\<lambda>_. creturn (JSONResponse 500 []))) sample_upload"
proof -
  have scope: "sc_type sample_scope = ''http''" "sc_method sample_scope = ''POST''" "sc_path sample_scope \<in> set PAYMENT_ENDPOINT_PATHS"
    "request_body (ag_messages sample_upload) = Some ''abcd''"
    by (simp_all add: PAYMENT_ENDPOINT_PATHS_def)
  show ?thesis
    using body_limit_enforced [OF scope, of sample_application 9 craise 3] by simp
qed

end
