(* ===== verification/ApiReplay.thy ===== *)
theory ApiReplay
  imports FacilitatorApi
begin

text \<open>
  The settle endpoint with a payment identifier: a final answer is cached under the identifier and a
  retry gets it back without another settlement.
\<close>

section \<open>Invariants of the shared database\<close>

text \<open>A command keeps an invariant and answers as required, as long as it ends before some time.\<close>

abbreviation conn_clock :: "redis_conn \<Rightarrow> int" where
  "conn_clock c \<equiv> db_clock (cn_db c)"

definition ensures :: "(redis_conn \<Rightarrow> bool) \<Rightarrow> int \<Rightarrow> ('a outcome \<Rightarrow> bool) \<Rightarrow> 'a redis_cmd \<Rightarrow> bool" where
  "ensures I until P m \<longleftrightarrow> (\<forall>c. I c \<longrightarrow> conn_clock (snd (m c)) < until \<longrightarrow> I (snd (m c)) \<and> P (fst (m c)))"

lemma ensuresD: "ensures I until P m \<Longrightarrow> m c = (r, c') \<Longrightarrow> I c \<Longrightarrow> conn_clock c' < until \<Longrightarrow> I c' \<and> P r"
  unfolding ensures_def by (metis fst_conv snd_conv)

lemma ensures_bind:
  assumes "ensures I until (\<lambda>r. \<exists>x. r = Ok x \<and> A x) m" and "\<And>x. A x \<Longrightarrow> ensures I until P (f x)"
    and "\<And>x. advances conn_clock (f x)"
  shows "ensures I until P (cbind m f)"
  unfolding ensures_def
proof (intro allI impI)
  fix c assume c: "I c" "conn_clock (snd (cbind m f c)) < until"
  obtain r c1 where m: "m c = (r, c1)" by fastforce
  have "conn_clock c1 \<le> conn_clock (snd (cbind m f c))"
    using m assms(3) by (cases r) (auto simp: cbind_def advances_def)
  then obtain x where x: "r = Ok x" "A x" "I c1"
    using ensuresD [OF assms(1) m c(1)] c(2) by auto
  then show "I (snd (cbind m f c)) \<and> P (fst (cbind m f c))"
    using assms(2) [OF x(2)] c(2) m by (simp add: cbind_step ensures_def)
qed

lemma ensures_any:
  assumes "ensures I until (\<lambda>_. True) m" and "\<And>x. ensures I until (\<lambda>_. True) (f x)" and "\<And>x. advances conn_clock (f x)"
  shows "ensures I until (\<lambda>_. True) (cbind m f)"
  unfolding ensures_def
proof (intro allI impI)
  fix c assume c: "I c" "conn_clock (snd (cbind m f c)) < until"
  obtain r c1 where m: "m c = (r, c1)" by fastforce
  have "conn_clock c1 \<le> conn_clock (snd (cbind m f c))"
    using m assms(3) by (cases r) (auto simp: cbind_def advances_def)
  then have "I c1"
    using ensuresD [OF assms(1) m c(1)] c(2) by auto
  then show "I (snd (cbind m f c)) \<and> True"
    using assms(2) c(2) m by (cases r) (auto simp: cbind_def ensures_def)
qed

lemma ensures_leaf: "ensures I until (\<lambda>r. r = Ok x) (creturn x)" "ensures I until (\<lambda>_. True) (creturn x)"
  "ensures I until (\<lambda>_. True) (craise e)" "ensures I until (\<lambda>_. True) (cget g)"
  by (simp_all add: ensures_def creturn_def craise_def cget_def)

context exclusive_binding
begin

text \<open>The invariant: the key is bound until some time within the time to live.\<close>

definition keeping :: "string \<Rightarrow> int \<Rightarrow> string \<Rightarrow> int \<Rightarrow> redis_conn \<Rightarrow> bool" where
  "keeping key ttl f until c \<longleftrightarrow> bound (cn_db c) key until f \<and> until \<le> conn_clock c + ttl"

lemma ensures_call:
  assumes "\<And>n. obeys key ttl f (others n)" and "allowed key ttl f x"
    and "\<And>db reply db'. bound db key until f \<Longrightarrow> db_clock db < until \<Longrightarrow> redis_exec x db = (reply, db') \<Longrightarrow>
      P (if reply = ReplyError then Raise (ClientError ''redis'') else Ok reply)"
  shows "ensures (keeping key ttl f until) until P (redis_call others x)"
  unfolding ensures_def
proof (intro allI impI)
  fix c assume c: "keeping key ttl f until c" "conn_clock (snd (redis_call others x c)) < until"
  obtain r c1 where run: "redis_call others x c = (r, c1)" by fastforce
  then have late: "conn_clock c1 < until" using c(2) by simp
  have b: "bound (cn_db c) key until f" "until \<le> conn_clock c + ttl"
    using c(1) by (simp_all add: keeping_def)
  have "conn_clock c \<le> conn_clock c1"
    by (rule advancesD [OF redis_call_advances run])
  then show "keeping key ttl f until (snd (redis_call others x c)) \<and> P (fst (redis_call others x c))"
    using call_bound [OF run b(1) assms(1,2) late b(2)] assms(3) b(2) run by (auto simp: keeping_def)
qed

end


section \<open>Cached answers\<close>

text \<open>The identifier holds the request's fingerprint and an answer that satisfies \<open>Q\<close>. The other
  users of the database keep to the protocol of the identifiers and record no other answer.\<close>

fun answer_fingerprint :: "(pyval \<Rightarrow> bool) \<Rightarrow> redis_value \<Rightarrow> string option" where
  "answer_fingerprint Q (RHash h) =
     (case map_of h ''settle'' of Some v \<Rightarrow> if Q v then hash_fingerprint (RHash h) else None | None \<Rightarrow> None)"
| "answer_fingerprint Q _ = None"

definition answer_op :: "(pyval \<Rightarrow> bool) \<Rightarrow> string \<Rightarrow> int \<Rightarrow> string \<Rightarrow> redis_op \<Rightarrow> bool" where
  "answer_op Q key ttl f x \<longleftrightarrow>
     identifier_op key ttl f x \<and> (case x of OHset k field v \<Rightarrow> k = key \<and> field = ''settle'' \<longrightarrow> Q v | _ \<Rightarrow> True)"

lemma answer_fingerprint_Some:
  "answer_fingerprint Q x = Some f \<longleftrightarrow>
     (\<exists>h v. x = RHash h \<and> map_of h ''fingerprint'' = Some (PStr f) \<and> map_of h ''settle'' = Some v \<and> Q v)"
  by (cases x) (auto simp del: hash_fingerprint.simps simp: hash_fingerprint_Some split: option.splits if_splits)

lemma answer_op_keeps:
  assumes "answer_op Q key ttl f x" and "db_holds db key until (\<lambda>v. answer_fingerprint Q v = Some f)"
    and "db_clock db < until" and "until \<le> db_clock db + ttl"
  shows "db_holds (snd (redis_exec x db)) key until (\<lambda>v. answer_fingerprint Q v = Some f)"
proof (cases "writes_to x = Some key")
  case True
  from db_holds_live [OF assms(2,3)] obtain h t v where h: "db_live db key = Some (RHash h, t)"
    "map_of h ''fingerprint'' = Some (PStr f)" "map_of h ''settle'' = Some v" "Q v"
    "case t of None \<Rightarrow> True | Some u \<Rightarrow> until \<le> u"
    by (auto simp: answer_fingerprint_Some)
  show ?thesis
    using True assms(1,2,4) h
    by (cases x) (auto simp: answer_op_def hash_fields_def db_holds_def db_put_def map_of_dset answer_fingerprint_Some)
next
  case False
  then show ?thesis
    using assms(2) benign_elsewhere [OF False] assms(3) by (simp add: benign_def)
qed

interpretation answers: exclusive_binding "answer_fingerprint Q" "answer_op Q" for Q
  by unfold_locales (rule answer_op_keeps)

lemma answers_obey: "answers.obeys Q key ttl f es \<Longrightarrow> ids.obeys key ttl f es"
  by (simp add: answers.obeys_def ids.obeys_def answer_op_def)

text \<open>An answered identifier is a hash that answers the commands of \<open>get_cached\<close>.\<close>

lemma answer_hash:
  assumes "answers.bound Q db key until f" and "db_clock db < until"
  obtains h t v where "db_live db key = Some (RHash h, t)" "hash_fields db key = Some (h, t)"
    "map_of h ''fingerprint'' = Some (PStr f)" "map_of h ''settle'' = Some v" "Q v"
  using answers.bound_live [OF assms] by (auto simp: answer_fingerprint_Some hash_fields_def)

lemma answer_calls:
  assumes "\<And>n. answers.obeys Q key ttl f (others n)"
  shows "ensures (answers.keeping Q key ttl f until) until (\<lambda>r. \<exists>x. r = Ok x \<and> True)
      (redis_call others (OHsetnx key ''fingerprint'' (PStr f)))"
    and "ensures (answers.keeping Q key ttl f until) until (\<lambda>r. \<exists>x. r = Ok x \<and> x = ReplyVal (PStr f))
      (redis_call others (OHget key ''fingerprint''))"
    and "ensures (answers.keeping Q key ttl f until) until (\<lambda>r. \<exists>x. r = Ok x \<and> True) (redis_call others (OExpire key ttl))"
    and "ensures (answers.keeping Q key ttl f until) until (\<lambda>r. \<exists>x. r = Ok x \<and> (\<exists>v. x = ReplyVal v \<and> Q v))
      (redis_call others (OHget key ''settle''))"
  by (rule answers.ensures_call [OF assms]; (simp add: answer_op_def)?; erule (1) answer_hash; fastforce)+

lemma get_cached_answered:
  assumes "\<And>n. answers.obeys Q k (is_ttl I) f (is_others I n)"
    and "checked_identifier (is_pid I) payload = Inr (Some i)"
    and "k = identifier_key (is_ext I) i requirements" and "f = requirements_fingerprint (is_ext I) payload requirements"
  shows "ensures (answers.keeping Q k (is_ttl I) f until) until (\<lambda>r. \<exists>x. r = Ok x \<and> (\<exists>v. x = (Some k, Some v) \<and> Q v))
    (get_cached I ''settle'' payload requirements)"
proof -
  let ?I = "answers.keeping Q k (is_ttl I) f until"
  note calls = answer_calls [of Q k "is_ttl I" f "is_others I" until, OF assms(1)]
  have key: "ensures ?I until (\<lambda>r. \<exists>x. r = Ok x \<and> x = k) (bind_key I k f)"
    unfolding bind_key_def
    by (rule ensures_bind [OF calls(1)], rule ensures_bind [OF calls(2)])
      (auto intro!: ensures_bind [OF calls(3)] ensures_leaf advances_rules)
  have bind: "ensures ?I until (\<lambda>r. \<exists>x. r = Ok x \<and> x = Some k) (bind_identifier I payload requirements)"
    unfolding bind_identifier_def assms(2) cbind_clift
    by (simp add: assms(3) [symmetric] assms(4) [symmetric])
      (rule ensures_bind [OF key], auto intro: ensures_leaf advances_rules)
  have answer: "ensures ?I until (\<lambda>r. \<exists>x. r = Ok x \<and> (\<exists>v. x = (Some k, Some v) \<and> Q v))
      (cbind (redis_call (is_others I) (OHget k ''settle'')) (\<lambda>cached.
         creturn (Some k, case cached of ReplyVal v \<Rightarrow> Some v | _ \<Rightarrow> None)))"
    by (rule ensures_bind [OF calls(4)]) (auto simp: ensures_def creturn_Ok intro: advances_rules, simp_all add: creturn_def)
  show ?thesis
    unfolding get_cached_def by (rule ensures_bind [OF bind]) (use answer in simp, intro advances_rules)
qed

section \<open>The first answer\<close>

text \<open>A call that binds an identifier in time, and reads or records an answer under it.\<close>

lemma bind_identifier_advances [advances_rules]: "advances conn_clock (bind_identifier I payload requirements)"
  unfolding bind_identifier_def bind_key_def by (intro advances_rules)

lemma get_cached_advances [advances_rules]: "advances conn_clock (get_cached I stage payload requirements)"
  unfolding get_cached_def by (intro advances_rules)

lemma put_cached_advances [advances_rules]: "advances conn_clock (put_cached I key stage v)"
  unfolding put_cached_def by (intro advances_rules)

lemma get_cached_first:
  assumes "get_cached I ''settle'' payload requirements c = (Ok (key, cached), c')"
    and "\<And>n. answers.obeys Q k (is_ttl I) f (is_others I n)"
    and "checked_identifier (is_pid I) payload = Inr (Some i)"
    and "k = identifier_key (is_ext I) i requirements" and "f = requirements_fingerprint (is_ext I) payload requirements"
    and "expires_late (cn_db c) k late" and "conn_clock c' < late" and "late \<le> conn_clock c + is_ttl I"
    and "until \<le> conn_clock c + is_ttl I" and "conn_clock c' < until"
  shows "key = Some k" and "ids.keeping k (is_ttl I) f until c'"
    and "cached = Some v \<Longrightarrow> Q v \<Longrightarrow> answers.keeping Q k (is_ttl I) f until c'"
proof -
  obtain k' c1 reply where bind: "bind_key I k f c = (Ok k', c1)" and get: "redis_call (is_others I) (OHget k' ''settle'') c1 = (Ok reply, c')"
    and res: "key = Some k'" "cached = (case reply of ReplyVal v \<Rightarrow> Some v | _ \<Rightarrow> None)"
    using assms(1,3) by (auto simp: get_cached_def bind_identifier_def cbind_clift run_simps assms(4,5))
  have obey: "ids.obeys k (is_ttl I) f (is_others I n)" for n
    by (rule answers_obey [OF assms(2)])
  have "advances conn_clock (bind_key I k f)"
    unfolding bind_key_def by (intro advances_rules)
  note clock = advancesD [OF this bind] advancesD [OF redis_call_advances get]
  have "conn_clock c1 < late"
    using clock assms(7) by simp
  note b = bind_key_binds [OF bind obey assms(6) this assms(8)]
  show "key = Some k"
    using b(2) res by simp
  have bound: "ids.bound (cn_db c1) k until f"
    using b(1) clock assms(9) unfolding ids.bound_def db_holds_def by (fastforce split: option.splits)
  have early: "until \<le> conn_clock c1 + is_ttl I"
    using clock assms(9) by simp
  note call = ids.call_bound [OF get [unfolded b(2)] bound obey _ assms(10) early]
  show "ids.keeping k (is_ttl I) f until c'"
    using call(1) clock early by (simp add: ids.keeping_def)
  assume "cached = Some v" "Q v"
  then have reply: "reply = ReplyVal v"
    using res by (auto split: redis_reply.splits)
  obtain db where db: "ids.bound db k until f" "db_clock db < until" "redis_exec (OHget k ''settle'') db = (reply, cn_db c')"
    using call(2) by (auto split: if_splits)
  then obtain h t where h: "db_entries db k = Some (RHash h, t)" "map_of h ''fingerprint'' = Some (PStr f)"
    "case t of None \<Rightarrow> True | Some u \<Rightarrow> until \<le> u"
    by (auto simp: ids.bound_def db_holds_def hash_fingerprint_Some)
  then have "hash_fields db k = Some (h, t)"
    using db(2) by (cases t) (auto simp: hash_fields_def db_live_def)
  then have "map_of h ''settle'' = Some v" "cn_db c' = db"
    using db(3) reply by (auto split: option.splits)
  with h \<open>Q v\<close> have "answers.bound Q (cn_db c') k until f"
    by (auto simp: answers.bound_def db_holds_def answer_fingerprint_Some)
  then show "answers.keeping Q k (is_ttl I) f until c'"
    using clock early by (simp add: answers.keeping_def)
qed

lemma identifier_key_apart [simp]:
  "catalog_entry_key E' identity \<noteq> identifier_key E i r" "BAZAAR_INDEX \<noteq> identifier_key E i r"
  by (simp_all add: identifier_key_def catalog_entry_key_def)

lemma ensures_catalog_index:
  assumes "\<And>n. ids.obeys k ttl f (ct_others C n)" and "k = identifier_key E i r"
  shows "ensures (ids.keeping k ttl f until) until (\<lambda>_. True) (catalog_index C payload requirements)"
proof -
  have call: "ensures (ids.keeping k ttl f until) until (\<lambda>_. True) (redis_call (ct_others C) x)" if "writes_to x \<noteq> Some k" for x
    by (rule ids.ensures_call [OF assms(1)]) (use that in \<open>cases x; simp\<close>)+
  show ?thesis
    unfolding catalog_index_def Let_def
    by (auto simp: assms(2) intro!: ensures_any ensures_leaf call [unfolded assms(2)] advances_rules split: sum.splits option.splits)
qed

lemma put_cached_answers:
  assumes "put_cached I (Some k) ''settle'' v c = (Ok (), c')" and "ids.keeping k (is_ttl I) f until c" and "conn_clock c' < until"
    and "\<And>n. answers.obeys Q k (is_ttl I) f (is_others I n)" and "Q v"
  shows "answers.keeping Q k (is_ttl I) f until c'"
proof -
  obtain x c1 y where set: "redis_call (is_others I) (OHset k ''settle'' v) c = (Ok x, c1)"
    and ex: "redis_call (is_others I) (OExpire k (is_ttl I)) c1 = (Ok y, c')"
    using assms(1) by (auto simp: put_cached_def run_simps)
  note clock = advancesD [OF redis_call_advances set] advancesD [OF redis_call_advances ex]
  have c: "ids.bound (cn_db c) k until f" "until \<le> conn_clock c + is_ttl I"
    using assms(2) by (simp_all add: ids.keeping_def)
  have late: "conn_clock c1 < until"
    using clock assms(3) by simp
  obtain db reply where db: "ids.bound db k until f" "db_clock db < until" "redis_exec (OHset k ''settle'' v) db = (reply, cn_db c1)"
    using ids.call_bound(2) [OF set c(1) answers_obey [OF assms(4)] _ late c(2)] by auto
  obtain h t where h: "db_live db k = Some (RHash h, t)" "map_of h ''fingerprint'' = Some (PStr f)"
    "case t of None \<Rightarrow> True | Some u \<Rightarrow> until \<le> u"
    using db_holds_live [OF db(1) [unfolded ids.bound_def] db(2)] by (auto simp: hash_fingerprint_Some)
  then have "cn_db c1 = db_put k (RHash (dset ''settle'' v h), t) db"
    using db(3) by (auto simp: hash_fields_def)
  then have "answers.bound Q (cn_db c1) k until f"
    using h assms(5) by (auto simp: answers.bound_def db_holds_def db_put_def answer_fingerprint_Some map_of_dset)
  then have "answers.keeping Q k (is_ttl I) f until c1"
    using clock c(2) by (simp add: answers.keeping_def)
  then show ?thesis
    using ensuresD [OF answer_calls(3) [OF assms(4)] ex _ assms(3)] by blast
qed


section \<open>The settle endpoint\<close>

text \<open>The wire models of the SDK: a response survives \<open>model_dump\<close> and \<open>model_validate\<close>, and its
  error reason is the field \<open>errorReason\<close>.\<close>

definition faithful_models :: "'s framework \<Rightarrow> bool" where
  "faithful_models S \<longleftrightarrow> (\<forall>x. sdk_load S (PDict (sdk_dump S x)) = Inr x \<and>
     dget (sdk_dump S x) ''errorReason'' = (case sr_error_reason (as_response x) of None \<Rightarrow> PNone | Some r \<Rightarrow> PStr r))"

text \<open>A cached value that the endpoint answers with a given result.\<close>

definition same_answer :: "'s framework \<Rightarrow> api_settlement \<Rightarrow> pyval \<Rightarrow> bool" where
  "same_answer S result v \<longleftrightarrow> terminal_cached (Some v) = Inr True \<and> sdk_load S v = Inr result"

definition endpoint_ready :: "'s api \<Rightarrow> api_request \<Rightarrow> bool" where
  "endpoint_ready A request \<longleftrightarrow> (\<exists>g. require_gateway request = Inr g) \<and>
     \<not> sdk_rate_exceeded (ap_sdk A) ''20/minute'' (payment_rate_limit_key request)"

lemma endpoint_parsed:
  "endpoint_ready A request \<Longrightarrow> parse_request A raw = Inr parsed \<Longrightarrow> settle_endpoint A raw request w = settle_parsed A parsed w"
  by (auto simp: endpoint_ready_def settle_endpoint_def limited_def cbind_clift)

lemma on_redis_advances [advances_rules]: "advances conn_clock m \<Longrightarrow> advances (\<lambda>w. conn_clock (aw_conn w)) (on_redis m)"
  unfolding advances_def on_redis_def by (metis (no_types, lifting) api_world.select_convs(1) api_world.surjective api_world.update_convs(1) case_prod_beta snd_conv)

lemma on_fac_advances [advances_rules]: "advances (\<lambda>w. conn_clock (aw_conn w)) (on_fac m)"
  by (simp add: advances_def on_fac_def split: prod.splits)

lemma catalog_index_advances [advances_rules]: "advances conn_clock (catalog_index C payload requirements)"
  unfolding catalog_index_def Let_def by (auto intro!: advances_rules split: sum.splits option.splits)

lemma settle_fresh_advances [advances_rules]: "advances (\<lambda>w. conn_clock (aw_conn w)) (settle_fresh A parsed key)"
  unfolding settle_fresh_def catalog_settlement_def Let_def by (intro advances_rules)

text \<open>What follows the look at the cache.\<close>

abbreviation settle_rest ::
  "'s api \<Rightarrow> facilitator_request \<Rightarrow> string option \<times> pyval option \<Rightarrow> ('s, api_settlement \<times> (string \<times> string) list) api_cmd" where
  "settle_rest A parsed kc \<equiv> (case kc of (cache_key, cached) \<Rightarrow>
     cbind (clift (terminal_cached cached)) (\<lambda>replay.
       if replay then cbind (clift (sdk_load (ap_sdk A) (the cached))) (\<lambda>response. creturn (response, []))
       else settle_fresh A parsed cache_key))"

lemma settle_rest_advances: "advances (\<lambda>w. conn_clock (aw_conn w)) (settle_rest A parsed kc)"
  by (intro advances_rules)

lemma catalog_settlement_run:
  assumes "catalog_settlement A parsed response w = (Ok (result, headers), w')"
    and "\<And>n. ids.obeys k ttl f (ct_others (ap_catalog A) n)" and "k = identifier_key E i r"
    and "ids.keeping k ttl f until (aw_conn w)" and "conn_clock (aw_conn w') < until"
  shows "as_response result = response" and "ids.keeping k ttl f until (aw_conn w')"
  using assms(1,4,5) ensuresD [OF ensures_catalog_index [OF assms(2,3)]]
  by (auto simp: catalog_settlement_def Let_def run_simps on_redis_eq split: if_splits)

lemma fresh_answers:
  assumes "settle_fresh A parsed (Some k) w = (Ok (result, headers), w1)"
    and "Q = same_answer (ap_sdk A) result" and "I = ap_identifiers A" and "k = identifier_key E i r"
    and "\<And>n. answers.obeys Q k (is_ttl I) f (is_others I n)" and "\<And>n. answers.obeys Q k (is_ttl I) f (ct_others (ap_catalog A) n)"
    and "ids.keeping k (is_ttl I) f until (aw_conn w)" and "conn_clock (aw_conn w1) < until"
    and "sr_error_reason (as_response result) \<noteq> Some ''settlement_pending''" and "faithful_models (ap_sdk A)"
  shows "answers.keeping Q k (is_ttl I) f until (aw_conn w1)"
proof -
  let ?v = "PDict (sdk_dump (ap_sdk A) result)"
  obtain response wb wc where fac: "on_fac (facilitator_settle A (fr_payment_payload parsed) (fr_payment_requirements parsed)) w = (Ok response, wb)"
    and cat: "catalog_settlement A parsed response wb = (Ok (result, headers), wc)"
    and put: "(if sr_error_reason response \<noteq> Some ''settlement_pending''
              then on_redis (put_cached I (Some k) ''settle'' ?v) else creturn ()) wc = (Ok (), w1)"
    using assms(1) unfolding settle_fresh_def assms(3) by (auto simp: cbind_Ok creturn_Ok)
  have conn: "aw_conn wb = aw_conn w"
    using fac by (auto simp: on_fac_def split: prod.splits)
  have response: "as_response result = response"
    using cat by (auto simp: catalog_settlement_def Let_def run_simps split: if_splits)
  then have run: "put_cached I (Some k) ''settle'' ?v (aw_conn wc) = (Ok (), aw_conn w1)"
    using put assms(9) by (auto simp: on_redis_eq)
  have "conn_clock (aw_conn wc) < until"
    using advancesD [OF put_cached_advances run] assms(8) by simp
  then have "ids.keeping k (is_ttl I) f until (aw_conn wc)"
    using catalog_settlement_run(2) [OF cat answers_obey [OF assms(6)] assms(4)] assms(7) by (simp add: conn)
  moreover have "Q ?v"
    using assms(9,10) by (cases "sr_error_reason (as_response result)")
      (auto simp: assms(2) same_answer_def faithful_models_def terminal_cached_def vget_def)
  ultimately show ?thesis
    using put_cached_answers [OF run _ assms(8,5)] by blast
qed

lemma settle_endpoint_answers:
  assumes "settle_endpoint A raw request w = (Ok (result, headers), w1)" and "parse_request A raw = Inr parsed"
    and "Q = same_answer (ap_sdk A) result" and "I = ap_identifiers A"
    and "checked_identifier (is_pid I) (fr_payment_payload parsed) = Inr (Some i)"
    and "k = identifier_key (is_ext I) i (fr_payment_requirements parsed)"
    and "f = requirements_fingerprint (is_ext I) (fr_payment_payload parsed) (fr_payment_requirements parsed)"
    and "\<And>n. answers.obeys Q k (is_ttl I) f (is_others I n)" and "\<And>n. answers.obeys Q k (is_ttl I) f (ct_others (ap_catalog A) n)"
    and "expires_late (cn_db (aw_conn w)) k (conn_clock (aw_conn w1) + 1)"
    and "until = conn_clock (aw_conn w) + is_ttl I" and "conn_clock (aw_conn w1) < until"
    and "sr_error_reason (as_response result) \<noteq> Some ''settlement_pending''" and "faithful_models (ap_sdk A)"
  shows "answers.keeping Q k (is_ttl I) f until (aw_conn w1)"
proof -
  have "settle_parsed A parsed w = (Ok (result, headers), w1)"
    using assms(1,2) by (auto simp: settle_endpoint_def limited_def run_simps split: if_splits)
  then obtain key cached wa where get: "on_redis (get_cached I ''settle'' (fr_payment_payload parsed) (fr_payment_requirements parsed)) w = (Ok (key, cached), wa)"
    and rest: "settle_rest A parsed (key, cached) wa = (Ok (result, headers), w1)"
    unfolding settle_parsed_def assms(4) cbind_Ok by (metis (no_types, lifting) surj_pair)
  then obtain replay where replay: "terminal_cached cached = Inr replay"
    and tail: "(if replay then cbind (clift (sdk_load (ap_sdk A) (the cached))) (\<lambda>response. creturn (response, []))
       else settle_fresh A parsed key) wa = (Ok (result, headers), w1)"
    by (auto simp: run_simps)
  have run: "get_cached I ''settle'' (fr_payment_payload parsed) (fr_payment_requirements parsed) (aw_conn w) = (Ok (key, cached), aw_conn wa)"
    using get by (auto simp: on_redis_def split: prod.splits)
  have clock: "conn_clock (aw_conn wa) \<le> conn_clock (aw_conn w1)"
    by (rule advancesD [OF settle_rest_advances rest])
  then have "conn_clock (aw_conn wa) < conn_clock (aw_conn w1) + 1" "conn_clock (aw_conn w1) + 1 \<le> conn_clock (aw_conn w) + is_ttl I"
    "until \<le> conn_clock (aw_conn w) + is_ttl I" "conn_clock (aw_conn wa) < until"
    using assms(11,12) by simp_all
  note got = get_cached_first [OF run assms(8,5-7,10) this]
  show ?thesis
  proof (cases replay)
    case True
    then obtain v where v: "cached = Some v"
      using replay by (auto simp: terminal_cached_def split: option.splits)
    then have "w1 = wa" "Q v"
      using tail True replay by (auto simp: run_simps assms(3) same_answer_def)
    then show ?thesis
      using got(3) [OF v] by simp
  next
    case False
    then have "settle_fresh A parsed (Some k) wa = (Ok (result, headers), w1)"
      using tail got(1) by simp
    then show ?thesis
      by (rule fresh_answers [OF _ assms(3,4,6,8,9) got(2) assms(12-14)])
  qed
qed

text \<open>C24. A final settlement answer is given once and repeated. Let the settle endpoint answer a request
  with a payment identifier, and let the answer not be pending. Until the time to live of the
  identifier has passed since that request began, a retry of the request gets the same answer from
  the cache, without consulting the settlement store or the ledger. Before every command of the two
  requests and between them any time may pass, and the other workers may run any commands on other
  keys and any commands of this protocol on the identifier, other requests with the same
  identifier included, with one exception: none records a different final answer under it. Two
  requests of one identifier that are in flight together may do that, because an answer is written
  without looking for an earlier one. The first request has to end before the entry that it found
  under the identifier, if any, expires.
\<close>

theorem settle_endpoint_replays:
  assumes "settle_endpoint A raw request w = (Ok (result, headers), w1)" and "parse_request A raw = Inr parsed"
    and "I = ap_identifiers A" and "checked_identifier (is_pid I) (fr_payment_payload parsed) = Inr (Some i)"
    and "k = identifier_key (is_ext I) i (fr_payment_requirements parsed)"
    and "f = requirements_fingerprint (is_ext I) (fr_payment_payload parsed) (fr_payment_requirements parsed)"
    and "sr_error_reason (as_response result) \<noteq> Some ''settlement_pending''" and "faithful_models (ap_sdk A)"
    and "Q = same_answer (ap_sdk A) result"
    and "\<And>n. answers.obeys Q k (is_ttl I) f (is_others I n)" and "\<And>n. answers.obeys Q k (is_ttl I) f (ct_others (ap_catalog A) n)"
    and "answers.obeys Q k (is_ttl I) f es"
    and "\<And>v t. db_entries (cn_db (aw_conn w)) k = Some (v, Some t) \<Longrightarrow>
      t \<le> db_clock (cn_db (aw_conn w)) \<or> db_clock (cn_db (aw_conn w1)) < t"
    and "cn_db (aw_conn w') = db_run es (cn_db (aw_conn w1))" and "endpoint_ready A request'"
    and "settle_endpoint A raw request' w' = (out, w2)"
    and "db_clock (cn_db (aw_conn w2)) < db_clock (cn_db (aw_conn w)) + is_ttl I"
  shows "out = Ok (result, []) \<and> aw_fac w2 = aw_fac w'"
proof -
  let ?until = "conn_clock (aw_conn w) + is_ttl I"
  let ?get = "get_cached I ''settle'' (fr_payment_payload parsed) (fr_payment_requirements parsed)"
  obtain r c where get: "?get (aw_conn w') = (r, c)" by fastforce
  then have on: "on_redis ?get w' = (r, w'\<lparr>aw_conn := c\<rparr>)"
    by (simp add: on_redis_def)
  have parsed: "settle_parsed A parsed w' = (out, w2)"
    using endpoint_parsed [OF assms(15,2)] assms(16) by simp
  have late: "conn_clock c \<le> conn_clock (aw_conn w2)"
  proof (cases r)
    case (Ok kc)
    then have "settle_rest A parsed kc (w'\<lparr>aw_conn := c\<rparr>) = (out, w2)"
      using parsed on unfolding settle_parsed_def assms(3) [symmetric] by (simp only: cbind_step)
    from advancesD [OF settle_rest_advances this] show ?thesis by simp
  qed (use parsed on in \<open>auto simp: settle_parsed_def cbind_def simp flip: assms(3)\<close>)
  have until: "conn_clock (aw_conn w1) < ?until" "conn_clock (aw_conn w') < ?until"
    using db_clock_run [of "cn_db (aw_conn w1)" es] advancesD [OF get_cached_advances get] late assms(14,17) by simp_all
  have "expires_late (cn_db (aw_conn w)) k (conn_clock (aw_conn w1) + 1)"
    using assms(13) by (force simp: expires_late_def)
  note first = settle_endpoint_answers [OF assms(1,2,9,3,4-6,10,11) this refl until(1) assms(7,8)]
  have "answers.keeping Q k (is_ttl I) f ?until (aw_conn w')"
    using first answers.bound_run [of Q "cn_db (aw_conn w1)" k ?until f es "is_ttl I"] assms(12) until(2)
      db_clock_run [of "cn_db (aw_conn w1)" es] by (simp add: answers.keeping_def assms(14))
  from ensuresD [OF get_cached_answered [OF assms(10,4-6)] get this] late assms(17)
  obtain v where v: "r = Ok (Some k, Some v)" "Q v"
    by auto
  then show ?thesis
    using parsed on by (auto simp: settle_parsed_def cbind_step cbind_clift assms(9) same_answer_def creturn_def simp flip: assms(3))
qed

section \<open>Witness\<close>

text \<open>A store without other users, on which no time passes.\<close>

definition quiet :: "interference \<Rightarrow> bool" where
  "quiet others \<longleftrightarrow> (\<forall>n. others n = [])"

lemma keeps_quiet_clock: "quiet others \<Longrightarrow> keeps conn_clock (redis_call others x)"
  by (rule keepsI) (simp add: redis_call_def Let_def split_beta redis_exec_clock quiet_def)

lemma keeps_on_clock:
  "keeps conn_clock m \<Longrightarrow> keeps (\<lambda>w. conn_clock (aw_conn w)) (on_redis m)"
  "keeps (\<lambda>w. conn_clock (aw_conn w)) (on_fac n)"
  by (simp_all add: keeps_def on_redis_def on_fac_def split: prod.splits) (metis prod.collapse snd_conv)

lemma keeps_case_prod: "(\<And>a b. keeps g (n a b)) \<Longrightarrow> keeps g (case v of (a, b) \<Rightarrow> n a b)"
  by (cases v) simp

lemma keeps_endpoint_clock:
  assumes "quiet (is_others (ap_identifiers A))" and "quiet (ct_others (ap_catalog A))"
  shows "keeps (\<lambda>w. conn_clock (aw_conn w)) (settle_endpoint A raw request)"
proof -
  have "keeps conn_clock (catalog_index (ap_catalog A) p r)" for p r
    unfolding catalog_index_def Let_def
    by (auto intro!: keeps_rules keeps_quiet_clock assms split: sum.splits option.splits)
  moreover have "keeps conn_clock (get_cached (ap_identifiers A) stage p r)" for stage p r
    unfolding get_cached_def bind_identifier_def bind_key_def
    by (auto intro!: keeps_rules keeps_quiet_clock assms)
  moreover have "keeps conn_clock (put_cached (ap_identifiers A) key stage v)" for key stage v
    unfolding put_cached_def by (auto intro!: keeps_rules keeps_quiet_clock assms)
  ultimately show ?thesis
    unfolding settle_endpoint_def limited_def settle_parsed_def settle_fresh_def catalog_settlement_def Let_def
    by (auto intro!: keeps_rules keeps_on_clock keeps_case_prod)
qed

text \<open>A request whose signed blob is missing: the scheme refuses it, and the refusal is replayed.\<close>

abbreviation gateway_request :: api_request where
  "gateway_request \<equiv> sample_request\<lparr>rq_gateway := Some \<lparr>gateway_id = DEFAULT_SINGLE_GATEWAY_ID\<rparr>\<rparr>"

abbreviation sample_parsed :: facilitator_request where
  "sample_parsed \<equiv> \<lparr>fr_x402_version = 2, fr_payment_payload = small_payload [], fr_payment_requirements = small_requirements\<rparr>"

lemma sample_api_parts:
  "ap_identifiers sample_api = sample_ids" "quiet (is_others sample_ids)" "quiet (ct_others (ap_catalog sample_api))"
  "is_ttl sample_ids = 300" "faithful_models (ap_sdk sample_api)" "endpoint_ready sample_api gateway_request"
  by (simp_all add: sample_api_def sample_framework_def sample_ids_def quiet_def sample_catalog_def faithful_models_def sample_load_dump
      endpoint_ready_def require_gateway_def sample_request_def) (simp_all add: sample_dump_def str_or_none_def Let_def)

lemma sample_parse: "parse_request sample_api [] = Inr sample_parsed"
  by (simp add: parse_request_def validate_canonical_wire_fields_def reject_unexpected_fields_def validate_requirements_fields_def
      Let_def sample_api_def sample_framework_def small_payload_def)

lemma sample_settled:
  "\<exists>r. facilitator_settle sample_api (small_payload []) small_requirements f = (Ok r, f)
     \<and> sr_success r = False \<and> sr_error_reason r = Some ''invalid_exact_xrpl_payload''"
  by (simp add: facilitator_settle_def sample_api_def sample_framework_def settle_def blob_and_hash_def exact_xrpl_payload_def
      ExactXRPLPayload_validate_def small_payload_def settle_error_def creturn_def)

lemma sample_get_cached:
  "\<exists>c. get_cached sample_ids ''settle'' (small_payload []) small_requirements sample_conn = (Ok (Some sample_key, None), c)
     \<and> (\<exists>h t. hash_fields (cn_db c) sample_key = Some (h, t))"
  using sample_api_parts(2)
  by (simp add: get_cached_def sample_bind cbind_def creturn_def redis_call_def quiet_def hash_fields_def db_live_def Let_def)

lemma sample_put_cached:
  assumes "hash_fields (cn_db c) key = Some (h, t)"
  shows "\<exists>c'. put_cached sample_ids (Some key) ''settle'' v c = (Ok (), c')"
  using sample_api_parts(2) assms
  by (auto simp: put_cached_def cbind_def creturn_def redis_call_def quiet_def Let_def split: option.splits)

lemma sample_settle_run:
  "\<exists>r w. settle_endpoint sample_api [] gateway_request sample_world = (Ok (\<lparr>as_response = r, as_extensions = None\<rparr>, []), w)
     \<and> sr_error_reason r = Some ''invalid_exact_xrpl_payload''"
proof -
  obtain r where r: "facilitator_settle sample_api (small_payload []) small_requirements (aw_fac sample_world) = (Ok r, aw_fac sample_world)"
    "sr_success r = False" "sr_error_reason r = Some ''invalid_exact_xrpl_payload''"
    using sample_settled by blast
  obtain c h t where c: "get_cached sample_ids ''settle'' (small_payload []) small_requirements sample_conn = (Ok (Some sample_key, None), c)"
    "hash_fields (cn_db c) sample_key = Some (h, t)"
    using sample_get_cached by blast
  obtain c' where c': "put_cached sample_ids (Some sample_key) ''settle'' (PDict (sample_dump \<lparr>as_response = r, as_extensions = None\<rparr>)) c = (Ok (), c')"
    using sample_put_cached [OF c(2)] by blast
  let ?w = "sample_world\<lparr>aw_conn := c\<rparr>"
  have "on_redis (get_cached sample_ids ''settle'' (small_payload []) small_requirements) sample_world = (Ok (Some sample_key, None), ?w)"
    "on_fac (facilitator_settle sample_api (small_payload []) small_requirements) ?w = (Ok r, ?w)"
    "on_redis (put_cached sample_ids (Some sample_key) ''settle'' (PDict (sample_dump \<lparr>as_response = r, as_extensions = None\<rparr>))) ?w
       = (Ok (), ?w\<lparr>aw_conn := c'\<rparr>)"
    using c(1) r(1) c' by (simp_all add: on_redis_eq on_fac_eq) (simp_all add: sample_world_def)
  moreover have "sdk_dump (ap_sdk sample_api) = sample_dump"
    by (simp add: sample_api_def sample_framework_def)
  ultimately have "settle_parsed sample_api sample_parsed sample_world = (Ok (\<lparr>as_response = r, as_extensions = None\<rparr>, []), ?w\<lparr>aw_conn := c'\<rparr>)"
    using r(2,3) by (simp add: settle_parsed_def settle_fresh_def sample_api_parts(1) terminal_cached_def clift_def
        catalog_settlement_def creturn_def cbind_def)
  then show ?thesis
    using sample_api_parts(6) sample_parse r(3) by (auto simp: settle_endpoint_def limited_def endpoint_ready_def cbind_clift)
qed

theorem settle_endpoint_replays_witness:
  "\<exists>result w1 w2. settle_endpoint sample_api [] gateway_request sample_world = (Ok (result, []), w1)
    \<and> settle_endpoint sample_api [] gateway_request (w1\<lparr>aw_conn := (aw_conn w1)\<lparr>cn_db := db_run [RTick 299] (cn_db (aw_conn w1))\<rparr>\<rparr>)
      = (Ok (result, []), w2) \<and> aw_fac w2 = aw_fac w1"
proof -
  obtain r w1 where run: "settle_endpoint sample_api [] gateway_request sample_world = (Ok (\<lparr>as_response = r, as_extensions = None\<rparr>, []), w1)"
    and reason: "sr_error_reason r = Some ''invalid_exact_xrpl_payload''"
    using sample_settle_run by blast
  let ?w = "w1\<lparr>aw_conn := (aw_conn w1)\<lparr>cn_db := db_run [RTick 299] (cn_db (aw_conn w1))\<rparr>\<rparr>"
  obtain out w2 where again: "settle_endpoint sample_api [] gateway_request ?w = (out, w2)" by fastforce
  have quiet: "quiet (is_others (ap_identifiers sample_api))" "quiet (ct_others (ap_catalog sample_api))"
    using sample_api_parts by simp_all
  have clock: "conn_clock (aw_conn w1) = 0" "conn_clock (aw_conn w2) = 299"
    using keepsD [OF keeps_endpoint_clock [OF quiet] run] keepsD [OF keeps_endpoint_clock [OF quiet] again]
    by (simp_all add: sample_world_def sample_conn_def)
  have obey: "answers.obeys Q k t f (is_others (ap_identifiers sample_api) n)" "answers.obeys Q k t f (ct_others (ap_catalog sample_api) n)"
    "answers.obeys Q k t f [RTick 299]" for Q k t f n
    using quiet by (simp_all add: answers.obeys_def quiet_def)
  have "out = Ok (\<lparr>as_response = r, as_extensions = None\<rparr>, []) \<and> aw_fac w2 = aw_fac ?w"
  proof (rule settle_endpoint_replays [OF run sample_parse refl _ refl refl _ sample_api_parts(5) refl obey _ _ sample_api_parts(6) again])
    show "checked_identifier (is_pid (ap_identifiers sample_api)) (fr_payment_payload sample_parsed) = Inr (Some ''order-1'')"
      by (simp add: sample_api_parts sample_checked)
  qed (use clock in \<open>simp_all add: reason sample_api_parts sample_world_def sample_conn_def\<close>)
  then show ?thesis
    using run again by auto
qed

end
