(* ===== verification/Numerals.thy ===== *)
theory Numerals
  imports Protocol PyDecimal
begin

text \<open>
  Printed numbers: the digits of \<open>str\<close> denote the number, have no leading zero, and \<open>format(d, "f")\<close> of a
  positive decimal, with trailing zeros cut, is a plain amount of the same value.
\<close>

section \<open>Digits\<close>

lemma digits_val_append: "digits_val (s @ [c]) = 10 * digits_val s + digit_val c"
  by (simp add: digits_val_def)

lemma digit_char_val: "d < 10 \<Longrightarrow> digit_val (digit_char d) = d" "d < 10 \<Longrightarrow> is_digit (digit_char d)"
  by (simp_all add: digit_val_def digit_char_def is_digit_def ord_c_def)

lemma show_nat_digits: "digits_val (show_nat n) = n \<and> isdigit (show_nat n)"
proof (induction n rule: show_nat.induct)
  case (1 n)
  show ?case
  proof (cases "n < 10")
    case True
    then show ?thesis
      by (simp add: show_nat.simps [of n] isdigit_def digit_char_val) (simp add: digits_val_def digit_char_val)
  next
    case False
    then show ?thesis
      using 1 by (simp add: show_nat.simps [of n] isdigit_def digits_val_append digit_char_val)
  qed
qed

lemma length_show_nat: "n < 10 ^ k \<Longrightarrow> 0 < k \<Longrightarrow> length (show_nat n) \<le> k"
proof (induction k arbitrary: n)
  case (Suc k)
  show ?case
  proof (cases "n < 10")
    case False
    then have "0 < k"
      using Suc.prems(1) by (cases k) auto
    moreover have "n div 10 < 10 ^ k"
      using Suc.prems(1) by (simp add: less_mult_imp_div_less)
    ultimately show ?thesis
      using Suc.IH [of "n div 10"] False by (simp add: show_nat.simps [of n])
  qed (simp add: show_nat.simps [of n])
qed simp

lemma digits_val_concat: "digits_val (a @ b) = digits_val a * 10 ^ length b + digits_val b"
proof (induction b rule: rev_induct)
  case (snoc c b)
  have "digits_val (a @ b @ [c]) = 10 * digits_val (a @ b) + digit_val c"
    using digits_val_append [of "a @ b" c] by simp
  then show ?case
    using snoc by (simp add: digits_val_append algebra_simps)
qed (simp add: digits_val_def)

lemma digit_zero: "digit_val (CHR ''0'') = 0" "is_digit (CHR ''0'')"
  by (simp_all add: digit_val_def is_digit_def ord_c_def)

lemma digits_val_zeros: "digits_val (replicate k (CHR ''0'')) = 0"
  by (induction k) (simp_all add: digits_val_def digit_zero flip: replicate_append_same)

lemma digits_val_rzeros: "digits_val (s @ replicate k (CHR ''0'')) = digits_val s * 10 ^ k"
  by (simp add: digits_val_concat digits_val_zeros)

lemma digits_val_lzeros: "digits_val (replicate k (CHR ''0'') @ s) = digits_val s"
  by (simp add: digits_val_concat digits_val_zeros)

lemma digit_char_zero: "d < 10 \<Longrightarrow> digit_char d = CHR ''0'' \<longleftrightarrow> d = 0"
proof -
  have "digit_char 0 = CHR ''0''"
    using char_of_ord_c [of "CHR ''0''"] by (simp add: digit_char_def ord_c_def)
  then show "d < 10 \<Longrightarrow> digit_char d = CHR ''0'' \<longleftrightarrow> d = 0"
    using digit_char_val(1) [of d] digit_zero(1) by auto
qed

lemma show_nat_hd: "0 < n \<Longrightarrow> hd (show_nat n) \<noteq> CHR ''0''"
proof (induction n rule: show_nat.induct)
  case (1 n)
  show ?case
  proof (cases "n < 10")
    case True
    then show ?thesis
      using 1 digit_char_zero by (simp add: show_nat.simps [of n])
  next
    case False
    then have "show_nat (n div 10) \<noteq> []"
      using show_nat_digits [of "n div 10"] by (auto simp: isdigit_def)
    then show ?thesis
      using 1 False by (simp add: show_nat.simps [of n])
  qed
qed

lemma canonical_show_nat: "0 < n \<Longrightarrow> canonical_nat (show_nat n)"
  using show_nat_digits show_nat_hd by (simp add: canonical_nat_def)


section \<open>Plain amounts\<close>

text \<open>An integer part and perhaps a fraction, and the decimal they denote.\<close>

lemma plain_amount:
  assumes "canonical_nat a" and "list_all is_digit f"
  shows "decimal_amount a \<and> parse_decimal a = Some (DFin False (digits_val a) 0)"
    and "f \<noteq> [] \<Longrightarrow> decimal_amount (a @ CHR ''.'' # f)
      \<and> parse_decimal (a @ CHR ''.'' # f) = Some (DFin False (digits_val (a @ f)) (- int (length f)))"
proof -
  have a: "list_all is_digit a" "a \<noteq> []" "is_digit (hd a)"
    using assms(1) by (auto simp: canonical_nat_def isdigit_def list_all_iff digit_zero)
  have chars: "list_all amount_char a" "list_all amount_char (a @ CHR ''.'' # f)"
    using a(1) assms(2) by (auto simp: list_all_iff amount_char_def)
  show "decimal_amount a \<and> parse_decimal a = Some (DFin False (digits_val a) 0)"
    using assms(1) a parse_decimal_plain [OF chars(1)] parse_finite_plain(1) [OF a(1,2), of "[]" False]
    by (simp add: decimal_amount_def takeWhile_all)
  assume "f \<noteq> []"
  then show "decimal_amount (a @ CHR ''.'' # f)
      \<and> parse_decimal (a @ CHR ''.'' # f) = Some (DFin False (digits_val (a @ f)) (- int (length f)))"
    using assms a parse_decimal_plain [OF chars(2)] parse_finite_plain(2) [OF a(1,2) assms(2), of False]
    by (simp add: decimal_amount_def takeWhile_digits_append dot_props isdigit_def)
qed

lemma rstrip_zeros_split:
  obtains k where "s = rstrip_by (\<lambda>x. x = c) s @ replicate k c" and "rstrip_by (\<lambda>x. x = c) s = [] \<or> last (rstrip_by (\<lambda>x. x = c) s) \<noteq> c"
proof -
  let ?t = "takeWhile (\<lambda>x. x = c) (rev s)"
  have "s = rstrip_by (\<lambda>x. x = c) s @ rev ?t"
    by (simp add: rstrip_by_def flip: rev_append)
  moreover have "?t = replicate (length ?t) c"
    by (rule replicate_eqI [symmetric, THEN sym]) (auto dest: set_takeWhileD)
  then have "rev ?t = replicate (length ?t) c"
    by (metis rev_replicate)
  ultimately have "s = rstrip_by (\<lambda>x. x = c) s @ replicate (length ?t) c"
    by simp
  then show thesis
    using rstrip_by_last [of "\<lambda>x. x = c" s] that by blast
qed

section \<open>Comparing amounts\<close>

lemma dec_cmp_sign:
  assumes "is_finite a" and "is_finite b" and "dec_cmp a b = Inr c"
  shows "c = (if c < 0 then - 1 else if c = 0 then 0 else 1)"
  using assms by (cases a; cases b) (auto simp: cmp_int_def split: if_splits)

lemma dec_cmp_exact:
  assumes "is_finite a" and "is_finite b"
  shows "dec_cmp a b = Inr (if dec_val a < dec_val b then - 1 else if dec_val a = dec_val b then 0 else 1)"
proof -
  obtain c where c: "dec_cmp a b = Inr c" "c < 0 \<longleftrightarrow> dec_val a < dec_val b" "c = 0 \<longleftrightarrow> dec_val a = dec_val b"
    using dec_cmp_finite [OF assms] by metis
  show ?thesis
    using dec_cmp_sign [OF assms c(1)] c by (simp split: if_splits)
qed

text \<open>C31. Amount strings are compared by value: for amounts that denote finite numbers the comparison of the
  code, which aligns exponents and compares integers, is the comparison of the rational numbers they
  denote, so amounts written differently are equal when their values are.
\<close>

theorem compare_decimal_strings_exact:
  assumes "parse_decimal left = Some a" and "parse_decimal right = Some b" and "is_finite a" and "is_finite b"
  shows "compare_decimal_strings left right =
    Inr (if dec_val a < dec_val b then - 1 else if dec_val a = dec_val b then 0 else 1)"
  using assms by (simp add: compare_decimal_strings_def dec_cmp_exact)

theorem compare_decimal_strings_exact_witness: "compare_decimal_strings ''1.50'' ''15E-1'' = Inr 0"
proof -
  have "parse_decimal ''1.50'' = Some (DFin False 150 (- 2))" "parse_decimal ''15E-1'' = Some (DFin False 15 (- 1))"
    by code_simp+
  from compare_decimal_strings_exact [OF this] show ?thesis
    by (simp add: signed_def power_int_minus)
qed

end
