(* ===== verification/ApiDiscovery.thy ===== *)
theory ApiDiscovery
  imports FacilitatorApi Numerals
begin

text \<open>
  The discovery endpoints: cursors are decoded to the offsets they encode, and following the cursors of
  the search endpoint enumerates the matching part of the catalog.
\<close>

section \<open>Cursors\<close>

lemma b64encode_nonempty: "s \<noteq> [] \<Longrightarrow> b64encode s \<noteq> []"
  by (cases s rule: b64encode.cases) simp_all

text \<open>The offsets that fit CPython's limit on the digits of an integer literal.\<close>

definition CURSOR_LIMIT :: int where
  "CURSOR_LIMIT = 10 ^ 4300"

lemma decode_encode_digits:
  assumes "0 \<le> n" and "n < 10 ^ d" and "0 < d" and "d \<le> 4300"
  shows "decode_cursor (Some (encode_cursor n)) = Inr n"
proof -
  have digits: "show_int n = show_nat (nat n)" "isdigit (show_nat (nat n))" "digits_val (show_nat (nat n)) = nat n"
    using assms(1) show_nat_digits [of "nat n"] by (simp_all add: show_int_def)
  have "nat n < 10 ^ d"
    using assms(1,2) by (simp add: nat_less_iff)
  then have "length (show_nat (nat n)) \<le> 4300"
    using length_show_nat [OF _ assms(3)] assms(4) by (meson order_trans)
  then have "int_of_str (show_int n) = Inr n"
    using digits isdigit_int_of_str assms(1) by auto
  moreover have "urlsafe_b64encode (show_int n) \<noteq> []"
    using digits b64encode_nonempty by (simp add: urlsafe_b64encode_def isdigit_def)
  ultimately show ?thesis
    using assms(1) by (simp add: decode_cursor_def encode_cursor_def)
qed

lemma decode_encode_cursor: "0 \<le> n \<Longrightarrow> n < CURSOR_LIMIT \<Longrightarrow> decode_cursor (Some (encode_cursor n)) = Inr n"
  unfolding CURSOR_LIMIT_def by (rule decode_encode_digits [where d = 4300], assumption, assumption, simp (no_asm), simp (no_asm))


section \<open>Following the cursors\<close>

text \<open>A client that asks for page after page.\<close>

fun follow_cursors :: "'s api \<Rightarrow> catalog_query \<Rightarrow> nat \<Rightarrow> string option \<Rightarrow> ('s, pydict list) api_cmd" where
  "follow_cursors A q 0 cursor = cdiverge"
| "follow_cursors A q (Suc n) cursor = cbind (discovery_search A q cursor) (\<lambda>page. case sg_cursor page of
       None \<Rightarrow> creturn (sg_resources page)
     | Some c \<Rightarrow> cbind (follow_cursors A q n (Some c)) (\<lambda>rest. creturn (sg_resources page @ rest)))"

definition search_ok :: "'s api \<Rightarrow> catalog_query \<Rightarrow> bool" where
  "search_ok A q \<longleftrightarrow> ENABLE_BAZAAR (ap_settings A) \<and> 1 \<le> cq_limit q \<and> cq_limit q \<le> 100 \<and> cq_query q \<noteq> None \<and> cq_query q \<noteq> Some []"

lemma discovery_search_quiet:
  assumes "search_ok A q" and "\<forall>n. ct_others (ap_catalog A) n = []" and "wf_catalog (cn_db (aw_conn w))"
    and "decode_cursor cursor = Inr (int k)" and "L = catalog_listing (cn_db (aw_conn w)) q" and "next = k + length (take (nat (cq_limit q)) (drop k L))"
  obtains w' where "discovery_search A q cursor w = (Ok \<lparr>sg_resources = take (nat (cq_limit q)) (drop k L),
      sg_partial_results = next < length L, sg_limit = cq_limit q,
      sg_cursor = (if next < length L then Some (encode_cursor (int next)) else None)\<rparr>, w')"
    "wf_catalog (cn_db (aw_conn w'))" "catalog_listing (cn_db (aw_conn w')) q = L"
proof -
  let ?q = "q\<lparr>cq_offset := int k\<rparr>"
  have others: "\<And>n. ct_others (ap_catalog A) n = []"
    using assms(2) by simp
  obtain c where c: "catalog_list (ap_catalog A) ?q (aw_conn w) = (Ok (page_of ?q L), c)" "wf_catalog (cn_db c)"
    "catalog_listing (cn_db c) q = L"
    using catalog_list_quiet [of "ap_catalog A" "aw_conn w" ?q q, OF others assms(3)] assms(5) by auto
  have "on_redis (catalog_list (ap_catalog A) ?q) w = (Ok (page_of ?q L), w\<lparr>aw_conn := c\<rparr>)"
    using c(1) by (simp add: on_redis_eq)
  moreover have "pg_items (page_of ?q L) = take (nat (cq_limit q)) (drop k L)"
    using assms(1) py_slice_nonneg [of "int k" "cq_limit q" L] by (simp add: page_of_def search_ok_def)
  moreover have "pg_total (page_of ?q L) = int (length L)"
    by (simp add: page_of_def)
  ultimately have "discovery_search A q cursor w = (Ok \<lparr>sg_resources = take (nat (cq_limit q)) (drop k L),
      sg_partial_results = next < length L, sg_limit = cq_limit q,
      sg_cursor = (if next < length L then Some (encode_cursor (int next)) else None)\<rparr>, w\<lparr>aw_conn := c\<rparr>)"
    using assms(1,4) unfolding assms(6)
    by (auto simp: discovery_search_def search_ok_def cbind_clift cbind_step Let_def creturn_def)
  then show thesis
    using that c(2,3) by simp
qed

lemma follow_cursors_from:
  assumes "search_ok A q" and "\<forall>n. ct_others (ap_catalog A) n = []" and "int (length L) < CURSOR_LIMIT"
    and "wf_catalog (cn_db (aw_conn w))" and "catalog_listing (cn_db (aw_conn w)) q = L"
    and "decode_cursor cursor = Inr (int k)" and "length L - k < n"
  shows "\<exists>w'. follow_cursors A q n cursor w = (Ok (drop k L), w')"
  using assms(4-7)
proof (induction n arbitrary: k cursor w)
  case (Suc n)
  let ?page = "take (nat (cq_limit q)) (drop k L)" and ?next = "k + length (take (nat (cq_limit q)) (drop k L))"
  obtain w1 where run: "discovery_search A q cursor w = (Ok \<lparr>sg_resources = ?page, sg_partial_results = ?next < length L,
      sg_limit = cq_limit q, sg_cursor = (if ?next < length L then Some (encode_cursor (int ?next)) else None)\<rparr>, w1)"
    and w1: "wf_catalog (cn_db (aw_conn w1))" "catalog_listing (cn_db (aw_conn w1)) q = L"
    using discovery_search_quiet [OF assms(1,2) Suc.prems(1,3) Suc.prems(2) [symmetric] refl] .
  show ?case
  proof (cases "?next < length L")
    case True
    have limit: "0 < nat (cq_limit q)"
      using assms(1) by (simp add: search_ok_def)
    then have progress: "k < ?next" "?page @ drop ?next L = drop k L"
      using True by (auto simp: min_def) (metis append_take_drop_id drop_drop add.commute)
    have "decode_cursor (Some (encode_cursor (int ?next))) = Inr (int ?next)"
      using True assms(3) by (intro decode_encode_cursor) auto
    moreover have "length L - ?next < n"
      using progress(1) Suc.prems(4) True by linarith
    ultimately obtain w' where "follow_cursors A q n (Some (encode_cursor (int ?next))) w1 = (Ok (drop ?next L), w')"
      using Suc.IH [OF w1] by blast
    then show ?thesis
      using run True progress(2) by (simp add: cbind_step creturn_def)
  next
    case False
    then have "?page = drop k L"
      by (auto simp: min_def split: if_splits)
    then show ?thesis
      using run False by (simp add: cbind_step creturn_def)
  qed
qed simp

text \<open>C28. Searching is complete: a client that follows the cursors of the search endpoint from the first
  page gets every matching entry of the catalog exactly once, in the catalog's order, after at most one
  page more than there are entries, provided that the catalog does not change meanwhile.
\<close>

theorem search_enumerates_catalog:
  assumes "search_ok A q" and "\<forall>n. ct_others (ap_catalog A) n = []" and "wf_catalog (cn_db (aw_conn w))"
    and "L = catalog_listing (cn_db (aw_conn w)) q" and "int (length L) < CURSOR_LIMIT"
  shows "\<exists>w'. follow_cursors A q (Suc (length L)) None w = (Ok L, w')"
  using follow_cursors_from [OF assms(1,2,5,3) assms(4) [symmetric], of None 0 "Suc (length L)"]
  by (simp add: decode_cursor_def del: follow_cursors.simps)

section \<open>Witness\<close>

abbreviation stocked_world :: "redis_store api_world" where
  "stocked_world \<equiv> sample_world\<lparr>aw_conn := snd (catalog_index sample_catalog catalog_payload sample_xrp empty_conn)\<rparr>"

lemma stocked_db:
  "cn_db (aw_conn stocked_world) = \<lparr>db_entries = [''facilitator:bazaar:entry:F1'' \<mapsto>
      (RVal (PDict (catalog_item sample_catalog sample_discovered sample_xrp 0)), Some 3600),
      BAZAAR_INDEX \<mapsto> (RZset [''facilitator:bazaar:entry:F1''], None)], db_clock = 0\<rparr>"
  by (simp add: catalog_index_def sample_catalog_def sample_discovered_def empty_conn_def cbind_def cget_def creturn_def
      redis_call_def zset_members_def db_live_def db_put_def catalog_entry_key_def Let_def sample_ext_def catalog_identity_def
      catalog_item_def)

lemma stocked_keys: "indexed_keys (cn_db (aw_conn stocked_world)) = [''facilitator:bazaar:entry:F1'']"
  unfolding stocked_db by (simp add: indexed_keys_def zset_members_def db_live_def)

lemma stocked_ok: "wf_catalog (cn_db (aw_conn stocked_world))"
  unfolding wf_catalog_def stocked_keys unfolding stocked_db
  by (simp add: zset_members_def entry_ok_def db_live_def)

definition any_query :: catalog_query where
  "any_query = \<lparr>cq_resource_type = None, cq_pay_to = None, cq_scheme = None, cq_network = None, cq_extension = None,
     cq_limit = 1, cq_offset = 0, cq_query = Some '' ''\<rparr>"

lemma stocked_listing:
  "catalog_listing (cn_db (aw_conn stocked_world)) any_query = [catalog_item sample_catalog sample_discovered sample_xrp 0]"
  unfolding catalog_listing_def stocked_keys unfolding stocked_db
  by (simp add: map_filter_simps key_item_def db_live_def item_matches_def any_query_def filter_is_def unset_def accepts_match_def
      extension_match_def needle_of_def strip_def rstrip_by_def is_space_def ord_c_def lower_def)

theorem search_enumerates_catalog_witness:
  "\<exists>w'. follow_cursors sample_api any_query 2 None stocked_world
    = (Ok [catalog_item sample_catalog sample_discovered sample_xrp 0], w')"
proof -
  have "1 < CURSOR_LIMIT"
    unfolding CURSOR_LIMIT_def by (rule one_less_power) (simp_all (no_asm))
  then have "int (length (catalog_listing (cn_db (aw_conn stocked_world)) any_query)) < CURSOR_LIMIT"
    unfolding stocked_listing by simp
  moreover have "search_ok sample_api any_query" "\<forall>n. ct_others (ap_catalog sample_api) n = []"
    by (simp_all add: search_ok_def sample_api_def any_query_def sample_catalog_def)
  ultimately have "\<exists>w'. follow_cursors sample_api any_query (Suc (length (catalog_listing (cn_db (aw_conn stocked_world)) any_query))) None stocked_world
      = (Ok (catalog_listing (cn_db (aw_conn stocked_world)) any_query), w')"
    using search_enumerates_catalog [OF _ _ stocked_ok refl] by blast
  then show ?thesis
    unfolding stocked_listing by (simp add: numeral_2_eq_2 del: follow_cursors.simps)
qed

end
