(* ===== verification/ResponseStore.thy ===== *)
theory ResponseStore
  imports Idempotency Base64
begin

text \<open>
  \<open>xrpl_x402_middleware/response_store.py\<close>: the resource server's store of handler results. An
  identifier is bound to one request before its handler runs and holds the result until the payment
  settles, so that a retry gets the stored result instead of a second execution. A response body is
  bytes or a JSON value; bytes are kept in base64.
\<close>

section \<open>Data\<close>

datatype body = Bytes string | Json pyval

record stored_response =
  sp_status_code :: int
  sp_content_type :: string
  sp_body :: body
  sp_headers :: pydict

record authoritative_resource =
  ar_resource :: pydict
  ar_identity :: string

record response_store =
  rs_ext :: ext
  rs_pid :: pid_ext
  rs_ttl_seconds :: int
  rs_safety_margin_seconds :: int
  rs_others :: interference

definition make_response_store :: "response_store \<Rightarrow> exn + response_store" where
  "make_response_store R =
     (if rs_ttl_seconds R \<le> 0 then Inl (ValueError ''ttl_seconds must be positive'')
      else if rs_safety_margin_seconds R < 0 then Inl (ValueError ''safety_margin_seconds cannot be negative'')
      else Inr R)"


section \<open>Operations\<close>

definition response_key :: "ext \<Rightarrow> string \<Rightarrow> payment_requirements \<Rightarrow> string" where
  "response_key E identifier requirements =
     ''resource:idempotency:'' @ sha256_hex E (identifier_scope requirements identifier)"

definition response_ttl :: "response_store \<Rightarrow> payment_requirements \<Rightarrow> int" where
  "response_ttl R requirements =
     max (rs_ttl_seconds R) (r_max_timeout_seconds requirements + rs_safety_margin_seconds R)"

definition response_fingerprint ::
  "response_store \<Rightarrow> payment_payload \<Rightarrow> payment_requirements \<Rightarrow> authoritative_resource option \<Rightarrow> string" where
  "response_fingerprint R payload requirements authoritative =
     requirements_fingerprint_for (rs_ext R) payload requirements None
       (map_option ar_resource authoritative) (map_option ar_identity authoritative)"

definition validate_fingerprint :: "pyval \<Rightarrow> string \<Rightarrow> exn + unit" where
  "validate_fingerprint record expected =
     rbind (vget record ''fingerprint'') (\<lambda>found.
       guard (found = PStr expected)
         (ValueError ''payment-identifier was reused with different payment or resource context''))"

definition encode_body :: "body \<Rightarrow> pyval \<times> string" where
  "encode_body b = (case b of Bytes bytes \<Rightarrow> (PStr (b64encode bytes), ''base64'') | Json v \<Rightarrow> (v, ''json''))"

definition decode_body :: "pydict \<Rightarrow> exn + body" where
  "decode_body record =
     (let encoding = dget record ''bodyEncoding'' in
      if encoding = PNone \<or> encoding = PStr ''json'' then Inr (Json (dget record ''body''))
      else if encoding = PStr ''base64'' then
        (case dget record ''body'' of
           PStr encoded \<Rightarrow>
             (case b64decode_validate encoded of
                Inr bytes \<Rightarrow> Inr (Bytes bytes)
              | Inl e \<Rightarrow> if is_value_error e then Inl (ValueError ''cached response body is not valid base64'') else Inl e)
         | _ \<Rightarrow> Inl (ValueError ''cached base64 response body must be a string''))
      else Inl (ValueError (''unsupported cached response body encoding: '' @ py_str encoding)))"

definition response_identifier :: "pid_ext \<Rightarrow> payment_payload \<Rightarrow> exn + string option" where
  "response_identifier P payload = (case pid_extract P payload of
       (_, Some errors) \<Rightarrow> Inl (ValueError (join ''; '' errors))
     | (identifier, None) \<Rightarrow> Inr identifier)"

definition bound_record :: "string \<Rightarrow> pyval" where
  "bound_record fingerprint = PDict [(''fingerprint'', PStr fingerprint), (''state'', PStr ''bound'')]"

definition response_record :: "string \<Rightarrow> stored_response \<Rightarrow> pyval" where
  "response_record fingerprint response =
     (case encode_body (sp_body response) of (encoded_body, body_encoding) \<Rightarrow>
      PDict [(''fingerprint'', PStr fingerprint), (''state'', PStr ''response''),
             (''statusCode'', PInt (sp_status_code response)), (''contentType'', PStr (sp_content_type response)),
             (''body'', encoded_body), (''bodyEncoding'', PStr body_encoding), (''headers'', PDict (sp_headers response))])"

text \<open>The loop of \<open>bind\<close> runs twice: the key may expire between \<open>SET\<close> and \<open>GET\<close>.\<close>

fun bind_attempts :: "response_store \<Rightarrow> nat \<Rightarrow> string \<Rightarrow> string \<Rightarrow> int \<Rightarrow> bool redis_cmd" where
  "bind_attempts R 0 key fingerprint ttl =
     craise (RuntimeError ''payment-identifier binding disappeared during reservation'')"
| "bind_attempts R (Suc n) key fingerprint ttl =
     cbind (redis_call (rs_others R) (OSet key (bound_record fingerprint) ttl True)) (\<lambda>acquired.
       if acquired = ReplyBool True then creturn True
       else cbind (redis_call (rs_others R) (OGet key)) (\<lambda>raw. case raw of
           ReplyVal record \<Rightarrow>
             cbind (clift (validate_fingerprint record fingerprint)) (\<lambda>_. creturn False)
         | _ \<Rightarrow> bind_attempts R n key fingerprint ttl))"

definition response_bind ::
  "response_store \<Rightarrow> payment_payload \<Rightarrow> payment_requirements \<Rightarrow> authoritative_resource option \<Rightarrow> bool redis_cmd" where
  "response_bind R payload requirements authoritative =
     cbind (clift (response_identifier (rs_pid R) payload)) (\<lambda>identifier. case identifier of
         None \<Rightarrow> craise (ValueError ''unsafe paid requests require payment-identifier'')
       | Some i \<Rightarrow>
         bind_attempts R 2 (response_key (rs_ext R) i requirements)
           (response_fingerprint R payload requirements authoritative) (response_ttl R requirements))"

definition read_response :: "pyval \<Rightarrow> exn + stored_response option" where
  "read_response record = (case record of
       PDict d \<Rightarrow>
         if dget d ''state'' = PStr ''bound'' \<or> map_of d ''statusCode'' = None then Inr None
         else
           rbind (rbind (dindex d ''statusCode'') py_int) (\<lambda>status_code.
           rbind (dindex d ''contentType'') (\<lambda>content_type.
           rbind (decode_body d) (\<lambda>decoded.
             Inr (Some \<lparr>sp_status_code = status_code, sp_content_type = py_str content_type, sp_body = decoded,
                        sp_headers = (case dget d ''headers'' of PDict h \<Rightarrow> h | _ \<Rightarrow> [])\<rparr>))))
     | _ \<Rightarrow> Inl (AttributeError ''get''))"

definition response_get ::
  "response_store \<Rightarrow> payment_payload \<Rightarrow> payment_requirements \<Rightarrow> authoritative_resource option
     \<Rightarrow> stored_response option redis_cmd" where
  "response_get R payload requirements authoritative =
     cbind (clift (response_identifier (rs_pid R) payload)) (\<lambda>identifier. case identifier of
         None \<Rightarrow> creturn None
       | Some i \<Rightarrow>
         cbind (redis_call (rs_others R) (OGet (response_key (rs_ext R) i requirements))) (\<lambda>raw. case raw of
             ReplyVal record \<Rightarrow>
               cbind (clift (validate_fingerprint record (response_fingerprint R payload requirements authoritative)))
                 (\<lambda>_. clift (read_response record))
           | _ \<Rightarrow> creturn None))"

definition response_put ::
  "response_store \<Rightarrow> payment_payload \<Rightarrow> payment_requirements \<Rightarrow> stored_response \<Rightarrow> authoritative_resource option
     \<Rightarrow> unit redis_cmd" where
  "response_put R payload requirements response authoritative =
     cbind (clift (response_identifier (rs_pid R) payload)) (\<lambda>identifier. case identifier of
         None \<Rightarrow> craise (ValueError ''unsafe paid requests require payment-identifier'')
       | Some i \<Rightarrow>
         let key = response_key (rs_ext R) i requirements;
             fingerprint = response_fingerprint R payload requirements authoritative in
         cbind (redis_call (rs_others R) (OGet key)) (\<lambda>existing.
         cbind (clift (case existing of
             ReplyVal record \<Rightarrow> validate_fingerprint record fingerprint
           | _ \<Rightarrow> Inr ())) (\<lambda>_.
         cbind (redis_call (rs_others R) (OSet key (response_record fingerprint response) (response_ttl R requirements) False))
           (\<lambda>_. creturn ()))))"


section \<open>The response store keeps bindings exclusive\<close>

fun record_fingerprint :: "redis_value \<Rightarrow> string option" where
  "record_fingerprint (RVal (PDict d)) = (case dget d ''fingerprint'' of PStr f \<Rightarrow> Some f | _ \<Rightarrow> None)"
| "record_fingerprint _ = None"

text \<open>The commands of the store on a key: a reservation, or a result for the request it is bound to.\<close>

fun response_op :: "string \<Rightarrow> int \<Rightarrow> string \<Rightarrow> redis_op \<Rightarrow> bool" where
  "response_op key ttl f (OSet k v ex nx) \<longleftrightarrow>
     k = key \<longrightarrow> nx \<or> ttl \<le> ex \<and> record_fingerprint (RVal v) = Some f"
| "response_op key ttl f x \<longleftrightarrow> writes_to x \<noteq> Some key"

lemma response_op_keeps:
  assumes "response_op key ttl f x" and "db_holds db key until (\<lambda>v. record_fingerprint v = Some f)"
    and "db_clock db < until" and "until \<le> db_clock db + ttl"
  shows "db_holds (snd (redis_exec x db)) key until (\<lambda>v. record_fingerprint v = Some f)"
proof (cases "writes_to x = Some key")
  case True
  with assms(1) obtain v ex nx where x: "x = OSet key v ex nx" "nx \<or> ttl \<le> ex \<and> record_fingerprint (RVal v) = Some f"
    by (cases x) auto
  show ?thesis
    using db_holds_live [OF assms(2,3)] assms(2,4) x(2) by (auto simp: x(1) db_holds_def db_put_def)
next
  case False
  then show ?thesis
    using assms(2) benign_elsewhere [OF False] assms(3) by (simp add: benign_def)
qed

interpretation responses: exclusive_binding record_fingerprint response_op
  by unfold_locales (rule response_op_keeps)

section \<open>One execution per identifier\<close>

abbreviation REUSED :: exn where
  "REUSED \<equiv> ValueError ''payment-identifier was reused with different payment or resource context''"

lemma bound_record_live:
  assumes "responses.bound db key until f" and "db_clock db < until"
  shows "\<exists>d t. db_live db key = Some (RVal (PDict d), t) \<and> dget d ''fingerprint'' = PStr f"
proof -
  from responses.bound_live [OF assms] obtain v t where "db_live db key = Some (v, t)" "record_fingerprint v = Some f"
    by blast
  then show ?thesis
    by (cases v rule: record_fingerprint.cases) (auto split: pyval.splits)
qed

lemma advances_bind_attempts: "advances (\<lambda>s. db_clock (cn_db s)) (bind_attempts R n key g ttl)"
  by (induction n) (auto intro!: advances_rules split: redis_reply.splits)

text \<open>A key that is bound is not acquired again: the same request is told that it is in progress,
  another one that the identifier is taken.\<close>

lemma bind_attempts_bound:
  assumes "responses.bound (cn_db s) key until f" and "until \<le> db_clock (cn_db s) + T" and "0 < ttl"
    and "\<And>n. responses.obeys key T f (rs_others R n)" and "bind_attempts R (Suc n) key g ttl s = (r, s')"
    and "db_clock (cn_db s') < until"
  shows "r = (if g = f then Ok False else Raise REUSED)"
proof -
  let ?set = "redis_call (rs_others R) (OSet key (bound_record g) ttl True)"
  let ?get = "redis_call (rs_others R) (OGet key)"
  let ?tail = "\<lambda>raw. case raw of ReplyVal record \<Rightarrow> cbind (clift (validate_fingerprint record g)) (\<lambda>_. creturn False)
         | _ \<Rightarrow> bind_attempts R n key g ttl"
  let ?rest = "\<lambda>acquired. if acquired = ReplyBool True then creturn True else cbind ?get ?tail"
  obtain r1 s1 where c1: "?set s = (r1, s1)" by fastforce
  obtain r2 s2 where c2: "?get s1 = (r2, s2)" by fastforce
  have adv: "advances (\<lambda>s. db_clock (cn_db s)) (?rest x)" "advances (\<lambda>s. db_clock (cn_db s)) (?tail y)" for x y
    by (auto intro!: advances_rules advances_bind_attempts split: redis_reply.splits)
  have run: "cbind ?set ?rest s = (r, s')"
    using assms(5) by simp
  then have le1: "db_clock (cn_db s1) \<le> db_clock (cn_db s')"
    using c1 advancesD [OF adv(1)] by (cases r1) (auto simp: cbind_def split: if_splits)
  note b1 = responses.call_bound [OF c1 assms(1) assms(4) _ _ assms(2)]
  obtain db x1 where db: "responses.bound db key until f" "db_clock db < until"
    "redis_exec (OSet key (bound_record g) ttl True) db = (x1, cn_db s1)"
    "r1 = (if x1 = ReplyError then Raise (ClientError ''redis'') else Ok x1)"
    using b1(2) le1 assms(6) by auto
  have "r1 = Ok ReplyNone"
    using bound_record_live [OF db(1,2)] db(3,4) assms(3) by auto
  then have rest: "cbind ?get ?tail s1 = (r, s')"
    using run c1 by (simp add: cbind_step)
  then have le2: "db_clock (cn_db s2) \<le> db_clock (cn_db s')"
    using c2 advancesD [OF adv(2)] by (cases r2) (auto simp: cbind_def)
  have "responses.bound (cn_db s1) key until f"
    using b1(1) le1 assms(6) by simp
  from responses.call_bound(2) [OF c2 this assms(4)] le2 assms(2,6) advancesD [OF redis_call_advances c1]
  obtain db2 x2 where db2: "responses.bound db2 key until f" "db_clock db2 < until"
    "redis_exec (OGet key) db2 = (x2, cn_db s2)" "r2 = (if x2 = ReplyError then Raise (ClientError ''redis'') else Ok x2)"
    by auto
  obtain d where "r2 = Ok (ReplyVal (PDict d))" "dget d ''fingerprint'' = PStr f"
    using bound_record_live [OF db2(1,2)] db2(3,4) by auto
  then show ?thesis
    using rest c2 by (auto simp: cbind_step validate_fingerprint_def vget_def guard_def clift_def craise_def creturn_def cbind_def)
qed

lemma bind_attempts_acquires:
  assumes "bind_attempts R n key g ttl s = (Ok True, s')" and "0 < ttl"
  shows "responses.bound (cn_db s') key (db_clock (cn_db s') + ttl) g"
  using assms(1)
proof (induction n arbitrary: s)
  case (Suc n)
  from Suc.prems obtain x s1 where c: "redis_call (rs_others R) (OSet key (bound_record g) ttl True) s = (Ok x, s1)"
    and rest: "(if x = ReplyBool True then creturn True
       else cbind (redis_call (rs_others R) (OGet key)) (\<lambda>raw. case raw of
           ReplyVal record \<Rightarrow> cbind (clift (validate_fingerprint record g)) (\<lambda>_. creturn False)
         | _ \<Rightarrow> bind_attempts R n key g ttl)) s1 = (Ok True, s')"
    by (auto simp: cbind_Ok)
  show ?case
  proof (cases "x = ReplyBool True")
    case True
    then show ?thesis
      using c rest assms(2) by (auto simp: creturn_Ok redis_call_run responses.bound_def db_holds_def db_put_def bound_record_def
          split: if_splits)
  next
    case False
    with rest have "cbind (redis_call (rs_others R) (OGet key)) (\<lambda>raw. case raw of
        ReplyVal record \<Rightarrow> cbind (clift (validate_fingerprint record g)) (\<lambda>_. creturn False)
      | _ \<Rightarrow> bind_attempts R n key g ttl) s1 = (Ok True, s')"
      by simp
    then obtain y s2 where "(case y of ReplyVal record \<Rightarrow> cbind (clift (validate_fingerprint record g)) (\<lambda>_. creturn False)
      | _ \<Rightarrow> bind_attempts R n key g ttl) s2 = (Ok True, s')"
      by (auto simp: cbind_Ok)
    then show ?thesis
      using Suc.IH by (cases y) (auto simp: run_simps)
  qed
qed (simp add: craise_Ok)

text \<open>
  The handler of a paid unsafe request runs once per identifier: after a request acquired the
  binding of its identifier, no other request with the same identifier, network and destination
  acquires it before the time to live has passed, whatever the other workers do meanwhile; a retry of
  the same request is told that it is in progress and any other request is refused.
\<close>

lemma handler_claimed_once:
  assumes "response_bind R payload requirements authoritative s = (Ok True, s1)"
    and "response_identifier (rs_pid R) payload = Inr (Some i)" and "response_identifier (rs_pid R') payload' = Inr (Some i')"
    and "response_key (rs_ext R') i' requirements' = response_key (rs_ext R) i requirements"
    and "f = response_fingerprint R payload requirements authoritative"
    and "T = response_ttl R requirements" and "0 < rs_ttl_seconds R" and "0 < rs_ttl_seconds R'"
    and "responses.obeys (response_key (rs_ext R) i requirements) T f es"
    and "\<And>n. responses.obeys (response_key (rs_ext R) i requirements) T f (rs_others R' n)"
    and "response_bind R' payload' requirements' authoritative' (s1\<lparr>cn_db := db_run es (cn_db s1)\<rparr>) = (r, s2)"
    and "db_clock (cn_db s2) < db_clock (cn_db s1) + T"
  shows "r = (if response_fingerprint R' payload' requirements' authoritative' = f then Ok False else Raise REUSED)"
proof -
  let ?key = "response_key (rs_ext R) i requirements"
  let ?s = "s1\<lparr>cn_db := db_run es (cn_db s1)\<rparr>"
  have T: "0 < T" "0 < response_ttl R' requirements'"
    using assms(6-8) by (simp_all add: response_ttl_def)
  have "bind_attempts R 2 ?key f T s = (Ok True, s1)"
    using assms(1,2,5,6) by (simp add: response_bind_def cbind_clift)
  note b = bind_attempts_acquires [OF this T(1)]
  have run: "bind_attempts R' (Suc 1) ?key (response_fingerprint R' payload' requirements' authoritative')
      (response_ttl R' requirements') ?s = (r, s2)"
    using assms(3,4,11) by (simp add: response_bind_def cbind_clift numeral_2_eq_2)
  note clock = advancesD [OF advances_bind_attempts run] db_clock_run [of "cn_db s1" es]
  have "responses.bound (cn_db ?s) ?key (db_clock (cn_db s1) + T) f"
    using responses.bound_run [OF b _ _ assms(9)] clock assms(12) by simp
  then show ?thesis
    using clock assms(12) by (intro bind_attempts_bound [OF _ _ T(2) assms(10) run]) auto
qed

text \<open>Reading a stored result leaves a binding in place.\<close>

lemma response_get_bound:
  assumes "response_get R payload requirements authoritative c = (r, c')"
    and "response_identifier (rs_pid R) payload = Inr (Some i)" and "key = response_key (rs_ext R) i requirements"
    and "responses.bound (cn_db c) key until f" and "\<And>n. responses.obeys key T f (rs_others R n)"
    and "until \<le> db_clock (cn_db c) + T" and "db_clock (cn_db c') < until"
  shows "responses.bound (cn_db c') key until f"
proof -
  obtain r1 c1 where call: "redis_call (rs_others R) (OGet key) c = (r1, c1)"
    by fastforce
  have "c' = c1"
    using assms(1,2) call
    by (cases r1) (auto simp: response_get_def cbind_clift cbind_def clift_def creturn_def craise_def assms(3) split: redis_reply.splits sum.splits)
  then show ?thesis
    using responses.call_bound(1) [OF call assms(4,5) _ _ assms(6)] assms(7) by simp
qed

lemma advances_store:
  "advances (\<lambda>c. db_clock (cn_db c)) (response_bind R payload requirements authoritative)"
  "advances (\<lambda>c. db_clock (cn_db c)) (response_get R payload requirements authoritative)"
  unfolding response_bind_def response_get_def
  by (auto intro!: advances_rules advances_bind_attempts split: option.splits redis_reply.splits)

text \<open>Two workers that look for a stored result and then claim the identifier: the second one does not get it.\<close>

lemma claim_excludes:
  assumes "response_bind R payload requirements authoritative c0 = (Ok True, c1)"
    and "response_identifier (rs_pid R) payload = Inr (Some i)" and "response_identifier (rs_pid R') payload' = Inr (Some i')"
    and "key = response_key (rs_ext R) i requirements" and "response_key (rs_ext R') i' requirements' = key"
    and "f = response_fingerprint R payload requirements authoritative"
    and "T = response_ttl R requirements" and "0 < rs_ttl_seconds R" and "0 < rs_ttl_seconds R'"
    and "responses.obeys key T f es" and "\<And>n. responses.obeys key T f (rs_others R' n)"
    and "c = c1\<lparr>cn_db := db_run es (cn_db c1)\<rparr>"
    and "response_get R' payload' requirements' authoritative' c = (Ok None, c')"
    and "response_bind R' payload' requirements' authoritative' c' = (Ok True, c2)"
    and "db_clock (cn_db c2) < db_clock (cn_db c1) + T"
  shows False
proof -
  let ?until = "db_clock (cn_db c1) + T"
  have T: "0 < T" "0 < response_ttl R' requirements'"
    using assms(7-9) by (simp_all add: response_ttl_def)
  note clock = advancesD [OF advances_store(2) assms(13)] advancesD [OF advances_store(1) assms(14)]
  have "bind_attempts R 2 key f T c0 = (Ok True, c1)"
    using assms(1,2,4,6,7) by (simp add: response_bind_def cbind_clift)
  then have "responses.bound (cn_db c1) key ?until f"
    using T(1) by (rule bind_attempts_acquires)
  then have "responses.bound (cn_db c) key ?until f"
    using responses.bound_run [of "cn_db c1" key ?until f es T] assms(10,12,15) clock by simp
  moreover have until: "?until \<le> db_clock (cn_db c) + T"
    using assms(12) db_clock_run [of "cn_db c1" es] by simp
  ultimately have b: "responses.bound (cn_db c') key ?until f"
    using response_get_bound [OF assms(13,3) assms(5) [symmetric] _ assms(11)] clock assms(15) by simp
  have run: "bind_attempts R' (Suc 1) key (response_fingerprint R' payload' requirements' authoritative')
      (response_ttl R' requirements') c' = (Ok True, c2)"
    using assms(3,5,14) by (simp add: response_bind_def cbind_clift numeral_2_eq_2)
  have "Ok True = (if response_fingerprint R' payload' requirements' authoritative' = f then Ok False else Raise REUSED)"
    by (rule bind_attempts_bound [OF b _ T(2) assms(11) run]) (use clock until assms(15) in simp_all)
  then show False
    by (simp split: if_splits)
qed

section \<open>Stored results come back unchanged\<close>

lemma read_response_record: "read_response (response_record f response) = Inr (Some response)"
  by (cases "sp_body response")
    (auto simp: read_response_def response_record_def encode_body_def decode_body_def Let_def dget_default_def dindex_def py_str_def)

lemma validate_response_record: "validate_fingerprint (response_record f response) f = Inr ()"
  by (simp add: validate_fingerprint_def response_record_def vget_def dget_default_def guard_def split: prod.splits)

lemma get_held:
  assumes "redis_call others (OGet key) s = (r, s')" and "db_holds (cn_db s) key until ((=) (RVal v))"
    and "\<forall>e \<in> set (others (cn_calls s)). benign key until ((=) (RVal v)) e" and "db_clock (cn_db s') < until"
  shows "r = Ok (ReplyVal v)"
proof -
  obtain reply where run: "redis_exec (OGet key) (db_run (others (cn_calls s)) (cn_db s)) = (reply, cn_db s')"
    "r = (if reply = ReplyError then Raise (ClientError ''redis'') else Ok reply)"
    using assms(1) by (auto simp: redis_call_run)
  then have clock: "db_clock (db_run (others (cn_calls s)) (cn_db s)) < until"
    using redis_exec_clock [of "OGet key" "db_run (others (cn_calls s)) (cn_db s)"] assms(4) by simp
  show ?thesis
    using db_holds_live [OF db_holds_run [OF assms(2,3) clock] clock] run by auto
qed

text \<open>
  A stored result comes back unchanged: the result that the resource server stores for a request
  is what a retry of the request reads until the time to live has passed, with the same status, content
  type, headers and body, be it bytes or JSON, provided that no other client wrote the key in between.
\<close>

lemma stored_response_roundtrip:
  assumes "response_put R payload requirements response authoritative s = (Ok (), s1)"
    and "response_identifier (rs_pid R) payload = Inr (Some i)"
    and "\<forall>e \<in> set es \<union> set (rs_others R (cn_calls s1)). \<forall>x. e = ROp x \<longrightarrow> writes_to x \<noteq> Some (response_key (rs_ext R) i requirements)"
    and "response_get R payload requirements authoritative (s1\<lparr>cn_db := db_run es (cn_db s1)\<rparr>) = (r, s2)"
    and "db_clock (cn_db s2) < db_clock (cn_db s1) + response_ttl R requirements"
  shows "r = Ok (Some response)"
proof -
  let ?key = "response_key (rs_ext R) i requirements" and ?until = "db_clock (cn_db s1) + response_ttl R requirements"
  let ?v = "response_record (response_fingerprint R payload requirements authoritative) response"
  let ?s = "s1\<lparr>cn_db := db_run es (cn_db s1)\<rparr>"
  obtain s0 where "redis_call (rs_others R) (OSet ?key ?v (response_ttl R requirements) False) s0 = (Ok (ReplyBool True), s1)"
    using assms(1,2) by (auto simp: response_put_def Let_def run_simps redis_call_run cbind_clift split: if_splits)
  then have held: "db_holds (cn_db s1) ?key ?until ((=) (RVal ?v))"
    by (auto simp: redis_call_run db_holds_def db_put_def split: if_splits)
  have benign: "\<forall>e \<in> set es \<union> set (rs_others R (cn_calls s1)). benign ?key ?until ((=) (RVal ?v)) e"
    using assms(3) benign_elsewhere benign_tick by (metis redis_event.exhaust)
  obtain r1 s3 where get: "redis_call (rs_others R) (OGet ?key) ?s = (r1, s3)"
    by fastforce
  have "s2 = s3"
    using assms(2,4) get
    by (cases r1) (auto simp: response_get_def cbind_clift cbind_def clift_def creturn_def craise_def split: redis_reply.splits sum.splits)
  then have "db_clock (cn_db ?s) < ?until" "db_clock (cn_db s3) < ?until"
    using assms(5) advancesD [OF redis_call_advances get] by simp_all
  then have "r1 = Ok (ReplyVal ?v)"
    using db_holds_run [OF held] benign by (intro get_held [OF get]) auto
  then show ?thesis
    using assms(2,4) get
    by (auto simp: response_get_def cbind_def creturn_def validate_response_record read_response_record clift_def)
qed


section \<open>Witnesses\<close>

definition sample_responses :: response_store where
  "sample_responses = \<lparr>rs_ext = sample_ext\<lparr>sha256_hex := id\<rparr>, rs_pid = is_pid sample_ids, rs_ttl_seconds = 300,
     rs_safety_margin_seconds = 30, rs_others = (\<lambda>_. [])\<rparr>"

abbreviation sample_bound :: redis_conn where
  "sample_bound \<equiv> \<lparr>cn_db = \<lparr>db_entries = [response_key (rs_ext sample_responses) ''order-1'' small_requirements \<mapsto>
       (RVal (bound_record (response_fingerprint sample_responses (small_payload []) small_requirements None)), Some 300)],
     db_clock = 0\<rparr>, cn_calls = 1\<rparr>"

lemma sample_response_identifier: "response_identifier (rs_pid sample_responses) payload = Inr (Some ''order-1'')"
  by (simp add: response_identifier_def sample_responses_def sample_ids_def)

lemma sample_no_others: "rs_others sample_responses = (\<lambda>_. [])"
  by (simp add: sample_responses_def)

lemma sample_response_fields [simp]:
  "rs_others sample_responses n = []" "rs_ttl_seconds sample_responses = 300"
  "response_ttl sample_responses small_requirements = 300"
  by (simp_all add: sample_responses_def response_ttl_def small_requirements_def)

lemma sample_response_bind:
  "response_bind sample_responses (small_payload []) small_requirements None sample_conn = (Ok True, sample_bound)"
  by (simp add: response_bind_def sample_response_identifier cbind_clift clift_def numeral_2_eq_2 redis_call_def sample_conn_def
      db_live_def db_put_def cbind_def creturn_def Let_def)

theorem handler_claimed_once_witness:
  "\<exists>s2. response_bind sample_responses (small_payload []) small_requirements None
      (sample_bound\<lparr>cn_db := db_run [RTick 299] (cn_db sample_bound)\<rparr>) = (Ok False, s2)"
proof -
  let ?b = "response_bind sample_responses (small_payload []) small_requirements None
      (sample_bound\<lparr>cn_db := db_run [RTick 299] (cn_db sample_bound)\<rparr>)"
  let ?f = "response_fingerprint sample_responses (small_payload []) small_requirements None"
  have "fst ?b = (if ?f = ?f then Ok False else Raise REUSED)"
  proof (rule handler_claimed_once [OF sample_response_bind sample_response_identifier sample_response_identifier refl refl refl])
    show "?b = (fst ?b, snd ?b)" by simp
    show "db_clock (cn_db (snd ?b)) < db_clock (cn_db sample_bound) + response_ttl sample_responses small_requirements"
      by (simp add: response_bind_def sample_response_identifier cbind_clift numeral_2_eq_2 redis_call_def
          db_live_def cbind_def creturn_def Let_def bound_record_def validate_fingerprint_def vget_def dget_default_def guard_def clift_def)
  qed (simp_all add: responses.obeys_def)
  then show ?thesis
    by (metis prod.collapse)
qed

theorem stored_response_roundtrip_witness:
  "\<exists>s1 s2. response_put sample_responses (small_payload []) small_requirements
       \<lparr>sp_status_code = 200, sp_content_type = ''image/png'', sp_body = Bytes ''ab'', sp_headers = []\<rparr> None sample_bound = (Ok (), s1)
    \<and> response_get sample_responses (small_payload []) small_requirements None (s1\<lparr>cn_db := db_run [RTick 299] (cn_db s1)\<rparr>)
      = (Ok (Some \<lparr>sp_status_code = 200, sp_content_type = ''image/png'', sp_body = Bytes ''ab'', sp_headers = []\<rparr>), s2)"
proof -
  let ?r = "\<lparr>sp_status_code = 200, sp_content_type = ''image/png'', sp_body = Bytes ''ab'', sp_headers = []\<rparr>"
  let ?f = "response_fingerprint sample_responses (small_payload []) small_requirements None"
  obtain s1 where put: "response_put sample_responses (small_payload []) small_requirements ?r None sample_bound = (Ok (), s1)"
    "cn_db s1 = \<lparr>db_entries = [response_key (rs_ext sample_responses) ''order-1'' small_requirements \<mapsto>
      (RVal (response_record ?f ?r), Some 300)], db_clock = 0\<rparr>"
    by (simp add: response_put_def sample_response_identifier cbind_clift redis_call_def db_live_def db_put_def
        cbind_def creturn_def Let_def bound_record_def validate_fingerprint_def vget_def dget_default_def guard_def clift_def)
  let ?g = "response_get sample_responses (small_payload []) small_requirements None (s1\<lparr>cn_db := db_run [RTick 299] (cn_db s1)\<rparr>)"
  have "fst ?g = Ok (Some ?r)"
  proof (rule stored_response_roundtrip [OF put(1) sample_response_identifier])
    show "?g = (fst ?g, snd ?g)" by simp
    show "db_clock (cn_db (snd ?g)) < db_clock (cn_db s1) + response_ttl sample_responses small_requirements"
      by (simp add: put(2) response_get_def sample_response_identifier cbind_clift redis_call_def db_live_def
          cbind_def creturn_def Let_def validate_response_record read_response_record clift_def)
  qed simp_all
  then show ?thesis
    using put(1) by (metis prod.collapse)
qed

end
