(* ===== verification/ServerScheme.thy ===== *)
theory ServerScheme
  imports Protocol PyDecimal
begin

text \<open>
  \<open>xrpl_x402_middleware/adapters/x402.py\<close>: the resource server's half of the exact XRPL scheme, which
  turns the price of a route into payment requirements. \<open>parse_money\<close> of the x402 SDK (an amount and
  perhaps a symbol) and the validation of its \<open>AssetAmount\<close> model are parameters.
\<close>

record asset_amount =
  aa_amount :: string
  aa_asset :: string
  aa_extra :: "pydict option"

datatype price = PriceAsset asset_amount | PriceDict pydict | PriceMoney pyval

record money_models =
  mm_parse_money :: "pyval \<Rightarrow> exn + string \<times> string option"
  mm_validate_asset :: "pydict \<Rightarrow> exn + asset_amount"

definition dsetdefault :: "string \<Rightarrow> pyval \<Rightarrow> pydict \<Rightarrow> pydict" where
  "dsetdefault k v d = (if map_of d k = None then dset k v d else d)"

text \<open>\<open>dict.update\<close>.\<close>

definition dupdate :: "pydict \<Rightarrow> pydict \<Rightarrow> pydict" where
  "dupdate d updates = foldl (\<lambda>acc kv. dset (fst kv) (snd kv) acc) d updates"

definition validate_asset_amount :: "asset_amount \<Rightarrow> exn + asset_amount" where
  "validate_asset_amount v =
     rbind (xrpl_currency_code (aa_asset v)) (\<lambda>asset.
     let extra = dsetdefault ''assetTransferMethod'' (PStr ''sequence'')
           (dset ''areFeesSponsored'' (PBool False) (dict_or_empty (aa_extra v))) in
     rbind (if asset = ''XRP'' then
              (if dget extra ''issuer'' \<noteq> PNone then Inl (ValueError ''XRP prices must not include an issuer'')
               else if \<not> isdigit (aa_amount v) then Inl (ValueError ''XRP prices use an integer drops string'')
               else Inr ())
            else if \<not> truthy (dget extra ''issuer'') then Inl (ValueError ''XRPL IOU prices require extra.issuer'')
            else Inr ()) (\<lambda>_.
       Inr \<lparr>aa_amount = aa_amount v, aa_asset = asset, aa_extra = Some extra\<rparr>))"

text \<open>\<open>_decimal_string\<close>; the comparison with 0 raises \<open>InvalidOperation\<close> on a NaN.\<close>

definition rstrip_of :: "char \<Rightarrow> string \<Rightarrow> string" where
  "rstrip_of c s = rstrip_by (\<lambda>x. x = c) s"

definition decimal_string :: "string \<Rightarrow> exn + string" where
  "decimal_string v = (case decimal_of_str v of
       Inl e \<Rightarrow> Inl (ValueError ''XRPL IOU price must be a decimal string'')
     | Inr parsed \<Rightarrow>
       rbind (dec_le parsed (dec_of_int 0)) (\<lambda>nonpos.
         if nonpos then Inl (ValueError ''XRPL exact price must be greater than zero'')
         else let rendered = format_f parsed in
           Inr (if CHR ''.'' \<in> set rendered then rstrip_of CHR ''.'' (rstrip_of CHR ''0'' rendered) else rendered)))"

text \<open>The price of an amount of money in the default asset of the network.\<close>

definition default_price :: "string \<Rightarrow> string \<times> string option \<Rightarrow> exn + asset_amount" where
  "default_price network money = (case money of (amount, symbol) \<Rightarrow>
     rbind (get_default_asset network symbol) (\<lambda>default.
     rbind (decimal_string amount) (\<lambda>text.
       Inr \<lparr>aa_amount = text, aa_asset = da_asset default,
            aa_extra = Some [(''issuer'', PStr (da_issuer default)), (''areFeesSponsored'', PBool False),
                             (''assetTransferMethod'', PStr ''sequence'')]\<rparr>)))"

definition parse_price :: "money_models \<Rightarrow> price \<Rightarrow> string \<Rightarrow> exn + asset_amount" where
  "parse_price M price network = (case price of
       PriceAsset a \<Rightarrow> validate_asset_amount a
     | PriceDict d \<Rightarrow>
       if map_of d ''amount'' \<noteq> None then rbind (mm_validate_asset M d) validate_asset_amount
       else rbind (mm_parse_money M (PDict d)) (default_price network)
     | PriceMoney v \<Rightarrow> rbind (mm_parse_money M v) (default_price network))"

text \<open>\<open>method not in methods\<close> for the advertised methods.\<close>

fun methods_contain :: "pyval \<Rightarrow> pyval \<Rightarrow> exn + bool" where
  "methods_contain (PList methods) m = Inr (list_ex (py_eq m) methods)"
| "methods_contain (PDict methods) m = (case m of PStr s \<Rightarrow> Inr (map_of methods s \<noteq> None) | _ \<Rightarrow> Inr False)"
| "methods_contain (PStr methods) m = (case m of
     PStr s \<Rightarrow> Inr (list_ex (\<lambda>n. starts_with s (drop n methods)) [0..<Suc (length methods)])
   | _ \<Rightarrow> Inl (TypeError ''in <string> requires string as left operand''))"
| "methods_contain _ m = Inl (TypeError ''argument is not iterable'')"

definition enhance_payment_requirements :: "ext \<Rightarrow> payment_requirements \<Rightarrow> pydict option \<Rightarrow> exn + payment_requirements" where
  "enhance_payment_requirements E requirements supported_extra =
     (let merged = dset ''areFeesSponsored'' (PBool False)
            (dupdate (dict_or_empty supported_extra) (dict_or_empty (r_extra requirements)));
          methods = dget merged ''assetTransferMethods'';
          kept = dpop ''paymentFlows'' (dpop ''defaultAssetTransferMethod'' (dpop ''assetTransferMethods'' merged));
          transfer = py_or (dget kept ''assetTransferMethod'') (PStr ''sequence'') in
      rbind (if truthy methods then methods_contain methods transfer else Inr True) (\<lambda>supported.
        if \<not> supported
        then Inl (ValueError (''XRPL transfer method '' @ py_str transfer @ '' is not supported by the facilitator''))
        else
          let enhanced = requirements\<lparr>r_extra := Some (dset ''assetTransferMethod'' transfer kept)\<rparr> in
          rbind (validate_requirements_shape E enhanced) (\<lambda>_. Inr enhanced)))"

definition register_networks :: "string + string list option \<Rightarrow> string list" where
  "register_networks networks = (case networks of
       Inl network \<Rightarrow> [network]
     | Inr (Some (n # ns)) \<Rightarrow> n # ns
     | Inr _ \<Rightarrow> [''xrpl:0'', ''xrpl:1'', ''xrpl:2''])"

end
