(* ===== verification/Middleware.thy ===== *)
theory Middleware
  imports ResponseStore ServerScheme FacilitatorSettle
begin

text \<open>
  \<open>xrpl_x402_middleware/middleware.py\<close>: the resource server's HTTP middleware. Its hooks bind a payment
  to the protected resource, insist on a payment identifier for unsafe routes, and use the response
  store so that a paid handler runs once and a retry gets the stored result.

  The middleware of the x402 SDK, which calls the hooks, verifies and settles through the
  facilitator and calls the application, is a parameter of \<open>dispatch\<close>; so are the payment identifier
  extension, the route table of the SDK and its header codec. Header names are in lower case.
\<close>

section \<open>Data\<close>

definition SAFE_METHODS :: "string list" where
  "SAFE_METHODS = [''GET'', ''HEAD'', ''OPTIONS'']"

definition STALE_AUTHORIZATION_FAILURES :: "string list" where
  "STALE_AUTHORIZATION_FAILURES =
     [''invalid_exact_xrpl_payload_sequence_not_current'', ''invalid_exact_xrpl_payload_ticket_not_available'']"

record payment_option =
  po_scheme :: string
  po_pay_to :: string
  po_price :: asset_amount
  po_network :: string
  po_max_timeout_seconds :: int

record route_config =
  rt_accepts :: "payment_option list"
  rt_resource :: "string option"
  rt_description :: "string option"
  rt_mime_type :: "string option"
  rt_service_name :: "string option"
  rt_tags :: "string list option"
  rt_icon_url :: "string option"
  rt_custom_paywall_html :: pyval
  rt_unpaid_response_body :: pyval
  rt_settlement_failed_response_body :: pyval
  rt_extensions :: "pydict option"
  rt_hook_timeout_seconds :: pyval

datatype route = Route route_config | RouteDict pydict

record accepted_context =
  ac_scheme :: string
  ac_network :: string
  ac_asset :: string
  ac_amount :: string
  ac_pay_to :: string
  ac_max_timeout_seconds :: int
  ac_extra :: pydict

record xrpl_payment_context =
  xc_settlement :: settle_response
  xc_accepted :: accepted_context

definition from_requirements :: "payment_requirements \<Rightarrow> accepted_context" where
  "from_requirements r =
     \<lparr>ac_scheme = r_scheme r, ac_network = r_network r, ac_asset = r_asset r, ac_amount = r_amount r, ac_pay_to = r_pay_to r,
      ac_max_timeout_seconds = r_max_timeout_seconds r, ac_extra = extra_of r\<rparr>"

text \<open>A request of the server with the attributes of \<open>request.state\<close> that the middleware sets and reads.\<close>

record web_request =
  wq_method :: string
  wq_url :: string
  wq_raw_path :: string
  wq_body :: string

record web_state =
  ws_cached :: "stored_response option"
  ws_authoritative :: "authoritative_resource option"
  ws_conflict :: "string option"
  ws_payment_payload :: "payment_payload option"
  ws_payment_requirements :: "payment_requirements option"
  ws_x402_payment :: "xrpl_payment_context option"

record web_response =
  wr_status :: int
  wr_headers :: "(string \<times> string) list"
  wr_body :: "string list"

text \<open>The world of one request: Redis, the state of the request, and the application's own state.\<close>

record 'w web_world =
  ww_conn :: redis_conn
  ww_state :: web_state
  ww_app :: 'w

type_synonym ('w, 'a) web_cmd = "('w web_world, 'a) cmd"

definition on_store :: "'a redis_cmd \<Rightarrow> ('w, 'a) web_cmd" where
  "on_store m = (\<lambda>w. case m (ww_conn w) of (r, c) \<Rightarrow> (r, w\<lparr>ww_conn := c\<rparr>))"

text \<open>The context the SDK passes to a hook; \<open>hc_has_request\<close> tells whether it carries the request. The
  resource of the payload is an attribute that a hook sets, so a hook returns the payload.\<close>

record hook_context =
  hc_payment_payload :: payment_payload
  hc_requirements :: payment_requirements
  hc_is_valid :: bool
  hc_error :: string
  hc_declared_extensions :: "pydict option"
  hc_has_request :: bool

datatype hook_result = Continue | AbortResult string string | SkipHandler string body

record recovered_verify =
  rv_is_valid :: bool
  rv_verification_path :: string

definition set_state :: "(web_state \<Rightarrow> web_state) \<Rightarrow> ('w, unit) web_cmd" where
  "set_state f = cmodify (\<lambda>w. w\<lparr>ww_state := f (ww_state w)\<rparr>)"


section \<open>The protected resource\<close>

text \<open>\<open>ResourceInfo(...).model_dump(by_alias=True, exclude_none=True)\<close>, as \<open>AuthoritativeResource\<close> keeps it.\<close>

definition opt_entry :: "string \<Rightarrow> ('a \<Rightarrow> pyval) \<Rightarrow> 'a option \<Rightarrow> pydict" where
  "opt_entry k f x = (case x of None \<Rightarrow> [] | Some v \<Rightarrow> [(k, f v)])"

definition str_of :: "string option \<Rightarrow> string" where
  "str_of x = (case x of None \<Rightarrow> [] | Some s \<Rightarrow> s)"

definition resource_info :: "route_config \<Rightarrow> web_request \<Rightarrow> pydict" where
  "resource_info config request =
     [(''url'', PStr (if str_of (rt_resource config) \<noteq> [] then str_of (rt_resource config) else wq_url request)),
      (''description'', PStr (str_of (rt_description config))), (''mimeType'', PStr (str_of (rt_mime_type config)))]
     @ opt_entry ''serviceName'' PStr (rt_service_name config)
     @ opt_entry ''tags'' (\<lambda>ts. PList (map PStr ts)) (rt_tags config)
     @ opt_entry ''iconUrl'' PStr (rt_icon_url config)"

definition invocation_identity :: "ext \<Rightarrow> web_request \<Rightarrow> string" where
  "invocation_identity E request =
     (let http_method = upper (wq_method request);
          content = (if http_method \<notin> set SAFE_METHODS then wq_body request else []);
          invocation = json_dumps (PDict [(''bodySha256'', PStr (sha256_hex E content)), (''method'', PStr http_method),
            (''url'', PStr (wq_url request))])
      in ''http:'' @ http_method @ '':'' @ sha256_hex E invocation)"

definition resolve_http_authoritative_resource ::
  "ext \<Rightarrow> (string \<Rightarrow> string \<Rightarrow> route_config option) \<Rightarrow> web_request \<Rightarrow> exn + authoritative_resource option" where
  "resolve_http_authoritative_resource E get_route_config request =
     (if \<not> list_all is_ascii (wq_raw_path request) then Inl UnicodeError
      else case get_route_config (takeWhile (\<lambda>c. c \<noteq> CHR ''?'') (wq_raw_path request)) (wq_method request) of
          None \<Rightarrow> Inr None
        | Some config \<Rightarrow>
          Inr (Some \<lparr>ar_resource = resource_info config request, ar_identity = invocation_identity E request\<rparr>))"

definition authoritative_from_transport :: "hook_context \<Rightarrow> ('w, authoritative_resource option) web_cmd" where
  "authoritative_from_transport context =
     (if hc_has_request context then cget (\<lambda>w. ws_authoritative (ww_state w)) else creturn None)"

definition requires_response_recovery :: "authoritative_resource option \<Rightarrow> exn + bool" where
  "requires_response_recovery authoritative = (case authoritative of
       None \<Rightarrow> Inr False
     | Some a \<Rightarrow>
       if \<not> starts_with ''http:'' (ar_identity a) then Inr False
       else (case partition_on CHR '':'' (drop 5 (ar_identity a)) of (http_method, sep, _) \<Rightarrow>
         if sep = [] then Inl (ValueError ''not enough values to unpack'')
         else Inr (http_method \<notin> set SAFE_METHODS)))"

definition is_stale_authorization_failure :: "string \<Rightarrow> bool" where
  "is_stale_authorization_failure reason \<longleftrightarrow> reason \<in> set STALE_AUTHORIZATION_FAILURES"

definition record_payment_identifier_conflict :: "hook_context \<Rightarrow> string \<Rightarrow> ('w, unit) web_cmd" where
  "record_payment_identifier_conflict context message =
     (if hc_has_request context then set_state (\<lambda>s. s\<lparr>ws_conflict := Some message\<rparr>) else creturn ())"

text \<open>The error, or the payload with the authoritative resource.\<close>

definition bind_payload_to_authoritative_resource ::
  "payment_payload \<Rightarrow> authoritative_resource \<Rightarrow> string + payment_payload" where
  "bind_payload_to_authoritative_resource payload authoritative = (case p_resource payload of
       None \<Rightarrow> Inl ''payment payload omitted the authoritative resource''
     | Some supplied \<Rightarrow>
       if \<not> py_eq (PDict supplied) (PDict (ar_resource authoritative))
       then Inl ''payment payload resource does not match the protected resource''
       else Inr (payload\<lparr>p_resource := Some (ar_resource authoritative)\<rparr>))"

definition require_authoritative_resource :: "hook_context \<Rightarrow> ('w, hook_result \<times> payment_payload) web_cmd" where
  "require_authoritative_resource context =
     cbind (authoritative_from_transport context) (\<lambda>authoritative. case authoritative of
         None \<Rightarrow> creturn (Continue, hc_payment_payload context)
       | Some a \<Rightarrow>
         (case bind_payload_to_authoritative_resource (hc_payment_payload context) a of
            Inl error \<Rightarrow> creturn (AbortResult ''resource_mismatch'' error, hc_payment_payload context)
          | Inr payload \<Rightarrow> creturn (Continue, payload)))"


section \<open>The hooks\<close>

text \<open>\<open>validate_payment_identifier_requirement(payload, server_required=True)\<close> is \<open>pid_check\<close> with \<open>True\<close>.\<close>

definition require_declared_payment_identifier :: "pid_ext \<Rightarrow> hook_context \<Rightarrow> hook_result" where
  "require_declared_payment_identifier P context =
     (if \<not> hc_is_valid context then Continue
      else if \<not> pid_required P (dget (dict_or_empty (hc_declared_extensions context)) PAYMENT_IDENTIFIER) then Continue
      else case pid_check P (hc_payment_payload context) True of
          Some errors \<Rightarrow> AbortResult ''invalid_payment_identifier'' (join ''; '' errors)
        | None \<Rightarrow>
          (case pid_extract P (hc_payment_payload context) of
             (Some _, None) \<Rightarrow> Continue
           | (_, errors) \<Rightarrow>
             AbortResult ''invalid_payment_identifier'' (join ''; ''
               (case errors of Some (e # es) \<Rightarrow> e # es | _ \<Rightarrow> [''Server requires a valid payment identifier'']))))"

text \<open>\<open>except ValueError\<close> around a call of the response store.\<close>

definition store_call :: "'a redis_cmd \<Rightarrow> (exn \<Rightarrow> ('w, 'b) web_cmd) \<Rightarrow> ('a \<Rightarrow> ('w, 'b) web_cmd) \<Rightarrow> ('w, 'b) web_cmd" where
  "store_call m handler k = ctry_else (on_store m) (\<lambda>e. if is_value_error e then handler e else craise e) k"

definition recover_cached_authorization :: "response_store \<Rightarrow> hook_context \<Rightarrow> ('w, recovered_verify option) web_cmd" where
  "recover_cached_authorization R context =
     (if \<not> is_stale_authorization_failure (hc_error context) then creturn None
      else
        cbind (authoritative_from_transport context) (\<lambda>authoritative.
        cbind (clift (requires_response_recovery authoritative)) (\<lambda>recovery.
          if \<not> recovery then creturn None
          else
            store_call (response_get R (hc_payment_payload context) (hc_requirements context) authoritative)
              (\<lambda>e. cbind (record_payment_identifier_conflict context (str_exn e)) (\<lambda>_. creturn None))
              (\<lambda>cached. creturn (map_option (\<lambda>_.
                 \<lparr>rv_is_valid = True, rv_verification_path = ''cached_response_reconciliation''\<rparr>) cached)))))"

definition conflict_abort :: "hook_context \<Rightarrow> exn \<Rightarrow> ('w, hook_result) web_cmd" where
  "conflict_abort context e =
     cbind (record_payment_identifier_conflict context (str_exn e)) (\<lambda>_.
       creturn (AbortResult ''payment_identifier_conflict'' (str_exn e)))"

definition claim_handler ::
  "response_store \<Rightarrow> hook_context \<Rightarrow> authoritative_resource option \<Rightarrow> ('w, hook_result) web_cmd" where
  "claim_handler R context authoritative =
     store_call (response_bind R (hc_payment_payload context) (hc_requirements context) authoritative)
       (conflict_abort context)
       (\<lambda>acquired.
          if acquired then creturn Continue
          else creturn (AbortResult ''payment_identifier_in_progress'' ''A matching paid request is already executing''))"

definition skip_with :: "hook_context \<Rightarrow> stored_response \<Rightarrow> ('w, hook_result) web_cmd" where
  "skip_with context cached =
     cbind (if hc_has_request context then set_state (\<lambda>s. s\<lparr>ws_cached := Some cached\<rparr>) else creturn ()) (\<lambda>_.
       creturn (SkipHandler (sp_content_type cached)
         (case sp_body cached of Bytes _ \<Rightarrow> Json (PDict []) | b \<Rightarrow> b)))"

definition recover_handler :: "response_store \<Rightarrow> hook_context \<Rightarrow> ('w, hook_result) web_cmd" where
  "recover_handler R context =
     (if \<not> hc_is_valid context then creturn Continue
      else
        cbind (authoritative_from_transport context) (\<lambda>authoritative.
        cbind (clift (requires_response_recovery authoritative)) (\<lambda>recovery.
          if \<not> recovery then creturn Continue
          else
            store_call (response_get R (hc_payment_payload context) (hc_requirements context) authoritative)
              (conflict_abort context)
              (\<lambda>cached. case cached of
                  None \<Rightarrow> claim_handler R context authoritative
                | Some c \<Rightarrow> skip_with context c))))"


section \<open>Responses\<close>

text \<open>\<open>dict(headers)\<close> keeps the first value of a repeated header.\<close>

fun header_dict :: "(string \<times> string) list \<Rightarrow> (string \<times> string) list" where
  "header_dict [] = []"
| "header_dict ((k, v) # hs) = (k, v) # header_dict (filter (\<lambda>h. fst h \<noteq> k) hs)"

abbreviation header_set :: "string \<Rightarrow> string \<Rightarrow> (string \<times> string) list \<Rightarrow> (string \<times> string) list" where
  "header_set k v hs \<equiv> AList.update k v hs"

definition to_stored_response :: "web_response \<Rightarrow> string \<Rightarrow> stored_response" where
  "to_stored_response response content =
     \<lparr>sp_status_code = wr_status response,
      sp_content_type = (case map_of (wr_headers response) ''content-type'' of None \<Rightarrow> ''application/octet-stream'' | Some t \<Rightarrow> t),
      sp_body = Bytes content,
      sp_headers = map (\<lambda>(k, v). (k, PStr v))
        (filter (\<lambda>(k, v). lower k \<notin> {''content-length'', ''payment-response''}) (wr_headers response))\<rparr>"

text \<open>UTF-8 of a text whose characters are code points below 256, and
  \<open>json.dumps(v, ensure_ascii=False, separators=(",", ":"))\<close>.\<close>

definition utf8_encode :: "string \<Rightarrow> string" where
  "utf8_encode s = concat (map (\<lambda>c. if is_ascii c then [c]
     else [char_of (0xC0 + ord_c c div 64), char_of (0x80 + ord_c c mod 64)]) s)"

definition json_plain_char :: "char \<Rightarrow> string" where
  "json_plain_char c = (if 127 \<le> ord_c c then [c] else json_char c)"

fun json_plain :: "pyval \<Rightarrow> string"
  and json_plain_list :: "pyval list \<Rightarrow> string list"
  and json_plain_items :: "(string \<times> pyval) list \<Rightarrow> string list" where
  "json_plain PNone = ''null''"
| "json_plain (PBool b) = (if b then ''true'' else ''false'')"
| "json_plain (PInt i) = show_int i"
| "json_plain (PStr s) = [CHR 0x22] @ concat (map json_plain_char s) @ [CHR 0x22]"
| "json_plain (PList xs) = ''['' @ join '','' (json_plain_list xs) @ '']''"
| "json_plain (PDict d) = ''{'' @ join '','' (json_plain_items d) @ ''}''"
| "json_plain_list [] = []"
| "json_plain_list (x # xs) = json_plain x # json_plain_list xs"
| "json_plain_items [] = []"
| "json_plain_items (kv # d) =
     ([CHR 0x22] @ concat (map json_plain_char (fst kv)) @ [CHR 0x22] @ '':'' @ json_plain (snd kv)) # json_plain_items d"

definition stored_body_bytes :: "stored_response \<Rightarrow> string" where
  "stored_body_bytes cached = (case sp_body cached of
       Bytes b \<Rightarrow> b
     | Json (PStr s) \<Rightarrow> utf8_encode s
     | Json v \<Rightarrow> utf8_encode (json_plain v))"

text \<open>The headers of a restored response: those of the settled one, then the stored ones. A stored
  value is text.\<close>

definition restored_headers :: "(string \<times> string) list \<Rightarrow> stored_response \<Rightarrow> (string \<times> string) list" where
  "restored_headers settled cached =
     header_set ''content-type'' (sp_content_type cached)
       (foldl (\<lambda>hs (k, v). header_set k (py_str v) hs)
          (foldl (\<lambda>hs (k, v). header_set k v hs) []
             (filter (\<lambda>(k, v). lower k \<notin> {''content-length'', ''content-type''}) settled))
          (filter (\<lambda>(k, v). lower k \<notin> {''cache-control'', ''content-length'', ''content-type'', ''payment-response''})
             (sp_headers cached)))"

definition restore_cached_response :: "web_response \<Rightarrow> stored_response \<Rightarrow> web_response" where
  "restore_cached_response settled cached =
     \<lparr>wr_status = sp_status_code cached, wr_headers = restored_headers (wr_headers settled) cached,
      wr_body = [stored_body_bytes cached]\<rparr>"


section \<open>The middleware\<close>

record x402_middleware =
  xm_ext :: ext
  xm_pid :: pid_ext
  xm_declaration :: pyval
  xm_routes :: "(string \<times> route) list"
  xm_get_route_config :: "string \<Rightarrow> string \<Rightarrow> route_config option"
  xm_response_store :: "response_store option"
  xm_decode_payment_response_header :: "string \<Rightarrow> exn + settle_response"

definition pattern_method :: "string \<Rightarrow> string" where
  "pattern_method pattern = upper (fst (partition_on CHR '' '' pattern))"

text \<open>\<open>dict(v or {})\<close>: a list is read as key and value pairs. A pair whose key is no string, which the
  dictionaries here do not have, counts as a pair whose key cannot be hashed.\<close>

definition dict_entry :: "pyval \<Rightarrow> exn + string \<times> pyval" where
  "dict_entry v = (case v of
       PList [PStr k, w] \<Rightarrow> Inr (k, w)
     | PList [_, _] \<Rightarrow> Inl (TypeError ''unhashable type'')
     | PStr [a, b] \<Rightarrow> Inr ([a], PStr [b])
     | PDict [(k, _), (l, _)] \<Rightarrow> Inr (k, PStr l)
     | PList _ \<Rightarrow> Inl (ValueError ''dictionary update sequence element has the wrong length; 2 is required'')
     | PStr _ \<Rightarrow> Inl (ValueError ''dictionary update sequence element has the wrong length; 2 is required'')
     | PDict _ \<Rightarrow> Inl (ValueError ''dictionary update sequence element has the wrong length; 2 is required'')
     | _ \<Rightarrow> Inl (TypeError ''cannot convert dictionary update sequence element to a sequence''))"

definition dict_or_empty_of :: "pyval \<Rightarrow> exn + pydict" where
  "dict_or_empty_of v =
     (if \<not> truthy v then Inr []
      else case v of
        PDict d \<Rightarrow> Inr d
      | PList xs \<Rightarrow> rbind (map_exn dict_entry xs) (\<lambda>entries. Inr (foldl (\<lambda>d (k, w). dset k w d) [] entries))
      | PStr _ \<Rightarrow> Inl (ValueError ''dictionary update sequence element #0 has length 1; 2 is required'')
      | _ \<Rightarrow> Inl (TypeError ''object is not iterable''))"

definition identified_route :: "pyval \<Rightarrow> string \<times> route \<Rightarrow> exn + string \<times> route" where
  "identified_route declaration = (\<lambda>(pattern, config).
     if pattern_method pattern \<in> set SAFE_METHODS then Inr (pattern, config)
     else case config of
         Route c \<Rightarrow>
           Inr (pattern, Route (c\<lparr>rt_extensions := Some (dset PAYMENT_IDENTIFIER declaration (dict_or_empty (rt_extensions c)))\<rparr>))
       | RouteDict d \<Rightarrow>
           rbind (dict_or_empty_of (dget d ''extensions'')) (\<lambda>e.
             Inr (pattern, RouteDict (dset ''extensions'' (PDict (dset PAYMENT_IDENTIFIER declaration e)) d))))"

definition require_identifiers_for_unsafe_routes :: "pyval \<Rightarrow> (string \<times> route) list \<Rightarrow> exn + (string \<times> route) list" where
  "require_identifiers_for_unsafe_routes declaration routes = map_exn (identified_route declaration) routes"

text \<open>\<open>__init__\<close>: the checks of the routes and of what the server is built from; \<open>server\<close>,
  \<open>facilitator_client\<close> tell whether they were passed in.\<close>

definition build_facilitator_client :: "string \<Rightarrow> exn + string" where
  "build_facilitator_client bearer_token =
     (let token = strip bearer_token in
      if token = [] then Inl (ValueError ''bearer_token is required'') else Inr (''Bearer '' @ token))"

definition make_middleware ::
  "x402_middleware \<Rightarrow> bool \<Rightarrow> bool \<Rightarrow> string option \<Rightarrow> string option \<Rightarrow> exn + x402_middleware" where
  "make_middleware M server facilitator_client facilitator_url bearer_token =
     (if xm_routes M = [] then Inl (ValueError ''routes cannot be empty'')
      else if xm_response_store M = None \<and> list_ex (\<lambda>(pattern, _). pattern_method pattern \<notin> set SAFE_METHODS) (xm_routes M)
      then Inl (ValueError ''unsafe paid routes require a RedisResourceResponseStore'')
      else
        rbind (if server \<or> facilitator_client then Inr ()
               else if str_of facilitator_url = [] \<or> str_of bearer_token = []
               then Inl (ValueError ''facilitator_url and bearer_token are required when server is omitted'')
               else rbind (build_facilitator_client (str_of bearer_token)) (\<lambda>_. Inr ())) (\<lambda>_.
          rbind (require_identifiers_for_unsafe_routes (xm_declaration M) (xm_routes M)) (\<lambda>routes.
            Inr (M\<lparr>xm_routes := routes\<rparr>))))"

definition buffered_call_next ::
  "x402_middleware \<Rightarrow> (web_request \<Rightarrow> ('w, web_response) web_cmd) \<Rightarrow> web_request \<Rightarrow> ('w, web_response) web_cmd" where
  "buffered_call_next M call_next request =
     cbind (call_next request) (\<lambda>response.
       if wr_status response \<ge> 400 then creturn response
       else
         let content = concat (wr_body response);
             rebuilt = \<lparr>wr_status = wr_status response, wr_headers = header_dict (wr_headers response), wr_body = [content]\<rparr> in
         cbind (cget ww_state) (\<lambda>s.
         cbind (case (xm_response_store M, ws_payment_payload s, ws_payment_requirements s) of
             (Some R, Some payload, Some requirements) \<Rightarrow>
               if upper (wq_method request) \<in> set SAFE_METHODS then creturn ()
               else (case ws_authoritative s of
                   None \<Rightarrow> craise (RuntimeError ''authoritative HTTP resource is unavailable'')
                 | Some a \<Rightarrow>
                   on_store (response_put R payload requirements (to_stored_response rebuilt content) (Some a)))
           | _ \<Rightarrow> creturn ()) (\<lambda>_.
           creturn rebuilt)))"

definition PAYMENT_RESPONSE :: string where
  "PAYMENT_RESPONSE = ''payment-response''"

definition conflict_response :: "string \<Rightarrow> web_response" where
  "conflict_response conflict = \<lparr>wr_status = 409, wr_headers = [(''cache-control'', ''no-store'')],
     wr_body = [json_plain (PDict [(''error'', PStr conflict)])]\<rparr>"

text \<open>What \<open>dispatch\<close> makes of the response of the SDK's middleware.\<close>

definition finish_response :: "x402_middleware \<Rightarrow> web_response \<Rightarrow> ('w, web_response) web_cmd" where
  "finish_response M response =
     cbind (cget ww_state) (\<lambda>s. case ws_conflict s of
         Some conflict \<Rightarrow> creturn (conflict_response conflict)
       | None \<Rightarrow>
         let final = (case ws_cached s of
             Some cached \<Rightarrow>
               if 200 \<le> wr_status response \<and> wr_status response < 400 then restore_cached_response response cached else response
           | None \<Rightarrow> response) in
         cbind (case (map_of (wr_headers final) PAYMENT_RESPONSE, ws_payment_requirements s) of
             (Some (c # cs), Some requirements) \<Rightarrow>
               cbind (clift (xm_decode_payment_response_header M (c # cs))) (\<lambda>settlement.
                 set_state (\<lambda>s. s\<lparr>ws_x402_payment := Some \<lparr>xc_settlement = settlement, xc_accepted = from_requirements requirements\<rparr>\<rparr>))
           | _ \<Rightarrow> creturn ()) (\<lambda>_.
           creturn final))"

definition dispatch ::
  "x402_middleware \<Rightarrow> (web_request \<Rightarrow> (web_request \<Rightarrow> ('w, web_response) web_cmd) \<Rightarrow> ('w, web_response) web_cmd)
     \<Rightarrow> (web_request \<Rightarrow> ('w, web_response) web_cmd) \<Rightarrow> web_request \<Rightarrow> ('w, web_response) web_cmd" where
  "dispatch M upstream call_next request =
     cbind (clift (resolve_http_authoritative_resource (xm_ext M) (xm_get_route_config M) request)) (\<lambda>authoritative.
     cbind (case authoritative of
         None \<Rightarrow> creturn ()
       | Some a \<Rightarrow> set_state (\<lambda>s. s\<lparr>ws_authoritative := Some a\<rparr>)) (\<lambda>_.
     cbind (upstream request (buffered_call_next M call_next)) (finish_response M)))"

section \<open>The resource server\<close>

text \<open>The hooks in the order of their registration.\<close>

record 'w resource_server =
  sv_networks :: "string list"
  sv_extensions :: "string list"
  sv_marked :: bool
  sv_before_verify :: "(hook_context \<Rightarrow> ('w, hook_result \<times> payment_payload) web_cmd) list"
  sv_verify_failure :: "(hook_context \<Rightarrow> ('w, recovered_verify option) web_cmd) list"
  sv_after_verify :: "(hook_context \<Rightarrow> ('w, hook_result) web_cmd) list"

definition register_authoritative_resource_hook :: "'w resource_server \<Rightarrow> 'w resource_server" where
  "register_authoritative_resource_hook server =
     (if sv_marked server then server
      else server\<lparr>sv_before_verify := sv_before_verify server @ [require_authoritative_resource], sv_marked := True\<rparr>)"

definition create_resource_server :: "pid_ext \<Rightarrow> response_store option \<Rightarrow> bool \<Rightarrow> 'w resource_server" where
  "create_resource_server P store enable_bazaar =
     (let server = register_authoritative_resource_hook
            \<lparr>sv_networks = register_networks (Inr None),
             sv_extensions = PAYMENT_IDENTIFIER # (if enable_bazaar then [''bazaar''] else []), sv_marked = False,
             sv_before_verify = [], sv_verify_failure = [], sv_after_verify = []\<rparr>;
          identified = server\<lparr>sv_after_verify := sv_after_verify server @ [\<lambda>context. creturn (require_declared_payment_identifier P context)]\<rparr> in
      case store of
        None \<Rightarrow> identified
      | Some R \<Rightarrow> identified\<lparr>sv_verify_failure := sv_verify_failure identified @ [recover_cached_authorization R],
                            sv_after_verify := sv_after_verify identified @ [recover_handler R]\<rparr>)"


section \<open>Routes\<close>

record payment_terms =
  pt_pay_to :: string
  pt_network :: string
  pt_amount :: "string option"
  pt_xrp_drops :: "int option"
  pt_asset :: string
  pt_issuer :: "string option"
  pt_max_timeout_seconds :: int
  pt_asset_transfer_method :: string
  pt_invoice_id :: "string option"
  pt_destination_tag :: "int option"
  pt_resource :: "string option"
  pt_description :: "string option"
  pt_mime_type :: string
  pt_service_name :: "string option"
  pt_tags :: "string list option"
  pt_icon_url :: "string option"
  pt_extensions :: "pydict option"

definition price_amount :: "payment_terms \<Rightarrow> exn + string" where
  "price_amount t =
     (if (pt_amount t = None) = (pt_xrp_drops t = None) then Inl (ValueError ''provide exactly one of amount or xrp_drops'')
      else if pt_asset t = ''XRP'' then
        (case pt_xrp_drops t of
           Some drops \<Rightarrow>
             if pt_issuer t \<noteq> None then Inl (ValueError ''XRP pricing requires xrp_drops and no issuer'') else Inr (show_int drops)
         | None \<Rightarrow> Inl (ValueError ''XRP pricing requires xrp_drops and no issuer''))
      else
        (case pt_amount t of
           Some amount \<Rightarrow>
             if str_of (pt_issuer t) = [] then Inl (ValueError ''XRPL IOU pricing requires amount and issuer'') else Inr amount
         | None \<Rightarrow> Inl (ValueError ''XRPL IOU pricing requires amount and issuer'')))"

definition price_extra :: "payment_terms \<Rightarrow> pydict" where
  "price_extra t =
     [(''areFeesSponsored'', PBool False), (''assetTransferMethod'', PStr (pt_asset_transfer_method t))]
     @ (if str_of (pt_issuer t) \<noteq> [] then [(''issuer'', PStr (str_of (pt_issuer t)))] else [])
     @ opt_entry ''invoiceId'' PStr (pt_invoice_id t)
     @ opt_entry ''destinationTag'' PInt (pt_destination_tag t)"

definition require_payment :: "payment_terms \<Rightarrow> exn + route_config" where
  "require_payment t =
     rbind (price_amount t) (\<lambda>amount.
       Inr \<lparr>rt_accepts = [\<lparr>po_scheme = ''exact'', po_pay_to = pt_pay_to t,
              po_price = \<lparr>aa_amount = amount, aa_asset = pt_asset t, aa_extra = Some (price_extra t)\<rparr>,
              po_network = pt_network t, po_max_timeout_seconds = pt_max_timeout_seconds t\<rparr>],
            rt_resource = pt_resource t, rt_description = pt_description t, rt_mime_type = Some (pt_mime_type t),
            rt_service_name = pt_service_name t, rt_tags = pt_tags t, rt_icon_url = pt_icon_url t,
            rt_custom_paywall_html = PNone, rt_unpaid_response_body = PNone, rt_settlement_failed_response_body = PNone,
            rt_extensions = Some (dict_or_empty (pt_extensions t)), rt_hook_timeout_seconds = PNone\<rparr>)"

end
