(* ===== verification/MiddlewareCorrect.thy ===== *)
theory MiddlewareCorrect
  imports Middleware
begin

text \<open>
  Properties of the middleware: a paid unsafe handler runs once per payment identifier, and a retry
  gets the stored result of the first run.
\<close>

section \<open>Running the hooks\<close>

lemma on_store_eq: "on_store m w = (r, w') \<longleftrightarrow> (\<exists>c. m (ww_conn w) = (r, c) \<and> w' = w\<lparr>ww_conn := c\<rparr>)"
  by (auto simp: on_store_def split: prod.splits)

text \<open>A verified payment for an unsafe request to a protected resource.\<close>

definition unsafe_payment :: "hook_context \<Rightarrow> 'w web_world \<Rightarrow> authoritative_resource \<Rightarrow> bool" where
  "unsafe_payment context w a \<longleftrightarrow> hc_is_valid context \<and> hc_has_request context
     \<and> ws_authoritative (ww_state w) = Some a \<and> requires_response_recovery (Some a) = Inr True"

abbreviation stored_for :: "response_store \<Rightarrow> hook_context \<Rightarrow> authoritative_resource \<Rightarrow> stored_response option redis_cmd" where
  "stored_for R context a \<equiv> response_get R (hc_payment_payload context) (hc_requirements context) (Some a)"

lemma recover_handler_unsafe:
  assumes "unsafe_payment context w a"
  shows "recover_handler R context w =
    store_call (stored_for R context a) (conflict_abort context)
      (\<lambda>cached. case cached of None \<Rightarrow> claim_handler R context (Some a) | Some c \<Rightarrow> skip_with context c) w"
  using assms by (simp add: recover_handler_def unsafe_payment_def authoritative_from_transport_def cbind_cget cbind_clift)

lemma conflict_abort_result: "conflict_abort context e w \<noteq> (Ok Continue, w')"
  by (auto simp: conflict_abort_def run_simps)

lemma store_call_Continue:
  assumes "store_call m (conflict_abort context) k w = (Ok Continue, w')"
  obtains x c where "m (ww_conn w) = (Ok x, c)" "k x (w\<lparr>ww_conn := c\<rparr>) = (Ok Continue, w')"
  using assms conflict_abort_result
  by (fastforce simp: store_call_def run_simps on_store_eq split: if_splits)

text \<open>The hook lets the handler run only when it acquired the binding.\<close>

lemma recover_handler_Continue:
  assumes "unsafe_payment context w a" and "recover_handler R context w = (Ok Continue, w')"
  obtains c where "stored_for R context a (ww_conn w) = (Ok None, c)"
    "response_bind R (hc_payment_payload context) (hc_requirements context) (Some a) c = (Ok True, ww_conn w')"
proof -
  obtain x c where get: "stored_for R context a (ww_conn w) = (Ok x, c)"
    and rest: "(case x of None \<Rightarrow> claim_handler R context (Some a) | Some c \<Rightarrow> skip_with context c) (w\<lparr>ww_conn := c\<rparr>) = (Ok Continue, w')"
    using assms(2) unfolding recover_handler_unsafe [OF assms(1)] by (rule store_call_Continue)
  have "x = None"
    using rest by (cases x) (auto simp: skip_with_def run_simps)
  then have "store_call (response_bind R (hc_payment_payload context) (hc_requirements context) (Some a)) (conflict_abort context)
       (\<lambda>acquired. if acquired then creturn Continue
          else creturn (AbortResult ''payment_identifier_in_progress'' ''A matching paid request is already executing''))
       (w\<lparr>ww_conn := c\<rparr>) = (Ok Continue, w')"
    using rest by (simp add: claim_handler_def)
  then show thesis
    by (rule store_call_Continue) (use that get \<open>x = None\<close> in \<open>auto simp: run_simps split: if_splits\<close>)
qed

text \<open>C22. The handler of a paid unsafe request runs once per payment identifier: after the middleware let
  one request through to its handler, it lets no other request with the same identifier, network and
  destination through until the time to live of the stored result has passed, whichever worker serves
  it and whatever the workers do to Redis before and during the second call; it answers with the stored
  result, refuses the request or fails.
\<close>

theorem handler_runs_once:
  assumes "recover_handler R context w = (Ok Continue, w1)" and "unsafe_payment context w a" and "unsafe_payment context' w' a'"
    and "response_identifier (rs_pid R) (hc_payment_payload context) = Inr (Some i)"
    and "response_identifier (rs_pid R') (hc_payment_payload context') = Inr (Some i')"
    and "key = response_key (rs_ext R) i (hc_requirements context)"
    and "response_key (rs_ext R') i' (hc_requirements context') = key"
    and "f = response_fingerprint R (hc_payment_payload context) (hc_requirements context) (Some a)"
    and "T = response_ttl R (hc_requirements context)" and "0 < rs_ttl_seconds R" and "0 < rs_ttl_seconds R'"
    and "responses.obeys key T f es" and "\<And>n. responses.obeys key T f (rs_others R' n)"
    and "ww_conn w' = (ww_conn w1)\<lparr>cn_db := db_run es (cn_db (ww_conn w1))\<rparr>"
    and "recover_handler R' context' w' = (r, w2)" and "db_clock (cn_db (ww_conn w2)) < db_clock (cn_db (ww_conn w1)) + T"
  shows "r \<noteq> Ok Continue"
proof
  assume "r = Ok Continue"
  then obtain c where get: "stored_for R' context' a' (ww_conn w') = (Ok None, c)"
    and bind: "response_bind R' (hc_payment_payload context') (hc_requirements context') (Some a') c = (Ok True, ww_conn w2)"
    using recover_handler_Continue [OF assms(3)] assms(15) by blast
  obtain c0 where "response_bind R (hc_payment_payload context) (hc_requirements context) (Some a) c0 = (Ok True, ww_conn w1)"
    using recover_handler_Continue [OF assms(2,1)] by blast
  from claim_excludes [OF this assms(4-14) get bind assms(16)] show False .
qed

section \<open>The stored result\<close>

lemma header_dict_keys: "set (map fst (header_dict hs)) \<subseteq> set (map fst hs)"
  by (induction hs rule: header_dict.induct) auto

lemma distinct_header_dict: "distinct (map fst (header_dict hs))"
proof (induction hs rule: header_dict.induct)
  case (2 k v hs)
  then show ?case
    using header_dict_keys [of "filter (\<lambda>h. fst h \<noteq> k) hs"] by auto
qed simp

lemma map_of_header_sets:
  "distinct (map fst hs) \<Longrightarrow> map_of (foldl (\<lambda>acc (k, v). header_set k (g v) acc) acc hs) key =
     (case map_of hs key of Some v \<Rightarrow> Some (g v) | None \<Rightarrow> map_of acc key)"
proof (induction hs arbitrary: acc)
  case (Cons h hs)
  obtain k v where h: "h = (k, v)" by fastforce
  then have "map_of hs k = None"
    using Cons.prems by (simp add: map_of_eq_None_iff)
  then show ?case
    using Cons h by (cases "key = k") (auto simp: update_conv' split: option.split)
qed simp

lemma map_of_filter_key: "map_of (filter (\<lambda>(k, v). P k) hs) key = (if P key then map_of hs key else None)"
  by (induction hs) auto

lemma map_of_map_PStr: "map_of (map (\<lambda>(k, v). (k, PStr v)) hs) key = map_option PStr (map_of hs key)"
  by (induction hs) auto

definition same_result :: "web_response \<Rightarrow> web_response \<Rightarrow> bool" where
  "same_result response final \<longleftrightarrow> wr_status final = wr_status response \<and> concat (wr_body final) = concat (wr_body response)
     \<and> map_of (wr_headers final) ''content-type'' = Some (sp_content_type (to_stored_response response []))
     \<and> (\<forall>k v. map_of (wr_headers response) k = Some v \<longrightarrow>
          lower k \<notin> {''cache-control'', ''content-length'', ''content-type'', ''payment-response''} \<longrightarrow>
          map_of (wr_headers final) k = Some v)"

lemma distinct_filter_keys: "distinct (map fst hs) \<Longrightarrow> distinct (map fst (filter P hs))"
  by (simp add: distinct_map_filter)

lemma restore_to_stored:
  assumes "distinct (map fst (wr_headers response))"
  shows "same_result response (restore_cached_response settled (to_stored_response response (concat (wr_body response))))"
proof -
  let ?stored = "to_stored_response response (concat (wr_body response))"
  let ?P = "\<lambda>k. lower k \<notin> {''cache-control'', ''content-length'', ''content-type'', ''payment-response''}"
  let ?kept = "filter (\<lambda>(k, v). ?P k) (sp_headers ?stored)"
  have "map fst (sp_headers ?stored) = map fst (filter (\<lambda>(k, v). lower k \<notin> {''content-length'', ''payment-response''}) (wr_headers response))"
    by (simp add: to_stored_response_def case_prod_unfold)
  then have "distinct (map fst ?kept)"
    using distinct_filter_keys [OF assms] distinct_filter_keys by metis
  note sets = map_of_header_sets [OF this, of py_str]
  have kept: "map_of ?kept k = map_option PStr (map_of (wr_headers response) k)" if "?P k" for k
    using that by (simp add: to_stored_response_def map_of_filter_key map_of_map_PStr)
  have "map_of (restored_headers (wr_headers settled) ?stored) k = Some v"
    if "map_of (wr_headers response) k = Some v" "?P k" for k v
  proof -
    have "k \<noteq> ''content-type''"
      using that(2) by (auto simp: lower_def lower_c_def ord_c_def)
    then show ?thesis
      using that kept [OF that(2)] sets by (simp add: restored_headers_def update_conv' py_str_def)
  qed
  then show ?thesis
    by (simp add: same_result_def restore_cached_response_def restored_headers_def update_conv' stored_body_bytes_def)
      (simp add: to_stored_response_def)
qed

text \<open>C23. A paid retry gets the result of the first run: when the middleware stored the response of a
  handler, a verified retry of the same payment for the same resource skips the handler until the time
  to live of the stored result has passed, and the response restored for it has the status, the body,
  the content type and the other headers of the first response.
\<close>

theorem paid_retry_gets_stored_result:
  assumes "buffered_call_next M call_next request w = (Ok response, w1)"
    and "call_next request w = (Ok inner, w0)" and "wr_status inner < 400"
    and "xm_response_store M = Some R" and "upper (wq_method request) \<notin> set SAFE_METHODS"
    and "ws_payment_payload (ww_state w0) = Some (hc_payment_payload context)"
    and "ws_payment_requirements (ww_state w0) = Some (hc_requirements context)"
    and "ws_authoritative (ww_state w0) = Some a" and "unsafe_payment context w' a"
    and "response_identifier (rs_pid R) (hc_payment_payload context) = Inr (Some i)"
    and "\<forall>e \<in> set es \<union> set (rs_others R (cn_calls (ww_conn w1))). \<forall>x. e = ROp x \<longrightarrow>
      writes_to x \<noteq> Some (response_key (rs_ext R) i (hc_requirements context))"
    and "ww_conn w' = (ww_conn w1)\<lparr>cn_db := db_run es (cn_db (ww_conn w1))\<rparr>"
    and "recover_handler R context w' = (r, w2)"
    and "db_clock (cn_db (ww_conn w2)) < db_clock (cn_db (ww_conn w1)) + response_ttl R (hc_requirements context)"
  shows "\<exists>cached. r = Ok (SkipHandler (sp_content_type cached) (Json (PDict []))) \<and> ws_cached (ww_state w2) = Some cached
    \<and> (\<forall>settled. same_result response (restore_cached_response settled cached))"
proof -
  let ?content = "concat (wr_body inner)"
  let ?rebuilt = "\<lparr>wr_status = wr_status inner, wr_headers = header_dict (wr_headers inner), wr_body = [?content]\<rparr>"
  let ?cached = "to_stored_response ?rebuilt ?content"
  have "on_store (response_put R (hc_payment_payload context) (hc_requirements context) ?cached (Some a)) w0 = (Ok (), w1)"
    and response: "response = ?rebuilt"
    using assms(1-8) by (auto simp: buffered_call_next_def Let_def run_simps)
  then have put: "response_put R (hc_payment_payload context) (hc_requirements context) ?cached (Some a) (ww_conn w0) = (Ok (), ww_conn w1)"
    by (auto simp: on_store_eq)
  obtain r1 c where get: "stored_for R context a (ww_conn w') = (r1, c)" by fastforce
  have run: "(case on_store (stored_for R context a) w' of
      (Ok x, s') \<Rightarrow> (case x of None \<Rightarrow> claim_handler R context (Some a) | Some c \<Rightarrow> skip_with context c) s'
    | (Raise e, s') \<Rightarrow> (if is_value_error e then conflict_abort context e else craise e) s'
    | (Diverge, s') \<Rightarrow> (Diverge, s')) = (r, w2)"
    using assms(13) unfolding recover_handler_unsafe [OF assms(9)] by (simp add: store_call_def ctry_else_def)
  have "db_clock (cn_db c) \<le> db_clock (cn_db (ww_conn w2))"
    using run get advancesD [OF advances_store(1)]
    by (cases r1) (auto simp: on_store_def conflict_abort_def record_payment_identifier_conflict_def set_state_def cbind_def cmodify_def
        creturn_def craise_def claim_handler_def store_call_def ctry_else_def skip_with_def
        split: option.splits if_splits prod.splits outcome.splits)
  then have clock: "db_clock (cn_db c) < db_clock (cn_db (ww_conn w1)) + response_ttl R (hc_requirements context)"
    using assms(14) by simp
  have "r1 = Ok (Some ?cached)"
    using get unfolding assms(12) by (rule stored_response_roundtrip [OF put assms(10,11) _ clock])
  then have "skip_with context ?cached (w'\<lparr>ww_conn := c\<rparr>) = (r, w2)"
    using run get by (simp add: on_store_def)
  then have "r = Ok (SkipHandler (sp_content_type ?cached) (Json (PDict [])))" "ws_cached (ww_state w2) = Some ?cached"
    using assms(9) by (auto simp: skip_with_def unsafe_payment_def set_state_def cmodify_def cbind_def creturn_def to_stored_response_def)
  moreover have "same_result response (restore_cached_response settled ?cached)" for settled
    using restore_to_stored [of ?rebuilt settled] by (simp add: response distinct_header_dict)
  ultimately show ?thesis by blast
qed

section \<open>Routes\<close>

fun route_extensions :: "route \<Rightarrow> pydict option" where
  "route_extensions (Route c) = rt_extensions c"
| "route_extensions (RouteDict d) = as_dict (dget d ''extensions'')"

lemma map_exn_member: "map_exn f xs = Inr ys \<Longrightarrow> y \<in> set ys \<Longrightarrow> \<exists>x \<in> set xs. f x = Inr y"
  by (induction xs arbitrary: ys) (auto simp: rbind_eq_Inr)

text \<open>A route that is given its identifier keeps its pattern; a safe one stays as it is.\<close>

lemma identified_route_cases:
  assumes "identified_route declaration r = Inr (pattern, config)"
  shows "fst r = pattern"
    and "if pattern_method pattern \<in> set SAFE_METHODS then r = (pattern, config)
       else \<exists>declared. route_extensions config = Some declared \<and> dget declared PAYMENT_IDENTIFIER = declaration"
  using assms by (auto simp: identified_route_def rbind_eq_Inr split: prod.splits if_splits route.splits)

lemma identified_patterns:
  "map_exn (identified_route declaration) rs = Inr routes \<Longrightarrow> map fst routes = map fst rs"
  by (induction rs arbitrary: routes) (auto simp: rbind_eq_Inr dest!: identified_route_cases(1))

text \<open>C29. Every unsafe route of a middleware is protected against double execution: a middleware that could
  be built declares the required payment identifier on each of its routes with a method other than GET,
  HEAD and OPTIONS and has a response store when there is such a route; it serves exactly the patterns
  it was given and leaves the safe routes as they are.
\<close>

theorem unsafe_routes_identified:
  assumes "make_middleware M server facilitator_client facilitator_url bearer_token = Inr M'"
  shows "map fst (xm_routes M') = map fst (xm_routes M) \<and> xm_routes M \<noteq> [] \<and>
    (\<forall>(pattern, config) \<in> set (xm_routes M').
       if pattern_method pattern \<in> set SAFE_METHODS then (pattern, config) \<in> set (xm_routes M)
       else xm_response_store M' \<noteq> None \<and>
         (\<exists>declared. route_extensions config = Some declared \<and> dget declared PAYMENT_IDENTIFIER = xm_declaration M))"
proof -
  obtain routes where M': "M' = M\<lparr>xm_routes := routes\<rparr>" and nonempty: "xm_routes M \<noteq> []"
    and routes: "map_exn (identified_route (xm_declaration M)) (xm_routes M) = Inr routes"
    using assms by (auto simp: make_middleware_def require_identifiers_for_unsafe_routes_def rbind_eq_Inr split: if_splits)
  have store: "pattern_method pattern \<in> set SAFE_METHODS \<or> xm_response_store M \<noteq> None"
      if "(pattern, config) \<in> set (xm_routes M)" for pattern config
    using assms that by (auto simp: make_middleware_def rbind_eq_Inr list_ex_iff split: if_splits)
  have "map fst (xm_routes M') = map fst (xm_routes M)"
    unfolding M' using identified_patterns [OF routes] by simp
  moreover have "if pattern_method pattern \<in> set SAFE_METHODS then (pattern, config) \<in> set (xm_routes M)
       else xm_response_store M' \<noteq> None \<and>
         (\<exists>declared. route_extensions config = Some declared \<and> dget declared PAYMENT_IDENTIFIER = xm_declaration M)"
    if member: "(pattern, config) \<in> set (xm_routes M')" for pattern config
  proof -
    obtain r where r: "r \<in> set (xm_routes M)" "identified_route (xm_declaration M) r = Inr (pattern, config)"
      using map_exn_member [OF routes, of "(pattern, config)"] member unfolding M' by auto
    then obtain config' where "(pattern, config') \<in> set (xm_routes M)"
      using identified_route_cases(1) by (metis prod.collapse fst_conv)
    then show ?thesis
      using store identified_route_cases(2) [OF r(2)] r(1) by (auto simp: M')
  qed
  ultimately show ?thesis
    using nonempty by blast
qed


section \<open>Witnesses\<close>

definition sample_resource :: authoritative_resource where
  "sample_resource = \<lparr>ar_resource = [(''url'', PStr ''u'')], ar_identity = ''http:POST:F1''\<rparr>"

definition sample_context :: hook_context where
  "sample_context = \<lparr>hc_payment_payload = small_payload [], hc_requirements = small_requirements, hc_is_valid = True,
     hc_error = [], hc_declared_extensions = None, hc_has_request = True\<rparr>"

definition sample_web :: "redis_conn \<Rightarrow> unit web_world" where
  "sample_web c = \<lparr>ww_conn = c, ww_state = \<lparr>ws_cached = None, ws_authoritative = Some sample_resource, ws_conflict = None,
     ws_payment_payload = Some (small_payload []), ws_payment_requirements = Some small_requirements, ws_x402_payment = None\<rparr>,
     ww_app = ()\<rparr>"

lemma sample_unsafe: "unsafe_payment sample_context (sample_web c) sample_resource"
  by (simp add: unsafe_payment_def sample_context_def sample_web_def requires_response_recovery_def sample_resource_def
      starts_with_def partition_on_def SAFE_METHODS_def Let_def)

lemma sample_web_conn [simp]: "ww_conn (sample_web c) = c" "(sample_web c)\<lparr>ww_conn := c'\<rparr> = sample_web c'"
  by (simp_all add: sample_web_def)

abbreviation sample_response_key :: string where
  "sample_response_key \<equiv> response_key (rs_ext sample_responses) ''order-1'' small_requirements"

abbreviation sample_response_fp :: string where
  "sample_response_fp \<equiv> response_fingerprint sample_responses (small_payload []) small_requirements (Some sample_resource)"

lemma sample_stored_for:
  "stored_for sample_responses sample_context sample_resource c =
     cbind (redis_call (\<lambda>_. []) (OGet sample_response_key)) (\<lambda>raw. case raw of
         ReplyVal record \<Rightarrow> cbind (clift (validate_fingerprint record sample_response_fp)) (\<lambda>_. clift (read_response record))
       | _ \<Rightarrow> creturn None) c"
  by (simp add: response_get_def sample_response_identifier cbind_clift sample_context_def sample_no_others)

lemma sample_bind_attempts:
  "response_bind sample_responses (hc_payment_payload sample_context) (hc_requirements sample_context) (Some sample_resource) c =
     bind_attempts sample_responses (Suc (Suc 0)) sample_response_key sample_response_fp 300 c"
  by (simp add: response_bind_def sample_response_identifier cbind_clift numeral_2_eq_2 sample_context_def del: bind_attempts.simps)

abbreviation claimed_conn :: "nat \<Rightarrow> redis_conn" where
  "claimed_conn t \<equiv> \<lparr>cn_db = \<lparr>db_entries = [sample_response_key \<mapsto> (RVal (bound_record sample_response_fp), Some 300)],
     db_clock = int t\<rparr>, cn_calls = 2\<rparr>"

lemma sample_claims: "recover_handler sample_responses sample_context (sample_web sample_conn) = (Ok Continue, sample_web (claimed_conn 0))"
  unfolding recover_handler_unsafe [OF sample_unsafe]
  by (simp add: store_call_def ctry_else_def on_store_def sample_stored_for claim_handler_def sample_bind_attempts redis_call_def
      sample_conn_def db_live_def db_put_def cbind_def creturn_def Let_def numeral_2_eq_2)

lemma sample_in_progress:
  "\<exists>r c. recover_handler sample_responses sample_context (sample_web (claimed_conn 299)) = (r, sample_web c) \<and> db_clock (cn_db c) = 299"
  unfolding recover_handler_unsafe [OF sample_unsafe]
  by (simp add: store_call_def ctry_else_def on_store_def sample_stored_for claim_handler_def sample_bind_attempts redis_call_def
      db_live_def cbind_def creturn_def clift_def Let_def bound_record_def validate_fingerprint_def vget_def dget_default_def guard_def
      read_response_def) (rule exI, rule conjI, rule refl, simp)

theorem handler_runs_once_witness:
  "\<exists>r w2. recover_handler sample_responses sample_context (sample_web sample_conn) = (Ok Continue, sample_web (claimed_conn 0))
    \<and> recover_handler sample_responses sample_context (sample_web (claimed_conn 299)) = (r, w2) \<and> r \<noteq> Ok Continue"
proof -
  obtain r c where run: "recover_handler sample_responses sample_context (sample_web (claimed_conn 299)) = (r, sample_web c)"
    "db_clock (cn_db c) = 299"
    using sample_in_progress by blast
  have id: "response_identifier (rs_pid sample_responses) (hc_payment_payload sample_context) = Inr (Some ''order-1'')"
    by (rule sample_response_identifier)
  have "r \<noteq> Ok Continue"
    by (rule handler_runs_once [OF sample_claims sample_unsafe sample_unsafe id id refl refl refl refl _ _ _ _ _ run(1),
        where es = "[RTick 299]"]) (simp_all add: run(2) responses.obeys_def sample_context_def)
  then show ?thesis
    using sample_claims run(1) by blast
qed

definition sample_middleware :: x402_middleware where
  "sample_middleware = \<lparr>xm_ext = rs_ext sample_responses, xm_pid = rs_pid sample_responses, xm_declaration = PDict [],
     xm_routes = [], xm_get_route_config = (\<lambda>_ _. None), xm_response_store = Some sample_responses,
     xm_decode_payment_response_header = (\<lambda>_. Inl (ValueError []))\<rparr>"

abbreviation sample_page :: web_response where
  "sample_page \<equiv> \<lparr>wr_status = 200, wr_headers = [(''content-type'', ''text/plain''), (''x-a'', ''1'')], wr_body = [''o'', ''k'']\<rparr>"

abbreviation sample_post :: web_request where
  "sample_post \<equiv> \<lparr>wq_method = ''POST'', wq_url = ''u'', wq_raw_path = ''/'', wq_body = []\<rparr>"

abbreviation sample_stored :: stored_response where
  "sample_stored \<equiv> to_stored_response \<lparr>wr_status = 200, wr_headers = [(''content-type'', ''text/plain''), (''x-a'', ''1'')],
     wr_body = [''ok'']\<rparr> ''ok''"

abbreviation stored_conn :: "nat \<Rightarrow> redis_conn" where
  "stored_conn t \<equiv> \<lparr>cn_db = \<lparr>db_entries = [sample_response_key \<mapsto> (RVal (response_record sample_response_fp sample_stored), Some 300)],
     db_clock = int t\<rparr>, cn_calls = 4\<rparr>"

lemma sample_stores:
  "buffered_call_next sample_middleware (\<lambda>_. creturn sample_page) sample_post (sample_web (claimed_conn 0)) =
     (Ok \<lparr>wr_status = 200, wr_headers = [(''content-type'', ''text/plain''), (''x-a'', ''1'')], wr_body = [''ok'']\<rparr>,
      sample_web (stored_conn 0))"
proof -
  have "response_put sample_responses (small_payload []) small_requirements sample_stored (Some sample_resource) (claimed_conn 0)
      = (Ok (), stored_conn 0)"
    by (simp add: response_put_def sample_response_identifier cbind_clift redis_call_def db_live_def db_put_def sample_no_others
        cbind_def creturn_def Let_def bound_record_def validate_fingerprint_def vget_def dget_default_def guard_def clift_def)
  then have "on_store (response_put sample_responses (small_payload []) small_requirements sample_stored (Some sample_resource))
      (sample_web (claimed_conn 0)) = (Ok (), sample_web (stored_conn 0))"
    by (simp add: on_store_def)
  then show ?thesis
    by (simp add: buffered_call_next_def sample_middleware_def Let_def cbind_def creturn_def cget_def sample_web_def SAFE_METHODS_def
        upper_def upper_c_def ord_c_def)
qed

lemma sample_skips:
  "recover_handler sample_responses sample_context (sample_web (stored_conn 299)) =
     (r, w) \<Longrightarrow> db_clock (cn_db (ww_conn w)) = 299"
proof -
  assume run: "recover_handler sample_responses sample_context (sample_web (stored_conn 299)) = (r, w)"
  have "on_store (stored_for sample_responses sample_context sample_resource) (sample_web (stored_conn 299)) =
      (Ok (Some sample_stored), sample_web ((stored_conn 299)\<lparr>cn_calls := 5\<rparr>))"
    by (simp add: on_store_def sample_stored_for redis_call_def db_live_def cbind_def creturn_def clift_def Let_def
        validate_response_record read_response_record)
  then show ?thesis
    using run unfolding recover_handler_unsafe [OF sample_unsafe]
    by (auto simp: store_call_def ctry_else_def skip_with_def set_state_def cmodify_def cbind_def creturn_def sample_context_def)
qed

theorem paid_retry_gets_stored_result_witness:
  "\<exists>response w2 cached. buffered_call_next sample_middleware (\<lambda>_. creturn sample_page) sample_post (sample_web (claimed_conn 0))
      = (Ok response, sample_web (stored_conn 0))
    \<and> recover_handler sample_responses sample_context (sample_web (stored_conn 299)) = (Ok (SkipHandler (sp_content_type cached) (Json (PDict []))), w2)
    \<and> same_result response (restore_cached_response sample_page cached)"
proof -
  obtain r w2 where run: "recover_handler sample_responses sample_context (sample_web (stored_conn 299)) = (r, w2)"
    by fastforce
  have id: "response_identifier (rs_pid sample_responses) (hc_payment_payload sample_context) = Inr (Some ''order-1'')"
    by (rule sample_response_identifier)
  have call: "(\<lambda>_. creturn sample_page) sample_post (sample_web (claimed_conn 0)) = (Ok sample_page, sample_web (claimed_conn 0))"
    by (simp add: creturn_def)
  have "\<exists>cached. r = Ok (SkipHandler (sp_content_type cached) (Json (PDict []))) \<and> ws_cached (ww_state w2) = Some cached
    \<and> (\<forall>settled. same_result \<lparr>wr_status = 200, wr_headers = [(''content-type'', ''text/plain''), (''x-a'', ''1'')], wr_body = [''ok'']\<rparr>
         (restore_cached_response settled cached))"
    by (rule paid_retry_gets_stored_result [OF sample_stores call _ _ _ _ _ _ sample_unsafe id _ _ run, where es = "[RTick 299]"])
      (simp_all add: sample_skips [OF run] sample_no_others sample_middleware_def sample_web_def [abs_def] sample_context_def
        SAFE_METHODS_def upper_def upper_c_def ord_c_def)
  then show ?thesis
    using sample_stores run by blast
qed

abbreviation sample_setup :: x402_middleware where
  "sample_setup \<equiv> sample_middleware\<lparr>xm_routes := [(''GET /a'', RouteDict []), (''POST /b'', RouteDict [])]\<rparr>"

theorem unsafe_routes_identified_witness:
  "\<exists>M'. make_middleware sample_setup True False None None = Inr M' \<and> map fst (xm_routes M') = [''GET /a'', ''POST /b'']"
proof -
  have route: "\<exists>r. identified_route d (p, RouteDict []) = Inr r" for d p
    by (simp add: identified_route_def dict_or_empty_of_def)
  obtain a b where "identified_route (PDict []) (''GET /a'', RouteDict []) = Inr a"
    "identified_route (PDict []) (''POST /b'', RouteDict []) = Inr b" using route by blast
  then obtain M' where M': "make_middleware sample_setup True False None None = Inr M'"
    by (simp add: make_middleware_def sample_middleware_def require_identifiers_for_unsafe_routes_def)
  show ?thesis
    using unsafe_routes_identified [OF M'] M' by auto
qed

end
