(* ===== verification/MiddlewareMcp.thy ===== *)
theory MiddlewareMcp
  imports Middleware
begin

text \<open>
  \<open>xrpl_x402_middleware/mcp.py\<close>: paid MCP tools. The wrapper binds each payment to one invocation of one
  tool, runs a tool with side effects once per payment identifier, keeps its result for retries, and
  reports a settlement that is still pending.

  The official wrapper of the x402 SDK, which verifies, runs the hook and the tool, and settles, is an
  argument, as is the resource server it talks to. The context variables of the module are fields of
  the state; the tool's arguments are JSON values, apart from \<open>ctx\<close>.
\<close>

section \<open>Data\<close>

record 'w tool_world =
  tw_conn :: redis_conn
  tw_settlement :: "settle_response option"
  tw_resource :: "authoritative_resource option"
  tw_recovery :: "(payment_payload \<times> payment_requirements \<times> stored_response option \<times> authoritative_resource) option"
  tw_app :: 'w

type_synonym ('w, 'a) tool_cmd = "('w tool_world, 'a) cmd"

datatype content_item = TextContent string | OtherContent pyval

record tool_answer =
  ta_structured :: pyval
  ta_is_error :: bool
  ta_content :: "content_item list"
  ta_meta :: "pydict option"

record tool_wrapper =
  tq_ext :: ext
  tq_declaration :: pyval
  tq_accepts :: "payment_requirements list"
  tq_resource :: "pydict option"
  tq_extensions :: "pydict option"
  tq_non_idempotent :: bool
  tq_response_store :: "response_store option"
  tq_settle_dump :: "settle_response \<Rightarrow> pydict"

definition tool_store :: "'a redis_cmd \<Rightarrow> ('w, 'a) tool_cmd" where
  "tool_store m = (\<lambda>w. case m (tw_conn w) of (r, c) \<Rightarrow> (r, w\<lparr>tw_conn := c\<rparr>))"

text \<open>\<open>except ValueError: return x\<close>.\<close>

definition or_else :: "('s, 'a) cmd \<Rightarrow> 'a \<Rightarrow> ('s, 'a) cmd" where
  "or_else m x = ctry m (\<lambda>e. if is_value_error e then creturn x else craise e)"


section \<open>The protected resource of a tool\<close>

text \<open>\<open>_mcp_authoritative_resource\<close> and, for one invocation, \<open>_mcp_invocation_resource\<close>.\<close>

definition mcp_authoritative_resource :: "string \<Rightarrow> pydict option \<Rightarrow> authoritative_resource" where
  "mcp_authoritative_resource tool configured =
     \<lparr>ar_resource = (case configured of
          Some r \<Rightarrow> r
        | None \<Rightarrow> [(''url'', PStr (''mcp://tool/'' @ tool)), (''description'', PStr (''Tool: '' @ tool)),
                   (''mimeType'', PStr ''application/json'')]),
      ar_identity = ''mcp:'' @ tool\<rparr>"

definition mcp_invocation_resource :: "ext \<Rightarrow> authoritative_resource \<Rightarrow> pydict \<Rightarrow> authoritative_resource" where
  "mcp_invocation_resource E authoritative kwargs =
     \<lparr>ar_resource = ar_resource authoritative,
      ar_identity = ar_identity authoritative @ '':'' @
        sha256_hex E (json_dumps (PDict (filter (\<lambda>kv. fst kv \<noteq> ''ctx'') kwargs)))\<rparr>"


section \<open>The capturing resource server\<close>

definition bind_invocation :: "authoritative_resource option \<Rightarrow> payment_payload \<Rightarrow> string + payment_payload" where
  "bind_invocation authoritative payload = (case authoritative of
       None \<Rightarrow> Inr payload
     | Some a \<Rightarrow> bind_payload_to_authoritative_resource payload a)"

text \<open>A stale authorization whose result is stored counts as verified.\<close>

definition recover_stale ::
  "response_store option \<Rightarrow> authoritative_resource option \<Rightarrow> payment_payload \<Rightarrow> payment_requirements \<Rightarrow> verify_response
     \<Rightarrow> ('w, verify_response) tool_cmd" where
  "recover_stale store authoritative payload requirements result = (case (store, authoritative) of
       (Some R, Some a) \<Rightarrow>
         if vr_is_valid result \<or> (case vr_invalid_reason result of None \<Rightarrow> True | Some reason \<Rightarrow> \<not> is_stale_authorization_failure reason)
           then creturn result
         else cbind (or_else (tool_store (response_get R payload requirements (Some a))) None) (\<lambda>cached.
           creturn (case cached of
               None \<Rightarrow> result
             | Some _ \<Rightarrow> \<lparr>vr_is_valid = True, vr_invalid_reason = None, vr_invalid_message = None, vr_payer = vr_payer result,
                         vr_verification_path = Some ''cached_response_reconciliation''\<rparr>))
     | _ \<Rightarrow> creturn result)"

text \<open>Both methods bind the resource of the payload they are given, which the caller sees: the payload is
  part of the result.\<close>

definition capturing_verify ::
  "response_store option \<Rightarrow> (payment_payload \<Rightarrow> payment_requirements \<Rightarrow> ('w, verify_response) tool_cmd)
     \<Rightarrow> payment_payload \<Rightarrow> payment_requirements \<Rightarrow> ('w, verify_response \<times> payment_payload) tool_cmd" where
  "capturing_verify store server payload requirements =
     cbind (cget tw_resource) (\<lambda>authoritative. case bind_invocation authoritative payload of
         Inl error \<Rightarrow>
           creturn (\<lparr>vr_is_valid = False, vr_invalid_reason = Some ''resource_mismatch'', vr_invalid_message = Some error,
                     vr_payer = None, vr_verification_path = None\<rparr>, payload)
       | Inr bound \<Rightarrow>
           cbind (server bound requirements) (\<lambda>result.
           cbind (recover_stale store authoritative bound requirements result) (\<lambda>answer.
             creturn (answer, bound))))"

definition capturing_settle ::
  "(payment_payload \<Rightarrow> payment_requirements \<Rightarrow> ('w, settle_response) tool_cmd)
     \<Rightarrow> payment_payload \<Rightarrow> payment_requirements \<Rightarrow> ('w, settle_response \<times> payment_payload) tool_cmd" where
  "capturing_settle server payload requirements =
     cbind (cget tw_resource) (\<lambda>authoritative. case bind_invocation authoritative payload of
         Inl error \<Rightarrow>
           creturn (\<lparr>sr_success = False, sr_error_reason = Some ''resource_mismatch'', sr_error_message = Some error,
                     sr_payer = None, sr_transaction = [], sr_network = r_network requirements, sr_amount = None,
                     sr_status = None\<rparr>, payload)
       | Inr bound \<Rightarrow>
           cbind (server bound requirements) (\<lambda>result.
           cbind (cmodify (\<lambda>w. w\<lparr>tw_settlement := Some result\<rparr>)) (\<lambda>_.
             creturn (result, bound))))"


section \<open>Pending settlements\<close>

text \<open>\<open>json.dumps\<close> of a dictionary in its own order, with Python's default separators.\<close>

fun json_ordered :: "pyval \<Rightarrow> string"
  and json_ordered_list :: "pyval list \<Rightarrow> string list"
  and json_ordered_items :: "(string \<times> pyval) list \<Rightarrow> string list" where
  "json_ordered PNone = ''null''"
| "json_ordered (PBool b) = (if b then ''true'' else ''false'')"
| "json_ordered (PInt i) = show_int i"
| "json_ordered (PStr s) = json_string s"
| "json_ordered (PList xs) = ''['' @ join '', '' (json_ordered_list xs) @ '']''"
| "json_ordered (PDict d) = ''{'' @ join '', '' (json_ordered_items d) @ ''}''"
| "json_ordered_list [] = []"
| "json_ordered_list (x # xs) = json_ordered x # json_ordered_list xs"
| "json_ordered_items [] = []"
| "json_ordered_items (kv # d) = (json_string (fst kv) @ '': '' @ json_ordered (snd kv)) # json_ordered_items d"

abbreviation MCP_PAYMENT_RESPONSE_META_KEY :: string where
  "MCP_PAYMENT_RESPONSE_META_KEY \<equiv> ''x402/payment-response''"

definition with_pending :: "pydict \<Rightarrow> tool_answer \<Rightarrow> tool_answer" where
  "with_pending wire answer = (case ta_structured answer of
       PDict content \<Rightarrow>
         let structured = PDict (dset MCP_PAYMENT_RESPONSE_META_KEY (PDict wire) content) in
         answer\<lparr>ta_structured := structured,
                ta_content := (case ta_content answer of
                    TextContent _ # items \<Rightarrow> TextContent (json_ordered structured) # items
                  | items \<Rightarrow> items),
                ta_meta := Some (dset MCP_PAYMENT_RESPONSE_META_KEY (PDict wire) (dict_or_empty (ta_meta answer)))\<rparr>
     | _ \<Rightarrow> answer)"

definition is_pending_answer :: "settle_response option \<Rightarrow> tool_answer \<Rightarrow> bool" where
  "is_pending_answer settlement answer \<longleftrightarrow> (case settlement of
       None \<Rightarrow> False
     | Some s \<Rightarrow> \<not> sr_success s \<and> sr_error_reason s = Some ''settlement_pending'' \<and> ta_is_error answer
         \<and> as_dict (ta_structured answer) \<noteq> None)"

text \<open>The context of one invocation, given back by the \<open>finally\<close> clause.\<close>

definition in_context ::
  "settle_response option \<Rightarrow> authoritative_resource option \<Rightarrow> ('w, 'a) tool_cmd \<Rightarrow> ('w, 'a) tool_cmd" where
  "in_context settlement resource m = (\<lambda>w. case m (w\<lparr>tw_settlement := settlement, tw_resource := resource\<rparr>) of
       (r, w') \<Rightarrow> (r, w'\<lparr>tw_settlement := tw_settlement w, tw_resource := tw_resource w\<rparr>))"

definition preserve_pending_settlement_response ::
  "tool_wrapper \<Rightarrow> authoritative_resource \<Rightarrow> (pydict \<Rightarrow> ('w, tool_answer) tool_cmd) \<Rightarrow> pydict \<Rightarrow> ('w, tool_answer) tool_cmd" where
  "preserve_pending_settlement_response T authoritative handler kwargs =
     in_context None (Some (mcp_invocation_resource (tq_ext T) authoritative kwargs))
       (cbind (handler kwargs) (\<lambda>answer.
        cbind (cget tw_settlement) (\<lambda>settlement.
          creturn (if is_pending_answer settlement answer
                   then (case settlement of Some s \<Rightarrow> with_pending (tq_settle_dump T s) answer | None \<Rightarrow> answer)
                   else answer))))"


section \<open>One execution per identifier\<close>

definition set_recovery ::
  "(payment_payload \<times> payment_requirements \<times> stored_response option \<times> authoritative_resource) option \<Rightarrow> ('w, unit) tool_cmd" where
  "set_recovery x = cmodify (\<lambda>w. w\<lparr>tw_recovery := x\<rparr>)"

text \<open>The body of the \<open>try\<close>: the stored result, if any, and whether the tool may go on.\<close>

definition look_up_or_claim ::
  "response_store \<Rightarrow> payment_payload \<Rightarrow> payment_requirements \<Rightarrow> authoritative_resource
     \<Rightarrow> ('w, bool \<times> stored_response option) tool_cmd" where
  "look_up_or_claim R payload requirements a =
     cbind (tool_store (response_get R payload requirements (Some a))) (\<lambda>cached. case cached of
         Some c \<Rightarrow> creturn (True, Some c)
       | None \<Rightarrow>
           cbind (tool_store (response_bind R payload requirements (Some a))) (\<lambda>acquired. creturn (acquired, None)))"

definition load_cached_response ::
  "response_store \<Rightarrow> payment_payload \<Rightarrow> payment_requirements \<Rightarrow> ('w, bool) tool_cmd" where
  "load_cached_response R payload requirements =
     cbind (set_recovery None) (\<lambda>_.
     cbind (cget tw_resource) (\<lambda>authoritative. case authoritative of
         None \<Rightarrow> creturn False
       | Some a \<Rightarrow>
           cbind (or_else (look_up_or_claim R payload requirements a) (False, None)) (\<lambda>(proceed, cached).
             if \<not> proceed then creturn False
             else cbind (set_recovery (Some (payload, requirements, cached, a))) (\<lambda>_. creturn True))))"

text \<open>\<open>finally: recovery_context.set(None)\<close>.\<close>

definition clearing_recovery :: "('w, 'a) tool_cmd \<Rightarrow> ('w, 'a) tool_cmd" where
  "clearing_recovery m = (\<lambda>w. case m w of (r, w') \<Rightarrow> (r, w'\<lparr>tw_recovery := None\<rparr>))"

definition tool_response :: "pyval \<Rightarrow> stored_response" where
  "tool_response result =
     \<lparr>sp_status_code = 200,
      sp_content_type = (case result of PDict _ \<Rightarrow> ''application/json'' | _ \<Rightarrow> ''text/plain''),
      sp_body = Json result, sp_headers = []\<rparr>"

definition recoverable :: "response_store \<Rightarrow> (pydict \<Rightarrow> ('w, pyval) tool_cmd) \<Rightarrow> pydict \<Rightarrow> ('w, body) tool_cmd" where
  "recoverable R handler kwargs =
     cbind (cget tw_recovery) (\<lambda>state. case state of
         None \<Rightarrow> craise (RuntimeError ''MCP payment recovery context is unavailable'')
       | Some (payload, requirements, cached, a) \<Rightarrow>
           clearing_recovery (case cached of
               Some c \<Rightarrow> creturn (sp_body c)
             | None \<Rightarrow>
                 cbind (handler kwargs) (\<lambda>result.
                   if as_dict result = None \<and> as_str result = None
                     then craise (TypeError ''recoverable paid MCP tools must return a dict or string'')
                   else cbind (tool_store (response_put R payload requirements (tool_response result) (Some a))) (\<lambda>_.
                     creturn (Json result)))))"


section \<open>The wrapper\<close>

text \<open>What the official wrapper is built from: the store of the capturing server, the hook before
  execution, if any, and the declared extensions. \<open>official\<close> is the SDK's wrapper.\<close>

record 'w wrapper_setup =
  wu_store :: "response_store option"
  wu_before_execution :: "(payment_payload \<Rightarrow> payment_requirements \<Rightarrow> ('w, bool) tool_cmd) option"
  wu_extensions :: pydict

definition check_wrapper :: "tool_wrapper \<Rightarrow> exn + unit" where
  "check_wrapper T =
     (if tq_accepts T = [] then Inl (ValueError ''accepts cannot be empty'')
      else if tq_non_idempotent T \<and> tq_response_store T = None
        then Inl (ValueError ''non-idempotent MCP tools require a RedisResourceResponseStore'')
      else Inr ())"

definition wrapper_extensions :: "tool_wrapper \<Rightarrow> pydict" where
  "wrapper_extensions T =
     (if tq_non_idempotent T then dset PAYMENT_IDENTIFIER (tq_declaration T) (dict_or_empty (tq_extensions T))
      else dict_or_empty (tq_extensions T))"

definition wrapper_setup_of :: "tool_wrapper \<Rightarrow> 'w wrapper_setup" where
  "wrapper_setup_of T =
     (case (tq_non_idempotent T, tq_response_store T) of
        (True, Some R) \<Rightarrow> \<lparr>wu_store = Some R, wu_before_execution = Some (load_cached_response R),
                          wu_extensions = wrapper_extensions T\<rparr>
      | _ \<Rightarrow> \<lparr>wu_store = None, wu_before_execution = None, wu_extensions = wrapper_extensions T\<rparr>)"

text \<open>The tool that the official wrapper runs: the handler, or the handler with its recovery.\<close>

definition wrapped_handler :: "tool_wrapper \<Rightarrow> (pydict \<Rightarrow> ('w, pyval) tool_cmd) \<Rightarrow> pydict \<Rightarrow> ('w, body) tool_cmd" where
  "wrapped_handler T handler = (case (tq_non_idempotent T, tq_response_store T) of
       (True, Some R) \<Rightarrow> recoverable R handler
     | _ \<Rightarrow> (\<lambda>kwargs. cbind (handler kwargs) (\<lambda>result. creturn (Json result))))"

definition create_xrpl_mcp_payment_wrapper ::
  "tool_wrapper \<Rightarrow> ('w wrapper_setup \<Rightarrow> (pydict \<Rightarrow> ('w, body) tool_cmd) \<Rightarrow> pydict \<Rightarrow> ('w, tool_answer) tool_cmd)
     \<Rightarrow> exn + (string \<Rightarrow> (pydict \<Rightarrow> ('w, pyval) tool_cmd) \<Rightarrow> pydict \<Rightarrow> ('w, tool_answer) tool_cmd)" where
  "create_xrpl_mcp_payment_wrapper T official =
     rbind (check_wrapper T) (\<lambda>_.
       Inr (\<lambda>tool handler.
         preserve_pending_settlement_response T (mcp_authoritative_resource tool (tq_resource T))
           (official (wrapper_setup_of T) (wrapped_handler T handler))))"

end
