(* ===== verification/MiddlewareMcpCorrect.thy ===== *)
theory MiddlewareMcpCorrect
  imports MiddlewareMcp
begin

text \<open>
  Properties of paid MCP tools: a tool with side effects runs once per payment identifier, and a retry
  gets the stored result of the first run.
\<close>

section \<open>Running the hook and the tool\<close>

lemma tool_store_eq: "tool_store m w = (r, w') \<longleftrightarrow> (\<exists>c. m (tw_conn w) = (r, c) \<and> w' = w\<lparr>tw_conn := c\<rparr>)"
  by (auto simp: tool_store_def split: prod.splits)

lemma or_else_Ok: "or_else m x s = (Ok y, s') \<longleftrightarrow> m s = (Ok y, s') \<or> (\<exists>e. m s = (Raise e, s') \<and> is_value_error e \<and> y = x)"
  by (cases "m s") (auto simp: or_else_def ctry_def craise_def creturn_def split: outcome.splits)

lemma look_up_or_claim_Ok:
  assumes "look_up_or_claim R payload requirements a w = (Ok (True, cached), w')"
  obtains c where "response_get R payload requirements (Some a) (tw_conn w) = (Ok cached, c)"
    and "w' = w\<lparr>tw_conn := tw_conn w'\<rparr>"
    and "cached = None \<Longrightarrow> response_bind R payload requirements (Some a) c = (Ok True, tw_conn w')"
  using assms by (auto simp: look_up_or_claim_def run_simps tool_store_eq split: option.splits)

text \<open>The hook lets a call go on with the stored result, or without one after it acquired the binding.\<close>

lemma load_cached_True:
  assumes "load_cached_response R payload requirements w = (Ok True, w')"
  obtains a cached c where "tw_resource w = Some a" and "tw_recovery w' = Some (payload, requirements, cached, a)"
    and "response_get R payload requirements (Some a) (tw_conn w) = (Ok cached, c)"
    and "cached = None \<Longrightarrow> response_bind R payload requirements (Some a) c = (Ok True, tw_conn w')"
proof -
  from assms obtain a cached w0 where resource: "tw_resource w = Some a"
    and looked: "or_else (look_up_or_claim R payload requirements a) (False, None) (w\<lparr>tw_recovery := None\<rparr>) = (Ok (True, cached), w0)"
    and w': "w' = w0\<lparr>tw_recovery := Some (payload, requirements, cached, a)\<rparr>"
    by (auto simp: load_cached_response_def set_recovery_def run_simps cmodify_def split: option.splits if_splits)
  then have "look_up_or_claim R payload requirements a (w\<lparr>tw_recovery := None\<rparr>) = (Ok (True, cached), w0)"
    by (auto simp: or_else_Ok)
  then show thesis
    by (rule look_up_or_claim_Ok) (use that resource w' in auto)
qed

text \<open>A call with a stored result returns it; the tool is not among the things that happen.\<close>

lemma recoverable_cached:
  assumes "tw_recovery w = Some (payload, requirements, Some c, a)"
  shows "recoverable R handler kwargs w = (Ok (sp_body c), w\<lparr>tw_recovery := None\<rparr>)"
  using assms by (simp add: recoverable_def cbind_cget clearing_recovery_def creturn_def)

lemma load_cached_hit:
  assumes "tw_resource w = Some a" and "response_get R payload requirements (Some a) (tw_conn w) = (Ok (Some c), conn)"
  shows "load_cached_response R payload requirements w =
    (Ok True, w\<lparr>tw_conn := conn, tw_recovery := Some (payload, requirements, Some c, a)\<rparr>)"
  using assms by (simp add: load_cached_response_def set_recovery_def look_up_or_claim_def or_else_def ctry_def tool_store_def
      cbind_def cmodify_def cget_def creturn_def)

lemma look_up_or_claim_clock:
  assumes "look_up_or_claim R payload requirements a w = (r, w')"
    and "response_get R payload requirements (Some a) (tw_conn w) = (r1, c)"
  shows "db_clock (cn_db c) \<le> db_clock (cn_db (tw_conn w'))"
  using assms advancesD [OF advances_store(1), of R payload requirements "Some a" c]
  by (auto simp: look_up_or_claim_def tool_store_def cbind_def creturn_def split: outcome.splits option.splits prod.splits)

lemma load_cached_clock:
  assumes "load_cached_response R payload requirements w = (r, w')" and "tw_resource w = Some a"
    and "response_get R payload requirements (Some a) (tw_conn w) = (r1, c)"
  shows "db_clock (cn_db c) \<le> db_clock (cn_db (tw_conn w'))"
proof -
  let ?w = "w\<lparr>tw_recovery := None\<rparr>"
  obtain x v where look: "look_up_or_claim R payload requirements a ?w = (x, v)"
    by fastforce
  have "tw_conn w' = tw_conn v"
    using assms(1,2) look
    by (cases x) (auto simp: load_cached_response_def set_recovery_def or_else_def ctry_def cbind_def cmodify_def cget_def creturn_def
        craise_def split: if_splits)
  then show ?thesis
    using look_up_or_claim_clock [OF look] assms(3) by simp
qed

lemma recoverable_stored:
  assumes "recoverable R handler kwargs w = (Ok result, w')" and "tw_recovery w = Some (payload, requirements, None, a)"
  obtains v c where "result = Json v" and "response_put R payload requirements (tool_response v) (Some a) c = (Ok (), tw_conn w')"
proof -
  have "\<exists>v c. result = Json v \<and> response_put R payload requirements (tool_response v) (Some a) c = (Ok (), tw_conn w')"
    using assms by (auto simp: recoverable_def cbind_cget clearing_recovery_def run_simps tool_store_eq split: prod.splits if_splits)
  then show thesis
    using that by blast
qed

text \<open>C20. A tool with side effects runs once per payment identifier: after the hook of the wrapper let one
  call through to the tool, a call with the same identifier, network and destination that it lets
  through until the time to live of the stored result has passed answers with a stored result and does
  not run the tool, whichever worker serves it, whatever tool and arguments it names, and whatever the
  workers do to Redis before and during the second call.
\<close>

theorem mcp_tool_runs_once:
  assumes "load_cached_response R payload requirements w = (Ok True, w1)"
    and "tw_recovery w1 = Some (payload, requirements, None, a)"
    and "response_identifier (rs_pid R) payload = Inr (Some i)" and "response_identifier (rs_pid R') payload' = Inr (Some i')"
    and "key = response_key (rs_ext R) i requirements" and "response_key (rs_ext R') i' requirements' = key"
    and "f = response_fingerprint R payload requirements (Some a)"
    and "T = response_ttl R requirements" and "0 < rs_ttl_seconds R" and "0 < rs_ttl_seconds R'"
    and "responses.obeys key T f es" and "\<And>n. responses.obeys key T f (rs_others R' n)"
    and "tw_conn w' = (tw_conn w1)\<lparr>cn_db := db_run es (cn_db (tw_conn w1))\<rparr>"
    and "load_cached_response R' payload' requirements' w' = (Ok True, w2)"
    and "db_clock (cn_db (tw_conn w2)) < db_clock (cn_db (tw_conn w1)) + T"
  shows "\<exists>c :: stored_response. \<forall>handler kwargs. recoverable R' handler kwargs w2 = (Ok (sp_body c), w2\<lparr>tw_recovery := None\<rparr>)"
proof -
  obtain c0 where first: "response_bind R payload requirements (Some a) c0 = (Ok True, tw_conn w1)"
    using assms(1,2) by (auto elim: load_cached_True)
  obtain a' cached c where second: "tw_recovery w2 = Some (payload', requirements', cached, a')"
    "response_get R' payload' requirements' (Some a') (tw_conn w') = (Ok cached, c)"
    "cached = None \<Longrightarrow> response_bind R' payload' requirements' (Some a') c = (Ok True, tw_conn w2)"
    using assms(14) by (elim load_cached_True) blast
  have "cached \<noteq> None"
  proof
    assume "cached = None"
    then show False
      using second(2,3) by (intro claim_excludes [OF first assms(3-13) _ _ assms(15)]) simp_all
  qed
  then obtain stored where "cached = Some stored"
    by blast
  then show ?thesis
    using second(1) by (intro exI [of _ "stored"]) (auto intro: recoverable_cached)
qed

text \<open>A paid retry of a tool gets the result of the first run: when the wrapper ran a tool and kept its
  result, the hook lets a retry of the payment for the same invocation through until the time to live
  of the result has passed, and the retry answers with the same result without running the tool.
\<close>

theorem mcp_tool_replays:
  assumes "recoverable R handler kwargs w = (Ok result, w1)"
    and "tw_recovery w = Some (payload, requirements, None, a)"
    and "response_identifier (rs_pid R) payload = Inr (Some i)"
    and "\<forall>e \<in> set es \<union> set (rs_others R (cn_calls (tw_conn w1))). \<forall>x. e = ROp x \<longrightarrow>
      writes_to x \<noteq> Some (response_key (rs_ext R) i requirements)"
    and "tw_conn w' = (tw_conn w1)\<lparr>cn_db := db_run es (cn_db (tw_conn w1))\<rparr>" and "tw_resource w' = Some a"
    and "load_cached_response R payload requirements w' = (r, w2)"
    and "db_clock (cn_db (tw_conn w2)) < db_clock (cn_db (tw_conn w1)) + response_ttl R requirements"
  shows "r = Ok True \<and> recoverable R handler' kwargs' w2 = (Ok result, w2\<lparr>tw_recovery := None\<rparr>)"
proof -
  obtain v c0 where result: "result = Json v"
    and put: "response_put R payload requirements (tool_response v) (Some a) c0 = (Ok (), tw_conn w1)"
    using assms(1,2) by (rule recoverable_stored)
  obtain r1 c where get: "response_get R payload requirements (Some a) (tw_conn w') = (r1, c)"
    by fastforce
  have "db_clock (cn_db c) < db_clock (cn_db (tw_conn w1)) + response_ttl R requirements"
    using load_cached_clock [OF assms(7,6) get] assms(8) by simp
  then have "r1 = Ok (Some (tool_response v))"
    using get unfolding assms(5) by (intro stored_response_roundtrip [OF put assms(3,4)])
  then have "load_cached_response R payload requirements w' =
      (Ok True, w'\<lparr>tw_conn := c, tw_recovery := Some (payload, requirements, Some (tool_response v), a)\<rparr>)"
    using load_cached_hit [OF assms(6)] get by simp
  then have "r = Ok True" "tw_recovery w2 = Some (payload, requirements, Some (tool_response v), a)"
    using assms(7) by auto
  then show ?thesis
    using recoverable_cached [of w2 payload requirements "tool_response v" a] by (simp add: result tool_response_def)
qed

section \<open>Witnesses\<close>

definition tool_resource :: authoritative_resource where
  "tool_resource = \<lparr>ar_resource = [(''url'', PStr ''mcp://tool/f'')], ar_identity = ''mcp:f:1''\<rparr>"

abbreviation tool_fp :: string where
  "tool_fp \<equiv> response_fingerprint sample_responses (small_payload []) small_requirements (Some tool_resource)"

abbreviation tool_key :: string where
  "tool_key \<equiv> response_key (rs_ext sample_responses) ''order-1'' small_requirements"

definition sample_tool :: "redis_conn \<Rightarrow> unit tool_world" where
  "sample_tool c = \<lparr>tw_conn = c, tw_settlement = None, tw_resource = Some tool_resource, tw_recovery = None, tw_app = ()\<rparr>"

abbreviation tool_claimed :: "nat \<Rightarrow> redis_conn" where
  "tool_claimed t \<equiv> \<lparr>cn_db = \<lparr>db_entries = [tool_key \<mapsto> (RVal (bound_record tool_fp), Some 300)], db_clock = int t\<rparr>, cn_calls = 2\<rparr>"

abbreviation tool_stored :: "nat \<Rightarrow> nat \<Rightarrow> redis_conn" where
  "tool_stored t n \<equiv> \<lparr>cn_db = \<lparr>db_entries = [tool_key \<mapsto> (RVal (response_record tool_fp (tool_response (PStr ''done''))), Some 300)],
     db_clock = int t\<rparr>, cn_calls = n\<rparr>"

lemma sample_tool_get:
  "response_get sample_responses (small_payload []) small_requirements (Some tool_resource) c =
     cbind (redis_call (\<lambda>_. []) (OGet tool_key)) (\<lambda>raw. case raw of
         ReplyVal record \<Rightarrow> cbind (clift (validate_fingerprint record tool_fp)) (\<lambda>_. clift (read_response record))
       | _ \<Rightarrow> creturn None) c"
  by (simp add: response_get_def sample_response_identifier cbind_clift sample_no_others)

lemma sample_tool_bind:
  "response_bind sample_responses (small_payload []) small_requirements (Some tool_resource) c =
     bind_attempts sample_responses (Suc (Suc 0)) tool_key tool_fp 300 c"
  by (simp add: response_bind_def sample_response_identifier cbind_clift numeral_2_eq_2 del: bind_attempts.simps)

lemma sample_tool_claims:
  "load_cached_response sample_responses (small_payload []) small_requirements (sample_tool sample_conn) =
     (Ok True, (sample_tool (tool_claimed 0))\<lparr>tw_recovery := Some (small_payload [], small_requirements, None, tool_resource)\<rparr>)"
  by (simp add: load_cached_response_def set_recovery_def look_up_or_claim_def or_else_def ctry_def tool_store_def sample_tool_get
      sample_tool_bind redis_call_def sample_conn_def db_live_def db_put_def cbind_def cmodify_def cget_def creturn_def Let_def
      numeral_2_eq_2 sample_tool_def)

lemma sample_tool_keeps:
  "recoverable sample_responses (\<lambda>_. creturn (PStr ''done'')) []
      ((sample_tool (tool_claimed 0))\<lparr>tw_recovery := Some (small_payload [], small_requirements, None, tool_resource)\<rparr>) =
     (Ok (Json (PStr ''done'')), sample_tool (tool_stored 0 4))"
proof -
  have "response_put sample_responses (small_payload []) small_requirements (tool_response (PStr ''done'')) (Some tool_resource)
      (tool_claimed 0) = (Ok (), tool_stored 0 4)"
    by (simp add: response_put_def sample_response_identifier cbind_clift redis_call_def db_live_def db_put_def sample_no_others
        cbind_def creturn_def Let_def bound_record_def validate_fingerprint_def vget_def dget_default_def guard_def clift_def)
  then show ?thesis
    by (simp add: recoverable_def cget_def clearing_recovery_def tool_store_def cbind_def creturn_def sample_tool_def)
qed

lemma sample_tool_hit:
  "load_cached_response sample_responses (small_payload []) small_requirements (sample_tool (tool_stored 299 n)) =
     (Ok True, (sample_tool (tool_stored 299 (Suc n)))\<lparr>tw_recovery :=
        Some (small_payload [], small_requirements, Some (tool_response (PStr ''done'')), tool_resource)\<rparr>)"
proof -
  have "response_get sample_responses (small_payload []) small_requirements (Some tool_resource) (tool_stored 299 n)
      = (Ok (Some (tool_response (PStr ''done''))), tool_stored 299 (Suc n))"
    by (simp add: sample_tool_get redis_call_def db_live_def cbind_def creturn_def clift_def Let_def
        validate_response_record read_response_record)
  then show ?thesis
    using load_cached_hit [of "sample_tool (tool_stored 299 n)" tool_resource] by (simp add: sample_tool_def)
qed

theorem mcp_tool_runs_once_witness:
  "\<exists>w2 (c :: stored_response). load_cached_response sample_responses (small_payload []) small_requirements (sample_tool (tool_stored 299 2)) = (Ok True, w2)
    \<and> recoverable sample_responses (\<lambda>_. craise (RuntimeError ''ran again'')) [] w2 = (Ok (sp_body c), w2\<lparr>tw_recovery := None\<rparr>)"
proof -
  let ?put = "OSet tool_key (response_record tool_fp (tool_response (PStr ''done''))) 300 False"
  have id: "response_identifier (rs_pid sample_responses) (small_payload []) = Inr (Some ''order-1'')"
    by (rule sample_response_identifier)
  have "record_fingerprint (RVal (response_record tool_fp (tool_response (PStr ''done'')))) = Some tool_fp"
    by (simp add: response_record_def split: prod.splits)
  then have "\<exists>c :: stored_response. \<forall>handler kwargs. recoverable sample_responses handler kwargs
      ((sample_tool (tool_stored 299 (Suc 2)))\<lparr>tw_recovery :=
        Some (small_payload [], small_requirements, Some (tool_response (PStr ''done'')), tool_resource)\<rparr>)
      = (Ok (sp_body c), (sample_tool (tool_stored 299 (Suc 2)))\<lparr>tw_recovery :=
        Some (small_payload [], small_requirements, Some (tool_response (PStr ''done'')), tool_resource)\<rparr>\<lparr>tw_recovery := None\<rparr>)"
    by (intro mcp_tool_runs_once [OF sample_tool_claims _ id id refl refl refl refl _ _ _ _ _ sample_tool_hit [of 2],
        where es = "[ROp ?put, RTick 299]"])
      (simp_all add: responses.obeys_def sample_tool_def db_put_def db_live_def)
  then show ?thesis
    using sample_tool_hit [of 2] by blast
qed

theorem mcp_tool_replays_witness:
  "\<exists>w2. load_cached_response sample_responses (small_payload []) small_requirements (sample_tool (tool_stored 299 4)) = (Ok True, w2)
    \<and> recoverable sample_responses (\<lambda>_. craise (RuntimeError ''ran again'')) [] w2 = (Ok (Json (PStr ''done'')), w2\<lparr>tw_recovery := None\<rparr>)"
proof -
  have id: "response_identifier (rs_pid sample_responses) (small_payload []) = Inr (Some ''order-1'')"
    by (rule sample_response_identifier)
  note replays = mcp_tool_replays [OF sample_tool_keeps _ id _ _ _ sample_tool_hit [of 4], where es = "[RTick 299]"
      and handler' = "\<lambda>_. craise (RuntimeError ''ran again'')" and kwargs' = "[]"]
  show ?thesis
    using sample_tool_hit [of 4] by (intro exI conjI, assumption, intro replays [THEN conjunct2]) (simp_all add: sample_tool_def)
qed

end
