(* ===== verification/ServerCorrect.thy ===== *)
theory ServerCorrect
  imports ServerScheme Numerals
begin

text \<open>
  The server's prices: the default price of an amount of money denotes that amount exactly, and
  requirements that carry it pass the shape check that client and facilitator share.
\<close>

section \<open>Exact rendering\<close>

lemma powi_shift: "(of_nat (n * 10 ^ k) :: rat) * 10 powi (- int (m + k)) = of_nat n * 10 powi (- int m)"
proof -
  have "(10 :: rat) powi (- int (m + k)) = inverse (10 ^ m) * inverse (10 ^ k)"
    by (simp only: power_int_minus power_int_of_nat power_add inverse_mult_distrib)
  then show ?thesis
    by (simp add: power_int_minus)
qed

lemma canonical_last: "canonical_nat a \<Longrightarrow> a \<noteq> [] \<and> list_all is_digit a \<and> last a \<noteq> CHR ''.''"
  by (cases a rule: rev_cases) (auto simp: canonical_nat_def isdigit_def digit_zero dot_props)

lemma cut_plain:
  assumes "canonical_nat a" and "list_all is_digit f" and "t = rstrip_of CHR ''.'' (rstrip_of CHR ''0'' (a @ CHR ''.'' # f))"
  shows "decimal_amount t \<and> (\<exists>c e. parse_decimal t = Some (DFin False c e)
    \<and> (of_nat c :: rat) * 10 powi e = of_nat (digits_val (a @ f)) * 10 powi (- int (length f)))"
proof -
  note a = canonical_last [OF assms(1)]
  obtain k where f: "f = rstrip_by (\<lambda>x. x = CHR ''0'') f @ replicate k (CHR ''0'')"
    "rstrip_by (\<lambda>x. x = CHR ''0'') f = [] \<or> last (rstrip_by (\<lambda>x. x = CHR ''0'') f) \<noteq> CHR ''0''"
    by (rule rstrip_zeros_split)
  define g where "g = rstrip_by (\<lambda>x. x = CHR ''0'') f"
  have fg: "f = g @ replicate k (CHR ''0'')" and g: "g = [] \<or> last g \<noteq> CHR ''0''"
    using f by (simp_all add: g_def)
  have dg: "list_all is_digit g"
    using assms(2) fg by (simp add: list_all_append)
  have "rstrip_by (\<lambda>x. x = CHR ''0'') ((a @ CHR ''.'' # g) @ replicate k (CHR ''0'')) = a @ CHR ''.'' # g"
    unfolding rstrip_by_replicate [of "\<lambda>x. x = CHR ''0''", OF refl] using g by (intro rstrip_by_id) auto
  then have t: "t = rstrip_by (\<lambda>x. x = CHR ''.'') (a @ CHR ''.'' # g)"
    unfolding assms(3) rstrip_of_def fg by simp
  have val: "(of_nat (digits_val (a @ f)) :: rat) * 10 powi (- int (length f)) = of_nat (digits_val (a @ g)) * 10 powi (- int (length g))"
    using digits_val_rzeros [of "a @ g" k] powi_shift [of "digits_val (a @ g)" k "length g"] by (simp add: fg)
  show ?thesis
  proof (cases "g = []")
    case True
    have "t = rstrip_by (\<lambda>x. x = CHR ''.'') (a @ replicate 1 (CHR ''.''))"
      using t True by simp
    also have "\<dots> = rstrip_by (\<lambda>x. x = CHR ''.'') a"
      by (rule rstrip_by_replicate) simp
    also have "\<dots> = a"
      using a by (intro rstrip_by_id) simp
    finally have "t = a" .
    then show ?thesis
      using plain_amount(1) [OF assms(1) assms(2)] val True by auto
  next
    case False
    then have "is_digit (last g)"
      using dg by (simp add: list_all_iff)
    then have "last g \<noteq> CHR ''.''"
      using dot_props(1) by metis
    then have "t = a @ CHR ''.'' # g"
      unfolding t using False by (intro rstrip_by_id) simp
    then show ?thesis
      using plain_amount(2) [OF assms(1) dg False] val by auto
  qed
qed

lemma format_plain:
  assumes "0 < c"
  shows "\<exists>a f. canonical_nat a \<and> list_all is_digit f \<and> (of_nat (digits_val (a @ f)) :: rat) * 10 powi (- int (length f)) = of_nat c * 10 powi e
    \<and> (format_f (DFin False c e) = a \<and> f = [] \<or> format_f (DFin False c e) = a @ CHR ''.'' # f)"
proof (cases "0 \<le> e")
  case True
  let ?a = "show_nat c @ replicate (nat e) (CHR ''0'')"
  have "list_all is_digit ?a" "show_nat c \<noteq> []"
    using show_nat_digits [of c] by (auto simp: isdigit_def list_all_iff digit_zero)
  then have "canonical_nat ?a"
    using show_nat_hd [OF assms] by (simp add: canonical_nat_def isdigit_def)
  moreover have "(of_nat (digits_val ?a) :: rat) = of_nat c * 10 powi e"
    using True show_nat_digits [of c] by (simp add: digits_val_rzeros power_int_def)
  ultimately show ?thesis
    using True assms by (intro exI [of _ ?a] exI [of _ "[]"]) simp
next
  case False
  define k where "k = nat (- e)"
  define p where "p = replicate (Suc k - length (show_nat c)) (CHR ''0'') @ show_nat c"
  define n where "n = length p - k"
  have k: "0 < k" "e = - int k"
    using False by (simp_all add: k_def)
  have format: "format_f (DFin False c e) = take n p @ CHR ''.'' # drop n p"
    using k(1) unfolding k(2) by (simp add: point_at_def Let_def p_def n_def)
  have digits: "list_all is_digit p" "digits_val p = c"
    using show_nat_digits [of c] by (auto simp: p_def isdigit_def list_all_iff digit_zero digits_val_lzeros)
  have "Suc k \<le> length p"
    by (simp add: p_def)
  then have len: "length (drop n p) = k" "0 < n"
    by (simp_all add: n_def)
  have "canonical_nat (take n p)"
  proof (cases "length (show_nat c) \<le> k")
    case True
    then have "n = 1" "p = CHR ''0'' # replicate (k - length (show_nat c)) (CHR ''0'') @ show_nat c"
      by (simp_all add: n_def p_def Suc_diff_le)
    then show ?thesis
      by (simp add: canonical_nat_def)
  next
    case False
    then have "p = show_nat c"
      by (simp add: p_def)
    then show ?thesis
      using len(2) show_nat_hd [OF assms] digits(1) show_nat_digits [of c]
      by (auto simp: canonical_nat_def isdigit_def list_all_iff dest: in_set_takeD)
  qed
  moreover have "list_all is_digit (drop n p)"
    using digits(1) by (auto simp: list_all_iff dest: in_set_dropD)
  ultimately show ?thesis
    using format digits(2) len(1) k(2) by (intro exI [of _ "take n p"] exI [of _ "drop n p"]) simp
qed

lemma no_dot: "list_all is_digit s \<Longrightarrow> CHR ''.'' \<notin> set s"
  using dot_props(1) by (auto simp: list_all_iff)

lemma decimal_string_exact:
  assumes "decimal_string s = Inr t" and "decimal_of_str s = Inr d" and "is_finite d"
  shows "decimal_amount t \<and> 0 < dec_val d \<and> (\<exists>d'. parse_decimal t = Some d' \<and> is_finite d' \<and> dec_val d' = dec_val d)"
proof -
  obtain b c e where d: "d = DFin b c e"
    using assms(3) by (cases d) auto
  have pos: "0 < dec_val d"
    and t: "t = (if CHR ''.'' \<in> set (format_f d) then rstrip_of CHR ''.'' (rstrip_of CHR ''0'' (format_f d)) else format_f d)"
    using assms dec_le_finite [OF assms(3) is_finite_of_int [of 0]]
    by (auto simp: decimal_string_def Let_def split: if_splits)
  have "\<not> (10 :: rat) powi e < 0"
    by (simp add: not_less)
  then have "\<not> b" "0 < c"
    using pos by (auto simp: d signed_def zero_less_mult_iff split: if_splits)
  obtain a f where af: "canonical_nat a" "list_all is_digit f"
    "(of_nat (digits_val (a @ f)) :: rat) * 10 powi (- int (length f)) = of_nat c * 10 powi e"
    "format_f d = a \<and> f = [] \<or> format_f d = a @ CHR ''.'' # f"
    using format_plain [OF \<open>0 < c\<close>, of e] \<open>\<not> b\<close> d by auto
  have val: "dec_val d = of_nat c * 10 powi e"
    using \<open>\<not> b\<close> by (simp add: d signed_def)
  from af(4) show ?thesis
  proof
    assume "format_f d = a \<and> f = []"
    then show ?thesis
      using t plain_amount(1) [OF af(1,2)] no_dot canonical_last [OF af(1)] af(3) pos val by (auto simp: signed_def)
  next
    assume "format_f d = a @ CHR ''.'' # f"
    then show ?thesis
      using t cut_plain [OF af(1,2) refl] af(3) pos val by (force simp: signed_def)
  qed
qed

section \<open>Default prices pass the shape check\<close>

lemma get_default_cases:
  assumes "get_default_asset network symbol = Inr x"
  obtains "network = ''xrpl:0''" "x = \<lparr>da_asset = RLUSD_HEX, da_decimals = 15, da_symbol = RLUSD_CODE, da_issuer = RLUSD_MAINNET_ISSUER\<rparr>"
  | "network = ''xrpl:1''" "x = \<lparr>da_asset = RLUSD_HEX, da_decimals = 15, da_symbol = RLUSD_CODE, da_issuer = RLUSD_TESTNET_ISSUER\<rparr>"
proof -
  have "network = ''xrpl:0'' \<or> network = ''xrpl:1''"
    using assms by (auto simp: get_default_asset_def network_assets_def DEFAULT_ASSETS_def split: if_splits)
  moreover have "x = hd (network_assets network)"
    using assms calculation by (auto simp: get_default_asset_def network_assets_def DEFAULT_ASSETS_def split: option.splits if_splits)
  ultimately show thesis
    using that by (auto simp: network_assets_def DEFAULT_ASSETS_def)
qed

lemma rlusd_facts:
  "xrpl_currency_code RLUSD_HEX = Inr RLUSD_HEX" "normalize_currency_code RLUSD_HEX = Inr ''RLUSD''"
  "is_valid_xrpl_network ''xrpl:0''" "is_valid_xrpl_network ''xrpl:1''" "RLUSD_HEX \<noteq> ''XRP''"
  "strip RLUSD_MAINNET_ISSUER = RLUSD_MAINNET_ISSUER" "strip RLUSD_TESTNET_ISSUER = RLUSD_TESTNET_ISSUER"
  "find_default_asset RLUSD_HEX ''xrpl:0'' = Some \<lparr>da_asset = RLUSD_HEX, da_decimals = 15, da_symbol = RLUSD_CODE, da_issuer = RLUSD_MAINNET_ISSUER\<rparr>"
  "find_default_asset RLUSD_HEX ''xrpl:1'' = Some \<lparr>da_asset = RLUSD_HEX, da_decimals = 15, da_symbol = RLUSD_CODE, da_issuer = RLUSD_TESTNET_ISSUER\<rparr>"
  "RLUSD_MAINNET_ISSUER \<noteq> []" "RLUSD_TESTNET_ISSUER \<noteq> []" "strip ''sequence'' = ''sequence''"
  by code_simp+

lemma default_extra_valid:
  assumes "lax_bool E (PBool False) = Some False" and "strip issuer = issuer"
  shows "ExactXRPLExtra_validate E [(''issuer'', PStr issuer), (''areFeesSponsored'', PBool False), (''assetTransferMethod'', PStr ''sequence'')]
    = Inr \<lparr>x_issuer = Some issuer, x_are_fees_sponsored = False, x_asset_transfer_method = Some ''sequence'', x_payment_flow = None,
           x_invoice_id = None, x_destination_tag = None\<rparr>"
  using assms rlusd_facts(12)
  by (simp add: ExactXRPLExtra_validate_def EXTRA_FIELDS_def field_key_def field_value_def opt_str_def opt_flow_def opt_tag_def)

lemma default_amount_valid:
  assumes "decimal_amount t" and "decimal_of_str t = Inr d" and "is_finite d" and "0 < dec_val d"
    and "r_asset r = RLUSD_HEX" and "r_amount r = t" and "x_issuer x = Some (da_issuer entry)" and "da_issuer entry \<noteq> []"
    and "find_default_asset RLUSD_HEX (r_network r) = Some entry"
  shows "validate_shape_amount r x = Inr x"
  using assms rlusd_facts(5) dec_le_finite [OF assms(3) is_finite_of_int [of 0]] by (simp add: validate_shape_amount_def)

text \<open>C30. A price in money is charged exactly: when the server turns an amount into a price in the default
  asset of a network, the amount is positive, the amount string of the requirements denotes the same
  number, however the amount was written, and requirements with this price pass the shape check of
  client and facilitator. That the models accept the boolean \<open>false\<close> is documented behaviour of pydantic.
\<close>

theorem default_price_exact:
  assumes "default_price network (amount, symbol) = Inr price" and "decimal_of_str amount = Inr d" and "is_finite d"
    and "lax_bool E (PBool False) = Some False" and "0 < timeout"
    and "r = \<lparr>r_scheme = ''exact'', r_network = network, r_asset = aa_asset price, r_amount = aa_amount price, r_pay_to = pay_to,
              r_max_timeout_seconds = timeout, r_extra = aa_extra price\<rparr>"
  shows "(\<exists>x. validate_requirements_shape E r = Inr x) \<and> 0 < dec_val d \<and>
    (\<exists>d'. decimal_of_str (r_amount r) = Inr d' \<and> is_finite d' \<and> dec_val d' = dec_val d)"
proof -
  obtain entry t where entry: "get_default_asset network symbol = Inr entry" and t: "decimal_string amount = Inr t"
    and price: "price = \<lparr>aa_amount = t, aa_asset = da_asset entry,
            aa_extra = Some [(''issuer'', PStr (da_issuer entry)), (''areFeesSponsored'', PBool False),
                             (''assetTransferMethod'', PStr ''sequence'')]\<rparr>"
    using assms(1) by (auto simp: default_price_def rbind_eq_Inr)
  obtain d' where d': "decimal_amount t" "0 < dec_val d" "decimal_of_str t = Inr d'" "is_finite d'" "dec_val d' = dec_val d"
    using decimal_string_exact [OF t assms(2,3)] by (auto simp: decimal_of_str_def)
  from entry have e: "da_asset entry = RLUSD_HEX" "is_valid_xrpl_network network" "find_default_asset RLUSD_HEX network = Some entry"
    "strip (da_issuer entry) = da_issuer entry" "da_issuer entry \<noteq> []"
    by (cases rule: get_default_cases; simp add: rlusd_facts)+
  let ?x = "\<lparr>x_issuer = Some (da_issuer entry), x_are_fees_sponsored = False, x_asset_transfer_method = Some ''sequence'',
     x_payment_flow = None, x_invoice_id = None, x_destination_tag = None\<rparr>"
  have "exact_xrpl_extra E r = Inr ?x"
    using default_extra_valid [OF assms(4) e(4)] by (simp add: exact_xrpl_extra_def assms(6) price dict_or_empty_def)
  moreover have "validate_shape_amount r ?x = Inr ?x"
    using d' e by (intro default_amount_valid [OF d'(1,3,4) _ _ _ _ e(5)]) (simp_all add: assms(6) price)
  ultimately have "validate_requirements_shape E r = Inr ?x"
    using e rlusd_facts(1,2,5) assms(5) by (simp add: validate_requirements_shape_def assms(6) price dict_or_empty_def Let_def)
  then show ?thesis
    using d' by (auto simp: assms(6) price)
qed


section \<open>Witness\<close>

theorem default_price_exact_witness:
  "\<exists>price x. default_price ''xrpl:1'' (''1.50'', None) = Inr price \<and>
     validate_requirements_shape sample_ext \<lparr>r_scheme = ''exact'', r_network = ''xrpl:1'', r_asset = aa_asset price,
       r_amount = aa_amount price, r_pay_to = ''rMerchant'', r_max_timeout_seconds = 60, r_extra = aa_extra price\<rparr> = Inr x"
proof -
  have "case default_price ''xrpl:1'' (''1.50'', None) of Inr _ \<Rightarrow> True | _ \<Rightarrow> False"
    and parsed: "decimal_of_str ''1.50'' = Inr (DFin False 150 (- 2))"
    by code_simp+
  then obtain price where price: "default_price ''xrpl:1'' (''1.50'', None) = Inr price"
    by (auto split: sum.splits)
  have "\<exists>x. validate_requirements_shape sample_ext \<lparr>r_scheme = ''exact'', r_network = ''xrpl:1'', r_asset = aa_asset price,
       r_amount = aa_amount price, r_pay_to = ''rMerchant'', r_max_timeout_seconds = 60, r_extra = aa_extra price\<rparr> = Inr x"
    using default_price_exact [OF price parsed _ _ _ refl, of sample_ext 60 "''rMerchant''"] by (simp add: sample_ext_def)
  then show ?thesis
    using price by blast
qed

end
