(* ===== verification/Testnet.thy ===== *)
theory Testnet
  imports Payer
begin

text \<open>
  The world of the development tools, \<open>src/devtools\<close>, and their queries to the XRPL test network: the
  first half of \<open>live_testnet_support.py\<close>.

  A tool talks to the ledger, the faucets and the file system. The ledger client of \<open>xrpl-py\<close>, its
  autofill and signing, the faucets and the date functions are arguments, which may answer from all
  calls made so far. The state keeps the log of the calls, each with the files as they were at that
  moment, the files, and a clock that every call may advance.
\<close>

section \<open>Data\<close>

record wallet =
  wl_address :: string
  wl_seed :: "string option"

datatype dev_tx =
    Pay (from_account: string) (to_account: string) (pay_amount: pyval) (pay_send_max: "string option") (pay_flags: "int option")
  | TrustLine string (trust_limit: pyval) "int option"
  | DeleteAccount string string string

text \<open>A transaction after autofill: its fee and last ledger are the fields the code reads.\<close>

record prepared_tx =
  pt_tx :: dev_tx
  pt_fee :: "string option"
  pt_last_ledger :: "int option"

record signed_tx =
  sd_hash :: string
  sd_blob :: string
  sd_last_ledger :: int

datatype dev_call =
    AccountInfo string
  | AccountLines string
  | ServerInfo
  | ServerState
  | PathFind string string string
  | AmmInfo string
  | TxLookup pyval pyval pyval
  | Autofill dev_tx
  | Simulate prepared_tx
  | SubmitBlob pyval
  | SubmitTx dev_tx string
  | XrpFaucet string
  | MintRlusd string string
  | FaucetWallet string

text \<open>A file holds JSON, another text, or something unreadable; a link leads nowhere.\<close>

datatype stored_file = JsonFile pyval | TextFile string | BadFile | LinkFile

datatype parent_dir = Directory | MissingDirectory | LinkDirectory | NoDirectory

text \<open>How a write to the file system goes: the file may not open, which leaves it as it was, and a write may
  fail before or after the new content is in place.\<close>

datatype write_fault = NoFault | FailsOpening exn | FailsBefore exn | FailsAfter exn

record dev_env =
  te_rpc :: "dev_call list \<Rightarrow> dev_call \<Rightarrow> exn + bool \<times> pydict"
  te_autofill :: "dev_call list \<Rightarrow> dev_tx \<Rightarrow> exn + prepared_tx"
  te_sign :: "wallet \<Rightarrow> prepared_tx \<Rightarrow> exn + signed_tx"
  te_faucet_wallet :: "dev_call list \<Rightarrow> string \<Rightarrow> exn + wallet"
  te_new_wallet :: "dev_call list \<Rightarrow> wallet"
  te_from_seed :: "string \<Rightarrow> exn + wallet"
  te_iso :: "rat \<Rightarrow> string"
  te_parse_iso :: "string \<Rightarrow> exn + rat"
  te_parent :: "string \<Rightarrow> parent_dir"
  te_write :: "nat \<Rightarrow> write_fault"
  te_took :: "nat \<Rightarrow> rat"
  te_getenv :: "string \<Rightarrow> string option"
  te_json :: "string \<Rightarrow> pyval option"

record dev_world =
  dw_log :: "(dev_call \<times> (string \<Rightarrow> stored_file option)) list"
  dw_files :: "string \<Rightarrow> stored_file option"
  dw_writes :: nat
  dw_clock :: rat

type_synonym ('x, 'a) dev_cmd = "('x dev_world_scheme, 'a) cmd"

abbreviation USDC_CODE :: string where "USDC_CODE \<equiv> ''USDC''"
abbreviation USDC_HEX :: string where "USDC_HEX \<equiv> ''5553444300000000000000000000000000000000''"
abbreviation USDC_TESTNET_ISSUER :: string where "USDC_TESTNET_ISSUER \<equiv> ''rHuGNhqTG32mfmAvWA8hUyWRLV3tCSwKQt''"
abbreviation RLUSD_TESTNET_ISSUER_ENV :: string where "RLUSD_TESTNET_ISSUER_ENV \<equiv> ''XRPL_TESTNET_RLUSD_ISSUER''"
abbreviation USDC_TESTNET_ISSUER_ENV :: string where "USDC_TESTNET_ISSUER_ENV \<equiv> ''XRPL_TESTNET_USDC_ISSUER''"
abbreviation WALLET_CACHE_PATH_ENV :: string where "WALLET_CACHE_PATH_ENV \<equiv> ''XRPL_TESTNET_WALLET_CACHE_PATH''"
abbreviation XRPL_TESTNET_RPC_URL_ENV :: string where "XRPL_TESTNET_RPC_URL_ENV \<equiv> ''XRPL_TESTNET_RPC_URL''"
abbreviation DEFAULT_WALLET_CACHE_PATH :: string where "DEFAULT_WALLET_CACHE_PATH \<equiv> ''.live-test-wallets/xrpl-testnet-wallets.json''"


section \<open>Calls, time and files\<close>

definition dev_log :: "dev_env \<Rightarrow> dev_call \<Rightarrow> ('x, dev_call list) dev_cmd" where
  "dev_log E call = (\<lambda>w. (Ok (map fst (dw_log w)),
     w\<lparr>dw_log := dw_log w @ [(call, dw_files w)], dw_clock := dw_clock w + max 0 (te_took E (length (dw_log w)))\<rparr>))"

definition dev_request :: "dev_env \<Rightarrow> dev_call \<Rightarrow> ('x, bool \<times> pydict) dev_cmd" where
  "dev_request E call = cbind (dev_log E call) (\<lambda>history. clift (te_rpc E history call))"

definition dev_autofill :: "dev_env \<Rightarrow> dev_tx \<Rightarrow> ('x, prepared_tx) dev_cmd" where
  "dev_autofill E tx = cbind (dev_log E (Autofill tx)) (\<lambda>history. clift (te_autofill E history tx))"

definition dev_now :: "('x, rat) dev_cmd" where
  "dev_now = cget dw_clock"

definition dev_sleep :: "rat \<Rightarrow> ('x, unit) dev_cmd" where
  "dev_sleep seconds = cmodify (\<lambda>w. w\<lparr>dw_clock := dw_clock w + seconds\<rparr>)"

text \<open>\<open>pathlib\<close> on paths without empty components: the parent, the name, and a new name.\<close>

definition path_parts :: "string \<Rightarrow> string list" where
  "path_parts path = split_on (CHR ''/'') path"

definition path_name :: "string \<Rightarrow> string" where
  "path_name path = last (path_parts path)"

definition path_parent :: "string \<Rightarrow> string" where
  "path_parent path = (case butlast (path_parts path) of
       [] \<Rightarrow> ''.''
     | parts \<Rightarrow> if parts = [[]] then ''/'' else join ''/'' parts)"

definition path_join :: "string \<Rightarrow> string \<Rightarrow> string" where
  "path_join parent name = (if parent = ''.'' then name else if parent = ''/'' then ''/'' @ name else parent @ ''/'' @ name)"

definition with_name :: "string \<Rightarrow> string \<Rightarrow> string" where
  "with_name path name = path_join (path_parent path) name"

text \<open>A file replaced in one step, and a file written in place.\<close>

definition replace_file :: "dev_env \<Rightarrow> string \<Rightarrow> pyval \<Rightarrow> ('x, unit) dev_cmd" where
  "replace_file E path content = (\<lambda>w.
     let w' = w\<lparr>dw_writes := Suc (dw_writes w)\<rparr>; new = w'\<lparr>dw_files := (dw_files w)(path \<mapsto> JsonFile content)\<rparr> in
     case te_write E (dw_writes w) of
       NoFault \<Rightarrow> (Ok (), new)
     | FailsOpening e \<Rightarrow> (Raise e, w')
     | FailsBefore e \<Rightarrow> (Raise e, w')
     | FailsAfter e \<Rightarrow> (Raise e, new))"

definition write_text :: "dev_env \<Rightarrow> string \<Rightarrow> pyval \<Rightarrow> ('x, unit) dev_cmd" where
  "write_text E path content = (\<lambda>w.
     let w' = w\<lparr>dw_writes := Suc (dw_writes w)\<rparr>; new = w'\<lparr>dw_files := (dw_files w)(path \<mapsto> JsonFile content)\<rparr> in
     case te_write E (dw_writes w) of
       NoFault \<Rightarrow> (Ok (), new)
     | FailsOpening e \<Rightarrow> (Raise e, w')
     | FailsBefore e \<Rightarrow> (Raise e, w'\<lparr>dw_files := (dw_files w)(path \<mapsto> BadFile)\<rparr>)
     | FailsAfter e \<Rightarrow> (Raise e, new))"

definition read_file :: "string \<Rightarrow> ('x, stored_file option) dev_cmd" where
  "read_file path = cget (\<lambda>w. dw_files w path)"


text \<open>The text that \<open>datetime.fromisoformat\<close> gets: a date may end in \<open>Z\<close>.\<close>

definition replace_z :: "string \<Rightarrow> string" where
  "replace_z s = concat (map (\<lambda>c. if c = CHR ''Z'' then ''+00:00'' else [c]) s)"


section \<open>Configuration\<close>

definition getenv_default :: "dev_env \<Rightarrow> string \<Rightarrow> string \<Rightarrow> string" where
  "getenv_default E name missing = (case te_getenv E name of None \<Rightarrow> missing | Some v \<Rightarrow> v)"

definition default_rlusd_issuer :: "dev_env \<Rightarrow> string" where
  "default_rlusd_issuer E = getenv_default E RLUSD_TESTNET_ISSUER_ENV RLUSD_TESTNET_ISSUER"

definition default_usdc_issuer :: "dev_env \<Rightarrow> string" where
  "default_usdc_issuer E = getenv_default E USDC_TESTNET_ISSUER_ENV USDC_TESTNET_ISSUER"

definition resolve_live_testnet_rpc_url ::
  "dev_env \<Rightarrow> (string \<Rightarrow> exn + pyval) \<Rightarrow> string option \<Rightarrow> exn + string" where
  "resolve_live_testnet_rpc_url E server_info explicit_rpc_url =
     resolve_testnet_rpc_url server_info (or_str explicit_rpc_url (te_getenv E XRPL_TESTNET_RPC_URL_ENV)) PUBLIC_TESTNET_RPC_URLS"

definition wallet_cache_path :: "dev_env \<Rightarrow> string" where
  "wallet_cache_path E = getenv_default E WALLET_CACHE_PATH_ENV DEFAULT_WALLET_CACHE_PATH"


section \<open>Queries\<close>

definition vget_default :: "pyval \<Rightarrow> string \<Rightarrow> pyval \<Rightarrow> exn + pyval" where
  "vget_default v k missing = (case v of PDict d \<Rightarrow> Inr (dget_default d k missing) | _ \<Rightarrow> Inl (AttributeError ''get''))"

text \<open>\<open>int(str(v))\<close> and \<open>Decimal(str(v))\<close>.\<close>

definition int_of_val :: "pyval \<Rightarrow> exn + int" where
  "int_of_val v = int_of_str (py_str v)"

definition dec_of_val :: "pyval \<Rightarrow> exn + pydec" where
  "dec_of_val v = decimal_of_str (py_str v)"

definition ledger_index_of :: "pydict \<Rightarrow> exn + int" where
  "ledger_index_of result =
     rbind (vget_default (dget_default result ''info'' (PDict [])) ''validated_ledger'' (PDict [])) (\<lambda>validated_ledger.
     rbind (vget validated_ledger ''seq'') (\<lambda>ledger_index.
       if ledger_index = PNone then Inl (RuntimeError ''XRPL server info did not include validated ledger index'')
       else int_of_val ledger_index))"

definition current_validated_ledger_index :: "dev_env \<Rightarrow> ('x, int) dev_cmd" where
  "current_validated_ledger_index E =
     cbind (dev_request E ServerInfo) (\<lambda>response. clift (ledger_index_of (snd response)))"

record account_root =
  ac_data :: pyval
  ac_ledger_index :: int

definition get_validated_account_root :: "dev_env \<Rightarrow> string \<Rightarrow> ('x, account_root option) dev_cmd" where
  "get_validated_account_root E address =
     cbind (dev_request E (AccountInfo address)) (\<lambda>response.
       let result = snd response in
       case map_of result ''account_data'' of
         None \<Rightarrow> creturn None
       | Some data \<Rightarrow>
           let ledger_index = py_or (dget result ''ledger_index'') (dget result ''ledger_current_index'') in
           cbind (if ledger_index = PNone then current_validated_ledger_index E
                  else clift (int_of_val ledger_index)) (\<lambda>index.
             creturn (Some \<lparr>ac_data = data, ac_ledger_index = index\<rparr>)))"

definition get_validated_balance :: "dev_env \<Rightarrow> string \<Rightarrow> ('x, int) dev_cmd" where
  "get_validated_balance E address =
     cbind (get_validated_account_root E address) (\<lambda>root. case root of
         None \<Rightarrow> craise (ValueError (''XRPL account '' @ address @ '' does not exist''))
       | Some r \<Rightarrow> clift (rbind (vindex (ac_data r) ''Balance'') int_of_val))"

definition account_exists_on_ledger :: "dev_env \<Rightarrow> string \<Rightarrow> ('x, bool) dev_cmd" where
  "account_exists_on_ledger E address = cbind (get_validated_account_root E address) (\<lambda>root. creturn (root \<noteq> None))"

definition line_matches :: "string \<Rightarrow> string \<Rightarrow> pyval \<Rightarrow> exn + bool" where
  "line_matches issuer currency_code line =
     rbind (vget line ''account'') (\<lambda>account.
       if account \<noteq> PStr issuer then Inr False
       else rbind (vget_default line ''currency'' (PStr [])) (\<lambda>currency.
         rbind (normalize_currency_code (py_str currency)) (\<lambda>code. Inr (code = currency_code))))"

fun find_line :: "string \<Rightarrow> string \<Rightarrow> pyval list \<Rightarrow> exn + pyval option" where
  "find_line issuer currency_code [] = Inr None"
| "find_line issuer currency_code (line # lines) =
     rbind (line_matches issuer currency_code line) (\<lambda>matches.
       if matches then Inr (Some line) else find_line issuer currency_code lines)"

definition trustline_in :: "string \<Rightarrow> string \<Rightarrow> pydict \<Rightarrow> exn + pyval option" where
  "trustline_in issuer currency_code result =
     rbind (iter_nodes (dget_default result ''lines'' (PList []))) (find_line issuer currency_code)"

definition get_validated_trustline :: "dev_env \<Rightarrow> string \<Rightarrow> string \<Rightarrow> string \<Rightarrow> ('x, pyval option) dev_cmd" where
  "get_validated_trustline E address issuer currency_code =
     cbind (dev_request E (AccountLines address)) (\<lambda>response. clift (trustline_in issuer currency_code (snd response)))"

definition line_balance :: "pyval option \<Rightarrow> exn + pydec" where
  "line_balance line = (case line of
       None \<Rightarrow> Inr (dec_of_int 0)
     | Some l \<Rightarrow> rbind (vindex l ''balance'') dec_of_val)"

definition get_validated_trustline_balance :: "dev_env \<Rightarrow> string \<Rightarrow> string \<Rightarrow> string \<Rightarrow> ('x, pydec) dev_cmd" where
  "get_validated_trustline_balance E address issuer currency_code =
     cbind (get_validated_trustline E address issuer currency_code) (\<lambda>line. clift (line_balance line))"

definition limit_sufficient :: "pydec \<Rightarrow> pyval option \<Rightarrow> exn + bool" where
  "limit_sufficient minimum_limit line = (case line of
       None \<Rightarrow> Inr False
     | Some l \<Rightarrow> rbind (vget_default l ''limit'' (PStr ''0'')) (\<lambda>limit. rbind (dec_of_val limit) (dec_le minimum_limit)))"

definition trustline_limit_is_sufficient ::
  "dev_env \<Rightarrow> string \<Rightarrow> string \<Rightarrow> pydec \<Rightarrow> string \<Rightarrow> ('x, bool) dev_cmd" where
  "trustline_limit_is_sufficient E address issuer minimum_limit currency_code =
     cbind (get_validated_trustline E address issuer currency_code) (\<lambda>line. clift (limit_sufficient minimum_limit line))"


section \<open>What was answered\<close>

text \<open>An answer that the ledger gave in a run whose log is known.\<close>

definition answered :: "dev_env \<Rightarrow> (dev_call \<times> 'f) list \<Rightarrow> dev_call \<Rightarrow> pydict \<Rightarrow> bool" where
  "answered E calls call result \<longleftrightarrow> (\<exists>h t ok. map fst calls = h @ call # t \<and> te_rpc E h call = Inr (ok, result))"

lemma answered_append: "answered E calls call result \<Longrightarrow> answered E (calls @ l) call result"
  by (fastforce simp: answered_def)

lemma request_answered:
  assumes "dev_request E call w = (Ok response, w')"
  shows "answered E (dw_log w') call (snd response)"
proof -
  have "map fst (dw_log w') = map fst (dw_log w) @ call # []" "te_rpc E (map fst (dw_log w)) call = Inr (fst response, snd response)"
    using assms by (auto simp: dev_request_def dev_log_def cbind_def clift_def craise_def creturn_def split: sum.splits)
  then show ?thesis
    unfolding answered_def by blast
qed

text \<open>The latest answer to a call.\<close>

definition last_answer :: "dev_env \<Rightarrow> (dev_call \<times> 'f) list \<Rightarrow> dev_call \<Rightarrow> pydict \<Rightarrow> bool" where
  "last_answer E calls call result \<longleftrightarrow>
     (\<exists>h t ok. map fst calls = h @ call # t \<and> call \<notin> set t \<and> te_rpc E h call = Inr (ok, result))"

lemma last_answer_append: "last_answer E calls call result \<Longrightarrow> call \<notin> fst ` set l \<Longrightarrow> last_answer E (calls @ l) call result"
  by (fastforce simp: last_answer_def)

lemma request_last:
  assumes "dev_request E call w = (Ok response, w')"
  shows "last_answer E (dw_log w') call (snd response)"
proof -
  have "map fst (dw_log w') = map fst (dw_log w) @ call # []" "te_rpc E (map fst (dw_log w)) call = Inr (fst response, snd response)"
    using assms by (auto simp: dev_request_def dev_log_def cbind_def clift_def craise_def creturn_def split: sum.splits)
  then show ?thesis
    unfolding last_answer_def by (intro exI [of _ "map fst (dw_log w)"] exI [of _ "[]"] exI [of _ "fst response"]) simp
qed

end
