(* ===== verification/FundQuote.thy ===== *)
theory FundQuote
  imports Testnet
begin

text \<open>
  Quotes and amounts of \<open>src/devtools/rlusd_fund.py\<close>, the tool that acquires test RLUSD: the cheapest
  path, the AMM's price, the bound on what may be spent, and the payment that is built from them.
\<close>

section \<open>Division of decimals\<close>

text \<open>Python's algorithm: one digit more than the precision, made sticky when the division leaves a
  remainder; an exact quotient keeps the exponent closest to the ideal one.\<close>

fun drop_zeros :: "nat \<Rightarrow> nat \<Rightarrow> nat \<times> nat" where
  "drop_zeros 0 c = (c, 0)"
| "drop_zeros (Suc n) c = (if c mod 10 = 0 then (case drop_zeros n (c div 10) of (d, k) \<Rightarrow> (d, Suc k)) else (c, 0))"

definition div_finite :: "bool \<Rightarrow> nat \<Rightarrow> int \<Rightarrow> nat \<Rightarrow> int \<Rightarrow> pydec" where
  "div_finite s c e d f =
     (if c = 0 then dec_fix s 0 (e - f)
      else
        let shift = int (length (show_nat d)) - int (length (show_nat c)) + 29;
            n = c * 10 ^ nat shift; m = d * 10 ^ nat (- shift);
            q = n div m in
        if n mod m \<noteq> 0 then dec_fix s (if q mod 5 = 0 then q + 1 else q) (e - f - shift)
        else (case drop_zeros (nat shift) q of (q', k) \<Rightarrow> dec_fix s q' (e - f - shift + int k)))"

fun dec_div :: "pydec \<Rightarrow> pydec \<Rightarrow> exn + pydec" where
  "dec_div (DFin s c e) (DFin t d f) =
     (if d = 0 then (if c = 0 then Inl InvalidOperation else Inl (ClientError ''division by zero''))
      else Inr (div_finite (s \<noteq> t) c e d f))"
| "dec_div DNaN _ = Inr DNaN"
| "dec_div _ DNaN = Inr DNaN"
| "dec_div (DInf s) (DInf t) = Inl InvalidOperation"
| "dec_div (DInf s) (DFin t d f) = Inr (DInf (s \<noteq> t))"
| "dec_div (DFin s c e) (DInf t) = Inr (DFin (s \<noteq> t) 0 (- 1000026))"

text \<open>\<open>int(d.to_integral_value(rounding=ROUND_CEILING))\<close>.\<close>

fun dec_ceiling :: "pydec \<Rightarrow> exn + int" where
  "dec_ceiling (DFin s c e) =
     Inr (if 0 \<le> e then signed s c * 10 ^ nat e else - (- signed s c div 10 ^ nat (- e)))"
| "dec_ceiling (DInf s) = Inl (ClientError ''cannot convert Infinity to integer'')"
| "dec_ceiling DNaN = Inl (ValueError ''cannot convert NaN to integer'')"


section \<open>Amounts\<close>

definition decimal_text :: "pydec \<Rightarrow> exn + string" where
  "decimal_text value =
     (if \<not> is_finite value then Inl (ValueError ''amount must be finite'')
      else Inr (format_f (dec_normalize value)))"

text \<open>\<open>str\<close> of a decimal: plain digits where the exponent is not positive and the number is not tiny, the
  scientific form elsewhere.\<close>

definition dec_str :: "pydec \<Rightarrow> string" where
  "dec_str d = (case d of
       DNaN \<Rightarrow> ''NaN''
     | DInf s \<Rightarrow> (if s then ''-'' else []) @ ''Infinity''
     | DFin s c e \<Rightarrow>
         let ds = show_nat c; left = e + int (length ds); dot = (if e \<le> 0 \<and> - 6 < left then left else 1);
             digits = (if dot \<le> 0 then ''0.'' @ replicate (nat (- dot)) (CHR ''0'') @ ds
                       else if int (length ds) \<le> dot then ds @ replicate (nat (dot - int (length ds))) (CHR ''0'')
                       else take (nat dot) ds @ ''.'' @ drop (nat dot) ds);
             power = (if left = dot then [] else ''E'' @ (if left - dot < 0 then [] else ''+'') @ show_int (left - dot)) in
         (if s then ''-'' else []) @ digits @ power)"

definition whole_number :: "pydec \<Rightarrow> int option" where
  "whole_number value = (case value of
       DFin s c e \<Rightarrow>
         if 0 \<le> e then Some (signed s c * 10 ^ nat e)
         else if c mod 10 ^ nat (- e) = 0 then Some (signed s (c div 10 ^ nat (- e)))
         else None
     | _ \<Rightarrow> None)"

definition xrp_to_drops :: "pydec \<Rightarrow> exn + int" where
  "xrp_to_drops value =
     rbind (dec_mul value (dec_of_int 1000000)) (\<lambda>drops. case drops of
         DInf s \<Rightarrow> Inl (ClientError ''cannot convert Infinity to integer'')
       | _ \<Rightarrow> (case whole_number drops of
           Some i \<Rightarrow> Inr i
         | None \<Rightarrow> Inl (ValueError ''XRP amount must not use fractions smaller than one drop'')))"

abbreviation MAX_SLIPPAGE_BPS :: int where "MAX_SLIPPAGE_BPS \<equiv> 5000"

definition compute_send_max_drops :: "pyval \<Rightarrow> int \<Rightarrow> exn + int" where
  "compute_send_max_drops source_amount slippage_bps =
     (case int_of_val source_amount of
        Inl e \<Rightarrow> Inl (if is_value_error e then ValueError ''source amount must be an integer drops value'' else e)
      | Inr drops \<Rightarrow>
          if drops \<le> 0 then Inl (ValueError ''source amount must be positive'')
          else if slippage_bps < 0 \<or> MAX_SLIPPAGE_BPS < slippage_bps
            then Inl (ValueError (''slippage basis points must be between 0 and '' @ show_int MAX_SLIPPAGE_BPS))
          else Inr ((drops * (10000 + slippage_bps) + 9999) div 10000))"


section \<open>Quotes\<close>

record path_quote =
  qt_source_amount_drops :: int
  qt_paths :: pyval
  qt_source :: string

definition is_path_list :: "pyval \<Rightarrow> bool" where
  "is_path_list paths \<longleftrightarrow> (case paths of
       PList ps \<Rightarrow> list_all (\<lambda>p. case p of PList steps \<Rightarrow> list_all (\<lambda>step. as_dict step \<noteq> None) steps | _ \<Rightarrow> False) ps
     | _ \<Rightarrow> False)"

definition quote_of_alternative :: "pyval \<Rightarrow> exn + path_quote option" where
  "quote_of_alternative alternative = (case alternative of
       PDict a \<Rightarrow>
         (case dget a ''source_amount'' of
            PStr source_amount \<Rightarrow>
              if \<not> isdigit source_amount then Inr None
              else rbind (int_of_str source_amount) (\<lambda>drops.
                let paths = dget_default a ''paths_computed'' (PList []) in
                if drops \<le> 0 \<or> \<not> is_path_list paths then Inr None
                else Inr (Some \<lparr>qt_source_amount_drops = drops, qt_paths = paths, qt_source = ''path_find''\<rparr>))
          | _ \<Rightarrow> Inr None)
     | _ \<Rightarrow> Inr None)"

text \<open>\<open>min\<close> with a key: the first of the smallest.\<close>

fun cheapest :: "path_quote \<Rightarrow> path_quote list \<Rightarrow> path_quote" where
  "cheapest best [] = best"
| "cheapest best (q # qs) =
     cheapest (if qt_source_amount_drops q < qt_source_amount_drops best then q else best) qs"

definition select_path_quote :: "pydict \<Rightarrow> exn + path_quote" where
  "select_path_quote result = (case dget result ''alternatives'' of
       PList alternatives \<Rightarrow>
         rbind (map_exn quote_of_alternative alternatives) (\<lambda>found. case List.map_filter id found of
             [] \<Rightarrow> Inl (LiquidityUnavailableError ''XRPL pathfinding found no XRP-to-RLUSD route'')
           | q # qs \<Rightarrow> Inr (cheapest q qs))
     | _ \<Rightarrow> Inl (LiquidityUnavailableError ''XRPL pathfinding returned no alternatives''))"

text \<open>The two reserves of the AMM, in either order.\<close>

definition amm_reserves :: "pydict \<Rightarrow> exn + pydec \<times> pydec" where
  "amm_reserves amm = (case (dget amm ''amount'', dget amm ''amount2'') of
       (PStr xrp, PDict rlusd) \<Rightarrow>
         rbind (decimal_of_str xrp) (\<lambda>x. rbind (dec_of_val (dget_default rlusd ''value'' (PStr ''0''))) (\<lambda>y. Inr (x, y)))
     | (PDict rlusd, PStr xrp) \<Rightarrow>
         rbind (decimal_of_str xrp) (\<lambda>x. rbind (dec_of_val (dget_default rlusd ''value'' (PStr ''0''))) (\<lambda>y. Inr (x, y)))
     | _ \<Rightarrow> Inl (LiquidityUnavailableError ''XRPL returned an unexpected XRP/RLUSD AMM shape''))"

definition nonpositive :: "pydec \<Rightarrow> exn + bool" where
  "nonpositive d = dec_le d (dec_of_int 0)"

text \<open>\<open>a or b\<close> where evaluating \<open>a\<close> may raise.\<close>

definition or_exn :: "exn + bool \<Rightarrow> exn + bool \<Rightarrow> exn + bool" where
  "or_exn a b = rbind a (\<lambda>x. if x then Inr True else b)"

definition amm_input :: "pydec \<Rightarrow> pydec \<Rightarrow> pydec \<Rightarrow> pydec \<Rightarrow> exn + int" where
  "amm_input xrp_reserve rlusd_reserve amount trading_fee =
     rbind (dec_mul xrp_reserve amount) (\<lambda>value.
     rbind (dec_sub rlusd_reserve amount) (\<lambda>left.
     rbind (dec_div value left) (\<lambda>input.
     rbind (dec_sub (dec_of_int 1) trading_fee) (\<lambda>kept.
     rbind (dec_div input kept) dec_ceiling))))"

definition amm_source_amount_drops :: "pydict \<Rightarrow> pydec \<Rightarrow> exn + int" where
  "amm_source_amount_drops result amount = (case dget result ''amm'' of
       PDict amm \<Rightarrow>
         rbind (amm_reserves amm) (\<lambda>(xrp_reserve, rlusd_reserve).
         rbind (or_exn (nonpositive xrp_reserve) (or_exn (nonpositive rlusd_reserve)
                 (or_exn (nonpositive amount) (dec_le rlusd_reserve amount)))) (\<lambda>short.
         if short then Inl (LiquidityUnavailableError ''XRP/RLUSD AMM does not have enough liquidity'')
         else
           rbind (rbind (dec_of_val (dget_default amm ''trading_fee'' (PInt 0))) (\<lambda>fee. dec_div fee (dec_of_int 100000))) (\<lambda>trading_fee.
           rbind (or_exn (dec_lt trading_fee (dec_of_int 0)) (dec_le (dec_of_int 1) trading_fee)) (\<lambda>bad.
             if bad then Inl (LiquidityUnavailableError ''XRP/RLUSD AMM returned an invalid trading fee'')
             else amm_input xrp_reserve rlusd_reserve amount trading_fee))))
     | _ \<Rightarrow> Inl (LiquidityUnavailableError ''XRPL returned no XRP/RLUSD AMM''))"


section \<open>The payment\<close>

abbreviation TF_LIMIT_QUALITY :: int where "TF_LIMIT_QUALITY \<equiv> 262144"

definition build_rlusd_self_payment :: "string \<Rightarrow> string \<Rightarrow> pydec \<Rightarrow> int \<Rightarrow> exn + dev_tx" where
  "build_rlusd_self_payment address issuer amount send_max_drops =
     (if issuer \<noteq> RLUSD_TESTNET_ISSUER
        then Inl (FundingError ''refusing to acquire RLUSD from a non-official Testnet issuer'')
      else
        rbind (or_exn (nonpositive amount) (Inr (send_max_drops \<le> 0))) (\<lambda>bad.
        if bad then Inl (ValueError ''payment amount and SendMax must be positive'')
        else rbind (decimal_text amount) (\<lambda>text.
          Inr (Pay address address (issued_amount RLUSD_HEX issuer text) (Some (show_int send_max_drops))
                 (Some TF_LIMIT_QUALITY)))))"


section \<open>What the bounds mean\<close>

text \<open>\<open>SendMax\<close> is the least whole number of drops that covers the quote with its slippage.\<close>

lemma compute_send_max_drops_Inr:
  "compute_send_max_drops amount bps = Inr m \<longleftrightarrow>
     (\<exists>drops. int_of_val amount = Inr drops \<and> 0 < drops \<and> 0 \<le> bps \<and> bps \<le> MAX_SLIPPAGE_BPS
        \<and> m = (drops * (10000 + bps) + 9999) div 10000)"
  by (auto simp: compute_send_max_drops_def split: sum.splits)

lemma least_multiple:
  assumes "0 < (k :: int)"
  shows "(a + (k - 1)) div k \<le> n \<longleftrightarrow> a \<le> k * n"
proof -
  have "a + (k - 1) = k * ((a + (k - 1)) div k) + (a + (k - 1)) mod k" and "(a + (k - 1)) mod k < k" and "0 \<le> (a + (k - 1)) mod k"
    using assms by simp_all
  moreover have "k * x \<le> k * y \<longleftrightarrow> x \<le> y" for x y
    using assms by simp
  moreover have "k * (x - 1) = k * x - k" for x
    by (simp add: algebra_simps)
  ultimately show ?thesis
    by (smt (verit, best))
qed

lemma cheapest_least:
  "cheapest best qs \<in> set (best # qs) \<and> (\<forall>q \<in> set (best # qs). qt_source_amount_drops (cheapest best qs) \<le> qt_source_amount_drops q)"
proof (induction best qs rule: cheapest.induct)
  case (2 best q qs)
  then show ?case
    by (cases "qt_source_amount_drops q < qt_source_amount_drops best") fastforce+
qed simp

text \<open>\<open>SendMax\<close> of a payment of the funding tool is exactly the slippage allowance: the amount computed for a
  quote is the least whole number of drops that covers the quoted price with its tolerance in basis
  points; it is at least the price and at most the price and a half, rounded up.
\<close>

theorem send_max_least:
  assumes "compute_send_max_drops amount bps = Inr m"
  shows "\<exists>drops. int_of_val amount = Inr drops \<and> 0 < drops
    \<and> (\<forall>n. m \<le> n \<longleftrightarrow> drops * (10000 + bps) \<le> 10000 * n) \<and> drops \<le> m \<and> 2 * m \<le> 3 * drops + 1"
proof -
  obtain drops where drops: "int_of_val amount = Inr drops" "0 < drops" "0 \<le> bps" "bps \<le> 5000"
    "m = (drops * (10000 + bps) + 9999) div 10000"
    using assms by (auto simp: compute_send_max_drops_Inr)
  have least: "m \<le> n \<longleftrightarrow> drops * (10000 + bps) \<le> 10000 * n" for n
    using least_multiple [of 10000 "drops * (10000 + bps)" n] drops(5) by simp
  have "0 \<le> drops * bps" "drops * bps \<le> drops * 5000"
    using drops by simp_all
  then have bounds: "drops \<le> m" "m \<le> (3 * drops + 1) div 2"
    using least [of "(3 * drops + 1) div 2"] drops(5) by (simp_all add: algebra_simps)
  from bounds(2) have "2 * m \<le> 3 * drops + 1"
    by presburger
  then show ?thesis
    using drops(1,2) bounds(1) least by (intro exI [of _ drops] conjI allI) assumption+
qed

theorem send_max_least_witness:
  "compute_send_max_drops (PStr ''101'') 5000 = Inr 152 \<and> \<not> (151 :: int) \<ge> 152 \<and> 101 * 15000 > (10000 :: int) * 151"
proof -
  have int: "int_of_val (PStr ''101'') = Inr 101"
    by (simp add: int_of_val_def py_str_def int_of_str_def parse_int_def strip_def rstrip_by_def split_sign_def is_space_def is_digit_def
        ord_c_def digits_val_def digit_val_def)
  then have m: "compute_send_max_drops (PStr ''101'') 5000 = Inr 152"
    by (simp add: compute_send_max_drops_Inr)
  then show ?thesis
    using send_max_least [OF m] int by (auto dest: spec [of _ 151])
qed

end
