(* ===== verification/FundRlusd.thy ===== *)
theory FundRlusd
  imports FundQuote
begin

text \<open>
  \<open>src/devtools/rlusd_fund.py\<close>: acquiring test RLUSD with a journal of the transaction in flight. The
  journal file holds the signed transaction before it is submitted, so that an interrupted run can
  tell on the ledger what became of it instead of paying again.

  The object \<open>RLUSDFundingState\<close> that the functions share and update is the last field of the world; the
  lock that a run holds makes it the only writer of its file.
\<close>

section \<open>State\<close>

abbreviation NETWORK :: string where "NETWORK \<equiv> ''xrpl:1''"
abbreviation TRANSACTION_STATE_VERSION :: int where "TRANSACTION_STATE_VERSION \<equiv> 1"
abbreviation WALLET_FILE_VERSION :: int where "WALLET_FILE_VERSION \<equiv> 1"
abbreviation XRP_RESERVE_BUFFER :: int where "XRP_RESERVE_BUFFER \<equiv> 5000000"
abbreviation FAUCET_RETRY_DELAY :: rat where "FAUCET_RETRY_DELAY \<equiv> 120"
abbreviation FAUCET_VALIDATION_TIMEOUT_SECONDS :: nat where "FAUCET_VALIDATION_TIMEOUT_SECONDS \<equiv> 45"
abbreviation DEFAULT_TRUSTLINE_LIMIT :: int where "DEFAULT_TRUSTLINE_LIMIT \<equiv> 100000"

text \<open>The fields of a pending transaction are what the file holds, of whatever type.\<close>

record pending_transaction =
  pd_purpose :: pyval
  pd_tx_hash :: pyval
  pd_signed_tx_blob :: pyval
  pd_first_ledger_sequence :: pyval
  pd_last_ledger_sequence :: pyval
  pd_created_at :: pyval
  pd_expected_rlusd_amount :: pyval

record rlusd_funding_state =
  fs_classic_address :: string
  fs_issuer :: string
  fs_pending :: "pending_transaction option"
  fs_completed :: "pyval list"
  fs_last_faucet_attempt_at :: pyval
  fs_last_faucet_balance_drops :: pyval

record fund_world = dev_world +
  fw_state :: rlusd_funding_state

type_synonym 'a fund_cmd = "(fund_world, 'a) cmd"

definition is_funding_error :: "exn \<Rightarrow> bool" where
  "is_funding_error e \<longleftrightarrow> (case e of
       FundingError _ \<Rightarrow> True | LiquidityUnavailableError _ \<Rightarrow> True
     | SpendLimitExceededError _ \<Rightarrow> True | SettlementPendingError _ \<Rightarrow> True | _ \<Rightarrow> False)"

definition is_settlement_pending :: "exn \<Rightarrow> bool" where
  "is_settlement_pending e \<longleftrightarrow> (case e of SettlementPendingError _ \<Rightarrow> True | _ \<Rightarrow> False)"

definition set_pending :: "pending_transaction option \<Rightarrow> unit fund_cmd" where
  "set_pending p = cmodify (\<lambda>w. w\<lparr>fw_state := (fw_state w)\<lparr>fs_pending := p\<rparr>\<rparr>)"


section \<open>Private files\<close>

definition private_directory :: "dev_env \<Rightarrow> string \<Rightarrow> exn + unit" where
  "private_directory E path = (case te_parent E path of
       LinkDirectory \<Rightarrow> Inl (FundingError (''refusing private state directory symlink '' @ path_parent path))
     | NoDirectory \<Rightarrow> Inl (FundingError (''private state parent is not a directory: '' @ path_parent path))
     | _ \<Rightarrow> Inr ())"

definition reject_symlink :: "string \<Rightarrow> ('x, unit) dev_cmd" where
  "reject_symlink path =
     cbind (read_file path) (\<lambda>f.
       if f = Some LinkFile then craise (FundingError (''refusing to write private state through symlink '' @ path))
       else creturn ())"

definition atomic_write_private_json :: "dev_env \<Rightarrow> string \<Rightarrow> pydict \<Rightarrow> ('x, unit) dev_cmd" where
  "atomic_write_private_json E path payload =
     cbind (clift (private_directory E path)) (\<lambda>_.
     cbind (reject_symlink path) (\<lambda>_.
       replace_file E path (PDict payload)))"


section \<open>The journal\<close>

definition pending_dict :: "pending_transaction \<Rightarrow> pydict" where
  "pending_dict p =
     [(''purpose'', pd_purpose p), (''tx_hash'', pd_tx_hash p), (''signed_tx_blob'', pd_signed_tx_blob p),
      (''first_ledger_sequence'', pd_first_ledger_sequence p), (''last_ledger_sequence'', pd_last_ledger_sequence p),
      (''created_at'', pd_created_at p), (''expected_rlusd_amount'', pd_expected_rlusd_amount p)]"

definition state_dict :: "rlusd_funding_state \<Rightarrow> pydict" where
  "state_dict s =
     [(''classic_address'', PStr (fs_classic_address s)), (''issuer'', PStr (fs_issuer s)), (''network'', PStr NETWORK),
      (''version'', PInt TRANSACTION_STATE_VERSION),
      (''pending_transaction'', case fs_pending s of None \<Rightarrow> PNone | Some p \<Rightarrow> PDict (pending_dict p)),
      (''completed_transaction_hashes'', PList (fs_completed s)),
      (''last_faucet_attempt_at'', fs_last_faucet_attempt_at s),
      (''last_faucet_balance_drops'', fs_last_faucet_balance_drops s)]"

definition write_funding_state :: "dev_env \<Rightarrow> string \<Rightarrow> unit fund_cmd" where
  "write_funding_state E path =
     cbind (cget fw_state) (\<lambda>s. atomic_write_private_json E path (state_dict s))"

text \<open>\<open>PendingTransaction(**payload)\<close>.\<close>

definition PENDING_FIELDS :: "string list" where
  "PENDING_FIELDS = [''purpose'', ''tx_hash'', ''signed_tx_blob'', ''first_ledger_sequence'', ''last_ledger_sequence'',
     ''created_at'']"

definition pending_of_dict :: "pydict \<Rightarrow> exn + pending_transaction" where
  "pending_of_dict d =
     (if \<not> set (map fst d) \<subseteq> set (''expected_rlusd_amount'' # PENDING_FIELDS)
        then Inl (TypeError ''unexpected keyword argument'')
      else if \<not> set PENDING_FIELDS \<subseteq> set (map fst d) then Inl (TypeError ''missing required positional arguments'')
      else Inr \<lparr>pd_purpose = dget d ''purpose'', pd_tx_hash = dget d ''tx_hash'', pd_signed_tx_blob = dget d ''signed_tx_blob'',
                pd_first_ledger_sequence = dget d ''first_ledger_sequence'',
                pd_last_ledger_sequence = dget d ''last_ledger_sequence'', pd_created_at = dget d ''created_at'',
                pd_expected_rlusd_amount = dget d ''expected_rlusd_amount''\<rparr>)"

definition fresh_state :: "string \<Rightarrow> string \<Rightarrow> rlusd_funding_state" where
  "fresh_state address issuer =
     \<lparr>fs_classic_address = address, fs_issuer = issuer, fs_pending = None, fs_completed = [],
      fs_last_faucet_attempt_at = PNone, fs_last_faucet_balance_drops = PNone\<rparr>"

definition load_pending :: "string \<Rightarrow> pyval \<Rightarrow> exn + pending_transaction option" where
  "load_pending path v = (case v of
       PNone \<Rightarrow> Inr None
     | PDict d \<Rightarrow> rbind (pending_of_dict d) (\<lambda>p. Inr (Some p))
     | _ \<Rightarrow> Inl (FundingError (''invalid pending transaction in '' @ path)))"

definition state_of_payload :: "string \<Rightarrow> string \<Rightarrow> string \<Rightarrow> pyval \<Rightarrow> exn + rlusd_funding_state" where
  "state_of_payload path address issuer payload = (case payload of
       PDict d \<Rightarrow>
         if \<not> py_eq (dget d ''version'') (PInt TRANSACTION_STATE_VERSION)
           then Inl (FundingError (''unsupported RLUSD funding state version at '' @ path))
         else if dget d ''network'' \<noteq> PStr NETWORK
           then Inl (FundingError (''RLUSD funding state at '' @ path @ '' is not for '' @ NETWORK))
         else if dget d ''classic_address'' \<noteq> PStr address
           then Inl (FundingError (''RLUSD funding state at '' @ path @ '' belongs to another wallet''))
         else if dget d ''issuer'' \<noteq> PStr issuer
           then Inl (FundingError (''RLUSD funding state at '' @ path @ '' uses another issuer''))
         else
           rbind (load_pending path (dget d ''pending_transaction'')) (\<lambda>pending.
           rbind (iter_nodes (dget_default d ''completed_transaction_hashes'' (PList []))) (\<lambda>items.
             Inr \<lparr>fs_classic_address = address, fs_issuer = issuer, fs_pending = pending, fs_completed = map (\<lambda>item. PStr (py_str item)) items,
                  fs_last_faucet_attempt_at = dget d ''last_faucet_attempt_at'',
                  fs_last_faucet_balance_drops = dget d ''last_faucet_balance_drops''\<rparr>))
     | _ \<Rightarrow> Inl (AttributeError ''get''))"

definition load_funding_state :: "string \<Rightarrow> string \<Rightarrow> string \<Rightarrow> ('x, rlusd_funding_state) dev_cmd" where
  "load_funding_state path address issuer =
     cbind (reject_symlink path) (\<lambda>_.
     cbind (read_file path) (\<lambda>f. case f of
         None \<Rightarrow> creturn (fresh_state address issuer)
       | Some (JsonFile payload) \<Rightarrow> clift (state_of_payload path address issuer payload)
       | Some _ \<Rightarrow> craise (FundingError (''invalid RLUSD funding state at '' @ path))))"


section \<open>The wallet file\<close>

definition save_wallet_file :: "dev_env \<Rightarrow> string \<Rightarrow> wallet \<Rightarrow> string \<Rightarrow> ('x, unit) dev_cmd" where
  "save_wallet_file E path W issuer = (case wl_seed W of
       None \<Rightarrow> craise (FundingError ''generated Testnet wallet is missing its seed'')
     | Some seed \<Rightarrow>
         cbind dev_now (\<lambda>now.
           atomic_write_private_json E path
             [(''version'', PInt WALLET_FILE_VERSION), (''network'', PStr NETWORK), (''classic_address'', PStr (wl_address W)),
              (''seed'', PStr seed), (''rlusd_issuer'', PStr issuer), (''created_at'', PStr (te_iso E now))]))"

definition wallet_of_payload :: "dev_env \<Rightarrow> string \<Rightarrow> string \<Rightarrow> pyval \<Rightarrow> exn + wallet" where
  "wallet_of_payload E path issuer payload = (case payload of
       PDict d \<Rightarrow>
         if \<not> py_eq (dget d ''version'') (PInt WALLET_FILE_VERSION) \<or> dget d ''network'' \<noteq> PStr NETWORK
           then Inl (FundingError (''wallet file is not a supported '' @ NETWORK @ '' wallet: '' @ path))
         else if dget d ''rlusd_issuer'' \<noteq> PStr issuer
           then Inl (FundingError (''wallet file uses a different RLUSD issuer: '' @ path))
         else (case rbind (dindex d ''seed'') (\<lambda>seed. te_from_seed E (py_str seed)) of
             Inl e \<Rightarrow>
               Inl (case e of
                   KeyError _ \<Rightarrow> FundingError (''wallet file has an invalid seed: '' @ path)
                 | _ \<Rightarrow> if is_value_error e then FundingError (''wallet file has an invalid seed: '' @ path) else e)
           | Inr W \<Rightarrow>
               if PStr (wl_address W) \<noteq> dget d ''classic_address''
                 then Inl (FundingError (''wallet address does not match its seed: '' @ path))
               else Inr W)
     | _ \<Rightarrow> Inl (AttributeError ''get''))"

definition load_wallet_file :: "dev_env \<Rightarrow> string \<Rightarrow> string \<Rightarrow> ('x, wallet) dev_cmd" where
  "load_wallet_file E path issuer =
     cbind (reject_symlink path) (\<lambda>_.
     cbind (read_file path) (\<lambda>f. case f of
         None \<Rightarrow> craise (FundingError (''wallet file does not exist: '' @ path))
       | Some (JsonFile payload) \<Rightarrow> clift (wallet_of_payload E path issuer payload)
       | Some _ \<Rightarrow> craise (FundingError (''invalid wallet file: '' @ path))))"

end
