(* ===== verification/FundSubmit.thy ===== *)
theory FundSubmit
  imports FundRlusd
begin

text \<open>
  The operations of \<open>src/devtools/rlusd_fund.py\<close> on the ledger: the XRP faucet, quotes, journalled
  submission and its reconciliation, and \<open>fund_rlusd_wallet\<close>, which composes them.
\<close>

section \<open>The XRP faucet\<close>

text \<open>\<open>HTTPException\<close> stands for \<open>urllib\<close>'s \<open>HTTPError\<close> and \<open>OSError\<close> for its \<open>URLError\<close>.\<close>

definition request_testnet_xrp :: "dev_env \<Rightarrow> string \<Rightarrow> ('x, unit) dev_cmd" where
  "request_testnet_xrp E address =
     ctry (cbind (dev_request E (XrpFaucet address)) (\<lambda>_. creturn ()))
       (\<lambda>e. craise (case e of
           HTTPException code detail \<Rightarrow>
             FundingError (''XRP Testnet faucet returned HTTP '' @ show_int code @ '': '' @ strip detail)
         | OSError reason \<Rightarrow> FundingError (''XRP Testnet faucet failed: '' @ reason)
         | _ \<Rightarrow> e))"

definition safe_xrp_balance :: "dev_env \<Rightarrow> string \<Rightarrow> ('x, int) dev_cmd" where
  "safe_xrp_balance E address = ctry (get_validated_balance E address) (\<lambda>_. creturn 0)"

fun wait_balance :: "dev_env \<Rightarrow> nat \<Rightarrow> string \<Rightarrow> int \<Rightarrow> rat \<Rightarrow> int \<Rightarrow> ('x, int) dev_cmd" where
  "wait_balance E 0 address minimum_drops deadline balance = cdiverge"
| "wait_balance E (Suc n) address minimum_drops deadline balance =
     cbind dev_now (\<lambda>now.
       if balance < minimum_drops \<and> now < deadline then
         cbind (dev_sleep 1) (\<lambda>_.
         cbind (safe_xrp_balance E address) (\<lambda>balance'.
           wait_balance E n address minimum_drops deadline balance'))
       else creturn balance)"

definition wait_for_xrp_balance :: "dev_env \<Rightarrow> string \<Rightarrow> int \<Rightarrow> ('x, int) dev_cmd" where
  "wait_for_xrp_balance E address minimum_drops =
     cbind dev_now (\<lambda>now.
     cbind (safe_xrp_balance E address) (\<lambda>balance.
       wait_balance E (Suc FAUCET_VALIDATION_TIMEOUT_SECONDS) address minimum_drops
         (now + of_nat FAUCET_VALIDATION_TIMEOUT_SECONDS) balance))"

definition faucet_window_open :: "dev_env \<Rightarrow> rat \<Rightarrow> pyval \<Rightarrow> exn + bool" where
  "faucet_window_open E now last_attempt =
     (if \<not> truthy last_attempt then Inr False
      else case last_attempt of
        PStr s \<Rightarrow> rbind (te_parse_iso E (replace_z s)) (\<lambda>previous. Inr (now < previous + FAUCET_RETRY_DELAY))
      | _ \<Rightarrow> Inl (AttributeError ''replace''))"

definition ensure_testnet_xrp :: "dev_env \<Rightarrow> string \<Rightarrow> int \<Rightarrow> string \<Rightarrow> int fund_cmd" where
  "ensure_testnet_xrp E address minimum_drops path =
     cbind (safe_xrp_balance E address) (\<lambda>balance.
       if minimum_drops \<le> balance then creturn balance
       else
         cbind dev_now (\<lambda>now.
         cbind (cget fw_state) (\<lambda>s.
         cbind (clift (faucet_window_open E now (fs_last_faucet_attempt_at s))) (\<lambda>open_window.
           if open_window
             then craise (SettlementPendingError ''the previous XRP faucet request is still in its reconciliation window'')
           else
             cbind (cmodify (\<lambda>w. w\<lparr>fw_state := (fw_state w)\<lparr>fs_last_faucet_attempt_at := PStr (te_iso E now),
                      fs_last_faucet_balance_drops := PInt balance\<rparr>\<rparr>)) (\<lambda>_.
             cbind (write_funding_state E path) (\<lambda>_.
               ctry_else (request_testnet_xrp E address)
                 (\<lambda>_. cbind (wait_for_xrp_balance E address minimum_drops) (\<lambda>reconciled.
                    if minimum_drops \<le> reconciled then creturn reconciled
                    else craise (SettlementPendingError
                      ''XRP faucet outcome is uncertain; rerun after the reconciliation window'')))
                 (\<lambda>_. cbind (wait_for_xrp_balance E address minimum_drops) (\<lambda>funded.
                    if funded < minimum_drops
                      then craise (SettlementPendingError (''XRP faucet funding is not validated yet; have '' @ show_int funded @
                        '' drops, need '' @ show_int minimum_drops))
                    else creturn funded))))))))"


section \<open>Quotes\<close>

definition destination_matches :: "string \<Rightarrow> pydec \<Rightarrow> pydict \<Rightarrow> exn + unit" where
  "destination_matches issuer amount quoted =
     (case rbind (normalize_currency_code (py_str (dget_default quoted ''currency'' (PStr [])))) (\<lambda>code.
           rbind (dec_of_val (dget_default quoted ''value'' (PStr []))) (\<lambda>value. Inr (code, value))) of
        Inl e \<Rightarrow>
          Inl (if is_value_error e \<or> e = InvalidOperation
               then FundingError ''XRPL path quote returned an invalid destination amount'' else e)
      | Inr (code, value) \<Rightarrow>
          guard (code = RLUSD_CODE \<and> dget quoted ''issuer'' = PStr issuer \<and> dec_cmp value amount = Inr 0)
            (FundingError ''XRPL path quote destination amount mismatch''))"

definition checked_path_quote :: "string \<Rightarrow> string \<Rightarrow> pydec \<Rightarrow> bool \<times> pydict \<Rightarrow> exn + path_quote" where
  "checked_path_quote address issuer amount response =
     (let result = snd response in
      if \<not> fst response then Inl (LiquidityUnavailableError ''XRPL pathfinding request failed'')
      else if dget result ''validated'' \<noteq> PBool True
        then Inl (FundingError ''XRPL path quote was not based on a validated ledger'')
      else if dget result ''source_account'' \<noteq> PStr address
        then Inl (FundingError ''XRPL path quote source account mismatch'')
      else if dget result ''destination_account'' \<noteq> PStr address
        then Inl (FundingError ''XRPL path quote destination account mismatch'')
      else case dget result ''destination_amount'' of
          PDict quoted \<Rightarrow> rbind (destination_matches issuer amount quoted) (\<lambda>_. select_path_quote result)
        | _ \<Rightarrow> Inl (FundingError ''XRPL path quote omitted the destination amount''))"

definition amm_quote :: "dev_env \<Rightarrow> string \<Rightarrow> pydec \<Rightarrow> exn \<Rightarrow> ('x, path_quote) dev_cmd" where
  "amm_quote E issuer amount path_error =
     ctry
       (cbind (dev_request E (AmmInfo issuer)) (\<lambda>response.
        cbind (clift (amm_source_amount_drops (snd response) amount)) (\<lambda>drops.
          creturn \<lparr>qt_source_amount_drops = drops, qt_paths = PList [], qt_source = ''amm''\<rparr>)))
       (\<lambda>amm_error. craise (LiquidityUnavailableError (''no usable XRP-to-RLUSD Testnet route: pathfinding='' @
          str_exn path_error @ ''; AMM='' @ str_exn amm_error)))"

definition quote_rlusd_path :: "dev_env \<Rightarrow> string \<Rightarrow> string \<Rightarrow> pydec \<Rightarrow> ('x, path_quote) dev_cmd" where
  "quote_rlusd_path E address issuer amount =
     cbind (clift (decimal_text amount)) (\<lambda>value.
       ctry
         (cbind (dev_request E (PathFind address issuer value)) (\<lambda>response.
            clift (checked_path_quote address issuer amount response)))
         (\<lambda>e. if is_funding_error e \<and> (case e of LiquidityUnavailableError _ \<Rightarrow> False | _ \<Rightarrow> True) then craise e
              else amm_quote E issuer amount e))"


section \<open>Outcomes\<close>

definition metadata_of :: "pydict \<Rightarrow> pyval" where
  "metadata_of result = py_or (dget result ''meta'') (dget result ''metaData'')"

definition fund_transaction_result :: "pydict \<Rightarrow> string option" where
  "fund_transaction_result result =
     (let engine = (if dget result ''engine_result'' = PNone then None else Some (py_str (dget result ''engine_result''))) in
      case metadata_of result of
        PDict m \<Rightarrow> if dget m ''TransactionResult'' \<noteq> PNone then Some (py_str (dget m ''TransactionResult'')) else engine
      | _ \<Rightarrow> engine)"

definition exact_delivered_amount :: "pydict \<Rightarrow> string \<Rightarrow> pydec \<Rightarrow> exn + unit" where
  "exact_delivered_amount result issuer expected = (case metadata_of result of
       PDict m \<Rightarrow>
         (case py_or (dget m ''delivered_amount'') (dget m ''DeliveredAmount'') of
            PDict delivered \<Rightarrow>
              (case rbind (normalize_currency_code (py_str (dget_default delivered ''currency'' (PStr [])))) (\<lambda>code.
                    rbind (dec_of_val (dget_default delivered ''value'' (PStr []))) (\<lambda>value. Inr (code, value))) of
                 Inl e \<Rightarrow>
                   Inl (if is_value_error e \<or> e = InvalidOperation
                        then FundingError ''validated conversion returned an invalid delivered_amount'' else e)
               | Inr (code, value) \<Rightarrow>
                   guard (code = RLUSD_CODE \<and> dget delivered ''issuer'' = PStr issuer \<and> dec_cmp value expected = Inr 0)
                     (FundingError ''validated conversion did not deliver the exact expected RLUSD''))
          | _ \<Rightarrow> Inl (FundingError ''validated conversion omitted delivered_amount''))
     | _ \<Rightarrow> Inl (FundingError ''validated conversion omitted transaction metadata''))"

definition unknown_result :: "string option \<Rightarrow> string" where
  "unknown_result r = (case r of Some (c # cs) \<Rightarrow> c # cs | _ \<Rightarrow> ''unknown result'')"

definition validated_success :: "pydict \<Rightarrow> string \<Rightarrow> string \<Rightarrow> pydec option \<Rightarrow> exn + unit" where
  "validated_success result purpose issuer expected =
     (if dget result ''validated'' \<noteq> PBool True then Inl (SettlementPendingError (purpose @ '' has not validated''))
      else if fund_transaction_result result \<noteq> Some ''tesSUCCESS''
        then Inl (FundingError (purpose @ '' failed with '' @ unknown_result (fund_transaction_result result)))
      else case expected of None \<Rightarrow> Inr () | Some amount \<Rightarrow> exact_delivered_amount result issuer amount)"

definition record_terminal_transaction :: "dev_env \<Rightarrow> string \<Rightarrow> pyval \<Rightarrow> unit fund_cmd" where
  "record_terminal_transaction E path tx_hash =
     cbind (cmodify (\<lambda>w. w\<lparr>fw_state := (let s = fw_state w in s\<lparr>
         fs_completed := (if tx_hash \<in> set (fs_completed s) then fs_completed s else fs_completed s @ [tx_hash]),
         fs_pending := None\<rparr>)\<rparr>)) (\<lambda>_.
       write_funding_state E path)"

text \<open>\<open>except FundingError\<close>: the transaction is over, its journal entry is dropped.\<close>

definition drop_pending :: "dev_env \<Rightarrow> string \<Rightarrow> exn \<Rightarrow> 'a fund_cmd" where
  "drop_pending E path e =
     cbind (set_pending None) (\<lambda>_. cbind (write_funding_state E path) (\<lambda>_. craise e))"

text \<open>The three clauses around a submission.\<close>

definition submission_failed :: "dev_env \<Rightarrow> string \<Rightarrow> string \<Rightarrow> exn \<Rightarrow> 'a fund_cmd" where
  "submission_failed E path uncertain e =
     (if is_settlement_pending e then craise e
      else if is_funding_error e then drop_pending E path e
      else craise (SettlementPendingError uncertain))"

definition submit_blob ::
  "dev_env \<Rightarrow> pyval \<Rightarrow> string \<Rightarrow> string \<Rightarrow> exn + pydec option \<Rightarrow> unit fund_cmd" where
  "submit_blob E blob purpose issuer expected =
     cbind (dev_request E (SubmitBlob blob)) (\<lambda>response.
     cbind (clift expected) (\<lambda>amount.
       clift (validated_success (snd response) purpose issuer amount)))"


section \<open>Reconciliation\<close>

text \<open>\<open>Decimal(pending.expected_rlusd_amount)\<close> of what the file holds.\<close>

definition expected_amount :: "pyval \<Rightarrow> exn + pydec option" where
  "expected_amount v = (case v of
       PNone \<Rightarrow> Inr None
     | PStr s \<Rightarrow> rbind (decimal_of_str s) (\<lambda>d. Inr (Some d))
     | PInt i \<Rightarrow> Inr (Some (dec_of_int i))
     | PBool b \<Rightarrow> Inr (Some (dec_of_int (if b then 1 else 0)))
     | _ \<Rightarrow> Inl (TypeError ''conversion to Decimal is not supported''))"

definition ledger_passed :: "int \<Rightarrow> pyval \<Rightarrow> exn + bool" where
  "ledger_passed current last_ledger = (case as_int last_ledger of
       None \<Rightarrow> Inl (TypeError ''not supported between instances'')
     | Some i \<Rightarrow> Inr (i \<le> current))"

definition reconcile_validated :: "dev_env \<Rightarrow> string \<Rightarrow> pending_transaction \<Rightarrow> pydict \<Rightarrow> bool fund_cmd" where
  "reconcile_validated E path p result =
     cbind (cget fw_state) (\<lambda>s.
       ctry_else
         (clift (rbind (expected_amount (pd_expected_rlusd_amount p))
            (validated_success result (py_str (pd_purpose p)) (fs_issuer s))))
         (\<lambda>e. if is_funding_error e then drop_pending E path e else craise e)
         (\<lambda>_. cbind (record_terminal_transaction E path (pd_tx_hash p)) (\<lambda>_. creturn True)))"

definition reconcile_missing :: "dev_env \<Rightarrow> string \<Rightarrow> pending_transaction \<Rightarrow> pydict \<Rightarrow> bool fund_cmd" where
  "reconcile_missing E path p result =
     (if dget result ''error'' = PStr ''txnNotFound'' \<and> dget result ''searched_all'' = PBool True then
        cbind (set_pending None) (\<lambda>_. cbind (write_funding_state E path) (\<lambda>_. creturn False))
      else craise (SettlementPendingError (py_str (pd_purpose p) @ '' '' @ py_str (pd_tx_hash p) @
        '' is past LastLedgerSequence, but its ledger outcome is not authoritative'')))"

definition rebroadcast :: "dev_env \<Rightarrow> string \<Rightarrow> pending_transaction \<Rightarrow> bool fund_cmd" where
  "rebroadcast E path p =
     cbind (cget fw_state) (\<lambda>s.
       ctry_else
         (submit_blob E (pd_signed_tx_blob p) (py_str (pd_purpose p)) (fs_issuer s)
            (expected_amount (pd_expected_rlusd_amount p)))
         (submission_failed E path (py_str (pd_purpose p) @ '' '' @ py_str (pd_tx_hash p) @ '' remains pending''))
         (\<lambda>_. cbind (record_terminal_transaction E path (pd_tx_hash p)) (\<lambda>_. creturn True)))"

definition reconcile_pending_transaction :: "dev_env \<Rightarrow> string \<Rightarrow> bool fund_cmd" where
  "reconcile_pending_transaction E path =
     cbind (cget fw_state) (\<lambda>s. case fs_pending s of
         None \<Rightarrow> creturn True
       | Some p \<Rightarrow>
           cbind (dev_request E (TxLookup (pd_tx_hash p) (pd_first_ledger_sequence p) (pd_last_ledger_sequence p))) (\<lambda>response.
             let result = snd response in
             if dget result ''validated'' = PBool True then reconcile_validated E path p result
             else
               cbind (current_validated_ledger_index E) (\<lambda>current_ledger.
               cbind (clift (ledger_passed current_ledger (pd_last_ledger_sequence p))) (\<lambda>passed.
                 if passed then reconcile_missing E path p result else rebroadcast E path p))))"


section \<open>Submission\<close>

definition simulate_exact_payment :: "dev_env \<Rightarrow> prepared_tx \<Rightarrow> string \<Rightarrow> pydec option \<Rightarrow> ('x, unit) dev_cmd" where
  "simulate_exact_payment E prepared issuer expected =
     ctry_else (dev_request E (Simulate prepared))
       (\<lambda>e. let error_text = lower (str_exn e) in
          if list_ex (\<lambda>k. contains k (PStr error_text) = Inr True) [''notimpl'', ''not implemented'', ''unknown method''] then creturn ()
          else craise (FundingError (''RLUSD conversion simulation request failed: '' @ str_exn e)))
       (\<lambda>response. clift
          (if fund_transaction_result (snd response) \<noteq> Some ''tesSUCCESS''
             then Inl (FundingError (''RLUSD conversion simulation failed with '' @ unknown_result (fund_transaction_result (snd response))))
           else case expected of None \<Rightarrow> Inr () | Some amount \<Rightarrow> exact_delivered_amount (snd response) issuer amount))"

definition checked_fee :: "string \<Rightarrow> int \<Rightarrow> prepared_tx \<Rightarrow> exn + unit" where
  "checked_fee purpose max_fee_drops prepared =
     rbind (int_of_str (case pt_fee prepared of Some (c # cs) \<Rightarrow> c # cs | _ \<Rightarrow> ''0'')) (\<lambda>fee.
     rbind (guard (0 < fee \<and> fee \<le> max_fee_drops) (SpendLimitExceededError
       (''refusing '' @ purpose @ '': fee '' @ show_int fee @ '' drops exceeds cap '' @ show_int max_fee_drops))) (\<lambda>_.
     guard (pt_last_ledger prepared \<noteq> None) (FundingError (''prepared '' @ purpose @ '' is missing LastLedgerSequence''))))"

definition is_payment :: "dev_tx \<Rightarrow> bool" where
  "is_payment tx \<longleftrightarrow> (case tx of Pay _ _ _ _ _ \<Rightarrow> True | _ \<Rightarrow> False)"

text \<open>The text of the expected amount that the journal keeps.\<close>

definition expected_text :: "pydec option \<Rightarrow> exn + pyval" where
  "expected_text expected = (case expected of
       None \<Rightarrow> Inr PNone
     | Some amount \<Rightarrow> rbind (decimal_text amount) (\<lambda>text. Inr (PStr text)))"

definition journal_entry :: "string \<Rightarrow> int \<Rightarrow> string \<Rightarrow> pyval \<Rightarrow> signed_tx \<Rightarrow> pending_transaction" where
  "journal_entry purpose first_ledger created_at expected tx_signed =
     \<lparr>pd_purpose = PStr purpose, pd_tx_hash = PStr (sd_hash tx_signed), pd_signed_tx_blob = PStr (sd_blob tx_signed),
      pd_first_ledger_sequence = PInt first_ledger, pd_last_ledger_sequence = PInt (sd_last_ledger tx_signed),
      pd_created_at = PStr created_at, pd_expected_rlusd_amount = expected\<rparr>"

text \<open>Preparing: the fee within its cap, a last ledger, a successful simulation of a payment, a signature.\<close>

definition prepare_transaction ::
  "dev_env \<Rightarrow> wallet \<Rightarrow> dev_tx \<Rightarrow> string \<Rightarrow> int \<Rightarrow> pydec option \<Rightarrow> (int \<times> signed_tx) fund_cmd" where
  "prepare_transaction E W tx purpose max_fee_drops expected =
     cbind (current_validated_ledger_index E) (\<lambda>first_ledger.
     cbind (dev_autofill E tx) (\<lambda>prepared.
     cbind (clift (checked_fee purpose max_fee_drops prepared)) (\<lambda>_.
     cbind (cget fw_state) (\<lambda>s.
     cbind (if is_payment (pt_tx prepared) then simulate_exact_payment E prepared (fs_issuer s) expected else creturn ()) (\<lambda>_.
     cbind (clift (te_sign E W prepared)) (\<lambda>tx_signed.
       creturn (first_ledger, tx_signed)))))))"

text \<open>The entry is in the file before the transaction goes to the ledger.\<close>

definition journal_and_submit ::
  "dev_env \<Rightarrow> string \<Rightarrow> string \<Rightarrow> string \<Rightarrow> pydec option \<Rightarrow> int \<times> signed_tx \<Rightarrow> string fund_cmd" where
  "journal_and_submit E path purpose issuer expected prepared = (case prepared of (first_ledger, tx_signed) \<Rightarrow>
     cbind dev_now (\<lambda>now.
     cbind (clift (expected_text expected)) (\<lambda>amount_text.
     cbind (set_pending (Some (journal_entry purpose first_ledger (te_iso E now) amount_text tx_signed))) (\<lambda>_.
     cbind (write_funding_state E path) (\<lambda>_.
       ctry_else
         (submit_blob E (PStr (sd_blob tx_signed)) purpose issuer (Inr expected))
         (submission_failed E path (purpose @ '' '' @ sd_hash tx_signed @ '' has an uncertain submission outcome''))
         (\<lambda>_. cbind (record_terminal_transaction E path (PStr (sd_hash tx_signed))) (\<lambda>_.
            creturn (sd_hash tx_signed))))))))"

definition submit_journaled_transaction ::
  "dev_env \<Rightarrow> wallet \<Rightarrow> dev_tx \<Rightarrow> string \<Rightarrow> int \<Rightarrow> string \<Rightarrow> pydec option \<Rightarrow> string fund_cmd" where
  "submit_journaled_transaction E W tx purpose max_fee_drops path expected =
     cbind (cget fw_state) (\<lambda>s.
       if fs_pending s \<noteq> None then craise (SettlementPendingError ''another transaction must be reconciled first'')
       else
         cbind (prepare_transaction E W tx purpose max_fee_drops expected)
           (journal_and_submit E path purpose (fs_issuer s) expected))"

definition ensure_rlusd_trustline_journaled ::
  "dev_env \<Rightarrow> wallet \<Rightarrow> string \<Rightarrow> int \<Rightarrow> string \<Rightarrow> string option fund_cmd" where
  "ensure_rlusd_trustline_journaled E W issuer max_fee_drops path =
     cbind (trustline_limit_is_sufficient E (wl_address W) issuer (dec_of_int DEFAULT_TRUSTLINE_LIMIT) RLUSD_CODE) (\<lambda>enough.
       if enough then creturn None
       else
         cbind (clift (decimal_text (dec_of_int DEFAULT_TRUSTLINE_LIMIT))) (\<lambda>text.
         cbind (submit_journaled_transaction E W
             (TrustLine (wl_address W) (issued_amount RLUSD_HEX issuer text) (Some 262144))
             ''RLUSD trustline'' max_fee_drops path None) (\<lambda>tx_hash.
           creturn (Some tx_hash))))"

section \<open>Funding a wallet\<close>

definition fund_reserve_values :: "pyval \<Rightarrow> pydict \<Rightarrow> exn + int \<times> int \<times> int \<times> int" where
  "fund_reserve_values account validated =
     rbind (rbind (dindex validated ''reserve_base'') int_of_val) (\<lambda>reserve_base.
     rbind (rbind (dindex validated ''reserve_inc'') int_of_val) (\<lambda>reserve_inc.
     rbind (rbind (vget_default account ''OwnerCount'' (PInt 0)) int_of_val) (\<lambda>owner_count.
     rbind (rbind (vindex account ''Balance'') int_of_val) (\<lambda>balance.
       Inr (reserve_base, reserve_inc, owner_count, balance)))))"

definition required_drops :: "int \<Rightarrow> int \<Rightarrow> int \<Rightarrow> int \<Rightarrow> int \<Rightarrow> int" where
  "required_drops reserve_base reserve_inc owner_count send_max_drops max_fee_drops =
     reserve_base + reserve_inc * owner_count + XRP_RESERVE_BUFFER + send_max_drops + max_fee_drops"

definition enough_xrp :: "pyval \<Rightarrow> bool \<times> pydict \<Rightarrow> int \<Rightarrow> int \<Rightarrow> exn + unit" where
  "enough_xrp account response send_max_drops max_fee_drops =
     (if \<not> fst response then Inl (FundingError ''could not read XRPL Testnet reserve settings'')
      else case dget (snd response) ''state'' of
        PDict state \<Rightarrow>
          rbind (int_of_val (dget_default state ''network_id'' (PInt (- 1)))) (\<lambda>network_id.
          if network_id \<noteq> 1 then Inl (FundingError ''reserve response is not from XRPL Testnet'')
          else case dget state ''validated_ledger'' of
            PDict validated \<Rightarrow>
              (case fund_reserve_values account validated of
                      Inl e \<Rightarrow>
                        Inl (case e of
                            KeyError _ \<Rightarrow> FundingError ''XRPL Testnet returned invalid reserve or balance data''
                          | TypeError _ \<Rightarrow> FundingError ''XRPL Testnet returned invalid reserve or balance data''
                          | _ \<Rightarrow> if is_value_error e then FundingError ''XRPL Testnet returned invalid reserve or balance data'' else e)
                    | Inr (reserve_base, reserve_inc, owner_count, balance) \<Rightarrow>
                        let required = required_drops reserve_base reserve_inc owner_count send_max_drops max_fee_drops in
                        guard (required \<le> balance) (SpendLimitExceededError (''insufficient spendable XRP: have '' @
                          show_int balance @ '' drops, require '' @ show_int required @ '' after reserves'')))
          | _ \<Rightarrow> Inl (FundingError ''XRPL Testnet reserve response omitted validated_ledger''))
      | _ \<Rightarrow> Inl (FundingError ''reserve response is not from XRPL Testnet''))"

definition assert_spendable_xrp :: "dev_env \<Rightarrow> string \<Rightarrow> int \<Rightarrow> int \<Rightarrow> ('x, unit) dev_cmd" where
  "assert_spendable_xrp E address send_max_drops max_fee_drops =
     cbind (get_validated_account_root E address) (\<lambda>account. case account of
         None \<Rightarrow> craise (FundingError (''XRPL Testnet account does not exist: '' @ address))
       | Some a \<Rightarrow>
           cbind (dev_request E ServerState) (\<lambda>response.
             clift (enough_xrp (ac_data a) response send_max_drops max_fee_drops)))"

record fund_args =
  fa_state_path :: string
  fa_wallet_path :: string
  fa_issuer :: string
  fa_target_rlusd :: pydec
  fa_max_xrp_drops :: int
  fa_slippage_bps :: int
  fa_max_fee_drops :: int

record funding_result =
  fr_status :: string
  fr_classic_address :: string
  fr_xrp_balance_drops :: int
  fr_rlusd_balance :: pydec
  fr_transaction_hashes :: "pyval list"

definition check_fund_args :: "fund_args \<Rightarrow> exn + unit" where
  "check_fund_args A =
     (if fa_issuer A \<noteq> RLUSD_TESTNET_ISSUER then Inl (FundingError ''refusing a non-official RLUSD Testnet issuer'')
      else
        rbind (nonpositive (fa_target_rlusd A)) (\<lambda>bad.
        if bad then Inl (ValueError ''target RLUSD balance must be positive'')
        else if fa_max_xrp_drops A \<le> 0 \<or> fa_max_fee_drops A \<le> 0 then Inl (ValueError ''XRP and fee caps must be positive'')
        else rbind (compute_send_max_drops (PInt 1) (fa_slippage_bps A)) (\<lambda>_. Inr ())))"

text \<open>The conversion of the missing amount.\<close>

definition convert_missing :: "dev_env \<Rightarrow> wallet \<Rightarrow> fund_args \<Rightarrow> pydec \<Rightarrow> unit fund_cmd" where
  "convert_missing E W A needed =
     cbind (quote_rlusd_path E (wl_address W) (fa_issuer A) needed) (\<lambda>quote.
     cbind (clift (compute_send_max_drops (PInt (qt_source_amount_drops quote)) (fa_slippage_bps A))) (\<lambda>send_max_drops.
     if fa_max_xrp_drops A < send_max_drops
       then craise (SpendLimitExceededError (''quoted SendMax '' @ show_int send_max_drops @ '' drops exceeds --max-xrp cap '' @
         show_int (fa_max_xrp_drops A)))
     else
       cbind (clift (build_rlusd_self_payment (wl_address W) (fa_issuer A) needed send_max_drops)) (\<lambda>payment.
       cbind (assert_spendable_xrp E (wl_address W) send_max_drops (fa_max_fee_drops A)) (\<lambda>_.
       cbind (submit_journaled_transaction E W payment ''XRP-to-RLUSD conversion'' (fa_max_fee_drops A) (fa_state_path A)
         (Some needed)) (\<lambda>_. creturn ())))))"

definition funded_result :: "dev_env \<Rightarrow> wallet \<Rightarrow> fund_args \<Rightarrow> pydec \<Rightarrow> funding_result fund_cmd" where
  "funded_result E W A starting_rlusd =
     cbind (get_validated_trustline_balance E (wl_address W) (fa_issuer A) RLUSD_CODE) (\<lambda>final_rlusd.
     cbind (clift (dec_lt final_rlusd (fa_target_rlusd A))) (\<lambda>short.
     if short then craise (FundingError (''conversion validated but RLUSD balance is '' @ dec_str final_rlusd @
       '', below target '' @ format_f (fa_target_rlusd A)))
     else
       cbind (clift (dec_lt starting_rlusd final_rlusd)) (\<lambda>more.
       cbind (get_validated_balance E (wl_address W)) (\<lambda>xrp.
       cbind (cget fw_state) (\<lambda>s.
         creturn \<lparr>fr_status = (if more then ''funded'' else ''ready''), fr_classic_address = wl_address W,
                  fr_xrp_balance_drops = xrp, fr_rlusd_balance = final_rlusd, fr_transaction_hashes = fs_completed s\<rparr>)))))"

definition acquire_rlusd :: "dev_env \<Rightarrow> wallet \<Rightarrow> fund_args \<Rightarrow> pydec \<Rightarrow> funding_result fund_cmd" where
  "acquire_rlusd E W A starting_rlusd =
     cbind (ensure_testnet_xrp E (wl_address W) (fa_max_xrp_drops A + XRP_RESERVE_BUFFER) (fa_state_path A)) (\<lambda>_.
     cbind (ensure_rlusd_trustline_journaled E W (fa_issuer A) (fa_max_fee_drops A) (fa_state_path A)) (\<lambda>_.
     cbind (get_validated_trustline_balance E (wl_address W) (fa_issuer A) RLUSD_CODE) (\<lambda>current_rlusd.
     cbind (clift (dec_lt current_rlusd (fa_target_rlusd A))) (\<lambda>short.
     cbind (if short then cbind (clift (dec_sub (fa_target_rlusd A) current_rlusd)) (convert_missing E W A) else creturn ()) (\<lambda>_.
       funded_result E W A starting_rlusd)))))"

definition fund_rlusd_wallet :: "dev_env \<Rightarrow> wallet \<Rightarrow> fund_args \<Rightarrow> funding_result fund_cmd" where
  "fund_rlusd_wallet E W A =
     cbind (clift (check_fund_args A)) (\<lambda>_.
     cbind (load_funding_state (fa_state_path A) (wl_address W) (fa_issuer A)) (\<lambda>s.
     cbind (cmodify (\<lambda>w. w\<lparr>fw_state := s\<rparr>)) (\<lambda>_.
     cbind (if fs_pending s \<noteq> None then reconcile_pending_transaction E (fa_state_path A) else creturn True) (\<lambda>_.
     cbind (ctry (get_validated_trustline_balance E (wl_address W) (fa_issuer A) RLUSD_CODE) (\<lambda>_. creturn (dec_of_int 0))) (\<lambda>starting_rlusd.
     cbind (clift (dec_le (fa_target_rlusd A) starting_rlusd)) (\<lambda>enough.
     if enough then
       cbind (safe_xrp_balance E (wl_address W)) (\<lambda>xrp.
       cbind (cget fw_state) (\<lambda>s'.
         creturn \<lparr>fr_status = ''ready'', fr_classic_address = wl_address W, fr_xrp_balance_drops = xrp,
                  fr_rlusd_balance = starting_rlusd, fr_transaction_hashes = fs_completed s'\<rparr>))
     else acquire_rlusd E W A starting_rlusd))))))"

end
