(* ===== verification/FundCorrect.thy ===== *)
theory FundCorrect
  imports FundSubmit
begin

text \<open>
  Properties of the RLUSD funding tool: every transaction is in the journal file before it is
  submitted and within the caps, and none is forgotten before its outcome is known.
\<close>

section \<open>What the journal file says\<close>

definition file_pending :: "string \<Rightarrow> (string \<Rightarrow> stored_file option) \<Rightarrow> pydict option" where
  "file_pending path files = (case files path of
       Some (JsonFile (PDict d)) \<Rightarrow> as_dict (dget d ''pending_transaction'')
     | _ \<Rightarrow> None)"

definition file_blob :: "string \<Rightarrow> (string \<Rightarrow> stored_file option) \<Rightarrow> pyval option" where
  "file_blob path files = map_option (\<lambda>q. dget q ''signed_tx_blob'') (file_pending path files)"

definition validated_submission :: "dev_env \<Rightarrow> pyval \<Rightarrow> (dev_call \<times> 'f) list \<Rightarrow> bool" where
  "validated_submission E blob calls \<longleftrightarrow>
     (\<exists>result. answered E calls (SubmitBlob blob) result \<and> dget result ''validated'' = PBool True)"

text \<open>The ledger decided the outcome of a pending transaction: it answered that the transaction is
  validated, or, past its last ledger, that no ledger has it.\<close>

definition outcome_known :: "dev_env \<Rightarrow> pydict \<Rightarrow> (dev_call \<times> 'f) list \<Rightarrow> bool" where
  "outcome_known E q calls \<longleftrightarrow> validated_submission E (dget q ''signed_tx_blob'') calls
     \<or> (\<exists>result. answered E calls (TxLookup (dget q ''tx_hash'') (dget q ''first_ledger_sequence'') (dget q ''last_ledger_sequence'')) result
          \<and> (dget result ''validated'' = PBool True
             \<or> dget result ''error'' = PStr ''txnNotFound'' \<and> dget result ''searched_all'' = PBool True
               \<and> (\<exists>info current. answered E calls ServerInfo info \<and> ledger_index_of info = Inr current
                    \<and> ledger_passed current (dget q ''last_ledger_sequence'') = Inr True)))"

lemma known_append:
  "validated_submission E blob calls \<Longrightarrow> validated_submission E blob (calls @ l)"
  "outcome_known E q calls \<Longrightarrow> outcome_known E q (calls @ l)"
  unfolding validated_submission_def outcome_known_def using answered_append by metis+

text \<open>The transactions that a run may sign, and the signed ones within the fee cap.\<close>

definition allowed_tx :: "wallet \<Rightarrow> fund_args \<Rightarrow> dev_tx \<Rightarrow> bool" where
  "allowed_tx W A tx \<longleftrightarrow>
     tx = TrustLine (wl_address W) (issued_amount RLUSD_HEX (fa_issuer A) ''100000'') (Some 262144)
     \<or> (\<exists>current needed text m. dec_lt current (fa_target_rlusd A) = Inr True
          \<and> dec_sub (fa_target_rlusd A) current = Inr needed \<and> decimal_text needed = Inr text
          \<and> 0 < m \<and> m \<le> fa_max_xrp_drops A
          \<and> tx = Pay (wl_address W) (wl_address W) (issued_amount RLUSD_HEX RLUSD_TESTNET_ISSUER text)
                   (Some (show_int m)) (Some TF_LIMIT_QUALITY))"

definition capped :: "dev_env \<Rightarrow> wallet \<Rightarrow> fund_args \<Rightarrow> pyval \<Rightarrow> bool" where
  "capped E W A blob \<longleftrightarrow>
     (\<exists>history tx prepared fee_text fee tx_signed. allowed_tx W A tx \<and> te_autofill E history tx = Inr prepared
        \<and> pt_fee prepared = Some fee_text \<and> int_of_str fee_text = Inr fee \<and> 0 < fee \<and> fee \<le> fa_max_fee_drops A
        \<and> te_sign E W prepared = Inr tx_signed \<and> blob = PStr (sd_blob tx_signed))"


section \<open>Commands that do not touch the journal\<close>

definition is_submission :: "dev_call \<Rightarrow> bool" where
  "is_submission call \<longleftrightarrow> (case call of SubmitBlob _ \<Rightarrow> True | SubmitTx _ _ \<Rightarrow> True | _ \<Rightarrow> False)"

lemma is_submission_simps [simp]:
  "is_submission (SubmitBlob b)" "is_submission (SubmitTx tx a)" "\<not> is_submission (AccountInfo x)" "\<not> is_submission (AccountLines x)"
  "\<not> is_submission ServerInfo" "\<not> is_submission ServerState" "\<not> is_submission (PathFind x y z)" "\<not> is_submission (AmmInfo x)"
  "\<not> is_submission (TxLookup v1 v2 v3)" "\<not> is_submission (Autofill tx)" "\<not> is_submission (Simulate p)"
  "\<not> is_submission (XrpFaucet x)" "\<not> is_submission (MintRlusd x y)" "\<not> is_submission (FaucetWallet x)"
  by (simp_all add: is_submission_def)

named_theorems calm_rules \<open>commands that leave state and files alone and submit nothing\<close>

definition quiet :: "fund_world \<Rightarrow> fund_world \<Rightarrow> bool" where
  "quiet w w' \<longleftrightarrow> fw_state w' = fw_state w \<and> dw_files w' = dw_files w
     \<and> (\<exists>l. dw_log w' = dw_log w @ l \<and> list_all (\<lambda>e. \<not> is_submission (fst e)) l)"

definition calm :: "'a fund_cmd \<Rightarrow> bool" where
  "calm m \<longleftrightarrow> (\<forall>w. quiet w (snd (m w)))"

lemma quiet_refl [simp]: "quiet w w"
  by (simp add: quiet_def)

lemma quiet_trans: "quiet w w1 \<Longrightarrow> quiet w1 w2 \<Longrightarrow> quiet w w2"
  by (fastforce simp: quiet_def)

lemma calmD: "calm m \<Longrightarrow> m w = (r, w') \<Longrightarrow> quiet w w'"
  by (metis calm_def snd_conv)

lemma calm_leaf [calm_rules]:
  "calm (creturn x)" "calm (craise e)" "calm cdiverge" "calm (clift v)" "calm (cget f)" "calm dev_now" "calm (read_file path)"
  by (simp_all add: calm_def creturn_def craise_def cdiverge_def clift_def cget_def dev_now_def read_file_def split: sum.split)

lemma calm_cbind [calm_rules]: "calm m \<Longrightarrow> (\<And>x. calm (f x)) \<Longrightarrow> calm (cbind m f)"
  unfolding calm_def cbind_def by (auto split: prod.splits outcome.splits) (metis quiet_trans snd_conv)+

lemma calm_ctry_else [calm_rules]:
  "calm m \<Longrightarrow> (\<And>e. calm (h e)) \<Longrightarrow> (\<And>x. calm (f x)) \<Longrightarrow> calm (ctry_else m h f)"
  unfolding calm_def ctry_else_def by (auto split: prod.splits outcome.splits) (metis quiet_trans snd_conv)+

lemma calm_ctry [calm_rules]: "calm m \<Longrightarrow> (\<And>e. calm (h e)) \<Longrightarrow> calm (ctry m h)"
  by (simp add: ctry_conv calm_rules)

lemma calm_if [calm_rules]: "calm m \<Longrightarrow> calm n \<Longrightarrow> calm (if b then m else n)"
  by simp

lemma calm_case_option [calm_rules]: "calm m \<Longrightarrow> (\<And>x. calm (n x)) \<Longrightarrow> calm (case v of None \<Rightarrow> m | Some x \<Rightarrow> n x)"
  by (simp split: option.split)

lemma calm_dev_log [calm_rules]: "\<not> is_submission call \<Longrightarrow> calm (dev_log E call)"
  by (simp add: calm_def dev_log_def quiet_def)

lemma calm_dev_request [calm_rules]: "\<not> is_submission call \<Longrightarrow> calm (dev_request E call)"
  unfolding dev_request_def by (intro calm_rules)

lemma calm_dev_autofill [calm_rules]: "calm (dev_autofill E tx)"
  unfolding dev_autofill_def by (intro calm_rules) simp

lemma calm_dev_sleep [calm_rules]: "calm (dev_sleep t)"
  by (simp add: calm_def dev_sleep_def cmodify_def quiet_def)

lemma calm_current_ledger [calm_rules]: "calm (current_validated_ledger_index E)"
  unfolding current_validated_ledger_index_def by (intro calm_rules) simp

lemma calm_account_root [calm_rules]: "calm (get_validated_account_root E address)"
  unfolding get_validated_account_root_def Let_def by (intro calm_rules) simp

lemma calm_balance [calm_rules]: "calm (get_validated_balance E address)" "calm (safe_xrp_balance E address)"
  unfolding safe_xrp_balance_def get_validated_balance_def by (intro calm_rules)+

lemma calm_trustline [calm_rules]:
  "calm (get_validated_trustline_balance E address issuer code)"
  "calm (trustline_limit_is_sufficient E address issuer limit code)"
  unfolding get_validated_trustline_balance_def trustline_limit_is_sufficient_def get_validated_trustline_def
  by (intro calm_rules; simp)+

lemma calm_wait_balance [calm_rules]: "calm (wait_balance E n address minimum_drops deadline balance)"
  by (induction n arbitrary: balance) (auto intro!: calm_rules)

lemma calm_faucet [calm_rules]:
  "calm (wait_for_xrp_balance E address minimum_drops)" "calm (request_testnet_xrp E address)"
  unfolding wait_for_xrp_balance_def request_testnet_xrp_def by (auto intro!: calm_rules simp del: wait_balance.simps)

lemma calm_quote [calm_rules]: "calm (quote_rlusd_path E address issuer amount)"
  unfolding quote_rlusd_path_def amm_quote_def by (auto intro!: calm_rules)

lemma calm_prepare [calm_rules]: "calm (prepare_transaction E W tx purpose cap expected)"
  unfolding prepare_transaction_def simulate_exact_payment_def by (auto intro!: calm_rules simp: Let_def)

lemma calm_spendable [calm_rules]: "calm (assert_spendable_xrp E address send_max_drops max_fee_drops)"
  unfolding assert_spendable_xrp_def by (auto intro!: calm_rules)

lemma calm_load [calm_rules]: "calm (load_funding_state path address issuer)"
  unfolding load_funding_state_def reject_symlink_def by (auto intro!: calm_rules split: option.split stored_file.split)

section \<open>Submissions\<close>

text \<open>One entry of the log: a submission is of the transaction in the journal file, which is the one
  pending from before or one within the caps.\<close>

definition sound_entry ::
  "dev_env \<Rightarrow> wallet \<Rightarrow> fund_args \<Rightarrow> pyval option \<Rightarrow> dev_call \<times> (string \<Rightarrow> stored_file option) \<Rightarrow> bool" where
  "sound_entry E W A b0 e \<longleftrightarrow> (case fst e of
       SubmitBlob b \<Rightarrow> file_blob (fa_state_path A) (snd e) = Some b \<and> (b0 = Some b \<or> capped E W A b)
     | SubmitTx _ _ \<Rightarrow> False
     | _ \<Rightarrow> True)"

text \<open>What a stretch of a run did: sound submissions, each either validated or, when the run stops
  here, still in the journal file.\<close>

definition sound_run ::
  "dev_env \<Rightarrow> wallet \<Rightarrow> fund_args \<Rightarrow> pyval option \<Rightarrow> fund_world \<Rightarrow> 'a outcome \<Rightarrow> fund_world \<Rightarrow> bool" where
  "sound_run E W A b0 w r w' \<longleftrightarrow>
     (\<exists>l. dw_log w' = dw_log w @ l \<and> list_all (sound_entry E W A b0) l
        \<and> (\<forall>b. SubmitBlob b \<in> fst ` set l \<longrightarrow> validated_submission E b (dw_log w')
             \<or> (\<forall>x. r \<noteq> Ok x) \<and> file_blob (fa_state_path A) (dw_files w') = Some b))"

definition sound :: "dev_env \<Rightarrow> wallet \<Rightarrow> fund_args \<Rightarrow> pyval option \<Rightarrow> 'a fund_cmd \<Rightarrow> fund_world \<Rightarrow> bool" where
  "sound E W A b0 m w \<longleftrightarrow> (case m w of (r, w') \<Rightarrow> sound_run E W A b0 w r w')"

lemma soundI: "(\<And>r w'. m w = (r, w') \<Longrightarrow> sound_run E W A b0 w r w') \<Longrightarrow> sound E W A b0 m w"
  by (simp add: sound_def split: prod.split)

lemma sound_entry_other: "\<not> is_submission (fst e) \<Longrightarrow> sound_entry E W A b0 e"
  by (auto simp: sound_entry_def is_submission_def split: dev_call.splits)

lemma sound_quiet:
  assumes "quiet w w'"
  shows "sound_run E W A b0 w r w'"
proof -
  from assms obtain l where l: "dw_log w' = dw_log w @ l" "\<forall>e \<in> set l. \<not> is_submission (fst e)"
    by (auto simp: quiet_def list_all_iff)
  then have "SubmitBlob b \<notin> fst ` set l" for b
    by (metis imageE is_submission_simps(1))
  moreover have "list_all (sound_entry E W A b0) l"
    using l(2) sound_entry_other unfolding list_all_iff by blast
  ultimately show ?thesis
    unfolding sound_run_def using l(1) by (intro exI [of _ l] conjI) blast+
qed

lemma sound_calm: "calm m \<Longrightarrow> sound E W A b0 m w"
  by (auto intro!: soundI sound_quiet calmD)

lemma sound_leaf: "sound E W A b0 (creturn x) w" "sound E W A b0 (craise e) w" "sound E W A b0 cdiverge w"
  by (intro sound_calm calm_rules)+

lemma sound_if: "(c \<Longrightarrow> sound E W A b0 m w) \<Longrightarrow> (\<not> c \<Longrightarrow> sound E W A b0 n w) \<Longrightarrow> sound E W A b0 (if c then m else n) w"
  by simp

lemma sound_run_trans:
  assumes "sound_run E W A b0 w (Ok x) w1" and "sound_run E W A b0 w1 r w2"
  shows "sound_run E W A b0 w r w2"
proof -
  from assms obtain l l' where "dw_log w1 = dw_log w @ l" "list_all (sound_entry E W A b0) l"
    and known: "\<forall>b. SubmitBlob b \<in> fst ` set l \<longrightarrow> validated_submission E b (dw_log w1)"
    and l': "dw_log w2 = dw_log w1 @ l'" "list_all (sound_entry E W A b0) l'"
    "\<forall>b. SubmitBlob b \<in> fst ` set l' \<longrightarrow> validated_submission E b (dw_log w2)
       \<or> (\<forall>x. r \<noteq> Ok x) \<and> file_blob (fa_state_path A) (dw_files w2) = Some b"
    unfolding sound_run_def by blast
  then have "dw_log w2 = dw_log w @ (l @ l')" "list_all (sound_entry E W A b0) (l @ l')"
    by simp_all
  moreover have "\<forall>b. SubmitBlob b \<in> fst ` set (l @ l') \<longrightarrow> validated_submission E b (dw_log w2)
       \<or> (\<forall>x. r \<noteq> Ok x) \<and> file_blob (fa_state_path A) (dw_files w2) = Some b"
    using known l'(1,3) known_append(1) [of E _ "dw_log w1" l'] by (auto simp: image_Un)
  ultimately show ?thesis
    unfolding sound_run_def by blast
qed

lemma sound_run_stops: "sound_run E W A b0 w (Raise e) w' \<Longrightarrow> sound_run E W A b0 w (Raise e') w'"
  "sound_run E W A b0 w Diverge w' \<Longrightarrow> sound_run E W A b0 w Diverge w'"
  unfolding sound_run_def by auto

lemma sound_cbind:
  assumes "sound E W A b0 m w" and "\<And>x w1. m w = (Ok x, w1) \<Longrightarrow> sound E W A b0 (f x) w1"
  shows "sound E W A b0 (cbind m f) w"
proof (rule soundI)
  fix r w'
  assume "cbind m f w = (r, w')"
  then consider (ok) x w1 where "m w = (Ok x, w1)" "f x w1 = (r, w')"
    | (raises) e where "m w = (Raise e, w')" "r = Raise e" | (diverges) "m w = (Diverge, w')" "r = Diverge"
    by (auto simp: cbind_def split: prod.splits outcome.splits)
  then show "sound_run E W A b0 w r w'"
  proof cases
    case ok
    then show ?thesis
      using assms(1) assms(2) [OF ok(1)] by (auto simp: sound_def intro: sound_run_trans)
  qed (use assms(1) in \<open>auto simp: sound_def sound_run_def\<close>)
qed

lemma sound_calm_cbind:
  "calm m \<Longrightarrow> (\<And>x w1. m w = (Ok x, w1) \<Longrightarrow> quiet w w1 \<Longrightarrow> sound E W A b0 (f x) w1) \<Longrightarrow> sound E W A b0 (cbind m f) w"
  using calmD by (blast intro: sound_cbind sound_calm)

section \<open>Writing the journal\<close>

text \<open>A write changes the file only, and after a successful one the file holds the state.\<close>

lemma write_effect:
  assumes "write_funding_state E path w = (r, w')"
  shows "dw_log w' = dw_log w" and "fw_state w' = fw_state w"
    and "dw_files w' = dw_files w \<or> dw_files w' = (dw_files w)(path \<mapsto> JsonFile (PDict (state_dict (fw_state w))))"
    and "r = Ok u \<Longrightarrow> dw_files w' = (dw_files w)(path \<mapsto> JsonFile (PDict (state_dict (fw_state w))))"
  using assms
  by (auto simp: write_funding_state_def atomic_write_private_json_def reject_symlink_def read_file_def replace_file_def cbind_def
      cget_def clift_def craise_def creturn_def Let_def split: if_splits sum.splits write_fault.splits)

lemma write_log [simp]: "dw_log (snd (write_funding_state E path w)) = dw_log w"
  by (metis write_effect(1) prod.collapse)

lemma pending_dict_blob [simp]: "dget (pending_dict p) ''signed_tx_blob'' = pd_signed_tx_blob p"
  by (simp add: pending_dict_def)

lemma file_blob_written [simp]:
  "file_blob path (files(path \<mapsto> JsonFile (PDict (state_dict s)))) = map_option pd_signed_tx_blob (fs_pending s)"
  by (simp add: file_blob_def file_pending_def state_dict_def split: option.split)

lemma sound_no_log: "(\<And>r w'. m w = (r, w') \<Longrightarrow> dw_log w' = dw_log w) \<Longrightarrow> sound E W A b0 m w"
  by (auto intro!: soundI simp: sound_run_def)

lemma sound_write: "sound E W A b0 (write_funding_state E path) w"
  by (rule sound_no_log) (rule write_effect(1))

lemma sound_cmodify: "(\<And>w. dw_log (f w) = dw_log w) \<Longrightarrow> sound E W A b0 (cmodify f) w"
  by (rule sound_no_log) (auto simp: cmodify_def)

lemma sound_set_pending: "sound E W A b0 (set_pending p) w"
  unfolding set_pending_def by (rule sound_cmodify) simp

lemma sound_record_terminal: "sound E W A b0 (record_terminal_transaction E path tx_hash) w"
  unfolding record_terminal_transaction_def by (intro sound_cbind sound_cmodify sound_write) simp

lemma sound_drop: "sound E W A b0 (drop_pending E path e) w"
  unfolding drop_pending_def by (intro sound_cbind sound_set_pending sound_write sound_calm calm_rules)

section \<open>Submitting\<close>

text \<open>The ledger client raises none of the tool's own exceptions.\<close>

definition plain_client :: "dev_env \<Rightarrow> bool" where
  "plain_client E \<longleftrightarrow> (\<forall>h call e. te_rpc E h call = Inl e \<longrightarrow> \<not> is_funding_error e)"

lemma validated_success_validated:
  "validated_success result purpose issuer amount = Inr u \<Longrightarrow> dget result ''validated'' = PBool True"
  "validated_success result purpose issuer amount = Inl e \<Longrightarrow> \<not> is_settlement_pending e \<Longrightarrow> dget result ''validated'' = PBool True"
  by (auto simp: validated_success_def is_settlement_pending_def split: if_splits)

lemma submit_blob_effect:
  assumes "submit_blob E b purpose issuer expected w = (r, w')" and "plain_client E"
    and "\<And>e. expected = Inl e \<Longrightarrow> \<not> is_funding_error e"
  shows "dw_log w' = dw_log w @ [(SubmitBlob b, dw_files w)]" and "dw_files w' = dw_files w" and "fw_state w' = fw_state w"
    and "(\<exists>u. r = Ok u) \<or> (\<exists>e. r = Raise e \<and> is_funding_error e \<and> \<not> is_settlement_pending e) \<Longrightarrow>
      validated_submission E b (dw_log w')"
    and "r \<noteq> Diverge"
proof -
  let ?h = "map fst (dw_log w)"
  let ?w = "w\<lparr>dw_log := dw_log w @ [(SubmitBlob b, dw_files w)], dw_clock := dw_clock w + max 0 (te_took E (length (dw_log w)))\<rparr>"
  have run: "w' = ?w \<and> r = (case te_rpc E ?h (SubmitBlob b) of
      Inl e \<Rightarrow> Raise e
    | Inr response \<Rightarrow> (case rbind expected (validated_success (snd response) purpose issuer) of Inl e \<Rightarrow> Raise e | Inr u \<Rightarrow> Ok u))"
    using assms(1)
    by (auto simp: submit_blob_def dev_request_def dev_log_def cbind_def clift_def craise_def creturn_def rbind_def split: sum.splits)
  then show "dw_log w' = dw_log w @ [(SubmitBlob b, dw_files w)]" "dw_files w' = dw_files w" "fw_state w' = fw_state w" "r \<noteq> Diverge"
    by (auto split: sum.splits)
  show "validated_submission E b (dw_log w')"
    if ended: "(\<exists>u. r = Ok u) \<or> (\<exists>e. r = Raise e \<and> is_funding_error e \<and> \<not> is_settlement_pending e)"
  proof -
    obtain ok result where answer: "te_rpc E ?h (SubmitBlob b) = Inr (ok, result)"
      using run ended assms(2) by (auto simp: plain_client_def split: sum.splits)
    then obtain v where v: "r = (case v of Inl e \<Rightarrow> Raise e | Inr u \<Rightarrow> Ok u)" "v = rbind expected (validated_success result purpose issuer)"
      using run by simp
    have "dget result ''validated'' = PBool True"
    proof (cases v)
      case (Inl e)
      then obtain amount where "validated_success result purpose issuer amount = Inl e" "\<not> is_settlement_pending e"
        using v ended assms(3) by (auto simp: rbind_eq_Inl)
      then show ?thesis by (rule validated_success_validated(2))
    next
      case (Inr u)
      then show ?thesis
        using v(2) validated_success_validated(1) by (auto simp: rbind_eq_Inr)
    qed
    moreover have "answered E (dw_log w') (SubmitBlob b) result"
      unfolding answered_def using run answer by auto
    ultimately show ?thesis
      unfolding validated_submission_def by blast
  qed
qed

lemma keeps_log [keeps_rules]:
  "keeps dw_log (write_funding_state E path)" "keeps dw_log (set_pending p)"
  "(\<And>w. dw_log (f w) = dw_log w) \<Longrightarrow> keeps dw_log (cmodify f)"
  by (simp_all add: keeps_def set_pending_def cmodify_def)

lemma keeps_log_ends [keeps_rules]:
  "keeps dw_log (record_terminal_transaction E path tx_hash)" "keeps dw_log (drop_pending E path e)"
  unfolding record_terminal_transaction_def drop_pending_def by (intro keeps_rules; simp)+

text \<open>The rest of a submission, whichever clause runs, makes no further call.\<close>

lemma submission_effect:
  assumes "plain_client E" and "\<And>e. expected = Inl e \<Longrightarrow> \<not> is_funding_error e"
    and "ctry_else (submit_blob E b purpose issuer expected) (submission_failed E path uncertain)
      (\<lambda>_. cbind (record_terminal_transaction E path tx_hash) (\<lambda>_. creturn result)) w = (r, w')"
  shows "dw_log w' = dw_log w @ [(SubmitBlob b, dw_files w)]"
    and "validated_submission E b (dw_log w') \<or> (\<forall>x. r \<noteq> Ok x) \<and> dw_files w' = dw_files w"
proof -
  obtain r1 w1 where submit: "submit_blob E b purpose issuer expected w = (r1, w1)"
    by fastforce
  note effect = submit_blob_effect [OF submit assms(1,2)]
  note no_log = keepsD [OF keeps_log_ends(1)] keepsD [OF keeps_log_ends(2)]
  have rest: "dw_log w' = dw_log w1 \<and> (validated_submission E b (dw_log w1) \<or> (\<forall>x. r \<noteq> Ok x) \<and> dw_files w' = dw_files w1)"
  proof (cases r1)
    case (Ok u)
    then show ?thesis
      using assms(3) submit effect(4)
      by (auto simp: ctry_else_def cbind_def creturn_def dest!: no_log(1) split: prod.splits outcome.splits)
  next
    case (Raise e)
    consider (still) "is_settlement_pending e" | (over) "\<not> is_settlement_pending e" "is_funding_error e"
      | (unclear) "\<not> is_settlement_pending e" "\<not> is_funding_error e" by blast
    then show ?thesis
    proof cases
      case over
      then have "drop_pending E path e w1 = (r, w')"
        using assms(3) submit Raise by (simp add: ctry_else_def submission_failed_def)
      then show ?thesis
        using effect(4) Raise over no_log(2) by metis
    qed (use assms(3) submit Raise in \<open>auto simp: ctry_else_def submission_failed_def craise_def\<close>)
  next
    case Diverge
    then show ?thesis using effect(5) by simp
  qed
  then show "dw_log w' = dw_log w @ [(SubmitBlob b, dw_files w)]"
    "validated_submission E b (dw_log w') \<or> (\<forall>x. r \<noteq> Ok x) \<and> dw_files w' = dw_files w"
    using effect(1,2) by simp_all
qed

lemma submission_sound:
  assumes "plain_client E" and "\<And>e. expected = Inl e \<Longrightarrow> \<not> is_funding_error e"
    and "file_blob (fa_state_path A) (dw_files w) = Some b" and "b0 = Some b \<or> capped E W A b"
  shows "sound E W A b0
    (ctry_else (submit_blob E b purpose issuer expected) (submission_failed E (fa_state_path A) uncertain)
      (\<lambda>_. cbind (record_terminal_transaction E (fa_state_path A) tx_hash) (\<lambda>_. creturn result))) w"
proof (rule soundI)
  fix r w'
  assume "ctry_else (submit_blob E b purpose issuer expected) (submission_failed E (fa_state_path A) uncertain)
      (\<lambda>_. cbind (record_terminal_transaction E (fa_state_path A) tx_hash) (\<lambda>_. creturn result)) w = (r, w')"
  note effect = submission_effect [OF assms(1,2) this]
  have "sound_entry E W A b0 (SubmitBlob b, dw_files w)"
    using assms(3,4) by (simp add: sound_entry_def)
  then show "sound_run E W A b0 w r w'"
    unfolding sound_run_def using effect assms(3) by auto
qed

lemma int_of_str_zero: "int_of_str ''0'' = Inr 0"
  by code_simp

lemma prepare_capped:
  assumes "prepare_transaction E W tx purpose (fa_max_fee_drops A) expected w = (Ok (first_ledger, tx_signed), w')"
    and "allowed_tx W A tx"
  shows "capped E W A (PStr (sd_blob tx_signed))"
proof -
  obtain prepared h where "te_autofill E h tx = Inr prepared" "checked_fee purpose (fa_max_fee_drops A) prepared = Inr ()"
    "te_sign E W prepared = Inr tx_signed"
    using assms(1) by (auto simp: prepare_transaction_def run_simps dev_autofill_def)
  moreover from this(2) obtain fee_text fee where "pt_fee prepared = Some fee_text" "int_of_str fee_text = Inr fee"
    "0 < fee" "fee \<le> fa_max_fee_drops A"
    by (auto simp: checked_fee_def rbind_eq_Inr int_of_str_zero split: option.splits list.splits)
  ultimately show ?thesis
    using assms(2) unfolding capped_def by blast
qed

lemma journal_and_submit_sound:
  assumes "plain_client E" and "capped E W A (PStr (sd_blob tx_signed))"
  shows "sound E W A b0 (journal_and_submit E (fa_state_path A) purpose issuer expected (first_ledger, tx_signed)) w"
  unfolding journal_and_submit_def prod.case
proof (intro sound_calm_cbind [OF calm_leaf(6)] sound_calm_cbind [OF calm_leaf(4)] sound_cbind [OF sound_set_pending]
    sound_cbind [OF sound_write])
  fix now w2 amount_text w3 u w4 u' w5
  assume "set_pending (Some (journal_entry purpose first_ledger (te_iso E now) amount_text tx_signed)) w3 = (Ok u, w4)"
    and written: "write_funding_state E (fa_state_path A) w4 = (Ok u', w5)"
  then have "fs_pending (fw_state w4) = Some (journal_entry purpose first_ledger (te_iso E now) amount_text tx_signed)"
    by (auto simp: set_pending_def cmodify_def)
  then have "file_blob (fa_state_path A) (dw_files w5) = Some (PStr (sd_blob tx_signed))"
    using write_effect(4) [OF written refl] by (simp add: journal_entry_def)
  then show "sound E W A b0
      (ctry_else (submit_blob E (PStr (sd_blob tx_signed)) purpose issuer (Inr expected))
         (submission_failed E (fa_state_path A) (purpose @ '' '' @ sd_hash tx_signed @ '' has an uncertain submission outcome''))
         (\<lambda>_. cbind (record_terminal_transaction E (fa_state_path A) (PStr (sd_hash tx_signed))) (\<lambda>_.
            creturn (sd_hash tx_signed)))) w5"
    using assms(2) by (intro submission_sound [OF assms(1)]) auto
qed

lemma submit_journaled_sound:
  assumes "plain_client E" and "allowed_tx W A tx"
  shows "sound E W A b0
    (submit_journaled_transaction E W tx purpose (fa_max_fee_drops A) (fa_state_path A) expected) w"
  unfolding submit_journaled_transaction_def
  using journal_and_submit_sound [OF assms(1)] prepare_capped [OF _ assms(2)]
  by (auto intro!: sound_calm_cbind calm_rules intro: sound_calm)

section \<open>A whole run\<close>

lemma trustline_text: "decimal_text (dec_of_int DEFAULT_TRUSTLINE_LIMIT) = Inr ''100000''"
  by (simp add: decimal_text_def dec_of_int_def round_coeff_def strip_zeros.simps show_nat.simps digit_char_def)
    code_simp

lemma trustline_sound:
  assumes "plain_client E"
  shows "sound E W A b0 (ensure_rlusd_trustline_journaled E W (fa_issuer A) (fa_max_fee_drops A) (fa_state_path A)) w"
  unfolding ensure_rlusd_trustline_journaled_def trustline_text
  by (rule sound_calm_cbind [OF calm_trustline(2)], rule sound_if, rule sound_leaf, rule sound_calm_cbind [OF calm_leaf(4)],
      rule sound_cbind [OF submit_journaled_sound [OF assms]]) (auto simp: allowed_tx_def clift_Ok sound_leaf)

lemma payment_allowed:
  assumes "dec_lt current (fa_target_rlusd A) = Inr True" and "dec_sub (fa_target_rlusd A) current = Inr needed"
    and "build_rlusd_self_payment (wl_address W) (fa_issuer A) needed m = Inr tx" and "m \<le> fa_max_xrp_drops A"
  shows "allowed_tx W A tx"
proof -
  obtain amount_text where "decimal_text needed = Inr amount_text" "0 < m"
    "tx = Pay (wl_address W) (wl_address W) (issued_amount RLUSD_HEX RLUSD_TESTNET_ISSUER amount_text)
            (Some (show_int m)) (Some TF_LIMIT_QUALITY)"
    using assms(3) by (auto simp: build_rlusd_self_payment_def or_exn_def rbind_eq_Inr split: if_splits)
  then show ?thesis
    using assms(1,2,4) unfolding allowed_tx_def by blast
qed

lemma convert_sound:
  assumes "plain_client E" and "dec_lt current (fa_target_rlusd A) = Inr True" and "dec_sub (fa_target_rlusd A) current = Inr needed"
  shows "sound E W A b0 (convert_missing E W A needed) w"
  unfolding convert_missing_def
proof (intro sound_calm_cbind [OF calm_quote] sound_calm_cbind [OF calm_leaf(4)])
  fix quote w1 m w2
  show "sound E W A b0 (if fa_max_xrp_drops A < m
       then craise (SpendLimitExceededError (''quoted SendMax '' @ show_int m @ '' drops exceeds --max-xrp cap '' @ show_int (fa_max_xrp_drops A)))
     else
       cbind (clift (build_rlusd_self_payment (wl_address W) (fa_issuer A) needed m)) (\<lambda>payment.
       cbind (assert_spendable_xrp E (wl_address W) m (fa_max_fee_drops A)) (\<lambda>_.
       cbind (submit_journaled_transaction E W payment ''XRP-to-RLUSD conversion'' (fa_max_fee_drops A) (fa_state_path A)
         (Some needed)) (\<lambda>_. creturn ())))) w2"
  proof (cases "fa_max_xrp_drops A < m")
    case False
    then have "allowed_tx W A payment" if "build_rlusd_self_payment (wl_address W) (fa_issuer A) needed m = Inr payment" for payment
      using payment_allowed [OF assms(2,3) that] by simp
    then show ?thesis
      using False
      by (intro sound_if sound_leaf sound_calm_cbind [OF calm_leaf(4)] sound_calm_cbind [OF calm_spendable]
          sound_cbind [OF submit_journaled_sound [OF assms(1)]]) (simp add: clift_Ok)
  qed (simp add: sound_leaf)
qed

lemma sound_noted:
  "calm k \<Longrightarrow> (\<And>w. dw_log (f w) = dw_log w) \<Longrightarrow>
     sound E W A b0 (cbind (cmodify f) (\<lambda>_. cbind (write_funding_state E path) (\<lambda>_. k))) w"
  by (intro sound_cbind sound_cmodify sound_write sound_calm)

lemma ensure_xrp_sound: "sound E W A b0 (ensure_testnet_xrp E address minimum_drops path) w"
  unfolding ensure_testnet_xrp_def
  by (intro sound_calm_cbind [OF calm_balance(2)] sound_calm_cbind [OF calm_leaf(4)] sound_calm_cbind [OF calm_leaf(5)]
      sound_calm_cbind [OF calm_leaf(6)] sound_if sound_leaf sound_noted calm_rules) simp

lemma acquire_sound:
  assumes "plain_client E"
  shows "sound E W A b0 (acquire_rlusd E W A starting_rlusd) w"
proof -
  have final: "calm (funded_result E W A starting_rlusd)"
    unfolding funded_result_def by (intro calm_rules)
  have convert: "sound E W A b0 (if short then cbind (clift (dec_sub (fa_target_rlusd A) current)) (convert_missing E W A) else creturn ()) w2"
    if "clift (dec_lt current (fa_target_rlusd A)) w1 = (Ok short, w2)" for current short w1 w2
  proof (cases short)
    case True
    then have "dec_lt current (fa_target_rlusd A) = Inr True"
      using that by (simp add: clift_Ok)
    then show ?thesis
      using True by (auto intro!: sound_calm_cbind [OF calm_leaf(4)] convert_sound [OF assms] simp: clift_Ok)
  qed (simp add: sound_leaf)
  show ?thesis
    unfolding acquire_rlusd_def
    by (intro sound_cbind [OF ensure_xrp_sound] sound_cbind [OF trustline_sound [OF assms]] sound_calm_cbind [OF calm_trustline(1)]
        sound_calm_cbind [OF calm_leaf(4)] sound_cbind [OF convert] sound_calm [OF final])
qed

section \<open>Reconciling\<close>

lemma expected_amount_plain: "expected_amount v = Inl e \<Longrightarrow> \<not> is_funding_error e"
  by (auto simp: expected_amount_def decimal_of_str_def is_funding_error_def rbind_eq_Inl split: pyval.splits option.splits)

lemma reconcile_sound:
  assumes "plain_client E" and "\<And>p. fs_pending (fw_state w) = Some p \<Longrightarrow> file_blob (fa_state_path A) (dw_files w) = Some (pd_signed_tx_blob p)
    \<and> b0 = Some (pd_signed_tx_blob p)"
  shows "sound E W A b0 (reconcile_pending_transaction E (fa_state_path A)) w"
  unfolding reconcile_pending_transaction_def
proof (rule sound_calm_cbind [OF calm_leaf(5)])
  fix s w0
  assume "cget fw_state w = (Ok s, w0)"
  then have s: "s = fw_state w" "w0 = w"
    by (auto simp: cget_def)
  show "sound E W A b0 (case fs_pending s of
         None \<Rightarrow> creturn True
       | Some p \<Rightarrow>
           cbind (dev_request E (TxLookup (pd_tx_hash p) (pd_first_ledger_sequence p) (pd_last_ledger_sequence p))) (\<lambda>response.
             let result = snd response in
             if dget result ''validated'' = PBool True then reconcile_validated E (fa_state_path A) p result
             else
               cbind (current_validated_ledger_index E) (\<lambda>current_ledger.
               cbind (clift (ledger_passed current_ledger (pd_last_ledger_sequence p))) (\<lambda>passed.
                 if passed then reconcile_missing E (fa_state_path A) p result else rebroadcast E (fa_state_path A) p)))) w0"
  proof (cases "fs_pending s")
    case (Some p)
    have on_file: "file_blob (fa_state_path A) (dw_files v) = Some (pd_signed_tx_blob p)" "b0 = Some (pd_signed_tx_blob p)"
      if "quiet w v" for v
      using assms(2) [of p] Some s that by (simp_all add: quiet_def)
    have validated: "sound E W A b0 (reconcile_validated E (fa_state_path A) p result) v" for result v
    proof -
      have "sound E W A b0 (ctry_else (clift z) (\<lambda>e. if is_funding_error e then drop_pending E (fa_state_path A) e else craise e)
         (\<lambda>_. cbind (record_terminal_transaction E (fa_state_path A) (pd_tx_hash p)) (\<lambda>_. creturn True))) v" for z :: "exn + unit" and v
      proof (cases z)
        case (Inl e)
        have "sound E W A b0 (drop_pending E (fa_state_path A) e :: bool fund_cmd) v" "sound E W A b0 (craise e :: bool fund_cmd) v"
          by (rule sound_drop, rule sound_leaf)
        then show ?thesis
          using Inl by (simp add: clift_def ctry_else_def sound_def craise_def)
      next
        case (Inr u)
        then show ?thesis
          using sound_cbind [OF sound_record_terminal sound_leaf(1)] by (simp add: clift_def ctry_else_def sound_def creturn_def)
      qed
      then show ?thesis
        unfolding reconcile_validated_def by (intro sound_calm_cbind [OF calm_leaf(5)])
    qed
    have missing: "sound E W A b0 (reconcile_missing E (fa_state_path A) p result) v" for result v
      unfolding reconcile_missing_def
      by (intro sound_if sound_leaf sound_cbind [OF sound_set_pending] sound_cbind [OF sound_write])
    have again: "sound E W A b0 (rebroadcast E (fa_state_path A) p) v" if "quiet w v" for v
      unfolding rebroadcast_def
      by (rule sound_calm_cbind [OF calm_leaf(5)], rule submission_sound [OF assms(1) expected_amount_plain], assumption,
          rule on_file(1), rule quiet_trans [OF that], assumption, rule disjI1, rule on_file(2) [OF that])
    show ?thesis
      using Some s
      by (simp add: Let_def)
        (rule sound_calm_cbind [OF calm_dev_request], simp, rule sound_if, rule validated,
          rule sound_calm_cbind [OF calm_current_ledger], rule sound_calm_cbind [OF calm_leaf(4)], rule sound_if, rule missing,
          rule again, metis quiet_trans)
  qed (simp add: sound_leaf)
qed

text \<open>A reconciliation that ends with an answer knows the outcome; one that stops leaves the file alone.\<close>

lemma quiet_files: "quiet w w' \<Longrightarrow> dw_files w' = dw_files w" "quiet w w' \<Longrightarrow> \<exists>l. dw_log w' = dw_log w @ l"
  by (auto simp: quiet_def)

lemma clift_files: "clift v w = (r, w') \<Longrightarrow> w' = w"
  by (auto simp: clift_def craise_def creturn_def split: sum.splits)

lemma keeps_log_reconcile:
  "keeps dw_log (reconcile_validated E path p result)" "keeps dw_log (reconcile_missing E path p result)"
  unfolding reconcile_validated_def reconcile_missing_def by (intro keeps_rules)+

definition matches_file :: "pending_transaction \<Rightarrow> pydict \<Rightarrow> bool" where
  "matches_file p q \<longleftrightarrow> pd_signed_tx_blob p = dget q ''signed_tx_blob'' \<and> pd_tx_hash p = dget q ''tx_hash''
     \<and> pd_first_ledger_sequence p = dget q ''first_ledger_sequence'' \<and> pd_last_ledger_sequence p = dget q ''last_ledger_sequence''"

lemma reconcile_known:
  assumes "plain_client E" and "reconcile_pending_transaction E path w = (r, w')"
    and "fs_pending (fw_state w) = Some p" and "matches_file p q"
  shows "outcome_known E q (dw_log w') \<or> (\<forall>x. r \<noteq> Ok x) \<and> dw_files w' = dw_files w"
proof -
  let ?lookup = "TxLookup (pd_tx_hash p) (pd_first_ledger_sequence p) (pd_last_ledger_sequence p)"
  let ?decide = "\<lambda>result. if dget result ''validated'' = PBool True then reconcile_validated E path p result
     else cbind (current_validated_ledger_index E) (\<lambda>current_ledger.
       cbind (clift (ledger_passed current_ledger (pd_last_ledger_sequence p))) (\<lambda>passed.
         if passed then reconcile_missing E path p result else rebroadcast E path p))"
  have p: "pd_signed_tx_blob p = dget q ''signed_tx_blob''" "pd_tx_hash p = dget q ''tx_hash''"
    "pd_first_ledger_sequence p = dget q ''first_ledger_sequence''" "pd_last_ledger_sequence p = dget q ''last_ledger_sequence''"
    using assms(4) by (simp_all add: matches_file_def)
  have "cbind (dev_request E ?lookup) (\<lambda>response. ?decide (snd response)) w = (r, w')"
    using assms(2,3) by (simp add: reconcile_pending_transaction_def cbind_cget Let_def)
  then show ?thesis
  proof (cases rule: cbind_cases)
    case (returned response w1)
    let ?result = "snd response"
    note files1 = quiet_files [OF calmD [OF calm_dev_request returned(1)], simplified]
    note lookup = request_answered [OF returned(1)]
    show ?thesis
    proof (cases "dget ?result ''validated'' = PBool True")
      case True
      then have "outcome_known E q (dw_log w1)"
        using lookup unfolding outcome_known_def p [symmetric] by blast
      moreover have "dw_log w' = dw_log w1"
        using returned(2) True keepsD [OF keeps_log_reconcile(1)] by simp
      ultimately show ?thesis by simp
    next
      case False
      then have "cbind (current_validated_ledger_index E) (\<lambda>current_ledger.
        cbind (clift (ledger_passed current_ledger (pd_last_ledger_sequence p))) (\<lambda>passed.
          if passed then reconcile_missing E path p ?result else rebroadcast E path p)) w1 = (r, w')"
        using returned(2) by simp
      then show ?thesis
      proof (cases rule: cbind_cases)
        case inner: (returned current w2)
        note files2 = quiet_files [OF calmD [OF calm_current_ledger inner(1)]]
        obtain info where info: "answered E (dw_log w2) ServerInfo info" "ledger_index_of info = Inr current"
          using inner(1) by (auto simp: current_validated_ledger_index_def run_simps dest: request_answered)
        from inner(2) show ?thesis
        proof (cases rule: clift_cases)
          case passed: (returned passed)
          show ?thesis
          proof (cases "passed \<and> dget ?result ''error'' = PStr ''txnNotFound'' \<and> dget ?result ''searched_all'' = PBool True")
            case True
            have "answered E (dw_log w2) ?lookup ?result"
              using lookup files2(2) answered_append by metis
            then have "outcome_known E q (dw_log w2)"
              using info passed(1) True by (simp flip: p add: outcome_known_def) blast
            moreover have "dw_log w' = dw_log w2"
              using passed(2) True keepsD [OF keeps_log_reconcile(2)] by simp
            ultimately show ?thesis by simp
          next
            case no: False
            then consider "passed" "r = Raise (SettlementPendingError (py_str (pd_purpose p) @ '' '' @ py_str (pd_tx_hash p) @
                '' is past LastLedgerSequence, but its ledger outcome is not authoritative''))" "w' = w2"
              | "rebroadcast E path p w2 = (r, w')"
              using passed(2) by (cases passed) (auto simp: reconcile_missing_def craise_def split: if_splits)
            then show ?thesis
            proof cases
              case 1
              then show ?thesis using files1(1) files2(1) by simp
            next
              case 2
              have "validated_submission E (pd_signed_tx_blob p) (dw_log w') \<or> (\<forall>x. r \<noteq> Ok x) \<and> dw_files w' = dw_files w2"
                by (rule submission_effect(2) [OF assms(1) expected_amount_plain 2 [unfolded rebroadcast_def cbind_cget]])
              then show ?thesis
                using files1(1) files2(1) unfolding outcome_known_def p [symmetric] by auto
            qed
          qed
        next
          case fails
          then show ?thesis using files1(1) files2(1) by simp
        qed
      next
        case fails
        then have "dw_files w' = dw_files w1"
          using quiet_files(1) [OF calmD [OF calm_current_ledger]] by blast
        then show ?thesis using fails(2) files1(1) by simp
      qed
    qed
  next
    case fails
    then have "dw_files w' = dw_files w"
      using quiet_files(1) [OF calmD [OF calm_dev_request]] by (metis is_submission_simps(9))
    then show ?thesis using fails(2) by simp
  qed
qed

section \<open>What a run guarantees\<close>

lemma load_effect: "load_funding_state path address issuer w = (r, w') \<Longrightarrow> w' = w"
  by (auto simp: load_funding_state_def reject_symlink_def read_file_def cbind_def cget_def clift_def craise_def creturn_def
      split: option.splits stored_file.splits if_splits sum.splits)

lemma load_state:
  assumes "load_funding_state path address issuer w = (Ok s, w')"
  shows "w' = w" and "file_pending path (dw_files w) = Some q \<Longrightarrow> \<exists>p. fs_pending s = Some p \<and> pending_of_dict q = Inr p"
    and "fs_pending s = Some p \<Longrightarrow> \<exists>q. file_pending path (dw_files w) = Some q \<and> pending_of_dict q = Inr p"
proof -
  have files: "w' = w \<and> (case dw_files w path of
      None \<Rightarrow> s = fresh_state address issuer
    | Some (JsonFile payload) \<Rightarrow> state_of_payload path address issuer payload = Inr s
    | Some _ \<Rightarrow> False)"
    using assms by (auto simp: load_funding_state_def reject_symlink_def read_file_def run_simps split: option.splits stored_file.splits if_splits)
  then show "w' = w" by simp
  have loaded: "(case file_pending path (dw_files w) of None \<Rightarrow> fs_pending s = None | Some q \<Rightarrow>
      \<exists>p. fs_pending s = Some p \<and> pending_of_dict q = Inr p)"
    using files
    by (auto simp: file_pending_def state_of_payload_def fresh_state_def load_pending_def rbind_eq_Inr
        split: option.splits stored_file.splits pyval.splits if_splits)
  show "\<exists>p. fs_pending s = Some p \<and> pending_of_dict q = Inr p" if "file_pending path (dw_files w) = Some q"
    using loaded that by simp
  show "\<exists>q. file_pending path (dw_files w) = Some q \<and> pending_of_dict q = Inr p" if "fs_pending s = Some p"
    using loaded that by (auto split: option.splits)
qed

lemma pending_matches: "pending_of_dict q = Inr p \<Longrightarrow> matches_file p q"
  by (auto simp: pending_of_dict_def matches_file_def split: if_splits)

text \<open>The part of a run that follows the reconciliation.\<close>

definition after_reconciling :: "dev_env \<Rightarrow> wallet \<Rightarrow> fund_args \<Rightarrow> funding_result fund_cmd" where
  "after_reconciling E W A =
     cbind (ctry (get_validated_trustline_balance E (wl_address W) (fa_issuer A) RLUSD_CODE) (\<lambda>_. creturn (dec_of_int 0))) (\<lambda>starting_rlusd.
     cbind (clift (dec_le (fa_target_rlusd A) starting_rlusd)) (\<lambda>enough.
     if enough then
       cbind (safe_xrp_balance E (wl_address W)) (\<lambda>xrp.
       cbind (cget fw_state) (\<lambda>s'.
         creturn \<lparr>fr_status = ''ready'', fr_classic_address = wl_address W, fr_xrp_balance_drops = xrp,
                  fr_rlusd_balance = starting_rlusd, fr_transaction_hashes = fs_completed s'\<rparr>))
     else acquire_rlusd E W A starting_rlusd))"

lemma after_reconciling_sound: "plain_client E \<Longrightarrow> sound E W A b0 (after_reconciling E W A) w"
  unfolding after_reconciling_def
  by (intro sound_calm_cbind [OF calm_ctry [OF calm_trustline(1) calm_leaf(1)]] sound_calm_cbind [OF calm_leaf(4)] sound_if
      sound_calm_cbind [OF calm_balance(2)] sound_calm_cbind [OF calm_leaf(5)] sound_leaf acquire_sound)

text \<open>A run either stops before it reads the journal, or reconciles what it read and goes on.\<close>

lemma fund_runs:
  assumes "fund_rlusd_wallet E W A w = (r, w')"
  obtains (stops) "w' = w" "\<forall>x. r \<noteq> Ok x"
  | (runs) s where "load_funding_state (fa_state_path A) (wl_address W) (fa_issuer A) w = (Ok s, w)"
      and "cbind (reconcile_pending_transaction E (fa_state_path A)) (\<lambda>_. after_reconciling E W A) (w\<lparr>fw_state := s\<rparr>) = (r, w')"
proof -
  have "cbind (clift (check_fund_args A)) (\<lambda>_. cbind (load_funding_state (fa_state_path A) (wl_address W) (fa_issuer A)) (\<lambda>s.
     cbind (cmodify (\<lambda>w. w\<lparr>fw_state := s\<rparr>)) (\<lambda>_.
     cbind (if fs_pending s \<noteq> None then reconcile_pending_transaction E (fa_state_path A) else creturn True) (\<lambda>_.
       after_reconciling E W A)))) w = (r, w')"
    using assms by (simp add: fund_rlusd_wallet_def after_reconciling_def)
  then show thesis
  proof (cases rule: clift_cases)
    case (returned u)
    from returned(2) show thesis
    proof (cases rule: cbind_cases)
      case inner: (returned s w1)
      note load = load_state(1) [OF inner(1)]
      have "(if fs_pending s \<noteq> None then reconcile_pending_transaction E (fa_state_path A) else creturn True) (w\<lparr>fw_state := s\<rparr>)
          = reconcile_pending_transaction E (fa_state_path A) (w\<lparr>fw_state := s\<rparr>)"
        by (simp add: reconcile_pending_transaction_def cbind_cget)
      then have "cbind (reconcile_pending_transaction E (fa_state_path A)) (\<lambda>_. after_reconciling E W A) (w\<lparr>fw_state := s\<rparr>) = (r, w')"
        using inner(2) load by (simp add: cbind_def cmodify_def)
      then show thesis
        using runs inner(1) load by blast
    next
      case fails
      then have "w' = w"
        using load_effect by blast
      then show thesis
        using fails(2) by (intro stops) auto
    qed
  next
    case fails
    then show thesis by (intro stops) auto
  qed
qed

lemma fund_sound:
  assumes "plain_client E"
  shows "sound E W A (file_blob (fa_state_path A) (dw_files w)) (fund_rlusd_wallet E W A) w"
proof (rule soundI)
  fix r w'
  assume "fund_rlusd_wallet E W A w = (r, w')"
  then show "sound_run E W A (file_blob (fa_state_path A) (dw_files w)) w r w'"
  proof (cases rule: fund_runs)
    case stops
    then show ?thesis by (intro sound_quiet) simp
  next
    case (runs s)
    let ?v = "w\<lparr>fw_state := s\<rparr>"
    have "file_blob (fa_state_path A) (dw_files w) = Some (pd_signed_tx_blob p)" if "fs_pending s = Some p" for p
      using load_state(3) [OF runs(1) that] pending_matches by (fastforce simp: file_blob_def matches_file_def)
    then have "sound E W A (file_blob (fa_state_path A) (dw_files w))
        (cbind (reconcile_pending_transaction E (fa_state_path A)) (\<lambda>_. after_reconciling E W A)) ?v"
      by (intro sound_cbind reconcile_sound after_reconciling_sound assms) simp_all
    then show ?thesis
      using runs(2) by (simp add: sound_def sound_run_def)
  qed
qed

text \<open>C9. Every transaction of the funding tool is in the journal before it is sent, and within the caps:
  in a run, each signed transaction that goes to the ledger is at that moment the pending one of the
  journal file, whose content the disk has; it is the one that an earlier run left there, or a new one
  with a fee of at most the fee cap that is either the trust line to the RLUSD issuer or a payment from
  the wallet to itself of exactly the missing amount of RLUSD whose \<open>SendMax\<close> is at most the XRP cap.
\<close>

theorem funding_journals_first:
  assumes "plain_client E" and "dw_log w = []" and "fund_rlusd_wallet E W A w = (r, w')"
  shows "\<forall>(call, files) \<in> set (dw_log w'). is_submission call \<longrightarrow>
    (\<exists>blob. call = SubmitBlob blob \<and> file_blob (fa_state_path A) files = Some blob
       \<and> (file_blob (fa_state_path A) (dw_files w) = Some blob \<or> capped E W A blob))"
proof -
  have "list_all (sound_entry E W A (file_blob (fa_state_path A) (dw_files w))) (dw_log w')"
    using fund_sound [OF assms(1), of W A w] assms(2,3) by (auto simp: sound_def sound_run_def)
  then show ?thesis
    by (fastforce simp: list_all_iff sound_entry_def is_submission_def split: dev_call.splits)
qed

text \<open>A reconciliation sends nothing but the pending transaction: with a fee cap of zero there is no other.\<close>

lemma reconcile_only:
  assumes "plain_client E" and "reconcile_pending_transaction E path w = (r, w')"
    and "\<And>p. fs_pending (fw_state w) = Some p \<Longrightarrow> matches_file p q \<and> file_blob path (dw_files w) = Some (dget q ''signed_tx_blob'')"
    and "dw_log w = []" and "SubmitBlob blob \<in> fst ` set (dw_log w')"
  shows "blob = dget q ''signed_tx_blob''"
proof -
  let ?A = "\<lparr>fa_state_path = path, fa_wallet_path = [], fa_issuer = [], fa_target_rlusd = DNaN, fa_max_xrp_drops = 0,
     fa_slippage_bps = 0, fa_max_fee_drops = 0\<rparr>"
  have "sound E W ?A (Some (dget q ''signed_tx_blob'')) (reconcile_pending_transaction E (fa_state_path ?A)) w" for W
    using assms(3) by (intro reconcile_sound [OF assms(1)]) (auto simp: matches_file_def)
  then have "list_all (sound_entry E W ?A (Some (dget q ''signed_tx_blob''))) (dw_log w')" for W
    using assms(2,4) by (auto simp: sound_def sound_run_def)
  then show ?thesis
    using assms(5) by (fastforce simp: list_all_iff sound_entry_def capped_def)
qed

text \<open>C10. The funding tool forgets no transaction: at the end of a run, however it ends, each transaction
  that it sent is validated by an answer of the ledger or still pending in the journal file; and the
  one that was pending before is decided by the ledger, or it is still pending and nothing else was
  sent, so that no second transaction is sent while the fate of the first is open.
\<close>

theorem funding_forgets_nothing:
  assumes "plain_client E" and "dw_log w = []" and "fund_rlusd_wallet E W A w = (r, w')"
  shows "(\<forall>blob. SubmitBlob blob \<in> fst ` set (dw_log w') \<longrightarrow>
      validated_submission E blob (dw_log w') \<or> file_blob (fa_state_path A) (dw_files w') = Some blob)
    \<and> (\<forall>q. file_pending (fa_state_path A) (dw_files w) = Some q \<longrightarrow> outcome_known E q (dw_log w')
      \<or> file_pending (fa_state_path A) (dw_files w') = Some q
        \<and> (\<forall>blob. SubmitBlob blob \<in> fst ` set (dw_log w') \<longrightarrow> blob = dget q ''signed_tx_blob''))"
proof (intro conjI allI impI)
  fix blob assume "SubmitBlob blob \<in> fst ` set (dw_log w')"
  then show "validated_submission E blob (dw_log w') \<or> file_blob (fa_state_path A) (dw_files w') = Some blob"
    using fund_sound [OF assms(1), of W A w] assms(2,3) by (auto simp: sound_def sound_run_def)
next
  fix q assume q: "file_pending (fa_state_path A) (dw_files w) = Some q"
  from assms(3) show "outcome_known E q (dw_log w') \<or> file_pending (fa_state_path A) (dw_files w') = Some q
        \<and> (\<forall>blob. SubmitBlob blob \<in> fst ` set (dw_log w') \<longrightarrow> blob = dget q ''signed_tx_blob'')"
  proof (cases rule: fund_runs)
    case stops
    then show ?thesis using q assms(2) by simp
  next
    case (runs s)
    let ?v = "w\<lparr>fw_state := s\<rparr>"
    obtain p where p: "fs_pending s = Some p" "matches_file p q"
      using load_state(2) [OF runs(1) q] pending_matches by blast
    obtain r1 w1 where reconcile: "reconcile_pending_transaction E (fa_state_path A) ?v = (r1, w1)"
      by fastforce
    have known: "outcome_known E q (dw_log w1) \<or> (\<forall>x. r1 \<noteq> Ok x) \<and> dw_files w1 = dw_files w"
      using reconcile_known [OF assms(1) reconcile _ p(2)] p(1) by simp
    show ?thesis
    proof (cases "outcome_known E q (dw_log w1)")
      case True
      have "\<exists>l. dw_log w' = dw_log w1 @ l"
      proof (cases r1)
        case (Ok x)
        then have "after_reconciling E W A w1 = (r, w')"
          using runs(2) reconcile by (simp add: cbind_step)
        then show ?thesis
          using after_reconciling_sound [OF assms(1), of W A "Some (dget q ''signed_tx_blob'')" w1] by (auto simp: sound_def sound_run_def)
      qed (use runs(2) reconcile in \<open>auto simp: cbind_def\<close>)
      then show ?thesis
        using known_append(2) [OF True] by auto
    next
      case False
      then have "w' = w1" "dw_files w1 = dw_files w"
        using known runs(2) reconcile by (cases r1; auto simp: cbind_def)+
      moreover have "blob = dget q ''signed_tx_blob''" if "SubmitBlob blob \<in> fst ` set (dw_log w1)" for blob
        using reconcile_only [OF assms(1) reconcile _ _ that] p q assms(2) by (simp add: file_blob_def)
      ultimately show ?thesis
        using q by (simp add: file_pending_def)
    qed
  qed
qed

section \<open>Witnesses\<close>

text \<open>A ledger that knows the wallet, has no trust line and validates what it is sent; pathfinding and the
  AMM do not answer, so the run ends after the trust line.\<close>

definition sample_ledger :: "dev_call \<Rightarrow> exn + bool \<times> pydict" where
  "sample_ledger call = (case call of
       AccountInfo _ \<Rightarrow> Inr (True, [(''account_data'', PDict [(''Balance'', PStr ''9000000'')]), (''ledger_index'', PStr ''7'')])
     | AccountLines _ \<Rightarrow> Inr (True, [(''lines'', PList [])])
     | ServerInfo \<Rightarrow> Inr (True, [(''info'', PDict [(''validated_ledger'', PDict [(''seq'', PStr ''7'')])])])
     | TxLookup _ _ _ \<Rightarrow> Inr (True, [])
     | SubmitBlob _ \<Rightarrow> Inr (True, [(''validated'', PBool True), (''meta'', PDict [(''TransactionResult'', PStr ''tesSUCCESS'')])])
     | _ \<Rightarrow> Inl (ClientError []))"

definition sample_dev :: dev_env where
  "sample_dev = \<lparr>te_rpc = (\<lambda>_. sample_ledger),
     te_autofill = (\<lambda>_ tx. Inr \<lparr>pt_tx = tx, pt_fee = Some ''12'', pt_last_ledger = Some 20\<rparr>),
     te_sign = (\<lambda>_ _. Inr \<lparr>sd_hash = ''H'', sd_blob = ''B'', sd_last_ledger = 20\<rparr>),
     te_faucet_wallet = (\<lambda>_ _. Inl (ClientError [])), te_new_wallet = (\<lambda>_. \<lparr>wl_address = ''r'', wl_seed = None\<rparr>),
     te_from_seed = (\<lambda>_. Inl (ClientError [])), te_iso = (\<lambda>_. ''t''), te_parse_iso = (\<lambda>_. Inr 0), te_parent = (\<lambda>_. Directory),
     te_write = (\<lambda>_. NoFault), te_took = (\<lambda>_. 0), te_getenv = (\<lambda>_. None), te_json = (\<lambda>_. None)\<rparr>"

definition sample_wallet :: wallet where
  "sample_wallet = \<lparr>wl_address = ''rW'', wl_seed = None\<rparr>"

definition sample_fund_args :: fund_args where
  "sample_fund_args = \<lparr>fa_state_path = ''s'', fa_wallet_path = ''w'', fa_issuer = RLUSD_TESTNET_ISSUER,
     fa_target_rlusd = DFin False 10 0, fa_max_xrp_drops = 3000000, fa_slippage_bps = 500, fa_max_fee_drops = 100\<rparr>"

definition sample_fund_world :: "(string \<Rightarrow> stored_file option) \<Rightarrow> fund_world" where
  "sample_fund_world files = \<lparr>dw_log = [], dw_files = files, dw_writes = 0, dw_clock = 0, fw_state = fresh_state [] []\<rparr>"

lemma sample_dev_answers [simp]:
  "te_autofill sample_dev h tx = Inr \<lparr>pt_tx = tx, pt_fee = Some ''12'', pt_last_ledger = Some 20\<rparr>"
  "te_sign sample_dev W p = Inr \<lparr>sd_hash = ''H'', sd_blob = ''B'', sd_last_ledger = 20\<rparr>"
  "te_iso sample_dev t = ''t''" "te_took sample_dev n = 0" "te_rpc sample_dev h call = sample_ledger call"
  "te_parent sample_dev path = Directory" "te_write sample_dev n = NoFault"
  by (simp_all add: sample_dev_def)

lemma sample_plain: "plain_client sample_dev"
  by (auto simp: plain_client_def sample_ledger_def is_funding_error_def split: dev_call.splits)

lemma sample_numerals: "int_of_str ''12'' = Inr 12" "int_of_str ''7'' = Inr 7" "int_of_str ''9000000'' = Inr 9000000"
  by (simp_all add: int_of_str_def parse_int_def strip_def rstrip_by_def split_sign_def is_space_def is_digit_def ord_c_def
      digits_val_def digit_val_def)

lemmas sample_runs = cbind_def ctry_def ctry_else_def clift_def creturn_def craise_def cget_def cmodify_def dev_now_def

text \<open>The world with one more call in its log.\<close>

definition called :: "dev_call \<Rightarrow> fund_world \<Rightarrow> fund_world" where
  "called call w = w\<lparr>dw_log := dw_log w @ [(call, dw_files w)]\<rparr>"

lemma called_simps [simp]:
  "dw_files (called call w) = dw_files w" "fw_state (called call w) = fw_state w"
  "dw_log (called call w) = dw_log w @ [(call, dw_files w)]"
  by (simp_all add: called_def)

lemma sample_request: "dev_request sample_dev call w =
    (case sample_ledger call of Inl e \<Rightarrow> Raise e | Inr x \<Rightarrow> Ok x, called call w)"
  by (simp add: dev_request_def dev_log_def sample_runs called_def split: sum.split)

lemma sample_queries:
  "current_validated_ledger_index sample_dev w = (Ok 7, called ServerInfo w)"
  "get_validated_trustline sample_dev a issuer code w = (Ok None, called (AccountLines a) w)"
  "get_validated_balance sample_dev a w = (Ok 9000000, called (AccountInfo a) w)"
  by (simp_all add: current_validated_ledger_index_def get_validated_trustline_def get_validated_balance_def get_validated_account_root_def
      sample_request sample_ledger_def sample_runs ledger_index_of_def vget_default_def dget_default_def vget_def int_of_val_def
      py_str_def sample_numerals trustline_in_def iter_nodes_def vindex_def dindex_def py_or_def Let_def)

lemma sample_trustline:
  "get_validated_trustline_balance sample_dev a issuer code w = (Ok (dec_of_int 0), called (AccountLines a) w)"
  "trustline_limit_is_sufficient sample_dev a issuer limit code w = (Ok False, called (AccountLines a) w)"
  by (simp_all add: get_validated_trustline_balance_def trustline_limit_is_sufficient_def sample_queries sample_runs line_balance_def
      limit_sufficient_def)

definition written :: "string \<Rightarrow> fund_world \<Rightarrow> fund_world" where
  "written path w = w\<lparr>dw_writes := Suc (dw_writes w), dw_files := (dw_files w)(path \<mapsto> JsonFile (PDict (state_dict (fw_state w))))\<rparr>"

lemma written_simps [simp]:
  "dw_files (written path w) = (dw_files w)(path \<mapsto> JsonFile (PDict (state_dict (fw_state w))))"
  "fw_state (written path w) = fw_state w" "dw_log (written path w) = dw_log w"
  by (simp_all add: written_def)

lemma sample_write: "dw_files w path \<noteq> Some LinkFile \<Longrightarrow> write_funding_state sample_dev path w = (Ok (), written path w)"
  by (simp add: write_funding_state_def atomic_write_private_json_def private_directory_def reject_symlink_def read_file_def
      replace_file_def written_def sample_runs)

lemma sample_prepare:
  "prepare_transaction sample_dev W (TrustLine x y z) purpose 100 expected w =
     (Ok (7, \<lparr>sd_hash = ''H'', sd_blob = ''B'', sd_last_ledger = 20\<rparr>), called (Autofill (TrustLine x y z)) (called ServerInfo w))"
  by (simp add: prepare_transaction_def sample_queries dev_autofill_def dev_log_def sample_runs checked_fee_def sample_numerals is_payment_def
      called_def)

lemma sample_validated: "validated_success (snd (True, [(''validated'', PBool True), (''meta'', PDict [(''TransactionResult'', PStr ''tesSUCCESS'')])]))
    purpose issuer None = Inr ()"
  by (simp add: validated_success_def fund_transaction_result_def metadata_of_def py_or_def py_str_def)

abbreviation sample_entry :: pending_transaction where
  "sample_entry \<equiv> journal_entry ''RLUSD trustline'' 7 ''t'' PNone \<lparr>sd_hash = ''H'', sd_blob = ''B'', sd_last_ledger = 20\<rparr>"

lemma sample_terminal:
  assumes "dw_files w path \<noteq> Some LinkFile"
  shows "\<exists>v. record_terminal_transaction sample_dev path tx_hash w = (Ok (), v) \<and> dw_log v = dw_log w
    \<and> fs_pending (fw_state v) = None \<and> dw_files v path \<noteq> Some LinkFile"
  using assms by (simp add: record_terminal_transaction_def sample_runs sample_write Let_def)

lemma sample_submits:
  assumes "dw_files w path \<noteq> Some LinkFile" and "fs_pending (fw_state w) = None"
  shows "\<exists>v files. submit_journaled_transaction sample_dev W (TrustLine x y z) ''RLUSD trustline'' 100 path None w = (Ok ''H'', v)
    \<and> dw_log v = dw_log (called (Autofill (TrustLine x y z)) (called ServerInfo w)) @ [(SubmitBlob (PStr ''B''), files)]"
proof -
  let ?u = "(called (Autofill (TrustLine x y z)) (called ServerInfo w))\<lparr>fw_state := (fw_state w)\<lparr>fs_pending := Some sample_entry\<rparr>\<rparr>"
  let ?v = "called (SubmitBlob (PStr ''B'')) (written path ?u)"
  obtain v where v: "record_terminal_transaction sample_dev path (PStr ''H'') ?v = (Ok (), v)" "dw_log v = dw_log ?v"
    using sample_terminal [of ?v path "PStr ''H''"] by auto
  have "submit_blob sample_dev (PStr ''B'') ''RLUSD trustline'' (fs_issuer (fw_state w)) (Inr None) (written path ?u) = (Ok (), ?v)"
    using sample_validated by (simp add: submit_blob_def sample_request sample_ledger_def sample_runs)
  moreover have "write_funding_state sample_dev path ?u = (Ok (), written path ?u)"
    using assms(1) by (intro sample_write) simp
  ultimately have "submit_journaled_transaction sample_dev W (TrustLine x y z) ''RLUSD trustline'' 100 path None w = (Ok ''H'', v)"
    using assms(2) v(1) by (simp add: submit_journaled_transaction_def journal_and_submit_def sample_prepare sample_runs set_pending_def
        expected_text_def)
  then show ?thesis
    using v(2) by (intro exI conjI) (assumption, simp)
qed

lemma sample_decimals:
  "dec_le (DFin False 10 0) (dec_of_int 0) = Inr False" "dec_lt (dec_of_int 0) (DFin False 10 0) = Inr True"
  "dec_sub (DFin False 10 0) (dec_of_int 0) = Inr (DFin False 10 0)" "decimal_text (DFin False 10 0) = Inr ''10''"
  by (simp_all add: dec_le_finite dec_lt_finite signed_def) code_simp+

lemma sample_no_quote:
  "\<exists>v. convert_missing sample_dev sample_wallet sample_fund_args (DFin False 10 0) w =
     (Raise (LiquidityUnavailableError ''no usable XRP-to-RLUSD Testnet route: pathfinding=; AMM=''), v) \<and> (\<exists>l. dw_log v = dw_log w @ l)"
  by (simp add: convert_missing_def quote_rlusd_path_def amm_quote_def sample_decimals sample_request sample_ledger_def sample_runs
      is_funding_error_def)

lemma sample_run:
  "\<exists>v files. fund_rlusd_wallet sample_dev sample_wallet sample_fund_args (sample_fund_world (\<lambda>_. None)) =
     (Raise (LiquidityUnavailableError ''no usable XRP-to-RLUSD Testnet route: pathfinding=; AMM=''), v)
     \<and> (SubmitBlob (PStr ''B''), files) \<in> set (dw_log v)"
proof -
  let ?s = "fresh_state ''rW'' RLUSD_TESTNET_ISSUER"
  let ?w = "called (AccountLines ''rW'') (called (AccountInfo ''rW'') (called (AccountLines ''rW'')
      ((sample_fund_world (\<lambda>_. None))\<lparr>fw_state := ?s\<rparr>)))"
  have fields: "wl_address sample_wallet = ''rW''" "fa_issuer sample_fund_args = RLUSD_TESTNET_ISSUER"
    "fa_state_path sample_fund_args = ''s''" "fa_target_rlusd sample_fund_args = DFin False 10 0"
    "fa_max_xrp_drops sample_fund_args = 3000000" "fa_max_fee_drops sample_fund_args = 100"
    by (simp_all add: sample_wallet_def sample_fund_args_def)
  have check: "check_fund_args sample_fund_args = Inr ()"
    by code_simp
  obtain v files where submitted: "submit_journaled_transaction sample_dev sample_wallet
        (TrustLine ''rW'' (issued_amount RLUSD_HEX RLUSD_TESTNET_ISSUER ''100000'') (Some 262144)) ''RLUSD trustline'' 100 ''s'' None ?w = (Ok ''H'', v)"
    "(SubmitBlob (PStr ''B''), files) \<in> set (dw_log v)"
    using sample_submits [of ?w "''s''" sample_wallet "''rW''" "issued_amount RLUSD_HEX RLUSD_TESTNET_ISSUER ''100000''" "Some 262144"]
    by (auto simp: sample_fund_world_def fresh_state_def)
  obtain u where quote: "convert_missing sample_dev sample_wallet sample_fund_args (DFin False 10 0) (called (AccountLines ''rW'') v) =
     (Raise (LiquidityUnavailableError ''no usable XRP-to-RLUSD Testnet route: pathfinding=; AMM=''), u)"
    "\<exists>l. dw_log u = dw_log (called (AccountLines ''rW'') v) @ l"
    using sample_no_quote by blast
  have "acquire_rlusd sample_dev sample_wallet sample_fund_args (dec_of_int 0)
      (called (AccountLines ''rW'') ((sample_fund_world (\<lambda>_. None))\<lparr>fw_state := ?s\<rparr>)) =
     (Raise (LiquidityUnavailableError ''no usable XRP-to-RLUSD Testnet route: pathfinding=; AMM=''), u)"
    using submitted(1) quote(1)
    by (simp add: acquire_rlusd_def ensure_testnet_xrp_def safe_xrp_balance_def ensure_rlusd_trustline_journaled_def sample_queries
        sample_trustline trustline_text sample_decimals sample_runs fields)
  then have "fund_rlusd_wallet sample_dev sample_wallet sample_fund_args (sample_fund_world (\<lambda>_. None)) =
     (Raise (LiquidityUnavailableError ''no usable XRP-to-RLUSD Testnet route: pathfinding=; AMM=''), u)"
    by (simp add: fund_rlusd_wallet_def check load_funding_state_def reject_symlink_def read_file_def sample_trustline sample_decimals
        sample_runs fields sample_fund_world_def fresh_state_def)
  then show ?thesis
    using submitted(2) quote(2) by auto
qed

theorem funding_journals_first_witness:
  "\<exists>v files. fund_rlusd_wallet sample_dev sample_wallet sample_fund_args (sample_fund_world (\<lambda>_. None)) =
     (Raise (LiquidityUnavailableError ''no usable XRP-to-RLUSD Testnet route: pathfinding=; AMM=''), v)
     \<and> (SubmitBlob (PStr ''B''), files) \<in> set (dw_log v)
     \<and> file_blob (fa_state_path sample_fund_args) files = Some (PStr ''B'')
     \<and> capped sample_dev sample_wallet sample_fund_args (PStr ''B'')"
proof -
  obtain v files where run: "fund_rlusd_wallet sample_dev sample_wallet sample_fund_args (sample_fund_world (\<lambda>_. None)) =
     (Raise (LiquidityUnavailableError ''no usable XRP-to-RLUSD Testnet route: pathfinding=; AMM=''), v)"
    "(SubmitBlob (PStr ''B''), files) \<in> set (dw_log v)"
    using sample_run by blast
  have "dw_log (sample_fund_world (\<lambda>_. None)) = []" "dw_files (sample_fund_world (\<lambda>_. None)) = (\<lambda>_. None)"
    by (simp_all add: sample_fund_world_def)
  then show ?thesis
    using funding_journals_first [OF sample_plain _ run(1)] run by (fastforce simp: file_blob_def file_pending_def is_submission_def)
qed

theorem funding_forgets_nothing_witness:
  "\<exists>v. fund_rlusd_wallet sample_dev sample_wallet sample_fund_args (sample_fund_world (\<lambda>_. None)) =
     (Raise (LiquidityUnavailableError ''no usable XRP-to-RLUSD Testnet route: pathfinding=; AMM=''), v)
     \<and> SubmitBlob (PStr ''B'') \<in> fst ` set (dw_log v)
     \<and> (validated_submission sample_dev (PStr ''B'') (dw_log v)
        \<or> file_blob (fa_state_path sample_fund_args) (dw_files v) = Some (PStr ''B''))"
proof -
  obtain v files where run: "fund_rlusd_wallet sample_dev sample_wallet sample_fund_args (sample_fund_world (\<lambda>_. None)) =
     (Raise (LiquidityUnavailableError ''no usable XRP-to-RLUSD Testnet route: pathfinding=; AMM=''), v)"
    "(SubmitBlob (PStr ''B''), files) \<in> set (dw_log v)"
    using sample_run by blast
  have "dw_log (sample_fund_world (\<lambda>_. None)) = []"
    by (simp add: sample_fund_world_def)
  moreover have "SubmitBlob (PStr ''B'') \<in> fst ` set (dw_log v)"
    using run(2) by force
  ultimately show ?thesis
    using conjunct1 [OF funding_forgets_nothing [OF sample_plain _ run(1)]] run(1) by blast
qed

end
