(* ===== verification/TestnetSubmit.thy ===== *)
theory TestnetSubmit
  imports FundQuote
begin

text \<open>
  \<open>src/devtools/live_testnet_support.py\<close>: transactions of the development tools that are submitted and
  waited for, the RLUSD faucet, and the waits for their effect on validated balances.

  \<open>submit_and_wait\<close> of \<open>xrpl-py\<close>, which fills in, signs and submits a transaction, is a call of the ledger
  client: it carries the transaction and the address of the signing wallet.
\<close>

section \<open>Decimals\<close>

text \<open>\<open>quantize\<close> to a given exponent: with \<open>ROUND_DOWN\<close>, or with the default \<open>ROUND_HALF_EVEN\<close>.\<close>

definition half_even :: "nat \<Rightarrow> nat \<Rightarrow> nat" where
  "half_even c m =
     (let q = c div m; r = c mod m in if m < 2 * r \<or> (2 * r = m \<and> odd q) then q + 1 else q)"

definition rescale :: "bool \<Rightarrow> nat \<Rightarrow> int \<Rightarrow> int \<Rightarrow> nat" where
  "rescale down c e target =
     (if target \<le> e then c * 10 ^ nat (e - target)
      else if down then c div 10 ^ nat (target - e)
      else half_even c (10 ^ nat (target - e)))"

fun dec_quantize :: "bool \<Rightarrow> int \<Rightarrow> pydec \<Rightarrow> exn + pydec" where
  "dec_quantize down target (DFin s c e) =
     (if c = 0 then Inr (DFin s 0 target)
      else if 28 < e + int (length (show_nat c)) - target then Inl InvalidOperation
      else let q = rescale down c e target in
        if 28 < length (show_nat q) then Inl InvalidOperation else Inr (DFin s q target))"
| "dec_quantize down target (DInf s) = Inl InvalidOperation"
| "dec_quantize down target DNaN = Inr DNaN"

text \<open>\<open>int(d.to_integral_value())\<close>.\<close>

fun dec_to_int :: "pydec \<Rightarrow> exn + int" where
  "dec_to_int (DFin s c e) = Inr (signed s (rescale False c (min e 0) 0) * 10 ^ nat (max e 0))"
| "dec_to_int (DInf s) = Inl (ClientError ''cannot convert Infinity to integer'')"
| "dec_to_int DNaN = Inl (ValueError ''cannot convert NaN to integer'')"

definition decimal_to_value :: "pydec \<Rightarrow> exn + string" where
  "decimal_to_value d =
     rbind (dec_quantize True (- 6) d) (\<lambda>quantized.
       Inr (case quantized of
           DFin s c e \<Rightarrow> if c = 0 then ''0'' else format_f (dec_normalize quantized)
         | _ \<Rightarrow> format_f quantized))"

text \<open>\<open>a != b\<close> of decimals; a NaN differs from everything.\<close>

definition dec_differs :: "pydec \<Rightarrow> pydec \<Rightarrow> bool" where
  "dec_differs a b \<longleftrightarrow> dec_cmp a b \<noteq> Inr 0"


section \<open>Submitted transactions\<close>

definition assert_validated_success :: "pydict \<Rightarrow> string \<Rightarrow> exn + unit" where
  "assert_validated_success response operation_name =
     (if dget response ''validated'' \<noteq> PBool True
        then Inl (RuntimeError (operation_name @ '' did not validate''))
      else rbind (vget (dget_default response ''meta'' (PDict [])) ''TransactionResult'') (\<lambda>result.
        guard (result = PStr ''tesSUCCESS'')
          (RuntimeError (operation_name @ '' failed with '' @ py_str result))))"

definition response_tx_hash :: "pydict \<Rightarrow> string \<Rightarrow> exn + string" where
  "response_tx_hash response missing =
     (let tx_payload = py_or (py_or (dget response ''tx_json'') (dget response ''tx'')) (PDict []) in
      rbind (if truthy (dget response ''hash'') then Inr (dget response ''hash'') else vget tx_payload ''hash'') (\<lambda>tx_hash.
        if \<not> truthy tx_hash then Inl (RuntimeError missing) else Inr (py_str tx_hash)))"

abbreviation NO_TX_HASH :: string where "NO_TX_HASH \<equiv> ''XRPL response did not include a transaction hash''"

definition submit_validated :: "dev_env \<Rightarrow> dev_tx \<Rightarrow> wallet \<Rightarrow> string \<Rightarrow> string \<Rightarrow> ('x, string) dev_cmd" where
  "submit_validated E tx W operation_name missing =
     cbind (dev_request E (SubmitTx tx (wl_address W))) (\<lambda>response.
     cbind (clift (assert_validated_success (snd response) operation_name)) (\<lambda>_.
       clift (response_tx_hash (snd response) missing)))"

definition ensure_issued_trustline ::
  "dev_env \<Rightarrow> wallet \<Rightarrow> string \<Rightarrow> string \<Rightarrow> string \<Rightarrow> string \<Rightarrow> string \<Rightarrow> ('x, string option) dev_cmd" where
  "ensure_issued_trustline E W issuer currency_code currency_hex limit_value operation_name =
     cbind (clift (decimal_of_str limit_value)) (\<lambda>limit.
     cbind (trustline_limit_is_sufficient E (wl_address W) issuer limit currency_code) (\<lambda>enough.
       if enough then creturn None
       else cbind (submit_validated E
           (TrustLine (wl_address W) (issued_amount currency_hex issuer limit_value) (Some 262144)) W operation_name NO_TX_HASH)
         (\<lambda>tx_hash. creturn (Some tx_hash))))"

text \<open>What to do with an old trust line: an error, nothing, or a limit of zero.\<close>

definition reset_needed :: "string \<Rightarrow> string \<Rightarrow> pyval option \<Rightarrow> exn + bool" where
  "reset_needed currency_code address line = (case line of
       None \<Rightarrow> Inr False
     | Some l \<Rightarrow>
         rbind (rbind (vget_default l ''balance'' (PStr ''0'')) dec_of_val) (\<lambda>balance.
         rbind (rbind (vget_default l ''limit'' (PStr ''0'')) dec_of_val) (\<lambda>limit.
         if dec_differs balance (dec_of_int 0)
           then Inl (RuntimeError (''Cannot reset '' @ currency_code @ '' trustline for '' @ address @ '' while balance is '' @ dec_str balance))
         else Inr (dec_differs limit (dec_of_int 0)))))"

definition reset_issued_trustline ::
  "dev_env \<Rightarrow> wallet \<Rightarrow> string \<Rightarrow> string \<Rightarrow> string \<Rightarrow> string \<Rightarrow> ('x, string option) dev_cmd" where
  "reset_issued_trustline E W issuer currency_code currency_hex operation_name =
     cbind (get_validated_trustline E (wl_address W) issuer currency_code) (\<lambda>line.
     cbind (clift (reset_needed currency_code (wl_address W) line)) (\<lambda>needed.
       if \<not> needed then creturn None
       else cbind (submit_validated E (TrustLine (wl_address W) (issued_amount currency_hex issuer ''0'') None) W operation_name NO_TX_HASH)
         (\<lambda>tx_hash. creturn (Some tx_hash))))"

definition submit_validated_issued_payment ::
  "dev_env \<Rightarrow> wallet \<Rightarrow> string \<Rightarrow> string \<Rightarrow> pydec \<Rightarrow> string \<Rightarrow> string \<Rightarrow> ('x, string) dev_cmd" where
  "submit_validated_issued_payment E W destination issuer amount currency_hex operation_name =
     cbind (clift (decimal_to_value amount)) (\<lambda>text.
       submit_validated E (Pay (wl_address W) destination (issued_amount currency_hex issuer text) None None) W operation_name NO_TX_HASH)"

abbreviation ACCOUNT_DELETE_LEDGER_GAP :: int where "ACCOUNT_DELETE_LEDGER_GAP \<equiv> 256"
abbreviation ACCOUNT_DELETE_FEE_FALLBACK_DROPS :: int where "ACCOUNT_DELETE_FEE_FALLBACK_DROPS \<equiv> 200000"

definition reserve_increment_drops :: "pydict \<Rightarrow> exn + int" where
  "reserve_increment_drops result =
     rbind (vget_default (dget_default result ''info'' (PDict [])) ''validated_ledger'' (PDict [])) (\<lambda>validated_ledger.
     rbind (vget validated_ledger ''reserve_inc_xrp'') (\<lambda>reserve_inc_xrp.
       if reserve_inc_xrp = PNone then Inl (KeyError ''reserve_inc_xrp missing'')
       else rbind (dec_of_val reserve_inc_xrp) (\<lambda>d. rbind (dec_mul d (dec_of_int 1000000)) dec_to_int)))"

definition account_delete_fee_drops :: "dev_env \<Rightarrow> ('x, int) dev_cmd" where
  "account_delete_fee_drops E =
     ctry (cbind (dev_request E ServerInfo) (\<lambda>response. clift (reserve_increment_drops (snd response))))
       (\<lambda>_. creturn ACCOUNT_DELETE_FEE_FALLBACK_DROPS)"

definition submit_validated_account_delete :: "dev_env \<Rightarrow> wallet \<Rightarrow> string \<Rightarrow> ('x, string) dev_cmd" where
  "submit_validated_account_delete E W destination =
     cbind (account_delete_fee_drops E) (\<lambda>fee.
       submit_validated E (DeleteAccount (wl_address W) destination (show_int fee)) W ''AccountDelete'' NO_TX_HASH)"

definition account_delete_is_ready :: "account_root \<Rightarrow> exn + bool" where
  "account_delete_is_ready acct =
     rbind (rbind (vindex (ac_data acct) ''Sequence'') int_of_val) (\<lambda>sequence.
       Inr (sequence + ACCOUNT_DELETE_LEDGER_GAP < ac_ledger_index acct))"

definition next_account_delete_eligible_ledger :: "account_root \<Rightarrow> exn + int" where
  "next_account_delete_eligible_ledger acct =
     rbind (rbind (vindex (ac_data acct) ''Sequence'') int_of_val) (\<lambda>sequence.
       Inr (sequence + ACCOUNT_DELETE_LEDGER_GAP + 1))"


section \<open>Waiting\<close>

text \<open>Both waits poll each second for thirty seconds, so that 31 looks at the clock are enough.\<close>

abbreviation WAIT_SECONDS :: nat where "WAIT_SECONDS \<equiv> 30"

text \<open>Has the balance grown by the increase?\<close>

definition has_grown :: "pydec \<Rightarrow> pydec \<Rightarrow> pydec \<Rightarrow> exn + bool" where
  "has_grown starting_balance increase balance = rbind (dec_add starting_balance increase) (\<lambda>goal. dec_le goal balance)"

fun poll_increase ::
  "dev_env \<Rightarrow> nat \<Rightarrow> rat \<Rightarrow> string \<Rightarrow> string \<Rightarrow> pydec \<Rightarrow> pydec \<Rightarrow> string \<Rightarrow> ('x, pydec) dev_cmd" where
  "poll_increase E 0 deadline address issuer starting_balance increase currency_code = cdiverge"
| "poll_increase E (Suc n) deadline address issuer starting_balance increase currency_code =
     cbind dev_now (\<lambda>now.
       if now < deadline then
         cbind (get_validated_trustline_balance E address issuer currency_code) (\<lambda>balance.
         cbind (clift (has_grown starting_balance increase balance)) (\<lambda>grown.
           if grown then creturn balance
           else cbind (dev_sleep 1) (\<lambda>_.
             poll_increase E n deadline address issuer starting_balance increase currency_code)))
       else craise (AssertionError (''Timed out waiting for '' @ currency_code @ '' balance increase of '' @ dec_str increase @
         '' on '' @ address)))"

definition wait_for_trustline_balance_increase ::
  "dev_env \<Rightarrow> string \<Rightarrow> string \<Rightarrow> pydec \<Rightarrow> pydec \<Rightarrow> string \<Rightarrow> ('x, pydec) dev_cmd" where
  "wait_for_trustline_balance_increase E address issuer starting_balance increase currency_code =
     cbind dev_now (\<lambda>now.
       poll_increase E (Suc WAIT_SECONDS) (now + of_nat WAIT_SECONDS) address issuer starting_balance increase currency_code)"

fun poll_removal :: "dev_env \<Rightarrow> nat \<Rightarrow> rat \<Rightarrow> string \<Rightarrow> string \<Rightarrow> string \<Rightarrow> ('x, bool) dev_cmd" where
  "poll_removal E 0 deadline address issuer currency_code = cdiverge"
| "poll_removal E (Suc n) deadline address issuer currency_code =
     cbind dev_now (\<lambda>now.
       if now < deadline then
         cbind (get_validated_trustline E address issuer currency_code) (\<lambda>line.
           if line = None then creturn True
           else cbind (dev_sleep 1) (\<lambda>_. poll_removal E n deadline address issuer currency_code))
       else creturn False)"

definition wait_for_trustline_removal :: "dev_env \<Rightarrow> string \<Rightarrow> string \<Rightarrow> string \<Rightarrow> ('x, bool) dev_cmd" where
  "wait_for_trustline_removal E address issuer currency_code =
     cbind dev_now (\<lambda>now. poll_removal E (Suc WAIT_SECONDS) (now + of_nat WAIT_SECONDS) address issuer currency_code)"


section \<open>The two tokens\<close>

definition ensure_rlusd_trustline :: "dev_env \<Rightarrow> wallet \<Rightarrow> string \<Rightarrow> ('x, string option) dev_cmd" where
  "ensure_rlusd_trustline E W issuer =
     ensure_issued_trustline E W issuer RLUSD_CODE RLUSD_HEX ''100000'' ''RLUSD trustline transaction''"

definition reset_rlusd_trustline :: "dev_env \<Rightarrow> wallet \<Rightarrow> string \<Rightarrow> ('x, string option) dev_cmd" where
  "reset_rlusd_trustline E W issuer = reset_issued_trustline E W issuer RLUSD_CODE RLUSD_HEX ''RLUSD trustline reset''"

definition submit_validated_rlusd_payment ::
  "dev_env \<Rightarrow> wallet \<Rightarrow> string \<Rightarrow> string \<Rightarrow> pydec \<Rightarrow> ('x, string) dev_cmd" where
  "submit_validated_rlusd_payment E W destination issuer amount =
     submit_validated_issued_payment E W destination issuer amount RLUSD_HEX ''RLUSD transfer''"

definition get_validated_usdc_trustline_balance :: "dev_env \<Rightarrow> string \<Rightarrow> string \<Rightarrow> ('x, pydec) dev_cmd" where
  "get_validated_usdc_trustline_balance E address issuer = get_validated_trustline_balance E address issuer USDC_CODE"

definition ensure_usdc_trustline :: "dev_env \<Rightarrow> wallet \<Rightarrow> string \<Rightarrow> ('x, string option) dev_cmd" where
  "ensure_usdc_trustline E W issuer =
     ensure_issued_trustline E W issuer USDC_CODE USDC_HEX ''100000'' ''USDC trustline transaction''"

definition reset_usdc_trustline :: "dev_env \<Rightarrow> wallet \<Rightarrow> string \<Rightarrow> ('x, string option) dev_cmd" where
  "reset_usdc_trustline E W issuer = reset_issued_trustline E W issuer USDC_CODE USDC_HEX ''USDC trustline reset''"

definition submit_validated_usdc_payment ::
  "dev_env \<Rightarrow> wallet \<Rightarrow> string \<Rightarrow> string \<Rightarrow> pydec \<Rightarrow> ('x, string) dev_cmd" where
  "submit_validated_usdc_payment E W destination issuer amount =
     submit_validated_issued_payment E W destination issuer amount USDC_HEX ''USDC transfer''"


section \<open>The RLUSD faucet\<close>

text \<open>\<open>payload.get("error", body)\<close> of the body of an HTTP error, which may not be JSON.\<close>

definition error_detail :: "dev_env \<Rightarrow> string \<Rightarrow> exn + string" where
  "error_detail E body =
     (let payload = (case te_json E body of None \<Rightarrow> PDict [(''error'', PStr body)] | Some v \<Rightarrow> v) in
      rbind (vget_default payload ''error'' (PStr body)) (\<lambda>v. Inr (py_str v)))"

definition mint_failure :: "dev_env \<Rightarrow> exn \<Rightarrow> exn" where
  "mint_failure E e = (case e of
       HTTPException code body \<Rightarrow> (case error_detail E body of
           Inl e' \<Rightarrow> e'
         | Inr detail \<Rightarrow>
             if code = 429 then RLUSDMintRateLimitedError (''RLUSD faucet rate limited: '' @ detail)
             else RLUSDMintRequestError (''RLUSD mint failed with HTTP '' @ show_int code @ '': '' @ detail))
     | OSError reason \<Rightarrow> RLUSDMintRequestError (''RLUSD mint failed: '' @ reason)
     | _ \<Rightarrow> e)"

definition minted_hash :: "pydict \<Rightarrow> exn + string" where
  "minted_hash payload =
     (let tx_hash = dget payload ''txHash'' in
      if \<not> truthy tx_hash then Inl (RLUSDMintRequestError (''RLUSD mint did not return a txHash: '' @ py_str (PDict payload)))
      else Inr (py_str tx_hash))"

definition mint_rlusd_to_address :: "dev_env \<Rightarrow> string \<Rightarrow> string \<Rightarrow> ('x, string) dev_cmd" where
  "mint_rlusd_to_address E address session_token =
     ctry_else (dev_request E (MintRlusd address session_token)) (\<lambda>e. craise (mint_failure E e))
       (\<lambda>response. clift (minted_hash (snd response)))"

end
