(* ===== verification/DemoWallets.thy ===== *)
theory DemoWallets
  imports TestnetSubmit
begin

text \<open>
  \<open>src/devtools/live_testnet_support.py\<close>: the cache of the demo wallets, a merchant and one buyer per
  asset. A cached wallet is kept as long as its account exists on the ledger.
\<close>

section \<open>Wallets\<close>

record live_wallet_pair =
  lp_wallet_a :: wallet
  lp_wallet_b :: wallet

record demo_wallet_set =
  dws_merchant_wallet :: wallet
  dws_buyers :: "(string \<times> wallet) list"

abbreviation DEMO_WALLET_XRP :: string where "DEMO_WALLET_XRP \<equiv> ''xrp''"
abbreviation DEMO_WALLET_RLUSD :: string where "DEMO_WALLET_RLUSD \<equiv> ''rlusd''"
abbreviation DEMO_WALLET_USDC :: string where "DEMO_WALLET_USDC \<equiv> ''usdc''"
abbreviation DEMO_WALLET_USAGE_CONTEXT_PREFIX :: string where
  "DEMO_WALLET_USAGE_CONTEXT_PREFIX \<equiv> ''xrpl-x402-facilitator-live-test''"
abbreviation WALLET_CACHE_VERSION :: int where "WALLET_CACHE_VERSION \<equiv> 2"

definition DEMO_WALLET_ASSETS :: "string list" where
  "DEMO_WALLET_ASSETS = [DEMO_WALLET_XRP, DEMO_WALLET_RLUSD, DEMO_WALLET_USDC]"

definition pair_as_list :: "live_wallet_pair \<Rightarrow> wallet list" where
  "pair_as_list p = [lp_wallet_a p, lp_wallet_b p]"

definition buyer_wallet :: "demo_wallet_set \<Rightarrow> string \<Rightarrow> exn + wallet" where
  "buyer_wallet wallets asset =
     (if asset \<notin> set DEMO_WALLET_ASSETS then Inl (ValueError (''Unsupported demo wallet asset '' @ asset))
      else case map_of (dws_buyers wallets) asset of
          Some W \<Rightarrow> Inr W
        | None \<Rightarrow> Inl (ValueError (''Demo wallet cache is missing the '' @ asset @ '' buyer wallet'')))"

definition as_live_wallet_pair :: "demo_wallet_set \<Rightarrow> exn + live_wallet_pair" where
  "as_live_wallet_pair wallets =
     rbind (buyer_wallet wallets DEMO_WALLET_XRP) (\<lambda>b.
       Inr \<lparr>lp_wallet_a = dws_merchant_wallet wallets, lp_wallet_b = b\<rparr>)"

definition all_wallets :: "demo_wallet_set \<Rightarrow> exn + wallet list" where
  "all_wallets wallets =
     rbind (map_exn (buyer_wallet wallets) DEMO_WALLET_ASSETS) (\<lambda>buyers. Inr (dws_merchant_wallet wallets # buyers))"


section \<open>The cache file\<close>

definition seed_wallet :: "dev_env \<Rightarrow> pyval \<Rightarrow> exn + wallet" where
  "seed_wallet E seed = (case seed of PStr s \<Rightarrow> te_from_seed E s | _ \<Rightarrow> Inl (AttributeError ''encode''))"

definition wallet_from_cache_record :: "dev_env \<Rightarrow> pyval \<Rightarrow> exn + wallet" where
  "wallet_from_cache_record E r =
     rbind (rbind (vindex r ''seed'') (seed_wallet E)) (\<lambda>W.
     rbind (vindex r ''classic_address'') (\<lambda>address.
       if PStr (wl_address W) \<noteq> address then Inl (ValueError ''Wallet cache address mismatch'') else Inr W))"

definition wallet_to_cache_record :: "wallet \<Rightarrow> exn + pydict" where
  "wallet_to_cache_record W = (case wl_seed W of
       None \<Rightarrow> Inl (ValueError ''Wallet seed missing'')
     | Some seed \<Rightarrow> Inr [(''seed'', PStr seed), (''classic_address'', PStr (wl_address W))])"

text \<open>\<open>except (KeyError, TypeError, ValueError): return None\<close>.\<close>

definition none_if_malformed :: "exn + 'a option \<Rightarrow> exn + 'a option" where
  "none_if_malformed r = (case r of
       Inl (KeyError _) \<Rightarrow> Inr None
     | Inl (TypeError _) \<Rightarrow> Inr None
     | Inl e \<Rightarrow> if is_value_error e then Inr None else Inl e
     | Inr x \<Rightarrow> Inr x)"

definition cached_buyer :: "dev_env \<Rightarrow> pydict \<Rightarrow> string \<Rightarrow> exn + string \<times> wallet" where
  "cached_buyer E buyers asset =
     rbind (rbind (dindex buyers asset) (wallet_from_cache_record E)) (\<lambda>W. Inr (asset, W))"

definition demo_wallet_set_from_payload :: "dev_env \<Rightarrow> pydict option \<Rightarrow> exn + demo_wallet_set option" where
  "demo_wallet_set_from_payload E payload = (case payload of
       None \<Rightarrow> Inr None
     | Some d \<Rightarrow>
         if \<not> py_eq (dget d ''version'') (PInt WALLET_CACHE_VERSION) then Inr None
         else none_if_malformed
           (rbind (rbind (dindex d ''merchant'') (wallet_from_cache_record E)) (\<lambda>merchant.
            rbind (dindex d ''buyers'') (\<lambda>buyers. case buyers of
                PDict bs \<Rightarrow>
                  rbind (map_exn (cached_buyer E bs) DEMO_WALLET_ASSETS) (\<lambda>bs'.
                    Inr (Some \<lparr>dws_merchant_wallet = merchant, dws_buyers = bs'\<rparr>))
              | _ \<Rightarrow> Inr None))))"

definition legacy_wallet_pair_from_payload :: "dev_env \<Rightarrow> pydict option \<Rightarrow> exn + live_wallet_pair option" where
  "legacy_wallet_pair_from_payload E payload = (case payload of
       None \<Rightarrow> Inr None
     | Some d \<Rightarrow>
         if \<not> py_eq (dget d ''version'') (PInt 1) then Inr None
         else none_if_malformed
           (rbind (rbind (dindex d ''wallet_a'') (wallet_from_cache_record E)) (\<lambda>a.
            rbind (rbind (dindex d ''wallet_b'') (wallet_from_cache_record E)) (\<lambda>b.
              Inr (Some \<lparr>lp_wallet_a = a, lp_wallet_b = b\<rparr>)))))"

definition load_wallet_cache_payload :: "string \<Rightarrow> ('x, pydict option) dev_cmd" where
  "load_wallet_cache_payload cache_path =
     cbind (read_file cache_path) (\<lambda>f. creturn (case f of Some (JsonFile (PDict d)) \<Rightarrow> Some d | _ \<Rightarrow> None))"

definition load_cached_demo_wallet_set :: "dev_env \<Rightarrow> string option \<Rightarrow> ('x, demo_wallet_set option) dev_cmd" where
  "load_cached_demo_wallet_set E cache_path =
     cbind (load_wallet_cache_payload (case cache_path of Some p \<Rightarrow> p | None \<Rightarrow> wallet_cache_path E)) (\<lambda>payload.
       clift (demo_wallet_set_from_payload E payload))"

definition load_cached_wallet_pair :: "dev_env \<Rightarrow> string \<Rightarrow> ('x, live_wallet_pair option) dev_cmd" where
  "load_cached_wallet_pair E cache_path =
     cbind (load_wallet_cache_payload cache_path) (\<lambda>payload.
     cbind (clift (demo_wallet_set_from_payload E payload)) (\<lambda>demo_wallets. case demo_wallets of
         Some wallets \<Rightarrow> clift (rbind (as_live_wallet_pair wallets) (\<lambda>p. Inr (Some p)))
       | None \<Rightarrow> clift (legacy_wallet_pair_from_payload E payload)))"

definition cache_payload :: "demo_wallet_set \<Rightarrow> exn + pydict" where
  "cache_payload wallets =
     rbind (wallet_to_cache_record (dws_merchant_wallet wallets)) (\<lambda>merchant.
     rbind (map_exn (\<lambda>asset. rbind (rbind (buyer_wallet wallets asset) wallet_to_cache_record) (\<lambda>r. Inr (asset, PDict r)))
              DEMO_WALLET_ASSETS) (\<lambda>buyers.
       Inr [(''version'', PInt WALLET_CACHE_VERSION), (''merchant'', PDict merchant), (''buyers'', PDict buyers)]))"

text \<open>\<open>path.parent.mkdir(parents=True, exist_ok=True)\<close>.\<close>

definition make_parent :: "dev_env \<Rightarrow> string \<Rightarrow> exn + unit" where
  "make_parent E path = (if te_parent E path = NoDirectory then Inl (OSError ''File exists'') else Inr ())"

definition write_demo_wallet_cache :: "dev_env \<Rightarrow> string \<Rightarrow> demo_wallet_set \<Rightarrow> ('x, unit) dev_cmd" where
  "write_demo_wallet_cache E cache_path wallets =
     cbind (clift (make_parent E cache_path)) (\<lambda>_.
     cbind (clift (cache_payload wallets)) (\<lambda>payload.
       write_text E cache_path (PDict payload)))"


section \<open>Creating and refreshing\<close>

definition faucet_wallet :: "dev_env \<Rightarrow> string \<Rightarrow> ('x, wallet) dev_cmd" where
  "faucet_wallet E usage_context =
     cbind (dev_log E (FaucetWallet usage_context)) (\<lambda>history. clift (te_faucet_wallet E history usage_context))"

definition generate_demo_wallet :: "dev_env \<Rightarrow> string \<Rightarrow> ('x, wallet) dev_cmd" where
  "generate_demo_wallet E role = faucet_wallet E (DEMO_WALLET_USAGE_CONTEXT_PREFIX @ ''-'' @ role)"

fun each_asset :: "(string \<Rightarrow> ('s, 'a) cmd) \<Rightarrow> string list \<Rightarrow> ('s, (string \<times> 'a) list) cmd" where
  "each_asset f [] = creturn []"
| "each_asset f (asset # assets) =
     cbind (f asset) (\<lambda>x. cbind (each_asset f assets) (\<lambda>xs. creturn ((asset, x) # xs)))"

definition create_demo_wallet_set :: "dev_env \<Rightarrow> ('x, demo_wallet_set) dev_cmd" where
  "create_demo_wallet_set E =
     cbind (generate_demo_wallet E ''merchant'') (\<lambda>merchant.
     cbind (each_asset (\<lambda>asset. generate_demo_wallet E (''buyer-'' @ asset)) DEMO_WALLET_ASSETS) (\<lambda>buyers.
       creturn \<lparr>dws_merchant_wallet = merchant, dws_buyers = buyers\<rparr>))"

definition upgrade_legacy_wallet_pair :: "dev_env \<Rightarrow> live_wallet_pair \<Rightarrow> ('x, demo_wallet_set) dev_cmd" where
  "upgrade_legacy_wallet_pair E pair =
     cbind (generate_demo_wallet E (''buyer-'' @ DEMO_WALLET_RLUSD)) (\<lambda>rlusd.
     cbind (generate_demo_wallet E (''buyer-'' @ DEMO_WALLET_USDC)) (\<lambda>usdc.
       creturn \<lparr>dws_merchant_wallet = lp_wallet_a pair,
                dws_buyers = [(DEMO_WALLET_XRP, lp_wallet_b pair), (DEMO_WALLET_RLUSD, rlusd), (DEMO_WALLET_USDC, usdc)]\<rparr>))"

text \<open>A wallet to keep, or a new one in its place, and whether it is new.\<close>

definition kept_or_new :: "dev_env \<Rightarrow> wallet \<Rightarrow> string \<Rightarrow> ('x, wallet \<times> bool) dev_cmd" where
  "kept_or_new E W role =
     cbind (account_exists_on_ledger E (wl_address W)) (\<lambda>found.
       if found then creturn (W, False) else cbind (generate_demo_wallet E role) (\<lambda>new. creturn (new, True)))"

definition refresh_buyer :: "dev_env \<Rightarrow> demo_wallet_set \<Rightarrow> string \<Rightarrow> ('x, wallet \<times> bool) dev_cmd" where
  "refresh_buyer E wallets asset = (case buyer_wallet wallets asset of
       Inr W \<Rightarrow> kept_or_new E W (''buyer-'' @ asset)
     | Inl e \<Rightarrow>
         if is_value_error e then cbind (generate_demo_wallet E (''buyer-'' @ asset)) (\<lambda>new. creturn (new, True)) else craise e)"

definition refresh_demo_wallet_set :: "dev_env \<Rightarrow> demo_wallet_set \<Rightarrow> ('x, demo_wallet_set \<times> bool) dev_cmd" where
  "refresh_demo_wallet_set E wallets =
     cbind (kept_or_new E (dws_merchant_wallet wallets) ''merchant'') (\<lambda>(merchant, changed).
     cbind (each_asset (refresh_buyer E wallets) DEMO_WALLET_ASSETS) (\<lambda>buyers.
       creturn (\<lparr>dws_merchant_wallet = merchant, dws_buyers = map (\<lambda>(asset, W, new). (asset, W)) buyers\<rparr>,
                changed \<or> list_ex (\<lambda>(asset, W, new). new) buyers)))"

text \<open>\<open>all\<close> stops at the first account that does not exist.\<close>

definition wallet_pair_is_active :: "dev_env \<Rightarrow> live_wallet_pair \<Rightarrow> ('x, bool) dev_cmd" where
  "wallet_pair_is_active E pair =
     cbind (account_exists_on_ledger E (wl_address (lp_wallet_a pair))) (\<lambda>a.
       if a then account_exists_on_ledger E (wl_address (lp_wallet_b pair)) else creturn False)"

definition refresh_cached :: "dev_env \<Rightarrow> string \<Rightarrow> demo_wallet_set \<Rightarrow> ('x, demo_wallet_set) dev_cmd" where
  "refresh_cached E cache_path cached =
     cbind (refresh_demo_wallet_set E cached) (\<lambda>(refreshed, changed).
     cbind (if changed then write_demo_wallet_cache E cache_path refreshed else creturn ()) (\<lambda>_. creturn refreshed))"

definition get_demo_wallet_set :: "dev_env \<Rightarrow> ('x, demo_wallet_set) dev_cmd" where
  "get_demo_wallet_set E =
     (let cache_path = wallet_cache_path E in
      cbind (load_wallet_cache_payload cache_path) (\<lambda>payload.
      cbind (clift (demo_wallet_set_from_payload E payload)) (\<lambda>cached. case cached of
          Some wallets \<Rightarrow> refresh_cached E cache_path wallets
        | None \<Rightarrow>
            cbind (clift (legacy_wallet_pair_from_payload E payload)) (\<lambda>legacy.
            cbind (case legacy of None \<Rightarrow> creturn False | Some pair \<Rightarrow> wallet_pair_is_active E pair) (\<lambda>active.
            cbind (case legacy of
                Some pair \<Rightarrow> if active then upgrade_legacy_wallet_pair E pair else create_demo_wallet_set E
              | None \<Rightarrow> create_demo_wallet_set E) (\<lambda>wallets.
            cbind (write_demo_wallet_cache E cache_path wallets) (\<lambda>_. creturn wallets)))))))"

definition get_live_wallet_pair :: "dev_env \<Rightarrow> ('x, live_wallet_pair) dev_cmd" where
  "get_live_wallet_pair E = cbind (get_demo_wallet_set E) (\<lambda>wallets. clift (as_live_wallet_pair wallets))"

end
