(* ===== verification/ClaimState.thy ===== *)
theory ClaimState
  imports DemoWallets
begin

text \<open>
  \<open>src/devtools/live_testnet_support.py\<close>: the state files of the disposable wallets that claim test
  tokens from the faucets. \<open>ClaimWalletState\<close> and \<open>RLUSDClaimState\<close> for RLUSD and their USDC counterparts
  have the same structure up to the names of two fields and the fields that only RLUSD has (the claim's
  attempt and hashes, unused for USDC), so one record serves both; which token a function is about is
  its first argument.

  The state object that the functions share and update is the last field of the world; a claim wallet
  in it is named by its position.
\<close>

section \<open>Records\<close>

datatype claim_asset = Rlusd | Usdc

abbreviation CREATED :: string where "CREATED \<equiv> ''created''"
abbreviation CLAIM_FAILED :: string where "CLAIM_FAILED \<equiv> ''claim_failed''"
abbreviation CLAIMED :: string where "CLAIMED \<equiv> ''claimed''"
abbreviation AWAITING_MANUAL_FUNDING :: string where "AWAITING_MANUAL_FUNDING \<equiv> ''awaiting_manual_funding''"
abbreviation DELETE_FAILED :: string where "DELETE_FAILED \<equiv> ''delete_failed''"
abbreviation DELETED :: string where "DELETED \<equiv> ''deleted''"

definition SWEPT :: "claim_asset \<Rightarrow> string" where
  "SWEPT A = (case A of Rlusd \<Rightarrow> ''rlusd_swept'' | Usdc \<Rightarrow> ''usdc_swept'')"

definition first_status :: "claim_asset \<Rightarrow> string" where
  "first_status A = (case A of Rlusd \<Rightarrow> CREATED | Usdc \<Rightarrow> AWAITING_MANUAL_FUNDING)"

definition asset_code :: "claim_asset \<Rightarrow> string" where
  "asset_code A = (case A of Rlusd \<Rightarrow> RLUSD_CODE | Usdc \<Rightarrow> USDC_CODE)"

record claim_wallet =
  cw_classic_address :: string
  cw_seed :: string
  cw_created_at :: rat
  cw_trustline_create_tx_hash :: pyval
  cw_claim_attempted_at :: "rat option"
  cw_claim_tx_hash :: pyval
  cw_sweep_tx_hash :: pyval
  cw_trustline_reset_tx_hash :: pyval
  cw_account_delete_tx_hash :: pyval
  cw_last_known_balance :: pydec
  cw_last_known_xrp_balance_drops :: "int option"
  cw_status :: string
  cw_last_error :: pyval
  cw_deleted_at :: "rat option"

definition new_claim_wallet :: "claim_asset \<Rightarrow> string \<Rightarrow> string \<Rightarrow> rat \<Rightarrow> claim_wallet" where
  "new_claim_wallet A address seed created_at =
     \<lparr>cw_classic_address = address, cw_seed = seed, cw_created_at = created_at, cw_trustline_create_tx_hash = PNone,
      cw_claim_attempted_at = None, cw_claim_tx_hash = PNone, cw_sweep_tx_hash = PNone, cw_trustline_reset_tx_hash = PNone,
      cw_account_delete_tx_hash = PNone, cw_last_known_balance = dec_of_int 0, cw_last_known_xrp_balance_drops = None,
      cw_status = first_status A, cw_last_error = PNone, cw_deleted_at = None\<rparr>"

record claim_state =
  cs_canonical_wallet_address :: string
  cs_issuer :: string
  cs_last_successful_session_claim_at :: "rat option"
  cs_last_successful_session_claim_tx_hash :: pyval
  cs_last_attempt_at :: "rat option"
  cs_claim_wallets :: "claim_wallet list"

definition empty_claim_state :: "string \<Rightarrow> string \<Rightarrow> claim_state" where
  "empty_claim_state address issuer =
     \<lparr>cs_canonical_wallet_address = address, cs_issuer = issuer, cs_last_successful_session_claim_at = None,
      cs_last_successful_session_claim_tx_hash = PNone, cs_last_attempt_at = None, cs_claim_wallets = []\<rparr>"

record claim_world = dev_world +
  cw_state :: claim_state

type_synonym 'a claim_cmd = "(claim_world, 'a) cmd"

abbreviation RLUSD_CLAIM_COOLDOWN :: rat where "RLUSD_CLAIM_COOLDOWN \<equiv> 86400"
abbreviation USDC_CLAIM_COOLDOWN :: rat where "USDC_CLAIM_COOLDOWN \<equiv> 7200"

definition next_rlusd_claim_time :: "claim_state \<Rightarrow> rat option" where
  "next_rlusd_claim_time s = map_option (\<lambda>t. t + RLUSD_CLAIM_COOLDOWN) (cs_last_successful_session_claim_at s)"

definition next_usdc_claim_time :: "claim_state \<Rightarrow> rat option" where
  "next_usdc_claim_time s = map_option (\<lambda>t. t + USDC_CLAIM_COOLDOWN) (cs_last_successful_session_claim_at s)"

definition claim_state_path :: "dev_env \<Rightarrow> string option \<Rightarrow> string" where
  "claim_state_path E cache_path =
     with_name (case cache_path of Some p \<Rightarrow> p | None \<Rightarrow> wallet_cache_path E) ''rlusd-claim-state.json''"

definition usdc_claim_state_path :: "dev_env \<Rightarrow> string option \<Rightarrow> string" where
  "usdc_claim_state_path E cache_path =
     with_name (case cache_path of Some p \<Rightarrow> p | None \<Rightarrow> wallet_cache_path E) ''usdc-claim-state.json''"


section \<open>Dates in the files\<close>

definition serialize_datetime :: "dev_env \<Rightarrow> rat option \<Rightarrow> pyval" where
  "serialize_datetime E t = (case t of None \<Rightarrow> PNone | Some x \<Rightarrow> PStr (te_iso E x))"

definition deserialize_datetime :: "dev_env \<Rightarrow> pyval \<Rightarrow> exn + rat option" where
  "deserialize_datetime E v =
     (if v = PNone \<or> v = PStr [] then Inr None
      else rbind (te_parse_iso E (replace_z (py_str v))) (\<lambda>t. Inr (Some t)))"


section \<open>Claim wallets in the files\<close>

definition balance_field :: "claim_asset \<Rightarrow> string" where
  "balance_field A = (case A of Rlusd \<Rightarrow> ''last_known_rlusd_balance'' | Usdc \<Rightarrow> ''last_known_usdc_balance'')"

definition sweep_field :: "claim_asset \<Rightarrow> string" where
  "sweep_field A = (case A of Rlusd \<Rightarrow> ''rlusd_sweep_tx_hash'' | Usdc \<Rightarrow> ''usdc_sweep_tx_hash'')"

text \<open>\<open>int(v)\<close> of what the file holds.\<close>

definition int_of_json :: "pyval \<Rightarrow> exn + int" where
  "int_of_json v = (case v of
       PInt i \<Rightarrow> Inr i
     | PBool b \<Rightarrow> Inr (if b then 1 else 0)
     | PStr s \<Rightarrow> int_of_str s
     | _ \<Rightarrow> Inl (TypeError ''int() argument''))"

definition deserialize_claim_wallet :: "claim_asset \<Rightarrow> dev_env \<Rightarrow> rat \<Rightarrow> pydict \<Rightarrow> exn + claim_wallet" where
  "deserialize_claim_wallet A E now d =
     rbind (dindex d ''classic_address'') (\<lambda>address.
     rbind (dindex d ''seed'') (\<lambda>seed.
     rbind (deserialize_datetime E (dget d ''created_at'')) (\<lambda>created_at.
     rbind (if A = Rlusd then deserialize_datetime E (dget d ''claim_attempted_at'') else Inr None) (\<lambda>attempted_at.
     rbind (dec_of_val (dget_default d (balance_field A) (PStr ''0''))) (\<lambda>balance.
     rbind (if dget d ''last_known_xrp_balance_drops'' = PNone then Inr None
            else rbind (int_of_json (dget d ''last_known_xrp_balance_drops'')) (\<lambda>i. Inr (Some i))) (\<lambda>xrp.
     rbind (deserialize_datetime E (dget d ''deleted_at'')) (\<lambda>deleted_at.
       Inr \<lparr>cw_classic_address = py_str address, cw_seed = py_str seed,
            cw_created_at = (case created_at of Some t \<Rightarrow> t | None \<Rightarrow> now),
            cw_trustline_create_tx_hash = dget d ''trustline_create_tx_hash'', cw_claim_attempted_at = attempted_at,
            cw_claim_tx_hash = (if A = Rlusd then dget d ''claim_tx_hash'' else PNone),
            cw_sweep_tx_hash = dget d (sweep_field A), cw_trustline_reset_tx_hash = dget d ''trustline_reset_tx_hash'',
            cw_account_delete_tx_hash = dget d ''account_delete_tx_hash'', cw_last_known_balance = balance,
            cw_last_known_xrp_balance_drops = xrp,
            cw_status = py_str (dget_default d ''status'' (PStr (first_status A))), cw_last_error = dget d ''last_error'',
            cw_deleted_at = deleted_at\<rparr>)))))))"

definition claim_fields :: "claim_asset \<Rightarrow> dev_env \<Rightarrow> claim_wallet \<Rightarrow> pydict" where
  "claim_fields A E c = (case A of
       Rlusd \<Rightarrow> [(''claim_attempted_at'', serialize_datetime E (cw_claim_attempted_at c)), (''claim_tx_hash'', cw_claim_tx_hash c)]
     | Usdc \<Rightarrow> [])"

definition serialize_claim_wallet :: "claim_asset \<Rightarrow> dev_env \<Rightarrow> claim_wallet \<Rightarrow> exn + pydict" where
  "serialize_claim_wallet A E c =
     rbind (decimal_to_value (cw_last_known_balance c)) (\<lambda>balance.
       Inr ([(''classic_address'', PStr (cw_classic_address c)), (''seed'', PStr (cw_seed c)),
          (''created_at'', PStr (te_iso E (cw_created_at c))), (''trustline_create_tx_hash'', cw_trustline_create_tx_hash c)] @
         claim_fields A E c @
         [(sweep_field A, cw_sweep_tx_hash c), (''trustline_reset_tx_hash'', cw_trustline_reset_tx_hash c),
          (''account_delete_tx_hash'', cw_account_delete_tx_hash c), (balance_field A, PStr balance),
          (''last_known_xrp_balance_drops'', case cw_last_known_xrp_balance_drops c of None \<Rightarrow> PNone | Some i \<Rightarrow> PInt i),
          (''status'', PStr (cw_status c)), (''last_error'', cw_last_error c),
          (''deleted_at'', serialize_datetime E (cw_deleted_at c))]))"


section \<open>The state files\<close>

definition STATE_VERSION :: "claim_asset \<Rightarrow> int" where
  "STATE_VERSION A = (case A of Rlusd \<Rightarrow> 2 | Usdc \<Rightarrow> 1)"

definition attempt_field :: "claim_asset \<Rightarrow> string" where
  "attempt_field A = (case A of Rlusd \<Rightarrow> ''last_claim_attempt_at'' | Usdc \<Rightarrow> ''last_prepared_claim_at'')"

text \<open>The dictionaries in the list; anything else in it is skipped.\<close>

definition dict_items :: "pyval list \<Rightarrow> pydict list" where
  "dict_items items = List.map_filter as_dict items"

definition claim_state_from_dict :: "claim_asset \<Rightarrow> dev_env \<Rightarrow> rat \<Rightarrow> string \<Rightarrow> string \<Rightarrow> pydict \<Rightarrow> exn + claim_state" where
  "claim_state_from_dict A E now address issuer d =
     rbind (iter_nodes (dget_default d ''claim_wallets'' (PList []))) (\<lambda>items.
     rbind (map_exn (deserialize_claim_wallet A E now) (dict_items items)) (\<lambda>claim_wallets.
     rbind (deserialize_datetime E (dget d ''last_successful_session_claim_at'')) (\<lambda>claimed_at.
     rbind (deserialize_datetime E (dget d (attempt_field A))) (\<lambda>attempt_at.
       Inr \<lparr>cs_canonical_wallet_address = address, cs_issuer = issuer, cs_last_successful_session_claim_at = claimed_at,
            cs_last_successful_session_claim_tx_hash =
              (if A = Rlusd then dget d ''last_successful_session_claim_tx_hash'' else PNone),
            cs_last_attempt_at = attempt_at, cs_claim_wallets = claim_wallets\<rparr>))))"

text \<open>A file of version 1 of the RLUSD state only knows the last claim.\<close>

definition rlusd_state_v1 :: "dev_env \<Rightarrow> string \<Rightarrow> string \<Rightarrow> pydict \<Rightarrow> exn + claim_state" where
  "rlusd_state_v1 E address issuer d =
     rbind (deserialize_datetime E (dget d ''last_successful_claim_at'')) (\<lambda>claimed_at.
       Inr ((empty_claim_state address issuer)\<lparr>cs_last_successful_session_claim_at := claimed_at,
              cs_last_successful_session_claim_tx_hash := dget d ''last_successful_claim_tx_hash''\<rparr>))"

definition same_owner :: "string \<Rightarrow> string \<Rightarrow> pydict \<Rightarrow> bool" where
  "same_owner address issuer d \<longleftrightarrow>
     dget d ''canonical_wallet_address'' = PStr address \<and> dget d ''issuer'' = PStr issuer"

definition rlusd_claim_state_of :: "dev_env \<Rightarrow> rat \<Rightarrow> string \<Rightarrow> string \<Rightarrow> stored_file option \<Rightarrow> exn + claim_state" where
  "rlusd_claim_state_of E now address issuer f = (case f of
       Some (JsonFile (PDict d)) \<Rightarrow>
         let version = dget d ''version'' in
         if py_eq version (PInt 1) then
           (if \<not> same_owner address issuer d then Inr (empty_claim_state address issuer) else rlusd_state_v1 E address issuer d)
         else if \<not> py_eq version (PInt (STATE_VERSION Rlusd)) \<or> \<not> same_owner address issuer d
           then Inr (empty_claim_state address issuer)
         else claim_state_from_dict Rlusd E now address issuer d
     | Some (JsonFile _) \<Rightarrow> Inl (AttributeError ''get'')
     | _ \<Rightarrow> Inr (empty_claim_state address issuer))"

definition usdc_claim_state_of :: "dev_env \<Rightarrow> rat \<Rightarrow> string \<Rightarrow> string \<Rightarrow> stored_file option \<Rightarrow> exn + claim_state" where
  "usdc_claim_state_of E now address issuer f = (case f of
       Some (JsonFile (PDict d)) \<Rightarrow>
         if \<not> py_eq (dget d ''version'') (PInt (STATE_VERSION Usdc)) \<or> \<not> same_owner address issuer d
           then Inr (empty_claim_state address issuer)
         else claim_state_from_dict Usdc E now address issuer d
     | Some (JsonFile _) \<Rightarrow> Inl (AttributeError ''get'')
     | _ \<Rightarrow> Inr (empty_claim_state address issuer))"

definition load_rlusd_claim_state :: "dev_env \<Rightarrow> string \<Rightarrow> string \<Rightarrow> string \<Rightarrow> ('x, claim_state) dev_cmd" where
  "load_rlusd_claim_state E path address issuer =
     cbind dev_now (\<lambda>now. cbind (read_file path) (\<lambda>f. clift (rlusd_claim_state_of E now address issuer f)))"

definition load_usdc_claim_state :: "dev_env \<Rightarrow> string \<Rightarrow> string \<Rightarrow> string \<Rightarrow> ('x, claim_state) dev_cmd" where
  "load_usdc_claim_state E path address issuer =
     cbind dev_now (\<lambda>now. cbind (read_file path) (\<lambda>f. clift (usdc_claim_state_of E now address issuer f)))"

definition claim_state_dict :: "claim_asset \<Rightarrow> dev_env \<Rightarrow> claim_state \<Rightarrow> exn + pydict" where
  "claim_state_dict A E s =
     rbind (map_exn (serialize_claim_wallet A E) (cs_claim_wallets s)) (\<lambda>items.
       Inr ([(''version'', PInt (STATE_VERSION A)), (''canonical_wallet_address'', PStr (cs_canonical_wallet_address s)),
          (''issuer'', PStr (cs_issuer s)),
          (''last_successful_session_claim_at'', serialize_datetime E (cs_last_successful_session_claim_at s))] @
         (if A = Rlusd then [(''last_successful_session_claim_tx_hash'', cs_last_successful_session_claim_tx_hash s)] else []) @
         [(attempt_field A, serialize_datetime E (cs_last_attempt_at s)), (''claim_wallets'', PList (map PDict items))]))"

definition write_claim_state :: "claim_asset \<Rightarrow> dev_env \<Rightarrow> string \<Rightarrow> unit claim_cmd" where
  "write_claim_state A E path =
     cbind (clift (make_parent E path)) (\<lambda>_.
     cbind (cget cw_state) (\<lambda>s.
     cbind (clift (claim_state_dict A E s)) (\<lambda>payload.
       write_text E path (PDict payload))))"

definition write_rlusd_claim_state :: "dev_env \<Rightarrow> string \<Rightarrow> unit claim_cmd" where
  "write_rlusd_claim_state E path = write_claim_state Rlusd E path"

definition write_usdc_claim_state :: "dev_env \<Rightarrow> string \<Rightarrow> unit claim_cmd" where
  "write_usdc_claim_state E path = write_claim_state Usdc E path"

end
