(* ===== verification/ClaimRecover.thy ===== *)
theory ClaimRecover
  imports ClaimState
begin

text \<open>
  \<open>src/devtools/live_testnet_support.py\<close>: recovering the disposable claim wallets. What such a wallet holds
  is swept to the accumulator, its trust line is removed and its account is deleted once the ledger
  allows it. \<open>_recover_claim_wallet\<close> and \<open>_recover_usdc_claim_wallet\<close> are the same steps with the
  differences that the first argument selects.
\<close>

section \<open>The tracked wallet\<close>

definition wallet_at :: "nat \<Rightarrow> claim_wallet claim_cmd" where
  "wallet_at i = cget (\<lambda>w. cs_claim_wallets (cw_state w) ! i)"

definition update_wallet :: "nat \<Rightarrow> (claim_wallet \<Rightarrow> claim_wallet) \<Rightarrow> unit claim_cmd" where
  "update_wallet i f = cmodify (\<lambda>w. w\<lparr>cw_state := (cw_state w)\<lparr>cs_claim_wallets :=
     (cs_claim_wallets (cw_state w))[i := f (cs_claim_wallets (cw_state w) ! i)]\<rparr>\<rparr>)"

text \<open>An assignment to a field, and whether it changed the field.\<close>

definition note_change :: "nat \<Rightarrow> (claim_wallet \<Rightarrow> bool) \<Rightarrow> (claim_wallet \<Rightarrow> claim_wallet) \<Rightarrow> bool claim_cmd" where
  "note_change i differs f =
     cbind (wallet_at i) (\<lambda>c.
       if differs c then cbind (update_wallet i f) (\<lambda>_. creturn True) else creturn False)"

definition note_xrp :: "nat \<Rightarrow> int \<Rightarrow> bool claim_cmd" where
  "note_xrp i drops = note_change i (\<lambda>c. cw_last_known_xrp_balance_drops c \<noteq> Some drops)
     (\<lambda>c. c\<lparr>cw_last_known_xrp_balance_drops := Some drops\<rparr>)"

definition note_balance :: "nat \<Rightarrow> pydec \<Rightarrow> bool claim_cmd" where
  "note_balance i balance = note_change i (\<lambda>c. dec_differs (cw_last_known_balance c) balance)
     (\<lambda>c. c\<lparr>cw_last_known_balance := balance\<rparr>)"

definition deleted_wallet :: "rat \<Rightarrow> claim_wallet \<Rightarrow> claim_wallet" where
  "deleted_wallet now c = c\<lparr>cw_status := DELETED, cw_deleted_at := Some now,
     cw_last_known_balance := (if dec_differs (cw_last_known_balance c) (dec_of_int 0) then dec_of_int 0 else cw_last_known_balance c),
     cw_last_known_xrp_balance_drops := Some 0, cw_last_error := PNone\<rparr>"

definition differs_from_deleted :: "rat \<Rightarrow> claim_wallet \<Rightarrow> bool" where
  "differs_from_deleted now c \<longleftrightarrow> cw_status c \<noteq> DELETED \<or> cw_deleted_at c \<noteq> Some now
     \<or> dec_differs (cw_last_known_balance c) (dec_of_int 0) \<or> cw_last_known_xrp_balance_drops c \<noteq> Some 0 \<or> cw_last_error c \<noteq> PNone"

definition mark_claim_wallet_deleted :: "nat \<Rightarrow> rat \<Rightarrow> bool claim_cmd" where
  "mark_claim_wallet_deleted i now = note_change i (differs_from_deleted now) (deleted_wallet now)"

definition set_failed :: "nat \<Rightarrow> string \<Rightarrow> string \<Rightarrow> unit claim_cmd" where
  "set_failed i status message = update_wallet i (\<lambda>c. c\<lparr>cw_status := status, cw_last_error := PStr message\<rparr>)"

record recovery_summary =
  rs_recovered_amount :: pydec
  rs_deleted_wallets :: int
  rs_processed_wallets :: int

definition processed :: "pydec \<Rightarrow> int \<Rightarrow> recovery_summary" where
  "processed recovered deleted = \<lparr>rs_recovered_amount = recovered, rs_deleted_wallets = deleted, rs_processed_wallets = 1\<rparr>"


section \<open>The operations of one token\<close>

definition get_asset_balance :: "claim_asset \<Rightarrow> dev_env \<Rightarrow> string \<Rightarrow> string \<Rightarrow> ('x, pydec) dev_cmd" where
  "get_asset_balance A E address issuer = (case A of
       Rlusd \<Rightarrow> get_validated_trustline_balance E address issuer RLUSD_CODE
     | Usdc \<Rightarrow> get_validated_usdc_trustline_balance E address issuer)"

definition ensure_asset_trustline :: "claim_asset \<Rightarrow> dev_env \<Rightarrow> wallet \<Rightarrow> string \<Rightarrow> ('x, string option) dev_cmd" where
  "ensure_asset_trustline A E W issuer = (case A of
       Rlusd \<Rightarrow> ensure_rlusd_trustline E W issuer
     | Usdc \<Rightarrow> ensure_usdc_trustline E W issuer)"

definition reset_asset_trustline :: "claim_asset \<Rightarrow> dev_env \<Rightarrow> wallet \<Rightarrow> string \<Rightarrow> ('x, string option) dev_cmd" where
  "reset_asset_trustline A E W issuer = (case A of
       Rlusd \<Rightarrow> reset_rlusd_trustline E W issuer
     | Usdc \<Rightarrow> reset_usdc_trustline E W issuer)"

definition submit_asset_payment :: "claim_asset \<Rightarrow> dev_env \<Rightarrow> wallet \<Rightarrow> string \<Rightarrow> string \<Rightarrow> pydec \<Rightarrow> ('x, string) dev_cmd" where
  "submit_asset_payment A E W destination issuer amount = (case A of
       Rlusd \<Rightarrow> submit_validated_rlusd_payment E W destination issuer amount
     | Usdc \<Rightarrow> submit_validated_usdc_payment E W destination issuer amount)"


section \<open>Sweep, reset, delete\<close>

text \<open>All of the balance goes to the accumulator, and the run waits for it to arrive.\<close>

definition sweep_balance :: "claim_asset \<Rightarrow> dev_env \<Rightarrow> wallet \<Rightarrow> wallet \<Rightarrow> string \<Rightarrow> nat \<Rightarrow> pydec \<Rightarrow> unit claim_cmd" where
  "sweep_balance A E W accumulator issuer i balance =
     cbind (ensure_asset_trustline A E accumulator issuer) (\<lambda>_.
     cbind (get_asset_balance A E (wl_address accumulator) issuer) (\<lambda>starting_balance.
     cbind (submit_asset_payment A E W (wl_address accumulator) issuer balance) (\<lambda>tx_hash.
     cbind (update_wallet i (\<lambda>c. c\<lparr>cw_sweep_tx_hash := PStr tx_hash\<rparr>)) (\<lambda>_.
     cbind (wait_for_trustline_balance_increase E (wl_address accumulator) issuer starting_balance balance (asset_code A)) (\<lambda>_.
       update_wallet i (\<lambda>c. c\<lparr>cw_last_known_balance := dec_of_int 0, cw_status := SWEPT A, cw_last_error := PNone\<rparr>))))))"

text \<open>Removing the trust line: whether the recovery can go on to delete the account, and what changed.\<close>

definition remove_trustline :: "claim_asset \<Rightarrow> dev_env \<Rightarrow> wallet \<Rightarrow> string \<Rightarrow> nat \<Rightarrow> (bool \<times> bool) claim_cmd" where
  "remove_trustline A E W issuer i =
     cbind (wallet_at i) (\<lambda>c. let address = cw_classic_address c in
     cbind (get_validated_trustline E address issuer (asset_code A)) (\<lambda>line. case line of
         None \<Rightarrow> creturn (True, False)
       | Some l \<Rightarrow>
           cbind (clift (rbind (vget_default l ''balance'' (PStr ''0'')) dec_of_val)) (\<lambda>balance.
           cbind (clift (dec_lt (dec_of_int 0) balance)) (\<lambda>positive.
             if positive then
               cbind (update_wallet i (\<lambda>c. c\<lparr>cw_last_known_balance := balance\<rparr>)) (\<lambda>_.
               cbind (set_failed i DELETE_FAILED (asset_code A @ '' trustline for '' @ address @ '' still has balance '' @ dec_str balance))
                 (\<lambda>_. creturn (False, True)))
             else
               cbind (reset_asset_trustline A E W issuer) (\<lambda>tx_hash.
               cbind (case tx_hash of None \<Rightarrow> creturn False
                      | Some h \<Rightarrow> cbind (update_wallet i (\<lambda>c. c\<lparr>cw_trustline_reset_tx_hash := PStr h\<rparr>)) (\<lambda>_. creturn True)) (\<lambda>changed.
               cbind (wait_for_trustline_removal E address issuer (asset_code A)) (\<lambda>gone.
                 if gone then creturn (True, changed)
                 else cbind (set_failed i DELETE_FAILED (asset_code A @ '' trustline for '' @ address @ '' still blocks AccountDelete''))
                   (\<lambda>_. creturn (False, True)))))))))"

text \<open>The account is deleted when enough ledgers have passed since it was created.\<close>

definition delete_when_ready ::
  "claim_asset \<Rightarrow> dev_env \<Rightarrow> wallet \<Rightarrow> wallet \<Rightarrow> nat \<Rightarrow> rat \<Rightarrow> bool \<Rightarrow> pydec \<Rightarrow> account_root \<Rightarrow> (bool \<times> recovery_summary) claim_cmd" where
  "delete_when_ready A E W accumulator i now changed recovered acct =
     cbind (clift (rbind (vindex (ac_data acct) ''Balance'') int_of_val)) (\<lambda>xrp.
     cbind (update_wallet i (\<lambda>c. c\<lparr>cw_last_known_xrp_balance_drops := Some xrp\<rparr>)) (\<lambda>_.
     cbind (clift (account_delete_is_ready acct)) (\<lambda>ready.
       if \<not> ready then
         cbind (clift (next_account_delete_eligible_ledger acct)) (\<lambda>next_ledger.
         cbind (wallet_at i) (\<lambda>c.
         cbind (clift (case A of Rlusd \<Rightarrow> Inr (cw_claim_tx_hash c \<noteq> PNone) | Usdc \<Rightarrow> dec_lt (dec_of_int 0) recovered)) (\<lambda>swept.
         cbind (update_wallet i (\<lambda>c. c\<lparr>cw_status := (if swept then SWEPT A else cw_status c),
           cw_last_error := PStr (''AccountDelete not yet eligible until validated ledger '' @ show_int next_ledger)\<rparr>)) (\<lambda>_.
           creturn (True, processed recovered 0)))))
       else
         ctry_else (submit_validated_account_delete E W (wl_address accumulator))
           (\<lambda>e. cbind (set_failed i DELETE_FAILED (str_exn e)) (\<lambda>_. creturn (True, processed recovered 0)))
           (\<lambda>tx_hash.
             cbind (update_wallet i (\<lambda>c. c\<lparr>cw_account_delete_tx_hash := PStr tx_hash\<rparr>)) (\<lambda>_.
             cbind (mark_claim_wallet_deleted i now) (\<lambda>marked. creturn (changed \<or> marked, processed recovered 1)))))))"

definition finish_recovery ::
  "claim_asset \<Rightarrow> dev_env \<Rightarrow> wallet \<Rightarrow> wallet \<Rightarrow> string \<Rightarrow> nat \<Rightarrow> rat \<Rightarrow> bool \<Rightarrow> pydec \<Rightarrow> (bool \<times> recovery_summary) claim_cmd" where
  "finish_recovery A E W accumulator issuer i now changed recovered =
     cbind (remove_trustline A E W issuer i) (\<lambda>(go_on, removed).
       if \<not> go_on then creturn (True, processed recovered 0)
       else
         cbind (wallet_at i) (\<lambda>c.
         cbind (get_validated_account_root E (cw_classic_address c)) (\<lambda>acct. case acct of
             None \<Rightarrow> cbind (mark_claim_wallet_deleted i now) (\<lambda>marked. creturn (changed \<or> removed \<or> marked, processed recovered 1))
           | Some r \<Rightarrow> delete_when_ready A E W accumulator i now (changed \<or> removed) recovered r)))"

text \<open>The account exists: what it holds is noted and swept.\<close>

definition recover_existing ::
  "claim_asset \<Rightarrow> dev_env \<Rightarrow> wallet \<Rightarrow> wallet \<Rightarrow> string \<Rightarrow> nat \<Rightarrow> rat \<Rightarrow> account_root \<Rightarrow> (bool \<times> recovery_summary) claim_cmd" where
  "recover_existing A E W accumulator issuer i now acct =
     cbind (wallet_at i) (\<lambda>c.
     cbind (clift (rbind (vindex (ac_data acct) ''Balance'') int_of_val)) (\<lambda>xrp.
     cbind (note_xrp i xrp) (\<lambda>xrp_changed.
     cbind (get_asset_balance A E (cw_classic_address c) issuer) (\<lambda>balance.
     cbind (note_balance i balance) (\<lambda>balance_changed.
     cbind (if A = Usdc \<and> cw_status c = AWAITING_MANUAL_FUNDING then clift (dec_le balance (dec_of_int 0)) else creturn False) (\<lambda>waiting.
       if waiting then creturn (xrp_changed \<or> balance_changed, processed (dec_of_int 0) 0)
       else
         cbind (clift (dec_lt (dec_of_int 0) balance)) (\<lambda>positive.
           if positive then
             cbind (sweep_balance A E W accumulator issuer i balance) (\<lambda>_.
             cbind (clift (dec_add (dec_of_int 0) balance)) (\<lambda>recovered.
               finish_recovery A E W accumulator issuer i now True recovered))
           else finish_recovery A E W accumulator issuer i now (xrp_changed \<or> balance_changed) (dec_of_int 0))))))))"

definition recover_wallet ::
  "claim_asset \<Rightarrow> dev_env \<Rightarrow> nat \<Rightarrow> wallet \<Rightarrow> string \<Rightarrow> rat \<Rightarrow> (bool \<times> recovery_summary) claim_cmd" where
  "recover_wallet A E i accumulator issuer now =
     cbind (wallet_at i) (\<lambda>c. case te_from_seed E (cw_seed c) of
         Inl e \<Rightarrow>
           if cw_status c \<noteq> DELETE_FAILED \<or> cw_last_error c \<noteq> PStr (str_exn e)
             then cbind (set_failed i DELETE_FAILED (str_exn e)) (\<lambda>_. creturn (True, processed (dec_of_int 0) 0))
           else creturn (False, processed (dec_of_int 0) 0)
       | Inr W \<Rightarrow>
           cbind (get_validated_account_root E (cw_classic_address c)) (\<lambda>acct. case acct of
               None \<Rightarrow> cbind (mark_claim_wallet_deleted i now) (\<lambda>marked. creturn (marked, processed (dec_of_int 0) 1))
             | Some r \<Rightarrow> recover_existing A E W accumulator issuer i now r))"

definition recover_claim_wallet :: "dev_env \<Rightarrow> nat \<Rightarrow> wallet \<Rightarrow> string \<Rightarrow> rat \<Rightarrow> (bool \<times> recovery_summary) claim_cmd" where
  "recover_claim_wallet E i accumulator issuer now = recover_wallet Rlusd E i accumulator issuer now"

definition recover_usdc_claim_wallet :: "dev_env \<Rightarrow> nat \<Rightarrow> wallet \<Rightarrow> string \<Rightarrow> rat \<Rightarrow> (bool \<times> recovery_summary) claim_cmd" where
  "recover_usdc_claim_wallet E i accumulator issuer now = recover_wallet Usdc E i accumulator issuer now"


section \<open>All tracked wallets\<close>

definition add_summaries :: "recovery_summary \<Rightarrow> recovery_summary \<Rightarrow> exn + recovery_summary" where
  "add_summaries a b =
     rbind (dec_add (rs_recovered_amount a) (rs_recovered_amount b)) (\<lambda>amount.
       Inr \<lparr>rs_recovered_amount = amount, rs_deleted_wallets = rs_deleted_wallets a + rs_deleted_wallets b,
            rs_processed_wallets = rs_processed_wallets a + rs_processed_wallets b\<rparr>)"

definition no_recovery :: recovery_summary where
  "no_recovery = \<lparr>rs_recovered_amount = dec_of_int 0, rs_deleted_wallets = 0, rs_processed_wallets = 0\<rparr>"

text \<open>The loop over the wallets at positions \<open>is\<close>; each change is written at once.\<close>

fun recover_each ::
  "(nat \<Rightarrow> (bool \<times> recovery_summary) claim_cmd) \<Rightarrow> unit claim_cmd \<Rightarrow> nat list \<Rightarrow> bool \<Rightarrow> recovery_summary
     \<Rightarrow> (bool \<times> recovery_summary) claim_cmd" where
  "recover_each recover save [] changed summary = creturn (changed, summary)"
| "recover_each recover save (i # is) changed summary =
     cbind (wallet_at i) (\<lambda>c.
       if cw_status c = DELETED then recover_each recover save is changed summary
       else
         cbind (recover i) (\<lambda>(wallet_changed, wallet_summary).
         cbind (if wallet_changed then save else creturn ()) (\<lambda>_.
         cbind (clift (add_summaries summary wallet_summary)) (\<lambda>total.
           recover_each recover save is (changed \<or> wallet_changed) total))))"

definition set_claim_state :: "claim_state \<Rightarrow> unit claim_cmd" where
  "set_claim_state s = cmodify (\<lambda>w. w\<lparr>cw_state := s\<rparr>)"

text \<open>\<open>path.exists()\<close>: a link that leads nowhere does not exist.\<close>

definition path_exists :: "string \<Rightarrow> ('x, bool) dev_cmd" where
  "path_exists path = cbind (read_file path) (\<lambda>f. creturn (f \<noteq> None \<and> f \<noteq> Some LinkFile))"

definition recover_tracked_claim_wallets :: "dev_env \<Rightarrow> wallet \<Rightarrow> string \<Rightarrow> string \<Rightarrow> rat \<Rightarrow> recovery_summary claim_cmd" where
  "recover_tracked_claim_wallets E accumulator issuer path now =
     cbind (load_rlusd_claim_state E path (wl_address accumulator) issuer) (\<lambda>s.
     cbind (set_claim_state s) (\<lambda>_.
     cbind (recover_each (\<lambda>i. recover_claim_wallet E i accumulator issuer now) (write_rlusd_claim_state E path)
              [0..<length (cs_claim_wallets s)] False no_recovery) (\<lambda>(changed, summary).
     cbind (path_exists path) (\<lambda>found.
     cbind (if changed \<and> \<not> found then write_rlusd_claim_state E path else creturn ()) (\<lambda>_.
       creturn summary)))))"

definition recover_tracked_usdc_claim_wallets :: "dev_env \<Rightarrow> wallet \<Rightarrow> string \<Rightarrow> string \<Rightarrow> rat \<Rightarrow> recovery_summary claim_cmd" where
  "recover_tracked_usdc_claim_wallets E accumulator issuer path now =
     cbind (load_usdc_claim_state E path (wl_address accumulator) issuer) (\<lambda>s.
     cbind (set_claim_state s) (\<lambda>_.
     cbind (recover_each (\<lambda>i. recover_usdc_claim_wallet E i accumulator issuer now) (write_usdc_claim_state E path)
              [0..<length (cs_claim_wallets s)] False no_recovery) (\<lambda>(changed, summary).
     cbind (clift (dec_lt (dec_of_int 0) (rs_recovered_amount summary))) (\<lambda>recovered.
     cbind (if recovered then cmodify (\<lambda>w. w\<lparr>cw_state := (cw_state w)\<lparr>cs_last_successful_session_claim_at := Some now\<rparr>\<rparr>)
            else creturn ()) (\<lambda>_.
     cbind (if changed \<or> recovered then write_usdc_claim_state E path else creturn ()) (\<lambda>_.
       creturn summary))))))"

end
