(* ===== verification/ClaimTopup.thy ===== *)
theory ClaimTopup
  imports ClaimRecover
begin

text \<open>
  \<open>src/devtools/live_testnet_support.py\<close>: claiming test tokens. \<open>claim_rlusd_topup\<close> recovers the old claim
  wallets, respects the faucet's cooldown, claims to a new wallet that is in the state file before, and
  passes the tokens on to the buyer; \<open>prepare_usdc_topup\<close> does the same with a faucet that a person uses.
\<close>

section \<open>To the buyer\<close>

datatype topup_wallets = Pair live_wallet_pair | Demo demo_wallet_set

definition bridge_enabled :: "topup_wallets \<Rightarrow> bool" where
  "bridge_enabled wallets = (case wallets of Demo _ \<Rightarrow> True | Pair _ \<Rightarrow> False)"

definition demo_asset :: "claim_asset \<Rightarrow> string" where
  "demo_asset A = (case A of Rlusd \<Rightarrow> DEMO_WALLET_RLUSD | Usdc \<Rightarrow> DEMO_WALLET_USDC)"

definition resolve_topup_wallets :: "topup_wallets \<Rightarrow> string \<Rightarrow> exn + wallet \<times> wallet" where
  "resolve_topup_wallets wallets asset = (case wallets of
       Demo d \<Rightarrow> rbind (buyer_wallet d asset) (\<lambda>b. Inr (dws_merchant_wallet d, b))
     | Pair p \<Rightarrow> Inr (lp_wallet_a p, lp_wallet_b p))"

definition bridge_issued_balance_to_buyer :: "claim_asset \<Rightarrow> dev_env \<Rightarrow> wallet \<Rightarrow> wallet \<Rightarrow> string \<Rightarrow> ('x, pydec) dev_cmd" where
  "bridge_issued_balance_to_buyer A E accumulator buyer issuer =
     (if wl_address accumulator = wl_address buyer then creturn (dec_of_int 0)
      else
        cbind (get_asset_balance A E (wl_address accumulator) issuer) (\<lambda>accumulator_balance.
        cbind (clift (dec_le accumulator_balance (dec_of_int 0))) (\<lambda>nothing.
        if nothing then creturn (dec_of_int 0)
        else
          cbind (ensure_asset_trustline A E buyer issuer) (\<lambda>_.
          cbind (get_asset_balance A E (wl_address buyer) issuer) (\<lambda>starting_balance.
          cbind (submit_asset_payment A E accumulator (wl_address buyer) issuer accumulator_balance) (\<lambda>_.
          cbind (wait_for_trustline_balance_increase E (wl_address buyer) issuer starting_balance accumulator_balance (asset_code A)) (\<lambda>_.
            creturn accumulator_balance)))))))"

definition bridge_rlusd_to_buyer :: "dev_env \<Rightarrow> wallet \<Rightarrow> wallet \<Rightarrow> string \<Rightarrow> ('x, pydec) dev_cmd" where
  "bridge_rlusd_to_buyer E accumulator buyer issuer = bridge_issued_balance_to_buyer Rlusd E accumulator buyer issuer"

definition bridge_usdc_to_buyer :: "dev_env \<Rightarrow> wallet \<Rightarrow> wallet \<Rightarrow> string \<Rightarrow> ('x, pydec) dev_cmd" where
  "bridge_usdc_to_buyer E accumulator buyer issuer = bridge_issued_balance_to_buyer Usdc E accumulator buyer issuer"

definition safe_issued_balance_lookup :: "claim_asset \<Rightarrow> dev_env \<Rightarrow> string \<Rightarrow> string \<Rightarrow> ('x, pydec option) dev_cmd" where
  "safe_issued_balance_lookup A E address issuer =
     ctry (cbind (get_asset_balance A E address issuer) (\<lambda>b. creturn (Some b))) (\<lambda>_. creturn None)"

definition bridge_failure_message ::
  "string \<Rightarrow> string \<Rightarrow> wallet \<Rightarrow> wallet \<Rightarrow> exn \<Rightarrow> pydec option \<Rightarrow> string" where
  "bridge_failure_message base_message code accumulator buyer e remaining =
     (let remaining_text = (case remaining of
          None \<Rightarrow> ''Funds remain on accumulator wallet '' @ wl_address accumulator @ ''.''
        | Some b \<Rightarrow> dec_str b @ '' '' @ code @ '' remain on accumulator wallet '' @ wl_address accumulator @ ''.'') in
      base_message @ '' Failed to fund buyer wallet '' @ wl_address buyer @ ''. '' @ remaining_text @ '' Original error: '' @ str_exn e)"

record topup_result =
  tu_status :: string
  tu_canonical_wallet_address :: string
  tu_claim_state_path :: string
  tu_message :: string
  tu_claim_tx_hash :: "string option"
  tu_cooldown_until :: "rat option"
  tu_swept_amount :: pydec
  tu_deleted_wallets :: int
  tu_created_claim_wallet_address :: "string option"
  tu_buyer_wallet_address :: "string option"
  tu_bridged_amount :: pydec

definition topup_result_of :: "string \<Rightarrow> wallet \<Rightarrow> string \<Rightarrow> string \<Rightarrow> recovery_summary \<Rightarrow> topup_result" where
  "topup_result_of status accumulator path message recovery =
     \<lparr>tu_status = status, tu_canonical_wallet_address = wl_address accumulator, tu_claim_state_path = path, tu_message = message,
      tu_claim_tx_hash = None, tu_cooldown_until = None, tu_swept_amount = rs_recovered_amount recovery,
      tu_deleted_wallets = rs_deleted_wallets recovery, tu_created_claim_wallet_address = None, tu_buyer_wallet_address = None,
      tu_bridged_amount = dec_of_int 0\<rparr>"

definition bridged :: "claim_asset \<Rightarrow> wallet \<Rightarrow> topup_result \<Rightarrow> pydec \<Rightarrow> exn + topup_result" where
  "bridged A buyer result amount =
     rbind (dec_lt (dec_of_int 0) amount) (\<lambda>positive.
       Inr (result\<lparr>tu_message := (if positive then tu_message result @ '' Funded buyer wallet '' @ wl_address buyer @ '' with '' @
              dec_str amount @ '' '' @ asset_code A @ ''.'' else tu_message result),
            tu_buyer_wallet_address := Some (wl_address buyer), tu_bridged_amount := amount\<rparr>))"

text \<open>A failure to fund the buyer is reported in the result, not raised.\<close>

definition finalize_topup_result ::
  "claim_asset \<Rightarrow> dev_env \<Rightarrow> topup_result \<Rightarrow> wallet \<Rightarrow> wallet \<Rightarrow> string \<Rightarrow> bool \<Rightarrow> ('x, topup_result) dev_cmd" where
  "finalize_topup_result A E result accumulator buyer issuer enabled =
     (if \<not> enabled then creturn (result\<lparr>tu_buyer_wallet_address := Some (wl_address buyer)\<rparr>)
      else ctry_else
        (case A of Rlusd \<Rightarrow> bridge_rlusd_to_buyer E accumulator buyer issuer | Usdc \<Rightarrow> bridge_usdc_to_buyer E accumulator buyer issuer)
        (\<lambda>e. cbind (safe_issued_balance_lookup A E (wl_address accumulator) issuer) (\<lambda>remaining.
           creturn (result\<lparr>tu_status := ''bridge_failed'',
             tu_message := bridge_failure_message (tu_message result) (asset_code A) accumulator buyer e remaining,
             tu_buyer_wallet_address := Some (wl_address buyer)\<rparr>)))
        (\<lambda>amount. clift (bridged A buyer result amount)))"

definition finalize_rlusd_topup_result ::
  "dev_env \<Rightarrow> topup_result \<Rightarrow> wallet \<Rightarrow> wallet \<Rightarrow> string \<Rightarrow> bool \<Rightarrow> ('x, topup_result) dev_cmd" where
  "finalize_rlusd_topup_result E result accumulator buyer issuer enabled =
     finalize_topup_result Rlusd E result accumulator buyer issuer enabled"

definition finalize_usdc_topup_result ::
  "dev_env \<Rightarrow> topup_result \<Rightarrow> wallet \<Rightarrow> wallet \<Rightarrow> string \<Rightarrow> bool \<Rightarrow> ('x, topup_result) dev_cmd" where
  "finalize_usdc_topup_result E result accumulator buyer issuer enabled =
     finalize_topup_result Usdc E result accumulator buyer issuer enabled"


section \<open>From the second wallet to the first\<close>

definition consolidate_to_wallet_a :: "claim_asset \<Rightarrow> dev_env \<Rightarrow> live_wallet_pair \<Rightarrow> string \<Rightarrow> ('x, pydec) dev_cmd" where
  "consolidate_to_wallet_a A E wallets issuer =
     (let a = lp_wallet_a wallets; b = lp_wallet_b wallets in
      cbind (get_asset_balance A E (wl_address b) issuer) (\<lambda>secondary_balance.
      cbind (clift (dec_le secondary_balance (dec_of_int 0))) (\<lambda>nothing.
      if nothing then creturn (dec_of_int 0)
      else
        cbind (ensure_asset_trustline A E a issuer) (\<lambda>_.
        cbind (get_asset_balance A E (wl_address a) issuer) (\<lambda>starting_balance.
        cbind (submit_asset_payment A E b (wl_address a) issuer secondary_balance) (\<lambda>_.
        cbind (wait_for_trustline_balance_increase E (wl_address a) issuer starting_balance secondary_balance (asset_code A)) (\<lambda>_.
          creturn secondary_balance)))))))"

definition consolidate_rlusd_to_wallet_a :: "dev_env \<Rightarrow> live_wallet_pair \<Rightarrow> string \<Rightarrow> ('x, pydec) dev_cmd" where
  "consolidate_rlusd_to_wallet_a E wallets issuer = consolidate_to_wallet_a Rlusd E wallets issuer"

definition consolidate_usdc_to_wallet_a :: "dev_env \<Rightarrow> live_wallet_pair \<Rightarrow> string \<Rightarrow> ('x, pydec) dev_cmd" where
  "consolidate_usdc_to_wallet_a E wallets issuer = consolidate_to_wallet_a Usdc E wallets issuer"


section \<open>Claiming RLUSD\<close>

abbreviation RLUSD_FAUCET_DRIP_AMOUNT :: int where "RLUSD_FAUCET_DRIP_AMOUNT \<equiv> 10"
abbreviation CLAIM_CONTEXT :: string where "CLAIM_CONTEXT \<equiv> ''xrpl-x402-facilitator-rlusd-claim''"
abbreviation USDC_CLAIM_CONTEXT :: string where "USDC_CLAIM_CONTEXT \<equiv> ''xrpl-x402-facilitator-usdc-claim''"
abbreviation TRYRLUSD_SESSION_TOKEN_ENV :: string where "TRYRLUSD_SESSION_TOKEN_ENV \<equiv> ''TRYRLUSD_SESSION_TOKEN''"

text \<open>The end of the cooldown, while it lasts.\<close>

definition cooling_down :: "rat \<Rightarrow> rat option \<Rightarrow> rat option" where
  "cooling_down now cooldown_until = (case cooldown_until of
       Some t \<Rightarrow> if now < t then Some t else None
     | None \<Rightarrow> None)"

definition set_last_claim :: "rat \<Rightarrow> string \<Rightarrow> unit claim_cmd" where
  "set_last_claim now tx_hash = cmodify (\<lambda>w. w\<lparr>cw_state := (cw_state w)\<lparr>cs_last_successful_session_claim_at := Some now,
     cs_last_successful_session_claim_tx_hash := PStr tx_hash\<rparr>\<rparr>)"

definition set_last_attempt :: "rat \<Rightarrow> unit claim_cmd" where
  "set_last_attempt now = cmodify (\<lambda>w. w\<lparr>cw_state := (cw_state w)\<lparr>cs_last_attempt_at := Some now\<rparr>\<rparr>)"

text \<open>The new wallet is the last of the list.\<close>

definition track_wallet :: "claim_wallet \<Rightarrow> nat claim_cmd" where
  "track_wallet c =
     cbind (cget (\<lambda>w. length (cs_claim_wallets (cw_state w)))) (\<lambda>i.
     cbind (cmodify (\<lambda>w. w\<lparr>cw_state := (cw_state w)\<lparr>cs_claim_wallets := cs_claim_wallets (cw_state w) @ [c]\<rparr>\<rparr>)) (\<lambda>_.
       creturn i))"

definition pystr_option :: "string option \<Rightarrow> pyval" where
  "pystr_option s = (case s of None \<Rightarrow> PNone | Some t \<Rightarrow> PStr t)"

text \<open>The body of the \<open>try\<close>: trust line, mint, wait, recovery, each step noted in the file.\<close>

definition minted_steps ::
  "dev_env \<Rightarrow> wallet \<Rightarrow> wallet \<Rightarrow> string \<Rightarrow> string \<Rightarrow> rat \<Rightarrow> nat \<Rightarrow> string \<Rightarrow> string claim_cmd" where
  "minted_steps E new accumulator issuer path now i claim_tx_hash =
     cbind (update_wallet i (\<lambda>c. c\<lparr>cw_claim_tx_hash := PStr claim_tx_hash, cw_status := CLAIMED, cw_last_error := PNone\<rparr>)) (\<lambda>_.
     cbind (write_rlusd_claim_state E path) (\<lambda>_.
     cbind (wait_for_trustline_balance_increase E (wl_address new) issuer (dec_of_int 0) (dec_of_int RLUSD_FAUCET_DRIP_AMOUNT) RLUSD_CODE) (\<lambda>_.
     cbind (set_last_claim now claim_tx_hash) (\<lambda>_.
     cbind (write_rlusd_claim_state E path) (\<lambda>_.
     cbind (recover_claim_wallet E i accumulator issuer now) (\<lambda>_.
     cbind (write_rlusd_claim_state E path) (\<lambda>_.
       creturn claim_tx_hash)))))))"

definition claim_to_wallet ::
  "dev_env \<Rightarrow> wallet \<Rightarrow> wallet \<Rightarrow> string \<Rightarrow> string \<Rightarrow> string \<Rightarrow> rat \<Rightarrow> nat \<Rightarrow> string claim_cmd" where
  "claim_to_wallet E new accumulator issuer path session_token now i =
     cbind (ensure_rlusd_trustline E new issuer) (\<lambda>trustline_hash.
     cbind (update_wallet i (\<lambda>c. c\<lparr>cw_trustline_create_tx_hash := pystr_option trustline_hash, cw_claim_attempted_at := Some now\<rparr>)) (\<lambda>_.
     cbind (write_rlusd_claim_state E path) (\<lambda>_.
     cbind (mint_rlusd_to_address E (wl_address new) session_token) (minted_steps E new accumulator issuer path now i))))"

definition claimed_result ::
  "wallet \<Rightarrow> wallet \<Rightarrow> string \<Rightarrow> recovery_summary \<Rightarrow> string \<Rightarrow> nat \<Rightarrow> claim_state \<Rightarrow> exn + topup_result" where
  "claimed_result new accumulator path recovery claim_tx_hash i s =
     rbind (dec_add (rs_recovered_amount recovery) (dec_of_int RLUSD_FAUCET_DRIP_AMOUNT)) (\<lambda>swept.
       Inr ((topup_result_of ''claimed'' accumulator path
               (''Claimed '' @ show_int RLUSD_FAUCET_DRIP_AMOUNT @ '' RLUSD to '' @ wl_address new) recovery)
            \<lparr>tu_claim_tx_hash := Some claim_tx_hash, tu_cooldown_until := next_rlusd_claim_time s, tu_swept_amount := swept,
             tu_deleted_wallets := rs_deleted_wallets recovery + (if cw_status (cs_claim_wallets s ! i) = DELETED then 1 else 0),
             tu_created_claim_wallet_address := Some (wl_address new)\<rparr>))"

text \<open>Either \<open>except\<close> clause: the wallet is marked, recovered as far as possible, and the failure reported.\<close>

definition claim_not_made ::
  "dev_env \<Rightarrow> wallet \<Rightarrow> wallet \<Rightarrow> wallet \<Rightarrow> string \<Rightarrow> string \<Rightarrow> rat \<Rightarrow> nat \<Rightarrow> recovery_summary \<Rightarrow> bool \<Rightarrow> exn \<Rightarrow> topup_result claim_cmd" where
  "claim_not_made E new accumulator buyer issuer path now i recovery enabled e =
     cbind (update_wallet i (\<lambda>c. c\<lparr>cw_claim_attempted_at := Some now, cw_status := CLAIM_FAILED, cw_last_error := PStr (str_exn e)\<rparr>)) (\<lambda>_.
     cbind (recover_claim_wallet E i accumulator issuer now) (\<lambda>_.
     cbind (write_rlusd_claim_state E path) (\<lambda>_.
       let limited = (case e of RLUSDMintRateLimitedError _ \<Rightarrow> True | _ \<Rightarrow> False);
           result = topup_result_of (if limited then ''rate_limited'' else ''claim_failed'') accumulator path
             (if limited then str_exn e else ''RLUSD top-up failed: '' @ str_exn e) recovery in
       finalize_rlusd_topup_result E (result\<lparr>tu_created_claim_wallet_address := Some (wl_address new)\<rparr>) accumulator buyer issuer enabled)))"

text \<open>The result is built, and the buyer funded, inside the \<open>try\<close>.\<close>

definition claim_and_report ::
  "dev_env \<Rightarrow> wallet \<Rightarrow> wallet \<Rightarrow> wallet \<Rightarrow> string \<Rightarrow> string \<Rightarrow> string \<Rightarrow> rat \<Rightarrow> nat \<Rightarrow> recovery_summary \<Rightarrow> bool \<Rightarrow> topup_result claim_cmd" where
  "claim_and_report E new accumulator buyer issuer path session_token now i recovery enabled =
     cbind (claim_to_wallet E new accumulator issuer path session_token now i) (\<lambda>claim_tx_hash.
     cbind (cget cw_state) (\<lambda>s.
     cbind (clift (claimed_result new accumulator path recovery claim_tx_hash i s)) (\<lambda>result.
       finalize_rlusd_topup_result E result accumulator buyer issuer enabled)))"

text \<open>A new wallet, tracked in the file before anything is done with it.\<close>

definition claim_with_new_wallet ::
  "dev_env \<Rightarrow> wallet \<Rightarrow> wallet \<Rightarrow> string \<Rightarrow> string \<Rightarrow> string \<Rightarrow> rat \<Rightarrow> recovery_summary \<Rightarrow> bool \<Rightarrow> topup_result claim_cmd" where
  "claim_with_new_wallet E accumulator buyer issuer path session_token now recovery enabled =
     cbind (set_last_attempt now) (\<lambda>_.
     cbind (write_rlusd_claim_state E path) (\<lambda>_.
     cbind (faucet_wallet E CLAIM_CONTEXT) (\<lambda>new. case wl_seed new of
         None \<Rightarrow> craise (RuntimeError ''Disposable claim wallet is missing a seed'')
       | Some seed \<Rightarrow>
           cbind (track_wallet (new_claim_wallet Rlusd (wl_address new) seed now)) (\<lambda>i.
           cbind (write_rlusd_claim_state E path) (\<lambda>_.
             ctry (claim_and_report E new accumulator buyer issuer path session_token now i recovery enabled)
               (claim_not_made E new accumulator buyer issuer path now i recovery enabled))))))"

definition claim_rlusd_topup ::
  "dev_env \<Rightarrow> topup_wallets \<Rightarrow> string \<Rightarrow> string option \<Rightarrow> rat \<Rightarrow> string \<Rightarrow> topup_result claim_cmd" where
  "claim_rlusd_topup E wallets issuer session_token now path =
     cbind (clift (resolve_topup_wallets wallets DEMO_WALLET_RLUSD)) (\<lambda>(accumulator, buyer).
     cbind (recover_tracked_claim_wallets E accumulator issuer path now) (\<lambda>recovery.
     cbind (ensure_rlusd_trustline E accumulator issuer) (\<lambda>_.
     cbind (cget cw_state) (\<lambda>s.
       let enabled = bridge_enabled wallets; token = (case session_token of None \<Rightarrow> [] | Some t \<Rightarrow> t) in
       case cooling_down now (next_rlusd_claim_time s) of
         Some cooldown_until \<Rightarrow>
           finalize_rlusd_topup_result E
             ((topup_result_of ''cooldown'' accumulator path (''Skipping RLUSD claim until '' @ te_iso E cooldown_until) recovery)
              \<lparr>tu_cooldown_until := Some cooldown_until\<rparr>) accumulator buyer issuer enabled
       | None \<Rightarrow>
           if token = [] then
             finalize_rlusd_topup_result E
               (topup_result_of ''missing_token'' accumulator path (''Recovered tracked claim wallets. Set '' @ TRYRLUSD_SESSION_TOKEN_ENV @
                  '' to attempt another RLUSD claim.'') recovery) accumulator buyer issuer enabled
           else claim_with_new_wallet E accumulator buyer issuer path token now recovery enabled))))"


section \<open>Preparing USDC\<close>

definition format_usdc_manual_claim_message :: "string \<Rightarrow> string" where
  "format_usdc_manual_claim_message address =
     ''Visit https://faucet.circle.com/, choose XRPL Testnet, and claim 20 USDC to '' @ address @
     ''. Then rerun `python -m devtools.usdc_topup` to sweep the funds into the shared accumulator wallet and fund the USDC buyer wallet.''"

definition awaiting_result :: "wallet \<Rightarrow> string \<Rightarrow> recovery_summary \<Rightarrow> string \<Rightarrow> topup_result" where
  "awaiting_result accumulator path recovery address =
     (topup_result_of ''awaiting_manual_claim'' accumulator path (format_usdc_manual_claim_message address) recovery)
       \<lparr>tu_created_claim_wallet_address := Some address\<rparr>"

definition prepare_new_wallet ::
  "dev_env \<Rightarrow> wallet \<Rightarrow> wallet \<Rightarrow> string \<Rightarrow> string \<Rightarrow> rat \<Rightarrow> recovery_summary \<Rightarrow> bool \<Rightarrow> topup_result claim_cmd" where
  "prepare_new_wallet E accumulator buyer issuer path now recovery enabled =
     cbind (faucet_wallet E USDC_CLAIM_CONTEXT) (\<lambda>new. case wl_seed new of
         None \<Rightarrow> craise (RuntimeError ''Disposable USDC claim wallet is missing a seed'')
       | Some seed \<Rightarrow>
           cbind (ensure_usdc_trustline E new issuer) (\<lambda>trustline_hash.
           cbind (track_wallet ((new_claim_wallet Usdc (wl_address new) seed now)
                    \<lparr>cw_trustline_create_tx_hash := pystr_option trustline_hash\<rparr>)) (\<lambda>_.
           cbind (set_last_attempt now) (\<lambda>_.
           cbind (write_usdc_claim_state E path) (\<lambda>_.
             finalize_usdc_topup_result E (awaiting_result accumulator path recovery (wl_address new)) accumulator buyer issuer enabled)))))"

definition prepare_usdc_topup :: "dev_env \<Rightarrow> topup_wallets \<Rightarrow> string \<Rightarrow> rat \<Rightarrow> string \<Rightarrow> topup_result claim_cmd" where
  "prepare_usdc_topup E wallets issuer now path =
     cbind (clift (resolve_topup_wallets wallets DEMO_WALLET_USDC)) (\<lambda>(accumulator, buyer).
     cbind (recover_tracked_usdc_claim_wallets E accumulator issuer path now) (\<lambda>recovery.
     cbind (ensure_usdc_trustline E accumulator issuer) (\<lambda>_.
     cbind (cget cw_state) (\<lambda>s.
       let enabled = bridge_enabled wallets in
       case List.find (\<lambda>c. cw_status c = AWAITING_MANUAL_FUNDING) (cs_claim_wallets s) of
         Some pending_wallet \<Rightarrow>
           finalize_usdc_topup_result E (awaiting_result accumulator path recovery (cw_classic_address pending_wallet))
             accumulator buyer issuer enabled
       | None \<Rightarrow>
           (case cooling_down now (next_usdc_claim_time s) of
              Some cooldown_until \<Rightarrow>
                finalize_usdc_topup_result E
                  ((topup_result_of ''cooldown'' accumulator path
                      (''Skipping USDC claim wallet creation until '' @ te_iso E cooldown_until) recovery)
                   \<lparr>tu_cooldown_until := Some cooldown_until\<rparr>) accumulator buyer issuer enabled
            | None \<Rightarrow> prepare_new_wallet E accumulator buyer issuer path now recovery enabled)))))"

end
