(* ===== verification/ClaimCorrect.thy ===== *)
theory ClaimCorrect
  imports ClaimTopup
begin

text \<open>
  Properties of the claim tools: a wallet that tokens are claimed to is in the state file before, no
  tracked wallet is lost, claims respect the faucet's cooldown, and a claim wallet is only deleted when
  it is empty.
\<close>

section \<open>What the state file says\<close>

text \<open>The tracked wallets, each with the seed that controls it.\<close>

definition wallet_ids :: "claim_state \<Rightarrow> (string \<times> string) set" where
  "wallet_ids s = set (map (\<lambda>c. (cw_classic_address c, cw_seed c)) (cs_claim_wallets s))"

definition id_of_item :: "pyval \<Rightarrow> (string \<times> string) option" where
  "id_of_item v = (case v of
       PDict q \<Rightarrow> (case (map_of q ''classic_address'', map_of q ''seed'') of
           (Some a, Some s) \<Rightarrow> Some (py_str a, py_str s) | _ \<Rightarrow> None)
     | _ \<Rightarrow> None)"

definition file_ids :: "string \<Rightarrow> (string \<Rightarrow> stored_file option) \<Rightarrow> (string \<times> string) set" where
  "file_ids path files = (case files path of
       Some (JsonFile (PDict d)) \<Rightarrow>
         (case dget_default d ''claim_wallets'' (PList []) of PList items \<Rightarrow> set (List.map_filter id_of_item items) | _ \<Rightarrow> {})
     | _ \<Rightarrow> {})"

text \<open>The file, if it holds a state, holds one of this accumulator and issuer.\<close>

definition owned_file :: "claim_asset \<Rightarrow> string \<Rightarrow> string \<Rightarrow> stored_file option \<Rightarrow> bool" where
  "owned_file A address issuer f \<longleftrightarrow> (case f of
       Some (JsonFile (PDict d)) \<Rightarrow> py_eq (dget d ''version'') (PInt (STATE_VERSION A)) \<and> same_owner address issuer d
     | _ \<Rightarrow> True)"

text \<open>No write is torn: it fails to open the file, or it fails once the new content is in place, or not at all.\<close>

definition no_torn_writes :: "dev_env \<Rightarrow> bool" where
  "no_torn_writes E \<longleftrightarrow> (\<forall>n e. te_write E n \<noteq> FailsBefore e)"


section \<open>Tracked wallets stay tracked\<close>

lemma advances_case_asset [advances_rules]:
  "advances g m \<Longrightarrow> advances g n \<Longrightarrow> advances g (case A of Rlusd \<Rightarrow> m | Usdc \<Rightarrow> n)"
  by (simp split: claim_asset.split)

definition tracked_call :: "dev_env \<Rightarrow> (string \<times> string) set \<Rightarrow> string \<Rightarrow> dev_call \<times> (string \<Rightarrow> stored_file option) \<Rightarrow> bool" where
  "tracked_call E S path entry \<longleftrightarrow> (case entry of (call, files) \<Rightarrow>
     S \<subseteq> file_ids path files
     \<and> (\<forall>a t. call = MintRlusd a t \<longrightarrow> (\<exists>history W seed. te_faucet_wallet E history CLAIM_CONTEXT = Inr W
          \<and> wl_address W = a \<and> wl_seed W = Some seed \<and> (a, seed) \<in> file_ids path files)))"

text \<open>The wallets in \<open>T\<close> are in the state and in the file, and so were those in \<open>S\<close> at each call; \<open>P\<close> holds of
  the claims made and of the time of the last one that the state knows.\<close>

definition claim_calls :: "'x dev_world_scheme \<Rightarrow> dev_call list" where
  "claim_calls w = filter (\<lambda>call. case call of MintRlusd _ _ \<Rightarrow> True | _ \<Rightarrow> False) (map fst (dw_log w))"

definition tracked :: "dev_env \<Rightarrow> (dev_call list \<Rightarrow> rat option \<Rightarrow> bool) \<Rightarrow> (string \<times> string) set \<Rightarrow> (string \<times> string) set \<Rightarrow> string \<Rightarrow> claim_world \<Rightarrow> bool" where
  "tracked E P S T path w \<longleftrightarrow> S \<subseteq> T \<and> T \<subseteq> wallet_ids (cw_state w) \<and> T \<subseteq> file_ids path (dw_files w)
     \<and> list_all (tracked_call E S path) (dw_log w) \<and> P (claim_calls w) (cs_last_successful_session_claim_at (cw_state w))"

lemma adv_log [advances_rules]: "(\<And>a t. call \<noteq> MintRlusd a t) \<Longrightarrow> advances (tracked E P S T path) (dev_log E call)"
  by (auto simp: advances_def dev_log_def tracked_def tracked_call_def claim_calls_def split: dev_call.split)

lemma adv_request [advances_rules]: "(\<And>a t. call \<noteq> MintRlusd a t) \<Longrightarrow> advances (tracked E P S T path) (dev_request E call)"
  unfolding dev_request_def by (intro advances_rules)

lemma adv_sleep [advances_rules]: "advances (tracked E P S T path) (dev_sleep t)" "advances (tracked E P S T path) dev_now"
  "advances (tracked E P S T path) (read_file p)"
  by (simp_all add: advances_def dev_sleep_def cmodify_def tracked_def claim_calls_def dev_now_def read_file_def cget_def)

lemma adv_queries [advances_rules]:
  "advances (tracked E P S T path) (get_validated_trustline E address issuer code)"
  "advances (tracked E P S T path) (get_validated_account_root E address)"
  unfolding get_validated_trustline_def get_validated_account_root_def current_validated_ledger_index_def Let_def
  by (intro advances_rules; simp)+

lemma adv_balance [advances_rules]:
  "advances (tracked E P S T path) (get_validated_trustline_balance E address issuer code)"
  "advances (tracked E P S T path) (get_asset_balance A E address issuer)"
  "advances (tracked E P S T path) (trustline_limit_is_sufficient E address issuer limit code)"
  unfolding get_asset_balance_def get_validated_usdc_trustline_balance_def get_validated_trustline_balance_def trustline_limit_is_sufficient_def
  by (intro advances_rules)+

lemma adv_submit [advances_rules]: "advances (tracked E P S T path) (submit_validated E tx W operation missing)"
  unfolding submit_validated_def by (intro advances_rules) simp

lemma adv_ensure [advances_rules]: "advances (tracked E P S T path) (ensure_issued_trustline E W issuer code hex limit operation)"
  unfolding ensure_issued_trustline_def by (intro advances_rules)

lemma adv_reset [advances_rules]: "advances (tracked E P S T path) (reset_issued_trustline E W issuer code hex operation)"
  unfolding reset_issued_trustline_def by (intro advances_rules)

lemma adv_payment [advances_rules]:
  "advances (tracked E P S T path) (submit_validated_issued_payment E W destination issuer amount hex operation)"
  unfolding submit_validated_issued_payment_def by (intro advances_rules)

lemma adv_delete [advances_rules]: "advances (tracked E P S T path) (submit_validated_account_delete E W destination)"
  unfolding submit_validated_account_delete_def account_delete_fee_drops_def by (intro advances_rules) simp

lemma adv_asset [advances_rules]:
  "advances (tracked E P S T path) (ensure_asset_trustline A E W issuer)"
  "advances (tracked E P S T path) (ensure_rlusd_trustline E W issuer)"
  "advances (tracked E P S T path) (ensure_usdc_trustline E W issuer)"
  "advances (tracked E P S T path) (reset_asset_trustline A E W issuer)"
  "advances (tracked E P S T path) (submit_asset_payment A E W destination issuer amount)"
  unfolding ensure_asset_trustline_def reset_asset_trustline_def submit_asset_payment_def ensure_rlusd_trustline_def
    ensure_usdc_trustline_def reset_rlusd_trustline_def reset_usdc_trustline_def submit_validated_rlusd_payment_def
    submit_validated_usdc_payment_def
  by (intro advances_rules)+

lemma adv_poll:
  "advances (tracked E P S T path) (poll_increase E n deadline address issuer starting increase code)"
  "advances (tracked E P S T path) (poll_removal E n deadline address issuer code)"
  by (induction n) (auto intro!: advances_rules)

lemma adv_wait [advances_rules]:
  "advances (tracked E P S T path) (wait_for_trustline_balance_increase E address issuer starting increase code)"
  "advances (tracked E P S T path) (wait_for_trustline_removal E address issuer code)"
  unfolding wait_for_trustline_balance_increase_def wait_for_trustline_removal_def
  by (intro advances_rules adv_poll)+

lemma adv_wallet_at [advances_rules]: "advances (tracked E P S T path) (wallet_at i)"
  unfolding wallet_at_def by (intro advances_rules)

lemma wallet_ids_update:
  assumes "\<And>c. cw_classic_address (f c) = cw_classic_address c" and "\<And>c. cw_seed (f c) = cw_seed c"
  shows "wallet_ids (s\<lparr>cs_claim_wallets := (cs_claim_wallets s)[i := f (cs_claim_wallets s ! i)]\<rparr>) = wallet_ids s"
proof (cases "i < length (cs_claim_wallets s)")
  case True
  then have "map (\<lambda>c. (cw_classic_address c, cw_seed c)) ((cs_claim_wallets s)[i := f (cs_claim_wallets s ! i)])
      = map (\<lambda>c. (cw_classic_address c, cw_seed c)) (cs_claim_wallets s)"
    using assms by (intro nth_equalityI) (auto simp: nth_list_update)
  then show ?thesis by (simp add: wallet_ids_def)
qed (simp add: wallet_ids_def list_update_beyond)

lemma adv_update [advances_rules]:
  assumes "\<And>c. cw_classic_address (f c) = cw_classic_address c" and "\<And>c. cw_seed (f c) = cw_seed c"
  shows "advances (tracked E P S T path) (update_wallet i f)"
  using wallet_ids_update [OF assms] by (simp add: advances_def update_wallet_def cmodify_def tracked_def claim_calls_def)

lemma adv_note [advances_rules]:
  "advances (tracked E P S T path) (note_xrp i drops)" "advances (tracked E P S T path) (note_balance i balance)"
  "advances (tracked E P S T path) (mark_claim_wallet_deleted i now)" "advances (tracked E P S T path) (set_failed i status message)"
  unfolding note_xrp_def note_balance_def mark_claim_wallet_deleted_def note_change_def set_failed_def
  by (intro advances_rules; simp add: deleted_wallet_def)+

lemma adv_sweep [advances_rules]: "advances (tracked E P S T path) (sweep_balance A E W accumulator issuer i balance)"
  unfolding sweep_balance_def by (intro advances_rules; simp)

lemma adv_remove [advances_rules]: "advances (tracked E P S T path) (remove_trustline A E W issuer i)"
  unfolding remove_trustline_def Let_def by (intro advances_rules; simp)

lemma adv_delete_when_ready [advances_rules]:
  "advances (tracked E P S T path) (delete_when_ready A E W accumulator i now changed recovered account)"
  unfolding delete_when_ready_def by (intro advances_rules; simp)

lemma adv_finish [advances_rules]:
  "advances (tracked E P S T path) (finish_recovery A E W accumulator issuer i now changed recovered)"
  unfolding finish_recovery_def by (intro advances_rules)

lemma adv_existing [advances_rules]:
  "advances (tracked E P S T path) (recover_existing A E W accumulator issuer i now account)"
  unfolding recover_existing_def by (intro advances_rules)

lemma adv_recover [advances_rules]:
  "advances (tracked E P S T path) (recover_claim_wallet E i accumulator issuer now)"
  "advances (tracked E P S T path) (recover_usdc_claim_wallet E i accumulator issuer now)"
  unfolding recover_claim_wallet_def recover_usdc_claim_wallet_def recover_wallet_def
  by (auto intro!: advances_rules split: sum.split)

section \<open>Reading and writing the file\<close>

lemma map_exn_all: "map_exn f xs = Inr ys \<Longrightarrow> list_all2 (\<lambda>x y. f x = Inr y) xs ys"
  by (induction xs arbitrary: ys) (auto simp: rbind_def split: sum.splits)

lemma serialized_id: "serialize_claim_wallet A E c = Inr d \<Longrightarrow> id_of_item (PDict d) = Some (cw_classic_address c, cw_seed c)"
  by (auto simp: serialize_claim_wallet_def rbind_def id_of_item_def py_str_def split: sum.splits)

lemma deserialized_id:
  "deserialize_claim_wallet A E now d = Inr c \<Longrightarrow> id_of_item (PDict d) = Some (cw_classic_address c, cw_seed c)"
  by (auto simp: deserialize_claim_wallet_def rbind_def id_of_item_def dindex_def split: sum.splits option.splits)

lemma state_dict_ids:
  assumes "claim_state_dict A E s = Inr d" and "files path = Some (JsonFile (PDict d))"
  shows "file_ids path files = wallet_ids s"
proof -
  obtain items where items: "map_exn (serialize_claim_wallet A E) (cs_claim_wallets s) = Inr items"
    and d: "dget_default d ''claim_wallets'' (PList []) = PList (map PDict items)"
    using assms(1) by (auto simp: claim_state_dict_def rbind_def dget_default_def attempt_field_def split: sum.splits claim_asset.splits)
  have "List.map_filter id_of_item (map PDict items) = map (\<lambda>c. (cw_classic_address c, cw_seed c)) (cs_claim_wallets s)"
    using map_exn_all [OF items] by (induction rule: list_all2_induct) (simp_all add: map_filter_simps serialized_id)
  then show ?thesis
    using assms(2) d by (simp add: file_ids_def wallet_ids_def)
qed

lemma loaded_ids:
  assumes "claim_state_from_dict A E now address issuer d = Inr s" and "files path = Some (JsonFile (PDict d))"
  shows "wallet_ids s = file_ids path files"
proof -
  obtain items where items: "iter_nodes (dget_default d ''claim_wallets'' (PList [])) = Inr items"
    "map_exn (deserialize_claim_wallet A E now) (dict_items items) = Inr (cs_claim_wallets s)"
    using assms(1) by (auto simp: claim_state_from_dict_def rbind_def split: sum.splits)
  have ids: "set (List.map_filter id_of_item items) = wallet_ids s"
  proof -
    have "List.map_filter id_of_item items = List.map_filter (\<lambda>q. id_of_item (PDict q)) (dict_items items)"
      by (induction items) (auto simp: dict_items_def map_filter_simps id_of_item_def split: pyval.split option.split)
    moreover have "List.map_filter (\<lambda>q. id_of_item (PDict q)) (dict_items items) = map (\<lambda>c. (cw_classic_address c, cw_seed c)) (cs_claim_wallets s)"
      using map_exn_all [OF items(2)] by (induction rule: list_all2_induct) (simp_all add: map_filter_simps deserialized_id)
    ultimately show ?thesis by (simp add: wallet_ids_def)
  qed
  show ?thesis
  proof (cases "dget_default d ''claim_wallets'' (PList [])")
    case (PList xs)
    then show ?thesis using ids items(1) assms(2) by (simp add: file_ids_def iter_nodes_def)
  next
    case (PDict xs)
    then have "List.map_filter id_of_item items = []"
      using items(1) by (auto simp: iter_nodes_def map_filter_def id_of_item_def)
    then show ?thesis using ids PDict assms(2) by (simp add: file_ids_def)
  next
    case (PStr xs)
    then have "List.map_filter id_of_item items = []"
      using items(1) by (auto simp: iter_nodes_def map_filter_def id_of_item_def)
    then show ?thesis using ids PStr assms(2) by (simp add: file_ids_def)
  qed (use items(1) in \<open>simp_all add: iter_nodes_def\<close>)
qed

lemma claim_write_effect:
  assumes "no_torn_writes E" and "write_claim_state A E path w = (r, w')"
  shows "cw_state w' = cw_state w" "dw_log w' = dw_log w"
    "file_ids path (dw_files w') = wallet_ids (cw_state w) \<or> (\<exists>e. r = Raise e) \<and> dw_files w' = dw_files w"
proof -
  have "cw_state w' = cw_state w \<and> dw_log w' = dw_log w
    \<and> (file_ids path (dw_files w') = wallet_ids (cw_state w) \<or> (\<exists>e. r = Raise e) \<and> dw_files w' = dw_files w)"
  proof (cases "rbind (make_parent E path) (\<lambda>_. claim_state_dict A E (cw_state w))")
    case (Inl e)
    then show ?thesis
      using assms(2) by (auto simp: write_claim_state_def cbind_def clift_def cget_def craise_def creturn_def rbind_def split: sum.splits)
  next
    case (Inr d)
    then have "make_parent E path = Inr ()" and d: "claim_state_dict A E (cw_state w) = Inr d"
      by (auto simp: rbind_def split: sum.splits)
    then have "write_text E path (PDict d) w = (r, w')"
      using assms(2) by (simp add: write_claim_state_def cbind_def clift_def cget_def creturn_def)
    then have "cw_state w' = cw_state w \<and> dw_log w' = dw_log w
      \<and> (dw_files w' path = Some (JsonFile (PDict d)) \<or> (\<exists>e. r = Raise e) \<and> dw_files w' = dw_files w)"
      using assms(1) by (auto simp: write_text_def no_torn_writes_def Let_def split: write_fault.splits)
    then show ?thesis
      using state_dict_ids [OF d] by auto
  qed
  then show "cw_state w' = cw_state w" "dw_log w' = dw_log w"
    "file_ids path (dw_files w') = wallet_ids (cw_state w) \<or> (\<exists>e. r = Raise e) \<and> dw_files w' = dw_files w"
    by simp_all
qed

lemma adv_write [advances_rules]:
  assumes "no_torn_writes E"
  shows "advances (tracked E P S T path) (write_claim_state A E path)"
  unfolding advances_def
proof
  fix w
  obtain r w' where "write_claim_state A E path w = (r, w')"
    by fastforce
  then show "tracked E P S T path w \<le> tracked E P S T path (snd (write_claim_state A E path w))"
    using claim_write_effect [OF assms, of A path w r w'] by (auto simp: tracked_def claim_calls_def)
qed

section \<open>The tools\<close>

lemma adv_write_state [advances_rules]:
  "no_torn_writes E \<Longrightarrow> advances (tracked E P S T path) (write_rlusd_claim_state E path)"
  "no_torn_writes E \<Longrightarrow> advances (tracked E P S T path) (write_usdc_claim_state E path)"
  unfolding write_rlusd_claim_state_def write_usdc_claim_state_def by (simp_all add: adv_write)

lemma adv_each [advances_rules]:
  assumes "\<And>i. advances (tracked E P S T path) (recover i)" and "advances (tracked E P S T path) save"
  shows "advances (tracked E P S T path) (recover_each recover save is changed summary)"
  by (induction "is" arbitrary: changed summary) (auto intro!: advances_rules assms)

lemma adv_state:
  "advances (tracked E P S T path) (set_last_attempt now)"
  "(\<And>cs t. P cs t \<Longrightarrow> P cs (Some now)) \<Longrightarrow> advances (tracked E P S T path) (set_last_claim now tx_hash)"
  by (auto simp: advances_def set_last_claim_def set_last_attempt_def cmodify_def tracked_def wallet_ids_def claim_calls_def)

lemmas adv_attempt [advances_rules] = adv_state(1)

lemma adv_track: "advances (tracked E P S T path) (track_wallet c)"
  by (auto simp: advances_def track_wallet_def cbind_def cget_def cmodify_def creturn_def tracked_def wallet_ids_def claim_calls_def)

lemma adv_faucet [advances_rules]: "advances (tracked E P S T path) (faucet_wallet E context)"
  unfolding faucet_wallet_def by (intro advances_rules) simp

lemma adv_exists [advances_rules]: "advances (tracked E P S T path) (path_exists p)"
  unfolding path_exists_def by (intro advances_rules)

lemma adv_finalize [advances_rules]:
  "advances (tracked E P S T path) (finalize_rlusd_topup_result E result accumulator buyer issuer enabled)"
  "advances (tracked E P S T path) (finalize_usdc_topup_result E result accumulator buyer issuer enabled)"
  unfolding finalize_rlusd_topup_result_def finalize_usdc_topup_result_def finalize_topup_result_def bridge_rlusd_to_buyer_def
    bridge_usdc_to_buyer_def bridge_issued_balance_to_buyer_def safe_issued_balance_lookup_def
  by (intro advances_rules)+

lemma cbind_clift_Inr: "cbind (clift (Inr x)) f = f x"
  by (simp add: cbind_def clift_def creturn_def)

text \<open>Sequences whose parts are not steps of one invariant.\<close>

lemma holds_cbind:
  assumes "I w" and "advances I m" and "\<And>x w1. m w = (Ok x, w1) \<Longrightarrow> I w1 \<Longrightarrow> J (snd (f x w1))" and "\<And>w. I w \<Longrightarrow> J w"
  shows "J (snd (cbind m f w))"
proof -
  obtain r w1 where m: "m w = (r, w1)" by fastforce
  then have "I w1" using advancesD [OF assms(2) m] assms(1) by simp
  then show ?thesis
    using m assms(3,4) by (cases r) (auto simp: cbind_def)
qed

lemma holds_seq:
  assumes "J (snd (m w))" and "\<And>x. advances J (f x)"
  shows "J (snd (cbind m f w))"
proof -
  obtain r w1 where m: "m w = (r, w1)" by fastforce
  then show ?thesis
    using assms by (cases r) (auto simp: cbind_def advances_def)
qed

lemma holds_ctry:
  assumes "J (snd (m w))" and "\<And>e. advances J (h e)"
  shows "J (snd (ctry m h w))"
proof -
  obtain r w1 where m: "m w = (r, w1)" by fastforce
  then show ?thesis
    using assms by (cases r) (auto simp: ctry_def advances_def)
qed

lemma holds_advances: "I w \<Longrightarrow> advances I m \<Longrightarrow> I (snd (m w))"
  by (simp add: advances_def)

text \<open>No claim yet, and at most one.\<close>

definition unclaimed :: "rat option \<Rightarrow> dev_call list \<Rightarrow> rat option \<Rightarrow> bool" where
  "unclaimed t0 calls t \<longleftrightarrow> calls = [] \<and> t = t0"

definition one_claim :: "dev_call list \<Rightarrow> rat option \<Rightarrow> bool" where
  "one_claim calls t \<longleftrightarrow> length calls \<le> 1"

lemma unclaimed_one: "tracked E (unclaimed t0) S T path w \<Longrightarrow> tracked E one_claim S T path w"
  by (simp add: tracked_def unclaimed_def one_claim_def)

text \<open>A claim to a tracked wallet.\<close>

lemma mint_tracked:
  assumes "tracked E (unclaimed t0) S T path w" and "te_faucet_wallet E history CLAIM_CONTEXT = Inr W" and "wl_seed W = Some seed"
    and "(wl_address W, seed) \<in> T"
  shows "tracked E one_claim S T path (snd (mint_rlusd_to_address E (wl_address W) token w))"
proof -
  have "snd (mint_rlusd_to_address E (wl_address W) token w) = snd (dev_log E (MintRlusd (wl_address W) token) w)"
    by (simp add: mint_rlusd_to_address_def dev_request_def ctry_else_def cbind_def dev_log_def clift_def craise_def creturn_def
        split: sum.split)
  moreover have "tracked_call E S path (MintRlusd (wl_address W) token, dw_files w)"
    using assms by (fastforce simp: tracked_def tracked_call_def)
  ultimately show ?thesis
    using assms(1) by (simp add: dev_log_def tracked_def claim_calls_def unclaimed_def one_claim_def)
qed

lemma adv_last_claim [advances_rules]: "advances (tracked E one_claim S T path) (set_last_claim now tx_hash)"
  by (intro adv_state(2)) (simp add: one_claim_def)

lemma claim_tracked:
  assumes "no_torn_writes E" and "tracked E (unclaimed t0) S T path w" and "te_faucet_wallet E history CLAIM_CONTEXT = Inr W"
    and "wl_seed W = Some seed" and "(wl_address W, seed) \<in> T"
  shows "tracked E one_claim S T path (snd (claim_to_wallet E W accumulator issuer path token now i w))"
  unfolding claim_to_wallet_def
proof (rule holds_cbind [where I = "tracked E (unclaimed t0) S T path", OF assms(2) _ _ unclaimed_one])
  fix x1 w1 assume 1: "tracked E (unclaimed t0) S T path w1"
  show "tracked E one_claim S T path (snd (cbind (update_wallet i (\<lambda>c. c\<lparr>cw_trustline_create_tx_hash := pystr_option x1,
      cw_claim_attempted_at := Some now\<rparr>)) (\<lambda>_. cbind (write_rlusd_claim_state E path) (\<lambda>_.
      cbind (mint_rlusd_to_address E (wl_address W) token) (minted_steps E W accumulator issuer path now i))) w1))"
  proof (rule holds_cbind [where I = "tracked E (unclaimed t0) S T path", OF 1 _ _ unclaimed_one])
    fix x2 w2 assume 2: "tracked E (unclaimed t0) S T path w2"
    show "tracked E one_claim S T path (snd (cbind (write_rlusd_claim_state E path) (\<lambda>_.
      cbind (mint_rlusd_to_address E (wl_address W) token) (minted_steps E W accumulator issuer path now i)) w2))"
    proof (rule holds_cbind [where I = "tracked E (unclaimed t0) S T path", OF 2 _ _ unclaimed_one])
      fix x3 w3 assume 3: "tracked E (unclaimed t0) S T path w3"
      show "tracked E one_claim S T path (snd (cbind (mint_rlusd_to_address E (wl_address W) token) (minted_steps E W accumulator issuer path now i) w3))"
        unfolding minted_steps_def
        by (rule holds_seq [where J = "tracked E one_claim S T path"], rule mint_tracked [OF 3 assms(3-5)], intro advances_rules assms(1); simp)
    qed (intro advances_rules assms(1))
  qed (intro advances_rules; simp)
qed (intro advances_rules)

lemma report_tracked:
  assumes "no_torn_writes E" and "tracked E (unclaimed t0) S T path w" and "te_faucet_wallet E history CLAIM_CONTEXT = Inr W"
    and "wl_seed W = Some seed" and "(wl_address W, seed) \<in> T"
  shows "tracked E one_claim S T path (snd (ctry (claim_and_report E W accumulator buyer issuer path token now i recovery enabled)
           (claim_not_made E W accumulator buyer issuer path now i recovery enabled) w))"
  unfolding claim_and_report_def claim_not_made_def Let_def
  by (intro holds_ctry [of "tracked E one_claim S T path"] holds_seq [of "tracked E one_claim S T path"] claim_tracked [OF assms]
      advances_rules assms(1); simp)

text \<open>The new wallet is tracked, in the state and in the file, before anything else happens to it.\<close>

lemma new_wallet_tracked:
  assumes safe: "no_torn_writes E" and "tracked E (unclaimed t0) S T path w"
  shows "tracked E one_claim S T path (snd (claim_with_new_wallet E accumulator buyer issuer path token now recovery enabled w))"
  unfolding claim_with_new_wallet_def
proof (intro holds_cbind [of "tracked E (unclaimed t0) S T path" _ _ "tracked E one_claim S T path", OF _ _ _ unclaimed_one] advances_rules assms)
  fix x1 w1 x2 w2 new w3
  assume faucet: "faucet_wallet E CLAIM_CONTEXT w2 = (Ok new, w3)" and t3: "tracked E (unclaimed t0) S T path w3"
  obtain history where new: "te_faucet_wallet E history CLAIM_CONTEXT = Inr new"
    using faucet by (auto simp: faucet_wallet_def cbind_def clift_def craise_def creturn_def dev_log_def split: sum.splits)
  let ?rest = "\<lambda>i. ctry (claim_and_report E new accumulator buyer issuer path token now i recovery enabled)
      (claim_not_made E new accumulator buyer issuer path now i recovery enabled)"
  have "tracked E one_claim S T path (snd (cbind (track_wallet (new_claim_wallet Rlusd (wl_address new) seed now))
      (\<lambda>i. cbind (write_rlusd_claim_state E path) (\<lambda>_. ?rest i)) w3))" if seed: "wl_seed new = Some seed" for seed
  proof (rule holds_cbind [where I = "tracked E (unclaimed t0) S T path", OF t3 adv_track _ unclaimed_one])
    fix i w4
    assume "track_wallet (new_claim_wallet Rlusd (wl_address new) seed now) w3 = (Ok i, w4)" and t4: "tracked E (unclaimed t0) S T path w4"
    then have id: "(wl_address new, seed) \<in> wallet_ids (cw_state w4)"
      by (auto simp: track_wallet_def cbind_def cget_def cmodify_def creturn_def wallet_ids_def new_claim_wallet_def)
    show "tracked E one_claim S T path (snd (cbind (write_rlusd_claim_state E path) (\<lambda>_. ?rest i) w4))"
    proof (rule holds_cbind [where I = "tracked E (unclaimed t0) S T path", OF t4 _ _ unclaimed_one])
      fix x5 w5
      assume "write_rlusd_claim_state E path w4 = (Ok x5, w5)"
      note written = claim_write_effect [OF safe this [unfolded write_rlusd_claim_state_def]]
      have "tracked E (unclaimed t0) S (insert (wl_address new, seed) T) path w5"
        using t4 id written by (auto simp: tracked_def claim_calls_def)
      from report_tracked [OF safe this new seed insertI1] show "tracked E one_claim S T path (snd (?rest i w5))"
        using t4 unfolding tracked_def by blast
    qed (intro advances_rules safe)
  qed
  then show "tracked E one_claim S T path (snd ((case wl_seed new of
        None \<Rightarrow> craise (RuntimeError ''Disposable claim wallet is missing a seed'')
      | Some seed \<Rightarrow> cbind (track_wallet (new_claim_wallet Rlusd (wl_address new) seed now)) (\<lambda>i.
          cbind (write_rlusd_claim_state E path) (\<lambda>_. ?rest i))) w3))"
    using unclaimed_one [OF t3] by (simp add: craise_def split: option.split)
qed

text \<open>The loaded state tracks what the file has.\<close>

lemma loaded_state:
  assumes "rlusd_claim_state_of E now address issuer f = Inr s" and "owned_file Rlusd address issuer f" and "files path = f"
  shows "wallet_ids s = file_ids path files"
proof (cases "\<exists>d. f = Some (JsonFile (PDict d))")
  case True
  then obtain d where d: "f = Some (JsonFile (PDict d))" by blast
  then have "py_eq (dget d ''version'') (PInt 2)" "same_owner address issuer d"
    using assms(2) by (simp_all add: owned_file_def STATE_VERSION_def)
  moreover from this have "\<not> py_eq (dget d ''version'') (PInt 1)"
    by (cases "dget d ''version''") auto
  ultimately have "claim_state_from_dict Rlusd E now address issuer d = Inr s"
    using assms(1) d by (simp add: rlusd_claim_state_of_def STATE_VERSION_def)
  then show ?thesis
    using loaded_ids d assms(3) by blast
next
  case False
  then have "s = empty_claim_state address issuer" "file_ids path files = {}"
    using assms(1,3) by (auto simp: rlusd_claim_state_of_def file_ids_def split: option.splits stored_file.splits pyval.splits)
  then show ?thesis
    by (simp add: wallet_ids_def empty_claim_state_def)
qed

lemma recovery_tracked:
  assumes "no_torn_writes E" and "owned_file Rlusd (wl_address accumulator) issuer (dw_files w path)" and "dw_log w = []"
    and "S = file_ids path (dw_files w)" and "recover_tracked_claim_wallets E accumulator issuer path now w = (r, w')"
  shows "(\<exists>s. rlusd_claim_state_of E (dw_clock w) (wl_address accumulator) issuer (dw_files w path) = Inr s
        \<and> tracked E (unclaimed (cs_last_successful_session_claim_at s)) S S path w') \<or> w' = w \<and> (\<forall>x. r \<noteq> Ok x)"
proof (cases "rlusd_claim_state_of E (dw_clock w) (wl_address accumulator) issuer (dw_files w path)")
  case (Inl e)
  then show ?thesis
    using assms(5) by (auto simp: recover_tracked_claim_wallets_def load_rlusd_claim_state_def cbind_def dev_now_def read_file_def
        cget_def clift_def craise_def)
next
  case (Inr s)
  let ?I = "tracked E (unclaimed (cs_last_successful_session_claim_at s)) S S path"
  let ?rest = "cbind (recover_each (\<lambda>i. recover_claim_wallet E i accumulator issuer now) (write_rlusd_claim_state E path)
              [0..<length (cs_claim_wallets s)] False no_recovery) (\<lambda>(changed, summary).
     cbind (path_exists path) (\<lambda>found.
     cbind (if changed \<and> \<not> found then write_rlusd_claim_state E path else creturn ()) (\<lambda>_. creturn summary)))"
  have run: "?rest (w\<lparr>cw_state := s\<rparr>) = (r, w')"
    using assms(5) Inr by (simp add: recover_tracked_claim_wallets_def load_rlusd_claim_state_def cbind_def dev_now_def read_file_def
        cget_def clift_def creturn_def set_claim_state_def cmodify_def)
  have "?I (w\<lparr>cw_state := s\<rparr>)"
    using loaded_state [where files = "dw_files w", OF Inr assms(2) refl] assms(3,4)
    by (simp add: tracked_def claim_calls_def unclaimed_def)
  moreover have "advances ?I ?rest"
    by (intro advances_rules assms(1))
  ultimately have "?I (snd (?rest (w\<lparr>cw_state := s\<rparr>)))"
    by (rule holds_advances)
  then show ?thesis
    using run Inr by simp
qed

text \<open>What a run of the claim tool comes to.\<close>

lemma claim_run:
  assumes safe: "no_torn_writes E" and "resolve_topup_wallets wallets DEMO_WALLET_RLUSD = Inr (accumulator, buyer)"
    and "owned_file Rlusd (wl_address accumulator) issuer (dw_files w path)" and "dw_log w = []"
    and "claim_rlusd_topup E wallets issuer session_token now path w = (r, w')" and S: "S = file_ids path (dw_files w)"
  obtains (stopped) "w' = w"
  | (unclaimed) s where "rlusd_claim_state_of E (dw_clock w) (wl_address accumulator) issuer (dw_files w path) = Inr s"
      "tracked E (unclaimed (cs_last_successful_session_claim_at s)) S S path w'"
  | (claimed) s token where "rlusd_claim_state_of E (dw_clock w) (wl_address accumulator) issuer (dw_files w path) = Inr s"
      "cooling_down now (next_rlusd_claim_time s) = None" "session_token = Some token" "token \<noteq> []" "tracked E one_claim S S path w'"
proof -
  let ?act = "\<lambda>recovery s. case cooling_down now (next_rlusd_claim_time s) of
         Some cooldown_until \<Rightarrow>
           finalize_rlusd_topup_result E
             ((topup_result_of ''cooldown'' accumulator path (''Skipping RLUSD claim until '' @ te_iso E cooldown_until) recovery)
              \<lparr>tu_cooldown_until := Some cooldown_until\<rparr>) accumulator buyer issuer (bridge_enabled wallets)
       | None \<Rightarrow>
           if (case session_token of None \<Rightarrow> [] | Some t \<Rightarrow> t) = [] then
             finalize_rlusd_topup_result E
               (topup_result_of ''missing_token'' accumulator path (''Recovered tracked claim wallets. Set '' @ TRYRLUSD_SESSION_TOKEN_ENV @
                  '' to attempt another RLUSD claim.'') recovery) accumulator buyer issuer (bridge_enabled wallets)
           else claim_with_new_wallet E accumulator buyer issuer path (case session_token of None \<Rightarrow> [] | Some t \<Rightarrow> t) now recovery
             (bridge_enabled wallets)"
  have run: "cbind (recover_tracked_claim_wallets E accumulator issuer path now) (\<lambda>recovery.
      cbind (ensure_rlusd_trustline E accumulator issuer) (\<lambda>_. cbind (cget cw_state) (?act recovery))) w = (r, w')"
    using assms(2,5) by (simp add: claim_rlusd_topup_def cbind_clift_Inr Let_def)
  then show thesis
  proof (cases rule: cbind_cases)
    case fails
    then obtain r1 where recovery: "recover_tracked_claim_wallets E accumulator issuer path now w = (r1, w')"
      by blast
    from recovery_tracked [OF safe assms(3,4) S recovery] show thesis
      using stopped unclaimed by blast
  next
    case (returned recovery w1)
    then obtain s where s: "rlusd_claim_state_of E (dw_clock w) (wl_address accumulator) issuer (dw_files w path) = Inr s"
      "tracked E (unclaimed (cs_last_successful_session_claim_at s)) S S path w1"
      using recovery_tracked [OF safe assms(3,4) S returned(1)] by blast
    let ?I = "tracked E (unclaimed (cs_last_successful_session_claim_at s)) S S path"
    obtain r2 w2 where ensured: "ensure_rlusd_trustline E accumulator issuer w1 = (r2, w2)"
      by fastforce
    have "?I (snd (ensure_rlusd_trustline E accumulator issuer w1))"
      by (rule holds_advances [of ?I, OF s(2)]) (intro advances_rules)
    then have w2: "?I w2"
      using ensured by simp
    show thesis
    proof (cases r2)
      case (Ok x)
      then have act: "?act recovery (cw_state w2) w2 = (r, w')"
        using returned(2) ensured by (simp add: cbind_step cbind_cget)
      have due: "next_rlusd_claim_time (cw_state w2) = next_rlusd_claim_time s"
        using w2 by (simp add: tracked_def unclaimed_def next_rlusd_claim_time_def)
      have final: "?I (snd (finalize_rlusd_topup_result E result accumulator buyer issuer enabled w2))" for result enabled
        by (rule holds_advances [of ?I, OF w2]) (intro advances_rules)
      show thesis
      proof (cases "cooling_down now (next_rlusd_claim_time s) = None \<and> (\<exists>t. session_token = Some t \<and> t \<noteq> [])")
        case True
        then obtain t where t: "session_token = Some t" "t \<noteq> []" by blast
        then have "claim_with_new_wallet E accumulator buyer issuer path t now recovery (bridge_enabled wallets) w2 = (r, w')"
          using act due True by simp
        then show thesis
          using new_wallet_tracked [OF safe w2] claimed [OF s(1) _ t] True by (metis snd_conv)
      next
        case False
        then have "\<exists>result. finalize_rlusd_topup_result E result accumulator buyer issuer (bridge_enabled wallets) w2 = (r, w')"
          using act due by (auto split: option.splits if_splits)
        then show thesis
          using final unclaimed [OF s(1)] by (metis snd_conv)
      qed
    qed (use returned(2) ensured w2 unclaimed [OF s(1)] in \<open>auto simp: cbind_def\<close>)
  qed
qed

lemma claim_run_tracked:
  assumes "no_torn_writes E" and "resolve_topup_wallets wallets DEMO_WALLET_RLUSD = Inr (accumulator, buyer)"
    and "owned_file Rlusd (wl_address accumulator) issuer (dw_files w path)" and "dw_log w = []"
    and "claim_rlusd_topup E wallets issuer session_token now path w = (r, w')" and "S = file_ids path (dw_files w)"
  shows "w' = w \<or> tracked E one_claim S S path w'"
  using assms by (cases rule: claim_run) (auto dest: unclaimed_one)

text \<open>C11. No seed of a claim wallet is lost: during a run of the RLUSD claim tool, whatever the ledger and the
  faucets answer and wherever it stops, the state file has at each call and at the end every tracked
  wallet that it had at the start, with its seed; and when the tool asks for tokens for a wallet, the
  file already has that wallet with the seed the faucet gave for it. (No write is torn, and the file is
  not that of another accumulator or issuer.)
\<close>

theorem claim_seeds_durable:
  assumes "no_torn_writes E" and "resolve_topup_wallets wallets DEMO_WALLET_RLUSD = Inr (accumulator, buyer)"
    and "owned_file Rlusd (wl_address accumulator) issuer (dw_files w path)" and "dw_log w = []"
    and "claim_rlusd_topup E wallets issuer session_token now path w = (r, w')"
  shows "(\<forall>(call, files) \<in> set (dw_log w'). file_ids path (dw_files w) \<subseteq> file_ids path files
      \<and> (\<forall>a t. call = MintRlusd a t \<longrightarrow> (\<exists>history W seed. te_faucet_wallet E history CLAIM_CONTEXT = Inr W
           \<and> wl_address W = a \<and> wl_seed W = Some seed \<and> (a, seed) \<in> file_ids path files)))
    \<and> file_ids path (dw_files w) \<subseteq> file_ids path (dw_files w')"
  using claim_run_tracked [OF assms refl] assms(4) by (auto simp: tracked_def tracked_call_def list_all_iff)

text \<open>C13. The faucet is asked for tokens at most once in a run, only with a session token, and not within 24
  hours of the last successful claim that the state file records.
\<close>

theorem claims_respect_cooldown:
  assumes "no_torn_writes E" and "resolve_topup_wallets wallets DEMO_WALLET_RLUSD = Inr (accumulator, buyer)"
    and "owned_file Rlusd (wl_address accumulator) issuer (dw_files w path)" and "dw_log w = []"
    and "claim_rlusd_topup E wallets issuer session_token now path w = (r, w')"
  shows "length (claim_calls w') \<le> 1 \<and> (claim_calls w' \<noteq> [] \<longrightarrow>
    (\<exists>token. session_token = Some token \<and> token \<noteq> []) \<and>
    (\<exists>s. rlusd_claim_state_of E (dw_clock w) (wl_address accumulator) issuer (dw_files w path) = Inr s
       \<and> (\<forall>t. cs_last_successful_session_claim_at s = Some t \<longrightarrow> t + RLUSD_CLAIM_COOLDOWN \<le> now)))"
proof (cases rule: claim_run [OF assms refl, case_names stopped unclaimed claimed])
  case (claimed s token)
  then show ?thesis
    by (auto simp: tracked_def one_claim_def cooling_down_def next_rlusd_claim_time_def split: option.splits if_splits)
qed (use assms(4) in \<open>auto simp: tracked_def unclaimed_def claim_calls_def\<close>)

section \<open>Witnesses\<close>

text \<open>A ledger on which the trust lines exist, a faucet that refuses to mint, and a file with one old wallet.\<close>

definition claim_ledger :: "dev_call \<Rightarrow> exn + bool \<times> pydict" where
  "claim_ledger call = (case call of
       AccountLines _ \<Rightarrow> Inr (True, [(''lines'', PList [PDict [(''account'', PStr ''rI''), (''currency'', PStr ''RLUSD''),
          (''limit'', PStr ''100000''), (''balance'', PStr ''0'')]])])
     | MintRlusd _ _ \<Rightarrow> Inl (OSError ''refused'')
     | _ \<Rightarrow> Inl (ClientError []))"

definition claim_dev :: dev_env where
  "claim_dev = \<lparr>te_rpc = (\<lambda>_. claim_ledger), te_autofill = (\<lambda>_ _. Inl (ClientError [])), te_sign = (\<lambda>_ _. Inl (ClientError [])),
     te_faucet_wallet = (\<lambda>_ _. Inr \<lparr>wl_address = ''rNew'', wl_seed = Some ''sNew''\<rparr>),
     te_new_wallet = (\<lambda>_. \<lparr>wl_address = ''r'', wl_seed = None\<rparr>), te_from_seed = (\<lambda>_. Inl (ValueError ''seed'')),
     te_iso = (\<lambda>_. ''t''), te_parse_iso = (\<lambda>_. Inr 0), te_parent = (\<lambda>_. Directory), te_write = (\<lambda>_. NoFault), te_took = (\<lambda>_. 0),
     te_getenv = (\<lambda>_. None), te_json = (\<lambda>_. None)\<rparr>"

abbreviation claim_accumulator :: wallet where "claim_accumulator \<equiv> \<lparr>wl_address = ''rA'', wl_seed = None\<rparr>"
abbreviation claim_buyer :: wallet where "claim_buyer \<equiv> \<lparr>wl_address = ''rB'', wl_seed = None\<rparr>"
abbreviation claim_new :: wallet where "claim_new \<equiv> \<lparr>wl_address = ''rNew'', wl_seed = Some ''sNew''\<rparr>"

definition claim_pair :: live_wallet_pair where
  "claim_pair = \<lparr>lp_wallet_a = claim_accumulator, lp_wallet_b = claim_buyer\<rparr>"

definition claim_file :: pydict where
  "claim_file = [(''version'', PInt 2), (''canonical_wallet_address'', PStr ''rA''), (''issuer'', PStr ''rI''),
     (''claim_wallets'', PList [PDict [(''classic_address'', PStr ''rOld''), (''seed'', PStr ''sOld''), (''status'', PStr ''deleted'')]])]"

definition claim_sample :: claim_world where
  "claim_sample = \<lparr>dw_log = [], dw_files = [''p'' \<mapsto> JsonFile (PDict claim_file)], dw_writes = 0, dw_clock = 0,
     cw_state = empty_claim_state [] []\<rparr>"

definition claim_start :: claim_state where
  "claim_start = (empty_claim_state ''rA'' ''rI'')\<lparr>cs_claim_wallets := [(new_claim_wallet Rlusd ''rOld'' ''sOld'' 0)\<lparr>cw_status := DELETED\<rparr>]\<rparr>"

lemma claim_dev_answers [simp]:
  "te_rpc claim_dev h call = claim_ledger call" "te_faucet_wallet claim_dev h c = Inr claim_new"
  "te_from_seed claim_dev s = Inl (ValueError ''seed'')" "te_iso claim_dev t = ''t''" "te_parse_iso claim_dev s = Inr 0"
  "te_parent claim_dev p = Directory" "te_write claim_dev n = NoFault" "te_took claim_dev n = 0"
  by (simp_all add: claim_dev_def)

lemmas claim_runs = cbind_def ctry_def ctry_else_def clift_def creturn_def craise_def cget_def cmodify_def dev_now_def read_file_def
  dev_request_def dev_log_def

lemmas decimal_parses = decimal_of_str_def parse_decimal_def parse_finite_def parse_exponent_def strip_def rstrip_by_def split_sign_def
  is_space_def is_digit_def ord_c_def digits_val_def digit_val_def lower_def lower_c_def starts_with_def signed_def nonempty_digits_def Let_def

lemma claim_decimals:
  "decimal_of_str ''100000'' = Inr (DFin False 100000 0)" "decimal_of_str ''0'' = Inr (DFin False 0 0)"
  "decimal_to_value (dec_of_int 0) = Inr ''0''"
  by (simp_all add: decimal_parses decimal_to_value_def rbind_def dec_of_int_def)

lemma claim_trustlines: "ensure_rlusd_trustline claim_dev W ''rI'' w = (Ok None, snd (dev_log claim_dev (AccountLines (wl_address W)) w))"
proof -
  have "normalize_currency_code ''RLUSD'' = Inr ''RLUSD''"
    by code_simp
  then have "trustline_limit_is_sufficient claim_dev a ''rI'' (DFin False 100000 0) RLUSD_CODE w =
      (Ok True, snd (dev_log claim_dev (AccountLines a) w))" for a
    by (simp add: trustline_limit_is_sufficient_def get_validated_trustline_def claim_runs claim_ledger_def trustline_in_def iter_nodes_def
       line_matches_def vget_def vget_default_def dget_default_def dget_def py_str_def limit_sufficient_def dec_of_val_def
       claim_decimals dec_le_def rbind_def cmp_int_def scaled_def)
  then show ?thesis
    by (simp add: ensure_rlusd_trustline_def ensure_issued_trustline_def claim_decimals cbind_clift_Inr)
      (simp add: cbind_def creturn_def)
qed

definition no_balances :: "claim_world \<Rightarrow> bool" where
  "no_balances w \<longleftrightarrow> (\<forall>c \<in> set (cs_claim_wallets (cw_state w)). cw_last_known_balance c = dec_of_int 0)"

lemma claim_write:
  assumes "no_balances w"
  shows "\<exists>w'. write_rlusd_claim_state claim_dev path w = (Ok (), w') \<and> cw_state w' = cw_state w \<and> dw_log w' = dw_log w"
proof -
  have "\<exists>ds. map_exn (serialize_claim_wallet Rlusd claim_dev) cs = Inr ds" if "\<forall>c \<in> set cs. cw_last_known_balance c = dec_of_int 0" for cs
    using that by (induction cs) (auto simp: serialize_claim_wallet_def claim_decimals rbind_def)
  then obtain ds where "map_exn (serialize_claim_wallet Rlusd claim_dev) (cs_claim_wallets (cw_state w)) = Inr ds"
    using assms by (auto simp: no_balances_def)
  then show ?thesis
    by (simp add: write_rlusd_claim_state_def write_claim_state_def claim_runs make_parent_def claim_state_dict_def rbind_def write_text_def Let_def)
qed

lemma claim_recovery:
  "recover_tracked_claim_wallets claim_dev claim_accumulator ''rI'' ''p'' 0 claim_sample = (Ok no_recovery, claim_sample\<lparr>cw_state := claim_start\<rparr>)"
proof -
  have "deserialize_claim_wallet Rlusd claim_dev 0 [(''classic_address'', PStr ''rOld''), (''seed'', PStr ''sOld''), (''status'', PStr ''deleted'')]
      = Inr ((new_claim_wallet Rlusd ''rOld'' ''sOld'' 0)\<lparr>cw_status := DELETED\<rparr>)"
    by (simp add: deserialize_claim_wallet_def dindex_def deserialize_datetime_def dget_def dget_default_def dec_of_val_def py_str_def
        claim_decimals rbind_def new_claim_wallet_def dec_of_int_def balance_field_def sweep_field_def)
  then have "rlusd_claim_state_of claim_dev 0 ''rA'' ''rI'' (dw_files claim_sample ''p'') = Inr claim_start"
    by (simp add: rlusd_claim_state_of_def claim_sample_def claim_file_def dget_def STATE_VERSION_def same_owner_def claim_state_from_dict_def
        dget_default_def iter_nodes_def dict_items_def map_filter_simps rbind_def deserialize_datetime_def attempt_field_def claim_start_def
        empty_claim_state_def)
  then have "load_rlusd_claim_state claim_dev ''p'' ''rA'' ''rI'' claim_sample = (Ok claim_start, claim_sample)"
    by (simp add: load_rlusd_claim_state_def claim_runs) (simp add: claim_sample_def creturn_def)
  moreover have "length (cs_claim_wallets claim_start) = 1" "cw_status (cs_claim_wallets claim_start ! 0) = DELETED"
    by (simp_all add: claim_start_def)
  ultimately show ?thesis
    by (simp add: recover_tracked_claim_wallets_def cbind_def set_claim_state_def cmodify_def wallet_at_def cget_def path_exists_def read_file_def
        creturn_def)
qed

lemma keeps_not_made:
  "keeps dw_log (claim_not_made claim_dev new accumulator buyer issuer path now i recovery False e)"
proof -
  have "keeps dw_log (write_rlusd_claim_state claim_dev path)"
    using claim_write_effect(2) [of claim_dev] by (intro keepsI) (metis claim_dev_answers(7) no_torn_writes_def prod.collapse
        write_fault.distinct write_rlusd_claim_state_def)
  moreover have "keeps dw_log (update_wallet i f)" for f
    by (simp add: keeps_def update_wallet_def cmodify_def)
  ultimately show ?thesis
    unfolding claim_not_made_def recover_claim_wallet_def recover_wallet_def set_failed_def finalize_rlusd_topup_result_def
      finalize_topup_result_def Let_def wallet_at_def
    by (auto intro!: keeps_rules)
qed

lemma claim_mints:
  assumes "no_balances w"
  shows "\<exists>files. (MintRlusd ''rNew'' ''t'', files) \<in> set (dw_log (snd
    (claim_with_new_wallet claim_dev claim_accumulator claim_buyer ''rI'' path ''t'' 0 recovery False w)))"
proof -
  let ?new = "new_claim_wallet Rlusd ''rNew'' ''sNew'' 0"
  let ?w1 = "w\<lparr>cw_state := (cw_state w)\<lparr>cs_last_attempt_at := Some 0\<rparr>\<rparr>"
  have "no_balances ?w1"
    using assms by (simp add: no_balances_def)
  then obtain w2 where w2: "write_rlusd_claim_state claim_dev path ?w1 = (Ok (), w2)" "cw_state w2 = cw_state ?w1"
    using claim_write by blast
  define w3 where "w3 = snd (dev_log claim_dev (FaucetWallet CLAIM_CONTEXT) w2)"
  let ?i = "length (cs_claim_wallets (cw_state w3))"
  let ?w4 = "w3\<lparr>cw_state := (cw_state w3)\<lparr>cs_claim_wallets := cs_claim_wallets (cw_state w3) @ [?new]\<rparr>\<rparr>"
  have w3: "cw_state w3 = cw_state ?w1" "faucet_wallet claim_dev CLAIM_CONTEXT w2 = (Ok claim_new, w3)"
    using w2(2) by (simp_all add: w3_def faucet_wallet_def claim_runs)
  then have "no_balances ?w4"
    using assms by (simp add: no_balances_def new_claim_wallet_def)
  then obtain w5 where w5: "write_rlusd_claim_state claim_dev path ?w4 = (Ok (), w5)" "cw_state w5 = cw_state ?w4" "dw_log w5 = dw_log ?w4"
    using claim_write by blast
  define w6 where "w6 = snd (update_wallet ?i (\<lambda>c. c\<lparr>cw_trustline_create_tx_hash := PNone, cw_claim_attempted_at := Some 0\<rparr>)
    (snd (dev_log claim_dev (AccountLines ''rNew'') w5)))"
  have "no_balances w6"
    using \<open>no_balances ?w4\<close> w5(2) set_update_subset_insert
    by (fastforce simp: w6_def no_balances_def update_wallet_def cmodify_def dev_log_def nth_append new_claim_wallet_def)
  then obtain w7 where w7: "write_rlusd_claim_state claim_dev path w6 = (Ok (), w7)"
    using claim_write by blast
  let ?w8 = "snd (dev_log claim_dev (MintRlusd ''rNew'' ''t'') w7)"
  have "claim_to_wallet claim_dev claim_new claim_accumulator ''rI'' path ''t'' 0 ?i w5 =
      (Raise (RLUSDMintRequestError ''RLUSD mint failed: refused''), ?w8)"
    using w7 by (simp add: claim_to_wallet_def claim_trustlines cbind_def pystr_option_def w6_def update_wallet_def cmodify_def
        mint_rlusd_to_address_def claim_runs claim_ledger_def mint_failure_def)
  then have "claim_with_new_wallet claim_dev claim_accumulator claim_buyer ''rI'' path ''t'' 0 recovery False w =
      claim_not_made claim_dev claim_new claim_accumulator claim_buyer ''rI'' path 0 ?i recovery False
        (RLUSDMintRequestError ''RLUSD mint failed: refused'') ?w8"
    using w2(1) w3 w5(1)
    by (simp add: claim_with_new_wallet_def set_last_attempt_def cbind_def cmodify_def track_wallet_def cget_def creturn_def ctry_def
        claim_and_report_def)
  moreover have "(MintRlusd ''rNew'' ''t'', dw_files w7) \<in> set (dw_log ?w8)"
    by (simp add: dev_log_def)
  ultimately show ?thesis
    using keepsD [OF keeps_not_made] by (metis prod.collapse)
qed

lemma claim_sample_run:
  "\<exists>files. (MintRlusd ''rNew'' ''t'', files) \<in> set (dw_log (snd
    (claim_rlusd_topup claim_dev (Pair claim_pair) ''rI'' (Some ''t'') 0 ''p'' claim_sample)))"
proof -
  let ?w = "snd (dev_log claim_dev (AccountLines ''rA'') (claim_sample\<lparr>cw_state := claim_start\<rparr>))"
  have "claim_rlusd_topup claim_dev (Pair claim_pair) ''rI'' (Some ''t'') 0 ''p'' claim_sample =
      claim_with_new_wallet claim_dev claim_accumulator claim_buyer ''rI'' ''p'' ''t'' 0 no_recovery False ?w"
    using claim_recovery
    by (simp add: claim_rlusd_topup_def resolve_topup_wallets_def claim_pair_def cbind_clift_Inr bridge_enabled_def)
      (simp add: cbind_def claim_trustlines cget_def dev_log_def next_rlusd_claim_time_def claim_start_def empty_claim_state_def cooling_down_def)
  moreover have "no_balances ?w"
    by (simp add: no_balances_def dev_log_def claim_start_def new_claim_wallet_def)
  ultimately show ?thesis
    using claim_mints by metis
qed

theorem claim_seeds_durable_witness:
  "\<exists>r w' files. claim_rlusd_topup claim_dev (Pair claim_pair) ''rI'' (Some ''t'') 0 ''p'' claim_sample = (r, w')
     \<and> (MintRlusd ''rNew'' ''t'', files) \<in> set (dw_log w')
     \<and> {(''rOld'', ''sOld''), (''rNew'', ''sNew'')} \<subseteq> file_ids ''p'' files \<and> (''rOld'', ''sOld'') \<in> file_ids ''p'' (dw_files w')"
proof -
  obtain r w' where run: "claim_rlusd_topup claim_dev (Pair claim_pair) ''rI'' (Some ''t'') 0 ''p'' claim_sample = (r, w')"
    by fastforce
  obtain files where mint: "(MintRlusd ''rNew'' ''t'', files) \<in> set (dw_log w')"
    using claim_sample_run run by auto
  have start: "no_torn_writes claim_dev" "dw_log claim_sample = []" "file_ids ''p'' (dw_files claim_sample) = {(''rOld'', ''sOld'')}"
    "owned_file Rlusd ''rA'' ''rI'' (dw_files claim_sample ''p'')"
    "resolve_topup_wallets (Pair claim_pair) DEMO_WALLET_RLUSD = Inr (claim_accumulator, claim_buyer)"
    by (simp_all add: no_torn_writes_def claim_sample_def claim_file_def file_ids_def dget_default_def dget_def map_filter_simps
        id_of_item_def py_str_def owned_file_def STATE_VERSION_def same_owner_def resolve_topup_wallets_def claim_pair_def)
  show ?thesis
    using claim_seeds_durable [OF start(1,5) _ start(2) run] start(3,4) mint run by (intro exI [of _ r] exI [of _ w'] exI [of _ files]) fastforce
qed

theorem claims_respect_cooldown_witness:
  "\<exists>r w'. claim_rlusd_topup claim_dev (Pair claim_pair) ''rI'' (Some ''t'') 0 ''p'' claim_sample = (r, w') \<and> length (claim_calls w') = 1"
proof -
  obtain r w' where run: "claim_rlusd_topup claim_dev (Pair claim_pair) ''rI'' (Some ''t'') 0 ''p'' claim_sample = (r, w')"
    by fastforce
  have start: "no_torn_writes claim_dev" "dw_log claim_sample = []" "owned_file Rlusd ''rA'' ''rI'' (dw_files claim_sample ''p'')"
    "resolve_topup_wallets (Pair claim_pair) DEMO_WALLET_RLUSD = Inr (claim_accumulator, claim_buyer)"
    by (simp_all add: no_torn_writes_def claim_sample_def claim_file_def dget_def dget_default_def owned_file_def STATE_VERSION_def
        same_owner_def resolve_topup_wallets_def claim_pair_def)
  have "claim_calls w' \<noteq> []"
    using claim_sample_run run by (force simp: claim_calls_def filter_empty_conv)
  moreover have "length (claim_calls w') \<le> 1"
    using claims_respect_cooldown [OF start(1,4) _ start(2) run] start(3) by simp
  ultimately have "length (claim_calls w') = 1"
    by (cases "claim_calls w'") auto
  then show ?thesis
    using run by blast
qed

end
