(* ===== verification/ClaimDelete.thy ===== *)
theory ClaimDelete
  imports ClaimCorrect
begin

text \<open>
  A claim wallet is deleted only when it is empty: at that point the ledger's latest answer about its trust
  lines has none to the issuer, and the ledger is far enough for the deletion.
\<close>

section \<open>Calls that delete nothing\<close>

definition deletes :: "dev_call \<Rightarrow> bool" where
  "deletes call \<longleftrightarrow> (case call of SubmitTx (DeleteAccount _ _ _) _ \<Rightarrow> True | _ \<Rightarrow> False)"

lemma deletes_simps [simp]:
  "deletes (SubmitTx (DeleteAccount a d f) s)" "\<not> deletes (SubmitTx (Pay p1 p2 p3 p4 p5) s)" "\<not> deletes (SubmitTx (TrustLine t1 t2 t3) s)"
  "\<not> deletes (AccountInfo x)" "\<not> deletes (AccountLines x)" "\<not> deletes ServerInfo" "\<not> deletes (MintRlusd x y)" "\<not> deletes (FaucetWallet x)"
  by (simp_all add: deletes_def)

abbreviation harmless :: "('x dev_world_scheme, 'a) cmd \<Rightarrow> bool" where
  "harmless \<equiv> emits dw_log (\<lambda>e. \<not> deletes (fst e))"

lemma harmless_log [emits_rules]: "\<not> deletes call \<Longrightarrow> harmless (dev_log E call)"
  by (simp add: emits_def dev_log_def)

lemma harmless_request [emits_rules]: "\<not> deletes call \<Longrightarrow> harmless (dev_request E call)"
  unfolding dev_request_def by (intro emits_rules)

lemma harmless_leaf [emits_rules]: "harmless (dev_sleep t)" "harmless dev_now" "harmless (wallet_at i)" "harmless (update_wallet i f)"
  by (simp_all add: emits_def dev_sleep_def cmodify_def dev_now_def cget_def wallet_at_def update_wallet_def)

lemma harmless_queries [emits_rules]:
  "harmless (get_validated_trustline E address issuer code)" "harmless (get_validated_account_root E address)"
  "harmless (get_validated_trustline_balance E address issuer code)" "harmless (get_asset_balance A E address issuer)"
  "harmless (trustline_limit_is_sufficient E address issuer limit code)"
  unfolding get_validated_trustline_def get_validated_account_root_def current_validated_ledger_index_def Let_def get_asset_balance_def
    get_validated_usdc_trustline_balance_def get_validated_trustline_balance_def trustline_limit_is_sufficient_def
  by (auto intro!: emits_rules split: claim_asset.split)

lemma harmless_submit [emits_rules]: "\<not> deletes (SubmitTx tx (wl_address W)) \<Longrightarrow> harmless (submit_validated E tx W operation missing)"
  unfolding submit_validated_def by (intro emits_rules)

lemma harmless_asset [emits_rules]:
  "harmless (ensure_asset_trustline A E W issuer)" "harmless (reset_asset_trustline A E W issuer)"
  "harmless (submit_asset_payment A E W destination issuer amount)"
  unfolding ensure_asset_trustline_def reset_asset_trustline_def submit_asset_payment_def ensure_rlusd_trustline_def ensure_usdc_trustline_def
    reset_rlusd_trustline_def reset_usdc_trustline_def submit_validated_rlusd_payment_def submit_validated_usdc_payment_def
    ensure_issued_trustline_def reset_issued_trustline_def submit_validated_issued_payment_def
  by (auto intro!: emits_rules split: claim_asset.split)

lemma harmless_poll:
  "harmless (poll_increase E n deadline address issuer starting increase code)" "harmless (poll_removal E n deadline address issuer code)"
  by (induction n) (auto intro!: emits_rules)

lemma harmless_wait [emits_rules]:
  "harmless (wait_for_trustline_balance_increase E address issuer starting increase code)"
  "harmless (wait_for_trustline_removal E address issuer code)"
  unfolding wait_for_trustline_balance_increase_def wait_for_trustline_removal_def by (intro emits_rules harmless_poll)+

lemma harmless_steps [emits_rules]:
  "harmless (sweep_balance A E W accumulator issuer i balance)" "harmless (remove_trustline A E W issuer i)"
  "harmless (note_xrp i drops)" "harmless (note_balance i amount)" "harmless (mark_claim_wallet_deleted i now)" "harmless (set_failed i status message)"
  unfolding sweep_balance_def remove_trustline_def Let_def note_xrp_def note_balance_def mark_claim_wallet_deleted_def note_change_def set_failed_def
  by (intro emits_rules)+


section \<open>What was asked before\<close>

lemma trustline_answer:
  assumes "get_validated_trustline E address issuer code w = (Ok line, w')"
  obtains result where "last_answer E (dw_log w') (AccountLines address) result" "trustline_in issuer code result = Inr line"
proof -
  obtain response where "dev_request E (AccountLines address) w = (Ok response, w')" "trustline_in issuer code (snd response) = Inr line"
    using assms by (auto simp: get_validated_trustline_def cbind_def clift_def craise_def creturn_def split: prod.splits outcome.splits sum.splits)
  then show thesis
    using that request_last by blast
qed

lemma removal_answer:
  assumes "poll_removal E n deadline address issuer code w = (Ok True, w')"
  shows "\<exists>result. last_answer E (dw_log w') (AccountLines address) result \<and> trustline_in issuer code result = Inr None"
  using assms
proof (induction n arbitrary: w)
  case 0
  then show ?case by (simp add: cdiverge_def)
next
  case (Suc n)
  show ?case
  proof (cases "dw_clock w < deadline")
    case True
    with Suc.prems have "cbind (get_validated_trustline E address issuer code) (\<lambda>line. if line = None then creturn True
        else cbind (dev_sleep 1) (\<lambda>_. poll_removal E n deadline address issuer code)) w = (Ok True, w')"
      by (simp add: cbind_def dev_now_def cget_def)
    then show ?thesis
    proof (cases rule: cbind_cases)
      case (returned line w1)
      show ?thesis
      proof (cases line)
        case None
        then have "w1 = w'" using returned(2) by (simp add: creturn_def)
        then show ?thesis
          using trustline_answer [OF returned(1)] None by blast
      next
        case (Some l)
        then have "poll_removal E n deadline address issuer code (snd (dev_sleep 1 w1)) = (Ok True, w')"
          using returned(2) by (simp add: cbind_def dev_sleep_def cmodify_def)
        then show ?thesis by (rule Suc.IH)
      qed
    next
      case fails
      then show ?thesis using fails(2) [of True] by simp
    qed
  next
    case False
    then show ?thesis using Suc.prems by (simp add: cbind_def dev_now_def cget_def creturn_def)
  qed
qed

abbreviation address_of :: "nat \<Rightarrow> claim_world \<Rightarrow> string" where
  "address_of i w \<equiv> cw_classic_address (cs_claim_wallets (cw_state w) ! i)"

lemma update_address:
  assumes "\<And>c. cw_classic_address (f c) = cw_classic_address c"
  shows "keeps (address_of i) (update_wallet j f)"
proof (rule keepsI)
  fix w
  show "address_of i (snd (update_wallet j f w)) = address_of i w"
    using assms by (cases "i = j \<and> j < length (cs_claim_wallets (cw_state w))")
      (auto simp: update_wallet_def cmodify_def nth_list_update list_update_beyond)
qed

text \<open>The commands on the ledger leave the tool's state alone.\<close>

lemma more_log [keeps_rules]: "keeps dev_world.more (dev_log E call)" "keeps dev_world.more (dev_sleep t)" "keeps dev_world.more dev_now"
  by (simp_all add: keeps_def dev_log_def dev_sleep_def cmodify_def dev_now_def cget_def)

lemma more_request [keeps_rules]: "keeps dev_world.more (dev_request E call)"
  unfolding dev_request_def by (intro keeps_rules)

lemma more_queries [keeps_rules]:
  "keeps dev_world.more (get_validated_trustline E address issuer code)" "keeps dev_world.more (get_validated_account_root E address)"
  unfolding get_validated_trustline_def get_validated_account_root_def current_validated_ledger_index_def Let_def
  by (intro keeps_rules)+

lemma more_submit [keeps_rules]: "keeps dev_world.more (submit_validated E tx W operation missing)"
  unfolding submit_validated_def by (intro keeps_rules)

lemma more_removal [keeps_rules]: "keeps dev_world.more (wait_for_trustline_removal E address issuer code)"
proof -
  have "keeps dev_world.more (poll_removal E n deadline address issuer code)" for n deadline
    by (induction n) (auto intro!: keeps_rules)
  then show ?thesis
    unfolding wait_for_trustline_removal_def by (intro keeps_rules)
qed

lemma more_reset [keeps_rules]: "keeps dev_world.more (reset_asset_trustline A E W issuer)"
  unfolding reset_asset_trustline_def reset_rlusd_trustline_def reset_usdc_trustline_def reset_issued_trustline_def
  by (cases A) (auto intro!: keeps_rules)

lemma more_address:
  fixes m :: "'a claim_cmd"
  assumes "keeps dev_world.more m"
  shows "keeps (address_of i) m"
proof (rule keepsI)
  fix w
  have "keeps dev_world.more m" by (rule assms)
  then have "dev_world.more (snd (m w)) = dev_world.more w" by (simp add: keeps_def)
  then show "address_of i (snd (m w)) = address_of i w"
    by (cases w; cases "snd (m w)") simp
qed

lemma address_remove: "keeps (address_of i) (remove_trustline A E W issuer i)"
  unfolding remove_trustline_def Let_def set_failed_def wallet_at_def
  by (intro keeps_rules more_address [OF more_queries(1)] more_address [OF more_reset] more_address [OF more_removal] update_address; simp)

lemma remove_gone:
  assumes "remove_trustline A E W issuer i w = (Ok (True, b), w')"
  shows "\<exists>result. last_answer E (dw_log w') (AccountLines (address_of i w)) result \<and> trustline_in issuer (asset_code A) result = Inr None"
proof -
  let ?address = "address_of i w"
  from assms [unfolded remove_trustline_def wallet_at_def Let_def cbind_cget] show ?thesis
  proof (cases rule: cbind_cases)
    case (returned line w1)
    show ?thesis
    proof (cases line)
      case None
      then have "w1 = w'" using returned(2) by (simp add: creturn_def)
      then show ?thesis
        using trustline_answer [OF returned(1)] None by blast
    next
      case (Some l)
      then obtain w2 where "wait_for_trustline_removal E ?address issuer (asset_code A) w2 = (Ok True, w')"
        using returned(2)
        by (auto simp: cbind_def clift_def creturn_def craise_def set_failed_def update_wallet_def cmodify_def
            split: prod.splits outcome.splits sum.splits if_splits option.splits)
      then show ?thesis
        unfolding wait_for_trustline_removal_def by (auto simp: cbind_def dev_now_def cget_def dest: removal_answer)
    qed
  next
    case fails
    then show ?thesis using fails(2) [of "(True, b)"] by simp
  qed
qed


section \<open>Deletions that are due\<close>

text \<open>What the ledger said about an account, and at which ledger.\<close>

definition root_answer :: "dev_env \<Rightarrow> (dev_call \<times> 'f) list \<Rightarrow> string \<Rightarrow> account_root \<Rightarrow> bool" where
  "root_answer E calls address acct \<longleftrightarrow> (\<exists>result. answered E calls (AccountInfo address) result
     \<and> map_of result ''account_data'' = Some (ac_data acct)
     \<and> (let index = py_or (dget result ''ledger_index'') (dget result ''ledger_current_index'') in
        if index = PNone then \<exists>info. answered E calls ServerInfo info \<and> ledger_index_of info = Inr (ac_ledger_index acct)
        else int_of_val index = Inr (ac_ledger_index acct)))"

text \<open>The deletion of an account without a trust line to the issuer, signed by it, in favour of the accumulator.\<close>

definition deletion_due ::
  "dev_env \<Rightarrow> claim_asset \<Rightarrow> wallet \<Rightarrow> wallet \<Rightarrow> string \<Rightarrow> string \<Rightarrow> (dev_call \<times> 'f) list \<Rightarrow> dev_call \<Rightarrow> bool" where
  "deletion_due E A W accumulator issuer address before call \<longleftrightarrow>
     (\<exists>fee. call = SubmitTx (DeleteAccount (wl_address W) (wl_address accumulator) fee) (wl_address W))
     \<and> (\<exists>result. last_answer E before (AccountLines address) result \<and> trustline_in issuer (asset_code A) result = Inr None)
     \<and> (\<exists>acct. root_answer E before address acct \<and> account_delete_is_ready acct = Inr True)"

definition deletions_due ::
  "dev_env \<Rightarrow> claim_asset \<Rightarrow> wallet \<Rightarrow> wallet \<Rightarrow> string \<Rightarrow> string \<Rightarrow> (dev_call \<times> 'f) list \<Rightarrow> bool" where
  "deletions_due E A W accumulator issuer address calls \<longleftrightarrow>
     (\<forall>k < length calls. deletes (fst (calls ! k)) \<longrightarrow> deletion_due E A W accumulator issuer address (take k calls) (fst (calls ! k)))"

lemma due_harmless:
  assumes "deletions_due E A W accumulator issuer address calls" and "list_all (\<lambda>e. \<not> deletes (fst e)) l"
  shows "deletions_due E A W accumulator issuer address (calls @ l)"
  using assms by (auto simp: deletions_due_def nth_append list_all_length)

lemma due_snoc:
  assumes "deletions_due E A W accumulator issuer address calls" and "deletion_due E A W accumulator issuer address calls (fst e)"
  shows "deletions_due E A W accumulator issuer address (calls @ [e])"
  using assms by (auto simp: deletions_due_def nth_append less_Suc_eq)

lemma root_answer_append: "root_answer E calls address acct \<Longrightarrow> root_answer E (calls @ l) address acct"
  unfolding root_answer_def Let_def by (auto intro: answered_append split: if_splits)

text \<open>The same while the account and its trust lines are known.\<close>

definition known_empty ::
  "dev_env \<Rightarrow> claim_asset \<Rightarrow> wallet \<Rightarrow> wallet \<Rightarrow> string \<Rightarrow> string \<Rightarrow> account_root \<Rightarrow> (dev_call \<times> 'f) list \<Rightarrow> bool" where
  "known_empty E A W accumulator issuer address acct calls \<longleftrightarrow> deletions_due E A W accumulator issuer address calls
     \<and> (\<exists>result. last_answer E calls (AccountLines address) result \<and> trustline_in issuer (asset_code A) result = Inr None)
     \<and> root_answer E calls address acct"

abbreviation quiet :: "string \<Rightarrow> ('x dev_world_scheme, 'a) cmd \<Rightarrow> bool" where
  "quiet address \<equiv> emits dw_log (\<lambda>e. \<not> deletes (fst e) \<and> fst e \<noteq> AccountLines address)"

lemma due_advances: "harmless m \<Longrightarrow> advances (\<lambda>w. deletions_due E A W accumulator issuer address (dw_log w)) m"
  unfolding advances_def le_bool_def by (metis due_harmless emits_def)

lemma lines_quiet:
  assumes "quiet address m" and "m w = (r, w')" and "last_answer E (dw_log w) (AccountLines address) result"
  shows "last_answer E (dw_log w') (AccountLines address) result"
proof -
  obtain l where "dw_log w' = dw_log w @ l" "list_all (\<lambda>e. \<not> deletes (fst e) \<and> fst e \<noteq> AccountLines address) l"
    using emitsD [OF assms(1,2)] by blast
  then show ?thesis
    using assms(3) by (auto simp: list_all_iff intro!: last_answer_append)
qed

lemma known_advances:
  fixes m :: "('x dev_world_scheme, 'a) cmd"
  assumes "quiet address m"
  shows "advances (\<lambda>w. known_empty E A W accumulator issuer address acct (dw_log w)) m"
  unfolding advances_def le_bool_def
proof (intro allI impI)
  fix w :: "'x dev_world_scheme"
  assume known: "known_empty E A W accumulator issuer address acct (dw_log w)"
  obtain r w' where m: "m w = (r, w')" by fastforce
  obtain l where l: "dw_log w' = dw_log w @ l" "list_all (\<lambda>e. \<not> deletes (fst e) \<and> fst e \<noteq> AccountLines address) l"
    using emitsD [OF assms m] by blast
  then have "list_all (\<lambda>e. \<not> deletes (fst e)) l" by (simp add: list_all_iff)
  then show "known_empty E A W accumulator issuer address acct (dw_log (snd (m w)))"
    using known l(1) lines_quiet [OF assms m] by (auto simp: m known_empty_def due_harmless root_answer_append)
qed

lemma quiet_log [emits_rules]: "\<not> deletes call \<Longrightarrow> call \<noteq> AccountLines address \<Longrightarrow> quiet address (dev_log E call)"
  by (simp add: emits_def dev_log_def)

lemma quiet_update [emits_rules]: "quiet address (update_wallet i f)" "quiet address (wallet_at i)"
  by (simp_all add: emits_def cmodify_def cget_def wallet_at_def update_wallet_def)

lemma quiet_queries [emits_rules]: "quiet address (get_validated_account_root E a)" "quiet address (account_delete_fee_drops E)"
  unfolding get_validated_account_root_def current_validated_ledger_index_def account_delete_fee_drops_def dev_request_def Let_def
  by (intro emits_rules; simp)+

lemma submit_log: "dw_log (snd (submit_validated E tx S operation missing w)) = dw_log w @ [(SubmitTx tx (wl_address S), dw_files w)]"
  by (simp add: submit_validated_def dev_request_def dev_log_def cbind_def clift_def creturn_def craise_def split: sum.split)

lemma root_answered:
  assumes "get_validated_account_root E address w = (Ok (Some acct), w')"
  shows "root_answer E (dw_log w') address acct"
proof -
  from assms [unfolded get_validated_account_root_def] show ?thesis
  proof (cases rule: cbind_cases)
    case (returned response w1)
    let ?result = "snd response"
    let ?index = "py_or (dget ?result ''ledger_index'') (dget ?result ''ledger_current_index'')"
    from returned(2) obtain data where data: "map_of ?result ''account_data'' = Some data"
      by (cases "map_of ?result ''account_data''") (auto simp: creturn_def)
    have info: "answered E (dw_log w1) (AccountInfo address) ?result"
      by (rule request_answered [OF returned(1)])
    show ?thesis
    proof (cases "?index = PNone")
      case True
      then obtain server w2 where "dev_request E ServerInfo w1 = (Ok server, w2)" "ledger_index_of (snd server) = Inr (ac_ledger_index acct)"
          "ac_data acct = data" "w' = w2"
        using returned(2) data
        by (auto simp: current_validated_ledger_index_def cbind_def clift_def craise_def creturn_def split: prod.splits outcome.splits sum.splits)
      moreover have "\<exists>l. dw_log w2 = dw_log w1 @ l"
        using \<open>dev_request E ServerInfo w1 = (Ok server, w2)\<close>
        by (auto simp: dev_request_def dev_log_def cbind_def clift_def craise_def creturn_def split: sum.splits)
      ultimately show ?thesis
        using info data True request_answered answered_append unfolding root_answer_def Let_def by metis
    next
      case False
      then have "int_of_val ?index = Inr (ac_ledger_index acct)" "ac_data acct = data" "w' = w1"
        using returned(2) data by (auto simp: Let_def cbind_def clift_def craise_def creturn_def split: sum.splits)
      then show ?thesis
        using info data False unfolding root_answer_def Let_def by auto
    qed
  next
    case fails
    then show ?thesis using fails(2) [of "Some acct"] by simp
  qed
qed

lemma quiet_submit_free: "quiet address (clift x)" "quiet address (mark_claim_wallet_deleted i now)" "quiet address (set_failed i status message)"
  unfolding mark_claim_wallet_deleted_def note_change_def set_failed_def by (intro emits_rules)+

lemma delete_due:
  assumes "known_empty E A W accumulator issuer address acct (dw_log w)" and "account_delete_is_ready acct = Inr True"
  shows "deletions_due E A W accumulator issuer address (dw_log (snd (submit_validated_account_delete E W (wl_address accumulator) w)))"
  unfolding submit_validated_account_delete_def
proof (rule holds_cbind [where I = "\<lambda>w. known_empty E A W accumulator issuer address acct (dw_log w)"
      and J = "\<lambda>w. deletions_due E A W accumulator issuer address (dw_log w)"])
  fix fee w1 assume "known_empty E A W accumulator issuer address acct (dw_log w1)"
  then show "deletions_due E A W accumulator issuer address
    (dw_log (snd (submit_validated E (DeleteAccount (wl_address W) (wl_address accumulator) (show_int fee)) W ''AccountDelete'' NO_TX_HASH w1)))"
    using assms(2) unfolding submit_log by (intro due_snoc) (auto simp: known_empty_def deletion_due_def)
qed (rule assms(1) known_advances [OF quiet_queries(2)] | simp add: known_empty_def)+

lemma delete_when_ready_due:
  assumes "known_empty E A W accumulator issuer address acct (dw_log w)"
  shows "deletions_due E A W accumulator issuer address (dw_log (snd (delete_when_ready A E W accumulator i now changed recovered acct w)))"
    (is "?J (snd (_ w))")
proof -
  let ?I = "\<lambda>w. known_empty E A W accumulator issuer address acct (dw_log w)"
  have stop: "?J w1" if "?I w1" for w1 :: claim_world
    using that by (simp add: known_empty_def)
  have quiet: "advances ?I (clift x :: 'b claim_cmd)" "advances ?I (update_wallet i f)" for x :: "exn + 'b" and f
    by (intro known_advances emits_rules)+
  have later: "advances ?J m" if "harmless m" for m :: "'b claim_cmd"
    using that by (rule due_advances)
  show ?thesis
    unfolding delete_when_ready_def
  proof (rule holds_cbind [where I = ?I and J = ?J], goal_cases)
    case (3 xrp w1)
    show ?case
    proof (rule holds_cbind [where I = ?I and J = ?J], goal_cases)
      case (3 u w2)
      show ?case
      proof (rule holds_cbind [where I = ?I and J = ?J], goal_cases)
        case (3 ready w3)
        then have ready: "account_delete_is_ready acct = Inr ready" "?I w3"
          by (auto simp: clift_def craise_def creturn_def split: sum.splits)
        show ?case
        proof (cases ready)
          case True
          have "?J (snd (submit_validated_account_delete E W (wl_address accumulator) w3))"
            using delete_due [OF ready(2)] ready(1) True by simp
          then show ?thesis
            using True unfolding ctry_else_def
            by (auto split: prod.splits outcome.splits intro!: holds_advances [where I = ?J] due_advances emits_rules)
        next
          case False
          then show ?thesis
            using stop [OF ready(2)] by (auto intro!: holds_advances [where I = ?J] due_advances emits_rules)
        qed
      qed (use 3 stop quiet in auto)
    qed (use 3 stop quiet in auto)
  qed (use assms stop quiet in auto)
qed

lemma finish_due:
  assumes "deletions_due E A W accumulator issuer address (dw_log w)" and "address_of i w = address"
  shows "deletions_due E A W accumulator issuer address (dw_log (snd (finish_recovery A E W accumulator issuer i now changed recovered w)))"
    (is "?J (snd (_ w))")
proof -
  have later: "?J w2 \<Longrightarrow> harmless m \<Longrightarrow> ?J (snd (m w2))" for w2 and m :: "'b claim_cmd"
    by (rule holds_advances [where I = ?J]) (auto intro: due_advances)
  obtain r w1 where removal: "remove_trustline A E W issuer i w = (r, w1)" by fastforce
  have "?J w1"
    using later [OF assms(1), of "remove_trustline A E W issuer i"] removal by (simp add: harmless_steps)
  show ?thesis
  proof (cases "\<exists>b. r = Ok (True, b)")
    case True
    then obtain b where gone: "remove_trustline A E W issuer i w = (Ok (True, b), w1)" using removal by blast
    obtain result where lines: "last_answer E (dw_log w1) (AccountLines address) result" "trustline_in issuer (asset_code A) result = Inr None"
      using remove_gone [OF gone] assms(2) by blast
    have address: "address_of i w1 = address"
      using keepsD [OF address_remove gone] assms(2) by simp
    obtain root w2 where root: "get_validated_account_root E address w1 = (root, w2)" by fastforce
    have "?J w2"
      using later [OF \<open>?J w1\<close>, of "get_validated_account_root E address"] root by (simp add: harmless_queries)
    have "\<exists>result. last_answer E (dw_log w2) (AccountLines address) result \<and> trustline_in issuer (asset_code A) result = Inr None"
      using lines_quiet [OF quiet_queries(1) root lines(1)] lines(2) by blast
    then have known: "known_empty E A W accumulator issuer address acct (dw_log w2)" if "root = Ok (Some acct)" for acct
      using \<open>?J w2\<close> root_answered root that by (simp add: known_empty_def)
    have "snd (finish_recovery A E W accumulator issuer i now changed recovered w) = (case root of
        Ok None \<Rightarrow> snd (cbind (mark_claim_wallet_deleted i now) (\<lambda>marked. creturn (changed \<or> b \<or> marked, processed recovered 1)) w2)
      | Ok (Some acct) \<Rightarrow> snd (delete_when_ready A E W accumulator i now (changed \<or> b) recovered acct w2)
      | _ \<Rightarrow> w2)"
      using gone root address
      by (simp add: finish_recovery_def cbind_step wallet_at_def cbind_cget) (simp add: cbind_def split: outcome.split option.split)
    then show ?thesis
      using \<open>?J w2\<close> delete_when_ready_due [OF known]
      by (auto split: outcome.split option.split intro!: later emits_rules)
  next
    case False
    then have "snd (finish_recovery A E W accumulator issuer i now changed recovered w) = w1"
      using removal by (auto simp: finish_recovery_def cbind_def creturn_def split: outcome.splits)
    then show ?thesis using \<open>?J w1\<close> by simp
  qed
qed

text \<open>The commands before that do not change the address of the wallet.\<close>

lemma more_asset:
  "keeps dev_world.more (get_asset_balance A E address issuer)" "keeps dev_world.more (ensure_asset_trustline A E S issuer)"
  "keeps dev_world.more (submit_asset_payment A E S destination issuer amount)"
  unfolding get_asset_balance_def ensure_asset_trustline_def submit_asset_payment_def ensure_rlusd_trustline_def ensure_usdc_trustline_def
    submit_validated_rlusd_payment_def submit_validated_usdc_payment_def ensure_issued_trustline_def submit_validated_issued_payment_def
    get_validated_usdc_trustline_balance_def get_validated_trustline_balance_def trustline_limit_is_sufficient_def
  by (cases A; auto intro!: keeps_rules)+

lemma more_increase: "keeps dev_world.more (wait_for_trustline_balance_increase E address issuer starting increase code)"
proof -
  have "keeps dev_world.more (poll_increase E n deadline address issuer starting increase code)" for n deadline
    by (induction n) (auto intro!: keeps_rules simp: get_validated_trustline_balance_def)
  then show ?thesis
    unfolding wait_for_trustline_balance_increase_def by (intro keeps_rules)
qed

lemma address_sweep: "keeps (address_of i) (sweep_balance A E W accumulator issuer i balance)"
  unfolding sweep_balance_def by (intro keeps_rules more_address [OF more_asset(1)] more_address [OF more_asset(2)]
      more_address [OF more_asset(3)] more_address [OF more_increase] update_address; simp)

lemma address_note: "keeps (address_of i) (note_xrp i drops)" "keeps (address_of i) (note_balance i amount)"
  unfolding note_xrp_def note_balance_def note_change_def wallet_at_def by (intro keeps_rules update_address; simp)+

lemma holds_if: "(b \<Longrightarrow> J (snd (m w))) \<Longrightarrow> (\<not> b \<Longrightarrow> J (snd (n w))) \<Longrightarrow> J (snd ((if b then m else n) w))"
  by simp

lemma holds_return: "J w \<Longrightarrow> J (snd (creturn x w))"
  by (simp add: creturn_def)

lemma recover_existing_due:
  assumes "deletions_due E A W accumulator issuer (address_of i w) (dw_log w)"
  shows "deletions_due E A W accumulator issuer (address_of i w) (dw_log (snd (recover_existing A E W accumulator issuer i now acct w)))"
proof -
  let ?address = "address_of i w"
  let ?J = "\<lambda>w. deletions_due E A W accumulator issuer ?address (dw_log w)"
  let ?I = "\<lambda>w. ?J w \<and> address_of i w = ?address"
  have I: "advances ?I m" if "harmless m" "keeps (address_of i) m" for m :: "'b claim_cmd"
    unfolding advances_def le_bool_def
  proof (intro allI impI)
    fix w1 assume "?I w1"
    then show "?I (snd (m w1))"
      using holds_advances [OF _ due_advances [OF that(1)], of E A W accumulator issuer ?address w1] keepsD [OF that(2), of w1]
      by (metis surjective_pairing)
  qed
  note steps = I [OF harmless_steps(3) address_note(1)] I [OF harmless_steps(4) address_note(2)]
    I [OF harmless_steps(1) address_sweep] I [OF harmless_queries(4) more_address [OF more_asset(1)]]
  have lifted: "advances ?I (clift x :: 'b claim_cmd)" "advances ?I (creturn y :: 'c claim_cmd)" for x :: "exn + 'b" and y
    by (intro I emits_rules keeps_rules)+
  have ending: "?I w1 \<Longrightarrow> ?J (snd (finish_recovery A E W accumulator issuer i now changed recovered w1))" for w1 changed recovered
    by (rule finish_due) simp_all
  have "?I w" using assms by simp
  then show ?thesis
    unfolding recover_existing_def wallet_at_def cbind_cget
    by (intro holds_cbind [where I = ?I and J = ?J] holds_if [where J = ?J] holds_return [where J = ?J] steps lifted advances_if ending)
      (simp_all | assumption)+
qed

lemma recover_due:
  assumes "deletions_due E A W accumulator issuer (address_of i w) (dw_log w)"
    and "te_from_seed E (cw_seed (cs_claim_wallets (cw_state w) ! i)) = Inr W"
  shows "deletions_due E A W accumulator issuer (address_of i w) (dw_log (snd (recover_wallet A E i accumulator issuer now w)))"
proof -
  let ?J = "\<lambda>w'. deletions_due E A W accumulator issuer (address_of i w) (dw_log w')"
  obtain root w1 where root: "get_validated_account_root E (address_of i w) w = (root, w1)" by fastforce
  have "?J w1"
    using holds_advances [OF assms(1) due_advances [OF harmless_queries(2)], of E "address_of i w"] root by simp
  have "address_of i w1 = address_of i w"
    using keepsD [OF more_address [OF more_queries(2)] root] .
  then have "?J (snd (recover_existing A E W accumulator issuer i now acct w1))" for acct
    using recover_existing_due [of E A W accumulator issuer w1 i now acct] \<open>?J w1\<close> by simp
  moreover have "?J (snd (cbind (mark_claim_wallet_deleted i now) (\<lambda>marked. creturn (marked, processed (dec_of_int 0) 1)) w1))"
    by (rule holds_advances [OF \<open>?J w1\<close> due_advances]) (intro emits_rules)
  moreover have "snd (recover_wallet A E i accumulator issuer now w) = (case root of
      Ok None \<Rightarrow> snd (cbind (mark_claim_wallet_deleted i now) (\<lambda>marked. creturn (marked, processed (dec_of_int 0) 1)) w1)
    | Ok (Some acct) \<Rightarrow> snd (recover_existing A E W accumulator issuer i now acct w1)
    | _ \<Rightarrow> w1)"
    using root assms(2) by (simp add: recover_wallet_def wallet_at_def cbind_cget) (simp add: cbind_def split: outcome.split option.split)
  ultimately show ?thesis
    using \<open>?J w1\<close> by (auto split: outcome.split option.split)
qed

text \<open>C12. A claim wallet is deleted only when it is empty and ready: every account deletion that a recovery of
  a tracked wallet submits deletes the account of the seed in favour of the accumulator, signed by that
  account, and at that moment the ledger's latest answer about the trust lines of the wallet's address had
  none to the issuer, and an earlier answer showed the account more than 256 ledgers past its sequence number.
\<close>

theorem claim_wallet_deleted_empty:
  assumes "recover_wallet A E i accumulator issuer now w = (r, w')" and "dw_log w = []"
    and "dw_log w' = before @ (SubmitTx (DeleteAccount a d fee) signer, files) # after"
  shows "\<exists>W. te_from_seed E (cw_seed (cs_claim_wallets (cw_state w) ! i)) = Inr W
    \<and> a = wl_address W \<and> signer = a \<and> d = wl_address accumulator
    \<and> (\<exists>result. last_answer E before (AccountLines (address_of i w)) result \<and> trustline_in issuer (asset_code A) result = Inr None)
    \<and> (\<exists>acct. root_answer E before (address_of i w) acct \<and> account_delete_is_ready acct = Inr True)"
proof (cases "te_from_seed E (cw_seed (cs_claim_wallets (cw_state w) ! i))")
  case (Inl e)
  then have "dw_log w' = []"
    using assms(1,2) by (auto simp: recover_wallet_def wallet_at_def cbind_cget set_failed_def update_wallet_def cmodify_def cbind_def creturn_def
        cget_def split: if_splits)
  then show ?thesis using assms(3) by simp
next
  case (Inr W)
  have "deletions_due E A W accumulator issuer (address_of i w) (dw_log w')"
    using recover_due [OF _ Inr, of A accumulator issuer now] assms(1,2) by (simp add: deletions_due_def)
  then have "deletion_due E A W accumulator issuer (address_of i w) before (SubmitTx (DeleteAccount a d fee) signer)"
    using assms(3) by (auto simp: deletions_due_def nth_append dest!: spec [of _ "length before"])
  then show ?thesis
    using Inr by (auto simp: deletion_due_def)
qed

section \<open>Witness\<close>

text \<open>A ledger on which the tracked wallet holds nothing but XRP and is old enough.\<close>

definition empty_ledger :: "dev_call \<Rightarrow> exn + bool \<times> pydict" where
  "empty_ledger call = (case call of
       AccountInfo _ \<Rightarrow> Inr (True, [(''account_data'', PDict [(''Balance'', PStr ''7''), (''Sequence'', PStr ''5'')]), (''ledger_index'', PStr ''900'')])
     | AccountLines _ \<Rightarrow> Inr (True, [(''lines'', PList [])])
     | SubmitTx _ _ \<Rightarrow> Inr (True, [(''validated'', PBool True), (''meta'', PDict [(''TransactionResult'', PStr ''tesSUCCESS'')]), (''hash'', PStr ''H'')])
     | _ \<Rightarrow> Inl (ClientError []))"

definition delete_dev :: dev_env where
  "delete_dev = claim_dev\<lparr>te_rpc := \<lambda>_. empty_ledger, te_from_seed := \<lambda>_. Inr \<lparr>wl_address = ''rC'', wl_seed = Some ''sC''\<rparr>\<rparr>"

definition delete_sample :: claim_world where
  "delete_sample = \<lparr>dw_log = [], dw_files = Map.empty, dw_writes = 0, dw_clock = 0,
     cw_state = (empty_claim_state ''rA'' ''rI'')\<lparr>cs_claim_wallets := [new_claim_wallet Rlusd ''rC'' ''sC'' 0]\<rparr>\<rparr>"

lemma delete_dev_answers [simp]:
  "te_rpc delete_dev h call = empty_ledger call" "te_from_seed delete_dev s = Inr \<lparr>wl_address = ''rC'', wl_seed = Some ''sC''\<rparr>"
  "te_took delete_dev n = 0"
  by (simp_all add: delete_dev_def)

abbreviation after_call :: "dev_call \<Rightarrow> ('x dev_world_scheme \<Rightarrow> 'x dev_world_scheme)" where
  "after_call call \<equiv> \<lambda>w. snd (dev_log delete_dev call w)"

lemma delete_numbers: "int_of_str ''7'' = Inr 7" "int_of_str ''5'' = Inr 5" "int_of_str ''900'' = Inr 900"
  by code_simp+

lemma delete_queries:
  "get_validated_account_root delete_dev a w = (Ok (Some \<lparr>ac_data = PDict [(''Balance'', PStr ''7''), (''Sequence'', PStr ''5'')], ac_ledger_index = 900\<rparr>),
     after_call (AccountInfo a) w)"
  "get_validated_trustline delete_dev a issuer ''RLUSD'' w = (Ok None, after_call (AccountLines a) w)"
  by (simp_all add: get_validated_account_root_def get_validated_trustline_def trustline_in_def claim_runs empty_ledger_def dget_def
      dget_default_def py_or_def int_of_val_def py_str_def delete_numbers iter_nodes_def rbind_def Let_def)

lemma delete_fee: "account_delete_fee_drops delete_dev w = (Ok 200000, after_call ServerInfo w)"
  by (simp add: account_delete_fee_drops_def claim_runs empty_ledger_def)

lemma delete_submit: "submit_validated delete_dev tx S operation missing w = (Ok ''H'', after_call (SubmitTx tx (wl_address S)) w)"
  by (simp add: submit_validated_def claim_runs empty_ledger_def assert_validated_success_def response_tx_hash_def dget_def dget_default_def
      vget_def guard_def rbind_def py_str_def Let_def)

lemma delete_balance: "get_asset_balance Rlusd delete_dev a issuer w = (Ok (dec_of_int 0), after_call (AccountLines a) w)"
  by (simp add: get_asset_balance_def get_validated_trustline_balance_def cbind_step [OF delete_queries(2)] line_balance_def)
    (simp add: clift_def creturn_def)

lemma state_after [simp]: "cw_state (after_call call w) = cw_state w"
  by (simp add: dev_log_def)

lemma after_update [simp]:
  "dw_log (snd (update_wallet i f w)) = dw_log w"
  "cw_state (snd (update_wallet i f w)) = (cw_state w)\<lparr>cs_claim_wallets :=
     (cs_claim_wallets (cw_state w))[i := f (cs_claim_wallets (cw_state w) ! i)]\<rparr>"
  by (simp_all add: dev_log_def update_wallet_def cmodify_def)

lemma after_log: "dw_log (after_call call w) = dw_log w @ (call, dw_files w) # []"
  by (simp add: dev_log_def)

lemma cbind_update: "cbind (update_wallet i f) g w = g () (snd (update_wallet i f w))"
  by (simp add: cbind_def update_wallet_def cmodify_def)

lemma cbind_return: "cbind (creturn x) f = f x"
  by (simp add: fun_eq_iff cbind_def creturn_def)

lemma cbind_assoc: "cbind (cbind m f) g = cbind m (\<lambda>x. cbind (f x) g)"
  by (simp add: fun_eq_iff cbind_def split: prod.split outcome.split)

lemma snd_return: "snd (creturn x w) = w"
  by (simp add: creturn_def)

lemma delete_zero: "dec_lt (dec_of_int 0) (dec_of_int 0) = Inr False" "\<not> dec_differs (dec_of_int 0) (dec_of_int 0)"
  by (simp_all add: dec_lt_def dec_differs_def dec_of_int_def rbind_def cmp_int_def scaled_def)

theorem claim_wallet_deleted_empty_witness:
  "\<exists>before fee files after. dw_log (snd (recover_wallet Rlusd delete_dev 0 claim_accumulator ''rI'' 0 delete_sample))
      = before @ (SubmitTx (DeleteAccount ''rC'' ''rA'' fee) ''rC'', files) # after
    \<and> (\<exists>result. last_answer delete_dev before (AccountLines ''rC'') result \<and> trustline_in ''rI'' ''RLUSD'' result = Inr None)"
proof -
  let ?tx = "DeleteAccount ''rC'' ''rA'' (show_int 200000)"
  have "\<exists>before files. dw_log (snd (recover_wallet Rlusd delete_dev 0 claim_accumulator ''rI'' 0 delete_sample))
      = before @ (SubmitTx ?tx ''rC'', files) # []"
    by (simp add: recover_wallet_def recover_existing_def finish_recovery_def remove_trustline_def delete_when_ready_def wallet_at_def cbind_cget
        cbind_step [OF delete_queries(1)] cbind_step [OF delete_queries(2)] cbind_step [OF delete_balance] cbind_step [OF delete_fee]
        asset_code_def cbind_assoc cbind_update cbind_clift_Inr cbind_return vindex_def dindex_def rbind_def int_of_val_def py_str_def delete_numbers note_xrp_def
        note_balance_def note_change_def delete_zero account_delete_is_ready_def submit_validated_account_delete_def
        ctry_else_def delete_submit mark_claim_wallet_deleted_def differs_from_deleted_def snd_return Let_def
        delete_sample_def new_claim_wallet_def; intro exI; rule after_log)
  then obtain before files where run: "dw_log (snd (recover_wallet Rlusd delete_dev 0 claim_accumulator ''rI'' 0 delete_sample))
      = before @ (SubmitTx ?tx ''rC'', files) # []"
    by blast
  moreover have "dw_log delete_sample = []" "cw_classic_address (cs_claim_wallets (cw_state delete_sample) ! 0) = ''rC''"
    by (simp_all add: delete_sample_def new_claim_wallet_def)
  ultimately have "\<exists>result. last_answer delete_dev before (AccountLines ''rC'') result \<and> trustline_in ''rI'' (asset_code Rlusd) result = Inr None"
    using claim_wallet_deleted_empty [OF surjective_pairing _ run] by simp
  then show ?thesis
    using run by (simp add: asset_code_def) blast
qed

end
