(* ===== verification/DemoEnv.thy ===== *)
theory DemoEnv
  imports ClaimRecover
begin

text \<open>
  \<open>src/devtools/quickstart.py\<close> and \<open>src/devtools/demo_env.py\<close>: the environment file of the Docker demo, and the
  files derived from it for one asset. Both entry points are the code after the argument parser; what they
  print is their result.
\<close>

section \<open>Text files\<close>

definition is_line_break :: "char \<Rightarrow> bool" where
  "is_line_break c \<longleftrightarrow> (10 \<le> ord_c c \<and> ord_c c \<le> 13) \<or> (28 \<le> ord_c c \<and> ord_c c \<le> 30) \<or> ord_c c = 133"

text \<open>\<open>str.splitlines\<close>: a carriage return and the line feed after it are one break.\<close>

fun splitlines :: "string \<Rightarrow> string list" where
  "splitlines [] = []"
| "splitlines [c] = (if is_line_break c then [[]] else [[c]])"
| "splitlines (c # d # cs) =
     (if ord_c c = 13 \<and> ord_c d = 10 then [] # splitlines cs
      else if is_line_break c then [] # splitlines (d # cs)
      else (case splitlines (d # cs) of [] \<Rightarrow> [[c]] | l # ls \<Rightarrow> (c # l) # ls))"

text \<open>A text file is read with each carriage return, alone or before a line feed, as a line feed.\<close>

abbreviation line_feed :: char where "line_feed \<equiv> CHR 0x0A"

fun universal_newlines :: "string \<Rightarrow> string" where
  "universal_newlines [] = []"
| "universal_newlines [c] = [if ord_c c = 13 then line_feed else c]"
| "universal_newlines (c # d # cs) =
     (if ord_c c = 13 \<and> ord_c d = 10 then line_feed # universal_newlines cs
      else (if ord_c c = 13 then line_feed else c) # universal_newlines (d # cs))"

text \<open>\<open>dumps\<close> gives the text of a file that holds JSON.\<close>

definition text_of_file :: "(pyval \<Rightarrow> string) \<Rightarrow> stored_file option \<Rightarrow> exn + string" where
  "text_of_file dumps f = (case f of
       None \<Rightarrow> Inl (OSError ''No such file or directory'')
     | Some LinkFile \<Rightarrow> Inl (OSError ''No such file or directory'')
     | Some BadFile \<Rightarrow> Inl UnicodeError
     | Some (JsonFile v) \<Rightarrow> Inr (dumps v)
     | Some (TextFile s) \<Rightarrow> Inr (universal_newlines s))"

definition read_text :: "(pyval \<Rightarrow> string) \<Rightarrow> string \<Rightarrow> ('x, string) dev_cmd" where
  "read_text dumps path = cbind (read_file path) (\<lambda>f. clift (text_of_file dumps f))"

definition write_plain_text :: "dev_env \<Rightarrow> string \<Rightarrow> string \<Rightarrow> ('x, unit) dev_cmd" where
  "write_plain_text E path content = (\<lambda>w.
     let w' = w\<lparr>dw_writes := Suc (dw_writes w)\<rparr>; new = w'\<lparr>dw_files := (dw_files w)(path \<mapsto> TextFile content)\<rparr> in
     case te_write E (dw_writes w) of
       NoFault \<Rightarrow> (Ok (), new)
     | FailsOpening e \<Rightarrow> (Raise e, w')
     | FailsBefore e \<Rightarrow> (Raise e, w'\<lparr>dw_files := (dw_files w)(path \<mapsto> BadFile)\<rparr>)
     | FailsAfter e \<Rightarrow> (Raise e, new))"


section \<open>The base file\<close>

abbreviation DEFAULT_PRICE_DROPS :: int where "DEFAULT_PRICE_DROPS \<equiv> 1000"

definition env_line :: "string \<Rightarrow> string \<Rightarrow> string" where
  "env_line key v = key @ ''='' @ v"

definition render_quickstart_env :: "string \<Rightarrow> wallet \<Rightarrow> wallet \<Rightarrow> string \<Rightarrow> int \<Rightarrow> exn + string" where
  "render_quickstart_env xrpl_rpc_url merchant buyer facilitator_token price_drops = (case wl_seed buyer of
       None \<Rightarrow> Inl (RuntimeError ''Buyer wallet is missing a seed'')
     | Some buyer_seed \<Rightarrow> Inr (join [line_feed]
         [''# Generated by `python -m devtools.quickstart`.'',
          ''# Contains secrets for local XRPL Testnet demos. Do not commit this file.'',
          env_line ''GATEWAY_AUTH_MODE'' ''single_token'',
          env_line ''XRPL_RPC_URL'' xrpl_rpc_url,
          env_line ''NETWORK_ID'' ''xrpl:1'',
          env_line ''XRPL_NETWORK'' ''xrpl:1'',
          env_line ''MY_DESTINATION_ADDRESS'' (wl_address merchant),
          env_line ''FACILITATOR_BEARER_TOKEN'' facilitator_token,
          env_line ''XRPL_WALLET_SEED'' buyer_seed,
          env_line ''PRICE_DROPS'' (show_int price_drops),
          env_line ''PRICE_ASSET_CODE'' ''XRP'',
          env_line ''PRICE_ASSET_ISSUER'' [],
          env_line ''PRICE_ASSET_AMOUNT'' [],
          env_line ''PAYMENT_ASSET'' ''XRP'',
          env_line ''PAYMENT_ASSET_ISSUER'' [],
          env_line ''PAYMENT_MAX_SPEND'' (show_int price_drops),
          [],
          ''# To demo RLUSD or USDC, set PRICE_ASSET_CODE/ISSUER/AMOUNT and'',
          ''# PAYMENT_ASSET/PAYMENT_ASSET_ISSUER/PAYMENT_MAX_SPEND explicitly.'',
          []]))"

definition mask_secret :: "string \<Rightarrow> nat \<Rightarrow> string" where
  "mask_secret v visible_prefix =
     (let visible = take visible_prefix v in visible @ replicate (length v - length visible) (CHR ''*''))"

definition quickstart_report :: "dev_env \<Rightarrow> string \<Rightarrow> string \<Rightarrow> wallet \<Rightarrow> wallet \<Rightarrow> string \<Rightarrow> string \<Rightarrow> string list" where
  "quickstart_report E output xrpl_rpc_url merchant buyer buyer_seed facilitator_token =
     [''Wrote '' @ output,
      ''Merchant address: '' @ wl_address merchant,
      ''Buyer address: '' @ wl_address buyer,
      ''Buyer seed: '' @ mask_secret buyer_seed 3,
      ''XRPL RPC URL: '' @ xrpl_rpc_url,
      ''Facilitator bearer token: '' @ mask_secret facilitator_token 2,
      ''Wallet cache: '' @ wallet_cache_path E,
      ''Next steps:'',
      ''  docker compose --env-file '' @ output @ '' up --build'',
      ''  docker compose --env-file '' @ output @ '' run --rm --profile demo buyer'',
      ''Asset follow-ups:'',
      ''  python -m devtools.rlusd_fund --target-rlusd 10 --max-xrp 35'',
      ''  python -m devtools.usdc_topup'']"

text \<open>
  The ledger client of an endpoint is an environment of its own: \<open>client url\<close>. \<open>new_token\<close> is what
  \<open>secrets.token_urlsafe\<close> would give.
\<close>

definition quickstart_main ::
  "dev_env \<Rightarrow> (string \<Rightarrow> dev_env) \<Rightarrow> (string \<Rightarrow> exn + pyval) \<Rightarrow> string \<Rightarrow> string \<Rightarrow> int \<Rightarrow> string option \<Rightarrow> string option
     \<Rightarrow> ('x, string list) dev_cmd" where
  "quickstart_main E client server_info new_token output price_drops given_token given_rpc_url =
     cbind (clift (resolve_live_testnet_rpc_url E server_info given_rpc_url)) (\<lambda>xrpl_rpc_url.
     cbind (get_live_wallet_pair (client xrpl_rpc_url)) (\<lambda>wallets.
       let merchant = lp_wallet_a wallets; buyer = lp_wallet_b wallets;
           facilitator_token = (case or_str given_token (Some new_token) of Some t \<Rightarrow> t | None \<Rightarrow> new_token) in
       cbind (clift (make_parent E output)) (\<lambda>_.
       cbind (clift (render_quickstart_env xrpl_rpc_url merchant buyer facilitator_token price_drops)) (\<lambda>content.
       cbind (write_plain_text E output content) (\<lambda>_. case wl_seed buyer of
           None \<Rightarrow> craise (RuntimeError ''Buyer wallet is missing a seed'')
         | Some buyer_seed \<Rightarrow>
             creturn (quickstart_report E output xrpl_rpc_url merchant buyer buyer_seed facilitator_token))))))"


section \<open>Values in the lines of a file\<close>

fun get_env_value :: "string list \<Rightarrow> string \<Rightarrow> string option" where
  "get_env_value [] key = None"
| "get_env_value (line # lines) key =
     (if starts_with (key @ ''='') line then Some (drop (length (key @ ''='')) line) else get_env_value lines key)"

fun set_env_value :: "string list \<Rightarrow> string \<Rightarrow> string \<Rightarrow> string list" where
  "set_env_value [] key v = [env_line key v]"
| "set_env_value (line # lines) key v =
     (if starts_with (key @ ''='') line then env_line key v # lines else line # set_env_value lines key v)"

definition set_env_values :: "string list \<Rightarrow> (string \<times> string) list \<Rightarrow> string list" where
  "set_env_values lines settings = foldl (\<lambda>ls (key, v). set_env_value ls key v) lines settings"

definition derived_output_path :: "string \<Rightarrow> string \<Rightarrow> string" where
  "derived_output_path base_path asset = base_path @ ''.'' @ asset"

definition NETWORK_USDC_ISSUERS :: "(string \<times> string) list" where
  "NETWORK_USDC_ISSUERS = [(''xrpl:0'', ''rGm7WCVp9gb4jZHWTEtGUr4dd74z2XuWhE''), (''xrpl:1'', USDC_TESTNET_ISSUER)]"

definition built_in_issuer :: "string \<Rightarrow> string \<Rightarrow> string option" where
  "built_in_issuer asset network_id =
     (if asset = ''rlusd'' then map_of NETWORK_RLUSD_ISSUERS network_id
      else if asset = ''usdc'' then map_of NETWORK_USDC_ISSUERS network_id
      else None)"

definition demo_allowed_issued_assets :: "string \<Rightarrow> string option \<Rightarrow> string \<Rightarrow> string" where
  "demo_allowed_issued_assets asset issuer network_id = (case issuer of
       None \<Rightarrow> []
     | Some i \<Rightarrow> if issuer = built_in_issuer asset network_id then [] else upper asset @ '':'' @ i)"

definition xrp_settings :: "int \<Rightarrow> (string \<times> string) list" where
  "xrp_settings price_drops =
     [(''PRICE_DROPS'', show_int price_drops), (''PRICE_ASSET_CODE'', ''XRP''), (''PRICE_ASSET_ISSUER'', []), (''PRICE_ASSET_AMOUNT'', []),
      (''PAYMENT_ASSET'', ''XRP''), (''PAYMENT_ASSET_ISSUER'', []), (''PAYMENT_MAX_SPEND'', show_int price_drops), (''ALLOWED_ISSUED_ASSETS'', [])]"

definition issued_settings :: "string \<Rightarrow> string \<Rightarrow> string \<Rightarrow> string \<Rightarrow> (string \<times> string) list" where
  "issued_settings asset network_id issuer amount =
     [(''PRICE_ASSET_CODE'', upper asset), (''PRICE_ASSET_ISSUER'', issuer), (''PRICE_ASSET_AMOUNT'', amount),
      (''PAYMENT_ASSET'', upper asset), (''PAYMENT_ASSET_ISSUER'', issuer), (''PAYMENT_MAX_SPEND'', amount),
      (''ALLOWED_ISSUED_ASSETS'', demo_allowed_issued_assets asset (Some issuer) network_id)]"

definition resolved_price_drops :: "string list \<Rightarrow> int option \<Rightarrow> exn + int" where
  "resolved_price_drops lines price_drops = (case price_drops of
       Some n \<Rightarrow> if n \<noteq> 0 then Inr n else
         int_of_str (case or_str (get_env_value lines ''PRICE_DROPS'') None of Some s \<Rightarrow> s | None \<Rightarrow> show_int DEFAULT_PRICE_DROPS)
     | None \<Rightarrow>
         int_of_str (case or_str (get_env_value lines ''PRICE_DROPS'') None of Some s \<Rightarrow> s | None \<Rightarrow> show_int DEFAULT_PRICE_DROPS))"

definition demo_settings ::
  "string list \<Rightarrow> string \<Rightarrow> string \<Rightarrow> string option \<Rightarrow> string option \<Rightarrow> int option \<Rightarrow> exn + (string \<times> string) list" where
  "demo_settings lines asset network_id issuer amount price_drops =
     (if asset = ''xrp'' then rbind (resolved_price_drops lines price_drops) (\<lambda>drops. Inr (xrp_settings drops))
      else case (issuer, amount) of
          (Some i, Some a) \<Rightarrow> Inr (issued_settings asset network_id i a)
        | _ \<Rightarrow> Inl (ValueError (asset @ '' demos require both an issuer and an amount'')))"

definition configure_demo_env ::
  "string list \<Rightarrow> string \<Rightarrow> string \<Rightarrow> string option \<Rightarrow> string option \<Rightarrow> int option \<Rightarrow> exn + string list" where
  "configure_demo_env lines asset network_id issuer amount price_drops =
     rbind (demo_settings lines asset network_id issuer amount price_drops) (\<lambda>settings. Inr (set_env_values lines settings))"


section \<open>The derived file\<close>

abbreviation RERUN_QUICKSTART :: string where "RERUN_QUICKSTART \<equiv> ''Rerun `python -m devtools.quickstart` first.''"

definition resolve_demo_wallet_seed :: "dev_env \<Rightarrow> string \<Rightarrow> ('x, string \<times> string) dev_cmd" where
  "resolve_demo_wallet_seed E asset =
     (let cache_path = wallet_cache_path E in
      cbind (load_cached_demo_wallet_set E (Some cache_path)) (\<lambda>wallet_set. case wallet_set of
          None \<Rightarrow> craise (RuntimeError (''Demo wallet cache '' @ cache_path @ '' is missing per-asset buyer wallets. '' @ RERUN_QUICKSTART))
        | Some wallets \<Rightarrow>
            cbind (clift (buyer_wallet wallets asset)) (\<lambda>b. case wl_seed b of
                None \<Rightarrow> craise (RuntimeError (''Demo wallet cache '' @ cache_path @ '' is missing the seed for the '' @ asset @
                          '' buyer wallet. '' @ RERUN_QUICKSTART))
              | Some seed \<Rightarrow> creturn (seed, wl_address b))))"

definition or_default :: "string option \<Rightarrow> string \<Rightarrow> string" where
  "or_default s missing = (case s of Some (c # cs) \<Rightarrow> c # cs | _ \<Rightarrow> missing)"

definition network_of_lines :: "string list \<Rightarrow> string" where
  "network_of_lines lines =
     (let named = or_default (or_str (get_env_value lines ''NETWORK_ID'') (get_env_value lines ''XRPL_NETWORK'')) ''xrpl:1'' in
      or_default (Some (strip named)) ''xrpl:1'')"

abbreviation DEFAULT_RLUSD_AMOUNT :: string where "DEFAULT_RLUSD_AMOUNT \<equiv> ''1.25''"
abbreviation DEFAULT_USDC_AMOUNT :: string where "DEFAULT_USDC_AMOUNT \<equiv> ''2.50''"

definition demo_price :: "dev_env \<Rightarrow> string \<Rightarrow> string option \<Rightarrow> string option \<Rightarrow> (string \<times> string) option" where
  "demo_price E asset issuer amount =
     (if asset = ''rlusd'' then Some (or_default issuer (default_rlusd_issuer E), or_default amount DEFAULT_RLUSD_AMOUNT)
      else if asset = ''usdc'' then Some (or_default issuer (default_usdc_issuer E), or_default amount DEFAULT_USDC_AMOUNT)
      else None)"

definition env_text :: "string list \<Rightarrow> string \<Rightarrow> string" where
  "env_text lines key = (case get_env_value lines key of Some s \<Rightarrow> s | None \<Rightarrow> ''None'')"

definition demo_report :: "string list \<Rightarrow> string \<Rightarrow> string \<Rightarrow> string \<Rightarrow> string \<Rightarrow> string list" where
  "demo_report lines asset output network_id buyer_address =
     [''Wrote '' @ output, ''Network: '' @ network_id, ''Demo asset: '' @ upper asset, ''Buyer address: '' @ buyer_address,
      ''Buyer payment asset: '' @ env_text lines ''PAYMENT_ASSET''] @
     (if asset = ''xrp'' then [''Merchant price drops: '' @ env_text lines ''PRICE_DROPS'']
      else [''Merchant price: '' @ env_text lines ''PRICE_ASSET_AMOUNT'' @ '' '' @ env_text lines ''PRICE_ASSET_CODE'',
            ''Merchant issuer: '' @ env_text lines ''PRICE_ASSET_ISSUER'']) @
     (case or_str (get_env_value lines ''ALLOWED_ISSUED_ASSETS'') None of
        Some (c # cs) \<Rightarrow> [''Facilitator extra issued assets: '' @ c # cs] | _ \<Rightarrow> []) @
     [''Next steps:'', ''  docker compose --env-file '' @ output @ '' up --build'',
      ''  docker compose --env-file '' @ output @ '' --profile demo run --rm buyer'']"

definition demo_env_main ::
  "dev_env \<Rightarrow> (pyval \<Rightarrow> string) \<Rightarrow> string \<Rightarrow> string \<Rightarrow> string option \<Rightarrow> string option \<Rightarrow> string option \<Rightarrow> int option
     \<Rightarrow> ('x, string list) dev_cmd" where
  "demo_env_main E dumps asset base_path output issuer amount price_drops =
     cbind (read_file base_path) (\<lambda>f.
       if f = None \<or> f = Some LinkFile
         then craise (OSError (base_path @ '' does not exist. Run `python -m devtools.quickstart` first.''))
       else
         let output_path = or_default output (derived_output_path base_path asset) in
         cbind (read_text dumps base_path) (\<lambda>content.
           let lines = splitlines content; network_id = network_of_lines lines; price = demo_price E asset issuer amount in
           cbind (clift (configure_demo_env lines asset network_id (map_option fst price) (map_option snd price) price_drops)) (\<lambda>configured.
           cbind (resolve_demo_wallet_seed E asset) (\<lambda>(buyer_seed, buyer_address).
             let final = set_env_value configured ''XRPL_WALLET_SEED'' buyer_seed in
             cbind (write_plain_text E output_path (join [line_feed] final @ [line_feed])) (\<lambda>_.
               creturn (demo_report final asset output_path network_id buyer_address))))))"

end
