(* ===== verification/DemoRebalance.thy ===== *)
theory DemoRebalance
  imports DemoEnv
begin

text \<open>
  \<open>src/devtools/demo_rebalance.py\<close>: what the merchant of the demo received goes back to the buyers. Each
  asset of a contract file names an environment file, which must agree with the cached wallets.
\<close>

section \<open>Files\<close>

record contract_asset =
  co_symbol :: string
  co_env_path :: string

definition env_entry :: "(string \<rightharpoonup> string) \<Rightarrow> string \<Rightarrow> (string \<rightharpoonup> string)" where
  "env_entry entries raw_line =
     (let line = strip raw_line in
      if line = [] \<or> starts_with ''#'' line \<or> CHR ''='' \<notin> set line then entries
      else (case partition_on (CHR ''='') line of (key, _, v) \<Rightarrow> entries(key \<mapsto> v)))"

definition env_of_text :: "string \<Rightarrow> (string \<rightharpoonup> string)" where
  "env_of_text content = foldl env_entry Map.empty (splitlines content)"

definition load_env_file :: "(pyval \<Rightarrow> string) \<Rightarrow> string \<Rightarrow> ('x, string \<rightharpoonup> string) dev_cmd" where
  "load_env_file dumps path = cbind (read_text dumps path) (\<lambda>content. creturn (env_of_text content))"

text \<open>\<open>json.loads(path.read_text())\<close>.\<close>

definition json_of_file :: "dev_env \<Rightarrow> stored_file option \<Rightarrow> exn + pyval" where
  "json_of_file E f = (case f of
       Some (JsonFile v) \<Rightarrow> Inr v
     | Some (TextFile s) \<Rightarrow> (case te_json E (universal_newlines s) of Some v \<Rightarrow> Inr v | None \<Rightarrow> Inl (ValueError ''Expecting value''))
     | Some BadFile \<Rightarrow> Inl UnicodeError
     | _ \<Rightarrow> Inl (OSError ''No such file or directory''))"

text \<open>\<open>Path(env_spec)\<close> relative to the directory of the contract, then \<open>resolve\<close> of the file system.\<close>

definition contract_path_of :: "(string \<Rightarrow> string) \<Rightarrow> string \<Rightarrow> pyval \<Rightarrow> exn + string" where
  "contract_path_of resolve contract_dir env_spec = (case env_spec of
       PStr s \<Rightarrow> Inr (resolve (if starts_with ''/'' s then s else path_join contract_dir s))
     | _ \<Rightarrow> Inl (TypeError ''argument should be a str or an os.PathLike object''))"

definition contract_asset_of :: "(string \<Rightarrow> string) \<Rightarrow> string \<Rightarrow> pyval \<Rightarrow> pyval \<Rightarrow> exn + contract_asset" where
  "contract_asset_of resolve contract_dir execution_envs item =
     rbind (vindex item ''symbol'') (\<lambda>v. let symbol = upper (py_str v) in
     rbind (vget item ''env'') (\<lambda>own.
     rbind (if truthy own then Inr own else vget execution_envs symbol) (\<lambda>env_spec.
       if \<not> truthy env_spec then Inl (RuntimeError (''Contract asset '' @ symbol @ '' is missing an env file mapping''))
       else rbind (contract_path_of resolve contract_dir env_spec) (\<lambda>path.
         Inr \<lparr>co_symbol = symbol, co_env_path = path\<rparr>))))"

definition contract_assets_of :: "(string \<Rightarrow> string) \<Rightarrow> string \<Rightarrow> pyval \<Rightarrow> exn + contract_asset list" where
  "contract_assets_of resolve contract_path payload =
     rbind (rbind (vget_default payload ''execution'' (PDict [])) (\<lambda>execution. vget_default execution ''env_files'' (PDict []))) (\<lambda>execution_envs.
     rbind (rbind (vget_default payload ''assets'' (PList [])) iter_nodes) (\<lambda>items.
       map_exn (contract_asset_of resolve (path_parent contract_path) execution_envs) items))"

definition load_contract_assets :: "dev_env \<Rightarrow> (string \<Rightarrow> string) \<Rightarrow> string \<Rightarrow> ('x, contract_asset list) dev_cmd" where
  "load_contract_assets E resolve contract_path =
     cbind (read_file contract_path) (\<lambda>f. clift (rbind (json_of_file E f) (contract_assets_of resolve contract_path)))"


section \<open>Amounts\<close>

definition parse_xrp_to_drops :: "pydec \<Rightarrow> exn + int" where
  "parse_xrp_to_drops v = rbind (dec_mul v (dec_of_int 1000000)) dec_to_int"

definition format_decimal_text :: "pydec \<Rightarrow> string" where
  "format_decimal_text v =
     (let normalized = format_f (dec_normalize v);
          shortened = (if CHR ''.'' \<in> set normalized
            then rstrip_by (\<lambda>c. c = CHR ''.'') (rstrip_by (\<lambda>c. c = CHR ''0'') normalized) else normalized) in
      if shortened = [] then ''0'' else shortened)"

definition format_asset_amount :: "string \<Rightarrow> pydec \<Rightarrow> exn + string" where
  "format_asset_amount symbol amount =
     (if symbol = ''XRP'' then
        rbind (rbind (dec_div amount (dec_of_int 1000000)) (dec_quantize False (- 6))) (\<lambda>xrp. Inr (dec_str xrp @ '' XRP''))
      else Inr (format_decimal_text amount @ '' '' @ symbol))"

record wallet_balances =
  wb_xrp_drops :: int
  wb_rlusd_balance :: pydec
  wb_usdc_balance :: pydec

definition issued_balance :: "claim_asset \<Rightarrow> dev_env \<Rightarrow> string \<Rightarrow> string option \<Rightarrow> ('x, pydec) dev_cmd" where
  "issued_balance A E address issuer = (case issuer of
       Some (c # cs) \<Rightarrow> get_asset_balance A E address (c # cs)
     | _ \<Rightarrow> creturn (dec_of_int 0))"

definition capture_wallet_balances :: "dev_env \<Rightarrow> string \<Rightarrow> string option \<Rightarrow> string option \<Rightarrow> ('x, wallet_balances) dev_cmd" where
  "capture_wallet_balances E address rlusd_issuer usdc_issuer =
     cbind (issued_balance Rlusd E address rlusd_issuer) (\<lambda>rlusd.
     cbind (issued_balance Usdc E address usdc_issuer) (\<lambda>usdc.
     cbind (get_validated_balance E address) (\<lambda>xrp.
       creturn \<lparr>wb_xrp_drops = xrp, wb_rlusd_balance = rlusd, wb_usdc_balance = usdc\<rparr>)))"

definition format_wallet_balances :: "wallet_balances \<Rightarrow> exn + string" where
  "format_wallet_balances balances =
     rbind (format_asset_amount ''XRP'' (dec_of_int (wb_xrp_drops balances))) (\<lambda>xrp.
     rbind (format_asset_amount ''RLUSD'' (wb_rlusd_balance balances)) (\<lambda>rlusd.
     rbind (format_asset_amount ''USDC'' (wb_usdc_balance balances)) (\<lambda>usdc.
       Inr (join '', '' [''XRP '' @ xrp, ''RLUSD '' @ rlusd, ''USDC '' @ usdc]))))"


section \<open>Moving XRP\<close>

fun poll_xrp_increase :: "dev_env \<Rightarrow> nat \<Rightarrow> rat \<Rightarrow> string \<Rightarrow> int \<Rightarrow> int \<Rightarrow> ('x, int) dev_cmd" where
  "poll_xrp_increase E 0 deadline address starting_balance increase = cdiverge"
| "poll_xrp_increase E (Suc n) deadline address starting_balance increase =
     cbind dev_now (\<lambda>now.
       if now < deadline then
         cbind (get_validated_balance E address) (\<lambda>balance.
           if starting_balance + increase \<le> balance then creturn balance
           else cbind (dev_sleep 1) (\<lambda>_. poll_xrp_increase E n deadline address starting_balance increase))
       else craise (AssertionError (''Timed out waiting for XRP balance increase of '' @ show_int increase @ '' on '' @ address)))"

definition wait_for_xrp_balance_increase :: "dev_env \<Rightarrow> string \<Rightarrow> int \<Rightarrow> int \<Rightarrow> ('x, int) dev_cmd" where
  "wait_for_xrp_balance_increase E address starting_balance increase =
     cbind dev_now (\<lambda>now. poll_xrp_increase E (Suc WAIT_SECONDS) (now + of_nat WAIT_SECONDS) address starting_balance increase)"

definition xrp_payment :: "wallet \<Rightarrow> string \<Rightarrow> string \<Rightarrow> dev_tx" where
  "xrp_payment W destination drops = Pay (wl_address W) destination (PStr drops) None None"

definition submit_validated_xrp_payment :: "dev_env \<Rightarrow> wallet \<Rightarrow> string \<Rightarrow> int \<Rightarrow> ('x, string) dev_cmd" where
  "submit_validated_xrp_payment E W destination amount_drops =
     cbind (dev_request E (SubmitTx (xrp_payment W destination (show_int amount_drops)) (wl_address W))) (\<lambda>response.
       let result = snd response in
       if dget result ''validated'' \<noteq> PBool True then craise (RuntimeError ''XRP transfer did not validate'')
       else
         cbind (clift (vget (dget_default result ''meta'' (PDict [])) ''TransactionResult'')) (\<lambda>transaction_result.
           if transaction_result \<noteq> PStr ''tesSUCCESS''
             then craise (RuntimeError (''XRP transfer failed with '' @ py_str transaction_result))
           else clift (response_tx_hash result ''XRP transfer response did not include a transaction hash'')))"

definition fee_of_autofill :: "prepared_tx \<Rightarrow> exn + int" where
  "fee_of_autofill prepared = (case pt_fee prepared of
       None \<Rightarrow> Inl (ValueError ''missing fee'')
     | Some fee_drops \<Rightarrow> int_of_str fee_drops)"

definition estimate_xrp_payment_fee_drops :: "dev_env \<Rightarrow> wallet \<Rightarrow> string \<Rightarrow> ('x, int) dev_cmd" where
  "estimate_xrp_payment_fee_drops E W destination =
     ctry (cbind (dev_autofill E (xrp_payment W destination ''1'')) (\<lambda>prepared. clift (fee_of_autofill prepared)))
       (\<lambda>e. craise (RuntimeError (''Unable to estimate XRP transfer fee: '' @ str_exn e)))"

abbreviation XRP_REBALANCE_FEE_CUSHION_DROPS :: int where "XRP_REBALANCE_FEE_CUSHION_DROPS \<equiv> 50"

text \<open>What the merchant has above the floor, less the fee and a cushion; the floor is checked again after the payment.\<close>

definition send_above_floor :: "dev_env \<Rightarrow> wallet \<Rightarrow> wallet \<Rightarrow> int \<Rightarrow> int \<Rightarrow> ('x, pydec \<times> string option) dev_cmd" where
  "send_above_floor E merchant buyer merchant_floor_drops sendable_drops =
     cbind (get_validated_balance E (wl_address buyer)) (\<lambda>buyer_starting_balance.
     cbind (submit_validated_xrp_payment E merchant (wl_address buyer) sendable_drops) (\<lambda>tx_hash.
     cbind (wait_for_xrp_balance_increase E (wl_address buyer) buyer_starting_balance sendable_drops) (\<lambda>_.
     cbind (get_validated_balance E (wl_address merchant)) (\<lambda>merchant_balance_after.
       if merchant_balance_after < merchant_floor_drops
         then craise (RuntimeError (''Merchant XRP balance fell below the configured floor after fees: observed '' @
           show_int merchant_balance_after @ '' drops, expected at least '' @ show_int merchant_floor_drops @ '' drops.''))
       else creturn (dec_of_int sendable_drops, Some tx_hash)))))"

definition rebalance_xrp_asset :: "dev_env \<Rightarrow> wallet \<Rightarrow> wallet \<Rightarrow> int \<Rightarrow> ('x, pydec \<times> string option) dev_cmd" where
  "rebalance_xrp_asset E merchant buyer merchant_floor_drops =
     cbind (get_validated_balance E (wl_address merchant)) (\<lambda>merchant_balance.
     cbind (estimate_xrp_payment_fee_drops E merchant (wl_address buyer)) (\<lambda>estimated_fee_drops.
       let sendable_drops = merchant_balance - merchant_floor_drops - estimated_fee_drops - XRP_REBALANCE_FEE_CUSHION_DROPS in
       if sendable_drops \<le> 0 then creturn (dec_of_int 0, None)
       else send_above_floor E merchant buyer merchant_floor_drops sendable_drops))"


section \<open>Moving issued currencies\<close>

definition rebalance_issued_asset :: "claim_asset \<Rightarrow> dev_env \<Rightarrow> wallet \<Rightarrow> wallet \<Rightarrow> string \<Rightarrow> ('x, pydec \<times> string option) dev_cmd" where
  "rebalance_issued_asset A E merchant buyer issuer =
     cbind (ensure_asset_trustline A E buyer issuer) (\<lambda>_.
     cbind (get_asset_balance A E (wl_address merchant) issuer) (\<lambda>merchant_balance.
     cbind (clift (dec_le merchant_balance (dec_of_int 0))) (\<lambda>empty.
       if empty then creturn (dec_of_int 0, None)
       else
         cbind (get_asset_balance A E (wl_address buyer) issuer) (\<lambda>buyer_starting_balance.
         cbind (submit_asset_payment A E merchant (wl_address buyer) issuer merchant_balance) (\<lambda>tx_hash.
         cbind (wait_for_trustline_balance_increase E (wl_address buyer) issuer buyer_starting_balance merchant_balance (asset_code A)) (\<lambda>_.
           creturn (merchant_balance, Some tx_hash)))))))"

definition rebalance_rlusd_asset :: "dev_env \<Rightarrow> wallet \<Rightarrow> wallet \<Rightarrow> string \<Rightarrow> ('x, pydec \<times> string option) dev_cmd" where
  "rebalance_rlusd_asset E merchant buyer issuer = rebalance_issued_asset Rlusd E merchant buyer issuer"

definition rebalance_usdc_asset :: "dev_env \<Rightarrow> wallet \<Rightarrow> wallet \<Rightarrow> string \<Rightarrow> ('x, pydec \<times> string option) dev_cmd" where
  "rebalance_usdc_asset E merchant buyer issuer = rebalance_issued_asset Usdc E merchant buyer issuer"


section \<open>The assets of a contract\<close>

record rebalance_result =
  rr_symbol :: string
  rr_env_path :: string
  rr_merchant_address :: string
  rr_buyer_address :: string
  rr_merchant_balances :: wallet_balances
  rr_buyer_balances :: wallet_balances
  rr_status :: string
  rr_moved_amount :: pydec
  rr_tx_hash :: "string option"

text \<open>\<open>(entries.get(key) or "").strip()\<close>.\<close>

definition entry :: "(string \<rightharpoonup> string) \<Rightarrow> string \<Rightarrow> string" where
  "entry entries key = strip (case entries key of Some v \<Rightarrow> v | None \<Rightarrow> [])"

definition validate_cached_merchant :: "string \<Rightarrow> (string \<rightharpoonup> string) \<Rightarrow> wallet \<Rightarrow> exn + unit" where
  "validate_cached_merchant env_path entries merchant =
     (let expected_address = entry entries ''MY_DESTINATION_ADDRESS'' in
      if expected_address = [] then Inl (RuntimeError (env_path @ '' is missing MY_DESTINATION_ADDRESS''))
      else if expected_address \<noteq> wl_address merchant
        then Inl (RuntimeError (env_path @ '' points at merchant '' @ expected_address @ '', but the cached merchant wallet is '' @ wl_address merchant))
      else Inr ())"

definition validate_cached_buyer :: "dev_env \<Rightarrow> string \<Rightarrow> (string \<rightharpoonup> string) \<Rightarrow> string \<Rightarrow> wallet \<Rightarrow> exn + unit" where
  "validate_cached_buyer E env_path entries symbol buyer =
     (let buyer_seed = entry entries ''XRPL_WALLET_SEED'' in
      if buyer_seed = [] then Inl (RuntimeError (env_path @ '' is missing XRPL_WALLET_SEED''))
      else rbind (te_from_seed E buyer_seed) (\<lambda>env_buyer.
        if wl_address env_buyer \<noteq> wl_address buyer
          then Inl (RuntimeError (env_path @ '' points at '' @ symbol @ '' buyer '' @ wl_address env_buyer @
            '', but the cached buyer wallet is '' @ wl_address buyer @
            ''. Regenerate the env file from the current quickstart wallet cache before rebalancing.''))
        else Inr ()))"

definition moved_status :: "pydec \<times> string option \<Rightarrow> exn + string \<times> pydec \<times> string option" where
  "moved_status moved =
     rbind (dec_lt (dec_of_int 0) (fst moved)) (\<lambda>positive. Inr (if positive then ''rebalanced'' else ''noop'', moved))"

definition rebalance_issued :: "claim_asset \<Rightarrow> dev_env \<Rightarrow> string \<Rightarrow> (string \<rightharpoonup> string) \<Rightarrow> wallet \<Rightarrow> wallet
    \<Rightarrow> ('x, string \<times> pydec \<times> string option) dev_cmd" where
  "rebalance_issued A E env_path entries merchant buyer =
     (let issuer = entry entries ''PRICE_ASSET_ISSUER'' in
      if issuer = [] then craise (RuntimeError (env_path @ '' is missing PRICE_ASSET_ISSUER for '' @ asset_code A))
      else cbind (case A of Rlusd \<Rightarrow> rebalance_rlusd_asset E merchant buyer issuer | Usdc \<Rightarrow> rebalance_usdc_asset E merchant buyer issuer)
        (\<lambda>moved. clift (moved_status moved)))"

definition rebalance_by_symbol ::
  "dev_env \<Rightarrow> bool \<Rightarrow> int \<Rightarrow> contract_asset \<Rightarrow> (string \<rightharpoonup> string) \<Rightarrow> wallet \<Rightarrow> wallet \<Rightarrow> ('x, string \<times> pydec \<times> string option) dev_cmd" where
  "rebalance_by_symbol E rebalance_xrp floor_drops asset entries merchant buyer =
     (if co_symbol asset = ''XRP'' then
        (if rebalance_xrp then cbind (rebalance_xrp_asset E merchant buyer floor_drops) (\<lambda>moved. clift (moved_status moved))
         else creturn (''skipped'', dec_of_int 0, None))
      else if co_symbol asset = ''RLUSD'' then rebalance_issued Rlusd E (co_env_path asset) entries merchant buyer
      else if co_symbol asset = ''USDC'' then rebalance_issued Usdc E (co_env_path asset) entries merchant buyer
      else craise (RuntimeError (''Unsupported contract asset '' @ co_symbol asset)))"

text \<open>The body of the loop; the ledger client is one of the endpoint that the environment file names.\<close>

definition rebalance_asset ::
  "(string \<Rightarrow> dev_env) \<Rightarrow> bool \<Rightarrow> int \<Rightarrow> string option \<Rightarrow> string option \<Rightarrow> demo_wallet_set \<Rightarrow> (string \<rightharpoonup> string \<rightharpoonup> string)
     \<Rightarrow> dev_env \<Rightarrow> contract_asset \<Rightarrow> ('x, rebalance_result) dev_cmd" where
  "rebalance_asset client rebalance_xrp floor_drops rlusd_issuer usdc_issuer wallets env_by_symbol E asset =
     (let entries = (case env_by_symbol (co_symbol asset) of Some m \<Rightarrow> m | None \<Rightarrow> Map.empty);
          merchant = dws_merchant_wallet wallets; env_path = co_env_path asset in
      cbind (clift (validate_cached_merchant env_path entries merchant)) (\<lambda>_.
      cbind (clift (buyer_wallet wallets (lower (co_symbol asset)))) (\<lambda>buyer.
      cbind (clift (validate_cached_buyer E env_path entries (co_symbol asset) buyer)) (\<lambda>_.
        let rpc_url = entry entries ''XRPL_RPC_URL'' in
        if rpc_url = [] then craise (RuntimeError (env_path @ '' is missing XRPL_RPC_URL''))
        else
          let C = client rpc_url in
          cbind (rebalance_by_symbol C rebalance_xrp floor_drops asset entries merchant buyer) (\<lambda>(status, moved_amount, tx_hash).
          cbind (capture_wallet_balances C (wl_address merchant) rlusd_issuer usdc_issuer) (\<lambda>merchant_balances.
          cbind (capture_wallet_balances C (wl_address buyer) rlusd_issuer usdc_issuer) (\<lambda>buyer_balances.
            creturn \<lparr>rr_symbol = co_symbol asset, rr_env_path = env_path, rr_merchant_address = wl_address merchant,
              rr_buyer_address = wl_address buyer, rr_merchant_balances = merchant_balances, rr_buyer_balances = buyer_balances,
              rr_status = status, rr_moved_amount = moved_amount, rr_tx_hash = tx_hash\<rparr>)))))))"

fun each_in_order :: "('a \<Rightarrow> ('s, 'b) cmd) \<Rightarrow> 'a list \<Rightarrow> ('s, 'b list) cmd" where
  "each_in_order f [] = creturn []"
| "each_in_order f (x # xs) = cbind (f x) (\<lambda>y. cbind (each_in_order f xs) (\<lambda>ys. creturn (y # ys)))"

definition issuer_of :: "(string \<rightharpoonup> string \<rightharpoonup> string) \<Rightarrow> string \<Rightarrow> string option" where
  "issuer_of env_by_symbol symbol =
     (let issuer = entry (case env_by_symbol symbol of Some m \<Rightarrow> m | None \<Rightarrow> Map.empty) ''PRICE_ASSET_ISSUER'' in
      if issuer = [] then None else Some issuer)"

definition rebalance_contract_assets ::
  "dev_env \<Rightarrow> (string \<Rightarrow> dev_env) \<Rightarrow> (pyval \<Rightarrow> string) \<Rightarrow> (string \<Rightarrow> string) \<Rightarrow> string \<Rightarrow> string \<Rightarrow> bool \<Rightarrow> pydec
     \<Rightarrow> ('x, rebalance_result list) dev_cmd" where
  "rebalance_contract_assets E client dumps resolve contract_path wallet_cache rebalance_xrp merchant_xrp_floor =
     cbind (load_cached_demo_wallet_set E (Some wallet_cache)) (\<lambda>wallet_set. case wallet_set of
         None \<Rightarrow> craise (RuntimeError (''Demo wallet cache '' @ wallet_cache @ '' is missing per-asset buyer wallets. '' @ RERUN_QUICKSTART))
       | Some wallets \<Rightarrow>
           cbind (clift (parse_xrp_to_drops merchant_xrp_floor)) (\<lambda>floor_drops.
           cbind (load_contract_assets E resolve contract_path) (\<lambda>assets.
           cbind (each_in_order (\<lambda>a. cbind (load_env_file dumps (co_env_path a)) (\<lambda>m. creturn (co_symbol a, m))) assets) (\<lambda>loaded.
             let env_by_symbol = map_of (rev loaded) in
             each_in_order (rebalance_asset client rebalance_xrp floor_drops (issuer_of env_by_symbol ''RLUSD'')
               (issuer_of env_by_symbol ''USDC'') wallets env_by_symbol E) assets))))"

definition summary_lines :: "rebalance_result \<Rightarrow> exn + string list" where
  "summary_lines result =
     rbind (format_wallet_balances (rr_merchant_balances result)) (\<lambda>merchant_balances.
     rbind (format_wallet_balances (rr_buyer_balances result)) (\<lambda>buyer_balances.
     rbind (format_asset_amount (rr_symbol result) (rr_moved_amount result)) (\<lambda>moved.
       Inr ([rr_symbol result @ '': '' @ rr_status result, ''  env: '' @ rr_env_path result, ''  merchant: '' @ rr_merchant_address result,
             ''  merchant balances: '' @ merchant_balances, ''  buyer: '' @ rr_buyer_address result, ''  buyer balances: '' @ buyer_balances,
             ''  moved: '' @ moved] @
            (case rr_tx_hash result of Some (c # cs) \<Rightarrow> [''  tx hash: '' @ c # cs] | _ \<Rightarrow> [])))))"

definition rebalance_main ::
  "dev_env \<Rightarrow> (string \<Rightarrow> dev_env) \<Rightarrow> (pyval \<Rightarrow> string) \<Rightarrow> (string \<Rightarrow> string) \<Rightarrow> string \<Rightarrow> string \<Rightarrow> bool \<Rightarrow> string
     \<Rightarrow> ('x, string list) dev_cmd" where
  "rebalance_main E client dumps resolve contract_path wallet_cache rebalance_xrp merchant_xrp_floor =
     cbind (clift (decimal_of_str merchant_xrp_floor)) (\<lambda>merchant_floor.
     cbind (rebalance_contract_assets E client dumps resolve contract_path wallet_cache rebalance_xrp merchant_floor) (\<lambda>results.
       clift (rbind (map_exn summary_lines results) (\<lambda>lines. Inr (concat lines)))))"

end
