(* ===== verification/DemoCorrect.thy ===== *)
theory DemoCorrect
  imports DemoRebalance ClaimDelete Numerals
begin

text \<open>
  Properties of the demo tools: the environment file derived for an asset reads back as the base file with
  the asset's settings, so that the checks of the rebalancing tool accept it; and rebalancing leaves the
  merchant its floor.
\<close>

section \<open>Lines of environment files\<close>

definition spaceless :: "string \<Rightarrow> bool" where
  "spaceless s \<longleftrightarrow> list_all (\<lambda>c. \<not> is_space c) s"

definition tidy_key :: "string \<Rightarrow> bool" where
  "tidy_key k \<longleftrightarrow> k \<noteq> [] \<and> spaceless k \<and> CHR ''='' \<notin> set k \<and> CHR ''#'' \<notin> set k"

definition is_comment :: "string \<Rightarrow> bool" where
  "is_comment l \<longleftrightarrow> l = [] \<or> (starts_with ''#'' l \<and> list_all (\<lambda>c. \<not> is_line_break c) l)"

definition is_setting :: "string \<Rightarrow> bool" where
  "is_setting l \<longleftrightarrow> (\<exists>k v. tidy_key k \<and> spaceless v \<and> l = env_line k v)"

definition key_of :: "string \<Rightarrow> string option" where
  "key_of l = (if is_comment l then None else Some (takeWhile (\<lambda>c. c \<noteq> CHR ''='') l))"

abbreviation line_keys :: "string list \<Rightarrow> string list" where
  "line_keys \<equiv> List.map_filter key_of"

definition tidy_lines :: "string list \<Rightarrow> bool" where
  "tidy_lines lines \<longleftrightarrow> (\<forall>l \<in> set lines. is_comment l \<or> is_setting l) \<and> distinct (line_keys lines)"

lemma break_is_space: "is_line_break c \<Longrightarrow> is_space c"
  by (auto simp: is_line_break_def is_space_def)

lemma spaceless_parts [simp]: "spaceless (a @ b) \<longleftrightarrow> spaceless a \<and> spaceless b" "spaceless []"
  by (simp_all add: spaceless_def)

lemma setting_spaceless: "tidy_key k \<Longrightarrow> spaceless v \<Longrightarrow> spaceless (env_line k v)"
  by (simp add: tidy_key_def env_line_def) (simp add: spaceless_def is_space_def ord_c_def)

lemma dropWhile_none: "list_all (\<lambda>c. \<not> p c) s \<Longrightarrow> dropWhile p s = s"
  by (cases s) auto

lemma strip_spaceless: "spaceless s \<Longrightarrow> strip s = s"
  by (simp add: spaceless_def strip_def rstrip_by_def dropWhile_none list_all_iff)

lemma setting_not_comment: "tidy_key k \<Longrightarrow> \<not> is_comment (env_line k v)"
  by (cases k) (auto simp: is_comment_def env_line_def tidy_key_def starts_with_def)

lemma setting_key: "tidy_key k \<Longrightarrow> takeWhile (\<lambda>c. c \<noteq> CHR ''='') (env_line k v) = k"
  by (auto simp: env_line_def tidy_key_def takeWhile_append)

lemma key_of_setting [simp]: "tidy_key k \<Longrightarrow> key_of (env_line k v) = Some k"
  by (simp add: key_of_def setting_not_comment setting_key)

lemma setting_prefix: "tidy_key k \<Longrightarrow> tidy_key k' \<Longrightarrow> starts_with (k @ ''='') (env_line k' v) \<longleftrightarrow> k = k'"
proof
  assume keys: "tidy_key k" "tidy_key k'" and "starts_with (k @ ''='') (env_line k' v)"
  then obtain rest where "env_line k' v = env_line k rest"
    unfolding starts_with_def env_line_def by (metis append.assoc append_take_drop_id)
  then show "k = k'"
    using setting_key [OF keys(1)] setting_key [OF keys(2)] by metis
qed (simp add: starts_with_def env_line_def)

lemma comment_prefix: "tidy_key k \<Longrightarrow> is_comment l \<Longrightarrow> \<not> starts_with (k @ ''='') l"
  by (cases k; cases l) (auto simp: is_comment_def starts_with_def tidy_key_def)

lemma dropWhile_snoc: "\<not> p x \<Longrightarrow> dropWhile p (xs @ [x]) = dropWhile p xs @ [x]"
  by (induction xs) auto

lemma entry_comment: "is_comment l \<Longrightarrow> env_entry m l = m"
proof (cases l)
  case (Cons c cs)
  assume "is_comment l"
  then have "c = CHR ''#''" using Cons by (simp add: is_comment_def starts_with_def)
  moreover have "\<not> is_space (CHR ''#'')"
    by (simp add: is_space_def ord_c_def)
  ultimately have "strip l = CHR ''#'' # rev (dropWhile is_space (rev cs))"
    using Cons by (simp add: strip_def rstrip_by_def dropWhile_snoc)
  then show ?thesis
    by (simp add: env_entry_def starts_with_def Let_def)
qed (simp add: env_entry_def strip_def rstrip_by_def)

lemma entry_setting: "tidy_key k \<Longrightarrow> spaceless v \<Longrightarrow> env_entry m (env_line k v) = m(k \<mapsto> v)"
proof -
  assume k: "tidy_key k" and v: "spaceless v"
  have "\<not> starts_with ''#'' (env_line k v)" "env_line k v \<noteq> []"
    using setting_not_comment [OF k, of v] k by (cases k; auto simp: env_line_def tidy_key_def starts_with_def)+
  moreover have "partition_on (CHR ''='') (env_line k v) = (k, ''='', v)"
    using setting_key [OF k, of v] by (simp add: partition_on_def Let_def) (simp add: env_line_def)
  ultimately show ?thesis
    using strip_spaceless [OF setting_spaceless [OF k v]] by (simp add: env_entry_def Let_def) (simp add: env_line_def)
qed


section \<open>Setting a value\<close>

abbreviation env_of_lines :: "(string \<rightharpoonup> string) \<Rightarrow> string list \<Rightarrow> (string \<rightharpoonup> string)" where
  "env_of_lines \<equiv> foldl env_entry"

lemma env_other_key:
  assumes "\<forall>l \<in> set lines. is_comment l \<or> is_setting l" and "k \<notin> set (line_keys lines)"
  shows "env_of_lines (m(k \<mapsto> v)) lines = (env_of_lines m lines)(k \<mapsto> v)"
  using assms
proof (induction lines arbitrary: m)
  case (Cons l lines)
  show ?case
  proof (cases "is_comment l")
    case True
    then show ?thesis using Cons by (simp add: entry_comment map_filter_simps key_of_def)
  next
    case False
    then obtain k' v' where l: "tidy_key k'" "spaceless v'" "l = env_line k' v'"
      using Cons.prems(1) by (auto simp: is_setting_def)
    then have "k' \<noteq> k" "k \<notin> set (line_keys lines)" using Cons.prems(2) by (auto simp: map_filter_simps)
    moreover have "(m(k \<mapsto> v))(k' \<mapsto> v') = (m(k' \<mapsto> v'))(k \<mapsto> v)"
      using \<open>k' \<noteq> k\<close> by (rule fun_upd_twist [symmetric])
    ultimately show ?thesis
      using Cons.IH [of "m(k' \<mapsto> v')"] Cons.prems(1) l by (simp add: entry_setting del: fun_upd_apply)
  qed
qed simp

lemma set_value:
  assumes "tidy_lines lines" and "tidy_key k" and "spaceless v"
  shows "env_of_lines m (set_env_value lines k v) = (env_of_lines m lines)(k \<mapsto> v)
    \<and> tidy_lines (set_env_value lines k v) \<and> set (line_keys (set_env_value lines k v)) \<subseteq> insert k (set (line_keys lines))"
  using assms(1)
proof (induction lines arbitrary: m)
  case Nil
  then show ?case
    using assms(2,3) by (auto simp: entry_setting tidy_lines_def is_setting_def map_filter_simps)
next
  case (Cons l lines)
  then have rest: "tidy_lines lines" and l: "is_comment l \<or> is_setting l"
    by (auto simp: tidy_lines_def map_filter_simps split: option.splits)
  show ?case
  proof (cases "is_comment l")
    case True
    then show ?thesis
      using Cons.IH [OF rest, of m] comment_prefix [OF assms(2) True]
      by (auto simp: entry_comment tidy_lines_def map_filter_simps key_of_def)
  next
    case False
    with l obtain k' v' where l: "tidy_key k'" "spaceless v'" "l = env_line k' v'"
      by (auto simp: is_setting_def)
    then have new: "k' \<notin> set (line_keys lines)" using Cons.prems by (simp add: tidy_lines_def map_filter_simps)
    show ?thesis
    proof (cases "k = k'")
      case True
      have "env_of_lines (m(k \<mapsto> a)) lines = (env_of_lines m lines)(k \<mapsto> a)" for a
        using rest new True by (intro env_other_key) (simp_all add: tidy_lines_def)
      then show ?thesis
        using True l assms(2,3) rest new
        by (auto simp: setting_prefix entry_setting tidy_lines_def map_filter_simps is_setting_def)
    next
      case False
      note IH = Cons.IH [OF rest, of "m(k' \<mapsto> v')"]
      have kept: "set_env_value (l # lines) k v = l # set_env_value lines k v"
        using False l assms(2) by (simp add: setting_prefix)
      have "k' \<notin> set (line_keys (set_env_value lines k v))"
        using IH new False by blast
      moreover have "is_setting l" using l by (auto simp: is_setting_def)
      ultimately show ?thesis
        using IH l unfolding kept by (auto simp: entry_setting tidy_lines_def map_filter_simps simp del: fun_upd_apply)
    qed
  qed
qed

lemma set_values:
  assumes "tidy_lines lines" and "list_all (\<lambda>(k, v). tidy_key k \<and> spaceless v) settings"
  shows "env_of_lines m (set_env_values lines settings) = env_of_lines m lines ++ map_of (rev settings)
    \<and> tidy_lines (set_env_values lines settings)"
  using assms
proof (induction settings arbitrary: lines)
  case (Cons s settings)
  obtain k v where s: "s = (k, v)" by fastforce
  have one: "env_of_lines m (set_env_value lines k v) = (env_of_lines m lines)(k \<mapsto> v)" "tidy_lines (set_env_value lines k v)"
    using set_value [OF Cons.prems(1)] Cons.prems(2) s by auto
  then show ?case
    using Cons.IH [OF one(2)] Cons.prems(2) s by (simp add: set_env_values_def map_add_upd_left one(1) fun_upd_def map_add_def)
      (auto simp: fun_eq_iff map_add_def split: option.splits)
qed (simp add: set_env_values_def)


section \<open>The text of the file\<close>

definition unbroken :: "string \<Rightarrow> bool" where
  "unbroken l \<longleftrightarrow> list_all (\<lambda>c. \<not> is_line_break c) l"

lemma splitlines_line: "unbroken l \<Longrightarrow> splitlines (l @ line_feed # rest) = l # splitlines rest"
proof (induction l)
  case Nil
  then show ?case
    by (cases rest) (auto simp: is_line_break_def ord_c_def)
next
  case (Cons c l)
  then have "\<not> is_line_break c" "splitlines (l @ line_feed # rest) = l # splitlines rest"
    by (simp_all add: unbroken_def)
  then show ?case
    by (cases l) (auto simp: is_line_break_def ord_c_def)
qed

lemma splitlines_join: "list_all unbroken lines \<Longrightarrow> lines \<noteq> [] \<Longrightarrow> splitlines (join [line_feed] lines @ [line_feed]) = lines"
  by (induction "[line_feed]" lines rule: join.induct) (simp_all add: splitlines_line splitlines_line [where rest = "[]", simplified])

lemma newlines_kept: "list_all (\<lambda>c. ord_c c \<noteq> 13) s \<Longrightarrow> universal_newlines s = s"
  by (induction s rule: universal_newlines.induct) auto

lemma join_no_return: "list_all unbroken lines \<Longrightarrow> list_all (\<lambda>c. ord_c c \<noteq> 13) (join [line_feed] lines)"
  by (induction "[line_feed]" lines rule: join.induct) (auto simp: unbroken_def list_all_iff is_line_break_def ord_c_def)

lemma tidy_unbroken:
  assumes "tidy_lines lines"
  shows "list_all unbroken lines"
proof -
  have "unbroken l" if "is_comment l" for l
    using that by (auto simp: is_comment_def unbroken_def)
  moreover have "unbroken l" if "is_setting l" for l
    using that setting_spaceless break_is_space by (auto simp: is_setting_def unbroken_def spaceless_def list_all_iff)
  ultimately show ?thesis
    using assms by (auto simp: tidy_lines_def list_all_iff)
qed

text \<open>A written file of settings reads back.\<close>

lemma written_reads_back:
  assumes "tidy_lines lines" and "lines \<noteq> []"
  shows "universal_newlines (join [line_feed] lines @ [line_feed]) = join [line_feed] lines @ [line_feed]"
    and "splitlines (join [line_feed] lines @ [line_feed]) = lines"
  using splitlines_join [OF tidy_unbroken] join_no_return [OF tidy_unbroken] assms
  by (auto intro!: newlines_kept simp: ord_c_def)


section \<open>The file of the quickstart\<close>

lemma show_int_spaceless: "spaceless (show_int i)"
proof -
  have "\<not> is_space c" if "is_digit c" for c
    using that by (auto simp: is_digit_def is_space_def)
  then have "spaceless (show_nat n)" for n
    using show_nat_digits [of n] by (auto simp: isdigit_def spaceless_def list_all_iff)
  then show ?thesis
    by (simp add: show_int_def) (simp add: spaceless_def is_space_def ord_c_def)
qed

definition quickstart_lines :: "string \<Rightarrow> wallet \<Rightarrow> string \<Rightarrow> string \<Rightarrow> int \<Rightarrow> string list" where
  "quickstart_lines xrpl_rpc_url merchant seed token drops =
     [''# Generated by `python -m devtools.quickstart`.'',
      ''# Contains secrets for local XRPL Testnet demos. Do not commit this file.'',
      env_line ''GATEWAY_AUTH_MODE'' ''single_token'', env_line ''XRPL_RPC_URL'' xrpl_rpc_url,
      env_line ''NETWORK_ID'' ''xrpl:1'', env_line ''XRPL_NETWORK'' ''xrpl:1'',
      env_line ''MY_DESTINATION_ADDRESS'' (wl_address merchant), env_line ''FACILITATOR_BEARER_TOKEN'' token,
      env_line ''XRPL_WALLET_SEED'' seed, env_line ''PRICE_DROPS'' (show_int drops), env_line ''PRICE_ASSET_CODE'' ''XRP'',
      env_line ''PRICE_ASSET_ISSUER'' [], env_line ''PRICE_ASSET_AMOUNT'' [], env_line ''PAYMENT_ASSET'' ''XRP'',
      env_line ''PAYMENT_ASSET_ISSUER'' [], env_line ''PAYMENT_MAX_SPEND'' (show_int drops), [],
      ''# To demo RLUSD or USDC, set PRICE_ASSET_CODE/ISSUER/AMOUNT and'',
      ''# PAYMENT_ASSET/PAYMENT_ASSET_ISSUER/PAYMENT_MAX_SPEND explicitly.'']"

lemma quickstart_text:
  assumes "render_quickstart_env xrpl_rpc_url merchant buyer token drops = Inr content"
  obtains seed where "wl_seed buyer = Some seed" "content = join [line_feed] (quickstart_lines xrpl_rpc_url merchant seed token drops) @ [line_feed]"
  using assms by (auto simp: render_quickstart_env_def quickstart_lines_def split: option.splits)

lemma env_keys:
  "tidy_key ''GATEWAY_AUTH_MODE''" "tidy_key ''XRPL_RPC_URL''" "tidy_key ''NETWORK_ID''" "tidy_key ''XRPL_NETWORK''"
  "tidy_key ''MY_DESTINATION_ADDRESS''" "tidy_key ''FACILITATOR_BEARER_TOKEN''" "tidy_key ''XRPL_WALLET_SEED''" "tidy_key ''PRICE_DROPS''"
  "tidy_key ''PRICE_ASSET_CODE''" "tidy_key ''PRICE_ASSET_ISSUER''" "tidy_key ''PRICE_ASSET_AMOUNT''" "tidy_key ''PAYMENT_ASSET''"
  "tidy_key ''PAYMENT_ASSET_ISSUER''" "tidy_key ''PAYMENT_MAX_SPEND''" "tidy_key ''ALLOWED_ISSUED_ASSETS''"
  by (simp_all add: tidy_key_def spaceless_def is_space_def ord_c_def)

lemma setting_line [simp]: "tidy_key k \<Longrightarrow> spaceless v \<Longrightarrow> is_setting (env_line k v)"
  by (auto simp: is_setting_def)

lemma quickstart_tidy:
  assumes "spaceless xrpl_rpc_url" and "spaceless (wl_address merchant)" and "spaceless token" and "spaceless seed"
  shows "tidy_lines (quickstart_lines xrpl_rpc_url merchant seed token drops)"
proof -
  have comment: "is_comment l \<Longrightarrow> key_of l = None" for l
    by (simp add: key_of_def)
  have "spaceless ''single_token''" "spaceless ''xrpl:1''" "spaceless ''XRP''"
    by (simp_all add: spaceless_def is_space_def ord_c_def)
  moreover have "is_comment ''# Generated by `python -m devtools.quickstart`.''" "is_comment []"
      "is_comment ''# Contains secrets for local XRPL Testnet demos. Do not commit this file.''"
      "is_comment ''# To demo RLUSD or USDC, set PRICE_ASSET_CODE/ISSUER/AMOUNT and''"
      "is_comment ''# PAYMENT_ASSET/PAYMENT_ASSET_ISSUER/PAYMENT_MAX_SPEND explicitly.''"
    by (simp_all add: is_comment_def starts_with_def is_line_break_def ord_c_def)
  ultimately show ?thesis
    using assms show_int_spaceless [of drops] by (simp add: tidy_lines_def quickstart_lines_def map_filter_simps env_keys comment)
qed


section \<open>The derived file\<close>

lemma map_of_rev_distinct: "distinct (map fst xs) \<Longrightarrow> map_of (rev xs) = map_of xs"
  by (rule map_of_inject_set [THEN iffD2]) (simp_all flip: rev_map)

lemma tidy_entry:
  assumes "tidy_lines lines" and "env_line k v \<in> set lines" and "tidy_key k" and "spaceless v"
  shows "env_of_lines m lines k = Some v"
  using assms(1,2)
proof (induction lines arbitrary: m)
  case (Cons l lines)
  then have rest: "tidy_lines lines"
    by (auto simp: tidy_lines_def map_filter_simps split: option.splits)
  show ?case
  proof (cases "l = env_line k v")
    case True
    then have "k \<notin> set (line_keys lines)"
      using Cons.prems(1) assms(3) by (simp add: tidy_lines_def map_filter_simps)
    then show ?thesis
      using True rest env_other_key [of lines k m v] assms(3,4) by (simp add: entry_setting tidy_lines_def)
  next
    case False
    then show ?thesis
      using Cons rest by simp
  qed
qed simp

lemma settings_tidy:
  assumes "demo_settings lines asset network_id (map_option fst price) (map_option snd price) price_drops = Inr settings"
    and "asset \<in> {''xrp'', ''rlusd'', ''usdc''}" and "pred_option (\<lambda>(i, a). spaceless i \<and> spaceless a) price"
  shows "list_all (\<lambda>(k, v). tidy_key k \<and> spaceless v) settings" and "distinct (map fst settings)"
    and "map_of settings ''XRPL_WALLET_SEED'' = None" and "map_of settings ''MY_DESTINATION_ADDRESS'' = None"
proof -
  have "(\<exists>drops. settings = xrp_settings drops) \<or>
      (\<exists>i a. settings = issued_settings asset network_id i a \<and> spaceless i \<and> spaceless a \<and> (asset = ''rlusd'' \<or> asset = ''usdc''))"
    using assms by (auto simp: demo_settings_def rbind_def split: if_splits sum.splits option.splits)
  moreover have "spaceless ''XRP''" "spaceless ''RLUSD:''" "spaceless ''USDC:''" "spaceless ''RLUSD''" "spaceless ''USDC''"
    by (simp_all add: spaceless_def is_space_def ord_c_def)
  moreover have "upper ''rlusd'' = ''RLUSD''" "upper ''usdc'' = ''USDC''"
    by code_simp+
  ultimately show "list_all (\<lambda>(k, v). tidy_key k \<and> spaceless v) settings" and "distinct (map fst settings)"
      and "map_of settings ''XRPL_WALLET_SEED'' = None" and "map_of settings ''MY_DESTINATION_ADDRESS'' = None"
    using show_int_spaceless
    by (auto simp: xrp_settings_def issued_settings_def env_keys demo_allowed_issued_assets_def spaceless_def split: option.splits)
qed

lemma written_plain_text:
  assumes "write_plain_text E path content w = (Ok (), w')"
  shows "dw_files w' path = Some (TextFile content)"
  using assms by (auto simp: write_plain_text_def Let_def split: write_fault.splits)

lemma cbind_clift_Inl: "cbind (clift (Inl e)) f w = (Raise e, w)"
  by (simp add: cbind_def clift_def craise_def)

lemma cbind_raise: "cbind (craise e) f w = (Raise e, w)"
  by (simp add: cbind_def craise_def)

lemma demo_run:
  assumes "demo_env_main E dumps asset base_path output issuer amount price_drops w = (Ok report, w')"
    and "dw_files w base_path = Some (TextFile content)"
    and "load_cached_demo_wallet_set E (Some (wallet_cache_path E)) w = (Ok (Some wallets), w)" and "buyer_wallet wallets asset = Inr b"
  obtains settings seed where "wl_seed b = Some seed"
    and "demo_settings (splitlines (universal_newlines content)) asset (network_of_lines (splitlines (universal_newlines content)))
          (map_option fst (demo_price E asset issuer amount)) (map_option snd (demo_price E asset issuer amount)) price_drops = Inr settings"
    and "dw_files w' (or_default output (derived_output_path base_path asset)) = Some (TextFile (join [line_feed]
          (set_env_value (set_env_values (splitlines (universal_newlines content)) settings) ''XRPL_WALLET_SEED'' seed) @ [line_feed]))"
proof -
  let ?lines = "splitlines (universal_newlines content)"
  let ?price = "demo_price E asset issuer amount"
  let ?settings = "demo_settings ?lines asset (network_of_lines ?lines) (map_option fst ?price) (map_option snd ?price) price_drops"
  have read: "read_file base_path w = (Ok (Some (TextFile content)), w)" "read_text dumps base_path w = (Ok (universal_newlines content), w)"
    using assms(2) by (simp_all add: read_text_def read_file_def text_of_file_def cbind_def cget_def clift_def creturn_def)
  note steps = cbind_step [where m = "read_file base_path", OF read(1)] cbind_step [where m = "read_text dumps base_path", OF read(2)]
    cbind_step [where m = "load_cached_demo_wallet_set E (Some (wallet_cache_path E))", OF assms(3)]
  obtain settings where settings: "?settings = Inr settings"
    using assms(1) by (cases ?settings)
      (simp_all add: demo_env_main_def steps configure_demo_env_def Let_def rbind_def cbind_clift_Inl)
  obtain seed where seed: "wl_seed b = Some seed"
    using assms(1,4) settings by (cases "wl_seed b")
      (simp_all add: demo_env_main_def steps configure_demo_env_def Let_def rbind_def
        cbind_clift_Inr cbind_clift_Inl cbind_raise resolve_demo_wallet_seed_def cbind_assoc)
  show thesis
  proof (rule that [OF seed settings])
    show "dw_files w' (or_default output (derived_output_path base_path asset)) = Some (TextFile (join [line_feed]
          (set_env_value (set_env_values ?lines settings) ''XRPL_WALLET_SEED'' seed) @ [line_feed]))"
      using assms(1,4) settings seed
      by (simp add: demo_env_main_def steps configure_demo_env_def Let_def rbind_def
        cbind_clift_Inr resolve_demo_wallet_seed_def cbind_assoc cbind_return)
        (auto elim!: cbind_cases intro: written_plain_text simp: creturn_def)
  qed
qed


text \<open>The settings of the derived file as the rebalancing tool loads it.\<close>

lemma derived_entries:
  assumes "tidy_lines lines" and "lines \<noteq> []" and "list_all (\<lambda>(k, v). tidy_key k \<and> spaceless v) settings" and "spaceless seed"
  shows "env_of_text (universal_newlines (join [line_feed] (set_env_value (set_env_values lines settings) ''XRPL_WALLET_SEED'' seed) @ [line_feed]))
    = (env_of_lines Map.empty lines ++ map_of (rev settings))(''XRPL_WALLET_SEED'' \<mapsto> seed)"
proof -
  note many = set_values [OF assms(1,3), of Map.empty]
  note final = set_value [OF conjunct2 [OF many] env_keys(7) assms(4), of Map.empty]
  have "set_env_value l k v \<noteq> []" for l k v
    by (induction l k v rule: set_env_value.induct) auto
  then show ?thesis
    using final many written_reads_back [OF conjunct1 [OF conjunct2 [OF final]]] by (simp add: env_of_text_def)
qed

text \<open>C16. The environment files of the demo read back: the file that the tool derives for an asset from the
  file of the quickstart has, as the rebalancing tool loads it, the entries of the quickstart's file with
  the asset's settings and the seed of the asset's buyer in place of the old ones; so the rebalancing
  tool's checks of merchant and buyer accept it. (Addresses, seeds, the token, the endpoint and the price
  have no white space.)
\<close>

theorem derived_env_reads_back:
  assumes "render_quickstart_env xrpl_rpc_url merchant buyer token drops = Inr content" and "dw_files w base_path = Some (TextFile content)"
    and "spaceless xrpl_rpc_url" and "spaceless (wl_address merchant)" and "spaceless token" and "pred_option spaceless (wl_seed buyer)"
    and "demo_env_main E dumps asset base_path output issuer amount price_drops w = (Ok report, w')"
    and "asset \<in> {''xrp'', ''rlusd'', ''usdc''}" and "pred_option (\<lambda>(i, a). spaceless i \<and> spaceless a) (demo_price E asset issuer amount)"
    and "load_cached_demo_wallet_set E (Some (wallet_cache_path E)) w = (Ok (Some wallets), w)" and "buyer_wallet wallets asset = Inr b"
    and "pred_option (\<lambda>s. s \<noteq> [] \<and> spaceless s \<and> (\<exists>b'. te_from_seed E s = Inr b' \<and> wl_address b' = wl_address b)) (wl_seed b)"
    and "wl_address merchant \<noteq> []"
  shows "\<exists>settings seed derived. wl_seed b = Some seed
    \<and> demo_settings (splitlines content) asset ''xrpl:1'' (map_option fst (demo_price E asset issuer amount))
        (map_option snd (demo_price E asset issuer amount)) price_drops = Inr settings
    \<and> dw_files w' (or_default output (derived_output_path base_path asset)) = Some (TextFile derived)
    \<and> (let entries = env_of_text (universal_newlines derived) in
        entries = (env_of_text content ++ map_of settings)(''XRPL_WALLET_SEED'' \<mapsto> seed)
        \<and> validate_cached_merchant env_path entries merchant = Inr ()
        \<and> validate_cached_buyer E env_path entries symbol b = Inr ())"
proof -
  obtain seed0 where content: "wl_seed buyer = Some seed0"
      "content = join [line_feed] (quickstart_lines xrpl_rpc_url merchant seed0 token drops) @ [line_feed]"
    using quickstart_text [OF assms(1)] .
  let ?lines = "quickstart_lines xrpl_rpc_url merchant seed0 token drops"
  have tidy: "tidy_lines ?lines" "?lines \<noteq> []"
    using quickstart_tidy [OF assms(3-5)] assms(6) content(1) by simp (simp add: quickstart_lines_def)
  note lines = written_reads_back [OF tidy, folded content(2)]
  have network: "network_of_lines ?lines = ''xrpl:1''"
    by (simp add: network_of_lines_def quickstart_lines_def starts_with_def env_line_def or_str_def or_default_def) code_simp
  obtain settings seed where seed: "wl_seed b = Some seed"
    and settings: "demo_settings ?lines asset ''xrpl:1'' (map_option fst (demo_price E asset issuer amount))
        (map_option snd (demo_price E asset issuer amount)) price_drops = Inr settings"
    and derived: "dw_files w' (or_default output (derived_output_path base_path asset)) = Some (TextFile (join [line_feed]
          (set_env_value (set_env_values ?lines settings) ''XRPL_WALLET_SEED'' seed) @ [line_feed]))"
    using demo_run [OF assms(7,2,10,11)] unfolding lines network by metis
  note ok = settings_tidy [OF settings assms(8,9)]
  have "env_of_text content = env_of_lines Map.empty ?lines"
    by (simp add: env_of_text_def lines(2))
  moreover have "map_of (rev settings) = map_of settings"
    using ok(2) by (simp add: map_of_rev_distinct)
  ultimately have entries: "env_of_text (universal_newlines (join [line_feed] (set_env_value (set_env_values ?lines settings) ''XRPL_WALLET_SEED'' seed) @ [line_feed]))
      = (env_of_text content ++ map_of settings)(''XRPL_WALLET_SEED'' \<mapsto> seed)"
    using derived_entries [OF tidy ok(1)] assms(12) seed by simp
  have "env_of_text content ''MY_DESTINATION_ADDRESS'' = Some (wl_address merchant)"
    using tidy_entry [OF tidy(1) _ env_keys(5) assms(4)] \<open>env_of_text content = env_of_lines Map.empty ?lines\<close>
    by (simp add: quickstart_lines_def)
  then have "validate_cached_merchant env_path ((env_of_text content ++ map_of settings)(''XRPL_WALLET_SEED'' \<mapsto> seed)) merchant = Inr ()"
    using ok(4) assms(4,13) by (simp add: validate_cached_merchant_def entry_def map_add_def strip_spaceless Let_def)
  moreover have "validate_cached_buyer E env_path ((env_of_text content ++ map_of settings)(''XRPL_WALLET_SEED'' \<mapsto> seed)) symbol b = Inr ()"
    using assms(12) seed by (auto simp: validate_cached_buyer_def entry_def strip_spaceless rbind_def Let_def)
  ultimately show ?thesis
    using seed settings derived entries by (simp add: lines(2) Let_def)
qed


text \<open>A cache with four wallets, whose addresses are made from their seeds.\<close>

definition demo_dev :: dev_env where
  "demo_dev = claim_dev\<lparr>te_from_seed := \<lambda>s. Inr \<lparr>wl_address = ''r'' @ s, wl_seed = Some s\<rparr>\<rparr>"

definition cache_record :: "string \<Rightarrow> pyval" where
  "cache_record s = PDict [(''seed'', PStr s), (''classic_address'', PStr (''r'' @ s))]"

definition demo_cache :: pydict where
  "demo_cache = [(''version'', PInt 2), (''merchant'', cache_record ''M''),
     (''buyers'', PDict [(''xrp'', cache_record ''X''), (''rlusd'', cache_record ''L''), (''usdc'', cache_record ''U'')])]"

abbreviation seeded :: "string \<Rightarrow> wallet" where "seeded s \<equiv> \<lparr>wl_address = ''r'' @ s, wl_seed = Some s\<rparr>"

definition demo_wallets :: demo_wallet_set where
  "demo_wallets = \<lparr>dws_merchant_wallet = seeded ''M'', dws_buyers = [(''xrp'', seeded ''X''), (''rlusd'', seeded ''L''), (''usdc'', seeded ''U'')]\<rparr>"

definition demo_sample :: dev_world where
  "demo_sample = \<lparr>dw_log = [], dw_files = [''e'' \<mapsto> TextFile (join [line_feed] (quickstart_lines ''u'' (seeded ''M'') ''X'' ''t'' 7) @ [line_feed]),
     DEFAULT_WALLET_CACHE_PATH \<mapsto> JsonFile (PDict demo_cache)], dw_writes = 0, dw_clock = 0\<rparr>"

lemma demo_dev_answers [simp]:
  "te_from_seed demo_dev s = Inr (seeded s)" "te_write demo_dev n = NoFault" "te_getenv demo_dev v = None"
  by (simp_all add: demo_dev_def claim_dev_def)

lemma demo_cached: "load_cached_demo_wallet_set demo_dev (Some (wallet_cache_path demo_dev)) demo_sample = (Ok (Some demo_wallets), demo_sample)"
proof -
  have "wallet_from_cache_record demo_dev (cache_record s) = Inr (seeded s)" for s
    by (simp add: wallet_from_cache_record_def cache_record_def vindex_def dindex_def seed_wallet_def rbind_def)
  then have "demo_wallet_set_from_payload demo_dev (Some demo_cache) = Inr (Some demo_wallets)"
    by (simp add: demo_wallet_set_from_payload_def demo_cache_def dget_def dget_default_def dindex_def cached_buyer_def DEMO_WALLET_ASSETS_def rbind_def
        none_if_malformed_def demo_wallets_def)
  then show ?thesis
    by (simp add: load_cached_demo_wallet_set_def load_wallet_cache_payload_def read_file_def wallet_cache_path_def getenv_default_def claim_runs
        demo_sample_def)
qed

lemma demo_buyer: "buyer_wallet demo_wallets ''usdc'' = Inr (seeded ''U'')"
  by (simp add: buyer_wallet_def demo_wallets_def DEMO_WALLET_ASSETS_def)

lemma demo_price_usdc: "demo_price demo_dev ''usdc'' None None = Some (USDC_TESTNET_ISSUER, ''2.50'')"
  by (simp add: demo_price_def or_default_def default_usdc_issuer_def getenv_default_def)

lemma demo_main_returns:
  "\<exists>report w'. demo_env_main demo_dev (\<lambda>_. []) ''usdc'' ''e'' None None None None demo_sample = (Ok report, w')"
proof -
  have base: "read_file ''e'' demo_sample = (Ok (dw_files demo_sample ''e''), demo_sample)"
    by (simp add: read_file_def cget_def)
  obtain content where content: "dw_files demo_sample ''e'' = Some (TextFile content)"
    by (simp add: demo_sample_def)
  have read: "read_text (\<lambda>_. []) ''e'' demo_sample = (Ok (universal_newlines content), demo_sample)"
    using base content by (simp add: read_text_def text_of_file_def cbind_def clift_def creturn_def)
  show ?thesis
    using content
    by (simp add: demo_env_main_def cbind_step [where m = "read_file ''e''", OF base] cbind_step [where m = "read_text (\<lambda>_. []) ''e''", OF read]
        demo_price_usdc configure_demo_env_def demo_settings_def rbind_def cbind_clift_Inr resolve_demo_wallet_seed_def cbind_assoc demo_buyer
        cbind_step [where m = "load_cached_demo_wallet_set demo_dev (Some (wallet_cache_path demo_dev))", OF demo_cached] cbind_return Let_def)
      (simp add: cbind_def write_plain_text_def creturn_def Let_def)
qed

theorem derived_env_reads_back_witness:
  "\<exists>derived. dw_files (snd (demo_env_main demo_dev (\<lambda>_. []) ''usdc'' ''e'' None None None None demo_sample)) ''e.usdc'' = Some (TextFile derived)
    \<and> validate_cached_buyer demo_dev ''p'' (env_of_text (universal_newlines derived)) ''USDC'' (seeded ''U'') = Inr ()"
proof -
  obtain report w' where run: "demo_env_main demo_dev (\<lambda>_. []) ''usdc'' ''e'' None None None None demo_sample = (Ok report, w')"
    using demo_main_returns by blast
  have "render_quickstart_env ''u'' (seeded ''M'') (seeded ''X'') ''t'' 7
      = Inr (join [line_feed] (quickstart_lines ''u'' (seeded ''M'') ''X'' ''t'' 7) @ [line_feed])"
    by (simp add: render_quickstart_env_def quickstart_lines_def)
  moreover have "dw_files demo_sample ''e'' = Some (TextFile (join [line_feed] (quickstart_lines ''u'' (seeded ''M'') ''X'' ''t'' 7) @ [line_feed]))"
    by (simp add: demo_sample_def)
  moreover have "or_default None (derived_output_path ''e'' ''usdc'') = ''e.usdc''"
    by (simp add: or_default_def derived_output_path_def)
  ultimately show ?thesis
    using derived_env_reads_back [OF _ _ _ _ _ _ run _ _ demo_cached demo_buyer, where env_path = "''p''" and symbol = "''USDC''"
        and xrpl_rpc_url = "''u''" and merchant = "seeded ''M''" and buyer = "seeded ''X''" and token = "''t''" and drops = 7] run
    by (auto simp: demo_price_usdc spaceless_def is_space_def ord_c_def Let_def)
qed

end
