(* ===== verification/RebalanceCorrect.thy ===== *)
theory RebalanceCorrect
  imports DemoRebalance ClaimDelete
begin

text \<open>
  Rebalancing leaves the merchant its floor: the one XRP payment of a run is what the ledger reported less the
  floor, the fee and a cushion, and a run that succeeds has seen the merchant at or above the floor again.
\<close>

section \<open>Balances that the ledger reported\<close>

definition balance_in :: "pydict \<Rightarrow> int \<Rightarrow> bool" where
  "balance_in result balance \<longleftrightarrow>
     (\<exists>data. map_of result ''account_data'' = Some data \<and> rbind (vindex data ''Balance'') int_of_val = Inr balance)"

definition is_submit :: "dev_call \<Rightarrow> bool" where
  "is_submit call \<longleftrightarrow> (case call of SubmitTx _ _ \<Rightarrow> True | _ \<Rightarrow> False)"

abbreviation asks_only :: "('x dev_world_scheme, 'a) cmd \<Rightarrow> bool" where
  "asks_only \<equiv> emits dw_log (\<lambda>e. \<not> is_submit (fst e))"

lemma asks_log [emits_rules]: "\<not> is_submit call \<Longrightarrow> asks_only (dev_log E call)"
  by (simp add: emits_def dev_log_def)

lemma asks_clock [emits_rules]: "asks_only dev_now" "asks_only (dev_sleep t)"
  by (simp_all add: emits_def dev_now_def dev_sleep_def cget_def cmodify_def)

lemma asks_balance [emits_rules]: "asks_only (get_validated_balance E a)"
  unfolding get_validated_balance_def get_validated_account_root_def current_validated_ledger_index_def dev_request_def Let_def
  by (intro emits_rules; simp add: is_submit_def)

lemma asks_fee [emits_rules]: "asks_only (estimate_xrp_payment_fee_drops E W destination)"
  unfolding estimate_xrp_payment_fee_drops_def dev_autofill_def by (intro emits_rules; simp add: is_submit_def)

lemma asks_wait [emits_rules]: "asks_only (wait_for_xrp_balance_increase E address starting increase)"
proof -
  have "asks_only (poll_xrp_increase E n deadline address starting increase)" for n deadline
    by (induction n) (auto intro!: emits_rules)
  then show ?thesis
    unfolding wait_for_xrp_balance_increase_def by (intro emits_rules)
qed

lemma balance_reported:
  assumes "get_validated_balance E a w = (Ok balance, w')"
  obtains result where "last_answer E (dw_log w') (AccountInfo a) result" "balance_in result balance"
proof -
  from assms [unfolded get_validated_balance_def] obtain acct where
    root: "get_validated_account_root E a w = (Ok (Some acct), w')" and balance: "rbind (vindex (ac_data acct) ''Balance'') int_of_val = Inr balance"
    by (auto simp: cbind_def clift_def creturn_def craise_def split: prod.splits outcome.splits option.splits sum.splits)
  from root [unfolded get_validated_account_root_def] show thesis
  proof (cases rule: cbind_cases)
    case (returned response w1)
    have last: "last_answer E (dw_log w1) (AccountInfo a) (snd response)"
      by (rule request_last [OF returned(1)])
    from returned(2) obtain data where data: "map_of (snd response) ''account_data'' = Some data"
      by (cases "map_of (snd response) ''account_data''") (auto simp: creturn_def)
    let ?index = "py_or (dget (snd response) ''ledger_index'') (dget (snd response) ''ledger_current_index'')"
    let ?m = "if ?index = PNone then current_validated_ledger_index E else clift (int_of_val ?index)"
    have server: "emits dw_log (\<lambda>e. fst e = ServerInfo) ?m"
      unfolding current_validated_ledger_index_def dev_request_def by (intro emits_rules) (simp add: emits_def dev_log_def)
    have "cbind ?m (\<lambda>index. creturn (Some \<lparr>ac_data = data, ac_ledger_index = index\<rparr>)) w1 = (Ok (Some acct), w')"
      using returned(2) data by (simp add: Let_def)
    then obtain index where index: "?m w1 = (Ok index, w')" "ac_data acct = data"
      unfolding cbind_Ok creturn_Ok by auto
    obtain l where "dw_log w' = dw_log w1 @ l" "list_all (\<lambda>e. fst e = ServerInfo) l"
      using emitsD [OF server index(1)] by blast
    then show thesis
      using that last_answer_append [OF last] balance data index(2) by (fastforce simp: balance_in_def list_all_iff)
  next
    case fails
    then show thesis using fails(2) [of "Some acct"] by simp
  qed
qed


section \<open>The payment of a run\<close>

abbreviation asked :: "(dev_call \<times> 'f) list \<Rightarrow> bool" where
  "asked \<equiv> list_all (\<lambda>e. \<not> is_submit (fst e))"

lemma payment_log:
  "dw_log (snd (submit_validated_xrp_payment E W destination amount w)) =
     dw_log w @ [(SubmitTx (xrp_payment W destination (show_int amount)) (wl_address W), dw_files w)]"
  by (simp add: submit_validated_xrp_payment_def dev_request_def dev_log_def cbind_def clift_def creturn_def craise_def Let_def split: sum.split)

text \<open>Either nothing was submitted, or the payment, once.\<close>

lemma send_run:
  assumes "send_above_floor E merchant buyer merchant_floor amount w = (r, w')"
  shows "\<exists>l. dw_log w' = dw_log w @ l \<and> (asked l \<and> (\<forall>v. r \<noteq> Ok v)
    \<or> (\<exists>l1 files l2. l = l1 @ (SubmitTx (xrp_payment merchant (wl_address buyer) (show_int amount)) (wl_address merchant), files) # l2
          \<and> asked l1 \<and> asked l2))"
    and "r = Ok moved \<Longrightarrow> \<exists>result balance. last_answer E (dw_log w') (AccountInfo (wl_address merchant)) result
      \<and> balance_in result balance \<and> merchant_floor \<le> balance"
proof -
  let ?after = "\<lambda>b tx_hash. cbind (wait_for_xrp_balance_increase E (wl_address buyer) b amount) (\<lambda>_.
     cbind (get_validated_balance E (wl_address merchant)) (\<lambda>after.
       if after < merchant_floor then craise (RuntimeError (''Merchant XRP balance fell below the configured floor after fees: observed '' @
           show_int after @ '' drops, expected at least '' @ show_int merchant_floor @ '' drops.''))
       else creturn (dec_of_int amount, Some tx_hash)))"
  have rest: "asks_only (?after b tx_hash)" for b tx_hash
    by (intro emits_rules)
  from assms [unfolded send_above_floor_def]
  show "\<exists>l. dw_log w' = dw_log w @ l \<and> (asked l \<and> (\<forall>v. r \<noteq> Ok v)
    \<or> (\<exists>l1 files l2. l = l1 @ (SubmitTx (xrp_payment merchant (wl_address buyer) (show_int amount)) (wl_address merchant), files) # l2
          \<and> asked l1 \<and> asked l2))"
  proof (cases rule: cbind_cases)
    case (returned b w1)
    obtain l1 where l1: "dw_log w1 = dw_log w @ l1" "asked l1"
      using emitsD [OF asks_balance returned(1)] by blast
    obtain q w2 where paid: "submit_validated_xrp_payment E merchant (wl_address buyer) amount w1 = (q, w2)" by fastforce
    then have sent: "dw_log w2 = dw_log w1 @ [(SubmitTx (xrp_payment merchant (wl_address buyer) (show_int amount)) (wl_address merchant), dw_files w1)]"
      using payment_log [of E merchant "wl_address buyer" amount w1] by simp
    obtain l2 where "dw_log w' = dw_log w2 @ l2" "asked l2"
    proof (cases "\<exists>h. q = Ok h")
      case True
      then obtain h where "?after b h w2 = (r, w')"
        using returned(2) paid by (auto simp: cbind_step)
      from emitsD [OF rest this] show thesis using that by blast
    next
      case False
      then have "w' = w2" using returned(2) paid by (cases q) (auto simp: cbind_def)
      then show thesis using that [of "[]"] by simp
    qed
    then show ?thesis using l1 sent by fastforce
  next
    case fails
    then obtain l where "dw_log w' = dw_log w @ l" "asked l"
      using emitsD [OF asks_balance, of E "wl_address buyer" w] by blast
    then show ?thesis using fails(2) by blast
  qed
  show "\<exists>result balance. last_answer E (dw_log w') (AccountInfo (wl_address merchant)) result \<and> balance_in result balance \<and> merchant_floor \<le> balance"
    if moved: "r = Ok moved"
  proof -
    obtain after w3 where "get_validated_balance E (wl_address merchant) w3 = (Ok after, w')" "merchant_floor \<le> after"
      using assms moved by (auto simp: send_above_floor_def run_simps split: if_splits)
    then show ?thesis using balance_reported by meson
  qed
qed

lemma last_answered: "last_answer E calls call result \<Longrightarrow> answered E calls call result"
  by (auto simp: last_answer_def answered_def)

lemma fee_estimated:
  assumes "estimate_xrp_payment_fee_drops E W destination w = (Ok fee, w')"
  shows "\<exists>h prepared. te_autofill E h (xrp_payment W destination ''1'') = Inr prepared \<and> fee_of_autofill prepared = Inr fee"
  using assms by (auto simp: estimate_xrp_payment_fee_drops_def dev_autofill_def dev_log_def run_simps)

text \<open>A run stops without a payment, or sends what a reported balance has above the floor, the fee and the cushion.\<close>

lemma rebalance_run:
  assumes "rebalance_xrp_asset E merchant buyer merchant_floor w = (r, w')" and "dw_log w = []"
  obtains (unsent) "asked (dw_log w')" "\<forall>moved h. r \<noteq> Ok (moved, Some h)"
  | (sends) balance fee w2 result where "asked (dw_log w2)" "answered E (dw_log w2) (AccountInfo (wl_address merchant)) result"
      "balance_in result balance" "0 < balance - merchant_floor - fee - 50"
      "\<exists>h prepared. te_autofill E h (xrp_payment merchant (wl_address buyer) ''1'') = Inr prepared \<and> fee_of_autofill prepared = Inr fee"
      "send_above_floor E merchant buyer merchant_floor (balance - merchant_floor - fee - 50) w2 = (r, w')"
  using assms(1) [unfolded rebalance_xrp_asset_def]
proof (cases rule: cbind_cases)
  case (returned balance w1)
  obtain result where result: "answered E (dw_log w1) (AccountInfo (wl_address merchant)) result" "balance_in result balance"
    using balance_reported [OF returned(1)] last_answered by metis
  have asked: "asked (dw_log w1)"
    using emitsD [OF asks_balance returned(1)] assms(2) by auto
  from returned(2) show thesis
  proof (cases rule: cbind_cases)
    case (returned fee w2)
    obtain l where l: "dw_log w2 = dw_log w1 @ l" "asked l"
      using emitsD [OF asks_fee returned(1)] by blast
    show thesis
    proof (cases "balance - merchant_floor - fee - 50 \<le> 0")
      case True
      then show thesis
        using returned(2) asked l by (intro unsent) (auto simp: Let_def creturn_def)
    next
      case False
      show thesis
      proof (rule sends)
        show "asked (dw_log w2)" using asked l by simp
        show "answered E (dw_log w2) (AccountInfo (wl_address merchant)) result"
          unfolding l(1) by (rule answered_append [OF result(1)])
      qed (use False result(2) fee_estimated [OF returned(1)] returned(2) in \<open>simp_all add: Let_def\<close>)
    qed
  next
    case fails
    then show thesis
      using emitsD [OF asks_fee, of E merchant "wl_address buyer" w1] asked by (intro unsent) fastforce+
  qed
next
  case fails
  then show thesis
    using emitsD [OF asks_balance, of E "wl_address merchant" w] assms(2) by (intro unsent) fastforce+
qed

text \<open>C15. Rebalancing XRP leaves the merchant its floor: a run submits at most one transaction, a payment from the
  merchant to the buyer, whose amount with the estimated fee is exactly what a balance that the ledger
  reported before has above the floor and the cushion of 50 drops; and a run that returns with a payment
  ended with an answer of the ledger in which the merchant still has its floor.
\<close>

theorem rebalance_keeps_floor:
  assumes "rebalance_xrp_asset E merchant buyer merchant_floor w = (r, w')" and "dw_log w = []"
  shows "asked (dw_log w') \<and> (\<forall>moved h. r \<noteq> Ok (moved, Some h))
    \<or> (\<exists>before amount balance fee files after.
        dw_log w' = before @ (SubmitTx (xrp_payment merchant (wl_address buyer) (show_int amount)) (wl_address merchant), files) # after
        \<and> asked before \<and> asked after \<and> 0 < amount \<and> balance - amount - fee = merchant_floor + 50
        \<and> (\<exists>result. answered E before (AccountInfo (wl_address merchant)) result \<and> balance_in result balance)
        \<and> (\<exists>h prepared. te_autofill E h (xrp_payment merchant (wl_address buyer) ''1'') = Inr prepared \<and> fee_of_autofill prepared = Inr fee)
        \<and> (\<forall>moved. r = Ok moved \<longrightarrow> (\<exists>result balance. last_answer E (dw_log w') (AccountInfo (wl_address merchant)) result
             \<and> balance_in result balance \<and> merchant_floor \<le> balance)))"
    (is "?none \<or> ?paid")
proof (cases rule: rebalance_run [OF assms, case_names unsent sends])
  case (sends balance fee w2 result)
  let ?amount = "balance - merchant_floor - fee - 50"
  obtain l where l: "dw_log w' = dw_log w2 @ l" and outcome: "asked l \<and> (\<forall>v. r \<noteq> Ok v)
      \<or> (\<exists>l1 files l2. l = l1 @ (SubmitTx (xrp_payment merchant (wl_address buyer) (show_int ?amount)) (wl_address merchant), files) # l2
        \<and> asked l1 \<and> asked l2)"
    using send_run(1) [OF sends(6)] by (elim exE conjE) (rule that)
  from outcome show ?thesis
  proof (elim disjE exE conjE)
    fix l1 files l2
    assume paid: "l = l1 @ (SubmitTx (xrp_payment merchant (wl_address buyer) (show_int ?amount)) (wl_address merchant), files) # l2"
      "asked l1" "asked l2"
    let ?before = "dw_log w2 @ l1"
    have known: "\<exists>result. answered E ?before (AccountInfo (wl_address merchant)) result \<and> balance_in result balance"
      using answered_append [OF sends(2)] sends(3) by blast
    have log: "dw_log w' = ?before @
        (SubmitTx (xrp_payment merchant (wl_address buyer) (show_int ?amount)) (wl_address merchant), files) # l2"
      using l paid(1) by simp
    have "asked ?before" "balance - ?amount - fee = merchant_floor + 50"
      using sends(1) paid(2) by simp_all
    then have ?paid
      using log known paid(3) sends(4,5) send_run(2) [OF sends(6)]
      by (intro exI [of _ ?before] exI [of _ ?amount] exI [of _ balance] exI [of _ fee] exI [of _ files] exI [of _ l2] conjI allI impI)
    then show ?thesis ..
  qed (use l sends(1) in simp)
qed simp



section \<open>Witness\<close>

definition pay_ledger :: "dev_call list \<Rightarrow> dev_call \<Rightarrow> exn + bool \<times> pydict" where
  "pay_ledger history call = (case call of
       AccountInfo a \<Rightarrow>
         let balance = (if a = ''rB'' then if list_ex is_submit history then ''2000'' else ''0'' else ''1000'') in
         Inr (True, [(''account_data'', PDict [(''Balance'', PStr balance)]), (''ledger_index'', PStr ''9'')])
     | SubmitTx _ _ \<Rightarrow> Inr (True, [(''validated'', PBool True), (''meta'', PDict [(''TransactionResult'', PStr ''tesSUCCESS'')]), (''hash'', PStr ''H'')])
     | _ \<Rightarrow> Inl (ClientError []))"

definition pay_dev :: dev_env where
  "pay_dev = claim_dev\<lparr>te_rpc := pay_ledger, te_autofill := \<lambda>_ tx. Inr \<lparr>pt_tx = tx, pt_fee = Some ''12'', pt_last_ledger = None\<rparr>\<rparr>"

definition pay_sample :: dev_world where
  "pay_sample = \<lparr>dw_log = [], dw_files = Map.empty, dw_writes = 0, dw_clock = 0\<rparr>"

abbreviation pay_merchant :: wallet where "pay_merchant \<equiv> \<lparr>wl_address = ''rM'', wl_seed = None\<rparr>"
abbreviation pay_buyer :: wallet where "pay_buyer \<equiv> \<lparr>wl_address = ''rB'', wl_seed = None\<rparr>"

lemma pay_dev_answers [simp]:
  "te_rpc pay_dev = pay_ledger" "te_autofill pay_dev h tx = Inr \<lparr>pt_tx = tx, pt_fee = Some ''12'', pt_last_ledger = None\<rparr>"
  by (simp_all add: pay_dev_def)

lemma pay_numbers: "int_of_str ''0'' = Inr 0" "int_of_str ''1000'' = Inr 1000" "int_of_str ''2000'' = Inr 2000" "int_of_str ''9'' = Inr 9"
  "int_of_str ''12'' = Inr 12"
  by code_simp+

abbreviation asked_pay :: "dev_call \<Rightarrow> dev_world \<Rightarrow> dev_world" where
  "asked_pay call \<equiv> \<lambda>w. snd (dev_log pay_dev call w)"

lemma pay_balance:
  "get_validated_balance pay_dev a w =
     (Ok (if a = ''rB'' then if list_ex (is_submit \<circ> fst) (dw_log w) then 2000 else 0 else 1000), asked_pay (AccountInfo a) w)"
  by (simp add: get_validated_balance_def get_validated_account_root_def claim_runs pay_ledger_def dget_def dget_default_def py_or_def
      int_of_val_def py_str_def pay_numbers vindex_def dindex_def rbind_def list_ex_iff Let_def)

lemma pay_fee: "estimate_xrp_payment_fee_drops pay_dev W destination w = (Ok 12, asked_pay (Autofill (xrp_payment W destination ''1'')) w)"
  by (simp add: estimate_xrp_payment_fee_drops_def dev_autofill_def claim_runs fee_of_autofill_def pay_numbers)

lemma pay_submit:
  "submit_validated_xrp_payment pay_dev W destination amount w =
     (Ok ''H'', asked_pay (SubmitTx (xrp_payment W destination (show_int amount)) (wl_address W)) w)"
  by (simp add: submit_validated_xrp_payment_def claim_runs pay_ledger_def dget_def dget_default_def vget_def response_tx_hash_def rbind_def
      py_str_def Let_def)

lemma pay_wait:
  assumes "list_ex (is_submit \<circ> fst) (dw_log w)" and "increase \<le> 2000"
  shows "wait_for_xrp_balance_increase pay_dev ''rB'' 0 increase w = (Ok 2000, asked_pay (AccountInfo ''rB'') w)"
proof -
  have clock: "dev_now w = (Ok (dw_clock w), w)" by (simp add: dev_now_def cget_def)
  have "poll_xrp_increase pay_dev (Suc n) deadline ''rB'' 0 increase w = (Ok 2000, asked_pay (AccountInfo ''rB'') w)" if "dw_clock w < deadline" for n deadline
    using that assms by (simp add: cbind_step [where m = dev_now, OF clock] cbind_step [where m = "get_validated_balance pay_dev ''rB''", OF pay_balance]
        creturn_def)
  then show ?thesis
    unfolding wait_for_xrp_balance_increase_def cbind_step [where m = dev_now, OF clock] by (metis add_strict_increasing2 le_refl less_add_same_cancel1 of_nat_0_less_iff zero_less_numeral)
qed

lemma pay_run: "\<exists>w'. rebalance_xrp_asset pay_dev pay_merchant pay_buyer 100 pay_sample = (Ok (dec_of_int 838, Some ''H''), w')"
proof -
  have "list_ex (is_submit \<circ> fst) (dw_log (asked_pay (SubmitTx tx a) w))" for tx a w
    by (simp add: dev_log_def is_submit_def)
  moreover have "\<not> list_ex (is_submit \<circ> fst) (dw_log (asked_pay (AccountInfo b) (asked_pay (Autofill tx) (asked_pay (AccountInfo a) pay_sample))))"
      "\<not> list_ex (is_submit \<circ> fst) (dw_log (asked_pay (Autofill tx) (asked_pay (AccountInfo a) pay_sample)))" for tx a b
    by (simp_all add: dev_log_def is_submit_def pay_sample_def)
  ultimately show ?thesis
    by (simp add: rebalance_xrp_asset_def send_above_floor_def cbind_step [where m = "get_validated_balance pay_dev a" for a, OF pay_balance]
        cbind_step [where m = "estimate_xrp_payment_fee_drops pay_dev W d" for W d, OF pay_fee]
        cbind_step [where m = "submit_validated_xrp_payment pay_dev W d n" for W d n, OF pay_submit]
        cbind_step [where m = "wait_for_xrp_balance_increase pay_dev ''rB'' 0 n" for n, OF pay_wait] creturn_def Let_def)
qed

theorem rebalance_keeps_floor_witness:
  "\<exists>before amount balance fee files after. dw_log (snd (rebalance_xrp_asset pay_dev pay_merchant pay_buyer 100 pay_sample)) =
      before @ (SubmitTx (xrp_payment pay_merchant ''rB'' (show_int amount)) ''rM'', files) # after
    \<and> 0 < amount \<and> balance - amount - fee = (150 :: int)"
proof -
  obtain w' where run: "rebalance_xrp_asset pay_dev pay_merchant pay_buyer 100 pay_sample = (Ok (dec_of_int 838, Some ''H''), w')"
    using pay_run by blast
  have "dw_log pay_sample = []" by (simp add: pay_sample_def)
  from rebalance_keeps_floor [OF run this] show ?thesis
    using run by (elim disjE exE conjE) (simp, simp, metis)
qed

end
