(* ===== verification/FundMain.thy ===== *)
theory FundMain
  imports DemoWallets FundCorrect
begin

text \<open>
  The command line of \<open>src/devtools/rlusd_fund.py\<close> after \<open>argparse\<close>: the checks of the arguments, the choice of
  the wallet, the lock, what is printed and the exit codes (0 done, 1 failed, 2 refused, 3 pending). The
  text of JSON is an argument, \<open>dumps\<close>, and so is the name that a time gives a file, \<open>stamp\<close>.
\<close>

section \<open>Arguments and paths\<close>

text \<open>The class of the error is one of \<open>argparse\<close>, which ends the program with its text.\<close>

definition positive_decimal :: "string \<Rightarrow> string \<Rightarrow> exn + pydec" where
  "positive_decimal raw label = (case decimal_of_str raw of
       Inl e \<Rightarrow> Inl (ClientError (label @ '' must be a decimal number''))
     | Inr v \<Rightarrow>
         if \<not> is_finite v then Inl (ClientError (label @ '' must be positive''))
         else rbind (dec_le v (dec_of_int 0)) (\<lambda>bad. if bad then Inl (ClientError (label @ '' must be positive'')) else Inr v))"

abbreviation DEFAULT_WALLET_DIRECTORY :: string where "DEFAULT_WALLET_DIRECTORY \<equiv> ''.live-test-wallets''"
abbreviation DEFAULT_FUNDING_RPC_URL :: string where "DEFAULT_FUNDING_RPC_URL \<equiv> ''https://s.altnet.rippletest.net:51234/''"
abbreviation (input) TESTNET_NETWORK_ID :: int where "TESTNET_NETWORK_ID \<equiv> 1"

definition timestamped_wallet_path :: "(rat \<Rightarrow> string) \<Rightarrow> ('x, string) dev_cmd" where
  "timestamped_wallet_path stamp =
     cbind dev_now (\<lambda>now. creturn (path_join DEFAULT_WALLET_DIRECTORY (''rlusd-funded-wallet-'' @ stamp now @ ''.json'')))"

text \<open>\<open>Path.stem\<close>: the name up to its last dot, unless that is its first or its last character.\<close>

definition path_stem :: "string \<Rightarrow> string" where
  "path_stem path =
     (let name = path_name path; suffix = takeWhile (\<lambda>c. c \<noteq> CHR ''.'') (rev name); i = length name - Suc (length suffix) in
      if CHR ''.'' \<in> set name \<and> 0 < i \<and> suffix \<noteq> [] then take i name else name)"

definition state_path_for_wallet :: "string \<Rightarrow> string" where
  "state_path_for_wallet wallet_path = with_name wallet_path (path_stem wallet_path @ ''.funding.json'')"

definition create_test_wallet :: "dev_env \<Rightarrow> ('x, wallet) dev_cmd" where
  "create_test_wallet E = cget (\<lambda>w. te_new_wallet E (map fst (dw_log w)))"

definition select_wallet ::
  "dev_env \<Rightarrow> (rat \<Rightarrow> string) \<Rightarrow> bool \<Rightarrow> string option \<Rightarrow> string \<Rightarrow> ('x, wallet \<times> string \<times> string) dev_cmd" where
  "select_wallet E stamp new_wallet wallet_file issuer =
     (if new_wallet then
        cbind (case wallet_file of Some f \<Rightarrow> creturn f | None \<Rightarrow> timestamped_wallet_path stamp) (\<lambda>resolved_path.
        cbind (read_file resolved_path) (\<lambda>f.
          if f \<noteq> None then craise (FundingError (''refusing to overwrite existing wallet file: '' @ resolved_path))
          else
            cbind (create_test_wallet E) (\<lambda>W.
            cbind (save_wallet_file E resolved_path W issuer) (\<lambda>_.
              creturn (W, resolved_path, state_path_for_wallet resolved_path)))))
      else case wallet_file of
          Some path \<Rightarrow> cbind (load_wallet_file E path issuer) (\<lambda>W. creturn (W, path, state_path_for_wallet path))
        | None \<Rightarrow>
            cbind (get_demo_wallet_set E) (\<lambda>wallets.
            cbind (clift (buyer_wallet wallets DEMO_WALLET_RLUSD)) (\<lambda>W.
              let cache_path = wallet_cache_path E in
              creturn (W, cache_path, path_join (path_parent cache_path) ''rlusd-demo-buyer.funding.json''))))"


section \<open>The lock\<close>

text \<open>Opening the lock file creates it; while it is held no other run of the tool acts.\<close>

definition open_lock_file :: "dev_env \<Rightarrow> string \<Rightarrow> ('x, unit) dev_cmd" where
  "open_lock_file E path = (\<lambda>w.
     if dw_files w path \<noteq> None then (Ok (), w)
     else
       let w' = w\<lparr>dw_writes := Suc (dw_writes w)\<rparr>; new = w'\<lparr>dw_files := (dw_files w)(path \<mapsto> TextFile [])\<rparr> in
       case te_write E (dw_writes w) of
         NoFault \<Rightarrow> (Ok (), new)
       | FailsOpening e \<Rightarrow> (Raise e, w')
       | FailsBefore e \<Rightarrow> (Raise e, w')
       | FailsAfter e \<Rightarrow> (Raise e, new))"

definition private_file_lock :: "dev_env \<Rightarrow> string \<Rightarrow> ('x, unit) dev_cmd" where
  "private_file_lock E path =
     cbind (clift (private_directory E path)) (\<lambda>_.
     cbind (reject_symlink path) (\<lambda>_. open_lock_file E path))"


section \<open>Results\<close>

definition result_payload :: "fund_args \<Rightarrow> funding_result \<Rightarrow> exn + pydict" where
  "result_payload A result =
     rbind (decimal_text (fr_rlusd_balance result)) (\<lambda>balance.
     rbind (decimal_text (fa_target_rlusd A)) (\<lambda>target.
       Inr [(''status'', PStr (fr_status result)), (''network'', PStr NETWORK), (''address'', PStr (fr_classic_address result)),
            (''issuer'', PStr (fa_issuer A)), (''xrpBalanceDrops'', PInt (fr_xrp_balance_drops result)),
            (''rlusdBalance'', PStr balance), (''targetRLUSD'', PStr target), (''transactionHashes'', PList (fr_transaction_hashes result)),
            (''walletFile'', PStr (fa_wallet_path A)), (''stateFile'', PStr (fa_state_path A))]))"

definition result_lines :: "(pyval \<Rightarrow> string) \<Rightarrow> bool \<Rightarrow> fund_args \<Rightarrow> funding_result \<Rightarrow> exn + string list" where
  "result_lines dumps as_json A result =
     rbind (result_payload A result) (\<lambda>payload.
       if as_json then Inr [dumps (PDict payload)]
       else rbind (dec_div (dec_of_int (fr_xrp_balance_drops result)) (dec_of_int 1000000)) (\<lambda>xrp.
         Inr ([''Status: '' @ py_str (dget payload ''status''), ''Address: '' @ py_str (dget payload ''address''), ''XRP balance: '' @ dec_str xrp,
               ''RLUSD balance: '' @ py_str (dget payload ''rlusdBalance''), ''Issuer: '' @ py_str (dget payload ''issuer''),
               ''Wallet file: '' @ py_str (dget payload ''walletFile''), ''State file: '' @ py_str (dget payload ''stateFile'')]
              @ map (\<lambda>h. ''Transaction: '' @ py_str h) (fr_transaction_hashes result))))"

definition pending_lines :: "(pyval \<Rightarrow> string) \<Rightarrow> bool \<Rightarrow> string option \<Rightarrow> string option \<Rightarrow> string \<Rightarrow> string list" where
  "pending_lines dumps as_json resume_wallet_path selected_address reason =
     (if as_json then
        [dumps (PDict ([(''status'', PStr ''pending''), (''error'', PStr reason)]
           @ (case resume_wallet_path of Some p \<Rightarrow> [(''walletFile'', PStr p)]
              | None \<Rightarrow> [(''resumeHint'', PStr ''rerun the same command without --wallet-file'')])
           @ (case selected_address of Some a \<Rightarrow> [(''address'', PStr a)] | None \<Rightarrow> [])))]
      else [''RLUSD funding pending: '' @ reason,
            case resume_wallet_path of Some p \<Rightarrow> ''Resume wallet file: '' @ p | None \<Rightarrow> ''Resume: rerun the same command without --wallet-file''])"

text \<open>The \<open>except\<close> clauses of \<open>main\<close>.\<close>

definition failure_report :: "(pyval \<Rightarrow> string) \<Rightarrow> bool \<Rightarrow> string option \<Rightarrow> string option \<Rightarrow> exn \<Rightarrow> int \<times> string list" where
  "failure_report dumps as_json resume_wallet_path selected_address e =
     (let ended = (\<lambda>status. if as_json then [dumps (PDict [(''status'', PStr status), (''error'', PStr (str_exn e))])]
                     else [''RLUSD funding '' @ status @ '': '' @ str_exn e]) in
      case e of
        SettlementPendingError _ \<Rightarrow> (3, pending_lines dumps as_json resume_wallet_path selected_address (str_exn e))
      | LiquidityUnavailableError _ \<Rightarrow> (2, ended ''refused'')
      | SpendLimitExceededError _ \<Rightarrow> (2, ended ''refused'')
      | _ \<Rightarrow> (1, ended ''failed''))"


section \<open>The program\<close>

record main_args =
  ma_new_wallet :: bool
  ma_wallet_file :: "string option"
  ma_target_rlusd :: pydec
  ma_max_xrp :: pydec
  ma_slippage_bps :: int
  ma_max_fee_drops :: int
  ma_rpc_url :: "string option"
  ma_json :: bool

text \<open>The endpoint, if it is one of the test network.\<close>

definition checked_endpoint :: "dev_env \<Rightarrow> (string \<Rightarrow> exn + pyval) \<Rightarrow> main_args \<Rightarrow> exn + string" where
  "checked_endpoint E server_info M =
     (if ma_slippage_bps M < 0 \<or> MAX_SLIPPAGE_BPS < ma_slippage_bps M
        then Inl (FundingError (''--slippage-bps must be between 0 and '' @ show_int MAX_SLIPPAGE_BPS))
      else if ma_max_fee_drops M \<le> 0 then Inl (FundingError ''--max-fee-drops must be positive'')
      else
        rbind (resolve_live_testnet_rpc_url E server_info
          (or_str (or_str (ma_rpc_url M) (te_getenv E XRPL_TESTNET_RPC_URL_ENV)) (Some DEFAULT_FUNDING_RPC_URL))) (\<lambda>rpc_url.
        rbind (probe_rpc_network_id server_info rpc_url) (\<lambda>network_id.
          if network_id \<noteq> TESTNET_NETWORK_ID
            then Inl (FundingError (''refusing XRPL network id '' @ show_int network_id @ ''; this command is Testnet-only''))
          else Inr rpc_url)))"

definition main_wallet :: "dev_env \<Rightarrow> (rat \<Rightarrow> string) \<Rightarrow> main_args \<Rightarrow> string \<Rightarrow> (wallet \<times> string \<times> string) fund_cmd" where
  "main_wallet C stamp M lock_target_path =
     cbind (private_file_lock C (with_name lock_target_path (''.'' @ path_name lock_target_path @ ''.lock''))) (\<lambda>_.
       select_wallet C stamp (ma_new_wallet M) (if ma_new_wallet M then Some lock_target_path else ma_wallet_file M) RLUSD_TESTNET_ISSUER)"

definition fund_and_report :: "dev_env \<Rightarrow> (pyval \<Rightarrow> string) \<Rightarrow> main_args \<Rightarrow> wallet \<Rightarrow> string \<Rightarrow> string \<Rightarrow> (int \<times> string list) fund_cmd" where
  "fund_and_report C dumps M W wallet_path state_path =
     cbind (clift (xrp_to_drops (ma_max_xrp M))) (\<lambda>max_xrp_drops.
       let A = \<lparr>fa_state_path = state_path, fa_wallet_path = wallet_path, fa_issuer = RLUSD_TESTNET_ISSUER,
                fa_target_rlusd = ma_target_rlusd M, fa_max_xrp_drops = max_xrp_drops, fa_slippage_bps = ma_slippage_bps M,
                fa_max_fee_drops = ma_max_fee_drops M\<rparr> in
       cbind (fund_rlusd_wallet C W A) (\<lambda>result.
       cbind (clift (result_lines dumps (ma_json M) A result)) (\<lambda>lines. creturn (0, lines))))"

definition run_with_wallet :: "dev_env \<Rightarrow> (rat \<Rightarrow> string) \<Rightarrow> (pyval \<Rightarrow> string) \<Rightarrow> main_args \<Rightarrow> string \<Rightarrow> (int \<times> string list) fund_cmd" where
  "run_with_wallet C stamp dumps M lock_target_path =
     (let resume = (if ma_new_wallet M \<or> ma_wallet_file M \<noteq> None then Some lock_target_path else None) in
      ctry_else (main_wallet C stamp M lock_target_path)
        (\<lambda>e. creturn (failure_report dumps (ma_json M) resume None e))
        (\<lambda>(W, wallet_path, state_path).
          ctry (fund_and_report C dumps M W wallet_path state_path)
            (\<lambda>e. creturn (failure_report dumps (ma_json M) resume (Some (wl_address W)) e))))"

definition fund_main ::
  "dev_env \<Rightarrow> (string \<Rightarrow> dev_env) \<Rightarrow> (string \<Rightarrow> exn + pyval) \<Rightarrow> (rat \<Rightarrow> string) \<Rightarrow> (pyval \<Rightarrow> string) \<Rightarrow> main_args \<Rightarrow> (int \<times> string list) fund_cmd" where
  "fund_main E client server_info stamp dumps M =
     ctry_else (clift (checked_endpoint E server_info M))
       (\<lambda>e. creturn (failure_report dumps (ma_json M) None None e))
       (\<lambda>rpc_url.
         cbind (case ma_wallet_file M of
             Some f \<Rightarrow> creturn f
           | None \<Rightarrow> if ma_new_wallet M then timestamped_wallet_path stamp else creturn (wallet_cache_path E))
           (run_with_wallet (client rpc_url) stamp dumps M))"

end
