(* ===== verification/FundMainCorrect.thy ===== *)
theory FundMainCorrect
  imports FundMain
begin

text \<open>
  What an exit code of the funding tool stands for: nothing is touched unless the endpoint is one of the test
  network, and 0 means that the ledger behind it reported the target after the last submission.
\<close>

section \<open>A finished funding\<close>

lemma dec_le_not_lt: "dec_le a b = Inr True \<Longrightarrow> dec_lt b a = Inr False"
  by (cases a; cases b) (auto simp: dec_le_def dec_lt_def cmp_int_def min.commute split: if_splits)

text \<open>The ledger reported the balance at some time, and nothing was submitted after that.\<close>

definition reported_last :: "dev_env \<Rightarrow> string \<Rightarrow> string \<Rightarrow> pydec \<Rightarrow> fund_world \<Rightarrow> bool" where
  "reported_last E address issuer balance w' \<longleftrightarrow>
     (\<exists>(w1 :: fund_world) w2 later. get_validated_trustline_balance E address issuer RLUSD_CODE w1 = (Ok balance, w2)
        \<and> dw_log w' = dw_log w2 @ later \<and> list_all (\<lambda>e. \<not> is_submission (fst e)) later)"

definition funded :: "dev_env \<Rightarrow> wallet \<Rightarrow> fund_args \<Rightarrow> funding_result \<Rightarrow> fund_world \<Rightarrow> bool" where
  "funded E W A result w' \<longleftrightarrow>
     reported_last E (wl_address W) (fa_issuer A) (fr_rlusd_balance result) w' \<and> fr_classic_address result = wl_address W
     \<and> dec_lt (fr_rlusd_balance result) (fa_target_rlusd A) = Inr False"

lemma reported_lastI:
  assumes "get_validated_trustline_balance E address issuer RLUSD_CODE w1 = (Ok balance, w2)" and "quiet w2 w'"
  shows "reported_last E address issuer balance w'"
  using assms by (auto simp: reported_last_def quiet_def)

lemma cbind_returned:
  assumes "cbind m f s = (Ok y, s')"
  obtains x s1 where "m s = (Ok x, s1)" and "f x s1 = (Ok y, s')"
  using assms by (cases rule: cbind_cases) auto

lemma clift_returned: "clift v s = (Ok x, s') \<Longrightarrow> v = Inr x \<and> s' = s"
  by (cases v) (simp_all add: clift_def creturn_def craise_def)

lemma funded_result_funded:
  assumes "funded_result E W A starting w = (Ok result, w')"
  shows "funded E W A result w'"
proof -
  from assms obtain final w2 where final: "get_validated_trustline_balance E (wl_address W) (fa_issuer A) RLUSD_CODE w = (Ok final, w2)"
    and rest: "cbind (clift (dec_lt final (fa_target_rlusd A))) (\<lambda>short. if short then craise (FundingError (''conversion validated but RLUSD balance is '' @
       dec_str final @ '', below target '' @ format_f (fa_target_rlusd A)))
     else
       cbind (clift (dec_lt starting final)) (\<lambda>more.
       cbind (get_validated_balance E (wl_address W)) (\<lambda>xrp.
       cbind (cget fw_state) (\<lambda>s.
         creturn \<lparr>fr_status = (if more then ''funded'' else ''ready''), fr_classic_address = wl_address W,
                  fr_xrp_balance_drops = xrp, fr_rlusd_balance = final, fr_transaction_hashes = fs_completed s\<rparr>)))) w2 = (Ok result, w')"
    unfolding funded_result_def by (rule cbind_returned)
  have "calm (cbind (clift (dec_lt starting final)) (\<lambda>more. cbind (get_validated_balance E (wl_address W)) (\<lambda>xrp.
       cbind (cget fw_state) (\<lambda>s. creturn \<lparr>fr_status = (if more then ''funded'' else ''ready''), fr_classic_address = wl_address W,
         fr_xrp_balance_drops = xrp, fr_rlusd_balance = final, fr_transaction_hashes = fs_completed s\<rparr>))))"
    by (intro calm_rules)
  with rest have "quiet w2 w'" and low: "dec_lt final (fa_target_rlusd A) = Inr False"
    by (auto elim!: cbind_returned dest!: clift_returned calmD split: if_splits simp: craise_def)
  moreover have "fr_rlusd_balance result = final" "fr_classic_address result = wl_address W"
    using rest low by (auto elim!: cbind_returned dest!: clift_returned simp: cget_def creturn_def)
  ultimately show ?thesis
    using reported_lastI [OF final] low by (simp add: funded_def)
qed

lemma acquire_funded: "acquire_rlusd E W A starting w = (Ok result, w') \<Longrightarrow> funded E W A result w'"
  unfolding acquire_rlusd_def by (elim cbind_returned) (rule funded_result_funded)

text \<open>A target of zero is refused, so a wallet without a line is never ready.\<close>

lemma ready_funded:
  assumes "ctry (get_validated_trustline_balance E (wl_address W) (fa_issuer A) RLUSD_CODE) (\<lambda>_. creturn (dec_of_int 0)) w = (Ok b, w2)"
    and "check_fund_args A = Inr ()" and "dec_le (fa_target_rlusd A) b = Inr True"
  shows "get_validated_trustline_balance E (wl_address W) (fa_issuer A) RLUSD_CODE w = (Ok b, w2)"
proof -
  have "b \<noteq> dec_of_int 0"
    using assms(2,3) by (auto simp: check_fund_args_def nonpositive_def rbind_eq_Inr split: if_splits)
  then show ?thesis
    using assms(1) by (auto simp: ctry_def creturn_def split: prod.splits outcome.splits)
qed

lemma fund_funded:
  assumes "fund_rlusd_wallet E W A w = (Ok result, w')"
  shows "funded E W A result w'"
proof -
  from assms obtain s w1 b w2 enough where check: "check_fund_args A = Inr ()"
    and b: "ctry (get_validated_trustline_balance E (wl_address W) (fa_issuer A) RLUSD_CODE) (\<lambda>_. creturn (dec_of_int 0)) w1 = (Ok b, w2)"
    and enough: "dec_le (fa_target_rlusd A) b = Inr enough"
    and rest: "(if enough then
       cbind (safe_xrp_balance E (wl_address W)) (\<lambda>xrp.
       cbind (cget fw_state) (\<lambda>s'.
         creturn \<lparr>fr_status = ''ready'', fr_classic_address = wl_address W, fr_xrp_balance_drops = xrp,
                  fr_rlusd_balance = b, fr_transaction_hashes = fs_completed s'\<rparr>))
     else acquire_rlusd E W A b) w2 = (Ok result, w')"
    unfolding fund_rlusd_wallet_def by (elim cbind_returned) (auto dest!: clift_returned)
  show ?thesis
  proof (cases enough)
    case True
    have "calm (cbind (safe_xrp_balance E (wl_address W)) (\<lambda>xrp. cbind (cget fw_state) (\<lambda>s'.
         creturn \<lparr>fr_status = ''ready'', fr_classic_address = wl_address W, fr_xrp_balance_drops = xrp,
                  fr_rlusd_balance = b, fr_transaction_hashes = fs_completed s'\<rparr>)))"
      by (intro calm_rules)
    then have "quiet w2 w'"
      using rest True by (auto dest: calmD)
    moreover have "fr_rlusd_balance result = b" "fr_classic_address result = wl_address W"
      using rest True by (auto elim!: cbind_returned simp: cget_def creturn_def)
    ultimately show ?thesis
      using reported_lastI [OF ready_funded [OF b check]] enough True by (simp add: funded_def dec_le_not_lt)
  next
    case False
    then show ?thesis
      using rest acquire_funded by simp
  qed
qed


section \<open>Exit codes\<close>

lemma failure_code: "fst (failure_report dumps as_json p a e) \<noteq> 0"
  by (simp add: failure_report_def Let_def split: exn.split)

lemma failure_reported: "creturn (failure_report dumps as_json p a e) s = (Ok (code, lines), s') \<Longrightarrow> code \<noteq> 0 \<and> s' = s"
  using failure_code [of dumps as_json p a e] by (auto simp: creturn_def)

lemma checked_endpoint_testnet: "checked_endpoint E server_info M = Inr url \<Longrightarrow> probe_rpc_network_id server_info url = Inr 1"
  by (auto simp: checked_endpoint_def rbind_eq_Inr split: if_splits)

lemma report_funded:
  assumes "fund_and_report C dumps M W p q w = (Ok (code, lines), w')"
  shows "code = 0 \<and> (\<exists>A result. funded C W A result w' \<and> fa_target_rlusd A = ma_target_rlusd M \<and> fa_issuer A = RLUSD_TESTNET_ISSUER
    \<and> result_lines dumps (ma_json M) A result = Inr lines)"
proof -
  from assms obtain A result where "fund_rlusd_wallet C W A w = (Ok result, w')" "code = 0"
    "result_lines dumps (ma_json M) A result = Inr lines" "fa_target_rlusd A = ma_target_rlusd M" "fa_issuer A = RLUSD_TESTNET_ISSUER"
    unfolding fund_and_report_def Let_def by (elim cbind_returned) (fastforce dest!: clift_returned simp: creturn_def)
  then show ?thesis
    using fund_funded by blast
qed

lemma run_funded:
  assumes "run_with_wallet C stamp dumps M p w = (Ok (0, lines), w')"
  shows "\<exists>W A result. funded C W A result w' \<and> fa_target_rlusd A = ma_target_rlusd M \<and> fa_issuer A = RLUSD_TESTNET_ISSUER
    \<and> result_lines dumps (ma_json M) A result = Inr lines"
proof -
  from assms obtain W q s w1 where "ctry (fund_and_report C dumps M W q s) (\<lambda>e. creturn (failure_report dumps (ma_json M)
      (if ma_new_wallet M \<or> ma_wallet_file M \<noteq> None then Some p else None) (Some (wl_address W)) e)) w1 = (Ok (0, lines), w')"
    unfolding run_with_wallet_def Let_def ctry_else_def
    by (auto split: prod.splits outcome.splits dest: failure_reported)
  then have "fund_and_report C dumps M W q s w1 = (Ok (0, lines), w')"
    unfolding ctry_def by (auto split: prod.splits outcome.splits dest: failure_reported)
  then show ?thesis
    using report_funded by blast
qed

text \<open>C14. What an exit code of \<open>python -m devtools.rlusd_fund\<close> stands for. If it is 0, then the endpoint
  answered with the network id of the test network, and the lines that are printed are those of a result whose
  balance is what the ledger behind that endpoint last reported for the wallet in RLUSD of the official issuer, no
  transaction has been submitted since, and it is not below the target of the command line. If the endpoint
  does not pass the checks, nothing has been called or written and the exit code is not 0.\<close>

theorem funding_exit_codes:
  assumes "fund_main E client server_info stamp dumps M w = (Ok (code, lines), w')"
  shows "(code = 0 \<longrightarrow> (\<exists>url (W :: wallet) A result. probe_rpc_network_id server_info url = Inr TESTNET_NETWORK_ID
            \<and> result_lines dumps (ma_json M) A result = Inr lines
            \<and> reported_last (client url) (wl_address W) RLUSD_TESTNET_ISSUER (fr_rlusd_balance result) w'
            \<and> fr_classic_address result = wl_address W
            \<and> dec_lt (fr_rlusd_balance result) (ma_target_rlusd M) = Inr False))
    \<and> ((\<forall>url. checked_endpoint E server_info M \<noteq> Inr url) \<longrightarrow> w' = w \<and> code \<noteq> 0)"
proof (cases "checked_endpoint E server_info M")
  case (Inl e)
  then show ?thesis
    using assms by (auto simp: fund_main_def ctry_else_def clift_def craise_def dest: failure_reported)
next
  case (Inr url)
  then have "cbind (case ma_wallet_file M of Some f \<Rightarrow> creturn f
      | None \<Rightarrow> if ma_new_wallet M then timestamped_wallet_path stamp else creturn (wallet_cache_path E))
      (run_with_wallet (client url) stamp dumps M) w = (Ok (code, lines), w')"
    using assms by (simp add: fund_main_def ctry_else_def clift_def creturn_def)
  then obtain p w1 where run: "run_with_wallet (client url) stamp dumps M p w1 = (Ok (code, lines), w')"
    by (rule cbind_returned)
  show ?thesis
  proof (intro conjI impI)
    assume "code = 0"
    then obtain W A result where "funded (client url) W A result w'" "fa_target_rlusd A = ma_target_rlusd M"
      "fa_issuer A = RLUSD_TESTNET_ISSUER" "result_lines dumps (ma_json M) A result = Inr lines"
      using run_funded run by blast
    then show "\<exists>url (W :: wallet) A result. probe_rpc_network_id server_info url = Inr TESTNET_NETWORK_ID
            \<and> result_lines dumps (ma_json M) A result = Inr lines
            \<and> reported_last (client url) (wl_address W) RLUSD_TESTNET_ISSUER (fr_rlusd_balance result) w'
            \<and> fr_classic_address result = wl_address W
            \<and> dec_lt (fr_rlusd_balance result) (ma_target_rlusd M) = Inr False"
      using checked_endpoint_testnet [OF Inr] by (intro exI [of _ url] exI [of _ W] exI [of _ A] exI [of _ result]) (simp add: funded_def)
  qed (use Inr in simp_all)
qed

section \<open>Witness\<close>

text \<open>A wallet file, and a ledger that reports 12 RLUSD for its address.\<close>

definition funded_ledger :: "dev_call \<Rightarrow> exn + bool \<times> pydict" where
  "funded_ledger call = (case call of
       AccountLines _ \<Rightarrow> Inr (True, [(''lines'', PList [PDict [(''account'', PStr RLUSD_TESTNET_ISSUER), (''currency'', PStr RLUSD_HEX),
         (''balance'', PStr ''12''), (''limit'', PStr ''100000'')]])])
     | _ \<Rightarrow> sample_ledger call)"

definition funded_dev :: "string \<Rightarrow> dev_env" where
  "funded_dev url = sample_dev\<lparr>te_rpc := (\<lambda>_. funded_ledger), te_from_seed := (\<lambda>s. Inr \<lparr>wl_address = ''rW'', wl_seed = Some s\<rparr>)\<rparr>"

definition testnet_info :: "string \<Rightarrow> exn + pyval" where
  "testnet_info url = Inr (PDict [(''result'', PDict [(''status'', PStr ''success''), (''info'', PDict [(''network_id'', PInt 1)])])])"

definition funded_main_args :: main_args where
  "funded_main_args = \<lparr>ma_new_wallet = False, ma_wallet_file = Some ''w'', ma_target_rlusd = DFin False 10 0, ma_max_xrp = DFin False 35 0,
     ma_slippage_bps = 500, ma_max_fee_drops = 100, ma_rpc_url = None, ma_json = True\<rparr>"

definition wallet_on_disk :: stored_file where
  "wallet_on_disk = JsonFile (PDict [(''version'', PInt 1), (''network'', PStr NETWORK), (''classic_address'', PStr ''rW''),
     (''seed'', PStr ''sW''), (''rlusd_issuer'', PStr RLUSD_TESTNET_ISSUER)])"


abbreviation funded_wallet :: wallet where "funded_wallet \<equiv> \<lparr>wl_address = ''rW'', wl_seed = Some ''sW''\<rparr>"

lemma funded_line:
  "line_matches RLUSD_TESTNET_ISSUER RLUSD_CODE (PDict [(''account'', PStr RLUSD_TESTNET_ISSUER), (''currency'', PStr RLUSD_HEX),
         (''balance'', PStr ''12''), (''limit'', PStr ''100000'')]) = Inr True"
  "line_balance (Some (PDict [(''account'', PStr RLUSD_TESTNET_ISSUER), (''currency'', PStr RLUSD_HEX),
         (''balance'', PStr ''12''), (''limit'', PStr ''100000'')])) = Inr (DFin False 12 0)"
  by code_simp+

lemma funded_queries:
  "get_validated_trustline_balance (funded_dev url) a RLUSD_TESTNET_ISSUER RLUSD_CODE w = (Ok (DFin False 12 0), called (AccountLines a) w)"
  "safe_xrp_balance (funded_dev url) a w = (Ok 9000000, called (AccountInfo a) w)"
proof -
  have "dev_request (funded_dev url) call w = (case funded_ledger call of Inl e \<Rightarrow> Raise e | Inr x \<Rightarrow> Ok x, called call w)" for call
    by (simp add: dev_request_def dev_log_def sample_runs called_def funded_dev_def sample_dev_def split: sum.split)
  then show "get_validated_trustline_balance (funded_dev url) a RLUSD_TESTNET_ISSUER RLUSD_CODE w
      = (Ok (DFin False 12 0), called (AccountLines a) w)"
    and "safe_xrp_balance (funded_dev url) a w = (Ok 9000000, called (AccountInfo a) w)"
    by (simp_all add: get_validated_trustline_balance_def get_validated_trustline_def safe_xrp_balance_def get_validated_balance_def
        get_validated_account_root_def funded_ledger_def sample_ledger_def sample_runs trustline_in_def iter_nodes_def dget_default_def
        funded_line vget_default_def vget_def vindex_def dindex_def int_of_val_def py_str_def sample_numerals py_or_def Let_def)
qed

lemma funded_dev_files [simp]: "te_parent (funded_dev url) path = Directory" "te_write (funded_dev url) n = NoFault"
  by (simp_all add: funded_dev_def)

lemma funded_wallet_loads:
  assumes "dw_files w ''w'' = Some wallet_on_disk" and "dw_files w ''.w.lock'' = None"
  shows "\<exists>v. main_wallet (funded_dev url) stamp funded_main_args ''w'' w = (Ok (funded_wallet, ''w'', ''w.funding.json''), v)
    \<and> dw_files v ''w.funding.json'' = dw_files w ''w.funding.json''"
proof -
  have paths: "state_path_for_wallet ''w'' = ''w.funding.json''" "with_name ''w'' (''.'' @ path_name ''w'' @ ''.lock'') = ''.w.lock''"
    by code_simp+
  have payload: "wallet_of_payload (funded_dev url) ''w'' RLUSD_TESTNET_ISSUER (PDict [(''version'', PInt 1), (''network'', PStr NETWORK),
     (''classic_address'', PStr ''rW''), (''seed'', PStr ''sW''), (''rlusd_issuer'', PStr RLUSD_TESTNET_ISSUER)]) = Inr funded_wallet"
    by code_simp
  show ?thesis
    unfolding main_wallet_def paths using assms
    by (simp add: private_file_lock_def private_directory_def reject_symlink_def read_file_def open_lock_file_def select_wallet_def
        load_wallet_file_def wallet_on_disk_def payload paths sample_runs funded_main_args_def)
qed

lemma funded_main_run:
  "\<exists>v. fund_main sample_dev funded_dev testnet_info (\<lambda>_. []) (\<lambda>_. ''{}'') funded_main_args (sample_fund_world [''w'' \<mapsto> wallet_on_disk])
     = (Ok (0, [''{}'']), v)"
proof -
  let ?w = "sample_fund_world [''w'' \<mapsto> wallet_on_disk]"
  let ?A = "\<lparr>fa_state_path = ''w.funding.json'', fa_wallet_path = ''w'', fa_issuer = RLUSD_TESTNET_ISSUER, fa_target_rlusd = DFin False 10 0,
    fa_max_xrp_drops = 35000000, fa_slippage_bps = 500, fa_max_fee_drops = 100\<rparr>"
  have endpoint: "checked_endpoint sample_dev testnet_info funded_main_args = Inr DEFAULT_FUNDING_RPC_URL"
    by code_simp
  have drops: "xrp_to_drops (DFin False 35 0) = Inr 35000000"
    by (simp add: xrp_to_drops_def dec_of_int_def dec_fix_def round_coeff_def whole_number_def signed_def show_nat.simps)
  have check: "check_fund_args ?A = Inr ()"
    by code_simp
  have enough: "dec_le (DFin False 10 0) (DFin False 12 0) = Inr True"
    by code_simp
  have texts: "decimal_text (DFin False 12 0) = Inr ''12''" "decimal_text (DFin False 10 0) = Inr ''10''"
    by code_simp+
  have "dw_files ?w = [''w'' \<mapsto> wallet_on_disk]"
    by (simp add: sample_fund_world_def)
  then obtain u where loaded: "main_wallet (funded_dev DEFAULT_FUNDING_RPC_URL) (\<lambda>_. []) funded_main_args ''w'' ?w
      = (Ok (funded_wallet, ''w'', ''w.funding.json''), u)" "dw_files u ''w.funding.json'' = None"
    using funded_wallet_loads [of ?w "DEFAULT_FUNDING_RPC_URL" "\<lambda>_. []"] by auto
  have args: "ma_wallet_file funded_main_args = Some ''w''" "ma_target_rlusd funded_main_args = DFin False 10 0"
    "ma_max_xrp funded_main_args = DFin False 35 0" "ma_slippage_bps funded_main_args = 500" "ma_max_fee_drops funded_main_args = 100"
    "ma_json funded_main_args"
    by (simp_all add: funded_main_args_def)
  have "\<exists>v. fund_rlusd_wallet (funded_dev DEFAULT_FUNDING_RPC_URL) funded_wallet ?A u = (Ok \<lparr>fr_status = ''ready'', fr_classic_address = ''rW'',
      fr_xrp_balance_drops = 9000000, fr_rlusd_balance = DFin False 12 0, fr_transaction_hashes = []\<rparr>, v)"
    using loaded(2) by (simp add: fund_rlusd_wallet_def check load_funding_state_def reject_symlink_def read_file_def
        fresh_state_def funded_queries enough sample_runs)
  then have "\<exists>v. fund_and_report (funded_dev DEFAULT_FUNDING_RPC_URL) (\<lambda>_. ''{}'') funded_main_args funded_wallet ''w'' ''w.funding.json'' u
      = (Ok (0, [''{}'']), v)"
    by (auto simp: fund_and_report_def args drops Let_def result_lines_def result_payload_def texts sample_runs)
  then show ?thesis
    using loaded(1) by (auto simp: fund_main_def endpoint args run_with_wallet_def Let_def sample_runs)
qed

theorem funding_exit_codes_witness:
  "\<exists>v (W :: wallet) balance. fund_main sample_dev funded_dev testnet_info (\<lambda>_. []) (\<lambda>_. ''{}'') funded_main_args
       (sample_fund_world [''w'' \<mapsto> wallet_on_disk]) = (Ok (0, [''{}'']), v)
     \<and> (\<exists>url. reported_last (funded_dev url) (wl_address W) RLUSD_TESTNET_ISSUER balance v) \<and> dec_lt balance (DFin False 10 0) = Inr False"
proof -
  obtain v where run: "fund_main sample_dev funded_dev testnet_info (\<lambda>_. []) (\<lambda>_. ''{}'') funded_main_args
       (sample_fund_world [''w'' \<mapsto> wallet_on_disk]) = (Ok (0, [''{}'']), v)"
    using funded_main_run by blast
  then show ?thesis
    using funding_exit_codes [OF run] by (auto simp: funded_main_args_def)
qed

end
