(* ===== verification/TopupMain.thy ===== *)
theory TopupMain
  imports ClaimTopup
begin

text \<open>
  The command lines of \<open>src/devtools/rlusd_topup.py\<close> and \<open>src/devtools/usdc_topup.py\<close> after \<open>argparse\<close>: the
  endpoint, the wallets, the claim, and the exit code with the lines that are printed. \<open>client\<close> is
  \<open>JsonRpcClient\<close>: the ledger behind an endpoint.
\<close>

section \<open>What is printed\<close>

definition shown_option :: "string option \<Rightarrow> string" where
  "shown_option x = (case x of None \<Rightarrow> ''None'' | Some s \<Rightarrow> s)"

definition when_positive :: "pydec \<Rightarrow> string list \<Rightarrow> exn + string list" where
  "when_positive d lines = rbind (dec_lt (dec_of_int 0) d) (\<lambda>positive. Inr (if positive then lines else []))"

text \<open>The lines that the two tools share.\<close>

definition topup_lines :: "string \<Rightarrow> topup_result \<Rightarrow> exn + string list" where
  "topup_lines code result =
     rbind (when_positive (tu_swept_amount result)
              [''Recovered '' @ dec_str (tu_swept_amount result) @ '' '' @ code @ '' into the accumulator wallet.'']) (\<lambda>recovered.
     rbind (when_positive (tu_bridged_amount result)
              [''Funded '' @ dec_str (tu_bridged_amount result) @ '' '' @ code @ '' into the buyer wallet.'']) (\<lambda>funded.
       Inr ([tu_message result, ''Claim state: '' @ tu_claim_state_path result, ''Canonical wallet: '' @ tu_canonical_wallet_address result]
            @ (case tu_buyer_wallet_address result of None \<Rightarrow> [] | Some a \<Rightarrow> [''Buyer wallet: '' @ a])
            @ recovered @ funded
            @ (if 0 < tu_deleted_wallets result
               then [''Deleted '' @ show_int (tu_deleted_wallets result) @ '' disposable claim wallet(s).''] else []))))"

definition claim_wallet_line :: "string \<Rightarrow> string" where
  "claim_wallet_line address = ''Disposable claim wallet: '' @ address"

definition claim_window_line :: "dev_env \<Rightarrow> rat \<Rightarrow> string" where
  "claim_window_line E t = ''Next local claim window: '' @ te_iso E t"

definition rlusd_topup_lines :: "dev_env \<Rightarrow> topup_result \<Rightarrow> exn + string list" where
  "rlusd_topup_lines E result =
     rbind (topup_lines RLUSD_CODE result) (\<lambda>lines.
     rbind (if tu_status result = ''claimed'' then
              (case tu_cooldown_until result of
                 None \<Rightarrow> Inl (AttributeError ''isoformat'')
               | Some t \<Rightarrow> Inr [''Claim tx hash: '' @ shown_option (tu_claim_tx_hash result),
                   claim_wallet_line (shown_option (tu_created_claim_wallet_address result)), claim_window_line E t])
            else (case tu_created_claim_wallet_address result of
                 Some a \<Rightarrow> Inr [claim_wallet_line a]
               | None \<Rightarrow> Inr (case tu_cooldown_until result of Some t \<Rightarrow> [claim_window_line E t] | None \<Rightarrow> []))) (\<lambda>ends.
       Inr (lines @ ends)))"

definition usdc_topup_lines :: "dev_env \<Rightarrow> topup_result \<Rightarrow> exn + string list" where
  "usdc_topup_lines E result =
     rbind (topup_lines USDC_CODE result) (\<lambda>lines.
       Inr (lines
            @ (case tu_created_claim_wallet_address result of Some a \<Rightarrow> [claim_wallet_line a] | None \<Rightarrow> [])
            @ (case tu_cooldown_until result of Some t \<Rightarrow> [claim_window_line E t] | None \<Rightarrow> [])))"


section \<open>The programs\<close>

text \<open>The clock is read when the claim starts, after the wallets are there.\<close>

definition rlusd_topup_main ::
  "dev_env \<Rightarrow> (string \<Rightarrow> dev_env) \<Rightarrow> (string \<Rightarrow> exn + pyval) \<Rightarrow> string option \<Rightarrow> (int \<times> string list) claim_cmd" where
  "rlusd_topup_main E client server_info given_rpc_url =
     ctry_else
       (cbind (clift (resolve_live_testnet_rpc_url E server_info given_rpc_url)) (\<lambda>url.
        cbind (get_demo_wallet_set (client url)) (\<lambda>wallets.
        cbind dev_now (\<lambda>now.
          claim_rlusd_topup (client url) (Demo wallets) (default_rlusd_issuer E) (te_getenv E TRYRLUSD_SESSION_TOKEN_ENV) now
            (claim_state_path E None)))))
       (\<lambda>e. creturn (1, [''RLUSD top-up failed: '' @ str_exn e]))
       (\<lambda>result. clift (rbind (rlusd_topup_lines E result) (\<lambda>lines. Inr (0, lines))))"

definition usdc_topup_main ::
  "dev_env \<Rightarrow> (string \<Rightarrow> dev_env) \<Rightarrow> (string \<Rightarrow> exn + pyval) \<Rightarrow> string option \<Rightarrow> (int \<times> string list) claim_cmd" where
  "usdc_topup_main E client server_info given_rpc_url =
     ctry_else
       (cbind (clift (resolve_live_testnet_rpc_url E server_info given_rpc_url)) (\<lambda>url.
        cbind (get_demo_wallet_set (client url)) (\<lambda>wallets.
        cbind dev_now (\<lambda>now.
          prepare_usdc_topup (client url) (Demo wallets) (default_usdc_issuer E) now (usdc_claim_state_path E None)))))
       (\<lambda>e. creturn (1, [''USDC top-up failed: '' @ str_exn e]))
       (\<lambda>result. clift (rbind (usdc_topup_lines E result) (\<lambda>lines. Inr (0, lines))))"

end
