(* ===== verification/PayerCli.thy ===== *)
theory PayerCli
  imports PayerProxy
begin

text \<open>
  The commands of \<open>xrpl_x402_payer/cli.py\<close> after typer has read the arguments, and \<open>devtools/demo_trace.py\<close>,
  which pays one request and prints what happened. The result of a command is the text it prints.
\<close>

section \<open>The commands of the payer\<close>

definition cli_pay ::
  "payer_env \<Rightarrow> (string \<Rightarrow> exn + signer) \<Rightarrow> (string \<Rightarrow> string) \<Rightarrow> (receipt_record \<Rightarrow> pydict) \<Rightarrow> string \<Rightarrow> string option \<Rightarrow> string option
     \<Rightarrow> string option \<Rightarrow> bool \<Rightarrow> string payer_cmd" where
  "cli_pay E build decode dump url asset issuer max_spend dry_run =
     cbind (pay_with_x402 E build None None None (url_args url asset issuer max_spend dry_run)) (\<lambda>result.
       creturn (format_pay_result decode dump result))"

text \<open>\<open>run_proxy\<close> until the server of the proxy takes over: its payer and what it passes requests to.\<close>

definition run_proxy ::
  "(unit \<Rightarrow> exn + signer) \<Rightarrow> string \<Rightarrow> string option \<Rightarrow> string option \<Rightarrow> string option \<Rightarrow> bool \<Rightarrow> exn + payer \<times> proxy_config" where
  "run_proxy signer_from_environment target_base_url asset issuer max_spend dry_run =
     rbind (proxy_payer signer_from_environment None dry_run) (\<lambda>A.
       Inr (A, \<lparr>pf_target_base_url = target_base_url, pf_asset = asset, pf_issuer = issuer, pf_max_spend = max_spend,
                pf_dry_run = dry_run\<rparr>))"

text \<open>A line of a receipt; a key that its dump does not have is an error.\<close>

definition item :: "pyval \<Rightarrow> string \<Rightarrow> exn + pyval" where
  "item v k = (case v of
       PDict d \<Rightarrow> (case map_of d k of Some x \<Rightarrow> Inr x | None \<Rightarrow> Inl (KeyError k))
     | _ \<Rightarrow> Inl (TypeError ''not subscriptable''))"

definition receipt_issuer :: "pyval \<Rightarrow> pyval" where
  "receipt_issuer accepted = (case accepted of
       PDict d \<Rightarrow> (case dget d ''extra'' of PDict x \<Rightarrow> dget x ''issuer'' | _ \<Rightarrow> PNone)
     | _ \<Rightarrow> PNone)"

definition receipt_line :: "pydict \<Rightarrow> exn + string" where
  "receipt_line receipt =
     rbind (item (PDict receipt) ''accepted'') (\<lambda>accepted.
     rbind (item (PDict receipt) ''settlement'') (\<lambda>settlement.
     rbind (item accepted ''asset'') (\<lambda>asset.
     rbind (item (PDict receipt) ''url'') (\<lambda>url.
     rbind (item accepted ''amount'') (\<lambda>amount.
     rbind (item settlement ''transaction'') (\<lambda>transaction.
     rbind (item (PDict receipt) ''state'') (\<lambda>state.
       let issuer = receipt_issuer accepted;
           asset_label = (if truthy issuer then py_str asset @ '':'' @ py_str issuer else py_str asset) in
       Inr (py_str url @ '' -> '' @ py_str amount @ '' '' @ asset_label @ '' ('' @ py_str transaction @ '') ['' @ py_str state @ '']''))))))))"

definition cli_receipts :: "(receipt_record \<Rightarrow> pydict) \<Rightarrow> int \<Rightarrow> journal \<Rightarrow> exn + string list" where
  "cli_receipts dump limit j =
     (let receipts = get_receipts dump limit j in
      if receipts = [] then Inr [''No receipts recorded yet.''] else map_exn receipt_line receipts)"


definition cli_budget :: "(string \<Rightarrow> string option) \<Rightarrow> string \<Rightarrow> string option \<Rightarrow> journal \<Rightarrow> exn + string" where
  "cli_budget getenv asset issuer j =
     rbind (normalize_currency_code asset) (\<lambda>code.
     rbind (budget_status getenv asset issuer None None j) (\<lambda>summary.
       Inr (json_pretty 0 (PDict
         [(''network'', PStr (case getenv ''XRPL_NETWORK'' of Some (c # cs) \<Rightarrow> c # cs | _ \<Rightarrow> DEFAULT_NETWORK)),
          (''asset'', PStr code), (''issuer'', opt_str_value issuer), (''spent'', PStr (bu_spent summary)),
          (''max_spend'', opt_str_value (bu_max_spend summary)), (''remaining'', opt_str_value (bu_remaining summary))]))))"

text \<open>\<open>main\<close> of the MCP module is an argument: \<open>serve\<close>.\<close>

definition cli_mcp :: "exn + unit \<Rightarrow> bool \<Rightarrow> exn + unit" where
  "cli_mcp serve stdio = (if stdio then serve else Inl (ClientError ''Only stdio transport is supported in this release.''))"

text \<open>The skill that comes with the package is copied into a directory of the user; the state is the files and their content.\<close>

definition skill_install ::
  "string \<Rightarrow> string \<Rightarrow> (string \<Rightarrow> string) \<Rightarrow> string option \<Rightarrow> (string \<rightharpoonup> string, string) cmd" where
  "skill_install package_dir home expanduser destination = (\<lambda>files.
     let source_path = package_dir @ ''/skills/xrpl-x402-payer/SKILL.md'';
         target_dir = (case destination of Some d \<Rightarrow> expanduser d | None \<Rightarrow> home @ ''/.agents/skills/xrpl-x402-payer'');
         target = target_dir @ ''/SKILL.md'' in
     case files source_path of
       None \<Rightarrow> (Raise (OSError (''No such file or directory: '' @ source_path)), files)
     | Some content \<Rightarrow> (Ok (''Installed skill to '' @ target), files(target \<mapsto> content)))"


section \<open>The trace of a payment\<close>

definition stripped_env :: "(string \<Rightarrow> string option) \<Rightarrow> string \<Rightarrow> string option" where
  "stripped_env getenv key =
     (let v = strip (case getenv key of None \<Rightarrow> [] | Some x \<Rightarrow> x) in if v = [] then None else Some v)"

text \<open>The dumps of the two models of the SDK leave out the fields that are none.\<close>

definition trace_summary ::
  "(string \<Rightarrow> string) \<Rightarrow> (payment_requirements \<Rightarrow> pydict) \<Rightarrow> (settle_response \<Rightarrow> pydict) \<Rightarrow> pay_result \<Rightarrow> pyval" where
  "trace_summary decode accepted_dump settle_dump result =
     PDict [(''statusCode'', PInt (res_status_code result)), (''paid'', PBool (res_paid result)),
            (''pending'', PBool (res_pending result)), (''body'', PStr (decode (res_body result))),
            (''accepted'', case res_accepted result of None \<Rightarrow> PNone | Some r \<Rightarrow> PDict (accepted_dump r)),
            (''settlement'', case res_payment_response result of None \<Rightarrow> PNone | Some s \<Rightarrow> PDict (settle_dump s))]"

definition demo_trace_main ::
  "payer_env \<Rightarrow> (string \<Rightarrow> string option) \<Rightarrow> (string \<Rightarrow> exn + signer) \<Rightarrow> (string \<Rightarrow> string) \<Rightarrow> (payment_requirements \<Rightarrow> pydict)
     \<Rightarrow> (settle_response \<Rightarrow> pydict) \<Rightarrow> string payer_cmd" where
  "demo_trace_main E getenv build decode accepted_dump settle_dump =
     (let url = (case getenv ''TARGET_URL'' of None \<Rightarrow> ''http://127.0.0.1:8010/premium'' | Some u \<Rightarrow> u) in
      cbind (pay_with_x402 E build None None None
               (url_args url (stripped_env getenv ''PAYMENT_ASSET'') (stripped_env getenv ''PAYMENT_ASSET_ISSUER'')
                  (stripped_env getenv ''PAYMENT_MAX_SPEND'') False)) (\<lambda>result.
        creturn (json_pretty 0 (trace_summary decode accepted_dump settle_dump result))))"

end
