(* ===== verification/Examples.thy ===== *)
theory Examples
  imports MiddlewareMcp ClientTransport Payer
begin

text \<open>
  The programs under \<open>src/examples\<close>: a merchant and a paid tool that use the middleware, a buyer and an agent
  that use the client and the payer. What they take from the environment of the process and hand to the
  packages is modelled; the servers that run them are FastAPI, FastMCP and httpx.
\<close>

definition env_or :: "(string \<Rightarrow> string option) \<Rightarrow> string \<Rightarrow> string \<Rightarrow> string" where
  "env_or getenv key missing = (case getenv key of None \<Rightarrow> missing | Some v \<Rightarrow> v)"

text \<open>\<open>os.getenv(key, "").strip() or None\<close>.\<close>

definition env_set :: "(string \<Rightarrow> string option) \<Rightarrow> string \<Rightarrow> string option" where
  "env_set getenv key = (let v = strip (env_or getenv key []) in if v = [] then None else Some v)"


section \<open>The merchant\<close>

abbreviation DEFAULT_MERCHANT_XRPL_ADDRESS :: string where
  "DEFAULT_MERCHANT_XRPL_ADDRESS \<equiv> ''rPT1Sjq2YGrBMTttX4GZHjKu9dyfzbpAYe''"

definition premium_terms :: "(string \<Rightarrow> string option) \<Rightarrow> payment_terms" where
  "premium_terms getenv =
     \<lparr>pt_pay_to = env_or getenv ''MERCHANT_XRPL_ADDRESS'' DEFAULT_MERCHANT_XRPL_ADDRESS, pt_network = env_or getenv ''XRPL_NETWORK'' ''xrpl:1'',
      pt_amount = None, pt_xrp_drops = None, pt_asset = ''XRP'', pt_issuer = None, pt_max_timeout_seconds = 60,
      pt_asset_transfer_method = ''sequence'', pt_invoice_id = None, pt_destination_tag = None,
      pt_resource = Some ''https://merchant.example/premium'', pt_description = Some ''One premium XRPL x402 request'',
      pt_mime_type = ''application/json'', pt_service_name = Some ''XRPL x402 merchant'', pt_tags = Some [''xrpl'', ''premium''],
      pt_icon_url = Some ''https://xrpl.org/assets/favicon-32x32.png'', pt_extensions = None\<rparr>"

definition build_premium_route_config :: "(string \<Rightarrow> string option) \<Rightarrow> exn + route_config" where
  "build_premium_route_config getenv =
     (let named = upper (strip (env_or getenv ''PRICE_ASSET_CODE'' ''XRP'')); asset = (if named = [] then ''XRP'' else named);
          issuer = env_set getenv ''PRICE_ASSET_ISSUER''; terms = premium_terms getenv in
      if asset = ''XRP'' then
        (if issuer \<noteq> None then Inl (RuntimeError ''XRP pricing must not configure an issuer'')
         else rbind (int_of_str (env_or getenv ''PRICE_DROPS'' ''1000'')) (\<lambda>drops.
           require_payment (terms\<lparr>pt_xrp_drops := Some drops\<rparr>)))
      else (case (env_set getenv ''PRICE_ASSET_AMOUNT'', issuer) of
          (Some amount, Some i) \<Rightarrow> require_payment (terms\<lparr>pt_amount := Some amount, pt_asset := asset, pt_issuer := Some i\<rparr>)
        | _ \<Rightarrow> Inl (RuntimeError ''IOU pricing requires PRICE_ASSET_AMOUNT and PRICE_ASSET_ISSUER'')))"

text \<open>The routes behind the middleware, the endpoint and token of the facilitator unless a client for it is given, and
  what the application answers.\<close>

definition merchant_app :: "(string \<Rightarrow> string option) \<Rightarrow> bool \<Rightarrow> exn + (string \<times> route_config) list \<times> (string \<times> string) option" where
  "merchant_app getenv own_facilitator_client =
     rbind (build_premium_route_config getenv) (\<lambda>route.
       Inr ([(''GET /premium'', route)],
            if own_facilitator_client then None
            else Some (env_or getenv ''FACILITATOR_URL'' ''http://127.0.0.1:8000'',
                       env_or getenv ''FACILITATOR_TOKEN'' ''replace-with-your-facilitator-token'')))"

definition merchant_answer :: "string \<Rightarrow> pydict option" where
  "merchant_answer path =
     (if path = ''/health'' then Some [(''status'', PStr ''ok'')]
      else if path = ''/premium'' then Some [(''message'', PStr ''premium content unlocked'')]
      else None)"


section \<open>The paid tool\<close>

text \<open>\<open>declaration\<close> and \<open>discovery\<close> are the extensions that the SDK declares; \<open>R\<close> is the store at \<open>REDIS_URL\<close>.\<close>

definition report_requirements :: "(string \<Rightarrow> string option) \<Rightarrow> string \<Rightarrow> payment_requirements" where
  "report_requirements getenv merchant =
     \<lparr>r_scheme = ''exact'', r_network = env_or getenv ''XRPL_NETWORK'' ''xrpl:1'', r_asset = ''XRP'', r_amount = ''1000'', r_pay_to = merchant,
      r_max_timeout_seconds = 60, r_extra = Some [(''areFeesSponsored'', PBool False), (''assetTransferMethod'', PStr ''sequence'')]\<rparr>"

definition report_resource :: pydict where
  "report_resource =
     [(''url'', PStr ''mcp://merchant/generate_report''), (''description'', PStr ''Generate a paid report''),
      (''mimeType'', PStr ''application/json''), (''serviceName'', PStr ''XRPL reports''), (''tags'', PList [PStr ''xrpl'', PStr ''report''])]"

definition report_wrapper ::
  "(string \<Rightarrow> string option) \<Rightarrow> ext \<Rightarrow> pyval \<Rightarrow> pydict \<Rightarrow> response_store \<Rightarrow> (settle_response \<Rightarrow> pydict) \<Rightarrow> exn + tool_wrapper" where
  "report_wrapper getenv X declaration discovery R settle_dump =
     rbind (case getenv ''FACILITATOR_TOKEN'' of None \<Rightarrow> Inl (KeyError ''FACILITATOR_TOKEN'') | Some t \<Rightarrow> build_facilitator_client t) (\<lambda>_.
       case getenv ''MERCHANT_XRPL_ADDRESS'' of
         None \<Rightarrow> Inl (KeyError ''MERCHANT_XRPL_ADDRESS'')
       | Some merchant \<Rightarrow> Inr
           \<lparr>tq_ext = X, tq_declaration = declaration, tq_accepts = [report_requirements getenv merchant], tq_resource = Some report_resource,
            tq_extensions = Some discovery, tq_non_idempotent = True, tq_response_store = Some R, tq_settle_dump = settle_dump\<rparr>)"

definition generate_report :: "string \<Rightarrow> pydict" where
  "generate_report topic = [(''topic'', PStr topic), (''report'', PStr (''Validated paid report about '' @ topic))]"


section \<open>The buyer\<close>

text \<open>The seed, the endpoint and the network of the signer.\<close>

definition buyer_signer_from_env ::
  "(string \<Rightarrow> string option) \<Rightarrow> (string \<Rightarrow> exn + pyval) \<Rightarrow> exn + string \<times> string \<times> string" where
  "buyer_signer_from_env getenv server_info =
     (case env_set getenv ''XRPL_WALLET_SEED'' of
        None \<Rightarrow> Inl (RuntimeError ''XRPL_WALLET_SEED is required'')
      | Some seed \<Rightarrow>
          let network = env_or getenv ''XRPL_NETWORK'' ''xrpl:1'' in
          rbind (case env_set getenv ''XRPL_RPC_URL'' of
              Some url \<Rightarrow> Inr url
            | None \<Rightarrow> if network = ''xrpl:1'' then resolve_testnet_rpc_url server_info None PUBLIC_TESTNET_RPC_URLS
                else Inr ''https://s1.ripple.com:51234'') (\<lambda>rpc_url.
            Inr (seed, rpc_url, network)))"

definition asset_limits_from_env :: "(string \<Rightarrow> string option) \<Rightarrow> string \<Rightarrow> exn + spend_limit list option" where
  "asset_limits_from_env getenv network = (case env_set getenv ''PAYMENT_ASSET'' of
       None \<Rightarrow> Inr None
     | Some asset \<Rightarrow> (case env_set getenv ''PAYMENT_MAX_SPEND'' of
           None \<Rightarrow> Inl (RuntimeError ''Explicit PAYMENT_ASSET requires PAYMENT_MAX_SPEND'')
         | Some cap \<Rightarrow>
             rbind (check_limit \<lparr>sl_network = network, sl_asset = asset, sl_max_amount = cap, sl_issuer = env_set getenv ''PAYMENT_ASSET_ISSUER''\<rparr>)
               (\<lambda>limit. Inr (Some [limit]))))"

text \<open>The paying client of a buyer and the address it asks; \<open>network\<close> is the one of the signer.\<close>

definition fetch_paid_resource ::
  "(string \<Rightarrow> string option) \<Rightarrow> signer \<Rightarrow> string \<Rightarrow> string option \<Rightarrow> exn + sdk_client \<times> string" where
  "fetch_paid_resource getenv S network target_url =
     rbind (asset_limits_from_env getenv network) (\<lambda>limits.
     rbind (wrap_httpx_with_xrpl_payment S None
         (if limits = None then Some (PDict [(''max_amount_per_payment'', PStr ''$1'')]) else None) limits) (\<lambda>client.
       Inr (client, case or_str target_url (Some (env_or getenv ''TARGET_URL'' ''http://127.0.0.1:8010/premium'')) of
              Some url \<Rightarrow> url | None \<Rightarrow> [])))"


section \<open>The agent\<close>

definition sse_url_of :: "string \<Rightarrow> string" where
  "sse_url_of server_url =
     (let url = rstrip_char (CHR ''/'') server_url in if starts_with (rev ''/sse'') (rev url) then url else url @ ''/sse'')"

definition agent_recovery_scope :: "(string \<Rightarrow> string option) \<Rightarrow> string" where
  "agent_recovery_scope getenv =
     env_or getenv ''MCP_SERVER_URL'' ''http://127.0.0.1:4022'' @ ''|principal:'' @ env_or getenv ''MCP_RECOVERY_PRINCIPAL'' ''local-example-user''"

definition agent_headers :: "(string \<Rightarrow> string option) \<Rightarrow> (string \<times> string) list option" where
  "agent_headers getenv = map_option (\<lambda>token. [(''Authorization'', ''Bearer '' @ token)]) (env_set getenv ''MCP_AUTH_TOKEN'')"

definition agent_limit :: "(string \<Rightarrow> string option) \<Rightarrow> string \<Rightarrow> exn + spend_limit" where
  "agent_limit getenv network =
     check_limit \<lparr>sl_network = network, sl_asset = ''XRP'', sl_max_amount = env_or getenv ''PAYMENT_MAX_SPEND'' ''1000'', sl_issuer = None\<rparr>"

end
