(* ===== verification/Spec2Isabelle.thy ===== *)
theory Spec2Isabelle
  imports ClientCorrect ClientTransport Spend PayerCorrect PayerMcpCorrect PayerProxy SettleCorrect SettleShared Config ApiCorrect ApiReplay
    ApiDiscovery MiddlewareCorrect MiddlewareMcpCorrect ServerCorrect FundCorrect ClaimCorrect ClaimDelete
    DemoCorrect RebalanceCorrect FundMainCorrect TopupMain PayerCli Examples
begin

text \<open>
  A verification of the x402 payment stack for the XRP Ledger (XRPL).

  \<^bold>\<open>The program.\<close> A client asks a server for a resource and is answered 402 with payment
  requirements; it signs an XRPL payment that satisfies them, without submitting it, and repeats the
  request with the signed payload; the server has a facilitator verify the payload and settle it, that
  is, submit the transaction and wait for its validation; then the client gets the resource. The
  packages under \<open>src/packages\<close>:

  \<^item> \<open>core\<close>: assets and currency codes, wire models, the shape of requirements, fingerprints.
  \<^item> \<open>client\<close>: the signer, spend limits, the transport that pays.
  \<^item> \<open>payer\<close>: paid requests with a journal that survives crashes and is shared by processes, paid MCP
    tool calls, a proxy that pays.
  \<^item> \<open>middleware\<close>: the server's hooks, its store of responses, paid MCP tools.
  \<^item> \<open>facilitator\<close>: verification and settlement, the store of settlements, payment identifiers, the
    gateway's authentication, the discovery catalog, the HTTP application.

  Under \<open>src/devtools\<close> are tools for the test network: one acquires test tokens and keeps a journal of the
  transaction in flight, one claims them from faucets through disposable wallets that it tracks in a
  file, and a cache holds the wallets of the demo.

  \<^bold>\<open>Conventions.\<close> An operation that may raise is a sum \<open>exn + 'a\<close>; one with effects is a command
  \<open>('s, 'a) cmd = 's \<Rightarrow> 'a outcome \<times> 's\<close> that ends with \<open>Ok\<close>, \<open>Raise\<close> or, where a loop has no bound,
  \<open>Diverge\<close> (theory \<open>Prelude\<close>: \<open>cbind\<close> is sequencing, \<open>ctry\<close> and \<open>ctry_else\<close> are \<open>try\<close> with \<open>except\<close>
  and \<open>else\<close>, \<open>clift\<close> embeds a pure step). JSON values and dynamically typed Python values are the
  datatype \<open>pyval\<close>, dictionaries are association lists, \<open>Decimal\<close> is sign, coefficient and exponent with
  the arithmetic of the default context (28 digits). Integers are unbounded as in Python; the words of
  the ledger (a 160-bit currency code, 32-bit tags) are kept as the digits the code handles. Code that
  is not in the repository is an argument in a record of the component's environment: the XRPL client
  and codec, hashing, signing, HTTP, Redis, the x402 SDK, Starlette, pydantic's parse of numbers in
  prices, dates. Where it can change its mind, such an argument receives the history of the calls made
  so far or the moment of the call; other processes and workers are arguments that may act, and let time
  pass, before every command of a component on a shared store: before each Redis command, each
  operation on the journal and on the settlement store, and before each sending of a paid request or
  tool call, which has no lock around it.

  \<^bold>\<open>Theories.\<close> Each component has one theory of definitions; theorems that need much of their own are
  in a theory ending in \<open>Correct\<close>.

  \<^item> \<open>Prelude\<close>: strings, values, commands, proof collections (\<open>wp_simps\<close>, \<open>keeps_rules\<close>, \<open>emits_rules\<close>,
    \<open>returns_rules\<close>, \<open>advances_rules\<close>, \<open>run_simps\<close>, \<open>res_simps\<close>). \<open>PyDecimal\<close>, \<open>Numerals\<close>, \<open>Base64\<close>:
    \<open>decimal\<close>, printed numbers, \<open>base64\<close>.
  \<^item> \<open>Assets\<close> (\<open>assets.py\<close>), \<open>Protocol\<close> (\<open>models.py\<close>, \<open>helpers.py\<close>): codes, default assets, payload and
    extra models, \<open>validate_requirements_shape\<close>, \<open>compare_decimal_strings\<close>, fingerprints.
  \<^item> \<open>SettlementStore\<close> (\<open>replay_store.py\<close>): the locale \<open>settlement_store\<close> states what a store promises:
    a reservation binds a hash to a fingerprint, an update never lowers the rank of a state. It is
    interpreted for the in-memory store (\<open>mem\<close>) and for the Redis store with its Lua script (\<open>red\<close>);
    \<open>redis_refines_memory\<close> relates the two.
  \<^item> \<open>FacilitatorVerify\<close>, \<open>FacilitatorSettle\<close> (\<open>xrpl_service.py\<close>): \<open>verify\<close> and \<open>settle\<close> with every check in
    the order of the code. \<open>VerifyCorrect\<close>: what an accepted payment satisfies, and that verification
    ends. \<open>SettleCorrect\<close>, proved in the locale and used for the interpretations: success only on the
    ledger's confirmation, failure only on its refutation, no rebinding of a hash. \<open>SettleShared\<close>: several
    workers on one Redis, whose store is the history of all their commands and of the passing of time;
    two submissions of one transaction are separated by a recorded outcome and its whole time to live.
  \<^item> \<open>Config\<close> (\<open>config.py\<close>), \<open>GatewayAuth\<close> (\<open>gateway_auth.py\<close>), \<open>Redis\<close> (the commands of Redis that the
    stores send), \<open>Idempotency\<close> (\<open>idempotency.py\<close>), \<open>Catalog\<close> (\<open>catalog.py\<close>), \<open>FacilitatorApi\<close>
    (\<open>factory.py\<close>). \<open>ApiCorrect\<close>, \<open>ApiReplay\<close>, \<open>ApiDiscovery\<close>: authentication, body limits, canonical
    bodies, replay of final answers, enumeration by cursors. The locale \<open>exclusive_binding\<close> in \<open>Redis\<close>
    states that a key is bound once per lifetime whatever others do; it is interpreted for the payment
    identifiers (\<open>ids\<close>), for the response store (\<open>responses\<close>) and for the stored answers of the settle
    endpoint (\<open>answers\<close>). \<open>bind\<close> does not look at the reply of its \<open>EXPIRE\<close>, so the properties of
    identifiers ask that a call ends before the record that it found expires; \<open>slow_bind_loses_key\<close> shows
    what happens otherwise. The answer of an identifier is written without regard to an earlier one, so
    the replay of answers asks that no other request in flight records a different one.
  \<^item> \<open>ResponseStore\<close> (\<open>response_store.py\<close>), \<open>ServerScheme\<close> (\<open>adapters/x402.py\<close>), \<open>Middleware\<close>
    (\<open>middleware.py\<close>, \<open>types.py\<close>, \<open>client.py\<close>), \<open>MiddlewareMcp\<close> (\<open>mcp.py\<close>): the server.
    \<open>MiddlewareCorrect\<close> and \<open>MiddlewareMcpCorrect\<close>: a paid handler or tool runs once per payment
    identifier, a retry gets the stored result. \<open>ServerCorrect\<close>: prices denote what was asked.
  \<^item> \<open>Signer\<close> (\<open>signer.py\<close>), \<open>Spend\<close> (\<open>spend.py\<close>), \<open>ClientTransport\<close> (\<open>httpx.py\<close>): the client.
    \<open>ClientCorrect\<close>: what the signer signs passes the structural check of the facilitator.
  \<^item> \<open>Journal\<close> (\<open>journal.py\<close>, \<open>receipts.py\<close>), \<open>Payer\<close> (\<open>payer.py\<close>, \<open>testnet_rpc.py\<close>), \<open>PayerMcp\<close> and
    \<open>PayerProxy\<close> (\<open>mcp.py\<close>, \<open>proxy.py\<close>): the payer. \<open>JournalCorrect\<close>: under any interleaving of
    operations of several processes a signed payload is neither lost nor replaced before its outcome is
    known, and a claim has one owner. \<open>PayerCorrect\<close> and \<open>PayerMcpCorrect\<close>: no payload is sent before it
    is in the journal, where it still is at the sending unless another process concluded the payment, an
    unknown outcome stays recoverable, success is backed by a settlement. Tool calls are followed through
    \<open>call_tool\<close>; the SDK's own \<open>call_tool\<close>, which it overrides, is an argument with the course the SDK documents
    (\<open>sdk_calls\<close>) as a hypothesis.
  \<^item> \<open>Testnet\<close> (\<open>live_testnet_support.py\<close>), \<open>FundQuote\<close>, \<open>FundRlusd\<close>, \<open>FundSubmit\<close> (\<open>rlusd_fund.py\<close>): the
    development tools' queries, and the funding tool. \<open>FundCorrect\<close>: in its runs, whatever the ledger,
    the faucet and the file system do, every transaction is in the journal file when it is sent and
    within its caps, and none is forgotten before the ledger has decided it.
  \<^item> \<open>TestnetSubmit\<close>, \<open>DemoWallets\<close>, \<open>ClaimState\<close>, \<open>ClaimRecover\<close>, \<open>ClaimTopup\<close> (the rest of
    \<open>live_testnet_support.py\<close>): submitted transactions and the waits for their effect, the cache of the
    demo wallets, the claim state files, the recovery of claim wallets, the top-ups. The functions that
    the file has twice, for RLUSD and for USDC, are one definition over \<open>claim_asset\<close> with the
    differences written out, and so are their records. \<open>ClaimCorrect\<close>: no seed is lost and claims respect
    the cooldown. \<open>ClaimDelete\<close>: only empty claim wallets are deleted.
  \<^item> The command lines, each after its argument parser: \<open>FundMain\<close> (\<open>main\<close> of \<open>rlusd_fund.py\<close>), \<open>TopupMain\<close>
    (\<open>rlusd_topup.py\<close>, \<open>usdc_topup.py\<close>), \<open>DemoEnv\<close> (\<open>quickstart.py\<close>, \<open>demo_env.py\<close>), \<open>DemoRebalance\<close>
    (\<open>demo_rebalance.py\<close>), \<open>PayerCli\<close> (\<open>cli.py\<close> of the payer, \<open>demo_trace.py\<close>). The result of an entry
    point is the exit code, where it has more than one, and the lines that it prints. \<open>FundMainCorrect\<close>:
    what the exit codes of the funding tool stand for. \<open>Examples\<close> (\<open>src/examples\<close>): what the sample programs
    read from the environment and hand to the packages. \<open>DemoCorrect\<close>: the environment files that one tool
    writes are what the next one reads. \<open>RebalanceCorrect\<close>: the merchant keeps its floor of XRP.

  \<^bold>\<open>How parts meet.\<close> The payer's \<open>pay\<close> calls the signer and the journal; the middleware calls the
  facilitator's application through the SDK; the application calls \<open>verify\<close> and \<open>settle\<close>, these the store
  and the ledger. The joints are properties of their own: \<open>signed_payment_passes_structure\<close> (client and
  facilitator), \<open>default_price_exact\<close> (server and client), \<open>derived_env_reads_back\<close> (the tools of the demo),
  the two locales (stores and their users).

  \<^bold>\<open>Bounds.\<close> Loops of the code that end by a clock are recursions over a counter with one step more
  than the clock allows: \<open>wait_for_validation\<close> polls \<open>VALIDATION_TIMEOUT\<close> times, \<open>claim_or_wait\<close> 3001
  times (a lease of 30 seconds, a poll each 0.01), the start of the proxy 100 times, the wait for the
  faucet 46 times (45 seconds, one poll each, time never running back), the waits of
  \<open>live_testnet_support.py\<close> and \<open>demo_rebalance.py\<close> 31 times (30 seconds). Running out is \<open>Diverge\<close>, and the
  theorems \<open>settle_bounded\<close> and \<open>claim_or_wait_ends\<close> show that it does not happen. The loops over pages
  of the ledger take the number of pages as fuel; \<open>verify_terminates\<close> shows that a number exists when
  the markers come from a finite set.

  \<^bold>\<open>Not modelled.\<close> Argument parsers, the start of servers (\<open>cli.py\<close> and \<open>main.py\<close> of the facilitator,
  \<open>__main__.py\<close>), \<open>redis_utils.py\<close> (a connection factory), re-exports, logging and metrics, the JSON text
  of the journal's files (the files hold values), file permissions and locks (an operation under the
  journal's lock, and a run of the funding tool, is atomic), the counters that the rate limiter keeps in
  Redis (whether a limit is hit is an argument), and the packaging.
\<close>

end
